(* ===== verification/Prelude.thy ===== *)
theory Prelude
  imports Main "HOL-Library.Word"
begin

text \<open>
  Shared vocabulary of the development: the machine integers and byte strings of
  the source, Rust's \<^verbatim>\<open>Result\<close> with the two ways a call can fail to return
  (a panic, a loop that never ends), the \<^verbatim>\<open>?\<close> operator in a pure and in a
  state-passing form, and the big-endian encodings \<^verbatim>\<open>to_be_bytes\<close> and
  \<^verbatim>\<open>from_be_bytes\<close>. The lemmas here are the generic facts every component
  proof uses.
\<close>

section \<open>Machine integers and bytes\<close>

type_synonym u8 = "8 word"
type_synonym u16 = "16 word"
type_synonym u32 = "32 word"
type_synonym u64 = "64 word"
type_synonym bytes = "8 word list"

abbreviation u16_MAX :: u16 where "u16_MAX \<equiv> 65535"

named_theorems result_simps \<open>inversion and evaluation of the result monad\<close>
named_theorems wire_simps \<open>evaluation of readers and encoders\<close>

section \<open>Results\<close>

text \<open>
  \<^verbatim>\<open>Ok\<close> and \<^verbatim>\<open>Err\<close> are the source's \<^verbatim>\<open>core::result::Result\<close>. \<open>Panic\<close> is an
  unwinding panic (an \<^verbatim>\<open>expect\<close>, a slice index out of range, an arithmetic overflow in
  a build with overflow checks) and \<open>Diverge\<close> is a loop that does not end.
\<close>

datatype ('a, 'e) result = Ok 'a | Err 'e | Panic | Diverge

definition is_ok :: "('a, 'e) result \<Rightarrow> bool" where
  "is_ok r = (case r of Ok _ \<Rightarrow> True | _ \<Rightarrow> False)"

fun and_then :: "('a, 'e) result \<Rightarrow> ('a \<Rightarrow> ('b, 'e) result) \<Rightarrow> ('b, 'e) result" where
  "and_then (Ok x) f = f x"
| "and_then (Err e) f = Err e"
| "and_then Panic f = Panic"
| "and_then Diverge f = Diverge"

fun map_err :: "('e \<Rightarrow> 'f) \<Rightarrow> ('a, 'e) result \<Rightarrow> ('a, 'f) result" where
  "map_err h (Ok x) = Ok x"
| "map_err h (Err e) = Err (h e)"
| "map_err h Panic = Panic"
| "map_err h Diverge = Diverge"

definition ok_or :: "'a option \<Rightarrow> 'e \<Rightarrow> ('a, 'e) result" where
  "ok_or x e = (case x of Some v \<Rightarrow> Ok v | None \<Rightarrow> Err e)"

definition guard :: "bool \<Rightarrow> 'e \<Rightarrow> (unit, 'e) result" where
  "guard b e = (if b then Ok () else Err e)"

text \<open>
  The \<^verbatim>\<open>?\<close> operator inside a method that takes \<^verbatim>\<open>&mut self\<close>: the early return
  leaves the state as it is at that point.
\<close>

definition try_in ::
  "('a, 'e) result \<Rightarrow> 's \<Rightarrow> ('a \<Rightarrow> ('b, 'e) result \<times> 's) \<Rightarrow> ('b, 'e) result \<times> 's" where
  "try_in r s k = (case r of Ok x \<Rightarrow> k x | Err e \<Rightarrow> (Err e, s) | Panic \<Rightarrow> (Panic, s)
                   | Diverge \<Rightarrow> (Diverge, s))"

definition try_st ::
  "('a, 'e) result \<times> 's \<Rightarrow> ('a \<Rightarrow> 's \<Rightarrow> ('b, 'e) result \<times> 's) \<Rightarrow> ('b, 'e) result \<times> 's" where
  "try_st m k = try_in (fst m) (snd m) (\<lambda>x. k x (snd m))"

lemma is_ok_simps [simp]:
  "is_ok (Ok x)" "\<not> is_ok (Err e)" "\<not> is_ok Panic" "\<not> is_ok Diverge"
  by (simp_all add: is_ok_def)

lemma is_ok_iff: "is_ok r \<longleftrightarrow> (\<exists>x. r = Ok x)"
  by (cases r) auto

lemma and_then_Ok [simp]:
  "and_then m f = Ok y \<longleftrightarrow> (\<exists>x. m = Ok x \<and> f x = Ok y)"
  by (cases m) auto

lemma and_then_Err [result_simps]:
  "and_then m f = Err e \<longleftrightarrow> m = Err e \<or> (\<exists>x. m = Ok x \<and> f x = Err e)"
  by (cases m) auto

lemma and_then_Panic [result_simps]:
  "and_then m f = Panic \<longleftrightarrow> m = Panic \<or> (\<exists>x. m = Ok x \<and> f x = Panic)"
  by (cases m) auto

lemma and_then_Diverge [result_simps]:
  "and_then m f = Diverge \<longleftrightarrow> m = Diverge \<or> (\<exists>x. m = Ok x \<and> f x = Diverge)"
  by (cases m) auto

lemma and_then_assoc: "and_then (and_then m f) g = and_then m (\<lambda>x. and_then (f x) g)"
  by (cases m) auto

lemma map_err_Ok [simp]: "map_err h r = Ok x \<longleftrightarrow> r = Ok x"
  by (cases r) auto

lemma map_err_Err [result_simps]: "map_err h r = Err f \<longleftrightarrow> (\<exists>e. r = Err e \<and> f = h e)"
  by (cases r) auto

lemma map_err_abort [simp]:
  "map_err h r = Panic \<longleftrightarrow> r = Panic" "map_err h r = Diverge \<longleftrightarrow> r = Diverge"
  by (cases r; simp)+

lemma ok_or_simps [simp]: "ok_or (Some v) e = Ok v" "ok_or None e = Err e"
  by (simp_all add: ok_or_def)

lemma ok_or_eq [simp]:
  "ok_or x e = Ok v \<longleftrightarrow> x = Some v"
  "ok_or x e = Err f \<longleftrightarrow> x = None \<and> f = e"
  "ok_or x e \<noteq> Panic" "ok_or x e \<noteq> Diverge"
  by (auto simp: ok_or_def split: option.splits)

lemma guard_eq [simp]:
  "guard b e = Ok u \<longleftrightarrow> b"
  "guard b e = Err f \<longleftrightarrow> \<not> b \<and> f = e"
  "guard b e \<noteq> Panic" "guard b e \<noteq> Diverge"
  by (auto simp: guard_def)

lemma guard_simps [simp]: "guard True e = Ok ()" "guard False e = Err e"
  by (simp_all add: guard_def)

lemma try_in_simps [simp]:
  "try_in (Ok x) s k = k x" "try_in (Err e) s k = (Err e, s)"
  "try_in Panic s k = (Panic, s)" "try_in Diverge s k = (Diverge, s)"
  by (simp_all add: try_in_def)

lemma try_st_simps [simp]:
  "try_st (Ok x, s) k = k x s" "try_st (Err e, s) k = (Err e, s)"
  "try_st (Panic, s) k = (Panic, s)" "try_st (Diverge, s) k = (Diverge, s)"
  by (simp_all add: try_st_def)

lemma try_st_assoc: "try_st (try_st m f) g = try_st m (\<lambda>x s. try_st (f x s) g)"
  by (cases "fst m") (simp_all add: try_st_def)

text \<open>
  A property of a method's outcome and final state: it holds of the continuation
  where the sub-call succeeds and of every early return.
\<close>

lemma try_in_rule:
  assumes "\<And>x. r = Ok x \<Longrightarrow> P (k x)"
    and "\<And>q. \<not> is_ok q \<Longrightarrow> P (q, s)"
  shows "P (try_in r s k)"
  using assms by (cases r) auto

lemma try_st_rule:
  assumes "\<And>x s'. m = (Ok x, s') \<Longrightarrow> P (k x s')"
    and "\<And>q q' s'. m = (q, s') \<Longrightarrow> \<not> is_ok q \<Longrightarrow> \<not> is_ok q' \<Longrightarrow> P (q', s')"
  shows "P (try_st m k)"
proof (cases m)
  case (Pair r s')
  with assms show ?thesis by (cases r) auto
qed

lemma try_in_Ok [simp]:
  "try_in r s k = (Ok y, s') \<longleftrightarrow> (\<exists>x. r = Ok x \<and> k x = (Ok y, s'))"
  by (cases r) auto

lemma try_st_Ok [simp]:
  "try_st m k = (Ok y, s') \<longleftrightarrow> (\<exists>x s1. m = (Ok x, s1) \<and> k x s1 = (Ok y, s'))"
  by (cases m; cases "fst m") auto

text \<open>
  \<open>commits s P m\<close>: started in \<open>s\<close>, the method either fails and leaves the state as it
  was, or succeeds in a state that satisfies \<open>P\<close>.
\<close>

definition commits :: "'s \<Rightarrow> ('s \<Rightarrow> bool) \<Rightarrow> ('a, 'e) result \<times> 's \<Rightarrow> bool" where
  "commits s P m = (if is_ok (fst m) then P (snd m) else snd m = s)"

lemma commits_Ok [simp]: "commits s P (Ok y, s') \<longleftrightarrow> P s'"
  by (simp add: commits_def)

lemma commits_fails [simp]:
  "commits s P (Err e, s') \<longleftrightarrow> s' = s" "commits s P (Panic, s') \<longleftrightarrow> s' = s"
  "commits s P (Diverge, s') \<longleftrightarrow> s' = s"
  by (simp_all add: commits_def)

lemma commits_same: "P s \<Longrightarrow> commits s P (r, s)"
  by (simp add: commits_def)

lemma commits_try_in:
  "(\<And>x. r = Ok x \<Longrightarrow> commits s P (k x)) \<Longrightarrow> commits s P (try_in r s k)"
  by (cases r) simp_all

text \<open>A mutating call whose continuation only computes the response.\<close>

lemma commits_try_st:
  assumes "commits s P m" and "\<And>x s'. m = (Ok x, s') \<Longrightarrow> \<exists>y. k x s' = (Ok y, s')"
  shows "commits s P (try_st m k)"
proof (cases m)
  case (Pair r s')
  with assms show ?thesis by (cases r) fastforce+
qed

lemma commits_mono: "commits s P m \<Longrightarrow> (\<And>s'. P s' \<Longrightarrow> Q s') \<Longrightarrow> commits s Q m"
  by (simp add: commits_def split: if_splits)

lemma commits_D:
  "commits s P (r, s') \<Longrightarrow> is_ok r \<Longrightarrow> P s'"
  "commits s P (r, s') \<Longrightarrow> \<not> is_ok r \<Longrightarrow> s' = s"
  by (simp_all add: commits_def)

section \<open>Big-endian encodings\<close>

lemma unat_lt: "unat (w :: 'a::len word) < 2 ^ LENGTH('a)"
  by (rule unsigned_less)

lemma word_eq_0_bits: "(w :: 'a::len word) = 0 \<longleftrightarrow> (\<forall>n. \<not> bit w n)"
proof
  assume "\<forall>n. \<not> bit w n"
  then show "w = 0" by (intro bit_word_eqI) simp
qed simp

lemma unat_u8_lt: "unat (w :: u8) < 256"
  using unat_lt [of w] by simp

primrec be_of_nat :: "nat \<Rightarrow> nat \<Rightarrow> bytes" where
  "be_of_nat 0 v = []"
| "be_of_nat (Suc n) v = be_of_nat n (v div 256) @ [of_nat v]"

definition be_nat :: "bytes \<Rightarrow> nat" where
  "be_nat bs = foldl (\<lambda>n b. n * 256 + unat b) 0 bs"

definition be16 :: "u16 \<Rightarrow> bytes" where "be16 w = be_of_nat 2 (unat w)"
definition be32 :: "u32 \<Rightarrow> bytes" where "be32 w = be_of_nat 4 (unat w)"
definition be64 :: "u64 \<Rightarrow> bytes" where "be64 w = be_of_nat 8 (unat w)"

definition from_be :: "bytes \<Rightarrow> 'a::len word" where
  "from_be bs = of_nat (be_nat bs)"

lemma length_be_of_nat [simp]: "length (be_of_nat n v) = n"
  by (induction n arbitrary: v) auto

lemma length_be [simp]: "length (be16 a) = 2" "length (be32 b) = 4" "length (be64 c) = 8"
  by (simp_all add: be16_def be32_def be64_def)

lemma be_nat_simps [simp]:
  "be_nat [] = 0" "be_nat (bs @ [b]) = be_nat bs * 256 + unat b"
  by (simp_all add: be_nat_def)

lemma be_nat_of_nat: "be_nat (be_of_nat n v) = v mod 256 ^ n"
proof (induction n arbitrary: v)
  case (Suc n)
  have "v mod 256 ^ Suc n = (v div 256 mod 256 ^ n) * 256 + v mod 256"
    by (simp add: mod_mult2_eq mult.commute)
  with Suc show ?case by (simp add: unat_of_nat)
qed simp

lemma be_nat_bound: "be_nat bs < 256 ^ length bs"
proof (induction bs rule: rev_induct)
  case (snoc b bs)
  have "unat b < 256" by (rule unat_u8_lt)
  with snoc show ?case by simp
qed simp

lemma be_of_nat_nat: "be_of_nat (length bs) (be_nat bs) = bs"
proof (induction bs rule: rev_induct)
  case (snoc b bs)
  have "unat b < 256" by (rule unat_u8_lt)
  moreover have "(256 :: u8) = 0" by simp
  ultimately show ?case using snoc by (simp del: word_eq_numeral_iff_iszero)
qed simp

lemma from_be16 [simp]: "from_be (be16 w) = w"
  using unat_lt [of w] by (simp add: from_be_def be16_def be_nat_of_nat)

lemma from_be32 [simp]: "from_be (be32 w) = w"
  using unat_lt [of w] by (simp add: from_be_def be32_def be_nat_of_nat)

lemma from_be64 [simp]: "from_be (be64 w) = w"
  using unat_lt [of w] by (simp add: from_be_def be64_def be_nat_of_nat)

lemma unat_from_be:
  "(256::nat) ^ length bs \<le> 2 ^ LENGTH('a::len) \<Longrightarrow> unat (from_be bs :: 'a word) = be_nat bs"
  using be_nat_bound [of bs] by (simp add: from_be_def unat_of_nat)

lemma be16_from_be: "length bs = 2 \<Longrightarrow> be16 (from_be bs) = bs"
  using be_of_nat_nat [of bs] by (simp add: be16_def unat_from_be)

lemma be64_from_be: "length bs = 8 \<Longrightarrow> be64 (from_be bs) = bs"
  using be_of_nat_nat [of bs] by (simp add: be64_def unat_from_be)

lemma be16_inj [simp]: "be16 a = be16 b \<longleftrightarrow> a = b"
  by (metis from_be16)

section \<open>Lists\<close>

lemma length_2_conv: "length xs = 2 \<longleftrightarrow> (\<exists>a b. xs = [a, b])"
  by (cases xs; cases "tl xs"; cases "tl (tl xs)") auto

lemma list_all_filter: "list_all P xs \<Longrightarrow> list_all P (filter Q xs)"
  by (induction xs) auto

lemma take_append_eq: "length xs = n \<Longrightarrow> take n (xs @ ys) = xs \<and> drop n (xs @ ys) = ys"
  by auto

end
