(* ===== verification/Wire.thy ===== *)
theory Wire
  imports Prelude
begin

text \<open>
  The byte-level protocol layer: device errors (\<^verbatim>\<open>error.rs\<close>), the outer frame
  (\<^verbatim>\<open>frame.rs\<close>) and the bounds-checked positional reader with its \<^verbatim>\<open>Decode\<close>
  boundary (\<^verbatim>\<open>wire.rs\<close>). A reader is the slice that remains; a decoder returns its
  value with the rest of the input. The locales state the contract of a request codec:
  what is decoded is what was encoded, and nothing else decodes.
\<close>

section \<open>Device errors (error.rs)\<close>

datatype DeviceError =
    InvalidCommand | InvalidData | InvalidSession | AuthenticationFailed | SessionsFull
  | SessionFailed | StorageFailed | WrongLength | InsufficientPermissions | LogFull
  | ObjectNotFound | InvalidId | SshCaConstraintViolation | InvalidOtp | DemoMode | ObjectExists

type_synonym 'a res = "('a, DeviceError) result"

primrec error_code :: "DeviceError \<Rightarrow> u8" where
  "error_code InvalidCommand = 0x01"
| "error_code InvalidData = 0x02"
| "error_code InvalidSession = 0x03"
| "error_code AuthenticationFailed = 0x04"
| "error_code SessionsFull = 0x05"
| "error_code SessionFailed = 0x06"
| "error_code StorageFailed = 0x07"
| "error_code WrongLength = 0x08"
| "error_code InsufficientPermissions = 0x09"
| "error_code LogFull = 0x0a"
| "error_code ObjectNotFound = 0x0b"
| "error_code InvalidId = 0x0c"
| "error_code SshCaConstraintViolation = 0x0e"
| "error_code InvalidOtp = 0x0f"
| "error_code DemoMode = 0x10"
| "error_code ObjectExists = 0x11"

definition error_from_byte :: "u8 \<Rightarrow> DeviceError option" where
  "error_from_byte value = map_of
    [(0x01, InvalidCommand), (0x02, InvalidData), (0x03, InvalidSession),
     (0x04, AuthenticationFailed), (0x05, SessionsFull), (0x06, SessionFailed),
     (0x07, StorageFailed), (0x08, WrongLength), (0x09, InsufficientPermissions),
     (0x0a, LogFull), (0x0b, ObjectNotFound), (0x0c, InvalidId),
     (0x0e, SshCaConstraintViolation), (0x0f, InvalidOtp), (0x10, DemoMode),
     (0x11, ObjectExists)] value"

lemma error_from_code [simp]: "error_from_byte (error_code e) = Some e"
  by (cases e) (simp_all add: error_from_byte_def)

lemma error_code_nonzero [simp]: "error_code e \<noteq> 0"
  by (cases e) simp_all

section \<open>Frames (frame.rs)\<close>

definition HEADER_LENGTH :: nat where "HEADER_LENGTH = 3"
definition MAX_FRAME_LENGTH :: nat where "MAX_FRAME_LENGTH = 8192"
definition MAX_DATA_LENGTH :: nat where "MAX_DATA_LENGTH = MAX_FRAME_LENGTH - HEADER_LENGTH"
definition RESPONSE_BIT :: u8 where "RESPONSE_BIT = 0x80"
definition ERROR_COMMAND :: u8 where "ERROR_COMMAND = 0x7f"

lemmas frame_consts = HEADER_LENGTH_def MAX_FRAME_LENGTH_def MAX_DATA_LENGTH_def

record Frame =
  fr_command :: u8
  fr_data :: bytes

definition frame_new :: "u8 \<Rightarrow> bytes \<Rightarrow> Frame res" where
  "frame_new command data =
     (if length data > MAX_DATA_LENGTH then Err WrongLength
      else Ok \<lparr>fr_command = command, fr_data = data\<rparr>)"

definition frame_parse :: "bytes \<Rightarrow> Frame res" where
  "frame_parse encoded =
     (if length encoded < HEADER_LENGTH then Err WrongLength
      else let len = unat (from_be [encoded ! 1, encoded ! 2] :: u16) in
        if len > MAX_DATA_LENGTH \<or> length encoded \<noteq> HEADER_LENGTH + len then Err WrongLength
        else frame_new (encoded ! 0) (drop HEADER_LENGTH encoded))"

definition frame_encode :: "Frame \<Rightarrow> bytes" where
  "frame_encode f = [fr_command f] @ be16 (of_nat (length (fr_data f))) @ fr_data f"

definition frame_response :: "u8 \<Rightarrow> bytes \<Rightarrow> Frame" where
  "frame_response request_command data =
     \<lparr>fr_command = or request_command RESPONSE_BIT, fr_data = data\<rparr>"

definition frame_error :: "DeviceError \<Rightarrow> Frame" where
  "frame_error e = \<lparr>fr_command = ERROR_COMMAND, fr_data = [error_code e]\<rparr>"

definition frame_wf :: "Frame \<Rightarrow> bool" where
  "frame_wf f = (length (fr_data f) \<le> MAX_DATA_LENGTH)"

lemma frame_error_wf [simp]: "frame_wf (frame_error e)"
  by (simp add: frame_wf_def frame_error_def frame_consts)

lemma length_frame_encode: "length (frame_encode f) = HEADER_LENGTH + length (fr_data f)"
  by (simp add: frame_encode_def frame_consts)

lemma frame_parse_encode: "frame_wf f \<Longrightarrow> frame_parse (frame_encode f) = Ok f"
proof -
  assume wf: "frame_wf f"
  let ?l = "of_nat (length (fr_data f)) :: u16"
  obtain a b where ab: "be16 ?l = [a, b]"
    using length_be(1) [of ?l] unfolding length_2_conv by blast
  then have "from_be [a, b] = ?l" by (metis from_be16)
  moreover have "unat ?l = length (fr_data f)"
    using wf by (simp add: frame_wf_def frame_consts unat_of_nat)
  ultimately show ?thesis
    using wf ab by (simp add: frame_parse_def frame_encode_def frame_new_def frame_wf_def frame_consts)
qed

lemma frame_parse_wf: "frame_parse bs = Ok f \<Longrightarrow> frame_wf f"
  by (auto simp: frame_parse_def frame_new_def frame_wf_def Let_def split: if_splits)

lemma frame_parse_inverts: "frame_parse bs = Ok f \<Longrightarrow> frame_encode f = bs"
proof -
  assume p: "frame_parse bs = Ok f"
  then obtain a b c rest where bs: "bs = a # b # c # rest"
    by (cases bs; cases "tl bs"; cases "tl (tl bs)") (auto simp: frame_parse_def frame_consts)
  from p bs have len: "unat (from_be [b, c] :: u16) = length rest"
    and f: "f = \<lparr>fr_command = a, fr_data = rest\<rparr>"
    by (auto simp: frame_parse_def frame_new_def frame_consts Let_def split: if_splits)
  have "of_nat (length rest) = (from_be [b, c] :: u16)"
    using len by (metis of_nat_unat ucast_id)
  then show ?thesis using bs f be16_from_be [of "[b, c]"] by (simp add: frame_encode_def)
qed

lemma frame_parse_total:
  "frame_parse bs = Err WrongLength \<or> (\<exists>f. frame_parse bs = Ok f)"
  by (auto simp: frame_parse_def frame_new_def Let_def)

section \<open>The reader (wire.rs)\<close>

type_synonym reader = bytes
type_synonym 'a decoder = "reader \<Rightarrow> ('a \<times> reader) res"

definition reader_new :: "bytes \<Rightarrow> reader" where
  "reader_new encoded = encoded"

definition remaining_len :: "reader \<Rightarrow> nat" where
  "remaining_len r = length r"

definition read_slice :: "nat \<Rightarrow> bytes decoder" where
  "read_slice n r = (if length r < n then Err WrongLength else Ok (take n r, drop n r))"

text \<open>\<^verbatim>\<open>read_array::<N>\<close>: the conversion of an \<^verbatim>\<open>N\<close>-byte slice to an array always succeeds.\<close>

definition read_array :: "nat \<Rightarrow> bytes decoder" where
  "read_array n r = read_slice n r"

definition read_u8 :: "u8 decoder" where
  "read_u8 r = and_then (read_array 1 r) (\<lambda>(a, r). Ok (a ! 0, r))"

definition read_u16 :: "u16 decoder" where
  "read_u16 r = and_then (read_array 2 r) (\<lambda>(a, r). Ok (from_be a, r))"

definition read_u64 :: "u64 decoder" where
  "read_u64 r = and_then (read_array 8 r) (\<lambda>(a, r). Ok (from_be a, r))"

definition read_u8_sized_slice :: "bytes decoder" where
  "read_u8_sized_slice r = and_then (read_u8 r) (\<lambda>(n, r). read_slice (unat n) r)"

definition read_u16_sized_slice :: "bytes decoder" where
  "read_u16_sized_slice r = and_then (read_u16 r) (\<lambda>(n, r). read_slice (unat n) r)"

definition read_remainder :: "reader \<Rightarrow> bytes \<times> reader" where
  "read_remainder r = (r, [])"

definition reader_finish :: "reader \<Rightarrow> unit res" where
  "reader_finish r = (if r = [] then Ok () else Err WrongLength)"

definition decode_request :: "'a decoder \<Rightarrow> bytes \<Rightarrow> 'a res" where
  "decode_request dec encoded =
     and_then (dec (reader_new encoded)) (\<lambda>(value, r).
     and_then (reader_finish r) (\<lambda>_. Ok value))"

lemma read_slice_Ok [simp]:
  "read_slice n r = Ok (v, r') \<longleftrightarrow> r = v @ r' \<and> length v = n"
  by (auto simp: read_slice_def split: if_splits)

lemma read_array_Ok [simp]:
  "read_array n r = Ok (v, r') \<longleftrightarrow> r = v @ r' \<and> length v = n"
  by (simp add: read_array_def)

lemma read_u8_Ok [simp]: "read_u8 r = Ok (v, r') \<longleftrightarrow> r = v # r'"
  by (auto simp: read_u8_def length_Suc_conv)

lemma read_u16_Ok [simp]: "read_u16 r = Ok (v, r') \<longleftrightarrow> r = be16 v @ r'"
  by (auto simp: read_u16_def be16_from_be)

lemma read_u64_Ok [simp]: "read_u64 r = Ok (v, r') \<longleftrightarrow> r = be64 v @ r'"
  by (auto simp: read_u64_def be64_from_be)

lemma read_u8_sized_slice_Ok:
  "read_u8_sized_slice r = Ok (v, r') \<longleftrightarrow> length v < 256 \<and> r = of_nat (length v) # v @ r'"
proof
  assume "read_u8_sized_slice r = Ok (v, r')"
  then obtain n where "r = n # v @ r'" "length v = unat n"
    by (auto simp: read_u8_sized_slice_def)
  then show "length v < 256 \<and> r = of_nat (length v) # v @ r'"
    using unat_u8_lt [of n] by simp
next
  assume "length v < 256 \<and> r = of_nat (length v) # v @ r'"
  then show "read_u8_sized_slice r = Ok (v, r')"
    by (auto simp: read_u8_sized_slice_def unat_of_nat)
qed

lemma read_u16_sized_slice_Ok:
  "read_u16_sized_slice r = Ok (v, r') \<longleftrightarrow>
     length v < 65536 \<and> r = be16 (of_nat (length v)) @ v @ r'"
proof
  assume "read_u16_sized_slice r = Ok (v, r')"
  then obtain n :: u16 where "r = be16 n @ v @ r'" "length v = unat n"
    by (auto simp: read_u16_sized_slice_def)
  then show "length v < 65536 \<and> r = be16 (of_nat (length v)) @ v @ r'"
    using unat_lt [of n] by simp
next
  assume "length v < 65536 \<and> r = be16 (of_nat (length v)) @ v @ r'"
  then show "read_u16_sized_slice r = Ok (v, r')"
    by (auto simp: read_u16_sized_slice_def unat_of_nat)
qed

lemma reader_finish_Ok [simp]: "reader_finish r = Ok u \<longleftrightarrow> r = []"
  by (auto simp: reader_finish_def)

lemma decode_request_Ok [simp]: "decode_request dec bs = Ok v \<longleftrightarrow> dec bs = Ok (v, [])"
  by (auto simp: decode_request_def reader_new_def)

lemma decode_request_trailing:
  "dec bs = Ok (v, r) \<Longrightarrow> r \<noteq> [] \<Longrightarrow> decode_request dec bs = Err WrongLength"
  by (auto simp: decode_request_def reader_new_def reader_finish_def)

text \<open>Readers only ever return a value or a device error.\<close>

definition total_decoder :: "'a decoder \<Rightarrow> bool" where
  "total_decoder dec = (\<forall>r. dec r \<noteq> Panic \<and> dec r \<noteq> Diverge)"

lemma read_slice_total [simp]: "read_slice n r \<noteq> Panic" "read_slice n r \<noteq> Diverge"
  by (auto simp: read_slice_def)

lemma read_fixed_total [simp]:
  "read_array n r \<noteq> Panic" "read_array n r \<noteq> Diverge"
  "read_u8 r \<noteq> Panic" "read_u8 r \<noteq> Diverge"
  "read_u16 r \<noteq> Panic" "read_u16 r \<noteq> Diverge"
  "read_u64 r \<noteq> Panic" "read_u64 r \<noteq> Diverge"
  by (auto simp: read_array_def read_u8_def read_u16_def read_u64_def result_simps)

lemma read_sized_total [simp]:
  "read_u8_sized_slice r \<noteq> Panic" "read_u8_sized_slice r \<noteq> Diverge"
  "read_u16_sized_slice r \<noteq> Panic" "read_u16_sized_slice r \<noteq> Diverge"
  by (auto simp: read_u8_sized_slice_def read_u16_sized_slice_def result_simps)

lemma decode_request_total:
  "total_decoder dec \<Longrightarrow> decode_request dec bs \<noteq> Panic \<and> decode_request dec bs \<noteq> Diverge"
  by (auto simp: decode_request_def total_decoder_def result_simps reader_finish_def split: if_splits)

section \<open>Codec contracts\<close>

text \<open>
  A message codec decodes a complete payload: the decoder inverts the encoder on the
  valid requests and accepts nothing else.
\<close>

locale message_codec =
  fixes dec :: "'a decoder" and enc :: "'a \<Rightarrow> bytes" and valid :: "'a \<Rightarrow> bool"
  assumes decodes: "valid v \<Longrightarrow> decode_request dec (enc v) = Ok v"
    and only_encodings: "decode_request dec bs = Ok v \<Longrightarrow> valid v \<and> bs = enc v"
begin

lemma decode_iff: "decode_request dec bs = Ok v \<longleftrightarrow> valid v \<and> bs = enc v"
  using decodes only_encodings by blast

lemma encoding_unique: "decode_request dec bs = Ok v \<Longrightarrow> decode_request dec bs' = Ok v \<Longrightarrow> bs = bs'"
  using only_encodings by blast

lemma enc_inj: "valid v \<Longrightarrow> valid w \<Longrightarrow> enc v = enc w \<Longrightarrow> v = w"
  by (metis decodes result.inject(1))

end

text \<open>A prefix codec decodes the front of the input and hands back the rest.\<close>

locale prefix_codec =
  fixes dec :: "'a decoder" and enc :: "'a \<Rightarrow> bytes" and valid :: "'a \<Rightarrow> bool"
  assumes prefix_iff: "dec bs = Ok (v, rest) \<longleftrightarrow> valid v \<and> bs = enc v @ rest"
begin

lemma rejects_trailing: "valid v \<Longrightarrow> rest \<noteq> [] \<Longrightarrow> decode_request dec (enc v @ rest) = Err WrongLength"
  by (rule decode_request_trailing) (auto simp: prefix_iff)

end

sublocale prefix_codec \<subseteq> message_codec
  by unfold_locales (simp_all add: prefix_iff)

end
