(* ===== verification/Firmware.thy ===== *)
theory Firmware
  imports Wire
begin

text \<open>
  The compiled-in firmware profile (\<^verbatim>\<open>firmware.rs\<close>). Cargo features select the profile
  at build time, so the operations that depend on it take the profile as an argument.
\<close>

section \<open>Firmware profiles (firmware.rs)\<close>

datatype FirmwareProfile = YubiHsm2 | ProtectedDerivation | Full | TestPrefixedEcdh | TestSessionObjects

record Features =
  firmware_full :: bool
  firmware_protected_derivation :: bool
  test_firmware_prefixed_ecdh :: bool
  test_firmware_session_objects :: bool

definition firmware_compiled :: "Features \<Rightarrow> FirmwareProfile" where
  "firmware_compiled f =
     (if firmware_full f then Full
      else if firmware_protected_derivation f
           \<or> (test_firmware_prefixed_ecdh f \<and> test_firmware_session_objects f)
        then ProtectedDerivation
      else if test_firmware_prefixed_ecdh f then TestPrefixedEcdh
      else if test_firmware_session_objects f then TestSessionObjects
      else YubiHsm2)"

definition extended_curves :: "FirmwareProfile \<Rightarrow> bool" where
  "extended_curves p = (p = Full)"

definition post_quantum :: "FirmwareProfile \<Rightarrow> bool" where
  "post_quantum p = (p = Full)"

definition prefixed_ecdh :: "FirmwareProfile \<Rightarrow> bool" where
  "prefixed_ecdh p = (p \<in> {ProtectedDerivation, Full, TestPrefixedEcdh})"

definition session_objects_profile :: "FirmwareProfile \<Rightarrow> bool" where
  "session_objects_profile p = (p \<in> {ProtectedDerivation, Full, TestSessionObjects})"

definition direct_rsa_wrap :: "FirmwareProfile \<Rightarrow> bool" where
  "direct_rsa_wrap p = (p = Full)"

lemmas firmware_defs = extended_curves_def post_quantum_def prefixed_ecdh_def
  session_objects_profile_def direct_rsa_wrap_def

end
