(* ===== verification/Algorithms.thy ===== *)
theory Algorithms
  imports Firmware
begin

text \<open>Algorithm identifiers with their key and object lengths (\<^verbatim>\<open>algorithm.rs\<close>).\<close>

section \<open>Algorithms (algorithm.rs)\<close>

datatype (plugins only: code) Algorithm =
    Alg_RsaPkcs1Sha1 | Alg_RsaPkcs1Sha256 | Alg_RsaPkcs1Sha384 | Alg_RsaPkcs1Sha512 |
    Alg_RsaPssSha1 | Alg_RsaPssSha256 | Alg_RsaPssSha384 | Alg_RsaPssSha512 | Alg_Rsa2048 |
    Alg_Rsa3072 | Alg_Rsa4096 | Alg_EcP256 | Alg_EcP384 | Alg_EcP521 | Alg_EcK256 |
    Alg_EcBrainpoolP256 | Alg_EcBrainpoolP384 | Alg_EcBrainpoolP512 | Alg_HmacSha1 |
    Alg_HmacSha256 | Alg_HmacSha384 | Alg_HmacSha512 | Alg_EcdsaSha1 | Alg_Ecdh |
    Alg_RsaOaepSha1 | Alg_RsaOaepSha256 | Alg_RsaOaepSha384 | Alg_RsaOaepSha512 |
    Alg_Aes128CcmWrap | Alg_OpaqueData | Alg_OpaqueX509Certificate | Alg_Mgf1Sha1 |
    Alg_Mgf1Sha256 | Alg_Mgf1Sha384 | Alg_Mgf1Sha512 | Alg_TemplateSsh |
    Alg_Aes128YubicoOtp | Alg_Aes128YubicoAuthentication | Alg_Aes192YubicoOtp |
    Alg_Aes256YubicoOtp | Alg_Aes192CcmWrap | Alg_Aes256CcmWrap | Alg_EcdsaSha256 |
    Alg_EcdsaSha384 | Alg_EcdsaSha512 | Alg_Ed25519 | Alg_EcP224 | Alg_RsaPkcs1Decrypt |
    Alg_EcP256YubicoAuthentication | Alg_Aes128 | Alg_Aes192 | Alg_Aes256 | Alg_AesEcb |
    Alg_AesCbc | Alg_AesKwp | Alg_X25519 | Alg_X448 | Alg_Ed448 | Alg_MlDsa44 |
    Alg_MlDsa65 | Alg_MlDsa87 | Alg_MlKem512 | Alg_MlKem768 | Alg_MlKem1024 |
    Alg_HybridMlKem768P256 | Alg_HybridMlKem768X25519 | Alg_HybridMlKem1024P384

primrec algorithm_code :: "Algorithm \<Rightarrow> u8" where
  "algorithm_code Alg_RsaPkcs1Sha1 = 1"
| "algorithm_code Alg_RsaPkcs1Sha256 = 2"
| "algorithm_code Alg_RsaPkcs1Sha384 = 3"
| "algorithm_code Alg_RsaPkcs1Sha512 = 4"
| "algorithm_code Alg_RsaPssSha1 = 5"
| "algorithm_code Alg_RsaPssSha256 = 6"
| "algorithm_code Alg_RsaPssSha384 = 7"
| "algorithm_code Alg_RsaPssSha512 = 8"
| "algorithm_code Alg_Rsa2048 = 9"
| "algorithm_code Alg_Rsa3072 = 10"
| "algorithm_code Alg_Rsa4096 = 11"
| "algorithm_code Alg_EcP256 = 12"
| "algorithm_code Alg_EcP384 = 13"
| "algorithm_code Alg_EcP521 = 14"
| "algorithm_code Alg_EcK256 = 15"
| "algorithm_code Alg_EcBrainpoolP256 = 16"
| "algorithm_code Alg_EcBrainpoolP384 = 17"
| "algorithm_code Alg_EcBrainpoolP512 = 18"
| "algorithm_code Alg_HmacSha1 = 19"
| "algorithm_code Alg_HmacSha256 = 20"
| "algorithm_code Alg_HmacSha384 = 21"
| "algorithm_code Alg_HmacSha512 = 22"
| "algorithm_code Alg_EcdsaSha1 = 23"
| "algorithm_code Alg_Ecdh = 24"
| "algorithm_code Alg_RsaOaepSha1 = 25"
| "algorithm_code Alg_RsaOaepSha256 = 26"
| "algorithm_code Alg_RsaOaepSha384 = 27"
| "algorithm_code Alg_RsaOaepSha512 = 28"
| "algorithm_code Alg_Aes128CcmWrap = 29"
| "algorithm_code Alg_OpaqueData = 30"
| "algorithm_code Alg_OpaqueX509Certificate = 31"
| "algorithm_code Alg_Mgf1Sha1 = 32"
| "algorithm_code Alg_Mgf1Sha256 = 33"
| "algorithm_code Alg_Mgf1Sha384 = 34"
| "algorithm_code Alg_Mgf1Sha512 = 35"
| "algorithm_code Alg_TemplateSsh = 36"
| "algorithm_code Alg_Aes128YubicoOtp = 37"
| "algorithm_code Alg_Aes128YubicoAuthentication = 38"
| "algorithm_code Alg_Aes192YubicoOtp = 39"
| "algorithm_code Alg_Aes256YubicoOtp = 40"
| "algorithm_code Alg_Aes192CcmWrap = 41"
| "algorithm_code Alg_Aes256CcmWrap = 42"
| "algorithm_code Alg_EcdsaSha256 = 43"
| "algorithm_code Alg_EcdsaSha384 = 44"
| "algorithm_code Alg_EcdsaSha512 = 45"
| "algorithm_code Alg_Ed25519 = 46"
| "algorithm_code Alg_EcP224 = 47"
| "algorithm_code Alg_RsaPkcs1Decrypt = 48"
| "algorithm_code Alg_EcP256YubicoAuthentication = 49"
| "algorithm_code Alg_Aes128 = 50"
| "algorithm_code Alg_Aes192 = 51"
| "algorithm_code Alg_Aes256 = 52"
| "algorithm_code Alg_AesEcb = 53"
| "algorithm_code Alg_AesCbc = 54"
| "algorithm_code Alg_AesKwp = 55"
| "algorithm_code Alg_X25519 = 56"
| "algorithm_code Alg_X448 = 57"
| "algorithm_code Alg_Ed448 = 58"
| "algorithm_code Alg_MlDsa44 = 59"
| "algorithm_code Alg_MlDsa65 = 60"
| "algorithm_code Alg_MlDsa87 = 61"
| "algorithm_code Alg_MlKem512 = 62"
| "algorithm_code Alg_MlKem768 = 63"
| "algorithm_code Alg_MlKem1024 = 64"
| "algorithm_code Alg_HybridMlKem768P256 = 65"
| "algorithm_code Alg_HybridMlKem768X25519 = 66"
| "algorithm_code Alg_HybridMlKem1024P384 = 67"

definition algorithm_OFFICIAL :: "Algorithm list" where
  "algorithm_OFFICIAL =
     [Alg_RsaPkcs1Sha1, Alg_RsaPkcs1Sha256, Alg_RsaPkcs1Sha384, Alg_RsaPkcs1Sha512,
     Alg_RsaPssSha1, Alg_RsaPssSha256, Alg_RsaPssSha384, Alg_RsaPssSha512, Alg_Rsa2048,
     Alg_Rsa3072, Alg_Rsa4096, Alg_EcP256, Alg_EcP384, Alg_EcP521, Alg_EcK256,
     Alg_EcBrainpoolP256, Alg_EcBrainpoolP384, Alg_EcBrainpoolP512, Alg_HmacSha1,
     Alg_HmacSha256, Alg_HmacSha384, Alg_HmacSha512, Alg_EcdsaSha1, Alg_Ecdh,
     Alg_RsaOaepSha1, Alg_RsaOaepSha256, Alg_RsaOaepSha384, Alg_RsaOaepSha512,
     Alg_Aes128CcmWrap, Alg_OpaqueData, Alg_OpaqueX509Certificate, Alg_Mgf1Sha1,
     Alg_Mgf1Sha256, Alg_Mgf1Sha384, Alg_Mgf1Sha512, Alg_TemplateSsh, Alg_Aes128YubicoOtp,
     Alg_Aes128YubicoAuthentication, Alg_Aes192YubicoOtp, Alg_Aes256YubicoOtp,
     Alg_Aes192CcmWrap, Alg_Aes256CcmWrap, Alg_EcdsaSha256, Alg_EcdsaSha384,
     Alg_EcdsaSha512, Alg_Ed25519, Alg_EcP224, Alg_RsaPkcs1Decrypt,
     Alg_EcP256YubicoAuthentication, Alg_Aes128, Alg_Aes192, Alg_Aes256, Alg_AesEcb,
     Alg_AesCbc, Alg_AesKwp]"

definition algorithm_EXTENSIONS :: "Algorithm list" where
  "algorithm_EXTENSIONS =
     [Alg_X25519, Alg_X448, Alg_Ed448, Alg_MlDsa44, Alg_MlDsa65, Alg_MlDsa87, Alg_MlKem512,
     Alg_MlKem768, Alg_MlKem1024, Alg_HybridMlKem768P256, Alg_HybridMlKem768X25519,
     Alg_HybridMlKem1024P384]"

text \<open>
  \<^verbatim>\<open>Algorithm::from_byte\<close> checks the range and reinterprets the byte as the variant with
  that discriminant. The variants are listed in declaration order; \<open>algorithm_code_from\<close>
  below shows that every value in the range names the variant the source means.
\<close>

definition algorithm_from_byte :: "u8 \<Rightarrow> Algorithm option" where
  "algorithm_from_byte value =
     (if value = 0 \<or> value > algorithm_code Alg_HybridMlKem1024P384 then None
      else Some ((algorithm_OFFICIAL @ algorithm_EXTENSIONS) ! (unat value - 1)))"

definition algorithm_supported :: "FirmwareProfile \<Rightarrow> Algorithm \<Rightarrow> bool" where
  "algorithm_supported fw a =
     (if a \<in> {Alg_X25519, Alg_X448, Alg_Ed448} then extended_curves fw
      else if a \<in> {Alg_MlDsa44, Alg_MlDsa65, Alg_MlDsa87, Alg_MlKem512, Alg_MlKem768, Alg_MlKem1024,
                   Alg_HybridMlKem768P256, Alg_HybridMlKem768X25519, Alg_HybridMlKem1024P384}
        then post_quantum fw
      else True)"

text \<open>Parameter sets of \<^verbatim>\<open>software_key_core\<close> that the source names.\<close>

datatype MlDsaParameterSet = MlDsa44 | MlDsa65 | MlDsa87
datatype MlKemParameterSet = MlKem512 | MlKem768 | MlKem1024
datatype HybridKemConstruction = MlKem768P256 | MlKem768X25519 | MlKem1024P384

definition algorithm_ml_dsa :: "Algorithm \<Rightarrow> MlDsaParameterSet option" where
  "algorithm_ml_dsa a =
     map_of [(Alg_MlDsa44, MlDsa44), (Alg_MlDsa65, MlDsa65), (Alg_MlDsa87, MlDsa87)] a"

definition algorithm_ml_kem :: "Algorithm \<Rightarrow> MlKemParameterSet option" where
  "algorithm_ml_kem a =
     map_of [(Alg_MlKem512, MlKem512), (Alg_MlKem768, MlKem768), (Alg_MlKem1024, MlKem1024)] a"

definition algorithm_hybrid_kem :: "Algorithm \<Rightarrow> HybridKemConstruction option" where
  "algorithm_hybrid_kem a =
     map_of [(Alg_HybridMlKem768P256, MlKem768P256), (Alg_HybridMlKem768X25519, MlKem768X25519),
             (Alg_HybridMlKem1024P384, MlKem1024P384)] a"

definition is_rsa_key :: "Algorithm \<Rightarrow> bool" where
  "is_rsa_key a = (a \<in> {Alg_Rsa2048, Alg_Rsa3072, Alg_Rsa4096})"

definition is_weierstrass_key :: "Algorithm \<Rightarrow> bool" where
  "is_weierstrass_key a =
     (a \<in> {Alg_EcP224, Alg_EcP256, Alg_EcP384, Alg_EcP521, Alg_EcK256, Alg_EcBrainpoolP256,
           Alg_EcBrainpoolP384, Alg_EcBrainpoolP512})"

definition asymmetric_key_length :: "Algorithm \<Rightarrow> nat option" where
  "asymmetric_key_length a = map_of
     [(Alg_MlDsa44, 32), (Alg_MlDsa65, 32), (Alg_MlDsa87, 32),
      (Alg_MlKem512, 64), (Alg_MlKem768, 64), (Alg_MlKem1024, 64),
      (Alg_HybridMlKem768P256, 32), (Alg_HybridMlKem768X25519, 32), (Alg_HybridMlKem1024P384, 32),
      (Alg_Rsa2048, 256), (Alg_Rsa3072, 384), (Alg_Rsa4096, 512), (Alg_EcP224, 28),
      (Alg_EcP256, 32), (Alg_EcK256, 32), (Alg_EcBrainpoolP256, 32), (Alg_Ed25519, 32),
      (Alg_X25519, 32), (Alg_X448, 56), (Alg_Ed448, 57), (Alg_EcP384, 48),
      (Alg_EcBrainpoolP384, 48), (Alg_EcP521, 66), (Alg_EcBrainpoolP512, 64)] a"

definition asymmetric_object_length :: "Algorithm \<Rightarrow> nat option" where
  "asymmetric_object_length a = map_of
     [(Alg_MlDsa44, 32), (Alg_MlDsa65, 32), (Alg_MlDsa87, 32),
      (Alg_MlKem512, 64), (Alg_MlKem768, 64), (Alg_MlKem1024, 64),
      (Alg_HybridMlKem768P256, 32), (Alg_HybridMlKem768X25519, 32), (Alg_HybridMlKem1024P384, 32),
      (Alg_Rsa2048, 896), (Alg_Rsa3072, 1344), (Alg_Rsa4096, 1792), (Alg_EcP224, 84),
      (Alg_EcP256, 96), (Alg_EcK256, 96), (Alg_EcBrainpoolP256, 96), (Alg_EcP384, 144),
      (Alg_EcBrainpoolP384, 144), (Alg_EcP521, 198), (Alg_EcBrainpoolP512, 192),
      (Alg_Ed25519, 128), (Alg_X25519, 64), (Alg_X448, 112), (Alg_Ed448, 228)] a"

definition hmac_object_length :: "Algorithm \<Rightarrow> nat option" where
  "hmac_object_length a = map_of
     [(Alg_HmacSha1, 128), (Alg_HmacSha256, 128), (Alg_HmacSha384, 256), (Alg_HmacSha512, 256)] a"

definition aes_key_length :: "Algorithm \<Rightarrow> nat option" where
  "aes_key_length a = map_of
     [(Alg_Aes128, 16), (Alg_Aes128CcmWrap, 16), (Alg_Aes128YubicoOtp, 16),
      (Alg_Aes192, 24), (Alg_Aes192CcmWrap, 24), (Alg_Aes192YubicoOtp, 24),
      (Alg_Aes256, 32), (Alg_Aes256CcmWrap, 32), (Alg_Aes256YubicoOtp, 32)] a"

lemma algorithm_from_code [simp]: "algorithm_from_byte (algorithm_code a) = Some a"
  by (cases a) (simp_all add: algorithm_from_byte_def algorithm_OFFICIAL_def algorithm_EXTENSIONS_def)

lemma algorithm_order:
  "map algorithm_code (algorithm_OFFICIAL @ algorithm_EXTENSIONS) = map of_nat [1..<68]"
  by (simp add: algorithm_OFFICIAL_def algorithm_EXTENSIONS_def upt_rec)

lemma algorithm_count: "length (algorithm_OFFICIAL @ algorithm_EXTENSIONS) = 67"
  by (simp add: algorithm_OFFICIAL_def algorithm_EXTENSIONS_def)

lemma algorithm_code_from: "algorithm_from_byte v = Some a \<Longrightarrow> algorithm_code a = v"
proof -
  assume a: "algorithm_from_byte v = Some a"
  then have v: "v \<noteq> 0" "v \<le> 67"
    by (auto simp: algorithm_from_byte_def split: if_splits)
  have pos: "0 < unat v" using v(1) by (simp add: unat_gt_0)
  have le: "unat v \<le> 67" using v(2) by (simp add: word_le_nat_alt)
  have i: "unat v - 1 < 67" using pos le by simp
  have "algorithm_code a = map algorithm_code (algorithm_OFFICIAL @ algorithm_EXTENSIONS) ! (unat v - 1)"
    using a i algorithm_count
      nth_map [of "unat v - 1" "algorithm_OFFICIAL @ algorithm_EXTENSIONS" algorithm_code]
    by (auto simp del: map_append length_append simp: algorithm_from_byte_def split: if_splits)
  also have "\<dots> = of_nat (unat v)"
    unfolding algorithm_order using i pos by simp
  finally show ?thesis by simp
qed

end
