(* ===== verification/Key_Library.thy ===== *)
theory Key_Library
  imports Algorithms
begin

text \<open>
  The interface of \<^verbatim>\<open>software_key_core\<close> and of the operating system, as the source uses
  it. None of that code is part of the repository, so it is a parameter: \<open>lib\<close> holds the
  deterministic operations and \<open>env\<close> what one command execution observes of the clock, the
  entropy source and randomised operations. Private keys are an opaque type \<open>'k\<close>. A
  fallible operation returns an option, except where the source tells its errors apart.
\<close>

section \<open>Types the source names\<close>

datatype EcCurve = P224 | P256 | P384 | P521 | Secp256k1 | BrainpoolP256 | BrainpoolP384 | BrainpoolP512
datatype EdwardsCurve = Curve_Ed25519 | Curve_Ed448
datatype MontgomeryCurve = Curve_X25519 | Curve_X448

datatype KeyKind =
    Kind_Ec EcCurve | Kind_Edwards EdwardsCurve | Kind_Rsa nat | Kind_MlDsa MlDsaParameterSet

datatype SoftwarePublicKey =
    Pub_Ec EcCurve bytes
  | Pub_Edwards EdwardsCurve bytes
  | Pub_Rsa (pub_modulus: bytes) (pub_exponent: bytes)
  | Pub_MlDsa MlDsaParameterSet bytes

datatype HashAlgorithm =
    Sha1 | Sha224 | Sha256 | Sha384 | Sha512 | Sha3_224 | Sha3_256 | Sha3_384 | Sha3_512
datatype RsaHashAlgorithm = RsaSha1 | RsaSha256 | RsaSha384 | RsaSha512
datatype MlDsaRandomization = Deterministic | Randomized | HedgePreferred
datatype SignatureScheme =
    EcdsaP224Sha224 | EcdsaP256Sha256 | EcdsaP384Sha384 | EcdsaP521Sha512 | EcdsaSecp256k1Sha256
  | EcdsaBrainpoolP256Sha256 | EcdsaBrainpoolP384Sha384 | EcdsaBrainpoolP512Sha512
  | SchemeEd25519 | SchemeEd448

datatype SoftwareSymmetricError =
    InvalidDataLength | InvalidIvLength | InvalidKeyLength | SymmetricAuthenticationFailed
datatype RsaPrivateValidationError = InvalidPrivateKey | PrivateRandomnessUnavailable
datatype RsaPublicValidationError = InvalidPublicKey | PublicRandomnessUnavailable

record IntegerFormat =
  width_bits :: u8
  little_endian :: bool

datatype LengthMethod = LengthKey | LengthSegments
datatype CounterKdfField =
    Field_Bytes bytes | Field_Counter IntegerFormat | Field_Length IntegerFormat LengthMethod

text \<open>
  Values of the CBOR library (\<^verbatim>\<open>ciborium::Value\<close>) and the X.509 structures the source
  builds: names, validities and serial numbers are kept in their encoded form.
\<close>

datatype CborValue =
    Cbor_Integer int | Cbor_Bytes bytes | Cbor_Float u64 | Cbor_Text string | Cbor_Bool bool
  | Cbor_Null | Cbor_Tag u64 CborValue | Cbor_Array "CborValue list"
  | Cbor_Map "(CborValue \<times> CborValue) list"

record SubjectPublicKeyInfo =
  sk_oid :: string
  sk_parameters :: "bytes option"
  sk_subject_public_key :: bytes

record Extension =
  extn_id :: string
  extn_critical :: bool
  extn_value :: bytes

datatype KeyUsages = DigitalSignature | KeyAgreement | KeyEncipherment

record TemplateCertificate =
  tc_subject :: bytes
  tc_issuer :: bytes
  tc_validity :: bytes
  tc_extensions :: "Extension list option"

record TbsInput =
  tb_subject :: bytes
  tb_issuer :: bytes
  tb_serial :: bytes
  tb_validity :: bytes
  tb_spki :: SubjectPublicKeyInfo

section \<open>Deterministic library operations\<close>

text \<open>Symmetric primitives, digests and key derivation.\<close>

record symmetric_lib =
  aes_cmac :: "bytes \<Rightarrow> bytes \<Rightarrow> SoftwareSymmetricError + bytes"
  encrypt_aes_block :: "bytes \<Rightarrow> bytes \<Rightarrow> SoftwareSymmetricError + bytes"
  encrypt_aes_cbc :: "bytes \<Rightarrow> bytes \<Rightarrow> bytes \<Rightarrow> SoftwareSymmetricError + bytes"
  decrypt_aes_cbc :: "bytes \<Rightarrow> bytes \<Rightarrow> bytes \<Rightarrow> SoftwareSymmetricError + bytes"
  encrypt_aes_ecb :: "bytes \<Rightarrow> bytes \<Rightarrow> bytes option"
  decrypt_aes_ecb :: "bytes \<Rightarrow> bytes \<Rightarrow> bytes option"
  encrypt_aes_ccm :: "bytes \<Rightarrow> bytes \<Rightarrow> bytes \<Rightarrow> bytes option"
  decrypt_aes_ccm :: "bytes \<Rightarrow> bytes \<Rightarrow> bytes \<Rightarrow> bytes option"
  encrypt_yubico_otp_aead :: "bytes \<Rightarrow> bytes \<Rightarrow> bytes \<Rightarrow> bytes option"
  decrypt_yubico_otp_aead :: "bytes \<Rightarrow> bytes \<Rightarrow> bytes \<Rightarrow> bytes option"
  wrap_aes_kwp :: "bytes \<Rightarrow> bytes \<Rightarrow> bytes option"
  unwrap_aes_kwp :: "bytes \<Rightarrow> bytes \<Rightarrow> bytes option"
  pad_iso7816 :: "bytes \<Rightarrow> bytes"
  unpad_iso7816 :: "bytes \<Rightarrow> bytes option"
  scp03_key :: "bytes \<Rightarrow> u8 \<Rightarrow> bytes \<Rightarrow> bytes option"
  scp03_cryptogram :: "bytes \<Rightarrow> u8 \<Rightarrow> bytes \<Rightarrow> bytes option"
  hash_digest :: "HashAlgorithm \<Rightarrow> bytes \<Rightarrow> bytes"
  hmac_compute :: "HashAlgorithm \<Rightarrow> bytes \<Rightarrow> bytes \<Rightarrow> bytes option"
  x963_kdf :: "HashAlgorithm \<Rightarrow> bytes \<Rightarrow> bytes \<Rightarrow> nat \<Rightarrow> bytes option"
  x963_kdf_sha256 :: "bytes \<Rightarrow> bytes \<Rightarrow> nat \<Rightarrow> bytes option"
  yubico_password_kdf :: "bytes \<Rightarrow> bytes"
  cmac_counter_kdf :: "bytes \<Rightarrow> CounterKdfField list \<Rightarrow> nat \<Rightarrow> bytes option"

text \<open>
  Encoders: CBOR, ASN.1 strings and X.509. \<open>cbor_from_reader\<close> returns the value and the
  number of bytes it consumed.
\<close>

record encoding_lib = symmetric_lib +
  cbor_into_writer :: "CborValue \<Rightarrow> bytes option"
  cbor_from_reader :: "bytes \<Rightarrow> (CborValue \<times> nat) option"
  bit_string :: "bytes \<Rightarrow> bytes option"
  octet_string :: "bytes \<Rightarrow> bytes option"
  octet_to_der :: "bytes \<Rightarrow> bytes option"
  octet_from_der :: "bytes \<Rightarrow> bytes option"
  object_identifier :: "string \<Rightarrow> string option"
  subject_public_key_info :: "SoftwarePublicKey \<Rightarrow> SubjectPublicKeyInfo option"
  name_from_str :: "string \<Rightarrow> bytes option"
  serial_number_new :: "bytes \<Rightarrow> bytes option"
  certificate_from_der :: "bytes \<Rightarrow> TemplateCertificate option"
  basic_constraints_extension :: "bool \<Rightarrow> bytes \<Rightarrow> Extension list \<Rightarrow> Extension option"
  key_usage_extension :: "KeyUsages list \<Rightarrow> bytes \<Rightarrow> Extension list \<Rightarrow> Extension option"
  certificate_builder_new :: "TbsInput \<Rightarrow> bool"

text \<open>Private keys: \<^verbatim>\<open>SoftwareSigningKey\<close> and the three other typed keys.\<close>

record 'k lib = encoding_lib +
  key_kind :: "'k \<Rightarrow> KeyKind"
  key_is_rsa :: "'k \<Rightarrow> bool"
  key_is_ml_dsa :: "'k \<Rightarrow> bool"
  key_public :: "'k \<Rightarrow> SoftwarePublicKey"
  key_serialized :: "'k \<Rightarrow> bytes option"
  key_private_value :: "'k \<Rightarrow> bytes option"
  key_rsa_crt_components :: "'k \<Rightarrow> (bytes \<times> bytes \<times> bytes \<times> bytes \<times> bytes) option"
  key_modulus_bits :: "'k \<Rightarrow> nat"
  key_from_serialized_for_kind :: "KeyKind \<Rightarrow> bytes \<Rightarrow> 'k option"
  key_from_rsa_primes :: "bytes \<Rightarrow> bytes \<Rightarrow> bytes \<Rightarrow> 'k option"
  key_restore_rsa_primes :: "bytes \<Rightarrow> bytes \<Rightarrow> bytes \<Rightarrow> 'k option"
  key_to_pkcs8_der :: "'k \<Rightarrow> bytes option"
  key_from_pkcs8_der_for_kind :: "KeyKind \<Rightarrow> bytes \<Rightarrow> 'k option"
  ml_dsa_from_serialized :: "MlDsaParameterSet \<Rightarrow> bytes \<Rightarrow> 'k option"
  ml_dsa_expanded_length :: "MlDsaParameterSet \<Rightarrow> nat"
  ml_dsa_prehash_length :: "u8 \<Rightarrow> nat option"
  certificate_signer :: "'k \<Rightarrow> bool"
  derive_with_signing_key :: "'k \<Rightarrow> bytes \<Rightarrow> bytes option"
  public_key_valid :: "SoftwarePublicKey \<Rightarrow> bool"
  edwards_private_length :: "EdwardsCurve \<Rightarrow> nat"
  montgomery_curve :: "'k \<Rightarrow> MontgomeryCurve"
  montgomery_serialized :: "'k \<Rightarrow> bytes"
  montgomery_public :: "'k \<Rightarrow> bytes"
  montgomery_from_serialized :: "MontgomeryCurve \<Rightarrow> bytes \<Rightarrow> 'k option"
  montgomery_derive :: "'k \<Rightarrow> bytes \<Rightarrow> bytes option"
  rfc8410_to_der :: "string \<Rightarrow> bytes \<Rightarrow> bytes option"
  rfc8410_from_der :: "bytes \<Rightarrow> (u8 \<times> string \<times> bool \<times> bytes) option"
  ml_kem_parameters :: "'k \<Rightarrow> MlKemParameterSet"
  ml_kem_serialized :: "'k \<Rightarrow> bytes"
  ml_kem_expanded :: "'k \<Rightarrow> bytes"
  ml_kem_public :: "'k \<Rightarrow> bytes"
  ml_kem_from_serialized :: "MlKemParameterSet \<Rightarrow> bytes \<Rightarrow> 'k option"
  ml_kem_expanded_length :: "MlKemParameterSet \<Rightarrow> nat"
  ml_kem_ciphertext_length :: "MlKemParameterSet \<Rightarrow> nat"
  ml_kem_decapsulate :: "'k \<Rightarrow> bytes \<Rightarrow> bytes option"
  hybrid_construction :: "'k \<Rightarrow> HybridKemConstruction"
  hybrid_seed :: "'k \<Rightarrow> bytes"
  hybrid_public :: "'k \<Rightarrow> bytes option"
  hybrid_from_seed :: "HybridKemConstruction \<Rightarrow> bytes \<Rightarrow> 'k option"
  hybrid_ciphertext_length :: "HybridKemConstruction \<Rightarrow> nat"
  hybrid_decapsulate :: "'k \<Rightarrow> bytes \<Rightarrow> bytes option"

section \<open>What one execution observes\<close>

text \<open>
  \<open>now\<close> is \<^verbatim>\<open>Instant::now()\<close> in nanoseconds. \<open>entropy i n\<close> is the outcome of the \<open>i\<close>-th
  \<^verbatim>\<open>getrandom::fill\<close> call of the execution among those on a buffer of \<open>n\<close> bytes: within one
  execution the source never mixes two uses of the same buffer size, so the size names the
  call site and the index its repetition. The other fields are the library operations that
  draw on randomness.
\<close>

record 'k env =
  now :: nat
  entropy :: "nat \<Rightarrow> nat \<Rightarrow> bytes option"
  generate_key :: "KeyKind \<Rightarrow> 'k option"
  generate_montgomery :: "MontgomeryCurve \<Rightarrow> 'k option"
  generate_ml_kem :: "MlKemParameterSet \<Rightarrow> 'k option"
  generate_ml_dsa :: "MlDsaParameterSet \<Rightarrow> 'k option"
  generate_hybrid :: "HybridKemConstruction \<Rightarrow> 'k option"
  validate_rsa_private :: "'k \<Rightarrow> RsaPrivateValidationError + 'k"
  validate_rsa_public :: "bytes \<Rightarrow> bytes \<Rightarrow> nat \<Rightarrow> RsaPublicValidationError option"
  sign_pkcs1v15_digest :: "'k \<Rightarrow> RsaHashAlgorithm \<Rightarrow> bytes \<Rightarrow> bytes option"
  sign_pkcs1v15_payload :: "'k \<Rightarrow> bytes \<Rightarrow> bytes option"
  sign_pss_digest :: "'k \<Rightarrow> RsaHashAlgorithm \<Rightarrow> RsaHashAlgorithm \<Rightarrow> nat \<Rightarrow> bytes \<Rightarrow> bytes option"
  sign_prehash_ecdsa_der :: "'k \<Rightarrow> SignatureScheme \<Rightarrow> EcCurve \<Rightarrow> bytes \<Rightarrow> bytes option"
  sign_message :: "'k \<Rightarrow> SignatureScheme \<Rightarrow> bytes \<Rightarrow> bytes option"
  ml_dsa_sign :: "'k \<Rightarrow> bytes \<Rightarrow> bytes \<Rightarrow> MlDsaRandomization \<Rightarrow> bytes option"
  ml_dsa_sign_prehash :: "'k \<Rightarrow> bytes \<Rightarrow> bytes \<Rightarrow> u8 \<Rightarrow> MlDsaRandomization \<Rightarrow> bytes option"
  decrypt_pkcs1v15 :: "'k \<Rightarrow> bytes \<Rightarrow> bytes option"
  decrypt_oaep_digest :: "'k \<Rightarrow> bytes \<Rightarrow> bytes \<Rightarrow> RsaHashAlgorithm \<Rightarrow> bytes option"
  encrypt_pkcs1v15 :: "SoftwarePublicKey \<Rightarrow> bytes \<Rightarrow> bytes option"
  encrypt_oaep_digest :: "SoftwarePublicKey \<Rightarrow> bytes \<Rightarrow> bytes \<Rightarrow> RsaHashAlgorithm \<Rightarrow> bytes option"
  validity_from_now :: "nat \<Rightarrow> bytes option"
  certificate_build :: "'k \<Rightarrow> TbsInput \<Rightarrow> Extension list \<Rightarrow> bytes option"
  ml_kem_encapsulate :: "MlKemParameterSet \<Rightarrow> bytes \<Rightarrow> (bytes \<times> bytes) option"
  hybrid_encapsulate :: "HybridKemConstruction \<Rightarrow> bytes \<Rightarrow> (bytes \<times> bytes) option"

text \<open>The entropy source fills the whole buffer when it succeeds (\<^verbatim>\<open>getrandom::fill\<close>).\<close>

definition entropy_fills :: "'k env \<Rightarrow> bool" where
  "entropy_fills E = (\<forall>i n bs. entropy E i n = Some bs \<longrightarrow> length bs = n)"

end
