(* ===== verification/Capability.thy ===== *)
theory Capability
  imports Firmware
begin

unbundle bit_operations_syntax

text \<open>
  Capabilities and the eight-byte capability bitmap (\<^verbatim>\<open>capability.rs\<close>), with the
  reading of the bitmap as a set of bit numbers: membership, inclusion, insertion and
  removal on bytes are the set operations.
\<close>

section \<open>Capabilities (capability.rs)\<close>

datatype (plugins only: code) Capability =
    Cap_GetOpaque | Cap_PutOpaque | Cap_PutAuthenticationKey | Cap_PutAsymmetricKey |
    Cap_GenerateAsymmetricKey | Cap_SignPkcs | Cap_SignPss | Cap_SignEcdsa |
    Cap_SignEddsa | Cap_DecryptPkcs | Cap_DecryptOaep | Cap_DeriveEcdh |
    Cap_ExportWrapped | Cap_ImportWrapped | Cap_PutWrapKey | Cap_GenerateWrapKey |
    Cap_ExportableUnderWrap | Cap_SetOption | Cap_GetOption | Cap_GetPseudoRandom |
    Cap_PutMacKey | Cap_GenerateHmacKey | Cap_SignHmac | Cap_VerifyHmac |
    Cap_GetLogEntries | Cap_SignSshCertificate | Cap_GetTemplate | Cap_PutTemplate |
    Cap_ResetDevice | Cap_DecryptOtp | Cap_CreateOtpAead | Cap_RandomizeOtpAead |
    Cap_RewrapFromOtpAeadKey | Cap_RewrapToOtpAeadKey | Cap_SignAttestationCertificate |
    Cap_PutOtpAeadKey | Cap_GenerateOtpAeadKey | Cap_WrapData | Cap_UnwrapData |
    Cap_DeleteOpaque | Cap_DeleteAuthenticationKey | Cap_DeleteAsymmetricKey |
    Cap_DeleteWrapKey | Cap_DeleteHmacKey | Cap_DeleteTemplate | Cap_DeleteOtpAeadKey |
    Cap_ChangeAuthenticationKey | Cap_PutSymmetricKey | Cap_GenerateSymmetricKey |
    Cap_DeleteSymmetricKey | Cap_DecryptEcb | Cap_EncryptEcb | Cap_DecryptCbc |
    Cap_EncryptCbc | Cap_PutPublicWrapKey | Cap_DeletePublicWrapKey | Cap_DeriveEcdhKdf |
    Cap_SessionObjects | Cap_SignMlDsa | Cap_EncapsulateMlKem | Cap_DecapsulateMlKem |
    Cap_EncapsulateHybridKem | Cap_DecapsulateHybridKem

primrec capability_code :: "Capability \<Rightarrow> u8" where
  "capability_code Cap_GetOpaque = 0x00"
| "capability_code Cap_PutOpaque = 0x01"
| "capability_code Cap_PutAuthenticationKey = 0x02"
| "capability_code Cap_PutAsymmetricKey = 0x03"
| "capability_code Cap_GenerateAsymmetricKey = 0x04"
| "capability_code Cap_SignPkcs = 0x05"
| "capability_code Cap_SignPss = 0x06"
| "capability_code Cap_SignEcdsa = 0x07"
| "capability_code Cap_SignEddsa = 0x08"
| "capability_code Cap_DecryptPkcs = 0x09"
| "capability_code Cap_DecryptOaep = 0x0a"
| "capability_code Cap_DeriveEcdh = 0x0b"
| "capability_code Cap_ExportWrapped = 0x0c"
| "capability_code Cap_ImportWrapped = 0x0d"
| "capability_code Cap_PutWrapKey = 0x0e"
| "capability_code Cap_GenerateWrapKey = 0x0f"
| "capability_code Cap_ExportableUnderWrap = 0x10"
| "capability_code Cap_SetOption = 0x11"
| "capability_code Cap_GetOption = 0x12"
| "capability_code Cap_GetPseudoRandom = 0x13"
| "capability_code Cap_PutMacKey = 0x14"
| "capability_code Cap_GenerateHmacKey = 0x15"
| "capability_code Cap_SignHmac = 0x16"
| "capability_code Cap_VerifyHmac = 0x17"
| "capability_code Cap_GetLogEntries = 0x18"
| "capability_code Cap_SignSshCertificate = 0x19"
| "capability_code Cap_GetTemplate = 0x1a"
| "capability_code Cap_PutTemplate = 0x1b"
| "capability_code Cap_ResetDevice = 0x1c"
| "capability_code Cap_DecryptOtp = 0x1d"
| "capability_code Cap_CreateOtpAead = 0x1e"
| "capability_code Cap_RandomizeOtpAead = 0x1f"
| "capability_code Cap_RewrapFromOtpAeadKey = 0x20"
| "capability_code Cap_RewrapToOtpAeadKey = 0x21"
| "capability_code Cap_SignAttestationCertificate = 0x22"
| "capability_code Cap_PutOtpAeadKey = 0x23"
| "capability_code Cap_GenerateOtpAeadKey = 0x24"
| "capability_code Cap_WrapData = 0x25"
| "capability_code Cap_UnwrapData = 0x26"
| "capability_code Cap_DeleteOpaque = 0x27"
| "capability_code Cap_DeleteAuthenticationKey = 0x28"
| "capability_code Cap_DeleteAsymmetricKey = 0x29"
| "capability_code Cap_DeleteWrapKey = 0x2a"
| "capability_code Cap_DeleteHmacKey = 0x2b"
| "capability_code Cap_DeleteTemplate = 0x2c"
| "capability_code Cap_DeleteOtpAeadKey = 0x2d"
| "capability_code Cap_ChangeAuthenticationKey = 0x2e"
| "capability_code Cap_PutSymmetricKey = 0x2f"
| "capability_code Cap_GenerateSymmetricKey = 0x30"
| "capability_code Cap_DeleteSymmetricKey = 0x31"
| "capability_code Cap_DecryptEcb = 0x32"
| "capability_code Cap_EncryptEcb = 0x33"
| "capability_code Cap_DecryptCbc = 0x34"
| "capability_code Cap_EncryptCbc = 0x35"
| "capability_code Cap_PutPublicWrapKey = 0x36"
| "capability_code Cap_DeletePublicWrapKey = 0x37"
| "capability_code Cap_DeriveEcdhKdf = 0x38"
| "capability_code Cap_SessionObjects = 0x39"
| "capability_code Cap_SignMlDsa = 0x3a"
| "capability_code Cap_EncapsulateMlKem = 0x3b"
| "capability_code Cap_DecapsulateMlKem = 0x3c"
| "capability_code Cap_EncapsulateHybridKem = 0x3d"
| "capability_code Cap_DecapsulateHybridKem = 0x3e"

definition capability_supported :: "FirmwareProfile \<Rightarrow> Capability \<Rightarrow> bool" where
  "capability_supported fw c = (case c of
       Cap_DeriveEcdhKdf \<Rightarrow> prefixed_ecdh fw
     | Cap_SessionObjects \<Rightarrow> session_objects_profile fw
     | Cap_SignMlDsa \<Rightarrow> post_quantum fw
     | Cap_EncapsulateMlKem \<Rightarrow> post_quantum fw
     | Cap_DecapsulateMlKem \<Rightarrow> post_quantum fw
     | Cap_EncapsulateHybridKem \<Rightarrow> post_quantum fw
     | Cap_DecapsulateHybridKem \<Rightarrow> post_quantum fw
     | _ \<Rightarrow> True)"

text \<open>The protocol's big-endian eight-byte bitmap, \<^verbatim>\<open>CapabilitySet([u8; 8])\<close>.\<close>

type_synonym CapabilitySet = bytes

definition cap_NONE :: CapabilitySet where "cap_NONE = replicate 8 0"
definition cap_ALL :: CapabilitySet where "cap_ALL = replicate 8 0xff"

definition cap_wf :: "CapabilitySet \<Rightarrow> bool" where "cap_wf s = (length s = 8)"

definition cap_contains :: "CapabilitySet \<Rightarrow> Capability \<Rightarrow> bool" where
  "cap_contains s c = (let b = unat (capability_code c) in
     s ! (7 - b div 8) AND push_bit (b mod 8) 1 \<noteq> 0)"

definition cap_contains_all :: "CapabilitySet \<Rightarrow> CapabilitySet \<Rightarrow> bool" where
  "cap_contains_all s required =
     list_all (\<lambda>(available, required). available AND required = required) (zip s required)"

definition cap_is_subset_of :: "CapabilitySet \<Rightarrow> CapabilitySet \<Rightarrow> bool" where
  "cap_is_subset_of s available = cap_contains_all available s"

definition cap_insert :: "CapabilitySet \<Rightarrow> Capability \<Rightarrow> CapabilitySet" where
  "cap_insert s c = (let b = unat (capability_code c); i = 7 - b div 8 in
     s[i := s ! i OR push_bit (b mod 8) 1])"

definition cap_remove :: "CapabilitySet \<Rightarrow> Capability \<Rightarrow> CapabilitySet" where
  "cap_remove s c = (let b = unat (capability_code c); i = 7 - b div 8 in
     s[i := s ! i AND NOT (push_bit (b mod 8) 1)])"

definition cap_from_capabilities :: "Capability list \<Rightarrow> CapabilitySet" where
  "cap_from_capabilities values = foldl cap_insert cap_NONE values"

definition cap_retain_firmware_supported :: "FirmwareProfile \<Rightarrow> CapabilitySet \<Rightarrow> CapabilitySet" where
  "cap_retain_firmware_supported fw s =
     foldl (\<lambda>s c. if \<not> capability_supported fw c then cap_remove s c else s) s
       [Cap_DeriveEcdhKdf, Cap_SessionObjects, Cap_SignMlDsa, Cap_EncapsulateMlKem,
        Cap_DecapsulateMlKem, Cap_EncapsulateHybridKem, Cap_DecapsulateHybridKem]"

definition cap_intersection :: "CapabilitySet \<Rightarrow> CapabilitySet \<Rightarrow> CapabilitySet" where
  "cap_intersection s other = map (\<lambda>(l, r). l AND r) (zip s other)"

subsection \<open>The bitmap as a set of bit numbers\<close>

definition cap_bits :: "CapabilitySet \<Rightarrow> nat set" where
  "cap_bits s = {n. n < 64 \<and> bit (s ! (7 - n div 8)) (n mod 8)}"

lemma capability_code_bound: "unat (capability_code c) < 63"
  by (cases c) simp_all

text \<open>Capability numbers are distinct: the numbering has a left inverse.\<close>

definition capability_of_code :: "u8 \<Rightarrow> Capability option" where
  "capability_of_code value = map_of
     [(0x00, Cap_GetOpaque), (0x01, Cap_PutOpaque), (0x02, Cap_PutAuthenticationKey),
     (0x03, Cap_PutAsymmetricKey), (0x04, Cap_GenerateAsymmetricKey), (0x05, Cap_SignPkcs),
     (0x06, Cap_SignPss), (0x07, Cap_SignEcdsa), (0x08, Cap_SignEddsa),
     (0x09, Cap_DecryptPkcs), (0x0a, Cap_DecryptOaep), (0x0b, Cap_DeriveEcdh),
     (0x0c, Cap_ExportWrapped), (0x0d, Cap_ImportWrapped), (0x0e, Cap_PutWrapKey),
     (0x0f, Cap_GenerateWrapKey), (0x10, Cap_ExportableUnderWrap), (0x11, Cap_SetOption),
     (0x12, Cap_GetOption), (0x13, Cap_GetPseudoRandom), (0x14, Cap_PutMacKey),
     (0x15, Cap_GenerateHmacKey), (0x16, Cap_SignHmac), (0x17, Cap_VerifyHmac),
     (0x18, Cap_GetLogEntries), (0x19, Cap_SignSshCertificate), (0x1a, Cap_GetTemplate),
     (0x1b, Cap_PutTemplate), (0x1c, Cap_ResetDevice), (0x1d, Cap_DecryptOtp),
     (0x1e, Cap_CreateOtpAead), (0x1f, Cap_RandomizeOtpAead),
     (0x20, Cap_RewrapFromOtpAeadKey), (0x21, Cap_RewrapToOtpAeadKey),
     (0x22, Cap_SignAttestationCertificate), (0x23, Cap_PutOtpAeadKey),
     (0x24, Cap_GenerateOtpAeadKey), (0x25, Cap_WrapData), (0x26, Cap_UnwrapData),
     (0x27, Cap_DeleteOpaque), (0x28, Cap_DeleteAuthenticationKey),
     (0x29, Cap_DeleteAsymmetricKey), (0x2a, Cap_DeleteWrapKey), (0x2b, Cap_DeleteHmacKey),
     (0x2c, Cap_DeleteTemplate), (0x2d, Cap_DeleteOtpAeadKey),
     (0x2e, Cap_ChangeAuthenticationKey), (0x2f, Cap_PutSymmetricKey),
     (0x30, Cap_GenerateSymmetricKey), (0x31, Cap_DeleteSymmetricKey),
     (0x32, Cap_DecryptEcb), (0x33, Cap_EncryptEcb), (0x34, Cap_DecryptCbc),
     (0x35, Cap_EncryptCbc), (0x36, Cap_PutPublicWrapKey), (0x37, Cap_DeletePublicWrapKey),
     (0x38, Cap_DeriveEcdhKdf), (0x39, Cap_SessionObjects), (0x3a, Cap_SignMlDsa),
     (0x3b, Cap_EncapsulateMlKem), (0x3c, Cap_DecapsulateMlKem),
     (0x3d, Cap_EncapsulateHybridKem), (0x3e, Cap_DecapsulateHybridKem)] value"

lemma capability_of_code_code: "capability_of_code (capability_code c) = Some c"
  by (cases c) (simp_all add: capability_of_code_def)

lemma capability_code_inj: "unat (capability_code c) = unat (capability_code d) \<longleftrightarrow> c = d"
  by (metis capability_of_code_code option.inject unsigned_word_eqI)

lemma cap_contains_bits: "cap_contains s c \<longleftrightarrow> unat (capability_code c) \<in> cap_bits s"
proof -
  let ?b = "unat (capability_code c)"
  have "bit (s ! (7 - ?b div 8)) (?b mod 8) \<longleftrightarrow> s ! (7 - ?b div 8) AND push_bit (?b mod 8) 1 \<noteq> 0"
    by (simp add: bit_iff_and_push_bit_not_eq_0)
  then show ?thesis
    using capability_code_bound [of c] by (simp add: cap_contains_def cap_bits_def Let_def)
qed

lemma byte_subset_iff:
  "(r :: u8) AND q = q \<longleftrightarrow> (\<forall>i < 8. bit q i \<longrightarrow> bit r i)"
proof
  assume eq: "r AND q = q"
  show "\<forall>i < 8. bit q i \<longrightarrow> bit r i"
    using arg_cong [OF eq, of bit] by (metis bit_and_iff)
next
  assume "\<forall>i < 8. bit q i \<longrightarrow> bit r i"
  then show "r AND q = q" by (intro bit_word_eqI) (auto simp: bit_and_iff)
qed

lemma bit_power_u8: "k < 8 \<Longrightarrow> bit (2 ^ k :: u8) n \<longleftrightarrow> n = k"
  by (auto simp: bit_exp_iff)

lemma cap_contains_all_bits:
  assumes "cap_wf s" "cap_wf r"
  shows "cap_contains_all s r \<longleftrightarrow> cap_bits r \<subseteq> cap_bits s"
proof -
  have "cap_contains_all s r \<longleftrightarrow> (\<forall>j < 8. \<forall>i < 8. bit (r ! j) i \<longrightarrow> bit (s ! j) i)"
    using assms by (simp add: cap_contains_all_def cap_wf_def list_all_length byte_subset_iff)
  also have "\<dots> \<longleftrightarrow> cap_bits r \<subseteq> cap_bits s"
  proof
    assume sub: "cap_bits r \<subseteq> cap_bits s"
    show "\<forall>j < 8. \<forall>i < 8. bit (r ! j) i \<longrightarrow> bit (s ! j) i"
    proof (intro allI impI)
      fix j i :: nat assume "j < 8" "i < 8" "bit (r ! j) i"
      then have "8 * (7 - j) + i \<in> cap_bits r" by (simp add: cap_bits_def)
      with sub have "8 * (7 - j) + i \<in> cap_bits s" by blast
      with \<open>j < 8\<close> \<open>i < 8\<close> show "bit (s ! j) i" by (simp add: cap_bits_def)
    qed
  qed (auto simp: cap_bits_def)
  finally show ?thesis .
qed

lemma cap_wf_ops [simp]:
  "cap_wf cap_NONE" "cap_wf cap_ALL"
  "cap_wf (cap_insert s c) \<longleftrightarrow> cap_wf s" "cap_wf (cap_remove s c) \<longleftrightarrow> cap_wf s"
  "cap_wf s \<Longrightarrow> cap_wf t \<Longrightarrow> cap_wf (cap_intersection s t)"
  by (simp_all add: cap_wf_def cap_NONE_def cap_ALL_def cap_insert_def cap_remove_def
      cap_intersection_def Let_def)

lemma cap_byte_index_inj:
  assumes "n < 64" "m < 64" "7 - n div 8 = 7 - m div 8" "n mod 8 = m mod 8"
  shows "n = (m::nat)"
proof -
  have "n div 8 \<le> 7" "m div 8 \<le> 7" using assms(1,2) by simp_all
  with assms(3) have "n div 8 = m div 8" by arith
  with assms(4) show ?thesis by (metis div_mult_mod_eq)
qed

lemma cap_bits_insert:
  assumes "cap_wf s"
  shows "cap_bits (cap_insert s c) = insert (unat (capability_code c)) (cap_bits s)"
proof -
  let ?b = "unat (capability_code c)"
  have b: "?b < 64" using capability_code_bound [of c] by simp
  have "n \<in> cap_bits (cap_insert s c) \<longleftrightarrow> n = ?b \<or> n \<in> cap_bits s" for n
  proof (cases "n < 64 \<and> 7 - n div 8 = 7 - ?b div 8")
    case True
    then have "n = ?b \<longleftrightarrow> n mod 8 = ?b mod 8" using b cap_byte_index_inj by metis
    with True assms b show ?thesis
      by (auto simp: cap_bits_def cap_insert_def Let_def cap_wf_def bit_or_iff bit_power_u8)
  next
    case False
    with b assms show ?thesis
      by (auto simp: cap_bits_def cap_insert_def Let_def cap_wf_def)
  qed
  then show ?thesis by auto
qed

lemma cap_bits_remove:
  assumes "cap_wf s"
  shows "cap_bits (cap_remove s c) = cap_bits s - {unat (capability_code c)}"
proof -
  let ?b = "unat (capability_code c)"
  have b: "?b < 64" using capability_code_bound [of c] by simp
  have "n \<in> cap_bits (cap_remove s c) \<longleftrightarrow> n \<in> cap_bits s \<and> n \<noteq> ?b" for n
  proof (cases "n < 64 \<and> 7 - n div 8 = 7 - ?b div 8")
    case True
    then have "n = ?b \<longleftrightarrow> n mod 8 = ?b mod 8" using b cap_byte_index_inj by metis
    with True assms b show ?thesis
      by (auto simp: cap_bits_def cap_remove_def Let_def cap_wf_def bit_and_iff bit_not_iff
          bit_power_u8)
  next
    case False
    with b assms show ?thesis
      by (auto simp: cap_bits_def cap_remove_def Let_def cap_wf_def)
  qed
  then show ?thesis by auto
qed

lemma cap_contains_insert:
  "cap_wf s \<Longrightarrow> cap_contains (cap_insert s c) d \<longleftrightarrow> d = c \<or> cap_contains s d"
  by (auto simp: cap_contains_bits cap_bits_insert capability_code_inj)

lemma cap_contains_remove:
  "cap_wf s \<Longrightarrow> cap_contains (cap_remove s c) d \<longleftrightarrow> d \<noteq> c \<and> cap_contains s d"
  by (auto simp: cap_contains_bits cap_bits_remove capability_code_inj)

lemma cap_bits_NONE [simp]: "cap_bits cap_NONE = {}"
  by (auto simp: cap_bits_def cap_NONE_def)

lemma cap_bits_ALL: "cap_bits cap_ALL = {n. n < 64}"
proof -
  have "bit (0xff :: u8) i" if "i < 8" for i
  proof -
    from that have "i = 0 \<or> i = 1 \<or> i = 2 \<or> i = 3 \<or> i = 4 \<or> i = 5 \<or> i = 6 \<or> i = 7" by arith
    then show ?thesis by (elim disjE) simp_all
  qed
  then show ?thesis by (auto simp: cap_bits_def cap_ALL_def)
qed

lemma cap_contains_mono:
  "cap_wf s \<Longrightarrow> cap_wf t \<Longrightarrow> cap_is_subset_of s t \<Longrightarrow> cap_contains s c \<Longrightarrow> cap_contains t c"
  by (auto simp: cap_is_subset_of_def cap_contains_all_bits cap_contains_bits)

lemma cap_is_subset_of_trans:
  "cap_wf r \<Longrightarrow> cap_wf s \<Longrightarrow> cap_wf t \<Longrightarrow> cap_is_subset_of r s \<Longrightarrow> cap_is_subset_of s t \<Longrightarrow>
   cap_is_subset_of r t"
  by (auto simp: cap_is_subset_of_def cap_contains_all_bits)

lemma cap_retain_wf [simp]: "cap_wf (cap_retain_firmware_supported fw s) \<longleftrightarrow> cap_wf s"
  by (simp add: cap_retain_firmware_supported_def)

end
