(* ===== verification/Objects.thy ===== *)
theory Objects
  imports Key_Library Capability
begin

unbundle bit_operations_syntax

text \<open>
  Objects and their metadata (\<^verbatim>\<open>object.rs\<close>): types, keys, information records with their
  66-byte wire form, runtime and stored material, the promotion of imported bytes to typed
  private keys, and the length rules every stored object satisfies.
\<close>

section \<open>Object types and keys\<close>

datatype ObjectType =
    Ty_Opaque | Ty_AuthenticationKey | Ty_AsymmetricKey | Ty_WrapKey | Ty_HmacKey
  | Ty_Template | Ty_OtpAeadKey | Ty_SymmetricKey | Ty_PublicWrapKey

primrec object_type_code :: "ObjectType \<Rightarrow> u8" where
  "object_type_code Ty_Opaque = 0x01"
| "object_type_code Ty_AuthenticationKey = 0x02"
| "object_type_code Ty_AsymmetricKey = 0x03"
| "object_type_code Ty_WrapKey = 0x04"
| "object_type_code Ty_HmacKey = 0x05"
| "object_type_code Ty_Template = 0x06"
| "object_type_code Ty_OtpAeadKey = 0x07"
| "object_type_code Ty_SymmetricKey = 0x08"
| "object_type_code Ty_PublicWrapKey = 0x09"

definition object_type_from_byte :: "u8 \<Rightarrow> ObjectType option" where
  "object_type_from_byte value = map_of
     [(0x01, Ty_Opaque), (0x02, Ty_AuthenticationKey), (0x03, Ty_AsymmetricKey),
      (0x04, Ty_WrapKey), (0x05, Ty_HmacKey), (0x06, Ty_Template), (0x07, Ty_OtpAeadKey),
      (0x08, Ty_SymmetricKey), (0x09, Ty_PublicWrapKey)] value"

primrec deletion_capability :: "ObjectType \<Rightarrow> Capability" where
  "deletion_capability Ty_Opaque = Cap_DeleteOpaque"
| "deletion_capability Ty_AuthenticationKey = Cap_DeleteAuthenticationKey"
| "deletion_capability Ty_AsymmetricKey = Cap_DeleteAsymmetricKey"
| "deletion_capability Ty_WrapKey = Cap_DeleteWrapKey"
| "deletion_capability Ty_HmacKey = Cap_DeleteHmacKey"
| "deletion_capability Ty_Template = Cap_DeleteTemplate"
| "deletion_capability Ty_OtpAeadKey = Cap_DeleteOtpAeadKey"
| "deletion_capability Ty_SymmetricKey = Cap_DeleteSymmetricKey"
| "deletion_capability Ty_PublicWrapKey = Cap_DeletePublicWrapKey"

lemma object_type_from_code [simp]: "object_type_from_byte (object_type_code t) = Some t"
  by (cases t) (simp_all add: object_type_from_byte_def)

lemma object_type_code_from: "object_type_from_byte v = Some t \<Longrightarrow> v = object_type_code t"
  unfolding object_type_from_byte_def by (drule map_of_SomeD) auto

lemma object_type_code_inj [simp]: "object_type_code t = object_type_code u \<longleftrightarrow> t = u"
  by (metis object_type_from_code option.inject)

text \<open>Types are ordered by declaration; keys by type and then by number (derived \<^verbatim>\<open>Ord\<close>).\<close>

instantiation ObjectType :: linorder
begin

definition less_eq_ObjectType :: "ObjectType \<Rightarrow> ObjectType \<Rightarrow> bool" where
  "less_eq_ObjectType t u = (object_type_code t \<le> object_type_code u)"

definition less_ObjectType :: "ObjectType \<Rightarrow> ObjectType \<Rightarrow> bool" where
  "less_ObjectType t u = (object_type_code t < object_type_code u)"

instance
  by standard (auto simp: less_eq_ObjectType_def less_ObjectType_def less_le_not_le dest: antisym)

end

datatype ObjectKey = ObjectKey (key_type: ObjectType) (key_id: u16)

instantiation ObjectKey :: linorder
begin

definition less_eq_ObjectKey :: "ObjectKey \<Rightarrow> ObjectKey \<Rightarrow> bool" where
  "less_eq_ObjectKey a b =
     (key_type a < key_type b \<or> key_type a = key_type b \<and> key_id a \<le> key_id b)"

definition less_ObjectKey :: "ObjectKey \<Rightarrow> ObjectKey \<Rightarrow> bool" where
  "less_ObjectKey a b =
     (key_type a < key_type b \<or> key_type a = key_type b \<and> key_id a < key_id b)"

instance
  by standard (auto simp: less_eq_ObjectKey_def less_ObjectKey_def ObjectKey.expand)

end

section \<open>Object information\<close>

definition LABEL_LENGTH :: nat where "LABEL_LENGTH = 40"

record ObjectInfo =
  oi_capabilities :: CapabilitySet
  oi_id :: u16
  oi_length :: u16
  oi_domains :: u16
  oi_object_type :: ObjectType
  oi_algorithm :: u8
  oi_sequence :: u8
  oi_origin :: u8
  oi_label :: bytes
  oi_delegated_capabilities :: CapabilitySet

definition info_validate :: "ObjectInfo \<Rightarrow> unit res" where
  "info_validate info =
     (if oi_id info = 0 \<or> oi_id info = u16_MAX then Err InvalidId
      else if oi_domains info = 0 \<or> length (oi_label info) > LABEL_LENGTH then Err InvalidData
      else Ok ())"

definition info_key :: "ObjectInfo \<Rightarrow> ObjectKey" where
  "info_key info = ObjectKey (oi_object_type info) (oi_id info)"

text \<open>\<^verbatim>\<open>output[i..i + src.len()].copy_from_slice(&src)\<close>.\<close>

definition splice :: "nat \<Rightarrow> bytes \<Rightarrow> bytes \<Rightarrow> bytes res" where
  "splice i src out =
     (if i + length src > length out then Panic
      else Ok (take i out @ src @ drop (i + length src) out))"

definition info_encode :: "ObjectInfo \<Rightarrow> bytes res" where
  "info_encode info =
     and_then (splice 0 (oi_capabilities info) (replicate 66 0)) (\<lambda>out.
     and_then (splice 8 (be16 (oi_id info)) out) (\<lambda>out.
     and_then (splice 10 (be16 (oi_length info)) out) (\<lambda>out.
     and_then (splice 12 (be16 (oi_domains info)) out) (\<lambda>out.
     and_then (splice 14 [object_type_code (oi_object_type info), oi_algorithm info,
                          oi_sequence info, oi_origin info] out) (\<lambda>out.
     and_then (splice 18 (oi_label info) out) (\<lambda>out.
     splice 58 (oi_delegated_capabilities info) out))))))"

definition info_wf :: "ObjectInfo \<Rightarrow> bool" where
  "info_wf info = (cap_wf (oi_capabilities info) \<and> cap_wf (oi_delegated_capabilities info))"

lemma info_validate_Ok [simp]:
  "info_validate info = Ok u \<longleftrightarrow>
     oi_id info \<noteq> 0 \<and> oi_id info \<noteq> u16_MAX \<and> oi_domains info \<noteq> 0 \<and> length (oi_label info) \<le> 40"
  by (auto simp: info_validate_def LABEL_LENGTH_def)

lemma info_validate_returns [simp]: "info_validate info \<noteq> Panic" "info_validate info \<noteq> Diverge"
  by (auto simp: info_validate_def)

lemma info_encode_layout:
  assumes "info_wf info" "info_validate info = Ok ()"
  shows "info_encode info = Ok (oi_capabilities info @ be16 (oi_id info) @ be16 (oi_length info)
      @ be16 (oi_domains info) @ [object_type_code (oi_object_type info), oi_algorithm info,
          oi_sequence info, oi_origin info]
      @ oi_label info @ replicate (40 - length (oi_label info)) 0 @ oi_delegated_capabilities info)"
  using assms by (simp add: info_encode_def splice_def info_wf_def cap_wf_def drop_Cons')

section \<open>Object material\<close>

datatype AuthenticationKeyMaterial = Auth_Symmetric bytes | Auth_Asymmetric bytes

datatype 'k ObjectMaterial =
    Mat_Authentication AuthenticationKeyMaterial
  | Mat_SigningKey 'k
  | Mat_MontgomeryKey 'k
  | Mat_MlKemKey 'k
  | Mat_HybridKemKey 'k
  | Mat_Secret bytes
  | Mat_Opaque bytes
  | Mat_Public bytes
  | Mat_OtpAeadKey (otp_nonce_id: bytes) (otp_key: bytes)

primrec auth_bytes :: "AuthenticationKeyMaterial \<Rightarrow> bytes" where
  "auth_bytes (Auth_Symmetric v) = v"
| "auth_bytes (Auth_Asymmetric v) = v"

definition ec_private_length :: "EcCurve \<Rightarrow> nat" where
  "ec_private_length c = (case c of
       P224 \<Rightarrow> 28 | P256 \<Rightarrow> 32 | Secp256k1 \<Rightarrow> 32 | BrainpoolP256 \<Rightarrow> 32
     | P384 \<Rightarrow> 48 | BrainpoolP384 \<Rightarrow> 48 | P521 \<Rightarrow> 66 | BrainpoolP512 \<Rightarrow> 64)"

primrec material_len :: "'k lib \<Rightarrow> 'k ObjectMaterial \<Rightarrow> nat" where
  "material_len L (Mat_Authentication a) = length (auth_bytes a)"
| "material_len L (Mat_SigningKey key) = (case key_kind L key of
       Kind_Ec curve \<Rightarrow> ec_private_length curve
     | Kind_Edwards curve \<Rightarrow> edwards_private_length L curve
     | Kind_Rsa modulus_bits \<Rightarrow> modulus_bits div 8
     | Kind_MlDsa _ \<Rightarrow> 32)"
| "material_len L (Mat_MontgomeryKey key) = length (montgomery_serialized L key)"
| "material_len L (Mat_MlKemKey _) = 64"
| "material_len L (Mat_HybridKemKey _) = 32"
| "material_len L (Mat_Secret v) = length v"
| "material_len L (Mat_Opaque v) = length v"
| "material_len L (Mat_Public v) = length v"
| "material_len L (Mat_OtpAeadKey _ key) = length key"

definition material_eq :: "'k lib \<Rightarrow> 'k ObjectMaterial \<Rightarrow> 'k ObjectMaterial \<Rightarrow> bool" where
  "material_eq L x y = (case (x, y) of
       (Mat_Authentication a, Mat_Authentication b) \<Rightarrow> a = b
     | (Mat_SigningKey a, Mat_SigningKey b) \<Rightarrow>
         key_kind L a = key_kind L b \<and> key_serialized L a = key_serialized L b
     | (Mat_MontgomeryKey a, Mat_MontgomeryKey b) \<Rightarrow>
         montgomery_serialized L a = montgomery_serialized L b
     | (Mat_MlKemKey a, Mat_MlKemKey b) \<Rightarrow>
         ml_kem_parameters L a = ml_kem_parameters L b \<and> ml_kem_expanded L a = ml_kem_expanded L b
     | (Mat_HybridKemKey a, Mat_HybridKemKey b) \<Rightarrow>
         hybrid_construction L a = hybrid_construction L b \<and> hybrid_seed L a = hybrid_seed L b
     | (Mat_Secret a, Mat_Secret b) \<Rightarrow> a = b
     | (Mat_Opaque a, Mat_Opaque b) \<Rightarrow> a = b
     | (Mat_Public a, Mat_Public b) \<Rightarrow> a = b
     | (Mat_OtpAeadKey na ka, Mat_OtpAeadKey nb kb) \<Rightarrow> na = nb \<and> ka = kb
     | _ \<Rightarrow> False)"

record 'k ObjectRecord =
  or_info :: ObjectInfo
  or_material :: "'k ObjectMaterial"

section \<open>Stored form\<close>

datatype StoredObjectMaterial =
    Stored_Authentication AuthenticationKeyMaterial
  | Stored_Secret bytes
  | Stored_Opaque bytes
  | Stored_Public bytes
  | Stored_OtpAeadKey bytes bytes

record StoredObjectRecord =
  so_info :: ObjectInfo
  so_material :: StoredObjectMaterial

primrec stored_len :: "StoredObjectMaterial \<Rightarrow> nat" where
  "stored_len (Stored_Authentication a) = length (auth_bytes a)"
| "stored_len (Stored_Secret v) = length v"
| "stored_len (Stored_Opaque v) = length v"
| "stored_len (Stored_Public v) = length v"
| "stored_len (Stored_OtpAeadKey _ key) = length key"

definition left_pad :: "bytes \<Rightarrow> nat \<Rightarrow> bytes res" where
  "left_pad value n =
     (if length value > n then Err InvalidData
      else Ok (replicate (n - length value) 0 @ value))"

definition object_key_kind :: "Algorithm \<Rightarrow> KeyKind res" where
  "object_key_kind a = (case algorithm_ml_dsa a of
       Some parameters \<Rightarrow> Ok (Kind_MlDsa parameters)
     | None \<Rightarrow> ok_or (map_of
         [(Alg_EcP224, Kind_Ec P224), (Alg_EcP256, Kind_Ec P256), (Alg_EcP384, Kind_Ec P384),
          (Alg_EcP521, Kind_Ec P521), (Alg_EcK256, Kind_Ec Secp256k1),
          (Alg_EcBrainpoolP256, Kind_Ec BrainpoolP256), (Alg_EcBrainpoolP384, Kind_Ec BrainpoolP384),
          (Alg_EcBrainpoolP512, Kind_Ec BrainpoolP512), (Alg_Ed25519, Kind_Edwards Curve_Ed25519),
          (Alg_Ed448, Kind_Edwards Curve_Ed448), (Alg_Rsa2048, Kind_Rsa 2048),
          (Alg_Rsa3072, Kind_Rsa 3072), (Alg_Rsa4096, Kind_Rsa 4096)] a) InvalidData)"

definition typed_private_material ::
  "'k lib \<Rightarrow> ObjectInfo \<Rightarrow> bytes \<Rightarrow> 'k ObjectMaterial res" where
  "typed_private_material L info encoded =
     and_then (ok_or (algorithm_from_byte (oi_algorithm info)) InvalidData) (\<lambda>algorithm.
     case algorithm_ml_kem algorithm of
       Some parameters \<Rightarrow>
         ok_or (map_option Mat_MlKemKey (ml_kem_from_serialized L parameters encoded)) InvalidData
     | None \<Rightarrow> (case algorithm_hybrid_kem algorithm of
       Some construction \<Rightarrow>
         ok_or (map_option Mat_HybridKemKey (hybrid_from_seed L construction encoded)) InvalidData
     | None \<Rightarrow>
         if algorithm = Alg_X25519 \<or> algorithm = Alg_X448 then
           (let curve = (if algorithm = Alg_X25519 then Curve_X25519 else Curve_X448) in
            ok_or (map_option Mat_MontgomeryKey (montgomery_from_serialized L curve encoded)) InvalidData)
         else if is_rsa_key algorithm then
           and_then (ok_or (asymmetric_key_length algorithm) InvalidData) (\<lambda>expected.
             if length encoded \<noteq> expected \<or> expected mod 2 \<noteq> 0 then Err InvalidData
             else ok_or (map_option Mat_SigningKey
                   (key_restore_rsa_primes L (take (expected div 2) encoded)
                      (drop (expected div 2) encoded) [1, 0, 1])) InvalidData)
         else
           and_then (object_key_kind algorithm) (\<lambda>kind.
             ok_or (map_option Mat_SigningKey (key_from_serialized_for_kind L kind encoded)) InvalidData)))"

text \<open>The objects whose byte material is a private asymmetric key.\<close>

definition holds_private_key :: "ObjectInfo \<Rightarrow> bool" where
  "holds_private_key info =
     (oi_object_type info = Ty_AsymmetricKey \<or>
      oi_object_type info = Ty_WrapKey \<and>
        (case algorithm_from_byte (oi_algorithm info) of Some a \<Rightarrow> is_rsa_key a | None \<Rightarrow> False))"

definition to_stored :: "'k lib \<Rightarrow> 'k ObjectRecord \<Rightarrow> StoredObjectRecord res" where
  "to_stored L r = and_then
     (case or_material r of
        Mat_Authentication v \<Rightarrow> Ok (Stored_Authentication v)
      | Mat_SigningKey key \<Rightarrow>
          and_then (ok_or (algorithm_from_byte (oi_algorithm (or_info r))) InvalidData) (\<lambda>algorithm.
            if is_rsa_key algorithm then
              and_then (ok_or (key_rsa_crt_components L key) InvalidData) (\<lambda>(p, q, _, _, _).
              and_then (ok_or (asymmetric_key_length algorithm) InvalidData) (\<lambda>len.
              and_then (left_pad p (len div 2)) (\<lambda>p'.
              and_then (left_pad q (len div 2)) (\<lambda>q'. Ok (Stored_Secret (p' @ q'))))))
            else ok_or (map_option Stored_Secret (key_serialized L key)) InvalidData)
      | Mat_MontgomeryKey key \<Rightarrow> Ok (Stored_Secret (montgomery_serialized L key))
      | Mat_MlKemKey key \<Rightarrow> Ok (Stored_Secret (ml_kem_serialized L key))
      | Mat_HybridKemKey key \<Rightarrow> Ok (Stored_Secret (hybrid_seed L key))
      | Mat_Secret v \<Rightarrow> Ok (Stored_Secret v)
      | Mat_Opaque v \<Rightarrow> Ok (Stored_Opaque v)
      | Mat_Public v \<Rightarrow> Ok (Stored_Public v)
      | Mat_OtpAeadKey nonce_id key \<Rightarrow> Ok (Stored_OtpAeadKey nonce_id key))
     (\<lambda>material. Ok \<lparr>so_info = or_info r, so_material = material\<rparr>)"

definition from_stored :: "'k lib \<Rightarrow> StoredObjectRecord \<Rightarrow> 'k ObjectRecord res" where
  "from_stored L s = and_then
     (case so_material s of
        Stored_Authentication v \<Rightarrow> Ok (Mat_Authentication v)
      | Stored_Secret v \<Rightarrow>
          if holds_private_key (so_info s) then typed_private_material L (so_info s) v
          else Ok (Mat_Secret v)
      | Stored_Opaque v \<Rightarrow> Ok (Mat_Opaque v)
      | Stored_Public v \<Rightarrow> Ok (Mat_Public v)
      | Stored_OtpAeadKey nonce_id key \<Rightarrow> Ok (Mat_OtpAeadKey nonce_id key))
     (\<lambda>material. Ok \<lparr>or_info = so_info s, or_material = material\<rparr>)"

section \<open>Promotion and validation of records\<close>

definition promote_private_material :: "'k lib \<Rightarrow> 'k ObjectRecord \<Rightarrow> 'k ObjectRecord res" where
  "promote_private_material L r = (case or_material r of
       Mat_Secret value \<Rightarrow>
         if holds_private_key (or_info r) then
           and_then (typed_private_material L (or_info r) value) (\<lambda>m. Ok (r\<lparr>or_material := m\<rparr>))
         else Ok r
     | _ \<Rightarrow> Ok r)"

definition expected_info_length :: "'k lib \<Rightarrow> 'k ObjectRecord \<Rightarrow> nat res" where
  "expected_info_length L r =
     (let algorithm = algorithm_from_byte (oi_algorithm (or_info r)); len = material_len L (or_material r)
      in case oi_object_type (or_info r) of
        Ty_AuthenticationKey \<Rightarrow> Ok (len + 8)
      | Ty_AsymmetricKey \<Rightarrow> ok_or (Option.bind algorithm asymmetric_object_length) InvalidData
      | Ty_WrapKey \<Rightarrow> (case algorithm of
          Some a \<Rightarrow>
            if is_rsa_key a then ok_or (map_option (\<lambda>l. l + 8) (asymmetric_object_length a)) InvalidData
            else if a \<in> {Alg_Aes128CcmWrap, Alg_Aes192CcmWrap, Alg_Aes256CcmWrap} then Ok (len + 8)
            else Err InvalidData
        | None \<Rightarrow> Err InvalidData)
      | Ty_HmacKey \<Rightarrow> ok_or (Option.bind algorithm hmac_object_length) InvalidData
      | Ty_OtpAeadKey \<Rightarrow> Ok (len + 4)
      | Ty_PublicWrapKey \<Rightarrow> Ok (len + 8)
      | _ \<Rightarrow> Ok len)"

text \<open>\<^verbatim>\<open>u16::try_from\<close> on a length.\<close>

definition u16_try_from :: "nat \<Rightarrow> u16 res" where
  "u16_try_from n = (if n < 65536 then Ok (of_nat n) else Err WrongLength)"

definition normalize_info_length :: "'k lib \<Rightarrow> 'k ObjectRecord \<Rightarrow> 'k ObjectRecord res" where
  "normalize_info_length L r =
     and_then (expected_info_length L r) (\<lambda>n.
     and_then (u16_try_from n) (\<lambda>l. Ok (r\<lparr>or_info := (or_info r)\<lparr>oi_length := l\<rparr>\<rparr>)))"

definition record_validate :: "'k lib \<Rightarrow> 'k ObjectRecord \<Rightarrow> unit res" where
  "record_validate L r =
     and_then (info_validate (or_info r)) (\<lambda>_.
     let algorithm = algorithm_from_byte (oi_algorithm (or_info r));
         stores_private_asymmetric_key =
           oi_object_type (or_info r) \<in> {Ty_AsymmetricKey, Ty_WrapKey} \<and>
           (case algorithm of
              Some a \<Rightarrow> oi_object_type (or_info r) = Ty_AsymmetricKey \<or> is_rsa_key a
            | None \<Rightarrow> False)
     in if stores_private_asymmetric_key \<and>
           Option.bind algorithm asymmetric_key_length \<noteq> Some (material_len L (or_material r))
        then Err InvalidData
        else and_then (expected_info_length L r) (\<lambda>n.
          if unat (oi_length (or_info r)) \<noteq> n then Err InvalidData else Ok ()))"

subsection \<open>Facts about records\<close>

lemma record_validate_info: "record_validate L r = Ok () \<Longrightarrow> info_validate (or_info r) = Ok ()"
  by (simp add: record_validate_def)

lemma record_validate_length:
  "record_validate L r = Ok () \<Longrightarrow> expected_info_length L r = Ok (unat (oi_length (or_info r)))"
  by (auto simp: record_validate_def Let_def split: if_splits)

lemma promote_keeps_info: "promote_private_material L r = Ok r' \<Longrightarrow> or_info r' = or_info r"
  by (auto simp: promote_private_material_def split: ObjectMaterial.splits if_splits)

lemma u16_try_from_eq [simp]:
  "u16_try_from n = Ok l \<longleftrightarrow> n < 65536 \<and> l = of_nat n"
  "u16_try_from n = Err e \<longleftrightarrow> \<not> n < 65536 \<and> e = WrongLength"
  "u16_try_from n \<noteq> Panic" "u16_try_from n \<noteq> Diverge"
  by (auto simp: u16_try_from_def)

lemma typed_material_total [simp]:
  "typed_private_material L info bs \<noteq> Panic" "typed_private_material L info bs \<noteq> Diverge"
  by (auto simp: typed_private_material_def result_simps object_key_kind_def Let_def
      split: option.splits if_splits)

lemma typed_material_not_secret: "typed_private_material L info bs = Ok m \<Longrightarrow> m \<noteq> Mat_Secret v"
  by (auto simp: typed_private_material_def Let_def split: option.splits if_splits)

lemma promote_total [simp]:
  "promote_private_material L r \<noteq> Panic" "promote_private_material L r \<noteq> Diverge"
  by (auto simp: promote_private_material_def result_simps split: ObjectMaterial.splits if_splits)

lemma expected_info_length_total [simp]:
  "expected_info_length L r \<noteq> Panic" "expected_info_length L r \<noteq> Diverge"
  by (auto simp: expected_info_length_def Let_def split: ObjectType.splits option.splits if_splits)

lemma record_validate_total [simp]:
  "record_validate L r \<noteq> Panic" "record_validate L r \<noteq> Diverge"
  by (auto simp: record_validate_def result_simps Let_def split: if_splits)

text \<open>Promotion is idempotent: a promoted record has no private key left as bytes.\<close>

lemma promote_idem:
  "promote_private_material L r = Ok r' \<Longrightarrow> promote_private_material L r' = Ok r'"
  by (auto simp: promote_private_material_def typed_material_not_secret
      split: ObjectMaterial.splits if_splits)

lemma expected_info_length_upd:
  "expected_info_length L (r\<lparr>or_info := (or_info r)\<lparr>oi_length := l\<rparr>\<rparr>) = expected_info_length L r"
  by (simp add: expected_info_length_def)

lemma normalize_validates:
  assumes "normalize_info_length L r = Ok r'"
  shows "or_material r' = or_material r"
    and "expected_info_length L r' = Ok (unat (oi_length (or_info r')))"
  using assms by (auto simp: normalize_info_length_def expected_info_length_upd unat_of_nat)

lemma material_eq_refl: "material_eq L m m"
  by (cases m) (simp_all add: material_eq_def)

lemma material_eq_sym: "material_eq L m n \<Longrightarrow> material_eq L n m"
  by (cases m; cases n) (simp_all add: material_eq_def)

lemma material_eq_trans: "material_eq L l m \<Longrightarrow> material_eq L m n \<Longrightarrow> material_eq L l n"
  by (cases l; cases m; cases n) (simp_all add: material_eq_def)

end
