(* ===== verification/Commands.thy ===== *)
theory Commands
  imports Firmware
begin

text \<open>Command codes and the nested session-object registry (\<^verbatim>\<open>protocol.rs\<close>).\<close>

section \<open>Command codes (protocol.rs)\<close>

datatype (plugins only: code) CommandCode =
    Cmd_Echo | Cmd_CreateSession | Cmd_AuthenticateSession | Cmd_SessionMessage |
    Cmd_GetDeviceInfo | Cmd_ResetDevice | Cmd_GetDevicePublicKey | Cmd_SessionObject |
    Cmd_DeriveEcdhKdf | Cmd_SignMlDsa | Cmd_EncapsulateMlKem | Cmd_DecapsulateMlKem |
    Cmd_EncapsulateHybridKem | Cmd_DecapsulateHybridKem | Cmd_CloseSession |
    Cmd_GetStorageInfo | Cmd_PutOpaque | Cmd_GetOpaque | Cmd_PutAuthenticationKey |
    Cmd_PutAsymmetricKey | Cmd_GenerateAsymmetricKey | Cmd_SignPkcs1 | Cmd_ListObjects |
    Cmd_DecryptPkcs1 | Cmd_ExportWrapped | Cmd_ImportWrapped | Cmd_PutWrapKey |
    Cmd_GetLogEntries | Cmd_GetObjectInfo | Cmd_SetOption | Cmd_GetOption |
    Cmd_GetPseudoRandom | Cmd_PutHmacKey | Cmd_SignHmac | Cmd_GetPublicKey | Cmd_SignPss |
    Cmd_SignEcdsa | Cmd_DeriveEcdh | Cmd_DeleteObject | Cmd_DecryptOaep |
    Cmd_GenerateHmacKey | Cmd_GenerateWrapKey | Cmd_VerifyHmac | Cmd_SignSshCertificate |
    Cmd_PutTemplate | Cmd_GetTemplate | Cmd_DecryptOtp | Cmd_CreateOtpAead |
    Cmd_RandomizeOtpAead | Cmd_RewrapOtpAead | Cmd_SignAttestationCertificate |
    Cmd_PutOtpAeadKey | Cmd_GenerateOtpAeadKey | Cmd_SetLogIndex | Cmd_WrapData |
    Cmd_UnwrapData | Cmd_SignEddsa | Cmd_BlinkDevice | Cmd_ChangeAuthenticationKey |
    Cmd_PutSymmetricKey | Cmd_GenerateSymmetricKey | Cmd_DecryptEcb | Cmd_EncryptEcb |
    Cmd_DecryptCbc | Cmd_EncryptCbc | Cmd_PutPublicWrapKey | Cmd_GetRsaWrappedKey |
    Cmd_PutRsaWrappedKey | Cmd_ExportRsaWrapped | Cmd_ImportRsaWrapped

primrec command_code :: "CommandCode \<Rightarrow> u8" where
  "command_code Cmd_Echo = 0x01"
| "command_code Cmd_CreateSession = 0x03"
| "command_code Cmd_AuthenticateSession = 0x04"
| "command_code Cmd_SessionMessage = 0x05"
| "command_code Cmd_GetDeviceInfo = 0x06"
| "command_code Cmd_ResetDevice = 0x08"
| "command_code Cmd_GetDevicePublicKey = 0x0a"
| "command_code Cmd_SessionObject = 0x0b"
| "command_code Cmd_DeriveEcdhKdf = 0x0c"
| "command_code Cmd_SignMlDsa = 0x0d"
| "command_code Cmd_EncapsulateMlKem = 0x0e"
| "command_code Cmd_DecapsulateMlKem = 0x0f"
| "command_code Cmd_EncapsulateHybridKem = 0x10"
| "command_code Cmd_DecapsulateHybridKem = 0x11"
| "command_code Cmd_CloseSession = 0x40"
| "command_code Cmd_GetStorageInfo = 0x41"
| "command_code Cmd_PutOpaque = 0x42"
| "command_code Cmd_GetOpaque = 0x43"
| "command_code Cmd_PutAuthenticationKey = 0x44"
| "command_code Cmd_PutAsymmetricKey = 0x45"
| "command_code Cmd_GenerateAsymmetricKey = 0x46"
| "command_code Cmd_SignPkcs1 = 0x47"
| "command_code Cmd_ListObjects = 0x48"
| "command_code Cmd_DecryptPkcs1 = 0x49"
| "command_code Cmd_ExportWrapped = 0x4a"
| "command_code Cmd_ImportWrapped = 0x4b"
| "command_code Cmd_PutWrapKey = 0x4c"
| "command_code Cmd_GetLogEntries = 0x4d"
| "command_code Cmd_GetObjectInfo = 0x4e"
| "command_code Cmd_SetOption = 0x4f"
| "command_code Cmd_GetOption = 0x50"
| "command_code Cmd_GetPseudoRandom = 0x51"
| "command_code Cmd_PutHmacKey = 0x52"
| "command_code Cmd_SignHmac = 0x53"
| "command_code Cmd_GetPublicKey = 0x54"
| "command_code Cmd_SignPss = 0x55"
| "command_code Cmd_SignEcdsa = 0x56"
| "command_code Cmd_DeriveEcdh = 0x57"
| "command_code Cmd_DeleteObject = 0x58"
| "command_code Cmd_DecryptOaep = 0x59"
| "command_code Cmd_GenerateHmacKey = 0x5a"
| "command_code Cmd_GenerateWrapKey = 0x5b"
| "command_code Cmd_VerifyHmac = 0x5c"
| "command_code Cmd_SignSshCertificate = 0x5d"
| "command_code Cmd_PutTemplate = 0x5e"
| "command_code Cmd_GetTemplate = 0x5f"
| "command_code Cmd_DecryptOtp = 0x60"
| "command_code Cmd_CreateOtpAead = 0x61"
| "command_code Cmd_RandomizeOtpAead = 0x62"
| "command_code Cmd_RewrapOtpAead = 0x63"
| "command_code Cmd_SignAttestationCertificate = 0x64"
| "command_code Cmd_PutOtpAeadKey = 0x65"
| "command_code Cmd_GenerateOtpAeadKey = 0x66"
| "command_code Cmd_SetLogIndex = 0x67"
| "command_code Cmd_WrapData = 0x68"
| "command_code Cmd_UnwrapData = 0x69"
| "command_code Cmd_SignEddsa = 0x6a"
| "command_code Cmd_BlinkDevice = 0x6b"
| "command_code Cmd_ChangeAuthenticationKey = 0x6c"
| "command_code Cmd_PutSymmetricKey = 0x6d"
| "command_code Cmd_GenerateSymmetricKey = 0x6e"
| "command_code Cmd_DecryptEcb = 0x6f"
| "command_code Cmd_EncryptEcb = 0x70"
| "command_code Cmd_DecryptCbc = 0x71"
| "command_code Cmd_EncryptCbc = 0x72"
| "command_code Cmd_PutPublicWrapKey = 0x73"
| "command_code Cmd_GetRsaWrappedKey = 0x74"
| "command_code Cmd_PutRsaWrappedKey = 0x75"
| "command_code Cmd_ExportRsaWrapped = 0x76"
| "command_code Cmd_ImportRsaWrapped = 0x77"

definition command_from_byte :: "u8 \<Rightarrow> CommandCode option" where
  "command_from_byte value = map_of
     [(0x01, Cmd_Echo), (0x03, Cmd_CreateSession), (0x04, Cmd_AuthenticateSession),
     (0x05, Cmd_SessionMessage), (0x06, Cmd_GetDeviceInfo), (0x08, Cmd_ResetDevice),
     (0x0a, Cmd_GetDevicePublicKey), (0x0b, Cmd_SessionObject), (0x0c, Cmd_DeriveEcdhKdf),
     (0x0d, Cmd_SignMlDsa), (0x0e, Cmd_EncapsulateMlKem), (0x0f, Cmd_DecapsulateMlKem),
     (0x10, Cmd_EncapsulateHybridKem), (0x11, Cmd_DecapsulateHybridKem),
     (0x40, Cmd_CloseSession), (0x41, Cmd_GetStorageInfo), (0x42, Cmd_PutOpaque),
     (0x43, Cmd_GetOpaque), (0x44, Cmd_PutAuthenticationKey), (0x45, Cmd_PutAsymmetricKey),
     (0x46, Cmd_GenerateAsymmetricKey), (0x47, Cmd_SignPkcs1), (0x48, Cmd_ListObjects),
     (0x49, Cmd_DecryptPkcs1), (0x4a, Cmd_ExportWrapped), (0x4b, Cmd_ImportWrapped),
     (0x4c, Cmd_PutWrapKey), (0x4d, Cmd_GetLogEntries), (0x4e, Cmd_GetObjectInfo),
     (0x4f, Cmd_SetOption), (0x50, Cmd_GetOption), (0x51, Cmd_GetPseudoRandom),
     (0x52, Cmd_PutHmacKey), (0x53, Cmd_SignHmac), (0x54, Cmd_GetPublicKey),
     (0x55, Cmd_SignPss), (0x56, Cmd_SignEcdsa), (0x57, Cmd_DeriveEcdh),
     (0x58, Cmd_DeleteObject), (0x59, Cmd_DecryptOaep), (0x5a, Cmd_GenerateHmacKey),
     (0x5b, Cmd_GenerateWrapKey), (0x5c, Cmd_VerifyHmac), (0x5d, Cmd_SignSshCertificate),
     (0x5e, Cmd_PutTemplate), (0x5f, Cmd_GetTemplate), (0x60, Cmd_DecryptOtp),
     (0x61, Cmd_CreateOtpAead), (0x62, Cmd_RandomizeOtpAead), (0x63, Cmd_RewrapOtpAead),
     (0x64, Cmd_SignAttestationCertificate), (0x65, Cmd_PutOtpAeadKey),
     (0x66, Cmd_GenerateOtpAeadKey), (0x67, Cmd_SetLogIndex), (0x68, Cmd_WrapData),
     (0x69, Cmd_UnwrapData), (0x6a, Cmd_SignEddsa), (0x6b, Cmd_BlinkDevice),
     (0x6c, Cmd_ChangeAuthenticationKey), (0x6d, Cmd_PutSymmetricKey),
     (0x6e, Cmd_GenerateSymmetricKey), (0x6f, Cmd_DecryptEcb), (0x70, Cmd_EncryptEcb),
     (0x71, Cmd_DecryptCbc), (0x72, Cmd_EncryptCbc), (0x73, Cmd_PutPublicWrapKey),
     (0x74, Cmd_GetRsaWrappedKey), (0x75, Cmd_PutRsaWrappedKey),
     (0x76, Cmd_ExportRsaWrapped), (0x77, Cmd_ImportRsaWrapped)] value"

datatype SessionObjectCommand =
    Sob_Read | Sob_VerifyCmac | Sob_ConcatenateKey | Sob_ConcatenateData | Sob_Extract |
    Sob_Sha256 | Sob_CounterKdf | Sob_GenerateAsymmetricKey | Sob_DeriveEcdh |
    Sob_DeleteObject

primrec session_object_code :: "SessionObjectCommand \<Rightarrow> u8" where
  "session_object_code Sob_Read = 0x01"
| "session_object_code Sob_VerifyCmac = 0x02"
| "session_object_code Sob_ConcatenateKey = 0x03"
| "session_object_code Sob_ConcatenateData = 0x04"
| "session_object_code Sob_Extract = 0x05"
| "session_object_code Sob_Sha256 = 0x06"
| "session_object_code Sob_CounterKdf = 0x07"
| "session_object_code Sob_GenerateAsymmetricKey = 0x46"
| "session_object_code Sob_DeriveEcdh = 0x57"
| "session_object_code Sob_DeleteObject = 0x58"

definition session_object_from_byte :: "u8 \<Rightarrow> SessionObjectCommand option" where
  "session_object_from_byte value = map_of
     [(0x01, Sob_Read), (0x02, Sob_VerifyCmac), (0x03, Sob_ConcatenateKey),
     (0x04, Sob_ConcatenateData), (0x05, Sob_Extract), (0x06, Sob_Sha256),
     (0x07, Sob_CounterKdf), (0x46, Sob_GenerateAsymmetricKey), (0x57, Sob_DeriveEcdh),
     (0x58, Sob_DeleteObject)] value"

lemma command_from_code [simp]: "command_from_byte (command_code c) = Some c"
  by (cases c) (simp_all add: command_from_byte_def)

lemma command_code_from: "command_from_byte v = Some c \<Longrightarrow> command_code c = v"
  unfolding command_from_byte_def by (drule map_of_SomeD) auto

lemma session_object_from_code [simp]: "session_object_from_byte (session_object_code c) = Some c"
  by (cases c) (simp_all add: session_object_from_byte_def)

lemma session_object_code_from: "session_object_from_byte v = Some c \<Longrightarrow> session_object_code c = v"
  unfolding session_object_from_byte_def by (drule map_of_SomeD) auto

definition command_supported :: "FirmwareProfile \<Rightarrow> CommandCode \<Rightarrow> bool" where
  "command_supported fw c = (case c of
       Cmd_DeriveEcdhKdf \<Rightarrow> prefixed_ecdh fw
     | Cmd_SessionObject \<Rightarrow> session_objects_profile fw
     | Cmd_SignMlDsa \<Rightarrow> post_quantum fw
     | Cmd_EncapsulateMlKem \<Rightarrow> post_quantum fw
     | Cmd_DecapsulateMlKem \<Rightarrow> post_quantum fw
     | Cmd_EncapsulateHybridKem \<Rightarrow> post_quantum fw
     | Cmd_DecapsulateHybridKem \<Rightarrow> post_quantum fw
     | _ \<Rightarrow> True)"

end
