(* ===== verification/Protocol.thy ===== *)
theory Protocol
  imports Capability Commands Algorithms
begin

text \<open>
  The session capability each command requires (\<^verbatim>\<open>CommandCode::required_session_capability\<close>
  of \<^verbatim>\<open>protocol.rs\<close>).
\<close>

primrec required_session_capability :: "CommandCode \<Rightarrow> Capability option" where
  "required_session_capability Cmd_Echo = None"
| "required_session_capability Cmd_CreateSession = None"
| "required_session_capability Cmd_AuthenticateSession = None"
| "required_session_capability Cmd_SessionMessage = None"
| "required_session_capability Cmd_GetDeviceInfo = None"
| "required_session_capability Cmd_ResetDevice = Some Cap_ResetDevice"
| "required_session_capability Cmd_GetDevicePublicKey = None"
| "required_session_capability Cmd_SessionObject = Some Cap_SessionObjects"
| "required_session_capability Cmd_DeriveEcdhKdf = Some Cap_DeriveEcdhKdf"
| "required_session_capability Cmd_SignMlDsa = Some Cap_SignMlDsa"
| "required_session_capability Cmd_EncapsulateMlKem = Some Cap_EncapsulateMlKem"
| "required_session_capability Cmd_DecapsulateMlKem = Some Cap_DecapsulateMlKem"
| "required_session_capability Cmd_EncapsulateHybridKem = Some Cap_EncapsulateHybridKem"
| "required_session_capability Cmd_DecapsulateHybridKem = Some Cap_DecapsulateHybridKem"
| "required_session_capability Cmd_CloseSession = None"
| "required_session_capability Cmd_GetStorageInfo = None"
| "required_session_capability Cmd_PutOpaque = Some Cap_PutOpaque"
| "required_session_capability Cmd_GetOpaque = Some Cap_GetOpaque"
| "required_session_capability Cmd_PutAuthenticationKey = Some Cap_PutAuthenticationKey"
| "required_session_capability Cmd_PutAsymmetricKey = Some Cap_PutAsymmetricKey"
| "required_session_capability Cmd_GenerateAsymmetricKey = Some Cap_GenerateAsymmetricKey"
| "required_session_capability Cmd_SignPkcs1 = Some Cap_SignPkcs"
| "required_session_capability Cmd_ListObjects = None"
| "required_session_capability Cmd_DecryptPkcs1 = Some Cap_DecryptPkcs"
| "required_session_capability Cmd_ExportWrapped = Some Cap_ExportWrapped"
| "required_session_capability Cmd_ImportWrapped = Some Cap_ImportWrapped"
| "required_session_capability Cmd_PutWrapKey = Some Cap_PutWrapKey"
| "required_session_capability Cmd_GetLogEntries = Some Cap_GetLogEntries"
| "required_session_capability Cmd_GetObjectInfo = None"
| "required_session_capability Cmd_SetOption = Some Cap_SetOption"
| "required_session_capability Cmd_GetOption = Some Cap_GetOption"
| "required_session_capability Cmd_GetPseudoRandom = Some Cap_GetPseudoRandom"
| "required_session_capability Cmd_PutHmacKey = Some Cap_PutMacKey"
| "required_session_capability Cmd_SignHmac = Some Cap_SignHmac"
| "required_session_capability Cmd_GetPublicKey = None"
| "required_session_capability Cmd_SignPss = Some Cap_SignPss"
| "required_session_capability Cmd_SignEcdsa = Some Cap_SignEcdsa"
| "required_session_capability Cmd_DeriveEcdh = Some Cap_DeriveEcdh"
| "required_session_capability Cmd_DeleteObject = None"
| "required_session_capability Cmd_DecryptOaep = Some Cap_DecryptOaep"
| "required_session_capability Cmd_GenerateHmacKey = Some Cap_GenerateHmacKey"
| "required_session_capability Cmd_GenerateWrapKey = Some Cap_GenerateWrapKey"
| "required_session_capability Cmd_VerifyHmac = Some Cap_VerifyHmac"
| "required_session_capability Cmd_SignSshCertificate = Some Cap_SignSshCertificate"
| "required_session_capability Cmd_PutTemplate = Some Cap_PutTemplate"
| "required_session_capability Cmd_GetTemplate = Some Cap_GetTemplate"
| "required_session_capability Cmd_DecryptOtp = Some Cap_DecryptOtp"
| "required_session_capability Cmd_CreateOtpAead = Some Cap_CreateOtpAead"
| "required_session_capability Cmd_RandomizeOtpAead = Some Cap_RandomizeOtpAead"
| "required_session_capability Cmd_RewrapOtpAead = None"
| "required_session_capability Cmd_SignAttestationCertificate = Some Cap_SignAttestationCertificate"
| "required_session_capability Cmd_PutOtpAeadKey = Some Cap_PutOtpAeadKey"
| "required_session_capability Cmd_GenerateOtpAeadKey = Some Cap_GenerateOtpAeadKey"
| "required_session_capability Cmd_SetLogIndex = Some Cap_SetOption"
| "required_session_capability Cmd_WrapData = Some Cap_WrapData"
| "required_session_capability Cmd_UnwrapData = Some Cap_UnwrapData"
| "required_session_capability Cmd_SignEddsa = Some Cap_SignEddsa"
| "required_session_capability Cmd_BlinkDevice = None"
| "required_session_capability Cmd_ChangeAuthenticationKey = Some Cap_ChangeAuthenticationKey"
| "required_session_capability Cmd_PutSymmetricKey = Some Cap_PutSymmetricKey"
| "required_session_capability Cmd_GenerateSymmetricKey = Some Cap_GenerateSymmetricKey"
| "required_session_capability Cmd_DecryptEcb = Some Cap_DecryptEcb"
| "required_session_capability Cmd_EncryptEcb = Some Cap_EncryptEcb"
| "required_session_capability Cmd_DecryptCbc = Some Cap_DecryptCbc"
| "required_session_capability Cmd_EncryptCbc = Some Cap_EncryptCbc"
| "required_session_capability Cmd_PutPublicWrapKey = Some Cap_PutPublicWrapKey"
| "required_session_capability Cmd_GetRsaWrappedKey = Some Cap_ExportWrapped"
| "required_session_capability Cmd_PutRsaWrappedKey = Some Cap_ImportWrapped"
| "required_session_capability Cmd_ExportRsaWrapped = Some Cap_ExportWrapped"
| "required_session_capability Cmd_ImportRsaWrapped = Some Cap_ImportWrapped"

end
