(* ===== verification/Requests.thy ===== *)
theory Requests
  imports Objects Protocol
begin

unbundle bit_operations_syntax

text \<open>
  The typed requests of every command and their decoders (\<^verbatim>\<open>request.rs\<close>). Requests that the
  source stamps out with one macro share one record and one decoder here. The codec
  interpretations show that each decoder accepts exactly the published field layout.
\<close>

lemma and_then_cong [fundef_cong]:
  "m = m' \<Longrightarrow> (\<And>x. m' = Ok x \<Longrightarrow> f x = g x) \<Longrightarrow> and_then m f = and_then m' g"
  by (cases m') auto

section \<open>Macro-generated requests\<close>

text \<open>
  \<^verbatim>\<open>empty_requests\<close>: GetDevicePublicKey, CloseSession, GetStorageInfo, GetLogEntries, ResetDevice.
\<close>

definition decode_empty :: "unit decoder" where
  "decode_empty r = Ok ((), r)"

text \<open>\<^verbatim>\<open>remainder_requests\<close>: Echo.\<close>

definition decode_remainder :: "bytes decoder" where
  "decode_remainder r = Ok (read_remainder r)"

text \<open>\<^verbatim>\<open>u8_requests\<close>: GetOption, BlinkDevice.\<close>

definition decode_u8 :: "u8 decoder" where
  "decode_u8 r = read_u8 r"

text \<open>
  \<^verbatim>\<open>u16_requests\<close>: GetPseudoRandom, SetLogIndex, GetOpaque, GetTemplate, RandomizeOtpAead;
  EncapsulateMlKem has the same single field.
\<close>

definition decode_u16 :: "u16 decoder" where
  "decode_u16 r = read_u16 r"

text \<open>
  \<^verbatim>\<open>id_remainder_requests\<close>: SignPkcs1, SignEcdsa, SignEddsa, DecapsulateMlKem, DeriveEcdh,
  DecryptPkcs1, SignHmac, VerifyHmac, WrapData, UnwrapData, EncryptEcb, DecryptEcb.
\<close>

record IdRemainderRequest =
  ir_id :: u16
  ir_payload :: bytes

definition decode_id_remainder :: "IdRemainderRequest decoder" where
  "decode_id_remainder r = and_then (read_u16 r) (\<lambda>(i, r).
     let (p, r) = read_remainder r in Ok (\<lparr>ir_id = i, ir_payload = p\<rparr>, r))"

section \<open>List filters\<close>

record ObjectFilters =
  fl_id :: "u16 option"
  fl_object_type :: "ObjectType option"
  fl_domains :: "u16 option"
  fl_capabilities :: "CapabilitySet option"
  fl_algorithm :: "u8 option"
  fl_label :: "bytes option"

definition filters_default :: ObjectFilters where
  "filters_default = \<lparr>fl_id = None, fl_object_type = None, fl_domains = None,
     fl_capabilities = None, fl_algorithm = None, fl_label = None\<rparr>"

definition trim_label :: "bytes \<Rightarrow> bytes" where
  "trim_label label = takeWhile (\<lambda>b. b \<noteq> 0) label"

text \<open>One turn of the \<^verbatim>\<open>while\<close> loop of \<^verbatim>\<open>ObjectFilters::decode\<close>.\<close>

definition filter_step :: "ObjectFilters \<Rightarrow> ObjectFilters decoder" where
  "filter_step f r = and_then (read_u8 r) (\<lambda>(tag, r).
     if tag = 1 then and_then (read_u16 r) (\<lambda>(v, r). Ok (f\<lparr>fl_id := Some v\<rparr>, r))
     else if tag = 2 then
       and_then (read_u8 r) (\<lambda>(b, r).
       and_then (ok_or (object_type_from_byte b) InvalidData) (\<lambda>t.
         Ok (f\<lparr>fl_object_type := Some t\<rparr>, r)))
     else if tag = 3 then and_then (read_u16 r) (\<lambda>(v, r). Ok (f\<lparr>fl_domains := Some v\<rparr>, r))
     else if tag = 4 then and_then (read_array 8 r) (\<lambda>(v, r). Ok (f\<lparr>fl_capabilities := Some v\<rparr>, r))
     else if tag = 5 then and_then (read_u8 r) (\<lambda>(v, r). Ok (f\<lparr>fl_algorithm := Some v\<rparr>, r))
     else if tag = 6 then
       and_then (read_array 40 r) (\<lambda>(v, r). Ok (f\<lparr>fl_label := Some (trim_label v)\<rparr>, r))
     else Err InvalidData)"

lemma filter_step_progress: "filter_step f r = Ok (f', r') \<Longrightarrow> length r' < length r"
  by (auto simp: filter_step_def split: if_splits)

function filters_loop :: "ObjectFilters \<Rightarrow> ObjectFilters decoder" where
  "filters_loop f r =
     (if remaining_len r = 0 then Ok (f, r)
      else and_then (filter_step f r) (\<lambda>s. filters_loop (fst s) (snd s)))"
  by pat_completeness auto
termination
  by (relation "measure (\<lambda>(f, r). length r)") (auto dest: filter_step_progress)

declare filters_loop.simps [simp del]

definition decode_filters :: "ObjectFilters decoder" where
  "decode_filters r = filters_loop filters_default r"

definition is_none_or :: "('a \<Rightarrow> bool) \<Rightarrow> 'a option \<Rightarrow> bool" where
  "is_none_or p x = (case x of None \<Rightarrow> True | Some v \<Rightarrow> p v)"

definition filters_match :: "ObjectFilters \<Rightarrow> ObjectInfo \<Rightarrow> bool" where
  "filters_match f object =
     (is_none_or (\<lambda>i. oi_id object = i) (fl_id f)
      \<and> is_none_or (\<lambda>t. oi_object_type object = t) (fl_object_type f)
      \<and> is_none_or (\<lambda>d. oi_domains object AND d \<noteq> 0) (fl_domains f)
      \<and> is_none_or (\<lambda>c. cap_contains_all (oi_capabilities object) c) (fl_capabilities f)
      \<and> is_none_or (\<lambda>a. oi_algorithm object = a) (fl_algorithm f)
      \<and> is_none_or (\<lambda>l. oi_label object = l) (fl_label f))"

section \<open>Device, session and object-key requests\<close>

definition decode_get_device_info :: "u8 option decoder" where
  "decode_get_device_info r =
     (if remaining_len r = 0 then Ok (None, r)
      else if remaining_len r = 1 then and_then (read_u8 r) (\<lambda>(b, r). Ok (Some b, r))
      else Err InvalidData)"

record CreateSessionRequest =
  cs_authentication_key_id :: u16
  cs_host_challenge_or_public_key :: bytes

definition decode_create_session :: "CreateSessionRequest decoder" where
  "decode_create_session r = and_then (read_u16 r) (\<lambda>(i, r).
     let (h, r) = read_remainder r in
     Ok (\<lparr>cs_authentication_key_id = i, cs_host_challenge_or_public_key = h\<rparr>, r))"

text \<open>\<^verbatim>\<open>SessionEnvelopeRequest\<close>: session id and the opaque body.\<close>

definition decode_session_envelope :: "(u8 \<times> bytes) decoder" where
  "decode_session_envelope r = and_then (read_u8 r) (\<lambda>(sid, r).
     let (b, r) = read_remainder r in Ok ((sid, b), r))"

text \<open>\<^verbatim>\<open>ObjectKeyRequest\<close>: GetObjectInfo and DeleteObject.\<close>

definition decode_object_key :: "ObjectKey decoder" where
  "decode_object_key r =
     and_then (read_u16 r) (\<lambda>(i, r).
     and_then (read_u8 r) (\<lambda>(b, r).
     and_then (ok_or (object_type_from_byte b) InvalidData) (\<lambda>t. Ok (ObjectKey t i, r))))"

text \<open>\<^verbatim>\<open>GetPublicKeyRequest\<close>: the type byte is optional.\<close>

definition decode_get_public_key :: "ObjectKey decoder" where
  "decode_get_public_key r =
     and_then (read_u16 r) (\<lambda>(i, r).
     if remaining_len r = 0 then Ok (ObjectKey Ty_AsymmetricKey i, r)
     else if remaining_len r = 1 then
       and_then (read_u8 r) (\<lambda>(b, r).
       and_then (ok_or (object_type_from_byte b) InvalidData) (\<lambda>t. Ok (ObjectKey t i, r)))
     else Err WrongLength)"

record SetOptionRequest =
  st_option :: u8
  st_values :: bytes

definition decode_set_option :: "SetOptionRequest decoder" where
  "decode_set_option r =
     and_then (read_u8 r) (\<lambda>(opt, r).
     and_then (read_u16_sized_slice r) (\<lambda>(v, r). Ok (\<lparr>st_option = opt, st_values = v\<rparr>, r)))"

section \<open>Object creation requests\<close>

record ObjectHeader =
  oh_requested_id :: u16
  oh_label :: bytes
  oh_domains :: u16
  oh_capabilities :: CapabilitySet
  oh_algorithm :: u8

definition decode_object_header :: "ObjectHeader decoder" where
  "decode_object_header r =
     and_then (read_u16 r) (\<lambda>(i, r).
     and_then (read_array 40 r) (\<lambda>(l, r).
     and_then (read_u16 r) (\<lambda>(d, r).
     and_then (read_array 8 r) (\<lambda>(c, r).
     and_then (read_u8 r) (\<lambda>(a, r).
     Ok (\<lparr>oh_requested_id = i, oh_label = l, oh_domains = d, oh_capabilities = c,
          oh_algorithm = a\<rparr>, r))))))"

text \<open>
  \<^verbatim>\<open>object_requests\<close>: PutOpaque, PutAsymmetricKey, GenerateAsymmetricKey, PutHmacKey,
  GenerateHmacKey, PutSymmetricKey, GenerateSymmetricKey, PutTemplate.
\<close>

record ObjectRequest =
  oq_header :: ObjectHeader
  oq_material :: bytes

definition decode_object_request :: "ObjectRequest decoder" where
  "decode_object_request r =
     and_then (decode_object_header r) (\<lambda>(h, r).
     let (m, r) = read_remainder r in Ok (\<lparr>oq_header = h, oq_material = m\<rparr>, r))"

text \<open>
  \<^verbatim>\<open>DelegatedObjectRequest\<close>: PutAuthenticationKey, PutWrapKey, GenerateWrapKey, PutPublicWrapKey.
\<close>

record DelegatedObjectRequest =
  dq_header :: ObjectHeader
  dq_delegated_capabilities :: CapabilitySet
  dq_material :: bytes

definition decode_delegated_object :: "DelegatedObjectRequest decoder" where
  "decode_delegated_object r =
     and_then (decode_object_header r) (\<lambda>(h, r).
     and_then (read_array 8 r) (\<lambda>(c, r).
     let (m, r) = read_remainder r in
     Ok (\<lparr>dq_header = h, dq_delegated_capabilities = c, dq_material = m\<rparr>, r)))"

text \<open>\<^verbatim>\<open>OtpAeadKeyRequest\<close>: PutOtpAeadKey and GenerateOtpAeadKey.\<close>

record OtpAeadKeyRequest =
  ok_header :: ObjectHeader
  ok_nonce_id :: bytes
  ok_material :: bytes

definition decode_otp_aead_key :: "OtpAeadKeyRequest decoder" where
  "decode_otp_aead_key r =
     and_then (decode_object_header r) (\<lambda>(h, r).
     and_then (read_array 4 r) (\<lambda>(n, r).
     let (m, r) = read_remainder r in
     Ok (\<lparr>ok_header = h, ok_nonce_id = n, ok_material = m\<rparr>, r)))"

section \<open>Cryptographic operation requests\<close>

record SignPssRequest =
  sp_id :: u16
  sp_mgf_hash :: u8
  sp_salt_length :: u16
  sp_digest :: bytes

definition decode_sign_pss :: "SignPssRequest decoder" where
  "decode_sign_pss r =
     and_then (read_u16 r) (\<lambda>(i, r).
     and_then (read_u8 r) (\<lambda>(m, r).
     and_then (read_u16 r) (\<lambda>(s, r).
     let (d, r) = read_remainder r in
     Ok (\<lparr>sp_id = i, sp_mgf_hash = m, sp_salt_length = s, sp_digest = d\<rparr>, r))))"

record SignMlDsaRequest =
  sm_prehash :: "u8 option"
  sm_id :: u16
  sm_mode :: u8
  sm_context :: bytes
  sm_message :: bytes

definition decode_sign_ml_dsa :: "'k lib \<Rightarrow> SignMlDsaRequest decoder" where
  "decode_sign_ml_dsa L r =
     and_then (read_u16 r) (\<lambda>(i, r).
     and_then (read_u8 r) (\<lambda>(mode, r).
     and_then (read_u8 r) (\<lambda>(hash, r).
     and_then (if hash = 0 then Ok None
               else ok_or (map_option (\<lambda>_. Some hash) (ml_dsa_prehash_length L hash)) InvalidData)
       (\<lambda>prehash.
     and_then (read_u8_sized_slice r) (\<lambda>(context, r).
     let (message, r) = read_remainder r in
     if (case prehash of Some h \<Rightarrow> Some (length message) \<noteq> ml_dsa_prehash_length L h | None \<Rightarrow> False)
     then Err WrongLength
     else Ok (\<lparr>sm_prehash = prehash, sm_id = i, sm_mode = mode, sm_context = context,
               sm_message = message\<rparr>, r))))))"

record DeriveEcdhKdfRequest =
  dk_id :: u16
  dk_hash :: u8
  dk_output_length :: u16
  dk_peer_public :: bytes
  dk_prefix :: bytes
  dk_shared_info :: bytes

definition decode_derive_ecdh_kdf :: "DeriveEcdhKdfRequest decoder" where
  "decode_derive_ecdh_kdf r =
     and_then (read_u16 r) (\<lambda>(i, r).
     and_then (read_u8 r) (\<lambda>(h, r).
     and_then (read_u16 r) (\<lambda>(out, r).
     and_then (read_u16 r) (\<lambda>(peer_length, r).
     and_then (read_u16 r) (\<lambda>(prefix_length, r).
     and_then (read_u16 r) (\<lambda>(info_length, r).
     and_then (read_slice (unat peer_length) r) (\<lambda>(peer, r).
     and_then (read_slice (unat prefix_length) r) (\<lambda>(prefix, r).
     and_then (read_slice (unat info_length) r) (\<lambda>(info, r).
     Ok (\<lparr>dk_id = i, dk_hash = h, dk_output_length = out, dk_peer_public = peer,
          dk_prefix = prefix, dk_shared_info = info\<rparr>, r))))))))))"

record DecryptOaepRequest =
  do_id :: u16
  do_mgf_hash :: u8
  do_ciphertext_and_label :: bytes

definition decode_decrypt_oaep :: "DecryptOaepRequest decoder" where
  "decode_decrypt_oaep r =
     and_then (read_u16 r) (\<lambda>(i, r).
     and_then (read_u8 r) (\<lambda>(m, r).
     let (c, r) = read_remainder r in
     Ok (\<lparr>do_id = i, do_mgf_hash = m, do_ciphertext_and_label = c\<rparr>, r)))"

record AesCbcRequest =
  ac_id :: u16
  ac_iv :: bytes
  ac_input :: bytes

definition decode_aes_cbc :: "AesCbcRequest decoder" where
  "decode_aes_cbc r =
     and_then (read_u16 r) (\<lambda>(i, r).
     and_then (read_array 16 r) (\<lambda>(iv, r).
     let (c, r) = read_remainder r in Ok (\<lparr>ac_id = i, ac_iv = iv, ac_input = c\<rparr>, r)))"

section \<open>Wrapping requests\<close>

record ExportWrappedRequest =
  ew_wrap_id :: u16
  ew_target :: ObjectKey
  ew_format :: "u8 option"

definition decode_export_wrapped :: "ExportWrappedRequest decoder" where
  "decode_export_wrapped r =
     and_then (read_u16 r) (\<lambda>(w, r).
     and_then (read_u8 r) (\<lambda>(b, r).
     and_then (ok_or (object_type_from_byte b) InvalidData) (\<lambda>t.
     and_then (read_u16 r) (\<lambda>(i, r).
     and_then (if remaining_len r = 0 then Ok (None, r)
               else if remaining_len r = 1 then and_then (read_u8 r) (\<lambda>(f, r). Ok (Some f, r))
               else Err WrongLength) (\<lambda>(format, r).
     Ok (\<lparr>ew_wrap_id = w, ew_target = ObjectKey t i, ew_format = format\<rparr>, r))))))"

record ImportWrappedRequest =
  iw_wrap_id :: u16
  iw_format :: u8
  iw_nonce :: bytes
  iw_ciphertext :: bytes

definition decode_import_wrapped :: "ImportWrappedRequest decoder" where
  "decode_import_wrapped r =
     and_then (read_u16 r) (\<lambda>(w, r).
     and_then (read_u8 r) (\<lambda>(f, r).
     and_then (read_array 13 r) (\<lambda>(n, r).
     let (c, r) = read_remainder r in
     Ok (\<lparr>iw_wrap_id = w, iw_format = f, iw_nonce = n, iw_ciphertext = c\<rparr>, r))))"

text \<open>\<^verbatim>\<open>CreateOtpAeadRequest\<close>: key id and the 22-byte credential.\<close>

definition decode_create_otp_aead :: "(u16 \<times> bytes) decoder" where
  "decode_create_otp_aead r =
     and_then (read_u16 r) (\<lambda>(i, r). and_then (read_array 22 r) (\<lambda>(c, r). Ok ((i, c), r)))"

record DecryptOtpRequest =
  dt_id :: u16
  dt_aead :: bytes
  dt_otp :: bytes

definition decode_decrypt_otp :: "DecryptOtpRequest decoder" where
  "decode_decrypt_otp r =
     and_then (read_u16 r) (\<lambda>(i, r).
     and_then (read_array 36 r) (\<lambda>(a, r).
     and_then (read_array 16 r) (\<lambda>(t, r).
     Ok (\<lparr>dt_id = i, dt_aead = a, dt_otp = t\<rparr>, r))))"

record RewrapOtpAeadRequest =
  rw_from_id :: u16
  rw_to_id :: u16
  rw_aead :: bytes

definition decode_rewrap_otp_aead :: "RewrapOtpAeadRequest decoder" where
  "decode_rewrap_otp_aead r =
     and_then (read_u16 r) (\<lambda>(f, r).
     and_then (read_u16 r) (\<lambda>(t, r).
     and_then (read_array 36 r) (\<lambda>(a, r).
     Ok (\<lparr>rw_from_id = f, rw_to_id = t, rw_aead = a\<rparr>, r))))"

text \<open>\<^verbatim>\<open>SignAttestationCertificateRequest\<close>: target and attesting key.\<close>

definition decode_sign_attestation :: "(u16 \<times> u16) decoder" where
  "decode_sign_attestation r =
     and_then (read_u16 r) (\<lambda>(t, r). and_then (read_u16 r) (\<lambda>(a, r). Ok ((t, a), r)))"

record ChangeAuthenticationKeyRequest =
  ca_id :: u16
  ca_algorithm :: u8
  ca_material :: bytes

definition decode_change_authentication_key :: "ChangeAuthenticationKeyRequest decoder" where
  "decode_change_authentication_key r =
     and_then (read_u16 r) (\<lambda>(i, r).
     and_then (read_u8 r) (\<lambda>(a, r).
     let (m, r) = read_remainder r in
     Ok (\<lparr>ca_id = i, ca_algorithm = a, ca_material = m\<rparr>, r)))"

record ExportRsaWrappedFields =
  er_wrap_id :: u16
  er_target :: ObjectKey
  er_aes_algorithm :: u8
  er_oaep_hash :: u8
  er_mgf_hash :: u8
  er_label_hash :: bytes

definition decode_export_rsa_wrapped :: "ExportRsaWrappedFields decoder" where
  "decode_export_rsa_wrapped r =
     and_then (read_u16 r) (\<lambda>(w, r).
     and_then (read_u8 r) (\<lambda>(b, r).
     and_then (ok_or (object_type_from_byte b) InvalidData) (\<lambda>t.
     and_then (read_u16 r) (\<lambda>(i, r).
     and_then (read_u8 r) (\<lambda>(a, r).
     and_then (read_u8 r) (\<lambda>(oaep, r).
     and_then (read_u8 r) (\<lambda>(m, r).
     let (l, r) = read_remainder r in
     Ok (\<lparr>er_wrap_id = w, er_target = ObjectKey t i, er_aes_algorithm = a, er_oaep_hash = oaep,
          er_mgf_hash = m, er_label_hash = l\<rparr>, r))))))))"

record ImportRsaWrappedRequest =
  im_wrap_id :: u16
  im_oaep_hash :: u8
  im_mgf_hash :: u8
  im_wrapped_and_label :: bytes

definition decode_import_rsa_wrapped :: "ImportRsaWrappedRequest decoder" where
  "decode_import_rsa_wrapped r =
     and_then (read_u16 r) (\<lambda>(w, r).
     and_then (read_u8 r) (\<lambda>(oaep, r).
     and_then (read_u8 r) (\<lambda>(m, r).
     let (l, r) = read_remainder r in
     Ok (\<lparr>im_wrap_id = w, im_oaep_hash = oaep, im_mgf_hash = m, im_wrapped_and_label = l\<rparr>, r))))"

record PutRsaWrappedKeyRequest =
  pr_wrap_id :: u16
  pr_object_type :: ObjectType
  pr_requested_id :: u16
  pr_label :: bytes
  pr_domains :: u16
  pr_capabilities :: CapabilitySet
  pr_algorithm :: u8
  pr_oaep_hash :: u8
  pr_mgf_hash :: u8
  pr_wrapped_and_label :: bytes

definition decode_put_rsa_wrapped_key :: "PutRsaWrappedKeyRequest decoder" where
  "decode_put_rsa_wrapped_key r =
     and_then (read_u16 r) (\<lambda>(w, r).
     and_then (read_u8 r) (\<lambda>(b, r).
     and_then (ok_or (object_type_from_byte b) InvalidData) (\<lambda>t.
     and_then (read_u16 r) (\<lambda>(i, r).
     and_then (read_array 40 r) (\<lambda>(l, r).
     and_then (read_u16 r) (\<lambda>(d, r).
     and_then (read_array 8 r) (\<lambda>(c, r).
     and_then (read_u8 r) (\<lambda>(a, r).
     and_then (read_u8 r) (\<lambda>(oaep, r).
     and_then (read_u8 r) (\<lambda>(m, r).
     let (wl, r) = read_remainder r in
     Ok (\<lparr>pr_wrap_id = w, pr_object_type = t, pr_requested_id = i, pr_label = l, pr_domains = d,
          pr_capabilities = c, pr_algorithm = a, pr_oaep_hash = oaep, pr_mgf_hash = m,
          pr_wrapped_and_label = wl\<rparr>, r)))))))))))"

section \<open>Session-object requests\<close>

datatype SessionObjectKind = GenericSecret | Aes | P256Private

primrec session_kind_code :: "SessionObjectKind \<Rightarrow> u8" where
  "session_kind_code GenericSecret = 1"
| "session_kind_code Aes = 2"
| "session_kind_code P256Private = 3"

definition session_kind_from_byte :: "u8 \<Rightarrow> SessionObjectKind option" where
  "session_kind_from_byte value = map_of [(1, GenericSecret), (2, Aes), (3, P256Private)] value"

text \<open>\<^verbatim>\<open>SessionObjectRequest\<close>: the nested operation and its payload.\<close>

definition decode_session_object :: "(SessionObjectCommand \<times> bytes) decoder" where
  "decode_session_object r =
     and_then (read_u8 r) (\<lambda>(b, r).
     and_then (ok_or (session_object_from_byte b) InvalidData) (\<lambda>operation.
     let (p, r) = read_remainder r in Ok ((operation, p), r)))"

datatype SessionSourceRequest =
  Volatile u64 | PersistentAsymmetric u16 | PersistentSymmetric u16

definition decode_session_source :: "SessionSourceRequest decoder" where
  "decode_session_source r =
     and_then (read_u8 r) (\<lambda>(tag, r).
     if tag = 0 then and_then (read_u64 r) (\<lambda>(h, r). Ok (Volatile h, r))
     else if tag = 1 then and_then (read_u16 r) (\<lambda>(i, r). Ok (PersistentAsymmetric i, r))
     else if tag = 2 then and_then (read_u16 r) (\<lambda>(i, r). Ok (PersistentSymmetric i, r))
     else Err InvalidData)"

record SessionResultHeader =
  sh_flags :: u8
  sh_kind :: SessionObjectKind
  sh_output_length :: u16

definition decode_session_result_header :: "SessionResultHeader decoder" where
  "decode_session_result_header r =
     and_then (read_u8 r) (\<lambda>(f, r).
     and_then (read_u8 r) (\<lambda>(b, r).
     and_then (ok_or (session_kind_from_byte b) InvalidData) (\<lambda>k.
     and_then (read_u16 r) (\<lambda>(n, r).
     Ok (\<lparr>sh_flags = f, sh_kind = k, sh_output_length = n\<rparr>, r)))))"

text \<open>\<^verbatim>\<open>GenerateSessionAsymmetricKeyRequest\<close>: flags and algorithm.\<close>

definition decode_generate_session_key :: "(u8 \<times> u8) decoder" where
  "decode_generate_session_key r =
     and_then (read_u8 r) (\<lambda>(f, r). and_then (read_u8 r) (\<lambda>(a, r). Ok ((f, a), r)))"

definition decode_derive_session_ecdh ::
  "(SessionResultHeader \<times> SessionSourceRequest \<times> bytes) decoder" where
  "decode_derive_session_ecdh r =
     and_then (decode_session_result_header r) (\<lambda>(h, r).
     and_then (decode_session_source r) (\<lambda>(s, r).
     and_then (read_u16_sized_slice r) (\<lambda>(p, r). Ok ((h, s, p), r))))"

definition decode_concatenate_session_keys :: "(SessionResultHeader \<times> u64 \<times> u64) decoder" where
  "decode_concatenate_session_keys r =
     and_then (decode_session_result_header r) (\<lambda>(h, r).
     and_then (read_u64 r) (\<lambda>(a, r).
     and_then (read_u64 r) (\<lambda>(b, r). Ok ((h, a, b), r))))"

definition decode_concatenate_session_data :: "(SessionResultHeader \<times> u64 \<times> bytes) decoder" where
  "decode_concatenate_session_data r =
     and_then (decode_session_result_header r) (\<lambda>(h, r).
     and_then (read_u64 r) (\<lambda>(b, r).
     let (d, r) = read_remainder r in Ok ((h, b, d), r)))"

definition decode_extract_session_object :: "(SessionResultHeader \<times> u64 \<times> u16) decoder" where
  "decode_extract_session_object r =
     and_then (decode_session_result_header r) (\<lambda>(h, r).
     and_then (read_u64 r) (\<lambda>(b, r).
     and_then (read_u16 r) (\<lambda>(off, r). Ok ((h, b, off), r))))"

definition decode_sha256_session_object :: "(SessionResultHeader \<times> u64) decoder" where
  "decode_sha256_session_object r =
     and_then (decode_session_result_header r) (\<lambda>(h, r).
     and_then (read_u64 r) (\<lambda>(b, r). Ok ((h, b), r)))"

text \<open>One turn of the field loop of \<^verbatim>\<open>CounterKdfSessionObjectRequest::decode\<close>.\<close>

definition decode_kdf_field :: "CounterKdfField decoder" where
  "decode_kdf_field r =
     and_then (read_u8 r) (\<lambda>(kind, r).
     if kind = 0 then
       and_then (read_u16_sized_slice r) (\<lambda>(v, r).
         if v = [] then Err WrongLength else Ok (Field_Bytes v, r))
     else if kind = 1 \<or> kind = 2 then
       and_then (read_u8 r) (\<lambda>(w, r).
       and_then (read_u8 r) (\<lambda>(e, r).
       and_then (if e = 0 then Ok False else if e = 1 then Ok True else Err InvalidData) (\<lambda>little.
       let format = \<lparr>width_bits = w, little_endian = little\<rparr> in
       if kind = 1 then Ok (Field_Counter format, r)
       else
         and_then (read_u8 r) (\<lambda>(m, r).
         and_then (if m = 0 then Ok LengthKey else if m = 1 then Ok LengthSegments
                   else Err InvalidData) (\<lambda>method. Ok (Field_Length format method, r))))))
     else Err InvalidData)"

primrec decode_kdf_fields :: "nat \<Rightarrow> CounterKdfField list decoder" where
  "decode_kdf_fields 0 r = Ok ([], r)"
| "decode_kdf_fields (Suc n) r =
     and_then (decode_kdf_field r) (\<lambda>(f, r).
     and_then (decode_kdf_fields n r) (\<lambda>(fs, r). Ok (f # fs, r)))"

definition decode_counter_kdf ::
  "(SessionResultHeader \<times> SessionSourceRequest \<times> CounterKdfField list) decoder" where
  "decode_counter_kdf r =
     and_then (decode_session_result_header r) (\<lambda>(h, r).
     and_then (decode_session_source r) (\<lambda>(s, r).
     and_then (read_u8 r) (\<lambda>(c, r).
     if \<not> (1 \<le> unat c \<and> unat c \<le> 64) then Err InvalidData
     else and_then (decode_kdf_fields (unat c) r) (\<lambda>(fs, r). Ok ((h, s, fs), r)))))"

text \<open>\<^verbatim>\<open>ReadSessionObjectRequest\<close> and \<^verbatim>\<open>DeleteSessionObjectRequest\<close>: a handle.\<close>

definition decode_handle :: "u64 decoder" where
  "decode_handle r = read_u64 r"

text \<open>\<^verbatim>\<open>VerifySessionCmacRequest\<close>: handle, sized signature, message.\<close>

definition decode_verify_session_cmac :: "(u64 \<times> bytes \<times> bytes) decoder" where
  "decode_verify_session_cmac r =
     and_then (read_u64 r) (\<lambda>(h, r).
     and_then (read_u8_sized_slice r) (\<lambda>(s, r).
     let (m, r) = read_remainder r in Ok ((h, s, m), r)))"

end
