(* ===== verification/Btree.thy ===== *)
theory Btree
  imports Prelude
begin

text \<open>
  Rust's \<^verbatim>\<open>BTreeMap\<close>: a finite map whose iteration follows the order of its keys.
  The source keeps its objects, sessions, volatile objects, option tables and object
  generations in such maps. The model is the list of entries in key order; the locale
  \<open>ordered_map\<close> states the interface the components rely on, and its lemmas are the
  facts about it that the component proofs use.
\<close>

section \<open>The map as its list of entries\<close>

type_synonym ('k, 'v) btree = "('k \<times> 'v) list"

definition bt_empty :: "('k, 'v) btree" where
  "bt_empty = []"

definition bt_get :: "('k, 'v) btree \<Rightarrow> 'k \<Rightarrow> 'v option" where
  "bt_get m k = map_of m k"

primrec bt_insert :: "'k::linorder \<Rightarrow> 'v \<Rightarrow> ('k, 'v) btree \<Rightarrow> ('k, 'v) btree" where
  "bt_insert k v [] = [(k, v)]"
| "bt_insert k v (e # m) =
     (if fst e < k then e # bt_insert k v m
      else if fst e = k then (k, v) # m
      else (k, v) # e # m)"

definition bt_remove :: "'k \<Rightarrow> ('k, 'v) btree \<Rightarrow> ('k, 'v) btree" where
  "bt_remove k m = filter (\<lambda>e. fst e \<noteq> k) m"

definition bt_retain :: "('k \<Rightarrow> 'v \<Rightarrow> bool) \<Rightarrow> ('k, 'v) btree \<Rightarrow> ('k, 'v) btree" where
  "bt_retain p m = filter (\<lambda>(k, v). p k v) m"

definition bt_contains :: "('k, 'v) btree \<Rightarrow> 'k \<Rightarrow> bool" where
  "bt_contains m k = (bt_get m k \<noteq> None)"

definition bt_wf :: "('k::linorder, 'v) btree \<Rightarrow> bool" where
  "bt_wf m = sorted_wrt (<) (map fst m)"

definition bt_values :: "('k, 'v) btree \<Rightarrow> 'v list" where
  "bt_values m = map snd m"

definition bt_keys :: "('k, 'v) btree \<Rightarrow> 'k list" where
  "bt_keys m = map fst m"

section \<open>The interface\<close>

locale ordered_map =
  fixes empty :: "'m"
    and get :: "'m \<Rightarrow> 'k::linorder \<Rightarrow> 'v option"
    and insert :: "'k \<Rightarrow> 'v \<Rightarrow> 'm \<Rightarrow> 'm"
    and remove :: "'k \<Rightarrow> 'm \<Rightarrow> 'm"
    and retain :: "('k \<Rightarrow> 'v \<Rightarrow> bool) \<Rightarrow> 'm \<Rightarrow> 'm"
    and entries :: "'m \<Rightarrow> ('k \<times> 'v) list"
    and wf :: "'m \<Rightarrow> bool"
  assumes entries_empty: "entries empty = []"
    and get_insert: "get (insert k v m) k' = (if k' = k then Some v else get m k')"
    and get_remove: "get (remove k m) k' = (if k' = k then None else get m k')"
    and get_retain: "wf m \<Longrightarrow> get (retain p m) k =
           (case get m k of Some v \<Rightarrow> (if p k v then Some v else None) | None \<Rightarrow> None)"
    and get_entries: "wf m \<Longrightarrow> get m k = Some v \<longleftrightarrow> (k, v) \<in> set (entries m)"
    and entries_sorted: "wf m \<Longrightarrow> sorted_wrt (<) (map fst (entries m))"
    and wf_empty: "wf empty"
    and wf_insert: "wf m \<Longrightarrow> wf (insert k v m)"
    and wf_remove: "wf m \<Longrightarrow> wf (remove k m)"
    and wf_retain: "wf m \<Longrightarrow> wf (retain p m)"
    and length_insert: "wf m \<Longrightarrow> length (entries (insert k v m)) =
           (if get m k = None then Suc (length (entries m)) else length (entries m))"
    and length_retain: "length (entries (retain p m)) \<le> length (entries m)"
    and length_remove: "length (entries (remove k m)) \<le> length (entries m)"
begin

text \<open>\<open>all_of P m\<close>: every entry of the map satisfies \<open>P\<close>.\<close>

definition all_of :: "('k \<Rightarrow> 'v \<Rightarrow> bool) \<Rightarrow> 'm \<Rightarrow> bool" where
  "all_of P m = (\<forall>k v. get m k = Some v \<longrightarrow> P k v)"

lemma all_ofD: "all_of P m \<Longrightarrow> get m k = Some v \<Longrightarrow> P k v"
  by (simp add: all_of_def)

lemma get_empty [simp]: "get empty k = None"
  using get_entries [OF wf_empty, of k] entries_empty by (cases "get empty k") auto

lemma all_of_empty [simp]: "all_of P empty"
  by (simp add: all_of_def)

lemma all_of_insert: "all_of P m \<Longrightarrow> P k v \<Longrightarrow> all_of P (insert k v m)"
  by (simp add: all_of_def get_insert)

lemma all_of_remove: "all_of P m \<Longrightarrow> all_of P (remove k m)"
  by (simp add: all_of_def get_remove)

lemma all_of_retain: "wf m \<Longrightarrow> all_of P m \<Longrightarrow> all_of P (retain p m)"
  by (simp add: all_of_def get_retain split: option.splits)

lemma all_of_mono: "all_of P m \<Longrightarrow> (\<And>k v. P k v \<Longrightarrow> Q k v) \<Longrightarrow> all_of Q m"
  by (simp add: all_of_def)

lemma all_of_entries: "wf m \<Longrightarrow> all_of P m \<longleftrightarrow> (\<forall>(k, v) \<in> set (entries m). P k v)"
  by (auto simp: all_of_def get_entries)

lemma keys_distinct: "wf m \<Longrightarrow> distinct (map fst (entries m))"
  using entries_sorted strict_sorted_iff by blast

text \<open>A map whose keys lie in a finite set is no larger than the set.\<close>

lemma length_le_card:
  assumes "wf m" "finite K" "all_of (\<lambda>k _. k \<in> K) m"
  shows "length (entries m) \<le> card K"
proof -
  have "length (entries m) = card (set (map fst (entries m)))"
    using keys_distinct [OF assms(1)] distinct_card by (metis length_map)
  also have "\<dots> \<le> card K"
    using assms by (intro card_mono) (auto simp: all_of_entries)
  finally show ?thesis .
qed

end

section \<open>The entry list provides the interface\<close>

lemma bt_get_insert: "bt_get (bt_insert k v m) k' = (if k' = k then Some v else bt_get m k')"
  by (induction m) (auto simp: bt_get_def)

lemma bt_get_remove: "bt_get (bt_remove k m) k' = (if k' = k then None else bt_get m k')"
  by (induction m) (auto simp: bt_get_def bt_remove_def)

lemma bt_keys_insert: "set (map fst (bt_insert k v m)) = insert k (set (map fst m))"
  by (induction m) auto

lemma bt_wf_Cons: "bt_wf (e # m) \<longleftrightarrow> (\<forall>k \<in> set (map fst m). fst e < k) \<and> bt_wf m"
  by (simp add: bt_wf_def)

lemma bt_wf_insert: "bt_wf m \<Longrightarrow> bt_wf (bt_insert k v m)"
proof (induction m)
  case (Cons e m)
  then show ?case
    using bt_keys_insert [of k v m]
    by (auto simp only: bt_insert.simps bt_wf_Cons split: if_splits) (auto simp: not_less_iff_gr_or_eq)
qed (simp add: bt_wf_def)

lemma bt_wf_filter: "bt_wf m \<Longrightarrow> bt_wf (filter p m)"
  by (induction m) (auto simp: bt_wf_def)

lemma bt_wf_distinct: "bt_wf m \<Longrightarrow> distinct (map fst m)"
  unfolding bt_wf_def using strict_sorted_iff by blast

lemma bt_get_mem: "bt_wf m \<Longrightarrow> bt_get m k = Some v \<longleftrightarrow> (k, v) \<in> set m"
  unfolding bt_get_def by (metis bt_wf_distinct map_of_eq_Some_iff)

lemma bt_length_insert:
  "bt_wf m \<Longrightarrow> length (bt_insert k v m) = (if bt_get m k = None then Suc (length m) else length m)"
proof (induction m)
  case (Cons e m)
  then show ?case
    by (force simp: bt_wf_def bt_get_def map_of_eq_None_iff image_iff)
qed (simp add: bt_get_def)

lemma bt_get_retain:
  "bt_wf m \<Longrightarrow> bt_get (bt_retain p m) k =
     (case bt_get m k of Some v \<Rightarrow> (if p k v then Some v else None) | None \<Rightarrow> None)"
proof (induction m)
  case (Cons e m)
  then show ?case
    by (cases e) (auto simp: bt_get_def bt_retain_def bt_wf_def map_of_eq_None_iff split: option.splits
        dest!: map_of_SomeD)
qed (simp add: bt_get_def bt_retain_def)

interpretation bt: ordered_map bt_empty bt_get bt_insert bt_remove bt_retain "\<lambda>m. m" bt_wf
proof unfold_locales
  fix m :: "('a::linorder, 'b) btree" and p k v
  show "bt_wf m \<Longrightarrow> bt_wf (bt_insert k v m)" by (rule bt_wf_insert)
  show "bt_wf m \<Longrightarrow> bt_wf (bt_remove k m)" by (simp add: bt_remove_def bt_wf_filter)
  show "bt_wf m \<Longrightarrow> bt_wf (bt_retain p m)" by (simp add: bt_retain_def bt_wf_filter)
  show "bt_wf m \<Longrightarrow> sorted_wrt (<) (map fst m)" by (simp add: bt_wf_def)
  show "bt_wf (bt_empty :: ('a, 'b) btree)" by (simp add: bt_wf_def bt_empty_def)
  show "length (bt_retain p m) \<le> length m" by (simp add: bt_retain_def)
  show "length (bt_remove k m) \<le> length m" by (simp add: bt_remove_def)
qed (simp_all add: bt_empty_def bt_get_insert bt_get_remove bt_get_retain bt_get_mem bt_length_insert)

lemmas bt_simps [simp] = bt_get_insert bt_get_remove

lemma bt_contains_iff [simp]: "bt_contains m k \<longleftrightarrow> (\<exists>v. bt_get m k = Some v)"
  by (auto simp: bt_contains_def)

lemma bt_empty_len [simp]: "length bt_empty = 0"
  by (simp add: bt_empty_def)

text \<open>Two well-formed maps with the same lookups are the same list of entries.\<close>

lemma bt_ext:
  assumes "bt_wf m" "bt_wf m'" "\<And>k. bt_get m k = bt_get m' k"
  shows "m = m'"
proof -
  have "set m = set m'"
  proof (intro set_eqI)
    fix e show "e \<in> set m \<longleftrightarrow> e \<in> set m'"
      using bt_get_mem [OF assms(1)] bt_get_mem [OF assms(2)] assms(3)
      by (cases e) metis
  qed
  then have "map_of m = map_of m'" and "set (map fst m) = set (map fst m')"
    using assms(3) by (auto simp: bt_get_def)
  moreover have "map fst m = map fst m'"
    using assms(1,2) calculation(2) by (simp add: bt_wf_def strict_sorted_equal)
  moreover have "m = map (\<lambda>k. (k, the (map_of m k))) (map fst m)" if "bt_wf m" for m :: "('a, 'b) btree"
    using bt_wf_distinct [OF that] by (auto intro!: map_idI [symmetric])
  ultimately show ?thesis using assms(1,2) by metis
qed

end
