(* ===== verification/Sampling.thy ===== *)
theory Sampling
  imports Prelude
begin

text \<open>
  Rejection sampling: the source draws random identifiers in a \<^verbatim>\<open>loop\<close> until one is
  acceptable, and stops early when the entropy source fails. The loop need not end, so it
  is a partial function: \<open>None\<close> is "does not return", \<open>Some None\<close> an entropy failure and
  \<open>Some (Some x)\<close> an accepted sample.
\<close>

partial_function (option) draw_until ::
  "(nat \<Rightarrow> 'a option) \<Rightarrow> ('a \<Rightarrow> bool) \<Rightarrow> nat \<Rightarrow> 'a option option" where
  "draw_until draw ok i =
     (case draw i of
        None \<Rightarrow> Some None
      | Some x \<Rightarrow> if ok x then Some (Some x) else draw_until draw ok (Suc i))"

declare draw_until.simps [code]

text \<open>An accepted sample was drawn and is acceptable.\<close>

lemma draw_until_accepts:
  assumes ret: "draw_until draw ok i = Some (Some x)"
  shows "ok x \<and> (\<exists>j \<ge> i. draw j = Some x)"
proof -
  have "case r of None \<Rightarrow> True | Some x \<Rightarrow> ok x \<and> (\<exists>j \<ge> i. draw j = Some x)"
    if "draw_until draw ok i = Some r" for r i
  proof (rule draw_until.raw_induct [where
        P = "\<lambda>draw ok i r. case r of None \<Rightarrow> True | Some x \<Rightarrow> ok x \<and> (\<exists>j \<ge> i. draw j = Some x)",
        OF _ that])
    fix f :: "(nat \<Rightarrow> 'a option) \<Rightarrow> ('a \<Rightarrow> bool) \<Rightarrow> nat \<Rightarrow> 'a option option"
      and draw :: "nat \<Rightarrow> 'a option" and ok i r
    assume IH: "\<And>draw ok i r. f draw ok i = Some r \<Longrightarrow>
        case r of None \<Rightarrow> True | Some x \<Rightarrow> ok x \<and> (\<exists>j \<ge> i. draw j = Some x)"
      and eq: "(case draw i of None \<Rightarrow> Some None
        | Some x \<Rightarrow> if ok x then Some (Some x) else f draw ok (Suc i)) = Some r"
    show "case r of None \<Rightarrow> True | Some x \<Rightarrow> ok x \<and> (\<exists>j \<ge> i. draw j = Some x)"
      using eq IH [of draw ok "Suc i" r]
      by (auto split: option.splits if_splits intro: Suc_leD)
  qed
  from this [OF ret] show ?thesis by simp
qed

text \<open>The loop returns exactly when some later draw fails or is acceptable.\<close>

lemma draw_until_returns:
  assumes "draw (i + n) = None \<or> (\<exists>x. draw (i + n) = Some x \<and> ok x)"
  shows "draw_until draw ok i \<noteq> None"
  using assms
proof (induction n arbitrary: i)
  case 0
  then show ?case by (subst draw_until.simps) (auto split: option.splits)
next
  case (Suc n)
  then have "draw_until draw ok (Suc i) \<noteq> None" by simp
  then show ?case by (subst draw_until.simps) (auto split: option.splits)
qed

lemma draw_until_returns_only:
  assumes "draw_until draw ok i \<noteq> None"
  shows "\<exists>j \<ge> i. draw j = None \<or> (\<exists>x. draw j = Some x \<and> ok x)"
proof -
  have "\<exists>j \<ge> i. draw j = None \<or> (\<exists>x. draw j = Some x \<and> ok x)"
    if "draw_until draw ok i = Some r" for r i
  proof (rule draw_until.raw_induct [where
        P = "\<lambda>draw ok i r. \<exists>j \<ge> i. draw j = None \<or> (\<exists>x. draw j = Some x \<and> ok x)", OF _ that])
    fix f :: "(nat \<Rightarrow> 'a option) \<Rightarrow> ('a \<Rightarrow> bool) \<Rightarrow> nat \<Rightarrow> 'a option option"
      and draw :: "nat \<Rightarrow> 'a option" and ok i r
    assume IH: "\<And>draw ok i r. f draw ok i = Some r \<Longrightarrow>
        \<exists>j \<ge> i. draw j = None \<or> (\<exists>x. draw j = Some x \<and> ok x)"
      and eq: "(case draw i of None \<Rightarrow> Some None
        | Some x \<Rightarrow> if ok x then Some (Some x) else f draw ok (Suc i)) = Some r"
    show "\<exists>j \<ge> i. draw j = None \<or> (\<exists>x. draw j = Some x \<and> ok x)"
      using eq IH [of draw ok "Suc i" r]
      by (auto split: option.splits if_splits intro: Suc_leD)
  qed
  with assms show ?thesis by auto
qed

end
