(* ===== verification/Session_Objects.thy ===== *)
theory Session_Objects
  imports Requests Btree Sampling
begin

unbundle bit_operations_syntax

text \<open>
  Volatile protected objects of a secure session (\<^verbatim>\<open>session_object.rs\<close>): their material and
  flags, the constructors with their limits, and the bounded table indexed by random
  64-bit handles.
\<close>

definition MAX_SESSION_OBJECTS :: nat where "MAX_SESSION_OBJECTS = 64"
definition FLAG_READABLE :: u8 where "FLAG_READABLE = 1"
definition FLAG_DERIVE :: u8 where "FLAG_DERIVE = 2"
definition FLAG_VERIFY :: u8 where "FLAG_VERIFY = 4"

datatype 'k SessionObjectMaterial = SMat_Secret bytes | SMat_P256Private 'k

record 'k SessionObject =
  sx_kind :: SessionObjectKind
  sx_flags :: u8
  sx_material :: "'k SessionObjectMaterial"

definition session_object_secret ::
  "SessionObjectKind \<Rightarrow> u8 \<Rightarrow> bytes \<Rightarrow> 'k SessionObject option" where
  "session_object_secret kind flags value =
     (if value = [] \<or> length value > 1024
         \<or> (kind = Aes \<and> length value \<notin> {16, 24, 32})
         \<or> kind = P256Private
      then None
      else Some \<lparr>sx_kind = kind, sx_flags = flags, sx_material = SMat_Secret value\<rparr>)"

definition session_object_p256_private :: "'k lib \<Rightarrow> u8 \<Rightarrow> 'k \<Rightarrow> 'k SessionObject option" where
  "session_object_p256_private L flags key =
     (if key_kind L key \<noteq> Kind_Ec P256 then None
      else Some \<lparr>sx_kind = P256Private, sx_flags = flags, sx_material = SMat_P256Private key\<rparr>)"

definition session_secret_value :: "'k SessionObject \<Rightarrow> bytes option" where
  "session_secret_value x =
     (case sx_material x of SMat_Secret v \<Rightarrow> Some v | SMat_P256Private _ \<Rightarrow> None)"

definition session_p256_key :: "'k SessionObject \<Rightarrow> 'k option" where
  "session_p256_key x =
     (case sx_material x of SMat_P256Private key \<Rightarrow> Some key | SMat_Secret _ \<Rightarrow> None)"

definition session_public_key :: "'k lib \<Rightarrow> 'k SessionObject \<Rightarrow> bytes option" where
  "session_public_key L x = Option.bind (session_p256_key x) (\<lambda>key.
     case key_public L key of Pub_Ec _ uncompressed \<Rightarrow> Some uncompressed | _ \<Rightarrow> None)"

type_synonym 'k SessionObjects = "(u64, 'k SessionObject) btree"

definition session_objects_get :: "'k SessionObjects \<Rightarrow> u64 \<Rightarrow> 'k SessionObject option" where
  "session_objects_get objs handle = bt_get objs handle"

text \<open>\<^verbatim>\<open>SessionObjects::insert\<close>: draw handles until a free non-zero one comes up.\<close>

definition session_objects_insert ::
  "'k env \<Rightarrow> 'k SessionObject \<Rightarrow> 'k SessionObjects \<Rightarrow> u64 option res \<times> 'k SessionObjects" where
  "session_objects_insert E x objs =
     (if length objs \<ge> MAX_SESSION_OBJECTS then (Ok None, objs)
      else case draw_until (\<lambda>j. map_option from_be (entropy E j 8))
                  (\<lambda>handle. handle \<noteq> 0 \<and> \<not> bt_contains objs handle) 0 of
          None \<Rightarrow> (Diverge, objs)
        | Some None \<Rightarrow> (Ok None, objs)
        | Some (Some handle) \<Rightarrow> (Ok (Some handle), bt_insert handle x objs))"

definition session_objects_remove ::
  "'k SessionObjects \<Rightarrow> u64 \<Rightarrow> 'k SessionObject option \<times> 'k SessionObjects" where
  "session_objects_remove objs handle = (bt_get objs handle, bt_remove handle objs)"

section \<open>Invariant of the table\<close>

definition session_object_wf :: "'k lib \<Rightarrow> 'k SessionObject \<Rightarrow> bool" where
  "session_object_wf L x = (case sx_material x of
       SMat_Secret v \<Rightarrow> sx_kind x \<noteq> P256Private \<and> v \<noteq> [] \<and> length v \<le> 1024
         \<and> (sx_kind x = Aes \<longrightarrow> length v \<in> {16, 24, 32})
     | SMat_P256Private key \<Rightarrow> sx_kind x = P256Private \<and> key_kind L key = Kind_Ec P256)"

definition session_objects_wf :: "'k lib \<Rightarrow> 'k SessionObjects \<Rightarrow> bool" where
  "session_objects_wf L objs =
     (bt_wf objs \<and> length objs \<le> MAX_SESSION_OBJECTS \<and>
      bt.all_of (\<lambda>handle x. handle \<noteq> 0 \<and> session_object_wf L x) objs)"

lemma session_object_secret_wf:
  "session_object_secret kind flags value = Some x \<Longrightarrow> session_object_wf L x"
  by (auto simp: session_object_secret_def session_object_wf_def split: if_splits)

lemma session_object_p256_wf:
  "session_object_p256_private L flags key = Some x \<Longrightarrow> session_object_wf L x"
  by (auto simp: session_object_p256_private_def session_object_wf_def split: if_splits)

lemma session_objects_empty_wf [simp]: "session_objects_wf L bt_empty"
  by (simp add: session_objects_wf_def bt.wf_empty)

lemma session_objects_insert_Ok:
  assumes "session_objects_insert E x objs = (Ok (Some handle), objs')"
  shows "handle \<noteq> 0" "bt_get objs handle = None" "objs' = bt_insert handle x objs"
    "length objs < MAX_SESSION_OBJECTS"
  using assms
  by (auto simp: session_objects_insert_def dest!: draw_until_accepts split: if_splits option.splits)

lemma session_objects_insert_unchanged:
  "session_objects_insert E x objs = (r, objs') \<Longrightarrow> \<nexists>handle. r = Ok (Some handle) \<Longrightarrow> objs' = objs"
  by (auto simp: session_objects_insert_def split: if_splits option.splits)

lemma session_objects_insert_wf:
  assumes "session_objects_wf L objs" "session_object_wf L x"
    "session_objects_insert E x objs = (r, objs')"
  shows "session_objects_wf L objs'"
proof (cases "\<exists>handle. r = Ok (Some handle)")
  case True
  with assms obtain handle where ins: "session_objects_insert E x objs = (Ok (Some handle), objs')"
    by auto
  show ?thesis
    using assms(1,2) session_objects_insert_Ok [OF ins]
    by (simp add: session_objects_wf_def bt.wf_insert bt.all_of_insert bt.length_insert)
next
  case False
  with session_objects_insert_unchanged assms show ?thesis by metis
qed

lemma session_objects_remove_wf:
  "session_objects_wf L objs \<Longrightarrow> session_objects_wf L (snd (session_objects_remove objs handle))"
  using bt.length_remove [of handle objs]
  by (auto simp: session_objects_wf_def session_objects_remove_def bt.wf_remove bt.all_of_remove)

text \<open>
  The insertion loop ends as soon as a draw fails or hits a free non-zero handle.
\<close>

lemma session_objects_insert_returns:
  assumes "entropy E n 8 = Some bs" "from_be bs \<noteq> (0 :: u64)"
    "bt_get objs (from_be bs) = None"
  shows "fst (session_objects_insert E x objs) \<noteq> Diverge"
proof -
  have "draw_until (\<lambda>j. map_option from_be (entropy E j 8))
      (\<lambda>handle. handle \<noteq> (0 :: u64) \<and> \<not> bt_contains objs handle) 0 \<noteq> None"
    by (rule draw_until_returns [of _ _ n]) (use assms in auto)
  then show ?thesis by (auto simp: session_objects_insert_def split: option.splits)
qed

end
