(* ===== verification/Authorization.thy ===== *)
theory Authorization
  imports Objects
begin

unbundle bit_operations_syntax

text \<open>
  The authorization rules of an established session (\<^verbatim>\<open>authorization.rs\<close>): the snapshot of
  the Authentication Key's policy, and the checks for using, creating, deleting, exporting
  and importing objects. The lemmas say what each successful check guarantees, read as
  inclusions of capability and domain sets.
\<close>

record SessionAuthorization =
  au_key_id :: u16
  au_capabilities :: CapabilitySet
  au_delegated_capabilities :: CapabilitySet
  au_domains :: u16

definition require_capability :: "SessionAuthorization \<Rightarrow> Capability \<Rightarrow> unit res" where
  "require_capability au c =
     (if cap_contains (au_capabilities au) c then Ok () else Err InsufficientPermissions)"

definition can_see :: "SessionAuthorization \<Rightarrow> ObjectInfo \<Rightarrow> bool" where
  "can_see au object = (au_domains au AND oi_domains object \<noteq> 0)"

definition require_visible :: "SessionAuthorization \<Rightarrow> ObjectInfo \<Rightarrow> unit res" where
  "require_visible au object = (if can_see au object then Ok () else Err ObjectNotFound)"

definition authorize_use ::
  "SessionAuthorization \<Rightarrow> ObjectInfo \<Rightarrow> Capability \<Rightarrow> Capability \<Rightarrow> unit res" where
  "authorize_use au object session_capability object_capability =
     and_then (require_visible au object) (\<lambda>_.
     and_then (require_capability au session_capability) (\<lambda>_.
     if cap_contains (oi_capabilities object) object_capability then Ok ()
     else Err InsufficientPermissions))"

definition authorize_create :: "SessionAuthorization \<Rightarrow> ObjectInfo \<Rightarrow> Capability \<Rightarrow> unit res" where
  "authorize_create au requested command_capability =
     and_then (require_capability au command_capability) (\<lambda>_.
     and_then (info_validate requested) (\<lambda>_.
     if oi_domains requested AND NOT (au_domains au) \<noteq> 0
        \<or> \<not> cap_is_subset_of (oi_capabilities requested) (au_delegated_capabilities au)
        \<or> \<not> cap_is_subset_of (oi_delegated_capabilities requested) (au_delegated_capabilities au)
     then Err InsufficientPermissions
     else Ok ()))"

definition authorize_delete :: "SessionAuthorization \<Rightarrow> ObjectInfo \<Rightarrow> unit res" where
  "authorize_delete au object =
     and_then (require_visible au object) (\<lambda>_.
     require_capability au (deletion_capability (oi_object_type object)))"

definition authorize_wrapped_export ::
  "SessionAuthorization \<Rightarrow> 'k ObjectRecord \<Rightarrow> 'k ObjectRecord \<Rightarrow> unit res" where
  "authorize_wrapped_export au object wrap_key =
     and_then (authorize_use au (or_info wrap_key) Cap_ExportWrapped Cap_ExportWrapped) (\<lambda>_.
     and_then (require_visible au (or_info object)) (\<lambda>_.
     if \<not> cap_contains (oi_capabilities (or_info object)) Cap_ExportableUnderWrap
        \<or> \<not> cap_is_subset_of (oi_capabilities (or_info object))
              (oi_delegated_capabilities (or_info wrap_key))
     then Err InsufficientPermissions
     else Ok ()))"

definition authorize_wrapped_creation ::
  "SessionAuthorization \<Rightarrow> ObjectInfo \<Rightarrow> 'k ObjectRecord \<Rightarrow> unit res" where
  "authorize_wrapped_creation au requested wrap_key =
     and_then (authorize_create au requested Cap_ImportWrapped) (\<lambda>_.
     if \<not> cap_is_subset_of (oi_capabilities requested) (oi_delegated_capabilities (or_info wrap_key))
     then Err InsufficientPermissions
     else Ok ())"

section \<open>What the checks guarantee\<close>

lemma require_capability_Ok [simp]:
  "require_capability au c = Ok u \<longleftrightarrow> cap_contains (au_capabilities au) c"
  by (auto simp: require_capability_def)

lemma require_visible_Ok [simp]: "require_visible au info = Ok u \<longleftrightarrow> can_see au info"
  by (auto simp: require_visible_def)

lemma authorize_use_Ok [simp]:
  "authorize_use au info sc oc = Ok u \<longleftrightarrow>
     can_see au info \<and> cap_contains (au_capabilities au) sc \<and> cap_contains (oi_capabilities info) oc"
  by (auto simp: authorize_use_def split: if_splits)

lemma authorize_delete_Ok [simp]:
  "authorize_delete au info = Ok u \<longleftrightarrow> can_see au info \<and>
     cap_contains (au_capabilities au) (deletion_capability (oi_object_type info))"
  by (auto simp: authorize_delete_def)

text \<open>Sixteen-bit domain masks as sets of domain numbers.\<close>

definition domain_set :: "u16 \<Rightarrow> nat set" where
  "domain_set d = {n. bit d n}"

lemma domains_within_iff:
  "(d :: u16) AND NOT e = 0 \<longleftrightarrow> domain_set d \<subseteq> domain_set e"
proof
  assume z: "d AND NOT e = 0"
  show "domain_set d \<subseteq> domain_set e"
  proof
    fix n assume "n \<in> domain_set d"
    then have "bit d n" "n < 16" by (auto simp: domain_set_def dest: bit_imp_le_length)
    moreover have "\<not> bit (d AND NOT e) n" using z by simp
    ultimately show "n \<in> domain_set e" by (auto simp: domain_set_def bit_and_iff bit_not_iff)
  qed
next
  assume "domain_set d \<subseteq> domain_set e"
  then show "d AND NOT e = 0"
    by (intro bit_word_eqI) (auto simp: domain_set_def bit_and_iff bit_not_iff)
qed

lemma can_see_iff: "can_see au info \<longleftrightarrow> domain_set (au_domains au) \<inter> domain_set (oi_domains info) \<noteq> {}"
  by (auto simp: can_see_def domain_set_def word_eq_0_bits bit_and_iff)

lemma authorize_create_Ok:
  assumes "cap_wf (au_delegated_capabilities au)" "info_wf info"
  shows "authorize_create au info c = Ok u \<longleftrightarrow>
     cap_contains (au_capabilities au) c \<and> info_validate info = Ok () \<and>
     domain_set (oi_domains info) \<subseteq> domain_set (au_domains au) \<and>
     cap_bits (oi_capabilities info) \<subseteq> cap_bits (au_delegated_capabilities au) \<and>
     cap_bits (oi_delegated_capabilities info) \<subseteq> cap_bits (au_delegated_capabilities au)"
  using assms by (auto simp: authorize_create_def cap_is_subset_of_def cap_contains_all_bits info_wf_def
      domains_within_iff split: if_splits)

lemma authorize_create_capability:
  "authorize_create au info c = Ok u \<Longrightarrow> cap_contains (au_capabilities au) c"
  by (auto simp: authorize_create_def)

text \<open>A creator sees what it creates: the new object shares a domain with the session.\<close>

lemma created_visible:
  assumes "authorize_create au info c = Ok u"
  shows "can_see au info"
proof -
  from assms have dom: "oi_domains info \<noteq> 0" and sub: "domain_set (oi_domains info) \<subseteq> domain_set (au_domains au)"
    by (auto simp: authorize_create_def domains_within_iff split: if_splits)
  obtain n where "bit (oi_domains info) n" using dom by (auto simp: word_eq_0_bits)
  with sub show ?thesis by (auto simp: can_see_iff domain_set_def)
qed

lemma authorization_total [simp]:
  "require_capability au c \<noteq> Panic" "require_capability au c \<noteq> Diverge"
  "require_visible au info \<noteq> Panic" "require_visible au info \<noteq> Diverge"
  "authorize_use au info sc oc \<noteq> Panic" "authorize_use au info sc oc \<noteq> Diverge"
  "authorize_create au info c \<noteq> Panic" "authorize_create au info c \<noteq> Diverge"
  by (auto simp: require_capability_def require_visible_def authorize_use_def authorize_create_def
      result_simps split: if_splits)

lemma authorization_total2 [simp]:
  "authorize_delete au info \<noteq> Panic" "authorize_delete au info \<noteq> Diverge"
  "authorize_wrapped_export au r w \<noteq> Panic" "authorize_wrapped_export au r w \<noteq> Diverge"
  "authorize_wrapped_creation au info w \<noteq> Panic" "authorize_wrapped_creation au info w \<noteq> Diverge"
  by (auto simp: authorize_delete_def authorize_wrapped_export_def authorize_wrapped_creation_def
      result_simps split: if_splits)

lemma authorize_wrapped_creation_create:
  "authorize_wrapped_creation au info w = Ok u \<Longrightarrow> authorize_create au info Cap_ImportWrapped = Ok ()"
  by (auto simp: authorize_wrapped_creation_def)

end
