(* ===== verification/Secure_Channel.thy ===== *)
theory Secure_Channel
  imports Authorization Protocol
begin

unbundle bit_operations_syntax

text \<open>
  The secure message channel (\<^verbatim>\<open>session.rs\<close> and \<^verbatim>\<open>secure_channel_crypto.rs\<close>): session set-up
  from a symmetric or an asymmetric Authentication Key, MAC verification with its chaining
  value, decryption of requests and protection of responses. The AES primitives and the key
  derivations are library parameters.
\<close>

section \<open>Channel primitives (secure\_channel\_crypto.rs)\<close>

definition BLOCK_SIZE :: nat where "BLOCK_SIZE = 16"

primrec map_symmetric_error :: "SoftwareSymmetricError \<Rightarrow> DeviceError" where
  "map_symmetric_error InvalidDataLength = WrongLength"
| "map_symmetric_error InvalidIvLength = WrongLength"
| "map_symmetric_error InvalidKeyLength = InvalidData"
| "map_symmetric_error SymmetricAuthenticationFailed = InvalidData"

definition symmetric_result :: "SoftwareSymmetricError + 'a \<Rightarrow> 'a res" where
  "symmetric_result r = (case r of Inl e \<Rightarrow> Err (map_symmetric_error e) | Inr v \<Rightarrow> Ok v)"

definition cmac :: "'k lib \<Rightarrow> bytes \<Rightarrow> bytes \<Rightarrow> bytes res" where
  "cmac L key data = symmetric_result (aes_cmac L key data)"

definition encrypt_block :: "'k lib \<Rightarrow> bytes \<Rightarrow> bytes \<Rightarrow> bytes res" where
  "encrypt_block L key input = symmetric_result (encrypt_aes_block L key input)"

definition cbc_encrypt :: "'k lib \<Rightarrow> bytes \<Rightarrow> bytes \<Rightarrow> bytes \<Rightarrow> bytes res" where
  "cbc_encrypt L key iv data = symmetric_result (encrypt_aes_cbc L key iv data)"

definition cbc_decrypt :: "'k lib \<Rightarrow> bytes \<Rightarrow> bytes \<Rightarrow> bytes \<Rightarrow> bytes res" where
  "cbc_decrypt L key iv data = symmetric_result (decrypt_aes_cbc L key iv data)"

definition pad :: "'k lib \<Rightarrow> bytes \<Rightarrow> bytes" where
  "pad L data = pad_iso7816 L data"

definition unpad :: "'k lib \<Rightarrow> bytes \<Rightarrow> bytes res" where
  "unpad L data = ok_or (unpad_iso7816 L data) InvalidData"

section \<open>Sizes\<close>

definition MAC_LENGTH :: nat where "MAC_LENGTH = 8"
definition CHALLENGE_LENGTH :: nat where "CHALLENGE_LENGTH = 8"
definition P256_PUBLIC_KEY_LENGTH :: nat where "P256_PUBLIC_KEY_LENGTH = 65"
definition AUTHENTICATION_ALGORITHM_AES128_YUBICO :: u8 where
  "AUTHENTICATION_ALGORITHM_AES128_YUBICO = 38"
definition AUTHENTICATION_ALGORITHM_EC_P256 :: u8 where "AUTHENTICATION_ALGORITHM_EC_P256 = 49"
definition SCP11_SHARED_INFO :: bytes where "SCP11_SHARED_INFO = [0x3c, 0x88, 0x10]"

lemmas channel_consts = BLOCK_SIZE_def MAC_LENGTH_def CHALLENGE_LENGTH_def
  P256_PUBLIC_KEY_LENGTH_def

text \<open>Checked \<^verbatim>\<open>usize\<close> arithmetic on a 64-bit target.\<close>

definition checked_usize :: "nat \<Rightarrow> nat option" where
  "checked_usize n = (if n < 2 ^ 64 then Some n else None)"

definition secure_response_data_fits :: "nat \<Rightarrow> bool" where
  "secure_response_data_fits data_length =
     (case Option.bind (checked_usize (HEADER_LENGTH + data_length)) (\<lambda>n.
           Option.bind (checked_usize (n + 1)) (\<lambda>n.
           checked_usize (((n + BLOCK_SIZE - 1) div BLOCK_SIZE) * BLOCK_SIZE))) of
        None \<Rightarrow> False
      | Some padded_length \<Rightarrow>
         (case Option.bind (checked_usize (1 + padded_length)) (\<lambda>n. checked_usize (n + MAC_LENGTH)) of
            None \<Rightarrow> False
          | Some n \<Rightarrow> n \<le> MAX_DATA_LENGTH))"

definition secure_response_fits :: "Frame \<Rightarrow> bool" where
  "secure_response_fits response = secure_response_data_fits (length (fr_data response))"

lemma padded_block_bound: "(19 + n) div 16 * 16 \<le> (8180::nat) \<longleftrightarrow> n \<le> 8172"
  using div_less_iff_less_mult [of 16 "19 + n" 512] by linarith

lemma secure_response_data_fits_iff: "secure_response_data_fits n \<longleftrightarrow> n \<le> 8172"
proof (cases "n \<le> 8172")
  case True
  then have "(19 + n) div 16 * 16 \<le> 8180" by (simp only: padded_block_bound)
  with True show ?thesis
    by (simp add: secure_response_data_fits_def checked_usize_def channel_consts frame_consts
        del: div_mult_self4)
next
  case False
  then have "\<not> (19 + n) div 16 * 16 \<le> 8180" using padded_block_bound by blast
  with False show ?thesis
    by (simp add: secure_response_data_fits_def checked_usize_def channel_consts frame_consts
        split: option.splits bind_splits)
qed

section \<open>Secure sessions\<close>

record SecureSession =
  ss_sid :: u8
  ss_enc :: bytes
  ss_mac :: bytes
  ss_rmac :: bytes
  ss_counter :: bytes
  ss_mac_chaining_value :: bytes

definition secure_session_new ::
  "u8 \<Rightarrow> bytes \<Rightarrow> bytes \<Rightarrow> bytes \<Rightarrow> bytes \<Rightarrow> bytes \<Rightarrow> SecureSession" where
  "secure_session_new sid s_enc s_mac s_rmac counter chaining =
     \<lparr>ss_sid = sid, ss_enc = s_enc, ss_mac = s_mac, ss_rmac = s_rmac, ss_counter = counter,
      ss_mac_chaining_value = chaining\<rparr>"

text \<open>
  \<^verbatim>\<open>increment_counter\<close>: from the last byte on, add one and stop at the first byte that
  does not overflow.
\<close>

primrec increment_rev :: "bytes \<Rightarrow> bytes" where
  "increment_rev [] = []"
| "increment_rev (b # bs) = (if b = 255 then (b + 1) # increment_rev bs else (b + 1) # bs)"

definition increment_counter :: "bytes \<Rightarrow> bytes" where
  "increment_counter counter = rev (increment_rev (rev counter))"

definition random_secret_key :: "'k env \<Rightarrow> 'k res" where
  "random_secret_key E = ok_or (generate_key E (Kind_Ec P256)) StorageFailed"

definition derive_key :: "'k lib \<Rightarrow> bytes \<Rightarrow> u8 \<Rightarrow> bytes \<Rightarrow> bytes res" where
  "derive_key L key constant context = ok_or (scp03_key L key constant context) SessionFailed"

definition derive_cryptogram :: "'k lib \<Rightarrow> bytes \<Rightarrow> u8 \<Rightarrow> bytes \<Rightarrow> bytes res" where
  "derive_cryptogram L key constant context =
     ok_or (scp03_cryptogram L key constant context) SessionFailed"

definition x963_session_keys :: "'k lib \<Rightarrow> bytes \<Rightarrow> bytes \<Rightarrow> bytes res" where
  "x963_session_keys L ephemeral static_secret =
     and_then (ok_or (x963_kdf_sha256 L (ephemeral @ static_secret) SCP11_SHARED_INFO 64) SessionFailed)
       (\<lambda>keys. if length keys = 64 then Ok keys else Err SessionFailed)"

definition begin_symmetric ::
  "'k lib \<Rightarrow> u8 \<Rightarrow> bytes \<Rightarrow> bytes \<Rightarrow> bytes \<Rightarrow> (SecureSession \<times> bytes \<times> bytes) res" where
  "begin_symmetric L sid static_keys host_challenge card_challenge =
     (if length static_keys \<noteq> 32 \<or> length host_challenge \<noteq> CHALLENGE_LENGTH then Err WrongLength
      else let context = host_challenge @ card_challenge in
        and_then (derive_key L (take 16 static_keys) 0x04 context) (\<lambda>s_enc.
        and_then (derive_key L (drop 16 static_keys) 0x06 context) (\<lambda>s_mac.
        and_then (derive_key L (drop 16 static_keys) 0x07 context) (\<lambda>s_rmac.
        and_then (derive_cryptogram L s_mac 0x00 context) (\<lambda>card_cryptogram.
        and_then (derive_cryptogram L s_mac 0x01 context) (\<lambda>host_cryptogram.
        Ok (secure_session_new sid s_enc s_mac s_rmac (replicate BLOCK_SIZE 0) (replicate BLOCK_SIZE 0),
            card_cryptogram, host_cryptogram)))))))"

definition begin_asymmetric ::
  "'k lib \<Rightarrow> 'k env \<Rightarrow> u8 \<Rightarrow> 'k \<Rightarrow> bytes \<Rightarrow> bytes \<Rightarrow> (SecureSession \<times> bytes \<times> bytes) res" where
  "begin_asymmetric L E sid device_static host_static_public host_ephemeral_public =
     (if key_kind L device_static \<noteq> Kind_Ec P256 then Err InvalidData
      else
        and_then (if length host_static_public = 64 then Ok (0x04 # host_static_public)
                  else if length host_static_public = 65 then Ok host_static_public
                  else Err WrongLength) (\<lambda>normalized_host_static.
        and_then (random_secret_key E) (\<lambda>device_ephemeral.
        and_then (case key_public L device_ephemeral of
                    Pub_Ec _ uncompressed \<Rightarrow> Ok uncompressed | _ \<Rightarrow> Err SessionFailed) (\<lambda>encoded_ephemeral.
        and_then (if length encoded_ephemeral = P256_PUBLIC_KEY_LENGTH then Ok encoded_ephemeral
                  else Err SessionFailed) (\<lambda>device_ephemeral_public.
        and_then (ok_or (derive_with_signing_key L device_ephemeral host_ephemeral_public) InvalidData)
          (\<lambda>ephemeral.
        and_then (ok_or (derive_with_signing_key L device_static normalized_host_static) InvalidData)
          (\<lambda>static_secret.
        and_then (x963_session_keys L ephemeral static_secret) (\<lambda>session_keys.
        and_then (cmac L (take 16 session_keys) (device_ephemeral_public @ host_ephemeral_public))
          (\<lambda>receipt.
        Ok (secure_session_new sid (take 16 (drop 16 session_keys)) (take 16 (drop 32 session_keys))
              (take 16 (drop 48 session_keys)) (increment_counter (replicate BLOCK_SIZE 0)) receipt,
            device_ephemeral_public, receipt))))))))))"

definition verify_request_mac ::
  "'k lib \<Rightarrow> SecureSession \<Rightarrow> Frame \<Rightarrow> bytes res \<times> SecureSession" where
  "verify_request_mac L s request =
     (if length (fr_data request) < MAC_LENGTH then (Err AuthenticationFailed, s)
      else
        let payload_length = length (fr_data request) - MAC_LENGTH;
            input = ss_mac_chaining_value s @ take (3 + payload_length) (frame_encode request)
        in try_in (cmac L (ss_mac s) input) s (\<lambda>command_mac.
             if take MAC_LENGTH command_mac \<noteq> drop payload_length (fr_data request)
             then (Err AuthenticationFailed, s)
             else (Ok (take payload_length (fr_data request)),
                   s\<lparr>ss_mac_chaining_value := command_mac\<rparr>)))"

definition authenticate_symmetric ::
  "'k lib \<Rightarrow> SecureSession \<Rightarrow> Frame \<Rightarrow> bytes \<Rightarrow> unit res \<times> SecureSession" where
  "authenticate_symmetric L s request expected_host_cryptogram =
     try_st (verify_request_mac L s request) (\<lambda>payload s.
       if length payload = 1 + MAC_LENGTH \<and> payload ! 0 = ss_sid s
          \<and> drop 1 payload = expected_host_cryptogram
       then (Ok (), s\<lparr>ss_counter := increment_counter (ss_counter s)\<rparr>)
       else (Err AuthenticationFailed, s))"

definition decrypt_request :: "'k lib \<Rightarrow> SecureSession \<Rightarrow> Frame \<Rightarrow> Frame res \<times> SecureSession" where
  "decrypt_request L s request =
     try_st (verify_request_mac L s request) (\<lambda>payload s.
       if length payload < 1 + BLOCK_SIZE \<or> payload ! 0 \<noteq> ss_sid s
          \<or> (length payload - 1) mod BLOCK_SIZE \<noteq> 0
       then (Err SessionFailed, s)
       else
         try_in (encrypt_block L (ss_enc s) (ss_counter s)) s (\<lambda>iv.
         try_in (cbc_decrypt L (ss_enc s) iv (drop 1 payload)) s (\<lambda>clear.
         try_in (unpad L clear) s (\<lambda>plain. (frame_parse plain, s)))))"

definition SESSION_MESSAGE_RESPONSE :: u8 where
  "SESSION_MESSAGE_RESPONSE = command_code Cmd_SessionMessage OR RESPONSE_BIT"

definition encrypt_response :: "'k lib \<Rightarrow> SecureSession \<Rightarrow> Frame \<Rightarrow> Frame res \<times> SecureSession" where
  "encrypt_response L s response =
     try_in (encrypt_block L (ss_enc s) (ss_counter s)) s (\<lambda>iv.
     try_in (cbc_encrypt L (ss_enc s) iv (pad L (frame_encode response))) s (\<lambda>ciphertext.
     let data = ss_sid s # ciphertext;
         encoded_without_mac = SESSION_MESSAGE_RESPONSE
             # be16 (of_nat (length data + MAC_LENGTH)) @ data
     in try_in (cmac L (ss_rmac s) (ss_mac_chaining_value s @ encoded_without_mac)) s (\<lambda>response_mac.
          (frame_new SESSION_MESSAGE_RESPONSE (data @ take MAC_LENGTH response_mac),
           s\<lparr>ss_counter := increment_counter (ss_counter s)\<rparr>))))"

section \<open>The message counter\<close>

lemma length_increment_rev [simp]: "length (increment_rev bs) = length bs"
  by (induction bs) auto

lemma length_increment_counter [simp]: "length (increment_counter c) = length c"
  by (simp add: increment_counter_def)

lemma unat_255: "unat (255::u8) = 255"
  by simp

lemma increment_rev_nat:
  "be_nat (rev (increment_rev bs)) = (be_nat (rev bs) + 1) mod 256 ^ length bs"
proof (induction bs)
  case (Cons b bs)
  show ?case
  proof (cases "b = 255")
    case True
    let ?n = "be_nat (rev bs)"
    have "(256 + ?n * 256) mod (256 * 256 ^ length bs) = (?n + 1) mod 256 ^ length bs * 256"
      using mult_mod_right [of 256 "?n + 1" "256 ^ length bs"] by (simp add: algebra_simps)
    with True Cons.IH show ?thesis by simp
  next
    case False
    then have b: "unat b \<noteq> 255" by (metis unat_255 word_unat_eq_iff)
    then have "unat b < 255" using unat_u8_lt [of b] by simp
    moreover from this have "unat (b + 1) = unat b + 1" by (simp add: unat_word_ariths)
    moreover have "be_nat (rev bs) < 256 ^ length bs" using be_nat_bound [of "rev bs"] by simp
    ultimately show ?thesis using False by simp
  qed
qed simp

lemma increment_counter_nat:
  "be_nat (increment_counter c) = (be_nat c + 1) mod 256 ^ length c"
  using increment_rev_nat [of "rev c"] by (simp add: increment_counter_def)

end
