(* ===== verification/Device_State.thy ===== *)
theory Device_State
  imports Session_Objects Secure_Channel
begin

unbundle bit_operations_syntax

text \<open>
  The state of a device (\<^verbatim>\<open>Device\<close> in \<^verbatim>\<open>device.rs\<close>) and the operations every command
  handler builds on: the object store with its generation history, the choice of object
  identifiers, the two write paths, device options and enabled algorithms, and the factory
  state. Methods that take \<^verbatim>\<open>&mut self\<close> return their outcome with the device they leave
  behind; methods that take \<^verbatim>\<open>&self\<close> only return an outcome.
\<close>

section \<open>Constants\<close>

definition MAX_OBJECTS :: nat where "MAX_OBJECTS = 256"
definition MAX_SESSIONS :: nat where "MAX_SESSIONS = 16"
definition SESSION_INACTIVITY_TIMEOUT :: nat where "SESSION_INACTIVITY_TIMEOUT = 30 * 10 ^ 9"
definition OPAQUE_DATA_ALGORITHM :: u8 where "OPAQUE_DATA_ALGORITHM = 30"
definition OPTION_FORCE_AUDIT :: u8 where "OPTION_FORCE_AUDIT = 1"
definition OPTION_COMMAND_AUDIT :: u8 where "OPTION_COMMAND_AUDIT = 3"
definition OPTION_ALGORITHM_TOGGLE :: u8 where "OPTION_ALGORITHM_TOGGLE = 4"
definition OPTION_FIPS_MODE :: u8 where "OPTION_FIPS_MODE = 5"
definition OPTION_OFF :: u8 where "OPTION_OFF = 0"
definition OPTION_ON :: u8 where "OPTION_ON = 1"
definition OPTION_FIX :: u8 where "OPTION_FIX = 2"

lemmas option_consts = OPTION_FORCE_AUDIT_def OPTION_COMMAND_AUDIT_def OPTION_ALGORITHM_TOGGLE_def
  OPTION_FIPS_MODE_def OPTION_OFF_def OPTION_ON_def OPTION_FIX_def

section \<open>State\<close>

record DeviceConfig =
  cf_version :: bytes
  cf_serial :: u32
  cf_log_capacity :: u8
  cf_algorithms :: bytes
  cf_part_number :: bytes

record DeviceOptions =
  op_force_audit :: u8
  op_command_audit :: "(u8, u8) btree"
  op_algorithm_toggle :: "(u8, u8) btree"
  op_fips_mode :: u8

record AuditEntry =
  ae_number :: u16
  ae_command :: u8
  ae_length :: u16
  ae_session_key :: u16
  ae_target_key :: u16
  ae_second_key :: u16
  ae_result :: u8
  ae_systick :: u32
  ae_digest :: bytes

record AuditState =
  as_entries :: "AuditEntry list"
  as_next_number :: u16
  as_systick :: u32
  as_previous_digest :: bytes
  as_unlogged_boot :: u16
  as_unlogged_authentication :: u16

record 'k SessionEntry =
  se_authorization :: SessionAuthorization
  se_secure :: SecureSession
  se_expected_host_cryptogram :: "bytes option"
  se_authenticated :: bool
  se_last_activity :: nat
  se_objects :: "'k SessionObjects"

record 'k Device =
  dv_config :: DeviceConfig
  dv_objects :: "(ObjectKey, 'k ObjectRecord) btree"
  dv_sessions :: "(u8, 'k SessionEntry) btree"
  dv_static_private :: 'k
  dv_state_epoch :: u64
  dv_sequence_history :: "(u16, u64) btree"
  dv_options :: DeviceOptions
  dv_audit :: AuditState
  dv_persistent_change :: bool

definition config_default :: "FirmwareProfile \<Rightarrow> DeviceConfig" where
  "config_default fw =
     \<lparr>cf_version = [2, 5, 0], cf_serial = 12345678, cf_log_capacity = 62,
      cf_algorithms = map algorithm_code (filter (algorithm_supported fw)
        (algorithm_OFFICIAL @ [Alg_X25519, Alg_X448, Alg_Ed448, Alg_MlDsa44, Alg_MlDsa65, Alg_MlDsa87,
          Alg_MlKem512, Alg_MlKem768, Alg_MlKem1024, Alg_HybridMlKem768P256,
          Alg_HybridMlKem768X25519, Alg_HybridMlKem1024P384])),
      cf_part_number = map (\<lambda>c. of_nat (of_char c)) ''78CLUFX5000P'' @ [0]\<rparr>"

definition options_default :: DeviceOptions where
  "options_default = \<lparr>op_force_audit = 0, op_command_audit = bt_empty,
     op_algorithm_toggle = bt_empty, op_fips_mode = 0\<rparr>"

definition audit_initial :: AuditState where
  "audit_initial = \<lparr>as_entries = [], as_next_number = 1, as_systick = 0,
     as_previous_digest = replicate 16 0, as_unlogged_boot = 0, as_unlogged_authentication = 0\<rparr>"

section \<open>Generation history\<close>

definition history_validate :: "(u16, u64) btree \<Rightarrow> bool" where
  "history_validate h = list_all (\<lambda>i. i \<noteq> 0 \<and> i \<noteq> u16_MAX) (bt_keys h)"

definition next_generation :: "'k Device \<Rightarrow> u16 \<Rightarrow> u64" where
  "next_generation d i = (case bt_get (dv_sequence_history d) i of
     None \<Rightarrow> 0 | Some generation \<Rightarrow> generation + 1)"

section \<open>Algorithms and options\<close>

definition fips_disallowed_algorithm :: "u8 \<Rightarrow> bool" where
  "fips_disallowed_algorithm algorithm =
     (case algorithm_from_byte algorithm of
        Some a \<Rightarrow> a \<in> {Alg_RsaPkcs1Sha1, Alg_RsaPssSha1, Alg_EcdsaSha1, Alg_EcK256, Alg_RsaPkcs1Decrypt}
      | None \<Rightarrow> False)"

definition supported_algorithm_byte :: "FirmwareProfile \<Rightarrow> u8 \<Rightarrow> bool" where
  "supported_algorithm_byte fw algorithm =
     (case algorithm_from_byte algorithm of Some a \<Rightarrow> algorithm_supported fw a | None \<Rightarrow> False)"

definition option_value :: "(u8, u8) btree \<Rightarrow> u8 \<Rightarrow> u8 \<Rightarrow> u8" where
  "option_value m k default_value = (case bt_get m k of Some v \<Rightarrow> v | None \<Rightarrow> default_value)"

definition algorithm_enabled :: "FirmwareProfile \<Rightarrow> 'k Device \<Rightarrow> u8 \<Rightarrow> bool" where
  "algorithm_enabled fw d algorithm =
     (supported_algorithm_byte fw algorithm
      \<and> algorithm \<in> set (cf_algorithms (dv_config d))
      \<and> option_value (op_algorithm_toggle (dv_options d)) algorithm OPTION_ON \<noteq> OPTION_OFF
      \<and> \<not> (op_fips_mode (dv_options d) \<noteq> OPTION_OFF \<and> fips_disallowed_algorithm algorithm))"

definition enabled_algorithms :: "FirmwareProfile \<Rightarrow> 'k Device \<Rightarrow> bytes" where
  "enabled_algorithms fw d = filter (algorithm_enabled fw d) (cf_algorithms (dv_config d))"

definition require_algorithm_enabled :: "FirmwareProfile \<Rightarrow> 'k Device \<Rightarrow> u8 \<Rightarrow> unit res" where
  "require_algorithm_enabled fw d algorithm =
     (if algorithm_enabled fw d algorithm then Ok () else Err InvalidData)"

definition valid_option_value :: "u8 \<Rightarrow> bool" where
  "valid_option_value v = (v = OPTION_OFF \<or> v = OPTION_ON \<or> v = OPTION_FIX)"

section \<open>Identifiers\<close>

text \<open>
  \<^verbatim>\<open>random_available_id_with\<close> on the entropy source: draw two bytes until they name an
  identifier that no stored object of any type has.
\<close>

definition available_id :: "'k Device \<Rightarrow> u16 \<Rightarrow> bool" where
  "available_id d i =
     (i \<noteq> 0 \<and> i \<noteq> u16_MAX \<and> \<not> list_ex (\<lambda>key. key_id key = i) (bt_keys (dv_objects d)))"

definition random_available_id :: "'k env \<Rightarrow> 'k Device \<Rightarrow> u16 res" where
  "random_available_id E d =
     (case draw_until (\<lambda>i. map_option from_be (entropy E i 2)) (available_id d) 0 of
        None \<Rightarrow> Diverge
      | Some None \<Rightarrow> Err StorageFailed
      | Some (Some i) \<Rightarrow> Ok i)"

definition resolve_id :: "'k env \<Rightarrow> 'k Device \<Rightarrow> ObjectType \<Rightarrow> u16 \<Rightarrow> u16 res" where
  "resolve_id E d object_type requested =
     (if requested = u16_MAX then Err InvalidId
      else if requested \<noteq> 0 then
        (if bt_contains (dv_objects d) (ObjectKey object_type requested) then Err ObjectExists
         else Ok requested)
      else random_available_id E d)"

section \<open>Looking objects up\<close>

definition require_object_visible :: "SessionAuthorization \<Rightarrow> 'k Device \<Rightarrow> ObjectKey \<Rightarrow> unit res" where
  "require_object_visible au d key =
     and_then (ok_or (bt_get (dv_objects d) key) ObjectNotFound) (\<lambda>object.
     require_visible au (or_info object))"

definition authorize_object ::
  "SessionAuthorization \<Rightarrow> 'k Device \<Rightarrow> ObjectKey \<Rightarrow> Capability \<Rightarrow> unit res" where
  "authorize_object au d key capability =
     and_then (ok_or (bt_get (dv_objects d) key) ObjectNotFound) (\<lambda>object.
     authorize_use au (or_info object) capability capability)"

text \<open>
  The common part of \<^verbatim>\<open>asymmetric_object\<close>, \<^verbatim>\<open>hmac_object\<close>, \<^verbatim>\<open>otp_aead_key\<close> and
  \<^verbatim>\<open>rsa_public_wrap_key\<close>: the object exists, is visible and its algorithm is enabled.
\<close>

definition usable_object ::
  "FirmwareProfile \<Rightarrow> SessionAuthorization \<Rightarrow> 'k Device \<Rightarrow> ObjectType \<Rightarrow> u16 \<Rightarrow> 'k ObjectRecord res" where
  "usable_object fw au d object_type i =
     and_then (ok_or (bt_get (dv_objects d) (ObjectKey object_type i)) ObjectNotFound) (\<lambda>object.
     and_then (require_visible au (or_info object)) (\<lambda>_.
     and_then (require_algorithm_enabled fw d (oi_algorithm (or_info object))) (\<lambda>_.
     Ok object)))"

definition asymmetric_object where "asymmetric_object fw au d i = usable_object fw au d Ty_AsymmetricKey i"
definition hmac_object where "hmac_object fw au d i = usable_object fw au d Ty_HmacKey i"
definition otp_aead_key where "otp_aead_key fw au d i = usable_object fw au d Ty_OtpAeadKey i"
definition rsa_public_wrap_key where
  "rsa_public_wrap_key fw au d i = usable_object fw au d Ty_PublicWrapKey i"

text \<open>
  \<^verbatim>\<open>rsa_private_wrap_key\<close>, \<^verbatim>\<open>ccm_wrap_key\<close> and \<^verbatim>\<open>symmetric_object\<close> also restrict the algorithm.
\<close>

definition usable_object_with ::
  "FirmwareProfile \<Rightarrow> SessionAuthorization \<Rightarrow> 'k Device \<Rightarrow> ObjectType \<Rightarrow> u16 \<Rightarrow> (Algorithm \<Rightarrow> bool) \<Rightarrow>
     'k ObjectRecord res" where
  "usable_object_with fw au d object_type i p =
     and_then (usable_object fw au d object_type i) (\<lambda>object.
     case algorithm_from_byte (oi_algorithm (or_info object)) of
       Some a \<Rightarrow> if p a then Ok object else Err InvalidData
     | None \<Rightarrow> Err InvalidData)"

definition rsa_private_wrap_key where
  "rsa_private_wrap_key fw au d i = usable_object_with fw au d Ty_WrapKey i is_rsa_key"
definition ccm_wrap_key where
  "ccm_wrap_key fw au d i = usable_object_with fw au d Ty_WrapKey i
     (\<lambda>a. a \<in> {Alg_Aes128CcmWrap, Alg_Aes192CcmWrap, Alg_Aes256CcmWrap})"
definition symmetric_object where
  "symmetric_object fw au d i = usable_object_with fw au d Ty_SymmetricKey i
     (\<lambda>a. a \<in> {Alg_Aes128, Alg_Aes192, Alg_Aes256})"

lemmas lookup_defs = asymmetric_object_def hmac_object_def otp_aead_key_def rsa_public_wrap_key_def
  rsa_private_wrap_key_def ccm_wrap_key_def symmetric_object_def usable_object_with_def usable_object_def

section \<open>Writing objects\<close>

text \<open>The tail of \<^verbatim>\<open>write_object\<close>: consume a generation and replace the object.\<close>

definition store_record :: "'k ObjectRecord \<Rightarrow> 'k Device \<Rightarrow> 'k Device" where
  "store_record r d =
     (let key = info_key (or_info r); generation = next_generation d (key_id key) in
      d\<lparr>dv_sequence_history := bt_insert (key_id key) generation (dv_sequence_history d),
        dv_objects := bt_insert key
          (r\<lparr>or_info := (or_info r)\<lparr>oi_sequence := ucast generation\<rparr>\<rparr>) (dv_objects d)\<rparr>)"

definition check_public_wrap_key :: "'k env \<Rightarrow> 'k ObjectRecord \<Rightarrow> unit res" where
  "check_public_wrap_key E r =
     (if oi_object_type (or_info r) \<noteq> Ty_PublicWrapKey then Ok ()
      else case algorithm_from_byte (oi_algorithm (or_info r)) of
        None \<Rightarrow> Err InvalidData
      | Some algorithm \<Rightarrow>
          if \<not> is_rsa_key algorithm then Err InvalidData
          else case or_material r of
            Mat_Public modulus \<Rightarrow>
              and_then (ok_or (asymmetric_key_length algorithm) InvalidData) (\<lambda>len.
                case validate_rsa_public E modulus [1, 0, 1] (len * 8) of
                  None \<Rightarrow> Ok ()
                | Some InvalidPublicKey \<Rightarrow> Err InvalidData
                | Some PublicRandomnessUnavailable \<Rightarrow> Err StorageFailed)
          | _ \<Rightarrow> Err InvalidData)"

definition write_object ::
  "'k lib \<Rightarrow> 'k env \<Rightarrow> 'k ObjectRecord \<Rightarrow> 'k Device \<Rightarrow> unit res \<times> 'k Device" where
  "write_object L E r d =
     try_in (promote_private_material L r) d (\<lambda>r.
     try_in (record_validate L r) d (\<lambda>_.
     try_in (check_public_wrap_key E r) d (\<lambda>_.
     (Ok (), store_record r d))))"

definition check_imported_key :: "'k lib \<Rightarrow> 'k env \<Rightarrow> 'k ObjectRecord \<Rightarrow> 'k ObjectRecord res" where
  "check_imported_key L E r = (case or_material r of
       Mat_SigningKey key \<Rightarrow>
         if key_is_rsa L key then
           and_then (ok_or (Option.bind (algorithm_from_byte (oi_algorithm (or_info r)))
                       asymmetric_key_length) InvalidData) (\<lambda>len.
             if key_modulus_bits L key \<noteq> len * 8 then Err InvalidData
             else case validate_rsa_private E key of
               Inl InvalidPrivateKey \<Rightarrow> Err InvalidData
             | Inl PrivateRandomnessUnavailable \<Rightarrow> Err StorageFailed
             | Inr validated \<Rightarrow> Ok (r\<lparr>or_material := Mat_SigningKey validated\<rparr>))
         else Ok r
     | _ \<Rightarrow> Ok r)"

definition write_imported_object ::
  "'k lib \<Rightarrow> 'k env \<Rightarrow> 'k ObjectRecord \<Rightarrow> 'k Device \<Rightarrow> unit res \<times> 'k Device" where
  "write_imported_object L E r d =
     try_in (promote_private_material L r) d (\<lambda>r.
     try_in (record_validate L r) d (\<lambda>_.
     try_in (check_imported_key L E r) d (\<lambda>r.
     write_object L E r d)))"

section \<open>Provisioning and the factory state\<close>

definition factory_record :: "'k lib \<Rightarrow> 'k ObjectRecord" where
  "factory_record L =
     \<lparr>or_info = \<lparr>oi_capabilities = cap_ALL, oi_id = 1, oi_length = 40, oi_domains = u16_MAX,
        oi_object_type = Ty_AuthenticationKey,
        oi_algorithm = AUTHENTICATION_ALGORITHM_AES128_YUBICO, oi_sequence = 0, oi_origin = 2,
        oi_label = map (\<lambda>c. of_nat (of_char c)) ''DEFAULT AUTHKEY CHANGE THIS'',
        oi_delegated_capabilities = cap_ALL\<rparr>,
      or_material = Mat_Authentication (Auth_Symmetric
        (yubico_password_kdf L (map (\<lambda>c. of_nat (of_char c)) ''password'')))\<rparr>"

definition install_factory_authentication_key :: "'k lib \<Rightarrow> 'k Device \<Rightarrow> 'k Device" where
  "install_factory_authentication_key L d =
     (let r = factory_record L; key = info_key (or_info r) in
      d\<lparr>dv_sequence_history := bt_insert (key_id key) 0 (dv_sequence_history d),
        dv_objects := bt_insert key r (dv_objects d)\<rparr>)"

definition factory_default_with_device_static_private ::
  "'k lib \<Rightarrow> DeviceConfig \<Rightarrow> bytes \<Rightarrow> 'k Device res" where
  "factory_default_with_device_static_private L config device_static_private =
     and_then (ok_or (key_from_serialized_for_kind L (Kind_Ec P256) device_static_private) InvalidData)
       (\<lambda>key. Ok (install_factory_authentication_key L
          \<lparr>dv_config = config, dv_objects = bt_empty, dv_sessions = bt_empty, dv_static_private = key,
           dv_state_epoch = 0, dv_sequence_history = bt_empty, dv_options = options_default,
           dv_audit = audit_initial, dv_persistent_change = False\<rparr>))"

text \<open>The state changes of \<^verbatim>\<open>ResetDevice\<close>, once a new device key has been generated.\<close>

definition reset_device :: "'k lib \<Rightarrow> 'k \<Rightarrow> 'k Device \<Rightarrow> 'k Device" where
  "reset_device L renewed_device_static_private d =
     install_factory_authentication_key L
       (d\<lparr>dv_objects := bt_empty, dv_sequence_history := bt_empty, dv_sessions := bt_empty,
          dv_static_private := renewed_device_static_private, dv_options := options_default,
          dv_audit := audit_initial\<rparr>)"

definition random_device_static_private :: "'k lib \<Rightarrow> 'k env \<Rightarrow> bytes res" where
  "random_device_static_private L E =
     and_then (random_secret_key E) (\<lambda>key.
     and_then (ok_or (key_serialized L key) StorageFailed) (\<lambda>bs.
     if length bs = 32 then Ok bs else Err StorageFailed))"

definition expect :: "'a res \<Rightarrow> 'a res" where
  "expect r = (case r of Err _ \<Rightarrow> Panic | _ \<Rightarrow> r)"

definition factory_default :: "'k lib \<Rightarrow> 'k env \<Rightarrow> DeviceConfig \<Rightarrow> 'k Device res" where
  "factory_default L E config =
     and_then (expect (random_device_static_private L E)) (\<lambda>bs.
     expect (factory_default_with_device_static_private L config bs))"

definition provision_object :: "'k lib \<Rightarrow> 'k ObjectRecord \<Rightarrow> 'k Device \<Rightarrow> unit res \<times> 'k Device" where
  "provision_object L r d =
     try_in (promote_private_material L r) d (\<lambda>r.
     try_in (record_validate L r) d (\<lambda>_.
     let key = info_key (or_info r) in
     (Ok (), d\<lparr>dv_sequence_history :=
                 bt_insert (key_id key) (ucast (oi_sequence (or_info r))) (dv_sequence_history d),
               dv_objects := bt_insert key r (dv_objects d),
               dv_persistent_change := True\<rparr>)))"

definition take_persistent_change :: "'k Device \<Rightarrow> bool res \<times> 'k Device" where
  "take_persistent_change d =
     (if \<not> dv_persistent_change d then (Ok False, d)
      else if dv_state_epoch d = 2 ^ 64 - 1 then (Err StorageFailed, d)
      else (Ok True, d\<lparr>dv_state_epoch := dv_state_epoch d + 1, dv_persistent_change := False\<rparr>))"

definition expire_inactive_sessions :: "nat \<Rightarrow> 'k Device \<Rightarrow> 'k Device" where
  "expire_inactive_sessions t d = d\<lparr>dv_sessions :=
     bt_retain (\<lambda>_ s. t - se_last_activity s < SESSION_INACTIVITY_TIMEOUT) (dv_sessions d)\<rparr>"

definition clear_sessions :: "'k Device \<Rightarrow> 'k Device" where
  "clear_sessions d = d\<lparr>dv_sessions := bt_empty\<rparr>"

section \<open>Well-formed stores\<close>

text \<open>
  A stored record has eight-byte capability sets, satisfies the source's own validation
  and holds every private asymmetric key in typed form.
\<close>

definition record_wf :: "'k lib \<Rightarrow> 'k ObjectRecord \<Rightarrow> bool" where
  "record_wf L r = (info_wf (or_info r) \<and> record_validate L r = Ok ()
     \<and> promote_private_material L r = Ok r)"

text \<open>
  The store maps every object under its own key, and the generation history knows every
  identifier in use.
\<close>

definition store_wf :: "'k lib \<Rightarrow> 'k Device \<Rightarrow> bool" where
  "store_wf L d =
     (bt_wf (dv_objects d) \<and> bt_wf (dv_sequence_history d)
      \<and> bt.all_of (\<lambda>k r. k = info_key (or_info r) \<and> record_wf L r
           \<and> bt_get (dv_sequence_history d) (key_id k) \<noteq> None) (dv_objects d)
      \<and> history_validate (dv_sequence_history d))"

lemma history_validate_iff:
  "bt_wf h \<Longrightarrow> history_validate h \<longleftrightarrow> bt.all_of (\<lambda>i _. i \<noteq> 0 \<and> i \<noteq> u16_MAX) h"
  by (auto simp: history_validate_def bt.all_of_entries bt_keys_def list_all_iff)

lemma store_wfD:
  assumes "store_wf L d" "bt_get (dv_objects d) k = Some r"
  shows "k = info_key (or_info r)" "record_wf L r" "bt_get (dv_sequence_history d) (key_id k) \<noteq> None"
  using assms bt.all_ofD unfolding store_wf_def by fast+

lemma info_upd_sequence [simp]:
  "info_key (i\<lparr>oi_sequence := q\<rparr>) = info_key i"
  "info_wf (i\<lparr>oi_sequence := q\<rparr>) \<longleftrightarrow> info_wf i"
  "info_validate (i\<lparr>oi_sequence := q\<rparr>) = info_validate i"
  by (simp_all add: info_key_def info_wf_def info_validate_def)

lemma record_validate_sequence [simp]:
  "record_validate L (r\<lparr>or_info := (or_info r)\<lparr>oi_sequence := q\<rparr>\<rparr>) = record_validate L r"
  by (simp add: record_validate_def expected_info_length_def Let_def cong: option.case_cong
      ObjectType.case_cong if_cong)

lemma promote_sequence:
  assumes "promote_private_material L r = Ok r"
  shows "promote_private_material L (r\<lparr>or_info := (or_info r)\<lparr>oi_sequence := q\<rparr>\<rparr>) =
           Ok (r\<lparr>or_info := (or_info r)\<lparr>oi_sequence := q\<rparr>\<rparr>)"
proof -
  have "or_material r \<noteq> Mat_Secret v \<or> \<not> holds_private_key (or_info r)" for v
    using assms typed_material_not_secret [of L "or_info r" v "Mat_Secret v" v]
    by (cases r) (auto simp: promote_private_material_def split: if_splits)
  then show ?thesis
    by (auto simp: promote_private_material_def holds_private_key_def split: ObjectMaterial.splits)
qed

lemma record_wf_sequence:
  "record_wf L r \<Longrightarrow> record_wf L (r\<lparr>or_info := (or_info r)\<lparr>oi_sequence := q\<rparr>\<rparr>)"
  by (simp add: record_wf_def promote_sequence)

lemma record_wf_id: "record_wf L r \<Longrightarrow> oi_id (or_info r) \<noteq> 0 \<and> oi_id (or_info r) \<noteq> u16_MAX"
  using record_validate_info [of L r] by (simp add: record_wf_def)

section \<open>What the write paths do\<close>

lemma store_record_objects:
  "bt_get (dv_objects (store_record r d)) k =
     (if k = info_key (or_info r)
      then Some (r\<lparr>or_info := (or_info r)\<lparr>oi_sequence := ucast (next_generation d (oi_id (or_info r)))\<rparr>\<rparr>)
      else bt_get (dv_objects d) k)"
  by (simp add: store_record_def Let_def info_key_def)

lemma store_record_history:
  "bt_get (dv_sequence_history (store_record r d)) i =
     (if i = oi_id (or_info r) then Some (next_generation d i) else bt_get (dv_sequence_history d) i)"
  by (simp add: store_record_def Let_def info_key_def)

lemma store_record_frame [simp]:
  "dv_config (store_record r d) = dv_config d" "dv_sessions (store_record r d) = dv_sessions d"
  "dv_static_private (store_record r d) = dv_static_private d"
  "dv_state_epoch (store_record r d) = dv_state_epoch d"
  "dv_options (store_record r d) = dv_options d" "dv_audit (store_record r d) = dv_audit d"
  "dv_persistent_change (store_record r d) = dv_persistent_change d"
  by (simp_all add: store_record_def Let_def)

lemma put_record_wf:
  assumes "store_wf L d" "record_wf L r"
  shows "store_wf L (d\<lparr>dv_sequence_history := bt_insert (oi_id (or_info r)) g (dv_sequence_history d),
                      dv_objects := bt_insert (info_key (or_info r)) r (dv_objects d)\<rparr>)"
proof -
  let ?h = "bt_insert (oi_id (or_info r)) g (dv_sequence_history d)"
  have wf: "bt_wf (bt_insert (info_key (or_info r)) r (dv_objects d))" "bt_wf ?h"
    using assms(1) by (simp_all add: store_wf_def bt.wf_insert)
  have "bt.all_of (\<lambda>k r'. k = info_key (or_info r') \<and> record_wf L r' \<and> bt_get ?h (key_id k) \<noteq> None)
      (bt_insert (info_key (or_info r)) r (dv_objects d))"
    using store_wfD [OF assms(1)] assms(2) by (auto simp: bt.all_of_def info_key_def split: if_splits)
  moreover have "bt.all_of (\<lambda>i _. i \<noteq> 0 \<and> i \<noteq> u16_MAX) ?h"
    using assms(1) record_wf_id [OF assms(2)] history_validate_iff [of "dv_sequence_history d"]
    unfolding store_wf_def bt.all_of_def by (auto split: if_splits)
  ultimately show ?thesis
    unfolding store_wf_def using wf by (simp add: history_validate_iff)
qed

lemma store_record_wf:
  assumes "store_wf L d" "record_wf L r"
  shows "store_wf L (store_record r d)"
  using put_record_wf [OF assms(1) record_wf_sequence [OF assms(2)]]
  by (simp add: store_record_def Let_def info_key_def)

lemma write_object_Ok:
  "write_object L E r d = (Ok u, d') \<longleftrightarrow>
     (\<exists>r'. promote_private_material L r = Ok r' \<and> record_validate L r' = Ok ()
       \<and> check_public_wrap_key E r' = Ok () \<and> d' = store_record r' d)"
  by (auto simp: write_object_def)

lemma write_object_commits:
  assumes "\<And>r'. promote_private_material L r = Ok r' \<Longrightarrow> record_validate L r' = Ok () \<Longrightarrow> P (store_record r' d)"
  shows "commits d P (write_object L E r d)"
  unfolding write_object_def using assms by (intro commits_try_in) simp

lemma check_imported_key_info: "check_imported_key L E r = Ok r' \<Longrightarrow> or_info r' = or_info r"
  by (auto simp: check_imported_key_def split: ObjectMaterial.splits if_splits sum.splits
      RsaPrivateValidationError.splits)

text \<open>A successful write stores a well-formed record with the requested information.\<close>

lemma promote_wf:
  assumes "promote_private_material L r = Ok r'" "record_validate L r' = Ok ()" "info_wf (or_info r)"
  shows "or_info r' = or_info r \<and> record_wf L r'"
  using assms promote_idem [OF assms(1)] promote_keeps_info [OF assms(1)] by (simp add: record_wf_def)

lemma write_object_stores:
  assumes "info_wf (or_info r)" "\<And>r'. or_info r' = or_info r \<Longrightarrow> record_wf L r' \<Longrightarrow> P (store_record r' d)"
  shows "commits d P (write_object L E r d)"
  using assms promote_wf by (intro write_object_commits) blast

lemma write_imported_object_stores:
  assumes "info_wf (or_info r)" "\<And>r'. or_info r' = or_info r \<Longrightarrow> record_wf L r' \<Longrightarrow> P (store_record r' d)"
  shows "commits d P (write_imported_object L E r d)"
  unfolding write_imported_object_def
  using assms by (intro commits_try_in write_object_stores)
    (simp_all add: promote_keeps_info check_imported_key_info)

section \<open>Identifiers\<close>

lemma random_available_id_Ok:
  "random_available_id E d = Ok i \<Longrightarrow> available_id d i"
  by (auto simp: random_available_id_def split: option.splits dest: draw_until_accepts)

lemma available_id_free: "available_id d i \<Longrightarrow> bt_get (dv_objects d) (ObjectKey t i) = None"
proof (rule ccontr)
  assume "available_id d i" "bt_get (dv_objects d) (ObjectKey t i) \<noteq> None"
  then obtain r where "(ObjectKey t i, r) \<in> set (dv_objects d)"
    by (auto simp: bt_get_def dest: map_of_SomeD)
  with \<open>available_id d i\<close> show False
    by (force simp: available_id_def bt_keys_def list_ex_iff)
qed

lemma resolve_id_Ok:
  assumes "resolve_id E d t requested = Ok i"
  shows "bt_get (dv_objects d) (ObjectKey t i) = None" "i \<noteq> 0" "i \<noteq> u16_MAX"
    "requested \<noteq> 0 \<Longrightarrow> i = requested"
  using assms available_id_free random_available_id_Ok [of E d i]
  by (auto simp: resolve_id_def available_id_def split: if_splits)

lemma resolve_id_not_panic [simp]: "resolve_id E d t requested \<noteq> Panic"
  by (auto simp: resolve_id_def random_available_id_def split: option.splits)

text \<open>The search for a free identifier ends once the entropy source yields one.\<close>

lemma resolve_id_returns:
  assumes "entropy E n 2 = Some bs" "available_id d (from_be bs)"
  shows "resolve_id E d t requested \<noteq> Diverge"
proof -
  have "draw_until (\<lambda>i. map_option from_be (entropy E i 2)) (available_id d) 0 \<noteq> None"
    by (rule draw_until_returns [of _ _ n]) (use assms in auto)
  then show ?thesis by (auto simp: resolve_id_def random_available_id_def split: option.splits)
qed

section \<open>Factory state\<close>

text \<open>The password derivation returns two AES-128 keys (\<^verbatim>\<open>yubico_password_kdf\<close>).\<close>

definition password_kdf_ok :: "'k lib \<Rightarrow> bool" where
  "password_kdf_ok L = (\<forall>pw. length (yubico_password_kdf L pw) = 32)"

lemma factory_record_wf: "password_kdf_ok L \<Longrightarrow> record_wf L (factory_record L)"
  by (simp add: record_wf_def factory_record_def info_wf_def record_validate_def password_kdf_ok_def
      expected_info_length_def promote_private_material_def cap_ALL_def cap_wf_def
      AUTHENTICATION_ALGORITHM_AES128_YUBICO_def)

lemma factory_install_wf:
  assumes "password_kdf_ok L" "dv_objects d = bt_empty" "dv_sequence_history d = bt_empty"
  shows "store_wf L (install_factory_authentication_key L d)"
  using assms factory_record_wf [OF assms(1)]
  by (auto simp: install_factory_authentication_key_def Let_def store_wf_def bt.wf_insert bt.wf_empty
      bt.all_of_insert history_validate_iff info_key_def factory_record_def)

end
