(* ===== verification/Request_Codecs.thy ===== *)
theory Request_Codecs
  imports Requests
begin

text \<open>
  Correctness of the request decoders: none of them panics or loops, and each accepts
  exactly the published layout. The creation requests are instances of the codec contracts
  of \<^verbatim>\<open>Wire\<close>; the list filter decodes any sequence of tagged fields, later fields
  overriding earlier ones.
\<close>

section \<open>Totality\<close>

lemmas decoder_defs =
  decode_empty_def decode_remainder_def decode_u8_def decode_u16_def decode_id_remainder_def
  decode_get_device_info_def decode_create_session_def decode_session_envelope_def
  decode_object_key_def decode_get_public_key_def decode_set_option_def decode_object_header_def
  decode_object_request_def decode_delegated_object_def decode_otp_aead_key_def
  decode_sign_pss_def decode_sign_ml_dsa_def decode_derive_ecdh_kdf_def decode_decrypt_oaep_def
  decode_aes_cbc_def decode_export_wrapped_def decode_import_wrapped_def
  decode_create_otp_aead_def decode_decrypt_otp_def decode_rewrap_otp_aead_def
  decode_sign_attestation_def decode_change_authentication_key_def decode_export_rsa_wrapped_def
  decode_import_rsa_wrapped_def decode_put_rsa_wrapped_key_def decode_session_object_def
  decode_session_source_def decode_session_result_header_def decode_generate_session_key_def
  decode_derive_session_ecdh_def decode_concatenate_session_keys_def
  decode_concatenate_session_data_def decode_extract_session_object_def
  decode_sha256_session_object_def decode_handle_def decode_verify_session_cmac_def

lemma filter_step_total: "filter_step f r \<noteq> Panic \<and> filter_step f r \<noteq> Diverge"
  by (auto simp: filter_step_def result_simps split: if_splits)

lemma filters_loop_total: "filters_loop f r \<noteq> Panic \<and> filters_loop f r \<noteq> Diverge"
proof (induction f r rule: filters_loop.induct)
  case (1 f r)
  then show ?case
    using filter_step_total [of f r] by (subst (1 2) filters_loop.simps) (auto simp: result_simps)
qed

lemma decode_kdf_field_total: "total_decoder decode_kdf_field"
  by (auto simp: total_decoder_def decode_kdf_field_def result_simps Let_def split: if_splits)

lemma decode_kdf_fields_total: "total_decoder (decode_kdf_fields n)"
proof (induction n)
  case (Suc n)
  then show ?case using decode_kdf_field_total by (auto simp: total_decoder_def result_simps)
qed (simp add: total_decoder_def)

text \<open>Every request decoder returns a value or a device error.\<close>

lemma decoders_total_small [simp]:
  "total_decoder decode_empty" "total_decoder decode_remainder" "total_decoder decode_u8"
  "total_decoder decode_u16" "total_decoder decode_id_remainder" "total_decoder decode_filters"
  "total_decoder decode_get_device_info" "total_decoder decode_create_session"
  "total_decoder decode_session_envelope" "total_decoder decode_object_key"
  "total_decoder decode_get_public_key" "total_decoder decode_set_option"
  "total_decoder decode_object_header" "total_decoder decode_handle"
  "total_decoder decode_session_source" "total_decoder decode_session_result_header"
  by (auto simp: total_decoder_def decoder_defs decode_filters_def filters_loop_total result_simps
      read_remainder_def split: if_splits)

lemma decoders_total_create [simp]:
  "total_decoder decode_object_request" "total_decoder decode_delegated_object"
  "total_decoder decode_otp_aead_key"
  using decoders_total_small(13)
  by (auto simp: total_decoder_def decode_object_request_def decode_delegated_object_def
      decode_otp_aead_key_def result_simps read_remainder_def)

lemma decoders_total_crypto [simp]:
  "total_decoder decode_sign_pss" "total_decoder (decode_sign_ml_dsa L)"
  "total_decoder decode_derive_ecdh_kdf" "total_decoder decode_decrypt_oaep"
  "total_decoder decode_aes_cbc" "total_decoder decode_export_wrapped"
  "total_decoder decode_import_wrapped" "total_decoder decode_create_otp_aead"
  "total_decoder decode_decrypt_otp" "total_decoder decode_rewrap_otp_aead"
  "total_decoder decode_sign_attestation" "total_decoder decode_change_authentication_key"
  "total_decoder decode_export_rsa_wrapped" "total_decoder decode_import_rsa_wrapped"
  "total_decoder decode_put_rsa_wrapped_key"
  by (auto simp: total_decoder_def decoder_defs result_simps read_remainder_def split: if_splits)

lemma decoders_total_session [simp]:
  "total_decoder decode_session_object" "total_decoder decode_generate_session_key"
  "total_decoder decode_derive_session_ecdh" "total_decoder decode_concatenate_session_keys"
  "total_decoder decode_concatenate_session_data" "total_decoder decode_extract_session_object"
  "total_decoder decode_sha256_session_object" "total_decoder decode_counter_kdf"
  "total_decoder decode_verify_session_cmac"
  using decode_kdf_fields_total
  by (auto simp: total_decoder_def decoder_defs decode_counter_kdf_def result_simps
      read_remainder_def split: if_splits)

section \<open>Codecs of the creation requests\<close>

definition header_valid :: "ObjectHeader \<Rightarrow> bool" where
  "header_valid h = (length (oh_label h) = 40 \<and> length (oh_capabilities h) = 8)"

definition encode_object_header :: "ObjectHeader \<Rightarrow> bytes" where
  "encode_object_header h =
     be16 (oh_requested_id h) @ oh_label h @ be16 (oh_domains h) @ oh_capabilities h
     @ [oh_algorithm h]"

lemma object_header_iff:
  "decode_object_header bs = Ok (h, rest) \<longleftrightarrow> header_valid h \<and> bs = encode_object_header h @ rest"
  by (cases h) (auto simp: decode_object_header_def header_valid_def encode_object_header_def)

interpretation header: prefix_codec decode_object_header encode_object_header header_valid
  by unfold_locales (rule object_header_iff)

interpretation object_request: message_codec decode_object_request
  "\<lambda>q. encode_object_header (oq_header q) @ oq_material q" "\<lambda>q. header_valid (oq_header q)"
proof unfold_locales
  fix q :: ObjectRequest
  show "header_valid (oq_header q) \<Longrightarrow>
      decode_request decode_object_request (encode_object_header (oq_header q) @ oq_material q) = Ok q"
    by (auto simp: decode_object_request_def read_remainder_def header.prefix_iff)
next
  fix bs and q :: ObjectRequest
  show "decode_request decode_object_request bs = Ok q \<Longrightarrow>
      header_valid (oq_header q) \<and> bs = encode_object_header (oq_header q) @ oq_material q"
    by (auto simp: decode_object_request_def read_remainder_def header.prefix_iff)
qed

interpretation delegated_request: message_codec decode_delegated_object
  "\<lambda>q. encode_object_header (dq_header q) @ dq_delegated_capabilities q @ dq_material q"
  "\<lambda>q. header_valid (dq_header q) \<and> length (dq_delegated_capabilities q) = 8"
proof unfold_locales
  fix q :: DelegatedObjectRequest
  show "header_valid (dq_header q) \<and> length (dq_delegated_capabilities q) = 8 \<Longrightarrow>
      decode_request decode_delegated_object
        (encode_object_header (dq_header q) @ dq_delegated_capabilities q @ dq_material q) = Ok q"
    by (cases q) (auto simp: decode_delegated_object_def read_remainder_def header.prefix_iff)
next
  fix bs and q :: DelegatedObjectRequest
  show "decode_request decode_delegated_object bs = Ok q \<Longrightarrow>
      (header_valid (dq_header q) \<and> length (dq_delegated_capabilities q) = 8)
      \<and> bs = encode_object_header (dq_header q) @ dq_delegated_capabilities q @ dq_material q"
    by (auto simp: decode_delegated_object_def read_remainder_def header.prefix_iff)
qed

interpretation otp_request: message_codec decode_otp_aead_key
  "\<lambda>q. encode_object_header (ok_header q) @ ok_nonce_id q @ ok_material q"
  "\<lambda>q. header_valid (ok_header q) \<and> length (ok_nonce_id q) = 4"
proof unfold_locales
  fix q :: OtpAeadKeyRequest
  show "header_valid (ok_header q) \<and> length (ok_nonce_id q) = 4 \<Longrightarrow>
      decode_request decode_otp_aead_key
        (encode_object_header (ok_header q) @ ok_nonce_id q @ ok_material q) = Ok q"
    by (cases q) (auto simp: decode_otp_aead_key_def read_remainder_def header.prefix_iff)
next
  fix bs and q :: OtpAeadKeyRequest
  show "decode_request decode_otp_aead_key bs = Ok q \<Longrightarrow>
      (header_valid (ok_header q) \<and> length (ok_nonce_id q) = 4)
      \<and> bs = encode_object_header (ok_header q) @ ok_nonce_id q @ ok_material q"
    by (auto simp: decode_otp_aead_key_def read_remainder_def header.prefix_iff)
qed

interpretation object_key: prefix_codec decode_object_key
  "\<lambda>k. be16 (key_id k) @ [object_type_code (key_type k)]" "\<lambda>_. True"
proof unfold_locales
  fix bs k rest
  show "decode_object_key bs = Ok (k, rest) \<longleftrightarrow>
      True \<and> bs = (be16 (key_id k) @ [object_type_code (key_type k)]) @ rest"
    by (cases k) (auto simp: decode_object_key_def dest: object_type_code_from)
qed

lemma decode_id_remainder_iff [simp]:
  "decode_id_remainder bs = Ok (q, []) \<longleftrightarrow> bs = be16 (ir_id q) @ ir_payload q"
  by (cases q) (auto simp: decode_id_remainder_def read_remainder_def)

text \<open>A decoded creation header carries a full label field and an eight-byte bitmap.\<close>

lemma object_request_wf:
  "decode_request decode_object_request bs = Ok q \<Longrightarrow>
     length (oh_label (oq_header q)) = 40 \<and> cap_wf (oh_capabilities (oq_header q))"
  using object_request.only_encodings by (auto simp: header_valid_def cap_wf_def)

lemma delegated_request_wf:
  "decode_request decode_delegated_object bs = Ok q \<Longrightarrow>
     length (oh_label (dq_header q)) = 40 \<and> cap_wf (oh_capabilities (dq_header q))
     \<and> cap_wf (dq_delegated_capabilities q)"
  using delegated_request.only_encodings by (auto simp: header_valid_def cap_wf_def)

lemma otp_request_wf:
  "decode_request decode_otp_aead_key bs = Ok q \<Longrightarrow>
     length (oh_label (ok_header q)) = 40 \<and> cap_wf (oh_capabilities (ok_header q))
     \<and> length (ok_nonce_id q) = 4"
  using otp_request.only_encodings by (auto simp: header_valid_def cap_wf_def)

lemma trim_label_length: "length (trim_label l) \<le> length l"
  by (simp add: trim_label_def length_takeWhile_le)

lemma trim_label_padded: "0 \<notin> set l \<Longrightarrow> trim_label (l @ replicate n 0) = l"
  by (induction l) (auto simp: trim_label_def takeWhile_replicate)

section \<open>List filters\<close>

datatype FilterItem =
    Item_Id u16 | Item_Type ObjectType | Item_Domains u16 | Item_Capabilities bytes
  | Item_Algorithm u8 | Item_Label bytes

primrec item_valid :: "FilterItem \<Rightarrow> bool" where
  "item_valid (Item_Id _) = True"
| "item_valid (Item_Type _) = True"
| "item_valid (Item_Domains _) = True"
| "item_valid (Item_Capabilities c) = (length c = 8)"
| "item_valid (Item_Algorithm _) = True"
| "item_valid (Item_Label l) = (length l = 40)"

primrec item_encode :: "FilterItem \<Rightarrow> bytes" where
  "item_encode (Item_Id i) = 1 # be16 i"
| "item_encode (Item_Type t) = [2, object_type_code t]"
| "item_encode (Item_Domains d) = 3 # be16 d"
| "item_encode (Item_Capabilities c) = 4 # c"
| "item_encode (Item_Algorithm a) = [5, a]"
| "item_encode (Item_Label l) = 6 # l"

primrec item_apply :: "FilterItem \<Rightarrow> ObjectFilters \<Rightarrow> ObjectFilters" where
  "item_apply (Item_Id i) f = f\<lparr>fl_id := Some i\<rparr>"
| "item_apply (Item_Type t) f = f\<lparr>fl_object_type := Some t\<rparr>"
| "item_apply (Item_Domains d) f = f\<lparr>fl_domains := Some d\<rparr>"
| "item_apply (Item_Capabilities c) f = f\<lparr>fl_capabilities := Some c\<rparr>"
| "item_apply (Item_Algorithm a) f = f\<lparr>fl_algorithm := Some a\<rparr>"
| "item_apply (Item_Label l) f = f\<lparr>fl_label := Some (trim_label l)\<rparr>"

lemma filter_step_item:
  "item_valid it \<Longrightarrow> filter_step f (item_encode it @ rest) = Ok (item_apply it f, rest)"
  by (cases it) (auto simp: filter_step_def)

lemma item_encode_nonempty [simp]: "item_encode it \<noteq> []"
  by (cases it) auto

lemma filters_loop_items:
  "list_all item_valid items \<Longrightarrow>
     filters_loop f (concat (map item_encode items)) = Ok (fold item_apply items f, [])"
proof (induction items arbitrary: f)
  case Nil
  then show ?case by (simp add: filters_loop.simps remaining_len_def)
next
  case (Cons it items)
  then show ?case
    by (subst filters_loop.simps) (simp add: remaining_len_def filter_step_item)
qed

lemma filter_step_only_items:
  "filter_step f r = Ok (f', r') \<Longrightarrow>
     \<exists>it. item_valid it \<and> r = item_encode it @ r' \<and> f' = item_apply it f"
proof -
  assume "filter_step f r = Ok (f', r')"
  then consider
      (1) i where "r = item_encode (Item_Id i) @ r'" "f' = item_apply (Item_Id i) f"
    | (2) t where "r = item_encode (Item_Type t) @ r'" "f' = item_apply (Item_Type t) f"
    | (3) d where "r = item_encode (Item_Domains d) @ r'" "f' = item_apply (Item_Domains d) f"
    | (4) c where "r = item_encode (Item_Capabilities c) @ r'" "length c = 8"
        "f' = item_apply (Item_Capabilities c) f"
    | (5) a where "r = item_encode (Item_Algorithm a) @ r'" "f' = item_apply (Item_Algorithm a) f"
    | (6) l where "r = item_encode (Item_Label l) @ r'" "length l = 40"
        "f' = item_apply (Item_Label l) f"
    by (auto simp: filter_step_def dest: object_type_code_from split: if_splits)
  then show ?thesis by cases (metis item_valid.simps)+
qed

lemma filters_loop_only_items:
  "filters_loop f r = Ok (f', r') \<Longrightarrow>
     \<exists>items. list_all item_valid items \<and> r = concat (map item_encode items) \<and>
        f' = fold item_apply items f \<and> r' = []"
proof (induction f r rule: filters_loop.induct)
  case (1 f r)
  show ?case
  proof (cases "r = []")
    case True
    with 1 show ?thesis
      by (subst (asm) filters_loop.simps) (auto simp: remaining_len_def intro: exI [of _ "[]"])
  next
    case False
    with "1.prems" obtain s where s: "filter_step f r = Ok s"
      and loop: "filters_loop (fst s) (snd s) = Ok (f', r')"
      by (subst (asm) filters_loop.simps) (auto simp: remaining_len_def)
    obtain it where it: "item_valid it" "r = item_encode it @ snd s" "fst s = item_apply it f"
      using filter_step_only_items [of f r "fst s" "snd s"] s by auto
    obtain items where "list_all item_valid items" "snd s = concat (map item_encode items)"
        "f' = fold item_apply items (fst s)" "r' = []"
      using "1.IH" [OF _ s loop] False by (auto simp: remaining_len_def)
    with it show ?thesis by (intro exI [of _ "it # items"]) simp
  qed
qed

end
