(* ===== verification/Options.thy ===== *)
theory Options
  imports Device_State Request_Codecs
begin

unbundle bit_operations_syntax

text \<open>
  Device options (\<^verbatim>\<open>device.rs\<close>: \<^verbatim>\<open>get_option\<close>, \<^verbatim>\<open>set_option\<close> and their helpers) and the device
  information command. An option is off, on or fixed; a fixed option never changes again
  short of a factory reset, and a rejected request leaves every option as it was.
\<close>

section \<open>Reading options\<close>

definition all_bytes :: bytes where
  "all_bytes = map of_nat [0..<256]"

definition supported_command_byte :: "FirmwareProfile \<Rightarrow> u8 \<Rightarrow> bool" where
  "supported_command_byte fw c =
     (case command_from_byte c of Some command \<Rightarrow> command_supported fw command | None \<Rightarrow> False)"

definition get_option :: "FirmwareProfile \<Rightarrow> 'k Device \<Rightarrow> bytes \<Rightarrow> bytes res" where
  "get_option fw d data =
     and_then (decode_request decode_u8 data) (\<lambda>opt.
     if opt = OPTION_FORCE_AUDIT then Ok [op_force_audit (dv_options d)]
     else if opt = OPTION_COMMAND_AUDIT then
       Ok (concat (map (\<lambda>c. [c, option_value (op_command_audit (dv_options d)) c OPTION_OFF])
             (filter (supported_command_byte fw) all_bytes)))
     else if opt = OPTION_ALGORITHM_TOGGLE then
       Ok (concat (map (\<lambda>a. [a, option_value (op_algorithm_toggle (dv_options d)) a OPTION_ON])
             (filter (supported_algorithm_byte fw) (cf_algorithms (dv_config d)))))
     else if opt = OPTION_FIPS_MODE then Ok [op_fips_mode (dv_options d)]
     else Err InvalidData)"

section \<open>Writing options\<close>

text \<open>\<^verbatim>\<open>set_option_value\<close>: the new value of an option holding \<open>current\<close>.\<close>

definition set_option_value :: "u8 \<Rightarrow> u8 \<Rightarrow> u8 res" where
  "set_option_value current requested =
     (if \<not> valid_option_value requested then Err InvalidData
      else if current = OPTION_FIX \<and> requested \<noteq> OPTION_FIX then Err InsufficientPermissions
      else Ok requested)"

definition require_fresh_device_for_algorithm_options :: "'k Device \<Rightarrow> unit res" where
  "require_fresh_device_for_algorithm_options d =
     (if length (dv_objects d) = 1 \<and> bt_contains (dv_objects d) (ObjectKey Ty_AuthenticationKey 1)
      then Ok () else Err InsufficientPermissions)"

text \<open>\<^verbatim>\<open>values.as_chunks::<2>().0\<close>.\<close>

fun chunks2 :: "bytes \<Rightarrow> (u8 \<times> u8) list" where
  "chunks2 (a # b # rest) = (a, b) # chunks2 rest"
| "chunks2 _ = []"

primrec update_command_audit ::
  "FirmwareProfile \<Rightarrow> (u8 \<times> u8) list \<Rightarrow> (u8, u8) btree \<Rightarrow> (u8, u8) btree res" where
  "update_command_audit fw [] updated = Ok updated"
| "update_command_audit fw (p # ps) updated =
     (if \<not> supported_command_byte fw (fst p) then Err InvalidData
      else if \<not> valid_option_value (snd p) then Err InvalidData
      else if command_from_byte (fst p) = Some Cmd_SessionMessage \<and> snd p \<noteq> OPTION_OFF
        then Err InvalidData
      else if bt_get updated (fst p) = Some OPTION_FIX \<and> snd p \<noteq> OPTION_FIX
        then Err InsufficientPermissions
      else update_command_audit fw ps (bt_insert (fst p) (snd p) updated))"

primrec update_algorithm_toggle ::
  "FirmwareProfile \<Rightarrow> bytes \<Rightarrow> (u8 \<times> u8) list \<Rightarrow> (u8, u8) btree \<Rightarrow> (u8, u8) btree res" where
  "update_algorithm_toggle fw algorithms [] updated = Ok updated"
| "update_algorithm_toggle fw algorithms (p # ps) updated =
     (if fst p \<notin> set algorithms \<or> \<not> supported_algorithm_byte fw (fst p)
         \<or> \<not> valid_option_value (snd p)
      then Err InvalidData
      else if bt_get updated (fst p) = Some OPTION_FIX \<and> snd p \<noteq> OPTION_FIX
        then Err InsufficientPermissions
      else update_algorithm_toggle fw algorithms ps (bt_insert (fst p) (snd p) updated))"

definition option_pairs :: "bytes \<Rightarrow> (u8 \<times> u8) list res" where
  "option_pairs vs = (if vs = [] \<or> length vs mod 2 \<noteq> 0 then Err WrongLength else Ok (chunks2 vs))"

definition single_value :: "bytes \<Rightarrow> u8 res" where
  "single_value vs = (case vs of [v] \<Rightarrow> Ok v | _ \<Rightarrow> Err WrongLength)"

definition set_option :: "FirmwareProfile \<Rightarrow> bytes \<Rightarrow> 'k Device \<Rightarrow> bytes res \<times> 'k Device" where
  "set_option fw data d =
     try_in (decode_request decode_set_option data) d (\<lambda>request.
     let opts = dv_options d in
     if st_option request = OPTION_FORCE_AUDIT then
       try_in (single_value (st_values request)) d (\<lambda>v.
       try_in (set_option_value (op_force_audit opts) v) d (\<lambda>v.
       (Ok [], d\<lparr>dv_options := opts\<lparr>op_force_audit := v\<rparr>\<rparr>)))
     else if st_option request = OPTION_COMMAND_AUDIT then
       try_in (option_pairs (st_values request)) d (\<lambda>pairs.
       try_in (update_command_audit fw pairs (op_command_audit opts)) d (\<lambda>updated.
       (Ok [], d\<lparr>dv_options := opts\<lparr>op_command_audit := updated\<rparr>\<rparr>)))
     else if st_option request = OPTION_ALGORITHM_TOGGLE then
       try_in (require_fresh_device_for_algorithm_options d) d (\<lambda>_.
       try_in (option_pairs (st_values request)) d (\<lambda>pairs.
       try_in (update_algorithm_toggle fw (cf_algorithms (dv_config d)) pairs
                 (op_algorithm_toggle opts)) d (\<lambda>updated.
       (Ok [], d\<lparr>dv_options := opts\<lparr>op_algorithm_toggle := updated\<rparr>\<rparr>))))
     else if st_option request = OPTION_FIPS_MODE then
       try_in (require_fresh_device_for_algorithm_options d) d (\<lambda>_.
       try_in (single_value (st_values request)) d (\<lambda>v.
       try_in (set_option_value (op_fips_mode opts) v) d (\<lambda>v.
       (Ok [], d\<lparr>dv_options := opts\<lparr>op_fips_mode := v\<rparr>\<rparr>))))
     else (Err InvalidData, d))"

section \<open>Device information\<close>

text \<open>\<^verbatim>\<open>len.try_into().unwrap_or(u8::MAX)\<close>.\<close>

definition saturate_u8 :: "nat \<Rightarrow> u8" where
  "saturate_u8 n = (if n < 256 then of_nat n else 255)"

definition get_device_info :: "FirmwareProfile \<Rightarrow> 'k Device \<Rightarrow> bytes \<Rightarrow> bytes res" where
  "get_device_info fw d data =
     and_then (decode_request decode_get_device_info data) (\<lambda>selector.
     case selector of
       None \<Rightarrow> Ok (cf_version (dv_config d) @ be32 (cf_serial (dv_config d))
                 @ [cf_log_capacity (dv_config d), saturate_u8 (length (as_entries (dv_audit d)))]
                 @ enabled_algorithms fw d)
     | Some v \<Rightarrow> if v = 1 then Ok (cf_part_number (dv_config d)) else Err InvalidData)"

section \<open>Invariant and monotonicity\<close>

definition command_audit_wf :: "(u8, u8) btree \<Rightarrow> bool" where
  "command_audit_wf m = (bt_wf m \<and> bt.all_of (\<lambda>c v. valid_option_value v
     \<and> (command_from_byte c = Some Cmd_SessionMessage \<longrightarrow> v = OPTION_OFF)) m)"

definition algorithm_toggle_wf :: "(u8, u8) btree \<Rightarrow> bool" where
  "algorithm_toggle_wf m = (bt_wf m \<and> bt.all_of (\<lambda>_ v. valid_option_value v) m)"

definition options_wf :: "DeviceOptions \<Rightarrow> bool" where
  "options_wf opts =
     (valid_option_value (op_force_audit opts) \<and> valid_option_value (op_fips_mode opts)
      \<and> command_audit_wf (op_command_audit opts) \<and> algorithm_toggle_wf (op_algorithm_toggle opts))"

text \<open>What is fixed stays fixed.\<close>

definition fixed_kept :: "DeviceOptions \<Rightarrow> DeviceOptions \<Rightarrow> bool" where
  "fixed_kept o1 o2 =
     ((op_force_audit o1 = OPTION_FIX \<longrightarrow> op_force_audit o2 = OPTION_FIX)
      \<and> (op_fips_mode o1 = OPTION_FIX \<longrightarrow> op_fips_mode o2 = OPTION_FIX)
      \<and> (\<forall>c. bt_get (op_command_audit o1) c = Some OPTION_FIX \<longrightarrow>
             bt_get (op_command_audit o2) c = Some OPTION_FIX)
      \<and> (\<forall>a. bt_get (op_algorithm_toggle o1) a = Some OPTION_FIX \<longrightarrow>
             bt_get (op_algorithm_toggle o2) a = Some OPTION_FIX))"

lemma fixed_kept_refl [simp]: "fixed_kept opts opts"
  by (simp add: fixed_kept_def)

lemma fixed_kept_trans: "fixed_kept o1 o2 \<Longrightarrow> fixed_kept o2 o3 \<Longrightarrow> fixed_kept o1 o3"
  by (simp add: fixed_kept_def)

lemma options_default_wf [simp]: "options_wf options_default"
  by (simp add: options_wf_def options_default_def valid_option_value_def option_consts bt.wf_empty
      command_audit_wf_def algorithm_toggle_wf_def)

lemma set_option_value_Ok [simp]:
  "set_option_value current v = Ok v' \<longleftrightarrow>
     v' = v \<and> valid_option_value v \<and> (current = OPTION_FIX \<longrightarrow> v = OPTION_FIX)"
  by (auto simp: set_option_value_def)

lemma fixed_insert:
  "bt_get m k = Some OPTION_FIX \<longrightarrow> v = OPTION_FIX \<Longrightarrow> bt_get m c = Some OPTION_FIX \<Longrightarrow>
     bt_get (bt_insert k v m) c = Some OPTION_FIX"
  by auto

lemma update_command_audit_Ok:
  assumes "update_command_audit fw ps m = Ok m'" "command_audit_wf m"
  shows "command_audit_wf m' \<and> (\<forall>c. bt_get m c = Some OPTION_FIX \<longrightarrow> bt_get m' c = Some OPTION_FIX)"
  using assms
proof (induction ps arbitrary: m)
  case (Cons p ps)
  let ?m = "bt_insert (fst p) (snd p) m"
  from Cons.prems have step: "update_command_audit fw ps ?m = Ok m'"
    and keep: "bt_get m (fst p) = Some OPTION_FIX \<longrightarrow> snd p = OPTION_FIX"
    and wf: "command_audit_wf ?m"
    by (auto simp: command_audit_wf_def bt.wf_insert bt.all_of_insert split: if_splits)
  show ?case using Cons.IH [OF step wf] fixed_insert [OF keep] by blast
qed auto

lemma update_algorithm_toggle_Ok:
  assumes "update_algorithm_toggle fw as ps m = Ok m'" "algorithm_toggle_wf m"
  shows "algorithm_toggle_wf m' \<and> (\<forall>a. bt_get m a = Some OPTION_FIX \<longrightarrow> bt_get m' a = Some OPTION_FIX)"
  using assms
proof (induction ps arbitrary: m)
  case (Cons p ps)
  let ?m = "bt_insert (fst p) (snd p) m"
  from Cons.prems have step: "update_algorithm_toggle fw as ps ?m = Ok m'"
    and keep: "bt_get m (fst p) = Some OPTION_FIX \<longrightarrow> snd p = OPTION_FIX"
    and wf: "algorithm_toggle_wf ?m"
    by (auto simp: algorithm_toggle_wf_def bt.wf_insert bt.all_of_insert split: if_splits)
  show ?case using Cons.IH [OF step wf] fixed_insert [OF keep] by blast
qed auto

definition options_changed :: "'k Device \<Rightarrow> 'k Device \<Rightarrow> bool" where
  "options_changed d d' =
     (\<exists>opts. d' = d\<lparr>dv_options := opts\<rparr> \<and> (options_wf (dv_options d) \<longrightarrow>
        options_wf opts \<and> fixed_kept (dv_options d) opts))"

lemma options_changedI:
  "(options_wf (dv_options d) \<Longrightarrow> options_wf opts \<and> fixed_kept (dv_options d) opts) \<Longrightarrow>
     options_changed d (d\<lparr>dv_options := opts\<rparr>)"
  unfolding options_changed_def by blast

lemma set_option_commits: "commits d (options_changed d) (set_option fw data d)"
  unfolding set_option_def Let_def
  by (intro commits_try_in)
    (auto intro!: commits_try_in options_changedI simp: options_wf_def fixed_kept_def
      dest!: update_command_audit_Ok update_algorithm_toggle_Ok)

end
