(* ===== verification/Audit_Log.thy ===== *)
theory Audit_Log
  imports Options
begin

unbundle bit_operations_syntax

text \<open>
  The audit log (\<^verbatim>\<open>device.rs\<close>: \<^verbatim>\<open>AuditEntry\<close>, \<^verbatim>\<open>append_audit_entry\<close>, \<^verbatim>\<open>get_log_entries\<close>,
  \<^verbatim>\<open>set_log_index\<close> and the command classification they use). Each entry carries a digest
  over its own fields and the digest of the entry before it; the lemmas show that the log
  stays within its capacity and that the digests form one unbroken chain.
\<close>

section \<open>Command classes\<close>

definition command_changes_persistent_state :: "CommandCode \<Rightarrow> bool" where
  "command_changes_persistent_state command = (command \<in>
     {Cmd_PutOpaque, Cmd_PutAuthenticationKey, Cmd_PutAsymmetricKey, Cmd_GenerateAsymmetricKey,
      Cmd_ImportWrapped, Cmd_PutWrapKey, Cmd_SetOption, Cmd_PutHmacKey, Cmd_GenerateHmacKey,
      Cmd_GenerateWrapKey, Cmd_DeleteObject, Cmd_PutTemplate, Cmd_PutOtpAeadKey,
      Cmd_GenerateOtpAeadKey, Cmd_SetLogIndex, Cmd_ChangeAuthenticationKey, Cmd_PutSymmetricKey,
      Cmd_GenerateSymmetricKey, Cmd_PutPublicWrapKey, Cmd_PutRsaWrappedKey, Cmd_ImportRsaWrapped,
      Cmd_ResetDevice})"

definition command_is_meta :: "CommandCode \<Rightarrow> bool" where
  "command_is_meta command = (command \<in>
     {Cmd_Echo, Cmd_CreateSession, Cmd_AuthenticateSession, Cmd_SessionMessage, Cmd_GetDeviceInfo,
      Cmd_GetDevicePublicKey, Cmd_CloseSession})"

definition command_can_be_audited :: "CommandCode \<Rightarrow> bool" where
  "command_can_be_audited command =
     (\<not> command_is_meta command \<or> command \<in> {Cmd_CreateSession, Cmd_AuthenticateSession})"

definition should_audit :: "'k Device \<Rightarrow> CommandCode \<Rightarrow> bool" where
  "should_audit d command =
     (command_can_be_audited command \<and>
      option_value (op_command_audit (dv_options d)) (command_code command) OPTION_OFF \<noteq> OPTION_OFF)"

text \<open>\<^verbatim>\<open>unwrap_or_default\<close> on a pair of identifiers.\<close>

definition ids_or_default :: "(u16 \<times> u16) res \<Rightarrow> u16 \<times> u16" where
  "ids_or_default r = (case r of Ok p \<Rightarrow> p | _ \<Rightarrow> (0, 0))"

definition audit_key_ids :: "CommandCode \<Rightarrow> bytes \<Rightarrow> u16 \<times> u16" where
  "audit_key_ids command data =
     (if command = Cmd_SignAttestationCertificate then
        ids_or_default (decode_request decode_sign_attestation data)
      else if command = Cmd_RewrapOtpAead then
        ids_or_default (and_then (decode_request decode_rewrap_otp_aead data) (\<lambda>request.
          Ok (rw_from_id request, rw_to_id request)))
      else if command = Cmd_ExportWrapped then
        ids_or_default (and_then (decode_request decode_export_wrapped data) (\<lambda>request.
          Ok (key_id (ew_target request), ew_wrap_id request)))
      else if command = Cmd_ExportRsaWrapped then
        ids_or_default (and_then (decode_request decode_export_rsa_wrapped data) (\<lambda>request.
          Ok (key_id (er_target request), er_wrap_id request)))
      else ids_or_default (and_then (read_u16 (reader_new data)) (\<lambda>(i, _). Ok (i, 0))))"

section \<open>Entries\<close>

definition entry_encode :: "AuditEntry \<Rightarrow> bytes" where
  "entry_encode e = be16 (ae_number e) @ [ae_command e] @ be16 (ae_length e) @ be16 (ae_session_key e)
     @ be16 (ae_target_key e) @ be16 (ae_second_key e) @ [ae_result e] @ be32 (ae_systick e)
     @ ae_digest e"

definition log_full :: "'k Device \<Rightarrow> bool" where
  "log_full d = (length (as_entries (dv_audit d)) \<ge> unat (cf_log_capacity (dv_config d)))"

text \<open>\<^verbatim>\<open>len.try_into().unwrap_or(u16::MAX)\<close>.\<close>

definition saturate_u16 :: "nat \<Rightarrow> u16" where
  "saturate_u16 n = (if n < 65536 then of_nat n else u16_MAX)"

text \<open>
  The digest stored in an entry: the first sixteen bytes of the SHA-256 digest of its
  sixteen header bytes and the previous digest. SHA-256 digests have thirty-two bytes.
\<close>

definition entry_digest :: "'k lib \<Rightarrow> bytes \<Rightarrow> AuditEntry \<Rightarrow> bytes" where
  "entry_digest L previous e = take 16 (hash_digest L Sha256 (take 16 (entry_encode e) @ previous))"

definition audit_entry ::
  "SessionAuthorization \<Rightarrow> CommandCode \<Rightarrow> Frame \<Rightarrow> u8 \<Rightarrow> AuditState \<Rightarrow> AuditEntry" where
  "audit_entry au command request result a =
     (let ids = (if command = Cmd_AuthenticateSession then (au_key_id au, 0)
                 else audit_key_ids command (fr_data request))
      in \<lparr>ae_number = as_next_number a, ae_command = command_code command,
          ae_length = saturate_u16 (length (fr_data request)), ae_session_key = au_key_id au,
          ae_target_key = fst ids, ae_second_key = snd ids, ae_result = result,
          ae_systick = as_systick a, ae_digest = replicate 16 0\<rparr>)"

definition append_audit_entry ::
  "'k lib \<Rightarrow> SessionAuthorization \<Rightarrow> CommandCode \<Rightarrow> Frame \<Rightarrow> u8 \<Rightarrow> 'k Device \<Rightarrow> 'k Device" where
  "append_audit_entry L au command request result d =
     (if log_full d then d
      else
        let a = dv_audit d;
            e = audit_entry au command request result a;
            digest = entry_digest L (as_previous_digest a) e
        in d\<lparr>dv_audit := a\<lparr>as_previous_digest := digest,
                           as_next_number := max (as_next_number a + 1) 1,
                           as_systick := as_systick a + 1,
                           as_entries := as_entries a @ [e\<lparr>ae_digest := digest\<rparr>]\<rparr>,
             dv_persistent_change := True\<rparr>)"

definition record_unlogged_authentication_if_full :: "'k Device \<Rightarrow> 'k Device" where
  "record_unlogged_authentication_if_full d =
     (if op_force_audit (dv_options d) \<noteq> OPTION_OFF \<and> log_full d then
        d\<lparr>dv_audit := (dv_audit d)\<lparr>as_unlogged_authentication :=
             (let n = as_unlogged_authentication (dv_audit d) in if n = u16_MAX then n else n + 1)\<rparr>,
          dv_persistent_change := True\<rparr>
      else d)"

definition get_log_entries :: "'k Device \<Rightarrow> bytes \<Rightarrow> bytes res" where
  "get_log_entries d data =
     and_then (decode_request decode_empty data) (\<lambda>_.
     Ok (be16 (as_unlogged_boot (dv_audit d)) @ be16 (as_unlogged_authentication (dv_audit d))
         @ [saturate_u8 (length (as_entries (dv_audit d)))]
         @ concat (map entry_encode (as_entries (dv_audit d)))))"

definition set_log_index :: "bytes \<Rightarrow> 'k Device \<Rightarrow> bytes res \<times> 'k Device" where
  "set_log_index data d =
     try_in (decode_request decode_u16 data) d (\<lambda>index.
     (Ok [], d\<lparr>dv_audit := (dv_audit d)\<lparr>as_entries :=
        filter (\<lambda>e. ae_number e > index) (as_entries (dv_audit d))\<rparr>\<rparr>))"

section \<open>Capacity and the digest chain\<close>

text \<open>\<open>log_chain L p es q\<close>: starting from digest \<open>p\<close> the entries \<open>es\<close> lead to digest \<open>q\<close>.\<close>

primrec log_chain :: "'k lib \<Rightarrow> bytes \<Rightarrow> AuditEntry list \<Rightarrow> bytes \<Rightarrow> bool" where
  "log_chain L p [] q = (p = q)"
| "log_chain L p (e # es) q = (ae_digest e = entry_digest L p e \<and> log_chain L (ae_digest e) es q)"

definition log_wf :: "'k lib \<Rightarrow> AuditState \<Rightarrow> bool" where
  "log_wf L a = (\<exists>p. log_chain L p (as_entries a) (as_previous_digest a))"

text \<open>Entries are numbered upwards and below the next number to be given out.\<close>

definition log_numbered :: "AuditState \<Rightarrow> bool" where
  "log_numbered a =
     (sorted_wrt (<) (map ae_number (as_entries a))
      \<and> list_all (\<lambda>e. 0 < ae_number e \<and> ae_number e < as_next_number a) (as_entries a))"

lemma log_chain_append: "log_chain L p (es @ es') q \<longleftrightarrow> (\<exists>r. log_chain L p es r \<and> log_chain L r es' q)"
  by (induction es arbitrary: p) auto

lemma entry_header_length: "length (entry_encode e) = 16 + length (ae_digest e)"
  by (simp add: entry_encode_def)

lemma entry_digest_upd [simp]: "entry_digest L p (e\<lparr>ae_digest := x\<rparr>) = entry_digest L p e"
  by (simp add: entry_digest_def entry_encode_def)

lemma append_audit_entry_frame [simp]:
  "dv_config (append_audit_entry L au c q r d) = dv_config d"
  "dv_objects (append_audit_entry L au c q r d) = dv_objects d"
  "dv_sessions (append_audit_entry L au c q r d) = dv_sessions d"
  "dv_options (append_audit_entry L au c q r d) = dv_options d"
  "dv_sequence_history (append_audit_entry L au c q r d) = dv_sequence_history d"
  "dv_static_private (append_audit_entry L au c q r d) = dv_static_private d"
  "dv_state_epoch (append_audit_entry L au c q r d) = dv_state_epoch d"
  by (simp_all add: append_audit_entry_def Let_def)

lemma record_unlogged_frame [simp]:
  "dv_config (record_unlogged_authentication_if_full d) = dv_config d"
  "dv_objects (record_unlogged_authentication_if_full d) = dv_objects d"
  "dv_sessions (record_unlogged_authentication_if_full d) = dv_sessions d"
  "dv_options (record_unlogged_authentication_if_full d) = dv_options d"
  "dv_sequence_history (record_unlogged_authentication_if_full d) = dv_sequence_history d"
  "dv_static_private (record_unlogged_authentication_if_full d) = dv_static_private d"
  "dv_state_epoch (record_unlogged_authentication_if_full d) = dv_state_epoch d"
  "as_entries (dv_audit (record_unlogged_authentication_if_full d)) = as_entries (dv_audit d)"
  "as_previous_digest (dv_audit (record_unlogged_authentication_if_full d)) = as_previous_digest (dv_audit d)"
  by (simp_all add: record_unlogged_authentication_if_full_def Let_def)

definition log_bounded :: "'k Device \<Rightarrow> bool" where
  "log_bounded d = (length (as_entries (dv_audit d)) \<le> unat (cf_log_capacity (dv_config d)))"

lemma append_audit_entry_bounded: "log_bounded d \<Longrightarrow> log_bounded (append_audit_entry L au c q r d)"
  by (simp add: log_bounded_def append_audit_entry_def log_full_def Let_def)

lemma append_audit_entry_chain:
  "log_wf L (dv_audit d) \<Longrightarrow> log_wf L (dv_audit (append_audit_entry L au c q r d))"
  by (auto simp: log_wf_def append_audit_entry_def Let_def log_chain_append)

text \<open>A log with room gets exactly one entry, numbered with the next number.\<close>

lemma append_audit_entry_adds:
  assumes "\<not> log_full d"
  shows "\<exists>e. as_entries (dv_audit (append_audit_entry L au c q r d)) = as_entries (dv_audit d) @ [e]
     \<and> ae_number e = as_next_number (dv_audit d) \<and> ae_command e = command_code c
     \<and> ae_session_key e = au_key_id au \<and> ae_result e = r"
  using assms by (simp add: append_audit_entry_def audit_entry_def Let_def)

lemma unat_u16_MAX: "unat u16_MAX = 65535"
  by simp

lemma append_audit_entry_numbered:
  assumes "log_numbered (dv_audit d)" "0 < as_next_number (dv_audit d)"
    "as_next_number (dv_audit d) \<noteq> u16_MAX"
  shows "log_numbered (dv_audit (append_audit_entry L au c q r d))"
proof -
  let ?n = "as_next_number (dv_audit d)"
  have "unat ?n \<noteq> 65535"
    using assms(3) by (metis unat_u16_MAX word_unat_eq_iff)
  then have m: "unat (?n + 1) = unat ?n + 1"
    using unat_lt [of ?n] by (simp add: unat_word_ariths)
  then have "?n < ?n + 1" "max (?n + 1) 1 = ?n + 1"
    by (auto simp: word_less_nat_alt word_le_nat_alt max_def unat_eq_0)
  with assms show ?thesis
    by (auto simp: append_audit_entry_def audit_entry_def Let_def log_numbered_def sorted_wrt_append
        list_all_iff intro: less_trans)
qed

text \<open>
  Acknowledging entries of an upwards numbered log drops a prefix, so the chain of the
  entries that remain still ends in the device's digest.
\<close>

lemma filter_above_suffix:
  "sorted_wrt (<) (map f es) \<Longrightarrow> \<exists>n. filter (\<lambda>e. f e > (i :: 'b::linorder)) es = drop n es"
proof (induction es)
  case (Cons e es)
  show ?case
  proof (cases "f e > i")
    case True
    with Cons.prems have "filter (\<lambda>e. f e > i) (e # es) = drop 0 (e # es)"
      by (auto intro: less_trans simp: filter_id_conv)
    then show ?thesis by blast
  next
    case False
    with Cons obtain n where "filter (\<lambda>e. f e > i) es = drop n es" by auto
    with False have "filter (\<lambda>e. f e > i) (e # es) = drop (Suc n) (e # es)" by simp
    then show ?thesis by blast
  qed
qed simp

lemma log_chain_drop: "log_chain L p es q \<Longrightarrow> \<exists>p'. log_chain L p' (drop n es) q"
  by (metis append_take_drop_id log_chain_append)

definition log_trimmed :: "'k Device \<Rightarrow> 'k Device \<Rightarrow> bool" where
  "log_trimmed d d' = (\<exists>index. d' = d\<lparr>dv_audit := (dv_audit d)\<lparr>as_entries :=
     filter (\<lambda>e. ae_number e > index) (as_entries (dv_audit d))\<rparr>\<rparr>)"

lemma set_log_index_commits: "commits d (log_trimmed d) (set_log_index data d)"
  unfolding set_log_index_def by (intro commits_try_in) (auto simp: log_trimmed_def)

lemma log_trimmed_chain:
  assumes "log_trimmed d d'" "log_wf L (dv_audit d)" "log_numbered (dv_audit d)"
  shows "log_wf L (dv_audit d')"
proof -
  obtain i where d': "as_entries (dv_audit d') = filter (\<lambda>e. ae_number e > i) (as_entries (dv_audit d))"
    "as_previous_digest (dv_audit d') = as_previous_digest (dv_audit d)"
    using assms(1) by (auto simp: log_trimmed_def)
  then show ?thesis
    using assms(2,3) filter_above_suffix [of ae_number "as_entries (dv_audit d)" i] log_chain_drop
    unfolding log_wf_def log_numbered_def by metis
qed

lemma log_trimmed_bounded: "log_trimmed d d' \<Longrightarrow> log_bounded d \<Longrightarrow> log_bounded d'"
  by (auto simp: log_trimmed_def log_bounded_def intro: le_trans [OF length_filter_le])

end
