(* ===== verification/Effects.thy ===== *)
theory Effects
  imports Audit_Log
begin

text \<open>
  The abstract specification of what one authorized command may do to a device: nothing,
  create an object it is allowed to create, replace an opaque object or its own
  authentication key, delete an object, change options or the log, or reset the device.
  The command handlers are proved to implement this relation and to leave the device as it
  was when they fail.
\<close>

inductive store_effect ::
  "'k lib \<Rightarrow> SessionAuthorization \<Rightarrow> 'k Device \<Rightarrow> 'k Device \<Rightarrow> bool" for L au where
  unchanged: "store_effect L au d d"
| created: "\<lbrakk>authorize_create au (or_info r) c = Ok (); record_wf L r;
    bt_get (dv_objects d) (info_key (or_info r)) = None\<rbrakk>
    \<Longrightarrow> store_effect L au d (store_record r d)"
| opaque_replaced: "\<lbrakk>bt_get (dv_objects d) k = Some old; key_type k = Ty_Opaque;
    authorize_use au (or_info old) Cap_PutOpaque Cap_PutOpaque = Ok ();
    or_info r = (or_info old)\<lparr>oi_length := n\<rparr>; record_wf L r\<rbrakk>
    \<Longrightarrow> store_effect L au d (store_record r d)"
| authentication_key_changed: "\<lbrakk>
    bt_get (dv_objects d) (ObjectKey Ty_AuthenticationKey (au_key_id au)) = Some old;
    authorize_use au (or_info old) Cap_ChangeAuthenticationKey Cap_ChangeAuthenticationKey = Ok ();
    or_info r = (or_info old)\<lparr>oi_algorithm := a, oi_length := n\<rparr>; record_wf L r\<rbrakk>
    \<Longrightarrow> store_effect L au d (store_record r d)"
| deleted: "\<lbrakk>bt_get (dv_objects d) k = Some old; authorize_delete au (or_info old) = Ok ()\<rbrakk>
    \<Longrightarrow> store_effect L au d (d\<lparr>dv_objects := bt_remove k (dv_objects d)\<rparr>)"
| options_set: "\<lbrakk>cap_contains (au_capabilities au) Cap_SetOption; options_changed d d'\<rbrakk>
    \<Longrightarrow> store_effect L au d d'"
| log_read: "\<lbrakk>cap_contains (au_capabilities au) Cap_SetOption; log_trimmed d d'\<rbrakk>
    \<Longrightarrow> store_effect L au d d'"
| device_reset: "cap_contains (au_capabilities au) Cap_ResetDevice
    \<Longrightarrow> store_effect L au d (reset_device L key d)"

inductive_cases store_effectE: "store_effect L au d d'"

section \<open>What every effect keeps\<close>

lemma reset_device_store:
  "dv_objects (reset_device L key d) =
     bt_insert (ObjectKey Ty_AuthenticationKey 1) (factory_record L) bt_empty"
  "dv_sessions (reset_device L key d) = bt_empty" "dv_options (reset_device L key d) = options_default"
  "dv_audit (reset_device L key d) = audit_initial" "dv_config (reset_device L key d) = dv_config d"
  by (simp_all add: reset_device_def install_factory_authentication_key_def Let_def info_key_def
      factory_record_def)

lemma options_changed_frame:
  assumes "options_changed d d'"
  shows "dv_objects d' = dv_objects d" "dv_sequence_history d' = dv_sequence_history d"
    "dv_sessions d' = dv_sessions d" "dv_audit d' = dv_audit d" "dv_config d' = dv_config d"
  using assms by (auto simp: options_changed_def)

lemma log_trimmed_frame:
  assumes "log_trimmed d d'"
  shows "dv_objects d' = dv_objects d" "dv_sequence_history d' = dv_sequence_history d"
    "dv_sessions d' = dv_sessions d" "dv_options d' = dv_options d" "dv_config d' = dv_config d"
  using assms by (auto simp: log_trimmed_def)

lemma store_wf_frame:
  "dv_objects d' = dv_objects d \<Longrightarrow> dv_sequence_history d' = dv_sequence_history d \<Longrightarrow>
     store_wf L d' \<longleftrightarrow> store_wf L d"
  by (simp add: store_wf_def)

lemma delete_wf:
  "store_wf L d \<Longrightarrow> store_wf L (d\<lparr>dv_objects := bt_remove k (dv_objects d)\<rparr>)"
  by (auto simp: store_wf_def bt.wf_remove bt.all_of_remove)

lemma store_effect_wf:
  assumes "store_effect L au d d'" "store_wf L d" "password_kdf_ok L"
  shows "store_wf L d'"
  using assms(1)
proof cases
  case device_reset
  then show ?thesis by (simp add: reset_device_def factory_install_wf assms(3))
next
  case options_set
  then show ?thesis using store_wf_frame [OF options_changed_frame(1,2)] assms(2) by blast
next
  case log_read
  then show ?thesis using store_wf_frame [OF log_trimmed_frame(1,2)] assms(2) by blast
qed (use assms(2) in \<open>auto simp: store_record_wf delete_wf\<close>)

lemma store_effect_config: "store_effect L au d d' \<Longrightarrow> dv_config d' = dv_config d"
  by (cases rule: store_effectE)
    (auto simp: options_changed_frame log_trimmed_frame reset_device_store)

text \<open>Every entry of the new store is an old one, an authorized new one or the factory key.\<close>

definition within_delegation :: "SessionAuthorization \<Rightarrow> ObjectInfo \<Rightarrow> bool" where
  "within_delegation au info =
     (domain_set (oi_domains info) \<subseteq> domain_set (au_domains au)
      \<and> cap_bits (oi_capabilities info) \<subseteq> cap_bits (au_delegated_capabilities au)
      \<and> cap_bits (oi_delegated_capabilities info) \<subseteq> cap_bits (au_delegated_capabilities au))"

definition same_policy :: "ObjectInfo \<Rightarrow> ObjectInfo \<Rightarrow> bool" where
  "same_policy i j = (oi_capabilities i = oi_capabilities j \<and> oi_domains i = oi_domains j
     \<and> oi_delegated_capabilities i = oi_delegated_capabilities j \<and> oi_label i = oi_label j
     \<and> oi_origin i = oi_origin j)"

lemma store_effect_policy:
  assumes "store_effect L au d d'" "store_wf L d" "cap_wf (au_delegated_capabilities au)"
    "bt_get (dv_objects d') k = Some r"
  shows "(\<exists>old. bt_get (dv_objects d) k = Some old \<and> same_policy (or_info r) (or_info old))
    \<or> (bt_get (dv_objects d) k = None \<and> within_delegation au (or_info r))
    \<or> (cap_contains (au_capabilities au) Cap_ResetDevice \<and> r = factory_record L)"
  using assms(1)
proof cases
  case (created r' c)
  then have "within_delegation au (or_info r')"
    using authorize_create_Ok [OF assms(3), of "or_info r'" c]
    by (auto simp: within_delegation_def record_wf_def)
  with created assms(4) show ?thesis
    by (auto simp: store_record_objects same_policy_def within_delegation_def split: if_splits)
next
  case (opaque_replaced k' old r' n)
  with store_wfD(1) [OF assms(2)] have "info_key (or_info r') = k'" by (auto simp: info_key_def)
  with opaque_replaced assms(4) show ?thesis
    by (auto simp: store_record_objects same_policy_def split: if_splits)
next
  case (authentication_key_changed old r' a n)
  then have "info_key (or_info r') = ObjectKey Ty_AuthenticationKey (au_key_id au)"
    using store_wfD(1) [OF assms(2)] by (auto simp: info_key_def)
  with authentication_key_changed assms(4) show ?thesis
    by (auto simp: store_record_objects same_policy_def split: if_splits)
next
  case (device_reset key)
  with assms(4) show ?thesis by (auto simp: reset_device_store split: if_splits)
qed (use assms(4) in \<open>auto simp: same_policy_def options_changed_frame log_trimmed_frame split: if_splits\<close>)

end
