(* ===== verification/Key_Material.thy ===== *)
theory Key_Material
  imports Device_State Request_Codecs
begin

unbundle bit_operations_syntax

text \<open>
  Key material as the handlers of \<^verbatim>\<open>device.rs\<close> read and build it: parsing and generating
  private keys, the typed accessors of a stored object, PKCS#8 conversion, OTP and HMAC
  helpers and the tables from algorithm bytes to library algorithms.
\<close>

section \<open>Authentication keys\<close>

definition authentication_key_length :: "u8 \<Rightarrow> nat res" where
  "authentication_key_length algorithm =
     (if algorithm = AUTHENTICATION_ALGORITHM_AES128_YUBICO then Ok 32
      else if algorithm = AUTHENTICATION_ALGORITHM_EC_P256 then Ok 64
      else Err InvalidData)"

definition parse_authentication_key_material ::
  "'k lib \<Rightarrow> u8 \<Rightarrow> bytes \<Rightarrow> AuthenticationKeyMaterial res" where
  "parse_authentication_key_material L algorithm key =
     (if algorithm = AUTHENTICATION_ALGORITHM_AES128_YUBICO \<and> length key = 32
        then Ok (Auth_Symmetric key)
      else if algorithm = AUTHENTICATION_ALGORITHM_EC_P256 \<and> length key = 64 then
        (if public_key_valid L (Pub_Ec P256 (0x04 # key)) then Ok (Auth_Asymmetric key)
         else Err InvalidData)
      else if algorithm = AUTHENTICATION_ALGORITHM_AES128_YUBICO
              \<or> algorithm = AUTHENTICATION_ALGORITHM_EC_P256 then Err WrongLength
      else Err InvalidData)"

section \<open>Asymmetric keys\<close>

definition asymmetric_key_algorithm :: "u8 \<Rightarrow> (SignatureScheme \<times> nat) res" where
  "asymmetric_key_algorithm algorithm = ok_or (map_of
     [(47, (EcdsaP224Sha224, 28)), (12, (EcdsaP256Sha256, 32)), (13, (EcdsaP384Sha384, 48)),
      (14, (EcdsaP521Sha512, 66)), (15, (EcdsaSecp256k1Sha256, 32)),
      (16, (EcdsaBrainpoolP256Sha256, 32)), (17, (EcdsaBrainpoolP384Sha384, 48)),
      (18, (EcdsaBrainpoolP512Sha512, 64)), (46, (SchemeEd25519, 32)), (60, (SchemeEd448, 57))]
     algorithm) InvalidData"

definition asymmetric_key_kind :: "Algorithm \<Rightarrow> KeyKind res" where
  "asymmetric_key_kind algorithm = (case algorithm_ml_dsa algorithm of
       Some parameters \<Rightarrow> Ok (Kind_MlDsa parameters)
     | None \<Rightarrow> ok_or (map_of
         [(Alg_EcP224, Kind_Ec P224), (Alg_EcP256, Kind_Ec P256), (Alg_EcP384, Kind_Ec P384),
          (Alg_EcP521, Kind_Ec P521), (Alg_EcK256, Kind_Ec Secp256k1),
          (Alg_EcBrainpoolP256, Kind_Ec BrainpoolP256), (Alg_EcBrainpoolP384, Kind_Ec BrainpoolP384),
          (Alg_EcBrainpoolP512, Kind_Ec BrainpoolP512), (Alg_Ed25519, Kind_Edwards Curve_Ed25519),
          (Alg_Ed448, Kind_Edwards Curve_Ed448), (Alg_Rsa2048, Kind_Rsa 2048),
          (Alg_Rsa3072, Kind_Rsa 3072), (Alg_Rsa4096, Kind_Rsa 4096)] algorithm) InvalidData)"

definition asymmetric_key_material ::
  "'k lib \<Rightarrow> 'k env \<Rightarrow> Algorithm \<Rightarrow> bool \<Rightarrow> bytes \<Rightarrow> 'k ObjectMaterial res" where
  "asymmetric_key_material L E algorithm generate supplied =
     and_then (ok_or (asymmetric_key_length algorithm) InvalidData) (\<lambda>expected_length.
     case algorithm_ml_kem algorithm of
       Some parameters \<Rightarrow>
         let n = ml_kem_expanded_length L parameters in
         if generate \<and> supplied \<noteq> [] \<or> \<not> generate \<and> length supplied \<notin> {64, n, 64 + n}
         then Err WrongLength
         else ok_or (map_option Mat_MlKemKey
                (if generate then generate_ml_kem E parameters
                 else ml_kem_from_serialized L parameters supplied)) InvalidData
     | None \<Rightarrow> (case algorithm_hybrid_kem algorithm of
       Some construction \<Rightarrow>
         if generate \<and> supplied \<noteq> [] \<or> \<not> generate \<and> length supplied \<noteq> 32 then Err WrongLength
         else ok_or (map_option Mat_HybridKemKey
                (if generate then generate_hybrid E construction
                 else hybrid_from_seed L construction supplied)) InvalidData
     | None \<Rightarrow>
       if generate \<and> supplied \<noteq> [] then Err WrongLength
       else if algorithm = Alg_X25519 \<or> algorithm = Alg_X448 then
         (let curve = (if algorithm = Alg_X25519 then Curve_X25519 else Curve_X448) in
          if generate then ok_or (map_option Mat_MontgomeryKey (generate_montgomery E curve)) StorageFailed
          else if length supplied \<noteq> expected_length then Err WrongLength
          else ok_or (map_option Mat_MontgomeryKey (montgomery_from_serialized L curve supplied)) InvalidData)
       else if is_rsa_key algorithm then
         (if generate then
            ok_or (map_option Mat_SigningKey (generate_key E (Kind_Rsa (expected_length * 8)))) StorageFailed
          else if length supplied \<noteq> expected_length then Err WrongLength
          else ok_or (map_option Mat_SigningKey
                 (key_from_rsa_primes L (take (expected_length div 2) supplied)
                    (drop (expected_length div 2) supplied) [1, 0, 1])) InvalidData)
       else
         and_then (asymmetric_key_kind algorithm) (\<lambda>key_kind.
         case algorithm_ml_dsa algorithm of
           Some parameters \<Rightarrow>
             let n = ml_dsa_expanded_length L parameters in
             if \<not> generate \<and> length supplied \<notin> {32, n, 32 + n} then Err WrongLength
             else if generate then ok_or (map_option Mat_SigningKey (generate_ml_dsa E parameters)) StorageFailed
             else ok_or (map_option Mat_SigningKey (ml_dsa_from_serialized L parameters supplied)) InvalidData
         | None \<Rightarrow>
             and_then (if generate then ok_or (generate_key E key_kind) StorageFailed
                       else if length supplied \<noteq> expected_length then Err WrongLength
                       else ok_or (key_from_serialized_for_kind L key_kind supplied) InvalidData) (\<lambda>key.
             if (case key_serialized L key of Some s \<Rightarrow> length s | None \<Rightarrow> 0) \<noteq> expected_length
             then Err InvalidData
             else Ok (Mat_SigningKey key)))))"

section \<open>Accessors of a stored object\<close>

definition signing_key :: "'k lib \<Rightarrow> 'k ObjectRecord \<Rightarrow> 'k res" where
  "signing_key L object = (case or_material object of
       Mat_SigningKey key \<Rightarrow>
         and_then (ok_or (algorithm_from_byte (oi_algorithm (or_info object))) InvalidData) (\<lambda>algorithm.
         if algorithm = Alg_X25519 \<or> algorithm = Alg_X448 \<or> is_rsa_key algorithm \<noteq> key_is_rsa L key
         then Err InvalidData else Ok key)
     | _ \<Rightarrow> Err InvalidData)"

definition rsa_modulus_length :: "'k ObjectRecord \<Rightarrow> nat res" where
  "rsa_modulus_length object =
     ok_or (Option.bind (algorithm_from_byte (oi_algorithm (or_info object))) (\<lambda>a.
              if is_rsa_key a then asymmetric_key_length a else None)) InvalidData"

definition rsa_key :: "'k lib \<Rightarrow> 'k ObjectRecord \<Rightarrow> 'k res" where
  "rsa_key L object =
     and_then (ok_or (algorithm_from_byte (oi_algorithm (or_info object))) InvalidData) (\<lambda>algorithm.
     if \<not> is_rsa_key algorithm then Err InvalidData else signing_key L object)"

definition montgomery_algorithm :: "u8 \<Rightarrow> (MontgomeryCurve \<times> string) option" where
  "montgomery_algorithm algorithm = (case algorithm_from_byte algorithm of
       Some a \<Rightarrow> if a = Alg_X25519 then Some (Curve_X25519, ''1.3.101.110'')
                 else if a = Alg_X448 then Some (Curve_X448, ''1.3.101.111'') else None
     | None \<Rightarrow> None)"

definition montgomery_key_for_curve :: "'k lib \<Rightarrow> 'k ObjectRecord \<Rightarrow> MontgomeryCurve \<Rightarrow> 'k res" where
  "montgomery_key_for_curve L object curve = (case or_material object of
       Mat_MontgomeryKey key \<Rightarrow> if montgomery_curve L key \<noteq> curve then Err InvalidData else Ok key
     | _ \<Rightarrow> Err InvalidData)"

definition montgomery_key :: "'k lib \<Rightarrow> 'k ObjectRecord \<Rightarrow> 'k res" where
  "montgomery_key L object =
     and_then (ok_or (montgomery_algorithm (oi_algorithm (or_info object))) InvalidData) (\<lambda>(curve, _).
     montgomery_key_for_curve L object curve)"

definition object_secret :: "'k ObjectRecord \<Rightarrow> bytes res" where
  "object_secret object = (case or_material object of Mat_Secret s \<Rightarrow> Ok s | _ \<Rightarrow> Err InvalidData)"

definition otp_aead_material :: "'k ObjectRecord \<Rightarrow> (bytes \<times> bytes) res" where
  "otp_aead_material object = (case or_material object of
       Mat_OtpAeadKey nonce_id key \<Rightarrow> Ok (nonce_id, key) | _ \<Rightarrow> Err InvalidData)"

section \<open>OTP and HMAC\<close>

text \<open>
  The thirteen-byte nonce: the key's four-byte nonce id, six varying bytes, three zeros.
  The nonce id is an array of four bytes in the source.
\<close>

definition otp_nonce :: "bytes \<Rightarrow> bytes \<Rightarrow> bytes" where
  "otp_nonce nonce_id random = nonce_id @ random @ [0, 0, 0]"

definition otp_aead_encrypt :: "'k lib \<Rightarrow> 'k env \<Rightarrow> 'k ObjectRecord \<Rightarrow> bytes \<Rightarrow> bytes res" where
  "otp_aead_encrypt L E object credential =
     (if length credential \<noteq> 22 then Err WrongLength
      else and_then (otp_aead_material object) (\<lambda>(nonce_id, key).
        and_then (ok_or (entropy E 0 6) StorageFailed) (\<lambda>random.
        and_then (ok_or (encrypt_yubico_otp_aead L key (otp_nonce nonce_id random) credential) InvalidData)
          (\<lambda>encrypted. Ok (random @ encrypted)))))"

definition otp_aead_decrypt :: "'k lib \<Rightarrow> 'k ObjectRecord \<Rightarrow> bytes \<Rightarrow> bytes res" where
  "otp_aead_decrypt L object aead =
     (if length aead \<noteq> 36 then Err WrongLength
      else and_then (otp_aead_material object) (\<lambda>(nonce_id, key).
        ok_or (decrypt_yubico_otp_aead L key (otp_nonce nonce_id (take 6 aead)) (drop 6 aead)) InvalidOtp))"

primrec crc_shift :: "nat \<Rightarrow> u16 \<Rightarrow> u16" where
  "crc_shift 0 crc = crc"
| "crc_shift (Suc n) crc =
     crc_shift n (if crc AND 1 \<noteq> 0 then drop_bit 1 crc XOR 0x8408 else drop_bit 1 crc)"

definition yubico_crc16 :: "bytes \<Rightarrow> u16" where
  "yubico_crc16 data = foldl (\<lambda>crc byte. crc_shift 8 (crc XOR ucast byte)) 0xffff data"

definition hmac_length :: "u8 \<Rightarrow> nat res" where
  "hmac_length algorithm = ok_or (map_of [(19, 20), (20, 32), (21, 48), (22, 64)] algorithm) InvalidData"

definition calculate_hmac :: "'k lib \<Rightarrow> 'k ObjectRecord \<Rightarrow> bytes \<Rightarrow> bytes res" where
  "calculate_hmac L object data = (case or_material object of
       Mat_Secret secret \<Rightarrow>
         and_then (ok_or (map_of [(19, Sha1), (20, Sha256), (21, Sha384), (22, Sha512)]
                     (oi_algorithm (or_info object))) InvalidData) (\<lambda>algorithm.
         ok_or (hmac_compute L algorithm secret data) InvalidData)
     | _ \<Rightarrow> Err InvalidData)"

section \<open>Hash tables\<close>

definition rsa_hash_from_digest_length :: "nat \<Rightarrow> RsaHashAlgorithm option" where
  "rsa_hash_from_digest_length n =
     map_of [(20, RsaSha1), (32, RsaSha256), (48, RsaSha384), (64, RsaSha512)] n"

text \<open>\<^verbatim>\<open>RsaHashAlgorithm::output_length\<close>.\<close>

primrec rsa_hash_output_length :: "RsaHashAlgorithm \<Rightarrow> nat" where
  "rsa_hash_output_length RsaSha1 = 20"
| "rsa_hash_output_length RsaSha256 = 32"
| "rsa_hash_output_length RsaSha384 = 48"
| "rsa_hash_output_length RsaSha512 = 64"

definition rsa_mgf_hash :: "u8 \<Rightarrow> RsaHashAlgorithm res" where
  "rsa_mgf_hash algorithm = ok_or (Option.bind (algorithm_from_byte algorithm) (map_of
     [(Alg_Mgf1Sha1, RsaSha1), (Alg_Mgf1Sha256, RsaSha256), (Alg_Mgf1Sha384, RsaSha384),
      (Alg_Mgf1Sha512, RsaSha512)])) InvalidData"

definition rsa_oaep_hash :: "u8 \<Rightarrow> RsaHashAlgorithm res" where
  "rsa_oaep_hash algorithm = ok_or (Option.bind (algorithm_from_byte algorithm) (map_of
     [(Alg_RsaOaepSha1, RsaSha1), (Alg_RsaOaepSha256, RsaSha256), (Alg_RsaOaepSha384, RsaSha384),
      (Alg_RsaOaepSha512, RsaSha512)])) InvalidData"

definition rsa_wrap_aes_length :: "u8 \<Rightarrow> nat res" where
  "rsa_wrap_aes_length algorithm = ok_or (Option.bind (algorithm_from_byte algorithm) (map_of
     [(Alg_Aes128, 16), (Alg_Aes192, 24), (Alg_Aes256, 32)])) InvalidData"

definition ecdh_kdf_hash :: "u8 \<Rightarrow> HashAlgorithm res" where
  "ecdh_kdf_hash v = ok_or (map_of
     [(1, Sha1), (2, Sha224), (3, Sha256), (4, Sha384), (5, Sha512), (6, Sha3_224), (7, Sha3_256),
      (8, Sha3_384), (9, Sha3_512)] v) InvalidData"

definition raw_ecdh_secret :: "'k lib \<Rightarrow> 'k ObjectRecord \<Rightarrow> bytes \<Rightarrow> bytes res" where
  "raw_ecdh_secret L object peer_public =
     (if montgomery_algorithm (oi_algorithm (or_info object)) \<noteq> None then
        and_then (montgomery_key L object) (\<lambda>key. ok_or (montgomery_derive L key peer_public) InvalidData)
      else
        and_then (signing_key L object) (\<lambda>key.
        ok_or (derive_with_signing_key L key peer_public) InvalidData))"

section \<open>PKCS#8\<close>

definition montgomery_pkcs8 :: "'k lib \<Rightarrow> MontgomeryCurve \<Rightarrow> string \<Rightarrow> bytes \<Rightarrow> bytes res" where
  "montgomery_pkcs8 L curve oid secret =
     and_then (ok_or (montgomery_from_serialized L curve secret) InvalidData) (\<lambda>_.
     and_then (ok_or (octet_string L secret) InvalidData) (\<lambda>s.
     and_then (ok_or (octet_to_der L s) InvalidData) (\<lambda>inner.
     and_then (ok_or (octet_string L inner) InvalidData) (\<lambda>private_key.
     ok_or (rfc8410_to_der L oid private_key) InvalidData))))"

definition montgomery_from_pkcs8 :: "'k lib \<Rightarrow> MontgomeryCurve \<Rightarrow> string \<Rightarrow> bytes \<Rightarrow> bytes res" where
  "montgomery_from_pkcs8 L curve oid encoded =
     and_then (ok_or (rfc8410_from_der L encoded) InvalidData)
       (\<lambda>(version, key_oid, has_parameters, private_key).
     if version \<noteq> 0 \<or> key_oid \<noteq> oid \<or> has_parameters then Err InvalidData
     else
       and_then (ok_or (octet_from_der L private_key) InvalidData) (\<lambda>secret.
       and_then (ok_or (montgomery_from_serialized L curve secret) InvalidData) (\<lambda>_. Ok secret)))"

definition asymmetric_pkcs8 :: "'k lib \<Rightarrow> 'k ObjectRecord \<Rightarrow> bytes res" where
  "asymmetric_pkcs8 L object = (case montgomery_algorithm (oi_algorithm (or_info object)) of
       Some (curve, oid) \<Rightarrow>
         and_then (montgomery_key_for_curve L object curve) (\<lambda>key.
         montgomery_pkcs8 L curve oid (montgomery_serialized L key))
     | None \<Rightarrow>
         and_then (signing_key L object) (\<lambda>key. ok_or (key_to_pkcs8_der L key) InvalidData))"

definition asymmetric_material_from_pkcs8 ::
  "'k lib \<Rightarrow> Algorithm \<Rightarrow> bytes \<Rightarrow> 'k ObjectMaterial res" where
  "asymmetric_material_from_pkcs8 L algorithm encoded =
     (case montgomery_algorithm (algorithm_code algorithm) of
       Some (curve, oid) \<Rightarrow>
         and_then (montgomery_from_pkcs8 L curve oid encoded) (\<lambda>serialized.
         ok_or (map_option Mat_MontgomeryKey (montgomery_from_serialized L curve serialized)) InvalidData)
     | None \<Rightarrow>
         and_then (asymmetric_key_kind algorithm) (\<lambda>kind.
         and_then (ok_or (key_from_pkcs8_der_for_kind L kind encoded) InvalidData) (\<lambda>key.
         if is_rsa_key algorithm then
           (case key_public L key of
              Pub_Rsa modulus exponent \<Rightarrow>
                if exponent \<noteq> [1, 0, 1] \<or> asymmetric_key_length algorithm \<noteq> Some (length modulus)
                then Err InvalidData else Ok (Mat_SigningKey key)
            | _ \<Rightarrow> Err InvalidData)
         else if algorithm_ml_dsa algorithm = None
              \<and> asymmetric_key_length algorithm \<noteq> map_option length (key_private_value L key)
         then Err InvalidData
         else Ok (Mat_SigningKey key))))"

definition import_rsa_wrapped_key_material ::
  "'k lib \<Rightarrow> ObjectType \<Rightarrow> Algorithm \<Rightarrow> bytes \<Rightarrow> ('k ObjectMaterial \<times> nat) res" where
  "import_rsa_wrapped_key_material L object_type algorithm plaintext =
     (if object_type = Ty_AsymmetricKey then
        and_then (asymmetric_material_from_pkcs8 L algorithm plaintext) (\<lambda>material.
        and_then (ok_or (asymmetric_key_length algorithm) InvalidData) (\<lambda>logical_length.
        if material_len L material \<noteq> logical_length then Err InvalidData
        else Ok (material, logical_length)))
      else if object_type = Ty_SymmetricKey then
        (if algorithm \<in> {Alg_Aes128, Alg_Aes192, Alg_Aes256} then
           (case aes_key_length algorithm of
              None \<Rightarrow> Panic
            | Some key_length \<Rightarrow>
                if length plaintext \<noteq> key_length then Err WrongLength
                else Ok (Mat_Secret plaintext, key_length))
         else Err InvalidData)
      else Err InvalidData)"

section \<open>Facts\<close>

text \<open>The key kinds of \<^verbatim>\<open>device.rs\<close> and of \<^verbatim>\<open>object.rs\<close> are the same table.\<close>

lemma key_kinds_agree: "asymmetric_key_kind a = object_key_kind a"
  by (simp add: asymmetric_key_kind_def object_key_kind_def)

lemma parse_authentication_length:
  "parse_authentication_key_material L a key = Ok m \<Longrightarrow> length (auth_bytes m) = length key"
  by (auto simp: parse_authentication_key_material_def split: if_splits)

lemma aes_key_lengths [simp]:
  "aes_key_length Alg_Aes128 = Some 16" "aes_key_length Alg_Aes192 = Some 24"
  "aes_key_length Alg_Aes256 = Some 32" "aes_key_length Alg_Aes128CcmWrap = Some 16"
  "aes_key_length Alg_Aes192CcmWrap = Some 24" "aes_key_length Alg_Aes256CcmWrap = Some 32"
  "aes_key_length Alg_Aes128YubicoOtp = Some 16" "aes_key_length Alg_Aes192YubicoOtp = Some 24"
  "aes_key_length Alg_Aes256YubicoOtp = Some 32"
  by (simp_all add: aes_key_length_def)

end
