(* ===== verification/Create.thy ===== *)
theory Create
  imports Effects Key_Material
begin

unbundle bit_operations_syntax

text \<open>
  The commands that create or replace objects (\<^verbatim>\<open>device.rs\<close>: \<^verbatim>\<open>put_opaque\<close>,
  \<^verbatim>\<open>put_authentication_key\<close>, \<^verbatim>\<open>put_asymmetric_key\<close>, \<^verbatim>\<open>put_hmac_key\<close>, \<^verbatim>\<open>put_symmetric_key\<close>,
  \<^verbatim>\<open>put_wrap_key\<close>, \<^verbatim>\<open>put_public_wrap_key\<close>, \<^verbatim>\<open>put_otp_aead_key\<close>, \<^verbatim>\<open>put_template\<close>,
  \<^verbatim>\<open>change_authentication_key\<close>). Each one commits an authorized effect or fails and leaves
  the device unchanged.
\<close>

section \<open>Shared tails\<close>

text \<open>The \<^verbatim>\<open>ObjectInfo\<close> literal of the creation handlers.\<close>

definition new_info ::
  "ObjectHeader \<Rightarrow> u16 \<Rightarrow> nat \<Rightarrow> ObjectType \<Rightarrow> u8 \<Rightarrow> u8 \<Rightarrow> CapabilitySet \<Rightarrow> ObjectInfo" where
  "new_info header i len object_type algorithm origin delegated =
     \<lparr>oi_capabilities = oh_capabilities header, oi_id = i, oi_length = of_nat len,
      oi_domains = oh_domains header, oi_object_type = object_type, oi_algorithm = algorithm,
      oi_sequence = 0, oi_origin = origin, oi_label = trim_label (oh_label header),
      oi_delegated_capabilities = delegated\<rparr>"

definition generated_origin :: "bool \<Rightarrow> u8" where
  "generated_origin generate = (if generate then 1 else 2)"

definition validate_and_write ::
  "'k lib \<Rightarrow> 'k env \<Rightarrow> 'k ObjectRecord \<Rightarrow> bytes \<Rightarrow> 'k Device \<Rightarrow> bytes res \<times> 'k Device" where
  "validate_and_write L E r response d =
     try_in (record_validate L r) d (\<lambda>_.
     try_st (write_object L E r d) (\<lambda>_ d. (Ok response, d)))"

definition validate_and_write_imported ::
  "'k lib \<Rightarrow> 'k env \<Rightarrow> 'k ObjectRecord \<Rightarrow> bytes \<Rightarrow> 'k Device \<Rightarrow> bytes res \<times> 'k Device" where
  "validate_and_write_imported L E r response d =
     try_in (record_validate L r) d (\<lambda>_.
     try_st (write_imported_object L E r d) (\<lambda>_ d. (Ok response, d)))"

section \<open>Handlers\<close>

definition put_opaque ::
  "'k lib \<Rightarrow> 'k env \<Rightarrow> FirmwareProfile \<Rightarrow> SessionAuthorization \<Rightarrow> bytes \<Rightarrow> 'k Device \<Rightarrow>
     bytes res \<times> 'k Device" where
  "put_opaque L E fw au data d =
     try_in (decode_request decode_object_request data) d (\<lambda>request.
     let header = oq_header request; material = oq_material request;
         requested_id = oh_requested_id header; algorithm = oh_algorithm header in
     try_in (require_algorithm_enabled fw d algorithm) d (\<lambda>_.
     if algorithm \<noteq> OPAQUE_DATA_ALGORITHM \<and> material = [] then (Err InvalidData, d)
     else
       case (if requested_id \<noteq> 0 then bt_get (dv_objects d) (ObjectKey Ty_Opaque requested_id) else None) of
         Some existing \<Rightarrow>
           if oi_capabilities (or_info existing) \<noteq> oh_capabilities header
              \<or> oi_domains (or_info existing) \<noteq> oh_domains header
              \<or> oi_algorithm (or_info existing) \<noteq> algorithm
              \<or> oi_label (or_info existing) \<noteq> trim_label (oh_label header)
           then (Err InvalidData, d)
           else
             try_in (u16_try_from (length material)) d (\<lambda>n.
             try_st (write_object L E
                 \<lparr>or_info = (or_info existing)\<lparr>oi_length := n\<rparr>, or_material = Mat_Opaque material\<rparr> d)
               (\<lambda>_ d. (Ok (be16 requested_id), d)))
       | None \<Rightarrow>
           try_in (resolve_id E d Ty_Opaque requested_id) d (\<lambda>i.
           try_in (u16_try_from (length material)) d (\<lambda>_.
           let info = new_info header i (length material) Ty_Opaque algorithm 2 cap_NONE in
           try_in (authorize_create au info Cap_PutOpaque) d (\<lambda>_.
           validate_and_write L E \<lparr>or_info = info, or_material = Mat_Opaque material\<rparr> (be16 i) d)))))"

definition put_authentication_key ::
  "'k lib \<Rightarrow> 'k env \<Rightarrow> FirmwareProfile \<Rightarrow> SessionAuthorization \<Rightarrow> bytes \<Rightarrow> 'k Device \<Rightarrow>
     bytes res \<times> 'k Device" where
  "put_authentication_key L E fw au data d =
     try_in (decode_request decode_delegated_object data) d (\<lambda>request.
     let header = dq_header request; algorithm = oh_algorithm header in
     try_in (require_algorithm_enabled fw d algorithm) d (\<lambda>_.
     try_in (authentication_key_length algorithm) d (\<lambda>key_length.
     if length (dq_material request) \<noteq> key_length then (Err WrongLength, d)
     else
       try_in (resolve_id E d Ty_AuthenticationKey (oh_requested_id header)) d (\<lambda>i.
       let info = new_info header i (key_length + 8) Ty_AuthenticationKey algorithm 2
             (dq_delegated_capabilities request) in
       try_in (authorize_create au info Cap_PutAuthenticationKey) d (\<lambda>_.
       try_in (parse_authentication_key_material L algorithm (dq_material request)) d (\<lambda>material.
       validate_and_write L E \<lparr>or_info = info, or_material = Mat_Authentication material\<rparr> (be16 i) d))))))"

definition put_asymmetric_key ::
  "'k lib \<Rightarrow> 'k env \<Rightarrow> FirmwareProfile \<Rightarrow> SessionAuthorization \<Rightarrow> bytes \<Rightarrow> bool \<Rightarrow> 'k Device \<Rightarrow>
     bytes res \<times> 'k Device" where
  "put_asymmetric_key L E fw au data generate d =
     try_in (decode_request decode_object_request data) d (\<lambda>request.
     let header = oq_header request; supplied = oq_material request in
     if generate \<and> supplied \<noteq> [] then (Err WrongLength, d)
     else
       try_in (ok_or (algorithm_from_byte (oh_algorithm header)) InvalidData) d (\<lambda>algorithm.
       try_in (require_algorithm_enabled fw d (algorithm_code algorithm)) d (\<lambda>_.
       try_in (ok_or (asymmetric_key_length algorithm) InvalidData) d (\<lambda>expected_length.
       try_in (resolve_id E d Ty_AsymmetricKey (oh_requested_id header)) d (\<lambda>i.
       try_in (ok_or (asymmetric_object_length algorithm) InvalidData) d (\<lambda>object_length.
       let info = new_info header i object_length Ty_AsymmetricKey (algorithm_code algorithm)
             (generated_origin generate) cap_NONE in
       try_in (authorize_create au info
                 (if generate then Cap_GenerateAsymmetricKey else Cap_PutAsymmetricKey)) d (\<lambda>_.
       try_in (asymmetric_key_material L E algorithm generate supplied) d (\<lambda>material.
       if material_len L material \<noteq> expected_length then (Err InvalidData, d)
       else (if generate then validate_and_write else validate_and_write_imported) L E
              \<lparr>or_info = info, or_material = material\<rparr> (be16 i) d))))))))"

definition put_hmac_key ::
  "'k lib \<Rightarrow> 'k env \<Rightarrow> FirmwareProfile \<Rightarrow> SessionAuthorization \<Rightarrow> bytes \<Rightarrow> bool \<Rightarrow> 'k Device \<Rightarrow>
     bytes res \<times> 'k Device" where
  "put_hmac_key L E fw au data generate d =
     try_in (decode_request decode_object_request data) d (\<lambda>request.
     let header = oq_header request; supplied = oq_material request; algorithm = oh_algorithm header in
     if generate \<and> supplied \<noteq> [] then (Err WrongLength, d)
     else
       try_in (require_algorithm_enabled fw d algorithm) d (\<lambda>_.
       try_in (hmac_length algorithm) d (\<lambda>generated_length.
       try_in (if generate then ok_or (entropy E 0 generated_length) StorageFailed
               else if supplied = [] \<or> length supplied > 128 then Err WrongLength
               else Ok supplied) d (\<lambda>secret.
       try_in (resolve_id E d Ty_HmacKey (oh_requested_id header)) d (\<lambda>i.
       try_in (ok_or (Option.bind (algorithm_from_byte algorithm) hmac_object_length) InvalidData) d
         (\<lambda>object_length.
       let info = new_info header i object_length Ty_HmacKey algorithm (generated_origin generate)
             cap_NONE in
       try_in (authorize_create au info (if generate then Cap_GenerateHmacKey else Cap_PutMacKey)) d (\<lambda>_.
       validate_and_write L E \<lparr>or_info = info, or_material = Mat_Secret secret\<rparr> (be16 i) d)))))))"

definition put_symmetric_key ::
  "'k lib \<Rightarrow> 'k env \<Rightarrow> FirmwareProfile \<Rightarrow> SessionAuthorization \<Rightarrow> bytes \<Rightarrow> bool \<Rightarrow> 'k Device \<Rightarrow>
     bytes res \<times> 'k Device" where
  "put_symmetric_key L E fw au data generate d =
     try_in (decode_request decode_object_request data) d (\<lambda>request.
     let header = oq_header request; supplied = oq_material request in
     if generate \<and> supplied \<noteq> [] then (Err WrongLength, d)
     else
       try_in (ok_or (algorithm_from_byte (oh_algorithm header)) InvalidData) d (\<lambda>algorithm.
       try_in (require_algorithm_enabled fw d (algorithm_code algorithm)) d (\<lambda>_.
       try_in (ok_or (if algorithm \<in> {Alg_Aes128, Alg_Aes192, Alg_Aes256} then aes_key_length algorithm
                      else None) InvalidData) d (\<lambda>key_length.
       try_in (if generate then ok_or (entropy E 0 key_length) StorageFailed
               else if length supplied \<noteq> key_length then Err WrongLength
               else Ok supplied) d (\<lambda>secret.
       try_in (resolve_id E d Ty_SymmetricKey (oh_requested_id header)) d (\<lambda>i.
       let info = new_info header i key_length Ty_SymmetricKey (algorithm_code algorithm)
             (generated_origin generate) cap_NONE in
       try_in (authorize_create au info
                 (if generate then Cap_GenerateSymmetricKey else Cap_PutSymmetricKey)) d (\<lambda>_.
       validate_and_write L E \<lparr>or_info = info, or_material = Mat_Secret secret\<rparr> (be16 i) d)))))))"

definition wrap_key_length :: "Algorithm \<Rightarrow> nat res" where
  "wrap_key_length algorithm =
     (if algorithm \<in> {Alg_Aes128CcmWrap, Alg_Aes192CcmWrap, Alg_Aes256CcmWrap} then
        (case aes_key_length algorithm of Some n \<Rightarrow> Ok n | None \<Rightarrow> Panic)
      else if is_rsa_key algorithm then
        (case asymmetric_key_length algorithm of Some n \<Rightarrow> Ok n | None \<Rightarrow> Panic)
      else Err InvalidData)"

definition put_wrap_key ::
  "'k lib \<Rightarrow> 'k env \<Rightarrow> FirmwareProfile \<Rightarrow> SessionAuthorization \<Rightarrow> bytes \<Rightarrow> bool \<Rightarrow> 'k Device \<Rightarrow>
     bytes res \<times> 'k Device" where
  "put_wrap_key L E fw au data generate d =
     try_in (decode_request decode_delegated_object data) d (\<lambda>request.
     if generate \<and> dq_material request \<noteq> [] then (Err WrongLength, d)
     else
       let header = dq_header request in
       try_in (ok_or (algorithm_from_byte (oh_algorithm header)) InvalidData) d (\<lambda>algorithm.
       try_in (require_algorithm_enabled fw d (algorithm_code algorithm)) d (\<lambda>_.
       try_in (wrap_key_length algorithm) d (\<lambda>key_length.
       try_in (resolve_id E d Ty_WrapKey (oh_requested_id header)) d (\<lambda>i.
       try_in (if is_rsa_key algorithm
               then ok_or (map_option (\<lambda>n. n + 8) (asymmetric_object_length algorithm)) InvalidData
               else Ok (key_length + 8)) d (\<lambda>object_length.
       let info = new_info header i object_length Ty_WrapKey (algorithm_code algorithm)
             (generated_origin generate) (dq_delegated_capabilities request) in
       try_in (authorize_create au info (if generate then Cap_GenerateWrapKey else Cap_PutWrapKey)) d (\<lambda>_.
       try_in (if is_rsa_key algorithm
               then asymmetric_key_material L E algorithm generate (dq_material request)
               else if generate then
                 and_then (ok_or (entropy E 0 key_length) StorageFailed) (\<lambda>s. Ok (Mat_Secret s))
               else if length (dq_material request) \<noteq> key_length then Err WrongLength
               else Ok (Mat_Secret (dq_material request))) d (\<lambda>material.
       (if generate then validate_and_write else validate_and_write_imported) L E
          \<lparr>or_info = info, or_material = material\<rparr> (be16 i) d))))))))"

definition put_public_wrap_key ::
  "'k lib \<Rightarrow> 'k env \<Rightarrow> FirmwareProfile \<Rightarrow> SessionAuthorization \<Rightarrow> bytes \<Rightarrow> 'k Device \<Rightarrow>
     bytes res \<times> 'k Device" where
  "put_public_wrap_key L E fw au data d =
     try_in (decode_request decode_delegated_object data) d (\<lambda>request.
     let header = dq_header request in
     try_in (ok_or (algorithm_from_byte (oh_algorithm header)) InvalidData) d (\<lambda>algorithm.
     try_in (require_algorithm_enabled fw d (algorithm_code algorithm)) d (\<lambda>_.
     if \<not> is_rsa_key algorithm then (Err InvalidData, d)
     else
       try_in (case asymmetric_key_length algorithm of Some n \<Rightarrow> Ok n | None \<Rightarrow> Panic) d (\<lambda>key_length.
       if length (dq_material request) \<noteq> key_length then (Err WrongLength, d)
       else
         try_in (resolve_id E d Ty_PublicWrapKey (oh_requested_id header)) d (\<lambda>i.
         let info = new_info header i (key_length + 8) Ty_PublicWrapKey (algorithm_code algorithm) 2
               (dq_delegated_capabilities request) in
         try_in (authorize_create au info Cap_PutPublicWrapKey) d (\<lambda>_.
         validate_and_write L E \<lparr>or_info = info, or_material = Mat_Public (dq_material request)\<rparr>
           (be16 i) d))))))"

definition otp_key_length :: "Algorithm \<Rightarrow> nat res" where
  "otp_key_length algorithm =
     (if algorithm \<in> {Alg_Aes128YubicoOtp, Alg_Aes192YubicoOtp, Alg_Aes256YubicoOtp} then
        (case aes_key_length algorithm of Some n \<Rightarrow> Ok n | None \<Rightarrow> Panic)
      else Err InvalidData)"

definition put_otp_aead_key ::
  "'k lib \<Rightarrow> 'k env \<Rightarrow> FirmwareProfile \<Rightarrow> SessionAuthorization \<Rightarrow> bytes \<Rightarrow> bool \<Rightarrow> 'k Device \<Rightarrow>
     bytes res \<times> 'k Device" where
  "put_otp_aead_key L E fw au data generate d =
     try_in (decode_request decode_otp_aead_key data) d (\<lambda>request.
     if generate \<and> ok_material request \<noteq> [] then (Err WrongLength, d)
     else
       let header = ok_header request in
       try_in (ok_or (algorithm_from_byte (oh_algorithm header)) InvalidData) d (\<lambda>algorithm.
       try_in (require_algorithm_enabled fw d (algorithm_code algorithm)) d (\<lambda>_.
       try_in (otp_key_length algorithm) d (\<lambda>key_length.
       try_in (if generate then ok_or (entropy E 0 key_length) StorageFailed
               else if length (ok_material request) \<noteq> key_length then Err WrongLength
               else Ok (ok_material request)) d (\<lambda>key.
       try_in (resolve_id E d Ty_OtpAeadKey (oh_requested_id header)) d (\<lambda>i.
       let info = new_info header i (key_length + 4) Ty_OtpAeadKey (algorithm_code algorithm)
             (generated_origin generate) cap_NONE in
       try_in (authorize_create au info
                 (if generate then Cap_GenerateOtpAeadKey else Cap_PutOtpAeadKey)) d (\<lambda>_.
       validate_and_write L E \<lparr>or_info = info, or_material = Mat_OtpAeadKey (ok_nonce_id request) key\<rparr>
         (be16 i) d)))))))"

definition put_template ::
  "'k lib \<Rightarrow> 'k env \<Rightarrow> FirmwareProfile \<Rightarrow> SessionAuthorization \<Rightarrow> bytes \<Rightarrow> 'k Device \<Rightarrow>
     bytes res \<times> 'k Device" where
  "put_template L E fw au data d =
     try_in (decode_request decode_object_request data) d (\<lambda>request.
     let header = oq_header request; material = oq_material request in
     if material = [] then (Err WrongLength, d)
     else if oh_algorithm header \<noteq> algorithm_code Alg_TemplateSsh then (Err InvalidData, d)
     else
       try_in (require_algorithm_enabled fw d (oh_algorithm header)) d (\<lambda>_.
       try_in (resolve_id E d Ty_Template (oh_requested_id header)) d (\<lambda>i.
       try_in (u16_try_from (length material)) d (\<lambda>_.
       let info = new_info header i (length material) Ty_Template (oh_algorithm header) 2 cap_NONE in
       try_in (authorize_create au info Cap_PutTemplate) d (\<lambda>_.
       validate_and_write L E \<lparr>or_info = info, or_material = Mat_Opaque material\<rparr> (be16 i) d)))))"

definition change_authentication_key ::
  "'k lib \<Rightarrow> 'k env \<Rightarrow> FirmwareProfile \<Rightarrow> bytes \<Rightarrow> 'k Device \<Rightarrow> bytes res \<times> 'k Device" where
  "change_authentication_key L E fw data d =
     try_in (decode_request decode_change_authentication_key data) d (\<lambda>request.
     let i = ca_id request; algorithm = ca_algorithm request in
     try_in (require_algorithm_enabled fw d algorithm) d (\<lambda>_.
     try_in (authentication_key_length algorithm) d (\<lambda>key_length.
     if length (ca_material request) \<noteq> key_length then (Err WrongLength, d)
     else
       try_in (parse_authentication_key_material L algorithm (ca_material request)) d (\<lambda>material.
       try_in (ok_or (bt_get (dv_objects d) (ObjectKey Ty_AuthenticationKey i)) ObjectNotFound) d (\<lambda>old.
       try_st (write_object L E
           \<lparr>or_info = (or_info old)\<lparr>oi_algorithm := algorithm, oi_length := of_nat (key_length + 8)\<rparr>,
            or_material = Mat_Authentication material\<rparr> d)
         (\<lambda>_ d. (Ok (be16 i), d)))))))"

section \<open>Every handler commits an authorized effect\<close>

lemma new_info_simps [simp]:
  "info_key (new_info h i n t a orig del) = ObjectKey t i"
  "info_wf (new_info h i n t a orig del) \<longleftrightarrow> cap_wf (oh_capabilities h) \<and> cap_wf del"
  by (simp_all add: new_info_def info_key_def info_wf_def)

lemma created_commits:
  assumes "resolve_id E d t requested = Ok i" "authorize_create au info c = Ok u"
    "info_key info = ObjectKey t i" "info_wf info"
  shows "commits d (store_effect L au d)
           (validate_and_write L E \<lparr>or_info = info, or_material = m\<rparr> y d)"
    "commits d (store_effect L au d)
           (validate_and_write_imported L E \<lparr>or_info = info, or_material = m\<rparr> y d)"
  unfolding validate_and_write_def validate_and_write_imported_def
  using assms resolve_id_Ok(1) [OF assms(1)]
  by (auto intro!: commits_try_in commits_try_st write_object_stores write_imported_object_stores
      store_effect.created)

lemmas request_caps = object_request_wf [THEN conjunct2] delegated_request_wf [THEN conjunct2, THEN conjunct1]
  delegated_request_wf [THEN conjunct2, THEN conjunct2] otp_request_wf [THEN conjunct2, THEN conjunct1]

lemmas commits_intros = commits_try_in created_commits request_caps

lemma put_authentication_key_commits:
  "commits d (store_effect L au d) (put_authentication_key L E fw au data d)"
  unfolding put_authentication_key_def Let_def
  by (intro commits_try_in) (auto intro!: commits_intros simp del: decode_request_Ok)

lemma put_asymmetric_key_commits:
  "commits d (store_effect L au d) (put_asymmetric_key L E fw au data generate d)"
  unfolding put_asymmetric_key_def Let_def
  by (intro commits_try_in) (auto intro!: commits_intros simp del: decode_request_Ok)

lemma put_hmac_key_commits:
  "commits d (store_effect L au d) (put_hmac_key L E fw au data generate d)"
  unfolding put_hmac_key_def Let_def
  by (intro commits_try_in) (auto intro!: commits_intros simp del: decode_request_Ok)

lemma put_symmetric_key_commits:
  "commits d (store_effect L au d) (put_symmetric_key L E fw au data generate d)"
  unfolding put_symmetric_key_def Let_def
  by (intro commits_try_in) (auto intro!: commits_intros simp del: decode_request_Ok)

lemma put_wrap_key_commits:
  "commits d (store_effect L au d) (put_wrap_key L E fw au data generate d)"
  unfolding put_wrap_key_def Let_def
  by (intro commits_try_in) (auto intro!: commits_intros simp del: decode_request_Ok)

lemma put_public_wrap_key_commits:
  "commits d (store_effect L au d) (put_public_wrap_key L E fw au data d)"
  unfolding put_public_wrap_key_def Let_def
  by (intro commits_try_in) (auto intro!: commits_intros simp del: decode_request_Ok)

lemma put_otp_aead_key_commits:
  "commits d (store_effect L au d) (put_otp_aead_key L E fw au data generate d)"
  unfolding put_otp_aead_key_def Let_def
  by (intro commits_try_in) (auto intro!: commits_intros simp del: decode_request_Ok)

lemma put_template_commits:
  "commits d (store_effect L au d) (put_template L E fw au data d)"
  unfolding put_template_def Let_def
  by (intro commits_try_in) (auto intro!: commits_intros simp del: decode_request_Ok)

text \<open>
  Replacing an opaque object relies on the dispatcher's check that the session may use
  the existing object.
\<close>

lemma put_opaque_commits:
  assumes "store_wf L d"
    and authorized: "\<And>request old. decode_request decode_object_request data = Ok request \<Longrightarrow>
       oh_requested_id (oq_header request) \<noteq> 0 \<Longrightarrow>
       bt_get (dv_objects d) (ObjectKey Ty_Opaque (oh_requested_id (oq_header request))) = Some old \<Longrightarrow>
       authorize_use au (or_info old) Cap_PutOpaque Cap_PutOpaque = Ok ()"
  shows "commits d (store_effect L au d) (put_opaque L E fw au data d)"
proof -
  have replace: "commits d (store_effect L au d)
      (try_st (write_object L E \<lparr>or_info = (or_info old)\<lparr>oi_length := n\<rparr>, or_material = m\<rparr> d)
        (\<lambda>_ d. (Ok y, d)))"
    if "bt_get (dv_objects d) (ObjectKey Ty_Opaque i) = Some old"
      "authorize_use au (or_info old) Cap_PutOpaque Cap_PutOpaque = Ok ()" for i old n m y
    using that store_wfD(2) [OF assms(1) that(1)]
    by (auto intro!: commits_try_st write_object_stores store_effect.opaque_replaced [where k = "ObjectKey Ty_Opaque i"]
        simp: record_wf_def info_wf_def simp del: authorize_use_Ok)
  show ?thesis
    unfolding put_opaque_def Let_def
    by (intro commits_try_in)
      (auto intro!: commits_intros replace dest: authorized
        simp del: decode_request_Ok authorize_use_Ok split: option.splits if_splits)
qed

lemma change_authentication_key_commits:
  assumes "store_wf L d"
    and authorized: "\<And>request old. decode_request decode_change_authentication_key data = Ok request \<Longrightarrow>
       bt_get (dv_objects d) (ObjectKey Ty_AuthenticationKey (ca_id request)) = Some old \<Longrightarrow>
       ca_id request = au_key_id au
       \<and> authorize_use au (or_info old) Cap_ChangeAuthenticationKey Cap_ChangeAuthenticationKey = Ok ()"
  shows "commits d (store_effect L au d) (change_authentication_key L E fw data d)"
proof -
  have replace: "commits d (store_effect L au d)
      (try_st (write_object L E
          \<lparr>or_info = (or_info old)\<lparr>oi_algorithm := a, oi_length := n\<rparr>, or_material = m\<rparr> d)
        (\<lambda>_ d. (Ok y, d)))"
    if "bt_get (dv_objects d) (ObjectKey Ty_AuthenticationKey i) = Some old"
      "i = au_key_id au \<and> authorize_use au (or_info old) Cap_ChangeAuthenticationKey Cap_ChangeAuthenticationKey = Ok ()"
    for i old a n m y
    using that store_wfD(2) [OF assms(1) that(1)]
    by (auto intro!: commits_try_st write_object_stores store_effect.authentication_key_changed
        simp: record_wf_def info_wf_def simp del: authorize_use_Ok)
  show ?thesis
    unfolding change_authentication_key_def Let_def
    by (intro commits_try_in)
      (auto intro!: commits_intros replace dest: authorized simp del: decode_request_Ok authorize_use_Ok)
qed

end
