(* ===== verification/Use.thy ===== *)
theory Use
  imports Key_Material
begin

unbundle bit_operations_syntax

text \<open>
  The commands that use stored keys without changing the device (\<^verbatim>\<open>device.rs\<close>): signing,
  decryption, key agreement and encapsulation, HMAC, AES, Yubico OTP, and the queries that
  list objects and return public keys.
\<close>

text \<open>\<^verbatim>\<open>&v[a..b]\<close>: panics when the range is not inside the slice.\<close>

definition slice :: "nat \<Rightarrow> nat \<Rightarrow> bytes \<Rightarrow> bytes res" where
  "slice a b v = (if a \<le> b \<and> b \<le> length v then Ok (take (b - a) (drop a v)) else Panic)"

section \<open>Queries\<close>

definition get_device_public_key :: "'k lib \<Rightarrow> 'k Device \<Rightarrow> bytes \<Rightarrow> bytes res" where
  "get_device_public_key L d data =
     and_then (decode_request decode_empty data) (\<lambda>_.
     case key_public L (dv_static_private d) of
       Pub_Ec _ uncompressed \<Rightarrow>
         if uncompressed = [] then Panic else Ok (uncompressed[0 := AUTHENTICATION_ALGORITHM_EC_P256])
     | _ \<Rightarrow> Err StorageFailed)"

definition list_entry :: "ObjectInfo \<Rightarrow> bytes" where
  "list_entry info = be16 (oi_id info) @ [object_type_code (oi_object_type info), oi_sequence info]"

definition list_objects :: "SessionAuthorization \<Rightarrow> 'k Device \<Rightarrow> bytes \<Rightarrow> bytes res" where
  "list_objects au d data =
     and_then (map_err (\<lambda>e. if e = WrongLength then InvalidData else e)
                 (decode_request decode_filters data)) (\<lambda>filters.
     Ok (concat (map (\<lambda>object. list_entry (or_info object))
           (filter (\<lambda>object. can_see au (or_info object) \<and> filters_match filters (or_info object))
              (bt_values (dv_objects d))))))"

definition get_object_info :: "FirmwareProfile \<Rightarrow> SessionAuthorization \<Rightarrow> 'k Device \<Rightarrow> bytes \<Rightarrow> bytes res" where
  "get_object_info fw au d data =
     and_then (decode_request decode_object_key data) (\<lambda>key.
     and_then (ok_or (bt_get (dv_objects d) key) ObjectNotFound) (\<lambda>object.
     and_then (require_visible au (or_info object)) (\<lambda>_.
     info_encode ((or_info object)
       \<lparr>oi_capabilities := cap_retain_firmware_supported fw (oi_capabilities (or_info object)),
        oi_delegated_capabilities :=
          cap_retain_firmware_supported fw (oi_delegated_capabilities (or_info object))\<rparr>))))"

definition get_storage_info :: "'k Device \<Rightarrow> bytes \<Rightarrow> bytes res" where
  "get_storage_info d data =
     and_then (decode_request decode_empty data) (\<lambda>_.
     let used = of_nat (length (dv_objects d)) :: u16;
         free = of_nat (MAX_OBJECTS - length (dv_objects d)) :: u16 in
     if used > 1024 then Panic
     else Ok (concat (map be16 [of_nat MAX_OBJECTS, free, 1024, 1024 - used, 126])))"

definition get_pseudo_random :: "'k env \<Rightarrow> bytes \<Rightarrow> bytes res" where
  "get_pseudo_random E data =
     and_then (decode_request decode_u16 data) (\<lambda>n. ok_or (entropy E 0 (unat n)) StorageFailed)"

definition get_opaque :: "'k Device \<Rightarrow> bytes \<Rightarrow> bytes res" where
  "get_opaque d data =
     and_then (decode_request decode_u16 data) (\<lambda>i.
     and_then (ok_or (bt_get (dv_objects d) (ObjectKey Ty_Opaque i)) ObjectNotFound) (\<lambda>object.
     case or_material object of Mat_Opaque v \<Rightarrow> Ok v | _ \<Rightarrow> Err InvalidData))"

definition get_template :: "'k Device \<Rightarrow> bytes \<Rightarrow> bytes res" where
  "get_template d data =
     and_then (decode_request decode_u16 data) (\<lambda>i.
     and_then (ok_or (bt_get (dv_objects d) (ObjectKey Ty_Template i)) ObjectNotFound) (\<lambda>object.
     case or_material object of Mat_Opaque v \<Rightarrow> Ok v | _ \<Rightarrow> Err InvalidData))"

definition object_public_key :: "'k lib \<Rightarrow> 'k ObjectRecord \<Rightarrow> bytes res" where
  "object_public_key L object =
     (let object_type = oi_object_type (or_info object); algorithm = oi_algorithm (or_info object) in
      if object_type = Ty_AuthenticationKey then
        (case or_material object of
           Mat_Authentication (Auth_Asymmetric public) \<Rightarrow> Ok public | _ \<Rightarrow> Err InvalidData)
      else if object_type = Ty_PublicWrapKey then
        (case or_material object of Mat_Public public \<Rightarrow> Ok public | _ \<Rightarrow> Err InvalidData)
      else case or_material object of
        Mat_MlKemKey key \<Rightarrow> Ok (ml_kem_public L key)
      | Mat_HybridKemKey key \<Rightarrow> ok_or (hybrid_public L key) InvalidData
      | _ \<Rightarrow>
          if algorithm_from_byte algorithm \<in> {Some Alg_X25519, Some Alg_X448} then
            and_then (montgomery_key L object) (\<lambda>key. Ok (montgomery_public L key))
          else
            and_then (signing_key L object) (\<lambda>key.
            case key_public L key of
              Pub_Ec _ uncompressed \<Rightarrow> slice 1 (length uncompressed) uncompressed
            | Pub_Edwards _ public_key \<Rightarrow> Ok public_key
            | Pub_Rsa modulus _ \<Rightarrow> Ok modulus
            | Pub_MlDsa _ public_key \<Rightarrow> Ok public_key))"

definition get_public_key :: "'k lib \<Rightarrow> SessionAuthorization \<Rightarrow> 'k Device \<Rightarrow> bytes \<Rightarrow> bytes res" where
  "get_public_key L au d data =
     and_then (decode_request decode_get_public_key data) (\<lambda>key.
     if key_type key \<notin> {Ty_AsymmetricKey, Ty_AuthenticationKey, Ty_WrapKey, Ty_PublicWrapKey}
     then Err InvalidData
     else
       and_then (ok_or (bt_get (dv_objects d) key) ObjectNotFound) (\<lambda>object.
       and_then (require_visible au (or_info object)) (\<lambda>_.
       and_then (object_public_key L object) (\<lambda>public. Ok (oi_algorithm (or_info object) # public)))))"

section \<open>Signatures\<close>

definition sign_pkcs1 ::
  "'k lib \<Rightarrow> 'k env \<Rightarrow> FirmwareProfile \<Rightarrow> SessionAuthorization \<Rightarrow> 'k Device \<Rightarrow> bytes \<Rightarrow> bytes res" where
  "sign_pkcs1 L E fw au d data =
     and_then (decode_request decode_id_remainder data) (\<lambda>request.
     if ir_payload request = [] then Err WrongLength
     else
       and_then (asymmetric_object fw au d (ir_id request)) (\<lambda>object.
       and_then (rsa_key L object) (\<lambda>key.
       ok_or (case rsa_hash_from_digest_length (length (ir_payload request)) of
                Some hash \<Rightarrow> sign_pkcs1v15_digest E key hash (ir_payload request)
              | None \<Rightarrow> sign_pkcs1v15_payload E key (ir_payload request)) InvalidData)))"

definition sign_pss ::
  "'k lib \<Rightarrow> 'k env \<Rightarrow> FirmwareProfile \<Rightarrow> SessionAuthorization \<Rightarrow> 'k Device \<Rightarrow> bytes \<Rightarrow> bytes res" where
  "sign_pss L E fw au d data =
     and_then (decode_request decode_sign_pss data) (\<lambda>request.
     if sp_digest request = [] then Err WrongLength
     else
       and_then (asymmetric_object fw au d (sp_id request)) (\<lambda>object.
       and_then (rsa_mgf_hash (sp_mgf_hash request)) (\<lambda>mgf_hash.
       and_then (ok_or (rsa_hash_from_digest_length (length (sp_digest request))) WrongLength) (\<lambda>hash.
       and_then (rsa_key L object) (\<lambda>key.
       ok_or (sign_pss_digest E key hash mgf_hash (unat (sp_salt_length request)) (sp_digest request))
         InvalidData)))))"

text \<open>\<^verbatim>\<open>SignatureScheme::ec_curve\<close>.\<close>

primrec scheme_ec_curve :: "SignatureScheme \<Rightarrow> EcCurve option" where
  "scheme_ec_curve EcdsaP224Sha224 = Some P224"
| "scheme_ec_curve EcdsaP256Sha256 = Some P256"
| "scheme_ec_curve EcdsaP384Sha384 = Some P384"
| "scheme_ec_curve EcdsaP521Sha512 = Some P521"
| "scheme_ec_curve EcdsaSecp256k1Sha256 = Some Secp256k1"
| "scheme_ec_curve EcdsaBrainpoolP256Sha256 = Some BrainpoolP256"
| "scheme_ec_curve EcdsaBrainpoolP384Sha384 = Some BrainpoolP384"
| "scheme_ec_curve EcdsaBrainpoolP512Sha512 = Some BrainpoolP512"
| "scheme_ec_curve SchemeEd25519 = None"
| "scheme_ec_curve SchemeEd448 = None"

definition sign_ecdsa ::
  "'k lib \<Rightarrow> 'k env \<Rightarrow> FirmwareProfile \<Rightarrow> SessionAuthorization \<Rightarrow> 'k Device \<Rightarrow> bytes \<Rightarrow> bytes res" where
  "sign_ecdsa L E fw au d data =
     and_then (decode_request decode_id_remainder data) (\<lambda>request.
     if ir_payload request = [] then Err WrongLength
     else
       and_then (asymmetric_object fw au d (ir_id request)) (\<lambda>object.
       and_then (asymmetric_key_algorithm (oi_algorithm (or_info object))) (\<lambda>(algorithm, _).
       if algorithm = SchemeEd25519 \<or> algorithm = SchemeEd448 then Err InvalidData
       else
         and_then (ok_or (scheme_ec_curve algorithm) InvalidData) (\<lambda>curve.
         and_then (signing_key L object) (\<lambda>key.
         ok_or (sign_prehash_ecdsa_der E key algorithm curve (ir_payload request)) InvalidData)))))"

definition sign_eddsa ::
  "'k lib \<Rightarrow> 'k env \<Rightarrow> FirmwareProfile \<Rightarrow> SessionAuthorization \<Rightarrow> 'k Device \<Rightarrow> bytes \<Rightarrow> bytes res" where
  "sign_eddsa L E fw au d data =
     and_then (decode_request decode_id_remainder data) (\<lambda>request.
     and_then (asymmetric_object fw au d (ir_id request)) (\<lambda>object.
     and_then (ok_or (Option.bind (algorithm_from_byte (oi_algorithm (or_info object)))
                 (map_of [(Alg_Ed25519, SchemeEd25519), (Alg_Ed448, SchemeEd448)])) InvalidData) (\<lambda>scheme.
     and_then (signing_key L object) (\<lambda>key.
     ok_or (sign_message E key scheme (ir_payload request)) InvalidData))))"

definition sign_ml_dsa ::
  "'k lib \<Rightarrow> 'k env \<Rightarrow> FirmwareProfile \<Rightarrow> SessionAuthorization \<Rightarrow> 'k Device \<Rightarrow> bytes \<Rightarrow> bytes res" where
  "sign_ml_dsa L E fw au d data =
     and_then (decode_request (decode_sign_ml_dsa L) data) (\<lambda>request.
     and_then (asymmetric_object fw au d (sm_id request)) (\<lambda>object.
     and_then (require_algorithm_enabled fw d (oi_algorithm (or_info object))) (\<lambda>_.
     and_then (ok_or (map_of [(0, Deterministic), (1, Randomized), (2, HedgePreferred)] (sm_mode request))
                 InvalidData) (\<lambda>mode.
     and_then (signing_key L object) (\<lambda>key.
     if \<not> key_is_ml_dsa L key then Err InvalidData
     else ok_or (case sm_prehash request of
                   Some hash \<Rightarrow> ml_dsa_sign_prehash E key (sm_message request) (sm_context request) hash mode
                 | None \<Rightarrow> ml_dsa_sign E key (sm_message request) (sm_context request) mode) InvalidData)))))"

section \<open>Key agreement, encapsulation and decryption\<close>

definition encapsulate_ml_kem ::
  "'k lib \<Rightarrow> 'k env \<Rightarrow> FirmwareProfile \<Rightarrow> SessionAuthorization \<Rightarrow> 'k Device \<Rightarrow> bytes \<Rightarrow> bytes res" where
  "encapsulate_ml_kem L E fw au d data =
     and_then (decode_request decode_u16 data) (\<lambda>i.
     and_then (asymmetric_object fw au d i) (\<lambda>object.
     and_then (require_algorithm_enabled fw d (oi_algorithm (or_info object))) (\<lambda>_.
     case or_material object of
       Mat_MlKemKey key \<Rightarrow>
         and_then (ok_or (ml_kem_encapsulate E (ml_kem_parameters L key) (ml_kem_public L key)) InvalidData)
           (\<lambda>(ciphertext, secret). Ok (ciphertext @ secret))
     | _ \<Rightarrow> Err InvalidData)))"

definition decapsulate_ml_kem ::
  "'k lib \<Rightarrow> FirmwareProfile \<Rightarrow> SessionAuthorization \<Rightarrow> 'k Device \<Rightarrow> bytes \<Rightarrow> bytes res" where
  "decapsulate_ml_kem L fw au d data =
     and_then (decode_request decode_id_remainder data) (\<lambda>request.
     if ir_payload request = [] then Err WrongLength
     else
       and_then (asymmetric_object fw au d (ir_id request)) (\<lambda>object.
       and_then (require_algorithm_enabled fw d (oi_algorithm (or_info object))) (\<lambda>_.
       case or_material object of
         Mat_MlKemKey key \<Rightarrow>
           if length (ir_payload request) \<noteq> ml_kem_ciphertext_length L (ml_kem_parameters L key)
           then Err WrongLength
           else ok_or (ml_kem_decapsulate L key (ir_payload request)) InvalidData
       | _ \<Rightarrow> Err InvalidData)))"

definition encapsulate_hybrid_kem ::
  "'k lib \<Rightarrow> 'k env \<Rightarrow> FirmwareProfile \<Rightarrow> SessionAuthorization \<Rightarrow> 'k Device \<Rightarrow> bytes \<Rightarrow> bytes res" where
  "encapsulate_hybrid_kem L E fw au d data =
     and_then (decode_request decode_u16 data) (\<lambda>i.
     and_then (asymmetric_object fw au d i) (\<lambda>object.
     and_then (require_algorithm_enabled fw d (oi_algorithm (or_info object))) (\<lambda>_.
     case or_material object of
       Mat_HybridKemKey key \<Rightarrow>
         and_then (ok_or (hybrid_public L key) InvalidData) (\<lambda>public.
         and_then (ok_or (hybrid_encapsulate E (hybrid_construction L key) public) InvalidData)
           (\<lambda>(ciphertext, secret). Ok (ciphertext @ secret)))
     | _ \<Rightarrow> Err InvalidData)))"

definition decapsulate_hybrid_kem ::
  "'k lib \<Rightarrow> FirmwareProfile \<Rightarrow> SessionAuthorization \<Rightarrow> 'k Device \<Rightarrow> bytes \<Rightarrow> bytes res" where
  "decapsulate_hybrid_kem L fw au d data =
     and_then (decode_request decode_id_remainder data) (\<lambda>request.
     and_then (asymmetric_object fw au d (ir_id request)) (\<lambda>object.
     and_then (require_algorithm_enabled fw d (oi_algorithm (or_info object))) (\<lambda>_.
     case or_material object of
       Mat_HybridKemKey key \<Rightarrow>
         if length (ir_payload request) \<noteq> hybrid_ciphertext_length L (hybrid_construction L key)
         then Err WrongLength
         else ok_or (hybrid_decapsulate L key (ir_payload request)) InvalidData
     | _ \<Rightarrow> Err InvalidData)))"

definition derive_ecdh ::
  "'k lib \<Rightarrow> FirmwareProfile \<Rightarrow> SessionAuthorization \<Rightarrow> 'k Device \<Rightarrow> bytes \<Rightarrow> bytes res" where
  "derive_ecdh L fw au d data =
     and_then (decode_request decode_id_remainder data) (\<lambda>request.
     if ir_payload request = [] then Err WrongLength
     else
       and_then (asymmetric_object fw au d (ir_id request)) (\<lambda>object.
       raw_ecdh_secret L object (ir_payload request)))"

definition derive_ecdh_kdf ::
  "'k lib \<Rightarrow> FirmwareProfile \<Rightarrow> SessionAuthorization \<Rightarrow> 'k Device \<Rightarrow> bytes \<Rightarrow> bytes res" where
  "derive_ecdh_kdf L fw au d data =
     and_then (decode_request decode_derive_ecdh_kdf data) (\<lambda>request.
     and_then (ecdh_kdf_hash (dk_hash request)) (\<lambda>hash.
     let output_length = unat (dk_output_length request) in
     if output_length = 0 \<or> \<not> secure_response_data_fits output_length then Err WrongLength
     else
       and_then (asymmetric_object fw au d (dk_id request)) (\<lambda>object.
       and_then (raw_ecdh_secret L object (dk_peer_public request)) (\<lambda>shared_secret.
       ok_or (x963_kdf L hash (dk_prefix request @ shared_secret) (dk_shared_info request) output_length)
         InvalidData))))"

definition decrypt_pkcs1 ::
  "'k lib \<Rightarrow> 'k env \<Rightarrow> FirmwareProfile \<Rightarrow> SessionAuthorization \<Rightarrow> 'k Device \<Rightarrow> bytes \<Rightarrow> bytes res" where
  "decrypt_pkcs1 L E fw au d data =
     and_then (decode_request decode_id_remainder data) (\<lambda>request.
     if ir_payload request = [] then Err WrongLength
     else
       and_then (asymmetric_object fw au d (ir_id request)) (\<lambda>object.
       and_then (rsa_key L object) (\<lambda>key.
       ok_or (decrypt_pkcs1v15 E key (ir_payload request)) InvalidData)))"

definition decrypt_oaep ::
  "'k lib \<Rightarrow> 'k env \<Rightarrow> FirmwareProfile \<Rightarrow> SessionAuthorization \<Rightarrow> 'k Device \<Rightarrow> bytes \<Rightarrow> bytes res" where
  "decrypt_oaep L E fw au d data =
     and_then (decode_request decode_decrypt_oaep data) (\<lambda>request.
     and_then (asymmetric_object fw au d (do_id request)) (\<lambda>object.
     and_then (rsa_modulus_length object) (\<lambda>modulus_length.
     let input = do_ciphertext_and_label request in
     if length input < modulus_length then Err WrongLength
     else if length input - modulus_length \<notin> {20, 32, 48, 64} then Err WrongLength
     else
       and_then (rsa_mgf_hash (do_mgf_hash request)) (\<lambda>mgf_hash.
       and_then (rsa_key L object) (\<lambda>key.
       ok_or (decrypt_oaep_digest E key (take modulus_length input) (drop modulus_length input) mgf_hash)
         InvalidData)))))"

section \<open>Symmetric keys\<close>

definition AES_BLOCK_SIZE :: nat where "AES_BLOCK_SIZE = 16"

definition crypt_aes_ecb ::
  "'k lib \<Rightarrow> FirmwareProfile \<Rightarrow> SessionAuthorization \<Rightarrow> 'k Device \<Rightarrow> bytes \<Rightarrow> bool \<Rightarrow> bytes res" where
  "crypt_aes_ecb L fw au d data encrypt =
     and_then (decode_request decode_id_remainder data) (\<lambda>request.
     let input = ir_payload request in
     if length input < AES_BLOCK_SIZE \<or> length input mod AES_BLOCK_SIZE \<noteq> 0 then Err WrongLength
     else
       and_then (symmetric_object fw au d (ir_id request)) (\<lambda>object.
       and_then (object_secret object) (\<lambda>key.
       ok_or (if encrypt then encrypt_aes_ecb L key input else decrypt_aes_ecb L key input) InvalidData)))"

text \<open>The library's error value is dropped by \<^verbatim>\<open>map_err\<close>.\<close>

definition or_invalid :: "'e + 'a \<Rightarrow> 'a res" where
  "or_invalid r = (case r of Inl _ \<Rightarrow> Err InvalidData | Inr v \<Rightarrow> Ok v)"

definition crypt_aes_cbc ::
  "'k lib \<Rightarrow> FirmwareProfile \<Rightarrow> SessionAuthorization \<Rightarrow> 'k Device \<Rightarrow> bytes \<Rightarrow> bool \<Rightarrow> bytes res" where
  "crypt_aes_cbc L fw au d data encrypt =
     and_then (decode_request decode_aes_cbc data) (\<lambda>request.
     let input = ac_input request in
     if length input < AES_BLOCK_SIZE \<or> length input mod AES_BLOCK_SIZE \<noteq> 0 then Err WrongLength
     else
       and_then (symmetric_object fw au d (ac_id request)) (\<lambda>object.
       and_then (object_secret object) (\<lambda>key.
       or_invalid (if encrypt then encrypt_aes_cbc L key (ac_iv request) input
                   else decrypt_aes_cbc L key (ac_iv request) input))))"

definition sign_hmac ::
  "'k lib \<Rightarrow> FirmwareProfile \<Rightarrow> SessionAuthorization \<Rightarrow> 'k Device \<Rightarrow> bytes \<Rightarrow> bytes res" where
  "sign_hmac L fw au d data =
     and_then (decode_request decode_id_remainder data) (\<lambda>request.
     and_then (hmac_object fw au d (ir_id request)) (\<lambda>object.
     calculate_hmac L object (ir_payload request)))"

definition verify_hmac ::
  "'k lib \<Rightarrow> FirmwareProfile \<Rightarrow> SessionAuthorization \<Rightarrow> 'k Device \<Rightarrow> bytes \<Rightarrow> bytes res" where
  "verify_hmac L fw au d data =
     and_then (decode_request decode_id_remainder data) (\<lambda>request.
     and_then (hmac_object fw au d (ir_id request)) (\<lambda>object.
     and_then (hmac_length (oi_algorithm (or_info object))) (\<lambda>signature_length.
     if length (ir_payload request) < signature_length then Err WrongLength
     else
       and_then (calculate_hmac L object (drop signature_length (ir_payload request))) (\<lambda>expected.
       Ok [if expected = take signature_length (ir_payload request) then 1 else 0]))))"

section \<open>Yubico OTP\<close>

definition create_otp_aead ::
  "'k lib \<Rightarrow> 'k env \<Rightarrow> FirmwareProfile \<Rightarrow> SessionAuthorization \<Rightarrow> 'k Device \<Rightarrow> bytes \<Rightarrow> bytes res" where
  "create_otp_aead L E fw au d data =
     and_then (decode_request decode_create_otp_aead data) (\<lambda>(i, credential).
     and_then (otp_aead_key fw au d i) (\<lambda>object. otp_aead_encrypt L E object credential))"

definition randomize_otp_aead ::
  "'k lib \<Rightarrow> 'k env \<Rightarrow> FirmwareProfile \<Rightarrow> SessionAuthorization \<Rightarrow> 'k Device \<Rightarrow> bytes \<Rightarrow> bytes res" where
  "randomize_otp_aead L E fw au d data =
     and_then (decode_request decode_u16 data) (\<lambda>i.
     and_then (otp_aead_key fw au d i) (\<lambda>object.
     and_then (ok_or (entropy E 0 22) StorageFailed) (\<lambda>credential.
     otp_aead_encrypt L E object credential)))"

definition decrypt_otp ::
  "'k lib \<Rightarrow> FirmwareProfile \<Rightarrow> SessionAuthorization \<Rightarrow> 'k Device \<Rightarrow> bytes \<Rightarrow> bytes res" where
  "decrypt_otp L fw au d data =
     and_then (decode_request decode_decrypt_otp data) (\<lambda>request.
     and_then (otp_aead_key fw au d (dt_id request)) (\<lambda>object.
     and_then (otp_aead_decrypt L object (dt_aead request)) (\<lambda>credential.
     and_then (slice 0 16 credential) (\<lambda>otp_key.
     and_then (ok_or (decrypt_aes_ecb L otp_key (dt_otp request)) InvalidData) (\<lambda>token.
     and_then (slice 0 6 token) (\<lambda>token_id.
     and_then (slice 16 22 credential) (\<lambda>private_id.
     if token_id \<noteq> private_id \<or> yubico_crc16 token \<noteq> 0xf0b8 then Err InvalidOtp
     else
       and_then (slice 6 8 token) (\<lambda>counter.
       and_then (slice 11 12 token) (\<lambda>use.
       and_then (slice 10 11 token) (\<lambda>high.
       and_then (slice 8 10 token) (\<lambda>low. Ok (counter @ use @ high @ low))))))))))))"

definition rewrap_otp_aead ::
  "'k lib \<Rightarrow> 'k env \<Rightarrow> FirmwareProfile \<Rightarrow> SessionAuthorization \<Rightarrow> 'k Device \<Rightarrow> bytes \<Rightarrow> bytes res" where
  "rewrap_otp_aead L E fw au d data =
     and_then (decode_request decode_rewrap_otp_aead data) (\<lambda>request.
     and_then (otp_aead_key fw au d (rw_from_id request)) (\<lambda>from_object.
     and_then (otp_aead_key fw au d (rw_to_id request)) (\<lambda>to_object.
     and_then (otp_aead_decrypt L from_object (rw_aead request)) (\<lambda>credential.
     otp_aead_encrypt L E to_object credential))))"

end
