(* ===== verification/Wrapping.thy ===== *)
theory Wrapping
  imports Create Use
begin

unbundle bit_operations_syntax

text \<open>
  Wrapping (\<^verbatim>\<open>device.rs\<close>): the canonical CBOR form of a wrapped object, data wrapping under an
  AES-CCM key, and export and import of objects under AES-CCM and RSA wrap keys. Import
  accepts only the canonical encoding and re-checks the whole authorization of a creation.
\<close>

section \<open>The wrapped object\<close>

definition WRAPPED_OBJECT_SCHEMA :: string where "WRAPPED_OBJECT_SCHEMA = ''virtual-yubihsm-object''"
definition AES_CCM_NONCE_SIZE :: nat where "AES_CCM_NONCE_SIZE = 13"
definition AES_CCM_TAG_SIZE :: nat where "AES_CCM_TAG_SIZE = 16"

definition validate_wrapped_object :: "'k lib \<Rightarrow> 'k ObjectRecord \<Rightarrow> unit res" where
  "validate_wrapped_object L object =
     and_then (record_validate L object) (\<lambda>_.
     and_then (ok_or (algorithm_from_byte (oi_algorithm (or_info object))) InvalidData) (\<lambda>algorithm.
     guard (case (oi_object_type (or_info object), or_material object) of
         (Ty_Opaque, Mat_Opaque _) \<Rightarrow> algorithm \<in> {Alg_OpaqueData, Alg_OpaqueX509Certificate}
       | (Ty_Template, Mat_Opaque _) \<Rightarrow> algorithm = Alg_TemplateSsh
       | (Ty_AuthenticationKey, Mat_Authentication a) \<Rightarrow>
           parse_authentication_key_material L (oi_algorithm (or_info object)) (auth_bytes a) = Ok a
       | (Ty_AsymmetricKey, Mat_SigningKey key) \<Rightarrow>
           (case algorithm_ml_dsa algorithm of
              Some parameters \<Rightarrow> key_kind L key = Kind_MlDsa parameters
            | None \<Rightarrow> algorithm \<noteq> Alg_X25519 \<and> algorithm \<noteq> Alg_X448 \<and>
                asymmetric_key_length algorithm =
                  Some (case key_private_value L key of
                          None \<Rightarrow> (case asymmetric_key_length algorithm of Some n \<Rightarrow> n | None \<Rightarrow> 0)
                        | Some private \<Rightarrow> length private))
       | (Ty_AsymmetricKey, Mat_MontgomeryKey _) \<Rightarrow> algorithm \<in> {Alg_X25519, Alg_X448}
       | (Ty_AsymmetricKey, Mat_MlKemKey key) \<Rightarrow> algorithm_ml_kem algorithm = Some (ml_kem_parameters L key)
       | (Ty_AsymmetricKey, Mat_HybridKemKey key) \<Rightarrow>
           algorithm_hybrid_kem algorithm = Some (hybrid_construction L key)
       | (Ty_WrapKey, Mat_SigningKey key) \<Rightarrow> is_rsa_key algorithm \<and> key_is_rsa L key
       | (Ty_WrapKey, Mat_Secret v) \<Rightarrow>
           algorithm \<in> {Alg_Aes128CcmWrap, Alg_Aes192CcmWrap, Alg_Aes256CcmWrap}
           \<and> aes_key_length algorithm = Some (length v)
       | (Ty_HmacKey, Mat_Secret v) \<Rightarrow>
           hmac_object_length algorithm \<noteq> None \<and> 1 \<le> length v \<and> length v \<le> 128
       | (Ty_OtpAeadKey, Mat_OtpAeadKey _ key) \<Rightarrow>
           algorithm \<in> {Alg_Aes128YubicoOtp, Alg_Aes192YubicoOtp, Alg_Aes256YubicoOtp}
           \<and> aes_key_length algorithm = Some (length key)
       | (Ty_SymmetricKey, Mat_Secret v) \<Rightarrow>
           algorithm \<in> {Alg_Aes128, Alg_Aes192, Alg_Aes256} \<and> aes_key_length algorithm = Some (length v)
       | (Ty_PublicWrapKey, Mat_Public v) \<Rightarrow>
           is_rsa_key algorithm \<and> asymmetric_key_length algorithm = Some (length v)
       | _ \<Rightarrow> False) InvalidData))"

text \<open>Kind tags of the material: 0 secret, 1 PKCS#8, 2 opaque, 3 public, 4 and 5 authentication, 6 OTP.\<close>

definition wrapped_array :: "int \<Rightarrow> bytes list \<Rightarrow> CborValue" where
  "wrapped_array kind values = Cbor_Array (Cbor_Integer kind # map Cbor_Bytes values)"

definition wrapped_material :: "'k lib \<Rightarrow> 'k ObjectRecord \<Rightarrow> CborValue res" where
  "wrapped_material L object =
     (let t = oi_object_type (or_info object);
          rsa = (case algorithm_from_byte (oi_algorithm (or_info object)) of
                   Some a \<Rightarrow> is_rsa_key a | None \<Rightarrow> False);
          pkcs8 = and_then (asymmetric_pkcs8 L object) (\<lambda>p. Ok (wrapped_array 1 [p]))
      in case or_material object of
        Mat_SigningKey _ \<Rightarrow>
          if t = Ty_AsymmetricKey \<or> t = Ty_WrapKey \<and> rsa then pkcs8 else Err InvalidData
      | Mat_MontgomeryKey _ \<Rightarrow> if t = Ty_AsymmetricKey then pkcs8 else Err InvalidData
      | Mat_Secret v \<Rightarrow>
          if t \<in> {Ty_WrapKey, Ty_HmacKey, Ty_SymmetricKey} then Ok (wrapped_array 0 [v]) else Err InvalidData
      | Mat_Opaque v \<Rightarrow>
          if t \<in> {Ty_Opaque, Ty_Template} then Ok (wrapped_array 2 [v]) else Err InvalidData
      | Mat_Public v \<Rightarrow> if t = Ty_PublicWrapKey then Ok (wrapped_array 3 [v]) else Err InvalidData
      | Mat_Authentication (Auth_Symmetric v) \<Rightarrow>
          if t = Ty_AuthenticationKey then Ok (wrapped_array 4 [v]) else Err InvalidData
      | Mat_Authentication (Auth_Asymmetric v) \<Rightarrow>
          if t = Ty_AuthenticationKey then Ok (wrapped_array 5 [v]) else Err InvalidData
      | Mat_OtpAeadKey nonce_id key \<Rightarrow>
          if t = Ty_OtpAeadKey then Ok (wrapped_array 6 [nonce_id, key]) else Err InvalidData
      | _ \<Rightarrow> Err InvalidData)"

definition wrapped_fields :: "ObjectInfo \<Rightarrow> CborValue \<Rightarrow> CborValue" where
  "wrapped_fields info material = Cbor_Array
     [Cbor_Text WRAPPED_OBJECT_SCHEMA, Cbor_Integer 1,
      Cbor_Integer (uint (object_type_code (oi_object_type info))), Cbor_Integer (uint (oi_id info)),
      Cbor_Integer (uint (oi_domains info)), Cbor_Bytes (oi_capabilities info),
      Cbor_Integer (uint (oi_algorithm info)), Cbor_Integer (uint (oi_origin info AND 0x0f)),
      Cbor_Bytes (oi_label info), Cbor_Bytes (oi_delegated_capabilities info), material]"

definition encode_wrapped_object :: "'k lib \<Rightarrow> 'k ObjectRecord \<Rightarrow> bytes res" where
  "encode_wrapped_object L object =
     and_then (validate_wrapped_object L object) (\<lambda>_.
     and_then (wrapped_material L object) (\<lambda>material.
     and_then (ok_or (cbor_into_writer L (wrapped_fields (or_info object) material)) StorageFailed) (\<lambda>out.
     if length out > 65535 then Err WrongLength else Ok out)))"

definition wrapped_u8 :: "CborValue \<Rightarrow> u8 res" where
  "wrapped_u8 v = (case v of
       Cbor_Integer i \<Rightarrow> if 0 \<le> i \<and> i < 256 then Ok (of_int i) else Err InvalidData
     | _ \<Rightarrow> Err InvalidData)"

definition wrapped_u16 :: "CborValue \<Rightarrow> u16 res" where
  "wrapped_u16 v = (case v of
       Cbor_Integer i \<Rightarrow> if 0 \<le> i \<and> i < 65536 then Ok (of_int i) else Err InvalidData
     | _ \<Rightarrow> Err InvalidData)"

definition wrapped_bytes :: "CborValue \<Rightarrow> bytes res" where
  "wrapped_bytes v = (case v of Cbor_Bytes bs \<Rightarrow> Ok bs | _ \<Rightarrow> Err InvalidData)"

text \<open>A byte string converted to an array of \<open>n\<close> bytes.\<close>

definition wrapped_array_bytes :: "nat \<Rightarrow> CborValue \<Rightarrow> bytes res" where
  "wrapped_array_bytes n v =
     and_then (wrapped_bytes v) (\<lambda>bs. if length bs = n then Ok bs else Err InvalidData)"

definition next_value :: "CborValue list \<Rightarrow> (CborValue \<times> CborValue list) res" where
  "next_value vs = (case vs of [] \<Rightarrow> Err InvalidData | v # rest \<Rightarrow> Ok (v, rest))"

definition decode_wrapped_material ::
  "'k lib \<Rightarrow> ObjectType \<Rightarrow> Algorithm \<Rightarrow> CborValue \<Rightarrow> 'k ObjectMaterial res" where
  "decode_wrapped_material L object_type algorithm v = (case v of
     Cbor_Array values \<Rightarrow>
       and_then (next_value values) (\<lambda>(k, values).
       and_then (wrapped_u8 k) (\<lambda>kind.
       let one = (\<lambda>f. and_then (next_value values) (\<lambda>(b, values).
             and_then (wrapped_bytes b) (\<lambda>bs. and_then (f bs) (\<lambda>m. Ok (m, values)))))
       in and_then
         (if kind = 0 \<and> object_type \<in> {Ty_WrapKey, Ty_HmacKey, Ty_SymmetricKey}
             \<and> \<not> (object_type = Ty_WrapKey \<and> is_rsa_key algorithm) then one (\<lambda>bs. Ok (Mat_Secret bs))
          else if kind = 1 \<and> (object_type = Ty_AsymmetricKey
             \<or> object_type = Ty_WrapKey \<and> is_rsa_key algorithm)
            then one (asymmetric_material_from_pkcs8 L algorithm)
          else if kind = 2 \<and> object_type \<in> {Ty_Opaque, Ty_Template} then one (\<lambda>bs. Ok (Mat_Opaque bs))
          else if kind = 3 \<and> object_type = Ty_PublicWrapKey then one (\<lambda>bs. Ok (Mat_Public bs))
          else if kind = 4 \<and> object_type = Ty_AuthenticationKey
            then one (\<lambda>bs. Ok (Mat_Authentication (Auth_Symmetric bs)))
          else if kind = 5 \<and> object_type = Ty_AuthenticationKey
            then one (\<lambda>bs. Ok (Mat_Authentication (Auth_Asymmetric bs)))
          else if kind = 6 \<and> object_type = Ty_OtpAeadKey then
            and_then (next_value values) (\<lambda>(n, values).
            and_then (wrapped_array_bytes 4 n) (\<lambda>nonce_id.
            and_then (next_value values) (\<lambda>(b, values).
            and_then (wrapped_bytes b) (\<lambda>key. Ok (Mat_OtpAeadKey nonce_id key, values)))))
          else Err InvalidData) (\<lambda>(material, values).
       if values \<noteq> [] then Err InvalidData else Ok material)))
   | _ \<Rightarrow> Err InvalidData)"

definition decode_wrapped_fields :: "'k lib \<Rightarrow> CborValue \<Rightarrow> 'k ObjectRecord res" where
  "decode_wrapped_fields L v = (case v of
     Cbor_Array [schema, version, ty, i, doms, caps, alg, orig, label, deleg, mat] \<Rightarrow>
       if schema \<noteq> Cbor_Text WRAPPED_OBJECT_SCHEMA then Err InvalidData
       else
         and_then (wrapped_u8 version) (\<lambda>version.
         if version \<noteq> 1 then Err InvalidData
         else
           and_then (wrapped_u8 ty) (\<lambda>t.
           and_then (ok_or (object_type_from_byte t) InvalidData) (\<lambda>object_type.
           and_then (wrapped_u16 i) (\<lambda>i.
           and_then (wrapped_u16 doms) (\<lambda>domains.
           and_then (wrapped_array_bytes 8 caps) (\<lambda>capabilities.
           and_then (wrapped_u8 alg) (\<lambda>algorithm_byte.
           and_then (ok_or (algorithm_from_byte algorithm_byte) InvalidData) (\<lambda>algorithm.
           and_then (wrapped_u8 orig) (\<lambda>origin.
           if origin AND 0xf0 \<noteq> 0 then Err InvalidData
           else
             and_then (wrapped_bytes label) (\<lambda>label.
             and_then (wrapped_array_bytes 8 deleg) (\<lambda>delegated.
             and_then (decode_wrapped_material L object_type algorithm mat) (\<lambda>material.
             Ok \<lparr>or_info = \<lparr>oi_capabilities = capabilities, oi_id = i, oi_length = 0,
                   oi_domains = domains, oi_object_type = object_type, oi_algorithm = algorithm_byte,
                   oi_sequence = 0, oi_origin = origin, oi_label = label,
                   oi_delegated_capabilities = delegated\<rparr>,
                 or_material = material\<rparr>))))))))))))
   | _ \<Rightarrow> Err InvalidData)"

definition decode_wrapped_object :: "'k lib \<Rightarrow> bytes \<Rightarrow> 'k ObjectRecord res" where
  "decode_wrapped_object L data =
     (if length data > 65535 then Err WrongLength
      else
        and_then (ok_or (cbor_from_reader L data) InvalidData) (\<lambda>(v, position).
        if position \<noteq> length data then Err InvalidData
        else
          and_then (decode_wrapped_fields L v) (\<lambda>r.
          and_then (normalize_info_length L r) (\<lambda>r.
          and_then (record_validate L r) (\<lambda>_.
          and_then (encode_wrapped_object L r) (\<lambda>encoded.
          if encoded \<noteq> data then Err InvalidData else Ok r))))))"

section \<open>Wrapping under AES-CCM keys\<close>

definition wrap_data ::
  "'k lib \<Rightarrow> 'k env \<Rightarrow> FirmwareProfile \<Rightarrow> SessionAuthorization \<Rightarrow> 'k Device \<Rightarrow> bytes \<Rightarrow> bytes res" where
  "wrap_data L E fw au d data =
     and_then (decode_request decode_id_remainder data) (\<lambda>request.
     and_then (ccm_wrap_key fw au d (ir_id request)) (\<lambda>object.
     and_then (ok_or (entropy E 0 AES_CCM_NONCE_SIZE) StorageFailed) (\<lambda>nonce.
     and_then (object_secret object) (\<lambda>key.
     and_then (ok_or (encrypt_aes_ccm L key nonce (ir_payload request)) InvalidData) (\<lambda>encrypted.
     Ok (1 # nonce @ encrypted))))))"

definition unwrap_data ::
  "'k lib \<Rightarrow> FirmwareProfile \<Rightarrow> SessionAuthorization \<Rightarrow> 'k Device \<Rightarrow> bytes \<Rightarrow> bytes res" where
  "unwrap_data L fw au d data =
     and_then (decode_request decode_id_remainder data) (\<lambda>request.
     let wrapped = ir_payload request in
     if length wrapped < 1 + AES_CCM_NONCE_SIZE + AES_CCM_TAG_SIZE \<or> wrapped ! 0 \<noteq> 1 then Err WrongLength
     else
       and_then (ccm_wrap_key fw au d (ir_id request)) (\<lambda>object.
       and_then (object_secret object) (\<lambda>key.
       ok_or (decrypt_aes_ccm L key (take AES_CCM_NONCE_SIZE (drop 1 wrapped))
                (drop (1 + AES_CCM_NONCE_SIZE) wrapped)) InvalidData)))"

definition export_wrapped ::
  "'k lib \<Rightarrow> 'k env \<Rightarrow> FirmwareProfile \<Rightarrow> SessionAuthorization \<Rightarrow> 'k Device \<Rightarrow> bytes \<Rightarrow> bytes res" where
  "export_wrapped L E fw au d data =
     and_then (decode_request decode_export_wrapped data) (\<lambda>request.
     if (case ew_format request of Some format \<Rightarrow> format > 1 | None \<Rightarrow> False) then Err WrongLength
     else
       and_then (ccm_wrap_key fw au d (ew_wrap_id request)) (\<lambda>wrap_key.
       and_then (ok_or (bt_get (dv_objects d) (ew_target request)) ObjectNotFound) (\<lambda>target.
       and_then (encode_wrapped_object L target) (\<lambda>plaintext.
       and_then (ok_or (entropy E 0 AES_CCM_NONCE_SIZE) StorageFailed) (\<lambda>nonce.
       and_then (object_secret wrap_key) (\<lambda>key.
       and_then (ok_or (encrypt_aes_ccm L key nonce plaintext) InvalidData) (\<lambda>encrypted.
       Ok (1 # nonce @ encrypted))))))))"

text \<open>
  The common end of \<^verbatim>\<open>import_wrapped\<close> and \<^verbatim>\<open>import_rsa_wrapped\<close>: resolve the identifier, mark
  the origin as imported, validate and write.
\<close>

definition finish_import ::
  "'k lib \<Rightarrow> 'k env \<Rightarrow> 'k ObjectRecord \<Rightarrow> 'k Device \<Rightarrow> bytes res \<times> 'k Device" where
  "finish_import L E r d =
     try_in (resolve_id E d (oi_object_type (or_info r)) (oi_id (or_info r))) d (\<lambda>i.
     let info = (or_info r)\<lparr>oi_id := i, oi_origin := oi_origin (or_info r) OR 0x10\<rparr> in
     validate_and_write_imported L E \<lparr>or_info = info, or_material = or_material r\<rparr>
       (object_type_code (oi_object_type info) # be16 i) d)"

definition import_wrapped ::
  "'k lib \<Rightarrow> 'k env \<Rightarrow> FirmwareProfile \<Rightarrow> SessionAuthorization \<Rightarrow> bytes \<Rightarrow> 'k Device \<Rightarrow>
     bytes res \<times> 'k Device" where
  "import_wrapped L E fw au data d =
     try_in (decode_request decode_import_wrapped data) d (\<lambda>request.
     if iw_format request \<noteq> 1 \<or> length (iw_ciphertext request) < AES_CCM_TAG_SIZE then (Err WrongLength, d)
     else
       try_in (ccm_wrap_key fw au d (iw_wrap_id request)) d (\<lambda>wrap_key.
       try_in (object_secret wrap_key) d (\<lambda>key.
       try_in (ok_or (decrypt_aes_ccm L key (iw_nonce request) (iw_ciphertext request)) InvalidData) d
         (\<lambda>plaintext.
       try_in (decode_wrapped_object L plaintext) d (\<lambda>r.
       try_in (authorize_wrapped_creation au (or_info r) wrap_key) d (\<lambda>_.
       finish_import L E r d))))))"

section \<open>Wrapping under RSA keys\<close>

definition rsa_aes_wrap ::
  "'k lib \<Rightarrow> 'k env \<Rightarrow> SoftwarePublicKey \<Rightarrow> nat \<Rightarrow> bytes \<Rightarrow> bytes \<Rightarrow> RsaHashAlgorithm \<Rightarrow> bytes res" where
  "rsa_aes_wrap L E public_key aes_length plaintext label_digest mgf_hash =
     and_then (ok_or (entropy E 0 aes_length) StorageFailed) (\<lambda>aes_key.
     and_then (ok_or (encrypt_oaep_digest E public_key aes_key label_digest mgf_hash) InvalidData)
       (\<lambda>encrypted_key.
     and_then (ok_or (wrap_aes_kwp L aes_key plaintext) InvalidData) (\<lambda>wrapped.
     Ok (encrypted_key @ wrapped))))"

definition rsa_aes_unwrap ::
  "'k lib \<Rightarrow> 'k env \<Rightarrow> 'k \<Rightarrow> bytes \<Rightarrow> nat \<Rightarrow> bytes \<Rightarrow> RsaHashAlgorithm \<Rightarrow> bytes res" where
  "rsa_aes_unwrap L E private_key wrapped modulus_length label_digest mgf_hash =
     (if length wrapped \<le> modulus_length then Err WrongLength
      else
        and_then (ok_or (decrypt_oaep_digest E private_key (take modulus_length wrapped) label_digest
                    mgf_hash) InvalidData) (\<lambda>aes_key.
        if length aes_key \<notin> {16, 24, 32} then Err InvalidData
        else ok_or (unwrap_aes_kwp L aes_key (drop modulus_length wrapped)) InvalidData))"

definition rsa_wrap_public :: "'k ObjectRecord \<Rightarrow> SoftwarePublicKey res" where
  "rsa_wrap_public wrap_key = (case or_material wrap_key of
       Mat_Public modulus \<Rightarrow> Ok (Pub_Rsa modulus [1, 0, 1]) | _ \<Rightarrow> Err InvalidData)"

definition export_rsa_wrapped ::
  "'k lib \<Rightarrow> 'k env \<Rightarrow> FirmwareProfile \<Rightarrow> SessionAuthorization \<Rightarrow> 'k Device \<Rightarrow> bytes \<Rightarrow> bool \<Rightarrow> bytes res" where
  "export_rsa_wrapped L E fw au d data key_material_only =
     and_then (decode_request decode_export_rsa_wrapped data) (\<lambda>request.
     and_then (rsa_public_wrap_key fw au d (er_wrap_id request)) (\<lambda>wrap_key.
     and_then (ok_or (bt_get (dv_objects d) (er_target request)) ObjectNotFound) (\<lambda>target.
     let target_type = key_type (er_target request) in
     if er_aes_algorithm request = 0 \<and> er_oaep_hash request = 0 \<and> er_mgf_hash request = 0 then
       (if \<not> direct_rsa_wrap fw then Err InvalidData
        else if op_fips_mode (dv_options d) \<noteq> OPTION_OFF then Err InvalidData
        else if er_label_hash request \<noteq> [] then Err WrongLength
        else if \<not> key_material_only \<or> target_type \<noteq> Ty_SymmetricKey then Err InvalidData
        else
          and_then (object_secret target) (\<lambda>plaintext.
          and_then (rsa_wrap_public wrap_key) (\<lambda>public.
          ok_or (encrypt_pkcs1v15 E public plaintext) InvalidData)))
     else
       and_then (rsa_oaep_hash (er_oaep_hash request)) (\<lambda>hash.
       if length (er_label_hash request) \<noteq> rsa_hash_output_length hash then Err WrongLength
       else if key_material_only \<and> target_type \<notin> {Ty_AsymmetricKey, Ty_SymmetricKey} then Err InvalidData
       else
         and_then (rsa_wrap_aes_length (er_aes_algorithm request)) (\<lambda>aes_length.
         and_then (rsa_mgf_hash (er_mgf_hash request)) (\<lambda>mgf_hash.
         and_then (if key_material_only then
                     (if target_type = Ty_AsymmetricKey then asymmetric_pkcs8 L target
                      else if target_type = Ty_SymmetricKey then object_secret target
                      else Err InvalidData)
                   else encode_wrapped_object L target) (\<lambda>plaintext.
         and_then (rsa_wrap_public wrap_key) (\<lambda>public.
         rsa_aes_wrap L E public aes_length plaintext (er_label_hash request) mgf_hash))))))))"

definition import_rsa_wrapped ::
  "'k lib \<Rightarrow> 'k env \<Rightarrow> FirmwareProfile \<Rightarrow> SessionAuthorization \<Rightarrow> bytes \<Rightarrow> 'k Device \<Rightarrow>
     bytes res \<times> 'k Device" where
  "import_rsa_wrapped L E fw au data d =
     try_in (decode_request decode_import_rsa_wrapped data) d (\<lambda>request.
     try_in (rsa_oaep_hash (im_oaep_hash request)) d (\<lambda>hash.
     try_in (rsa_mgf_hash (im_mgf_hash request)) d (\<lambda>mgf_hash.
     try_in (rsa_private_wrap_key fw au d (im_wrap_id request)) d (\<lambda>wrap_key.
     try_in (rsa_modulus_length wrap_key) d (\<lambda>modulus_length.
     let input = im_wrapped_and_label request; label_length = rsa_hash_output_length hash in
     if length input < modulus_length + 16 + label_length then (Err WrongLength, d)
     else
       try_in (signing_key L wrap_key) d (\<lambda>key.
       try_in (rsa_aes_unwrap L E key (take (length input - label_length) input) modulus_length
                 (drop (length input - label_length) input) mgf_hash) d (\<lambda>plaintext.
       try_in (decode_wrapped_object L plaintext) d (\<lambda>r.
       try_in (authorize_wrapped_creation au (or_info r) wrap_key) d (\<lambda>_.
       finish_import L E r d)))))))))"

definition put_rsa_wrapped_key ::
  "'k lib \<Rightarrow> 'k env \<Rightarrow> FirmwareProfile \<Rightarrow> SessionAuthorization \<Rightarrow> bytes \<Rightarrow> 'k Device \<Rightarrow>
     bytes res \<times> 'k Device" where
  "put_rsa_wrapped_key L E fw au data d =
     try_in (decode_request decode_put_rsa_wrapped_key data) d (\<lambda>request.
     let object_type = pr_object_type request; input = pr_wrapped_and_label request in
     if object_type \<notin> {Ty_AsymmetricKey, Ty_SymmetricKey} then (Err InvalidData, d)
     else
       try_in (ok_or (algorithm_from_byte (pr_algorithm request)) InvalidData) d (\<lambda>algorithm.
       try_in (require_algorithm_enabled fw d (algorithm_code algorithm)) d (\<lambda>_.
       try_in (rsa_private_wrap_key fw au d (pr_wrap_id request)) d (\<lambda>wrap_key.
       try_in (rsa_modulus_length wrap_key) d (\<lambda>modulus_length.
       try_in (if pr_oaep_hash request = 0 \<and> pr_mgf_hash request = 0 then
                 (if \<not> direct_rsa_wrap fw then Err InvalidData
                  else if op_fips_mode (dv_options d) \<noteq> OPTION_OFF then Err InvalidData
                  else if object_type \<noteq> Ty_SymmetricKey then Err InvalidData
                  else if length input \<noteq> modulus_length then Err WrongLength
                  else and_then (signing_key L wrap_key) (\<lambda>key.
                    ok_or (decrypt_pkcs1v15 E key input) InvalidData))
               else
                 and_then (rsa_oaep_hash (pr_oaep_hash request)) (\<lambda>hash.
                 and_then (rsa_mgf_hash (pr_mgf_hash request)) (\<lambda>mgf_hash.
                 let label_length = rsa_hash_output_length hash in
                 if length input \<le> modulus_length + label_length then Err WrongLength
                 else and_then (signing_key L wrap_key) (\<lambda>key.
                   rsa_aes_unwrap L E key (take (length input - label_length) input) modulus_length
                     (drop (length input - label_length) input) mgf_hash)))) d (\<lambda>plaintext.
       try_in (import_rsa_wrapped_key_material L object_type algorithm plaintext) d
         (\<lambda>(material, logical_length).
       try_in (resolve_id E d object_type (pr_requested_id request)) d (\<lambda>i.
       try_in (if object_type = Ty_AsymmetricKey
               then ok_or (asymmetric_object_length algorithm) InvalidData
               else Ok logical_length) d (\<lambda>len.
       try_in (u16_try_from len) d (\<lambda>info_length.
       let info = \<lparr>oi_capabilities = pr_capabilities request, oi_id = i, oi_length = info_length,
             oi_domains = pr_domains request, oi_object_type = object_type,
             oi_algorithm = algorithm_code algorithm, oi_sequence = 0, oi_origin = 0x12,
             oi_label = trim_label (pr_label request), oi_delegated_capabilities = cap_NONE\<rparr> in
       try_in (rsa_private_wrap_key fw au d (pr_wrap_id request)) d (\<lambda>wrap_key.
       try_in (authorize_wrapped_creation au info wrap_key) d (\<lambda>_.
       validate_and_write_imported L E \<lparr>or_info = info, or_material = material\<rparr>
         (object_type_code object_type # be16 i) d))))))))))))"

end
