(* ===== verification/Session_Commands.thy ===== *)
theory Session_Commands
  imports Use
begin

unbundle bit_operations_syntax

text \<open>
  The nested commands on the volatile objects of a session (\<^verbatim>\<open>session_object_command\<close> and its
  helpers in \<^verbatim>\<open>device.rs\<close>): generation, derivation, concatenation, bit extraction, hashing,
  counter-mode derivation, reading, CMAC verification and deletion. They read the device
  and change only the session's object table.
\<close>

definition validate_session_flags :: "u8 \<Rightarrow> unit res" where
  "validate_session_flags flags =
     (if flags AND NOT (FLAG_READABLE OR FLAG_DERIVE OR FLAG_VERIFY) = 0 then Ok () else Err InvalidData)"

definition validate_session_result_header :: "SessionResultHeader \<Rightarrow> nat res" where
  "validate_session_result_header header =
     and_then (validate_session_flags (sh_flags header)) (\<lambda>_.
     if sh_kind header = P256Private then Err InvalidData
     else let output_length = unat (sh_output_length header) in
       if output_length = 0 \<or> output_length > 1024 then Err WrongLength else Ok output_length)"

definition session_derivation_secret :: "'k SessionObjects \<Rightarrow> u64 \<Rightarrow> bytes res" where
  "session_derivation_secret objects handle =
     and_then (ok_or (session_objects_get objects handle) ObjectNotFound) (\<lambda>object.
     if sx_flags object AND FLAG_DERIVE = 0 then Err InsufficientPermissions
     else ok_or (session_secret_value object) InvalidData)"

definition read_session_object :: "'k SessionObjects \<Rightarrow> bytes \<Rightarrow> bytes res" where
  "read_session_object objects data =
     and_then (decode_request decode_handle data) (\<lambda>handle.
     and_then (ok_or (session_objects_get objects handle) ObjectNotFound) (\<lambda>object.
     if sx_flags object AND FLAG_READABLE = 0 then Err InsufficientPermissions
     else ok_or (session_secret_value object) InvalidData))"

definition verify_session_object :: "'k lib \<Rightarrow> 'k SessionObjects \<Rightarrow> bytes \<Rightarrow> bytes res" where
  "verify_session_object L objects data =
     and_then (decode_request decode_verify_session_cmac data) (\<lambda>(handle, signature, message).
     and_then (ok_or (session_objects_get objects handle) ObjectNotFound) (\<lambda>object.
     if sx_kind object \<noteq> Aes \<or> sx_flags object AND FLAG_VERIFY = 0 then Err InsufficientPermissions
     else
       and_then (ok_or (session_secret_value object) InvalidData) (\<lambda>key.
       if \<not> (1 \<le> length signature \<and> length signature \<le> AES_BLOCK_SIZE) then Err WrongLength
       else
         and_then (or_invalid (aes_cmac L key message)) (\<lambda>expected.
         and_then (slice 0 (length signature) expected) (\<lambda>prefix.
         Ok [if prefix = signature then 1 else 0])))))"

definition delete_session_object ::
  "'k SessionObjects \<Rightarrow> bytes \<Rightarrow> bytes res \<times> 'k SessionObjects" where
  "delete_session_object objects data =
     try_in (decode_request decode_handle data) objects (\<lambda>handle.
     case session_objects_remove objects handle of
       (None, objects) \<Rightarrow> (Err ObjectNotFound, objects)
     | (Some _, objects) \<Rightarrow> (Ok [], objects))"

text \<open>\<^verbatim>\<open>objects.insert(object).ok_or(StorageFailed)\<close>.\<close>

definition insert_session_object ::
  "'k env \<Rightarrow> 'k SessionObject \<Rightarrow> 'k SessionObjects \<Rightarrow> u64 res \<times> 'k SessionObjects" where
  "insert_session_object E object objects =
     (case session_objects_insert E object objects of
        (Ok (Some handle), objects) \<Rightarrow> (Ok handle, objects)
      | (Ok None, objects) \<Rightarrow> (Err StorageFailed, objects)
      | (Err e, objects) \<Rightarrow> (Err e, objects)
      | (Panic, objects) \<Rightarrow> (Panic, objects)
      | (Diverge, objects) \<Rightarrow> (Diverge, objects))"

definition generate_session_key ::
  "'k lib \<Rightarrow> 'k env \<Rightarrow> bytes \<Rightarrow> 'k SessionObjects \<Rightarrow> bytes res \<times> 'k SessionObjects" where
  "generate_session_key L E payload objects =
     try_in (decode_request decode_generate_session_key payload) objects (\<lambda>(flags, algorithm).
     try_in (validate_session_flags flags) objects (\<lambda>_.
     if algorithm \<noteq> algorithm_code Alg_EcP256 \<or> flags AND FLAG_DERIVE = 0 then (Err InvalidData, objects)
     else
       try_in (ok_or (generate_key E (Kind_Ec P256)) StorageFailed) objects (\<lambda>key.
       try_in (ok_or (session_object_p256_private L flags key) InvalidData) objects (\<lambda>object.
       try_in (ok_or (session_public_key L object) StorageFailed) objects (\<lambda>public.
       try_st (insert_session_object E object objects) (\<lambda>handle objects.
       (Ok (be64 handle @ public), objects)))))))"

text \<open>\<^verbatim>\<open>Extract\<close>: byte \<open>index\<close> of the output starts at bit \<open>offset + 8 index\<close>, cyclically.\<close>

definition extract_byte :: "bytes \<Rightarrow> nat \<Rightarrow> nat \<Rightarrow> u8" where
  "extract_byte base offset index =
     (let b = (offset + index * 8) mod (length base * 8); byte_index = b div 8; shift = b mod 8 in
      if shift = 0 then base ! byte_index
      else push_bit shift (base ! byte_index)
           OR drop_bit (8 - shift) (base ! ((byte_index + 1) mod length base)))"

definition extract_bytes :: "bytes \<Rightarrow> nat \<Rightarrow> nat \<Rightarrow> bytes" where
  "extract_bytes base offset output_length = map (extract_byte base offset) [0..<output_length]"

definition derive_session_ecdh ::
  "'k lib \<Rightarrow> FirmwareProfile \<Rightarrow> SessionAuthorization \<Rightarrow> 'k Device \<Rightarrow> 'k SessionObjects \<Rightarrow> bytes \<Rightarrow>
     (SessionResultHeader \<times> bytes) res" where
  "derive_session_ecdh L fw au d objects payload =
     and_then (decode_request decode_derive_session_ecdh payload) (\<lambda>(header, source, peer_public).
     and_then (validate_session_result_header header) (\<lambda>output_length.
     and_then (case source of
         PersistentAsymmetric i \<Rightarrow>
           and_then (asymmetric_object fw au d i) (\<lambda>object.
           and_then (authorize_use au (or_info object) Cap_DeriveEcdh Cap_DeriveEcdh) (\<lambda>_.
           signing_key L object))
       | Volatile handle \<Rightarrow>
           and_then (ok_or (session_objects_get objects handle) ObjectNotFound) (\<lambda>object.
           if sx_flags object AND FLAG_DERIVE = 0 then Err InsufficientPermissions
           else ok_or (session_p256_key object) InvalidData)
       | PersistentSymmetric _ \<Rightarrow> Err InvalidData) (\<lambda>key.
     and_then (ok_or (derive_with_signing_key L key peer_public) InvalidData) (\<lambda>v.
     if output_length > length v then Err WrongLength
     else Ok (header, drop (length v - output_length) v)))))"

definition concatenate_session_keys ::
  "'k SessionObjects \<Rightarrow> bytes \<Rightarrow> (SessionResultHeader \<times> bytes) res" where
  "concatenate_session_keys objects payload =
     and_then (decode_request decode_concatenate_session_keys payload) (\<lambda>(header, left_handle, right_handle).
     and_then (validate_session_result_header header) (\<lambda>output_length.
     and_then (session_derivation_secret objects left_handle) (\<lambda>left.
     and_then (session_derivation_secret objects right_handle) (\<lambda>right.
     and_then (ok_or (checked_usize (length left + length right)) WrongLength) (\<lambda>available.
     if output_length > available then Err WrongLength
     else Ok (header, take output_length (left @ right)))))))"

definition concatenate_session_data ::
  "'k SessionObjects \<Rightarrow> bytes \<Rightarrow> (SessionResultHeader \<times> bytes) res" where
  "concatenate_session_data objects payload =
     and_then (decode_request decode_concatenate_session_data payload) (\<lambda>(header, base_handle, data).
     and_then (validate_session_result_header header) (\<lambda>output_length.
     and_then (session_derivation_secret objects base_handle) (\<lambda>base.
     and_then (ok_or (checked_usize (length base + length data)) WrongLength) (\<lambda>available.
     if output_length > available then Err WrongLength
     else Ok (header, take output_length (base @ data))))))"

definition extract_session_object ::
  "'k SessionObjects \<Rightarrow> bytes \<Rightarrow> (SessionResultHeader \<times> bytes) res" where
  "extract_session_object objects payload =
     and_then (decode_request decode_extract_session_object payload) (\<lambda>(header, base_handle, offset).
     and_then (validate_session_result_header header) (\<lambda>output_length.
     and_then (session_derivation_secret objects base_handle) (\<lambda>base.
     if unat offset \<ge> length base * 8 then Err InvalidData
     else if output_length > length base then Err WrongLength
     else Ok (header, extract_bytes base (unat offset) output_length))))"

definition sha256_session_object ::
  "'k lib \<Rightarrow> 'k SessionObjects \<Rightarrow> bytes \<Rightarrow> (SessionResultHeader \<times> bytes) res" where
  "sha256_session_object L objects payload =
     and_then (decode_request decode_sha256_session_object payload) (\<lambda>(header, base_handle).
     and_then (validate_session_result_header header) (\<lambda>output_length.
     if output_length > 32 then Err WrongLength
     else
       and_then (session_derivation_secret objects base_handle) (\<lambda>base.
       and_then (slice 0 output_length (hash_digest L Sha256 base)) (\<lambda>v. Ok (header, v)))))"

definition counter_kdf_session_object ::
  "'k lib \<Rightarrow> FirmwareProfile \<Rightarrow> SessionAuthorization \<Rightarrow> 'k Device \<Rightarrow> 'k SessionObjects \<Rightarrow> bytes \<Rightarrow>
     (SessionResultHeader \<times> bytes) res" where
  "counter_kdf_session_object L fw au d objects payload =
     and_then (decode_request decode_counter_kdf payload) (\<lambda>(header, source, fields).
     and_then (validate_session_result_header header) (\<lambda>output_length.
     and_then (case source of
         PersistentSymmetric i \<Rightarrow>
           and_then (symmetric_object fw au d i) (\<lambda>object.
           and_then (authorize_use au (or_info object) Cap_EncryptEcb Cap_EncryptEcb) (\<lambda>_.
           object_secret object))
       | Volatile handle \<Rightarrow> session_derivation_secret objects handle
       | PersistentAsymmetric _ \<Rightarrow> Err InvalidData) (\<lambda>key.
     and_then (ok_or (cmac_counter_kdf L key fields output_length) InvalidData) (\<lambda>v. Ok (header, v)))))"

definition session_object_command ::
  "'k lib \<Rightarrow> 'k env \<Rightarrow> FirmwareProfile \<Rightarrow> SessionAuthorization \<Rightarrow> 'k Device \<Rightarrow> bytes \<Rightarrow>
     'k SessionObjects \<Rightarrow> bytes res \<times> 'k SessionObjects" where
  "session_object_command L E fw au d data objects =
     try_in (decode_request decode_session_object data) objects (\<lambda>(operation, payload).
     let store = (\<lambda>r. try_in r objects (\<lambda>(header, v).
           try_in (ok_or (session_object_secret (sh_kind header) (sh_flags header) v) InvalidData) objects
             (\<lambda>object.
           try_st (insert_session_object E object objects) (\<lambda>handle objects. (Ok (be64 handle), objects)))))
     in case operation of
       Sob_Read \<Rightarrow> (read_session_object objects payload, objects)
     | Sob_VerifyCmac \<Rightarrow> (verify_session_object L objects payload, objects)
     | Sob_DeleteObject \<Rightarrow> delete_session_object objects payload
     | Sob_GenerateAsymmetricKey \<Rightarrow> generate_session_key L E payload objects
     | Sob_DeriveEcdh \<Rightarrow> store (derive_session_ecdh L fw au d objects payload)
     | Sob_ConcatenateKey \<Rightarrow> store (concatenate_session_keys objects payload)
     | Sob_ConcatenateData \<Rightarrow> store (concatenate_session_data objects payload)
     | Sob_Extract \<Rightarrow> store (extract_session_object objects payload)
     | Sob_Sha256 \<Rightarrow> store (sha256_session_object L objects payload)
     | Sob_CounterKdf \<Rightarrow> store (counter_kdf_session_object L fw au d objects payload))"

section \<open>The table stays well-formed and failures change nothing\<close>

lemma insert_session_object_commits:
  assumes "session_objects_wf L objects" "session_object_wf L object"
  shows "commits objects (session_objects_wf L) (insert_session_object E object objects)"
proof (cases "session_objects_insert E object objects")
  case (Pair r objs)
  with session_objects_insert_wf [OF assms] session_objects_insert_unchanged [OF Pair]
  show ?thesis
    by (auto simp: insert_session_object_def split: result.splits option.splits)
qed

lemma delete_session_object_commits:
  assumes "session_objects_wf L objects"
  shows "commits objects (session_objects_wf L) (delete_session_object objects data)"
proof -
  have "bt_remove handle objects = objects" if "bt_get objects handle = None" for handle
    using that by (auto simp: bt_remove_def bt_get_def map_of_eq_None_iff filter_id_conv)
  then show ?thesis
    unfolding delete_session_object_def
    using assms session_objects_remove_wf [OF assms]
    by (intro commits_try_in) (auto simp: session_objects_remove_def split: option.splits)
qed

lemma commits_insert_response:
  "session_objects_wf L objects \<Longrightarrow> session_object_wf L object \<Longrightarrow>
     commits objects (session_objects_wf L)
       (try_st (insert_session_object E object objects) (\<lambda>handle objects. (Ok (f handle), objects)))"
  by (auto intro!: commits_try_st insert_session_object_commits)

lemma session_object_command_commits:
  assumes "session_objects_wf L objects"
  shows "commits objects (session_objects_wf L) (session_object_command L E fw au d data objects)"
proof -
  have store: "commits objects (session_objects_wf L)
      (try_in r objects (\<lambda>(header, v).
        try_in (ok_or (session_object_secret (sh_kind header) (sh_flags header) v) InvalidData) objects
          (\<lambda>object. try_st (insert_session_object E object objects)
            (\<lambda>handle objects. (Ok (be64 handle), objects)))))" for r
    using assms by (intro commits_try_in)
      (auto intro!: commits_try_in commits_insert_response intro: session_object_secret_wf)
  have gen: "commits objects (session_objects_wf L) (generate_session_key L E payload objects)" for payload
    unfolding generate_session_key_def using assms
    by (intro commits_try_in)
      (auto intro!: commits_try_in commits_insert_response elim!: session_object_p256_wf)
  show ?thesis
    unfolding session_object_command_def Let_def
    using assms delete_session_object_commits [OF assms]
    by (intro commits_try_in)
      (auto simp: commits_same store gen split: SessionObjectCommand.splits)
qed

end
