(* ===== verification/Attestation.thy ===== *)
theory Attestation
  imports Use
begin

unbundle bit_operations_syntax

text \<open>
  Attestation certificates (\<^verbatim>\<open>sign_attestation_certificate\<close> and its helpers in \<^verbatim>\<open>device.rs\<close>):
  which key may be attested by which, the subject, issuer and validity taken from the
  template certificate, the extensions and the serial number. Building, signing and
  encoding the certificate are library operations.
\<close>

text \<open>Decimal formatting of unsigned integers (\<^verbatim>\<open>format!\<close>).\<close>

fun decimal :: "nat \<Rightarrow> string" where
  "decimal n = (if n < 10 then [char_of (48 + n)] else decimal (n div 10) @ [char_of (48 + n mod 10)])"

declare decimal.simps [simp del]

definition object_subject_public_key_info :: "'k lib \<Rightarrow> 'k ObjectRecord \<Rightarrow> SubjectPublicKeyInfo res" where
  "object_subject_public_key_info L object = (case or_material object of
     Mat_HybridKemKey key \<Rightarrow>
       let oid = (case hybrid_construction L key of
                    MlKem768P256 \<Rightarrow> ''1.3.6.1.4.1.41482.12.1''
                  | MlKem768X25519 \<Rightarrow> ''1.3.6.1.4.1.41482.12.2''
                  | MlKem1024P384 \<Rightarrow> ''1.3.6.1.4.1.41482.12.3'') in
       and_then (ok_or (hybrid_public L key) InvalidData) (\<lambda>public.
       and_then (ok_or (bit_string L public) InvalidData) (\<lambda>bits.
       Ok \<lparr>sk_oid = oid, sk_parameters = None, sk_subject_public_key = bits\<rparr>))
   | _ \<Rightarrow> (case montgomery_algorithm (oi_algorithm (or_info object)) of
       Some (curve, oid) \<Rightarrow>
         and_then (montgomery_key_for_curve L object curve) (\<lambda>key.
         and_then (ok_or (bit_string L (montgomery_public L key)) InvalidData) (\<lambda>bits.
         Ok \<lparr>sk_oid = oid, sk_parameters = None, sk_subject_public_key = bits\<rparr>))
     | None \<Rightarrow>
         and_then (signing_key L object) (\<lambda>key.
         case key_public L key of
           Pub_MlDsa _ _ \<Rightarrow> Err InvalidData
         | public_key \<Rightarrow> ok_or (subject_public_key_info L public_key) InvalidData)))"

definition metadata_extension :: "'k lib \<Rightarrow> nat \<times> bytes \<Rightarrow> Extension res" where
  "metadata_extension L p =
     and_then (ok_or (object_identifier L (''1.3.6.1.4.1.41482.4.'' @ decimal (fst p))) InvalidData) (\<lambda>oid.
     and_then (ok_or (octet_string L (snd p)) InvalidData) (\<lambda>v.
     Ok \<lparr>extn_id = oid, extn_critical = False, extn_value = v\<rparr>))"

text \<open>Collecting an iterator of results: the first error ends the collection.\<close>

primrec collect_results :: "('a \<Rightarrow> 'b res) \<Rightarrow> 'a list \<Rightarrow> 'b list res" where
  "collect_results f [] = Ok []"
| "collect_results f (x # xs) =
     and_then (f x) (\<lambda>y. and_then (collect_results f xs) (\<lambda>ys. Ok (y # ys)))"

definition attestation_metadata_extensions ::
  "'k lib \<Rightarrow> DeviceConfig \<Rightarrow> ObjectInfo \<Rightarrow> Extension list res" where
  "attestation_metadata_extensions L config target = collect_results (metadata_extension L)
     [(1, cf_version config), (2, be32 (cf_serial config)), (3, [oi_origin target]),
      (4, be16 (oi_domains target)), (5, oi_capabilities target), (6, be16 (oi_id target)),
      (9, oi_label target)]"

record AttestationProfile =
  ap_subject :: bytes
  ap_issuer :: bytes
  ap_key_agreement :: bool
  ap_key_encipherment :: bool
  ap_template_extensions :: "Extension list"
  ap_metadata_extensions :: "Extension list"

definition build_extensions :: "'k lib \<Rightarrow> AttestationProfile \<Rightarrow> Extension list option" where
  "build_extensions L p =
     Option.bind
       (if ap_template_extensions p = [] then
          Option.bind (basic_constraints_extension L False (ap_subject p) []) (\<lambda>bc.
          Option.bind (key_usage_extension L
              (DigitalSignature # (if ap_key_agreement p then [KeyAgreement] else [])
                 @ (if ap_key_encipherment p then [KeyEncipherment] else [])) (ap_subject p) [bc]) (\<lambda>ku.
          Some [bc, ku]))
        else Some (ap_template_extensions p))
       (\<lambda>extensions. Some (extensions @ ap_metadata_extensions p))"

text \<open>The description of the device key that is attested for target 0.\<close>

definition device_key_info :: ObjectInfo where
  "device_key_info =
     \<lparr>oi_capabilities = cap_NONE, oi_id = 0, oi_length = 96, oi_domains = 0,
      oi_object_type = Ty_AsymmetricKey, oi_algorithm = algorithm_code Alg_EcP256, oi_sequence = 0,
      oi_origin = 0, oi_label = map (\<lambda>c. of_nat (of_char c)) ''Virtual YubiHSM device key'',
      oi_delegated_capabilities = cap_NONE\<rparr>"

definition attestation_target ::
  "'k lib \<Rightarrow> FirmwareProfile \<Rightarrow> SessionAuthorization \<Rightarrow> 'k Device \<Rightarrow> u16 \<Rightarrow>
     (SubjectPublicKeyInfo \<times> ObjectInfo) res" where
  "attestation_target L fw au d target_id =
     (if target_id = 0 then
        (case key_public L (dv_static_private d) of
           Pub_Ec _ public \<Rightarrow>
             and_then (ok_or (subject_public_key_info L (Pub_Ec P256 public)) InvalidData) (\<lambda>spki.
             Ok (spki, device_key_info))
         | _ \<Rightarrow> Err StorageFailed)
      else
        and_then (asymmetric_object fw au d target_id) (\<lambda>target.
        if oi_origin (or_info target) AND 1 = 0 then Err InvalidData
        else
          and_then (require_algorithm_enabled fw d (oi_algorithm (or_info target))) (\<lambda>_.
          and_then (object_subject_public_key_info L target) (\<lambda>spki. Ok (spki, or_info target)))))"

definition attestation_issuer ::
  "'k lib \<Rightarrow> FirmwareProfile \<Rightarrow> SessionAuthorization \<Rightarrow> 'k Device \<Rightarrow> u16 \<Rightarrow> ('k \<times> string) res" where
  "attestation_issuer L fw au d attesting_id =
     (if attesting_id = 0 then
        Ok (dv_static_private d,
            ''CN=Virtual YubiHSM '' @ decimal (unat (cf_serial (dv_config d))) @ '' Attestation'')
      else
        and_then (asymmetric_object fw au d attesting_id) (\<lambda>attesting.
        if oi_algorithm (or_info attesting) \<noteq> algorithm_code Alg_EcP256 then Err InvalidData
        else
          and_then (signing_key L attesting) (\<lambda>key.
          Ok (key, ''CN=Virtual YubiHSM Attestation Key '' @ decimal (unat attesting_id)))))"

text \<open>The certificate stored as an opaque object under the attesting identifier, if any.\<close>

definition attestation_template ::
  "'k lib \<Rightarrow> SessionAuthorization \<Rightarrow> 'k Device \<Rightarrow> u16 \<Rightarrow> TemplateCertificate option res" where
  "attestation_template L au d attesting_id =
     (case (if attesting_id \<noteq> 0 then bt_get (dv_objects d) (ObjectKey Ty_Opaque attesting_id) else None) of
        None \<Rightarrow> Ok None
      | Some template \<Rightarrow>
          and_then (require_visible au (or_info template)) (\<lambda>_.
          if oi_algorithm (or_info template) \<noteq> algorithm_code Alg_OpaqueX509Certificate then Err InvalidData
          else case or_material template of
            Mat_Opaque encoded \<Rightarrow>
              and_then (ok_or (certificate_from_der L encoded) InvalidData) (\<lambda>c. Ok (Some c))
          | _ \<Rightarrow> Err InvalidData))"

definition sign_attestation_certificate ::
  "'k lib \<Rightarrow> 'k env \<Rightarrow> FirmwareProfile \<Rightarrow> SessionAuthorization \<Rightarrow> 'k Device \<Rightarrow> bytes \<Rightarrow> bytes res" where
  "sign_attestation_certificate L E fw au d data =
     and_then (decode_request decode_sign_attestation data) (\<lambda>(target_id, attesting_id).
     and_then (attestation_target L fw au d target_id) (\<lambda>(target_spki, target_info).
     and_then (attestation_issuer L fw au d attesting_id) (\<lambda>(attesting_private, issuer_name).
     if \<not> certificate_signer L attesting_private then Err InvalidData
     else
       and_then (ok_or (name_from_str L (''CN=Virtual YubiHSM Key '' @ decimal (unat target_id))) InvalidData)
         (\<lambda>subject.
       and_then (ok_or (name_from_str L issuer_name) InvalidData) (\<lambda>issuer.
       and_then (ok_or (validity_from_now E (10 * 365 * 86400)) StorageFailed) (\<lambda>validity.
       and_then (attestation_template L au d attesting_id) (\<lambda>template.
       let subject = (case template of Some c \<Rightarrow> tc_subject c | None \<Rightarrow> subject);
           issuer = (case template of Some c \<Rightarrow> tc_issuer c | None \<Rightarrow> issuer);
           validity = (case template of Some c \<Rightarrow> tc_validity c | None \<Rightarrow> validity);
           template_extensions = (case template of
               Some c \<Rightarrow> (case tc_extensions c of Some es \<Rightarrow> es | None \<Rightarrow> []) | None \<Rightarrow> []) in
       and_then (ok_or (algorithm_from_byte (oi_algorithm target_info)) InvalidData) (\<lambda>algorithm.
       and_then (attestation_metadata_extensions L (dv_config d) target_info) (\<lambda>metadata.
       let profile = \<lparr>ap_subject = subject, ap_issuer = issuer,
             ap_key_agreement = (algorithm \<in> {Alg_Ecdh, Alg_X25519, Alg_X448} \<or> is_weierstrass_key algorithm),
             ap_key_encipherment = is_rsa_key algorithm,
             ap_template_extensions = template_extensions, ap_metadata_extensions = metadata\<rparr> in
       and_then (ok_or (serial_number_new L (be32 (cf_serial (dv_config d)) @ be16 target_id
                          @ be16 attesting_id)) InvalidData) (\<lambda>serial.
       let tbs = \<lparr>tb_subject = subject, tb_issuer = issuer, tb_serial = serial, tb_validity = validity,
                  tb_spki = target_spki\<rparr> in
       if \<not> certificate_builder_new L tbs then Err InvalidData
       else
         and_then (ok_or (build_extensions L profile) StorageFailed) (\<lambda>extensions.
         ok_or (certificate_build E attesting_private tbs extensions) StorageFailed)))))))))))"

section \<open>Only generated keys are attested\<close>

text \<open>
  A certificate for a stored key is issued only when the key was generated on a device,
  is visible to the session and its algorithm is enabled.
\<close>

lemma attestation_requires_generated:
  assumes "sign_attestation_certificate L E fw au d data = Ok cert"
    "data = be16 t @ be16 a" "t \<noteq> 0"
  shows "\<exists>target. bt_get (dv_objects d) (ObjectKey Ty_AsymmetricKey t) = Some target
    \<and> bit (oi_origin (or_info target)) 0 \<and> can_see au (or_info target)
    \<and> algorithm_enabled fw d (oi_algorithm (or_info target))"
proof -
  from assms have "decode_sign_attestation data = Ok ((t, a), [])"
    by (simp add: decode_sign_attestation_def)
  with assms(1) obtain spki info where "attestation_target L fw au d t = Ok (spki, info)"
    unfolding sign_attestation_certificate_def by auto
  then obtain target where "asymmetric_object fw au d t = Ok target"
    "oi_origin (or_info target) AND 1 \<noteq> 0"
    using assms(3) by (auto simp: attestation_target_def split: if_splits)
  moreover have "bit x 0" if "x AND 1 \<noteq> 0" for x :: u8
    using that by (auto simp: and_one_eq odd_iff_mod_2_eq_one bit_0)
  ultimately show ?thesis
    by (auto simp: lookup_defs require_algorithm_enabled_def split: if_splits)
qed

end
