(* ===== verification/Dispatch.thy ===== *)
theory Dispatch
  imports Wrapping Session_Commands Attestation
begin

text \<open>
  The command dispatcher (\<^verbatim>\<open>device.rs\<close>: \<^verbatim>\<open>authorize_command_request\<close>, \<^verbatim>\<open>execute_inner_result\<close>,
  \<^verbatim>\<open>execute_inner_with_session\<close>): every decrypted command is checked against the session's
  capabilities and the policy of the objects it names before its handler runs, the outcome
  is recorded in the audit log, and a state change raises the persistence flag.
\<close>

section \<open>Authorization of a request\<close>

definition authorize_wrapped_export_request ::
  "SessionAuthorization \<Rightarrow> 'k Device \<Rightarrow> ObjectType \<Rightarrow> u16 \<Rightarrow> ObjectKey \<Rightarrow> unit res" where
  "authorize_wrapped_export_request au d wrap_key_type wrap_id target_key =
     and_then (ok_or (bt_get (dv_objects d) (ObjectKey wrap_key_type wrap_id)) ObjectNotFound) (\<lambda>wrap_key.
     and_then (ok_or (bt_get (dv_objects d) target_key) ObjectNotFound) (\<lambda>target.
     authorize_wrapped_export au target wrap_key))"

definition authorize_attestation :: "SessionAuthorization \<Rightarrow> 'k Device \<Rightarrow> u16 \<Rightarrow> u16 \<Rightarrow> unit res" where
  "authorize_attestation au d target_id attesting_id =
     and_then (if target_id \<noteq> 0 then require_object_visible au d (ObjectKey Ty_AsymmetricKey target_id)
               else Ok ()) (\<lambda>_.
     if attesting_id \<noteq> 0 then
       and_then (authorize_object au d (ObjectKey Ty_AsymmetricKey attesting_id)
                   Cap_SignAttestationCertificate) (\<lambda>_.
       if bt_contains (dv_objects d) (ObjectKey Ty_Opaque attesting_id)
       then require_object_visible au d (ObjectKey Ty_Opaque attesting_id)
       else Ok ())
     else Ok ())"

text \<open>The object policy of each command, after the session capability has been checked.\<close>

definition authorize_request_objects ::
  "'k lib \<Rightarrow> SessionAuthorization \<Rightarrow> 'k Device \<Rightarrow> CommandCode \<Rightarrow> bytes \<Rightarrow> unit res" where
  "authorize_request_objects L au d command data =
     (let id_remainder = (\<lambda>t c. and_then (decode_request decode_id_remainder data) (\<lambda>request.
            authorize_object au d (ObjectKey t (ir_id request)) c));
          by_id = (\<lambda>t c. and_then (decode_request decode_u16 data) (\<lambda>i.
            authorize_object au d (ObjectKey t i) c))
      in case command of
        Cmd_PutOpaque \<Rightarrow>
          and_then (decode_request decode_object_request data) (\<lambda>request.
          let i = oh_requested_id (oq_header request) in
          if i \<noteq> 0 \<and> bt_contains (dv_objects d) (ObjectKey Ty_Opaque i)
          then authorize_object au d (ObjectKey Ty_Opaque i) Cap_PutOpaque else Ok ())
      | Cmd_GetOpaque \<Rightarrow>
          and_then (decode_request decode_u16 data) (\<lambda>i.
          require_object_visible au d (ObjectKey Ty_Opaque i))
      | Cmd_GetTemplate \<Rightarrow> by_id Ty_Template Cap_GetTemplate
      | Cmd_ChangeAuthenticationKey \<Rightarrow>
          and_then (decode_request decode_change_authentication_key data) (\<lambda>request.
          if ca_id request \<noteq> au_key_id au then Err InvalidId
          else authorize_object au d (ObjectKey Ty_AuthenticationKey (ca_id request))
                 Cap_ChangeAuthenticationKey)
      | Cmd_SignPkcs1 \<Rightarrow> id_remainder Ty_AsymmetricKey Cap_SignPkcs
      | Cmd_SignPss \<Rightarrow>
          and_then (decode_request decode_sign_pss data) (\<lambda>request.
          authorize_object au d (ObjectKey Ty_AsymmetricKey (sp_id request)) Cap_SignPss)
      | Cmd_SignEcdsa \<Rightarrow> id_remainder Ty_AsymmetricKey Cap_SignEcdsa
      | Cmd_SignEddsa \<Rightarrow> id_remainder Ty_AsymmetricKey Cap_SignEddsa
      | Cmd_SignMlDsa \<Rightarrow>
          and_then (decode_request (decode_sign_ml_dsa L) data) (\<lambda>request.
          authorize_object au d (ObjectKey Ty_AsymmetricKey (sm_id request)) Cap_SignMlDsa)
      | Cmd_EncapsulateMlKem \<Rightarrow> by_id Ty_AsymmetricKey Cap_EncapsulateMlKem
      | Cmd_DecapsulateMlKem \<Rightarrow> id_remainder Ty_AsymmetricKey Cap_DecapsulateMlKem
      | Cmd_EncapsulateHybridKem \<Rightarrow> by_id Ty_AsymmetricKey Cap_EncapsulateHybridKem
      | Cmd_DecapsulateHybridKem \<Rightarrow> id_remainder Ty_AsymmetricKey Cap_DecapsulateHybridKem
      | Cmd_DeriveEcdh \<Rightarrow> id_remainder Ty_AsymmetricKey Cap_DeriveEcdh
      | Cmd_DeriveEcdhKdf \<Rightarrow>
          and_then (decode_request decode_derive_ecdh_kdf data) (\<lambda>request.
          authorize_object au d (ObjectKey Ty_AsymmetricKey (dk_id request)) Cap_DeriveEcdhKdf)
      | Cmd_DecryptPkcs1 \<Rightarrow> id_remainder Ty_AsymmetricKey Cap_DecryptPkcs
      | Cmd_DecryptOaep \<Rightarrow>
          and_then (decode_request decode_decrypt_oaep data) (\<lambda>request.
          authorize_object au d (ObjectKey Ty_AsymmetricKey (do_id request)) Cap_DecryptOaep)
      | Cmd_SignHmac \<Rightarrow> id_remainder Ty_HmacKey Cap_SignHmac
      | Cmd_VerifyHmac \<Rightarrow> id_remainder Ty_HmacKey Cap_VerifyHmac
      | Cmd_WrapData \<Rightarrow> id_remainder Ty_WrapKey Cap_WrapData
      | Cmd_UnwrapData \<Rightarrow> id_remainder Ty_WrapKey Cap_UnwrapData
      | Cmd_EncryptEcb \<Rightarrow> id_remainder Ty_SymmetricKey Cap_EncryptEcb
      | Cmd_DecryptEcb \<Rightarrow> id_remainder Ty_SymmetricKey Cap_DecryptEcb
      | Cmd_EncryptCbc \<Rightarrow>
          and_then (decode_request decode_aes_cbc data) (\<lambda>request.
          authorize_object au d (ObjectKey Ty_SymmetricKey (ac_id request)) Cap_EncryptCbc)
      | Cmd_DecryptCbc \<Rightarrow>
          and_then (decode_request decode_aes_cbc data) (\<lambda>request.
          authorize_object au d (ObjectKey Ty_SymmetricKey (ac_id request)) Cap_DecryptCbc)
      | Cmd_CreateOtpAead \<Rightarrow>
          and_then (decode_request decode_create_otp_aead data) (\<lambda>(i, _).
          authorize_object au d (ObjectKey Ty_OtpAeadKey i) Cap_CreateOtpAead)
      | Cmd_RandomizeOtpAead \<Rightarrow> by_id Ty_OtpAeadKey Cap_RandomizeOtpAead
      | Cmd_DecryptOtp \<Rightarrow>
          and_then (decode_request decode_decrypt_otp data) (\<lambda>request.
          authorize_object au d (ObjectKey Ty_OtpAeadKey (dt_id request)) Cap_DecryptOtp)
      | Cmd_RewrapOtpAead \<Rightarrow>
          and_then (decode_request decode_rewrap_otp_aead data) (\<lambda>request.
          and_then (authorize_object au d (ObjectKey Ty_OtpAeadKey (rw_from_id request))
                      Cap_RewrapFromOtpAeadKey) (\<lambda>_.
          authorize_object au d (ObjectKey Ty_OtpAeadKey (rw_to_id request)) Cap_RewrapToOtpAeadKey))
      | Cmd_ExportWrapped \<Rightarrow>
          and_then (decode_request decode_export_wrapped data) (\<lambda>request.
          authorize_wrapped_export_request au d Ty_WrapKey (ew_wrap_id request) (ew_target request))
      | Cmd_GetRsaWrappedKey \<Rightarrow>
          and_then (decode_request decode_export_rsa_wrapped data) (\<lambda>request.
          authorize_wrapped_export_request au d Ty_PublicWrapKey (er_wrap_id request) (er_target request))
      | Cmd_ExportRsaWrapped \<Rightarrow>
          and_then (decode_request decode_export_rsa_wrapped data) (\<lambda>request.
          authorize_wrapped_export_request au d Ty_PublicWrapKey (er_wrap_id request) (er_target request))
      | Cmd_ImportWrapped \<Rightarrow>
          and_then (decode_request decode_import_wrapped data) (\<lambda>request.
          authorize_object au d (ObjectKey Ty_WrapKey (iw_wrap_id request)) Cap_ImportWrapped)
      | Cmd_ImportRsaWrapped \<Rightarrow>
          and_then (decode_request decode_import_rsa_wrapped data) (\<lambda>request.
          authorize_object au d (ObjectKey Ty_WrapKey (im_wrap_id request)) Cap_ImportWrapped)
      | Cmd_PutRsaWrappedKey \<Rightarrow>
          and_then (decode_request decode_put_rsa_wrapped_key data) (\<lambda>request.
          authorize_object au d (ObjectKey Ty_WrapKey (pr_wrap_id request)) Cap_ImportWrapped)
      | Cmd_SignAttestationCertificate \<Rightarrow>
          and_then (decode_request decode_sign_attestation data) (\<lambda>(target_id, attesting_id).
          authorize_attestation au d target_id attesting_id)
      | Cmd_GetObjectInfo \<Rightarrow>
          and_then (decode_request decode_object_key data) (\<lambda>key. require_object_visible au d key)
      | Cmd_GetPublicKey \<Rightarrow>
          and_then (decode_request decode_get_public_key data) (\<lambda>key. require_object_visible au d key)
      | Cmd_DeleteObject \<Rightarrow>
          and_then (decode_request decode_object_key data) (\<lambda>key.
          and_then (ok_or (bt_get (dv_objects d) key) ObjectNotFound) (\<lambda>object.
          authorize_delete au (or_info object)))
      | _ \<Rightarrow> Ok ())"

definition authorize_command_request ::
  "'k lib \<Rightarrow> SessionAuthorization \<Rightarrow> 'k Device \<Rightarrow> CommandCode \<Rightarrow> bytes \<Rightarrow> unit res" where
  "authorize_command_request L au d command data =
     and_then (case required_session_capability command of
                 Some required \<Rightarrow> require_capability au required | None \<Rightarrow> Ok ()) (\<lambda>_.
     authorize_request_objects L au d command data)"

section \<open>Execution\<close>

definition execute_plain_or_authenticated ::
  "'k lib \<Rightarrow> FirmwareProfile \<Rightarrow> 'k Device \<Rightarrow> Frame \<Rightarrow> bytes res option" where
  "execute_plain_or_authenticated L fw d request =
     (case command_from_byte (fr_command request) of
        Some Cmd_Echo \<Rightarrow> Some (decode_request decode_remainder (fr_data request))
      | Some Cmd_GetDeviceInfo \<Rightarrow> Some (get_device_info fw d (fr_data request))
      | Some Cmd_GetDevicePublicKey \<Rightarrow> Some (get_device_public_key L d (fr_data request))
      | _ \<Rightarrow> None)"

text \<open>Commands that read the device.\<close>

definition run_query ::
  "'k lib \<Rightarrow> 'k env \<Rightarrow> FirmwareProfile \<Rightarrow> SessionAuthorization \<Rightarrow> CommandCode \<Rightarrow> bytes \<Rightarrow> 'k Device \<Rightarrow>
     bytes res option" where
  "run_query L E fw au command data d = (case command of
       Cmd_CloseSession \<Rightarrow> Some (and_then (decode_request decode_empty data) (\<lambda>_. Ok []))
     | Cmd_GetStorageInfo \<Rightarrow> Some (get_storage_info d data)
     | Cmd_GetPseudoRandom \<Rightarrow> Some (get_pseudo_random E data)
     | Cmd_ListObjects \<Rightarrow> Some (list_objects au d data)
     | Cmd_GetObjectInfo \<Rightarrow> Some (get_object_info fw au d data)
     | Cmd_GetLogEntries \<Rightarrow> Some (get_log_entries d data)
     | Cmd_GetOption \<Rightarrow> Some (get_option fw d data)
     | Cmd_GetPublicKey \<Rightarrow> Some (get_public_key L au d data)
     | Cmd_SignAttestationCertificate \<Rightarrow> Some (sign_attestation_certificate L E fw au d data)
     | Cmd_SignPkcs1 \<Rightarrow> Some (sign_pkcs1 L E fw au d data)
     | Cmd_SignPss \<Rightarrow> Some (sign_pss L E fw au d data)
     | Cmd_SignEcdsa \<Rightarrow> Some (sign_ecdsa L E fw au d data)
     | Cmd_SignEddsa \<Rightarrow> Some (sign_eddsa L E fw au d data)
     | Cmd_SignMlDsa \<Rightarrow> Some (sign_ml_dsa L E fw au d data)
     | Cmd_EncapsulateMlKem \<Rightarrow> Some (encapsulate_ml_kem L E fw au d data)
     | Cmd_DecapsulateMlKem \<Rightarrow> Some (decapsulate_ml_kem L fw au d data)
     | Cmd_EncapsulateHybridKem \<Rightarrow> Some (encapsulate_hybrid_kem L E fw au d data)
     | Cmd_DecapsulateHybridKem \<Rightarrow> Some (decapsulate_hybrid_kem L fw au d data)
     | Cmd_DeriveEcdh \<Rightarrow> Some (derive_ecdh L fw au d data)
     | Cmd_DeriveEcdhKdf \<Rightarrow> Some (derive_ecdh_kdf L fw au d data)
     | Cmd_DecryptPkcs1 \<Rightarrow> Some (decrypt_pkcs1 L E fw au d data)
     | Cmd_DecryptOaep \<Rightarrow> Some (decrypt_oaep L E fw au d data)
     | Cmd_SignHmac \<Rightarrow> Some (sign_hmac L fw au d data)
     | Cmd_VerifyHmac \<Rightarrow> Some (verify_hmac L fw au d data)
     | Cmd_WrapData \<Rightarrow> Some (wrap_data L E fw au d data)
     | Cmd_UnwrapData \<Rightarrow> Some (unwrap_data L fw au d data)
     | Cmd_ExportWrapped \<Rightarrow> Some (export_wrapped L E fw au d data)
     | Cmd_GetRsaWrappedKey \<Rightarrow> Some (export_rsa_wrapped L E fw au d data True)
     | Cmd_ExportRsaWrapped \<Rightarrow> Some (export_rsa_wrapped L E fw au d data False)
     | Cmd_EncryptEcb \<Rightarrow> Some (crypt_aes_ecb L fw au d data True)
     | Cmd_DecryptEcb \<Rightarrow> Some (crypt_aes_ecb L fw au d data False)
     | Cmd_EncryptCbc \<Rightarrow> Some (crypt_aes_cbc L fw au d data True)
     | Cmd_DecryptCbc \<Rightarrow> Some (crypt_aes_cbc L fw au d data False)
     | Cmd_CreateOtpAead \<Rightarrow> Some (create_otp_aead L E fw au d data)
     | Cmd_RandomizeOtpAead \<Rightarrow> Some (randomize_otp_aead L E fw au d data)
     | Cmd_DecryptOtp \<Rightarrow> Some (decrypt_otp L fw au d data)
     | Cmd_RewrapOtpAead \<Rightarrow> Some (rewrap_otp_aead L E fw au d data)
     | Cmd_GetTemplate \<Rightarrow> Some (get_template d data)
     | Cmd_GetOpaque \<Rightarrow> Some (get_opaque d data)
     | Cmd_BlinkDevice \<Rightarrow> Some (and_then (decode_request decode_u8 data) (\<lambda>_. Ok []))
     | _ \<Rightarrow> None)"

definition delete_object :: "bytes \<Rightarrow> 'k Device \<Rightarrow> bytes res \<times> 'k Device" where
  "delete_object data d =
     try_in (decode_request decode_object_key data) d (\<lambda>key.
     (Ok [], d\<lparr>dv_objects := bt_remove key (dv_objects d)\<rparr>))"

definition reset_command :: "'k lib \<Rightarrow> 'k env \<Rightarrow> bytes \<Rightarrow> 'k Device \<Rightarrow> bytes res \<times> 'k Device" where
  "reset_command L E data d =
     try_in (decode_request decode_empty data) d (\<lambda>_.
     try_in (ok_or (generate_key E (Kind_Ec P256)) StorageFailed) d (\<lambda>key.
     (Ok [], reset_device L key d)))"

text \<open>Commands that may change the device.\<close>

definition run_update ::
  "'k lib \<Rightarrow> 'k env \<Rightarrow> FirmwareProfile \<Rightarrow> SessionAuthorization \<Rightarrow> CommandCode \<Rightarrow> bytes \<Rightarrow> 'k Device \<Rightarrow>
     (bytes res \<times> 'k Device) option" where
  "run_update L E fw au command data d = (case command of
       Cmd_SetLogIndex \<Rightarrow> Some (set_log_index data d)
     | Cmd_SetOption \<Rightarrow> Some (set_option fw data d)
     | Cmd_PutAuthenticationKey \<Rightarrow> Some (put_authentication_key L E fw au data d)
     | Cmd_ChangeAuthenticationKey \<Rightarrow> Some (change_authentication_key L E fw data d)
     | Cmd_PutOpaque \<Rightarrow> Some (put_opaque L E fw au data d)
     | Cmd_PutAsymmetricKey \<Rightarrow> Some (put_asymmetric_key L E fw au data False d)
     | Cmd_GenerateAsymmetricKey \<Rightarrow> Some (put_asymmetric_key L E fw au data True d)
     | Cmd_PutHmacKey \<Rightarrow> Some (put_hmac_key L E fw au data False d)
     | Cmd_GenerateHmacKey \<Rightarrow> Some (put_hmac_key L E fw au data True d)
     | Cmd_PutWrapKey \<Rightarrow> Some (put_wrap_key L E fw au data False d)
     | Cmd_GenerateWrapKey \<Rightarrow> Some (put_wrap_key L E fw au data True d)
     | Cmd_PutPublicWrapKey \<Rightarrow> Some (put_public_wrap_key L E fw au data d)
     | Cmd_ImportWrapped \<Rightarrow> Some (import_wrapped L E fw au data d)
     | Cmd_PutRsaWrappedKey \<Rightarrow> Some (put_rsa_wrapped_key L E fw au data d)
     | Cmd_ImportRsaWrapped \<Rightarrow> Some (import_rsa_wrapped L E fw au data d)
     | Cmd_PutSymmetricKey \<Rightarrow> Some (put_symmetric_key L E fw au data False d)
     | Cmd_GenerateSymmetricKey \<Rightarrow> Some (put_symmetric_key L E fw au data True d)
     | Cmd_PutOtpAeadKey \<Rightarrow> Some (put_otp_aead_key L E fw au data False d)
     | Cmd_GenerateOtpAeadKey \<Rightarrow> Some (put_otp_aead_key L E fw au data True d)
     | Cmd_PutTemplate \<Rightarrow> Some (put_template L E fw au data d)
     | Cmd_DeleteObject \<Rightarrow> Some (delete_object data d)
     | Cmd_ResetDevice \<Rightarrow> Some (reset_command L E data d)
     | _ \<Rightarrow> None)"

text \<open>
  The \<^verbatim>\<open>match\<close> of \<^verbatim>\<open>execute_inner_result\<close>. The state is the device with the volatile objects of
  the session the command arrived in, if any. The three-way split follows what a handler may
  touch: the session's objects, nothing, or the device.
\<close>

definition run_command ::
  "'k lib \<Rightarrow> 'k env \<Rightarrow> FirmwareProfile \<Rightarrow> SessionAuthorization \<Rightarrow> CommandCode \<Rightarrow> bytes \<Rightarrow>
     'k Device \<times> 'k SessionObjects option \<Rightarrow> bytes res \<times> ('k Device \<times> 'k SessionObjects option)" where
  "run_command L E fw au command data s =
     (if command = Cmd_SessionObject then
        (case snd s of
           None \<Rightarrow> (Err InvalidSession, s)
         | Some objects \<Rightarrow>
             let m = session_object_command L E fw au (fst s) data objects in (fst m, (fst s, Some (snd m))))
      else case run_query L E fw au command data (fst s) of
        Some r \<Rightarrow> (r, s)
      | None \<Rightarrow> (case run_update L E fw au command data (fst s) of
          Some m \<Rightarrow> (fst m, (snd m, snd s))
        | None \<Rightarrow> (Err InvalidCommand, s)))"

definition execute_inner_result ::
  "'k lib \<Rightarrow> 'k env \<Rightarrow> FirmwareProfile \<Rightarrow> SessionAuthorization \<Rightarrow> Frame \<Rightarrow>
     'k Device \<times> 'k SessionObjects option \<Rightarrow> bytes res \<times> ('k Device \<times> 'k SessionObjects option)" where
  "execute_inner_result L E fw au request s =
     (case execute_plain_or_authenticated L fw (fst s) request of
        Some r \<Rightarrow> (r, s)
      | None \<Rightarrow>
          try_in (ok_or (command_from_byte (fr_command request)) InvalidCommand) s (\<lambda>command.
          if \<not> command_supported fw command then (Err InvalidCommand, s)
          else
            try_in (authorize_command_request L au (fst s) command (fr_data request)) s (\<lambda>_.
            run_command L E fw au command (fr_data request) s)))"

definition supported_command :: "FirmwareProfile \<Rightarrow> Frame \<Rightarrow> CommandCode option" where
  "supported_command fw request =
     (case command_from_byte (fr_command request) of
        Some c \<Rightarrow> if command_supported fw c then Some c else None | None \<Rightarrow> None)"

text \<open>\<^verbatim>\<open>result.as_ref().err().copied().map_or(0, |error| error as u8)\<close>.\<close>

definition result_code :: "'a res \<Rightarrow> u8" where
  "result_code r = (case r of Err e \<Rightarrow> error_code e | _ \<Rightarrow> 0)"

definition blocked_by_full_log :: "FirmwareProfile \<Rightarrow> Frame \<Rightarrow> 'k Device \<Rightarrow> bool" where
  "blocked_by_full_log fw request d =
     ((case supported_command fw request of
         Some c \<Rightarrow> \<not> command_is_meta c \<and> c \<notin> {Cmd_GetLogEntries, Cmd_SetLogIndex} | None \<Rightarrow> False)
      \<and> op_force_audit (dv_options d) \<noteq> OPTION_OFF \<and> log_full d)"

definition finish_command ::
  "'k lib \<Rightarrow> FirmwareProfile \<Rightarrow> SessionAuthorization \<Rightarrow> Frame \<Rightarrow> bool \<Rightarrow> bytes res \<Rightarrow> 'k Device \<Rightarrow> 'k Device" where
  "finish_command L fw au request audit r d =
     (case supported_command fw request of
        None \<Rightarrow> d
      | Some command \<Rightarrow>
          let d = (if audit then append_audit_entry L au command request (result_code r) d else d) in
          if is_ok r \<and> command_changes_persistent_state command then d\<lparr>dv_persistent_change := True\<rparr>
          else d)"

definition execute_inner_with_session ::
  "'k lib \<Rightarrow> 'k env \<Rightarrow> FirmwareProfile \<Rightarrow> SessionAuthorization \<Rightarrow> Frame \<Rightarrow>
     'k Device \<times> 'k SessionObjects option \<Rightarrow> Frame res \<times> ('k Device \<times> 'k SessionObjects option)" where
  "execute_inner_with_session L E fw au request s =
     (let d = fst s;
          audit = (case supported_command fw request of Some c \<Rightarrow> should_audit d c | None \<Rightarrow> False) in
      if blocked_by_full_log fw request d then (Ok (frame_error LogFull), s)
      else
        let m = execute_inner_result L E fw au request s;
            r = and_then (fst m) (\<lambda>data.
              if secure_response_data_fits (length data) then Ok data else Err WrongLength);
            s' = (finish_command L fw au request audit r (fst (snd m)), snd (snd m)) in
        case r of
          Ok data \<Rightarrow> (Ok (frame_response (fr_command request) data), s')
        | Err e \<Rightarrow> (Ok (frame_error e), s')
        | Panic \<Rightarrow> (Panic, snd m)
        | Diverge \<Rightarrow> (Diverge, snd m))"

end
