(* ===== verification/Refinement.thy ===== *)
theory Refinement
  imports Dispatch
begin

unbundle bit_operations_syntax

text \<open>
  The dispatcher implements the abstract effects: a command that succeeds commits one
  authorized effect on the device, a command that fails leaves the device and the session's
  objects exactly as they were.
\<close>

section \<open>Imports commit an authorized creation\<close>

lemma authorize_create_origin:
  "authorize_create au (info\<lparr>oi_origin := x\<rparr>) c = authorize_create au info c"
  by (simp add: authorize_create_def info_validate_def)

lemma wrapped_array_bytes_Ok: "wrapped_array_bytes n v = Ok bs \<Longrightarrow> length bs = n"
  by (auto simp: wrapped_array_bytes_def split: if_splits)

lemma decode_wrapped_fields_wf: "decode_wrapped_fields L v = Ok r \<Longrightarrow> info_wf (or_info r)"
  by (auto simp: decode_wrapped_fields_def info_wf_def cap_wf_def dest!: wrapped_array_bytes_Ok
      split: CborValue.splits list.splits if_splits)

lemma normalize_wf: "normalize_info_length L r = Ok r' \<Longrightarrow> info_wf (or_info r') = info_wf (or_info r)"
  by (auto simp: normalize_info_length_def info_wf_def)

text \<open>What import accepts: a valid record whose encoding is exactly the input.\<close>

lemma decode_wrapped_object_Ok:
  assumes "decode_wrapped_object L data = Ok r"
  shows "info_wf (or_info r)" "record_validate L r = Ok ()" "encode_wrapped_object L r = Ok data"
  using assms decode_wrapped_fields_wf normalize_wf
  by (auto simp: decode_wrapped_object_def split: if_splits) blast

lemma finish_import_commits:
  assumes "decode_wrapped_object L data = Ok r" "authorize_wrapped_creation au (or_info r) w = Ok u"
  shows "commits d (store_effect L au d) (finish_import L E r d)"
proof -
  let ?t = "oi_object_type (or_info r)" and ?i = "oi_id (or_info r)"
  have valid: "info_wf (or_info r)" "info_validate (or_info r) = Ok ()"
    using decode_wrapped_object_Ok [OF assms(1)] record_validate_info by blast+
  show ?thesis
    unfolding finish_import_def Let_def
  proof (rule commits_try_in)
    fix i assume i: "resolve_id E d ?t ?i = Ok i"
    then have "i = ?i" using resolve_id_Ok(4) [OF i] valid(2) by simp
    then have "authorize_create au ((or_info r)\<lparr>oi_id := i, oi_origin := x\<rparr>) Cap_ImportWrapped = Ok ()" for x
      using authorize_wrapped_creation_create [OF assms(2)] by (simp add: authorize_create_origin)
    then show "commits d (store_effect L au d)
        (validate_and_write_imported L E
          \<lparr>or_info = (or_info r)\<lparr>oi_id := i, oi_origin := oi_origin (or_info r) OR 16\<rparr>,
           or_material = or_material r\<rparr>
          (object_type_code (oi_object_type ((or_info r)\<lparr>oi_id := i, oi_origin := oi_origin (or_info r) OR 16\<rparr>)) # be16 i) d)"
      using valid(1) by (intro created_commits(2) [OF i]) (auto simp: info_key_def info_wf_def)
  qed
qed

lemma import_wrapped_commits: "commits d (store_effect L au d) (import_wrapped L E fw au data d)"
  unfolding import_wrapped_def
  by (intro commits_try_in) (auto intro!: commits_try_in finish_import_commits)

lemma import_rsa_wrapped_commits: "commits d (store_effect L au d) (import_rsa_wrapped L E fw au data d)"
  unfolding import_rsa_wrapped_def Let_def
  by (intro commits_try_in) (auto intro!: commits_try_in finish_import_commits)

lemma put_rsa_wrapped_key_caps:
  "decode_request decode_put_rsa_wrapped_key data = Ok q \<Longrightarrow> cap_wf (pr_capabilities q)"
  by (auto simp: decode_put_rsa_wrapped_key_def read_remainder_def cap_wf_def)

lemma put_rsa_wrapped_key_commits: "commits d (store_effect L au d) (put_rsa_wrapped_key L E fw au data d)"
  unfolding put_rsa_wrapped_key_def Let_def
  by (intro commits_try_in)
    (auto intro!: commits_try_in created_commits(2) authorize_wrapped_creation_create
      put_rsa_wrapped_key_caps simp: info_key_def info_wf_def simp del: decode_request_Ok)

section \<open>Updates\<close>

lemma delete_object_commits:
  assumes "authorize_request_objects L au d Cmd_DeleteObject data = Ok u"
  shows "commits d (store_effect L au d) (delete_object data d)"
  unfolding delete_object_def using assms
  by (intro commits_try_in) (auto simp: authorize_request_objects_def simp del: authorize_delete_Ok
      intro!: store_effect.deleted)

lemma reset_command_commits:
  assumes "cap_contains (au_capabilities au) Cap_ResetDevice"
  shows "commits d (store_effect L au d) (reset_command L E data d)"
  unfolding reset_command_def using assms by (intro commits_try_in) (auto intro: store_effect.device_reset)

lemma authorize_object_Ok:
  "authorize_object au d k c = Ok u \<Longrightarrow> bt_get (dv_objects d) k = Some r \<Longrightarrow>
     authorize_use au (or_info r) c c = Ok ()"
  by (auto simp: authorize_object_def)

lemma run_update_commits:
  assumes "authorize_command_request L au d command data = Ok u" "store_wf L d"
    "run_update L E fw au command data d = Some m"
  shows "commits d (store_effect L au d) m"
proof -
  have cap: "\<And>c. required_session_capability command = Some c \<Longrightarrow> cap_contains (au_capabilities au) c"
    and obj: "authorize_request_objects L au d command data = Ok ()"
    using assms(1) by (auto simp: authorize_command_request_def split: option.splits)
  have opaque: "commits d (store_effect L au d) (put_opaque L E fw au data d)"
    if "command = Cmd_PutOpaque"
    using obj that by (intro put_opaque_commits [OF assms(2)])
      (auto simp: authorize_request_objects_def Let_def dest: authorize_object_Ok
        simp del: authorize_use_Ok split: if_splits)
  have change: "commits d (store_effect L au d) (change_authentication_key L E fw data d)"
    if "command = Cmd_ChangeAuthenticationKey"
    using obj that by (intro change_authentication_key_commits [OF assms(2)])
      (auto simp: authorize_request_objects_def Let_def dest: authorize_object_Ok
        simp del: authorize_use_Ok split: if_splits)
  have options: "commits d (store_effect L au d) (set_option fw data d)"
    if "command = Cmd_SetOption"
    using cap that by (intro commits_mono [OF set_option_commits] store_effect.options_set) simp_all
  have log: "commits d (store_effect L au d) (set_log_index data d)"
    if "command = Cmd_SetLogIndex"
    using cap that by (intro commits_mono [OF set_log_index_commits] store_effect.log_read) simp_all
  show ?thesis
    using assms(3) cap obj opaque change options log
    by (cases command) (auto simp: run_update_def put_authentication_key_commits put_asymmetric_key_commits
        put_hmac_key_commits put_symmetric_key_commits put_wrap_key_commits put_public_wrap_key_commits
        put_otp_aead_key_commits put_template_commits import_wrapped_commits import_rsa_wrapped_commits
        put_rsa_wrapped_key_commits intro: delete_object_commits reset_command_commits)
qed

section \<open>The dispatcher\<close>

definition session_table_wf :: "'k lib \<Rightarrow> 'k SessionObjects option \<Rightarrow> bool" where
  "session_table_wf L objs = (case objs of Some t \<Rightarrow> session_objects_wf L t | None \<Rightarrow> True)"

text \<open>A committed command: one authorized effect on the device, a well-formed session table.\<close>

definition command_effect ::
  "'k lib \<Rightarrow> SessionAuthorization \<Rightarrow> 'k Device \<Rightarrow> 'k Device \<times> 'k SessionObjects option \<Rightarrow> bool" where
  "command_effect L au d s = (store_effect L au d (fst s) \<and> session_table_wf L (snd s))"

lemma command_effect_stay:
  "session_table_wf L (snd s) \<Longrightarrow> commits s (command_effect L au (fst s)) (r, s)"
  by (intro commits_same) (simp add: command_effect_def store_effect.unchanged)

lemma run_command_commits:
  assumes "store_wf L (fst s)" "session_table_wf L (snd s)"
    "authorize_command_request L au (fst s) command data = Ok u"
  shows "commits s (command_effect L au (fst s)) (run_command L E fw au command data s)"
proof (cases "command = Cmd_SessionObject")
  case True
  show ?thesis
  proof (cases "snd s")
    case (Some objects)
    then show ?thesis
      using True assms(2) session_object_command_commits [of L objects E fw au "fst s" data]
      by (cases s) (auto simp: run_command_def Let_def commits_def command_effect_def
          session_table_wf_def store_effect.unchanged)
  qed (simp add: True run_command_def command_effect_stay [OF assms(2)])
next
  case False
  have "commits s (command_effect L au (fst s)) (fst m, snd m, snd s)"
    if "run_update L E fw au command data (fst s) = Some m" for m
    using run_update_commits [OF assms(3,1) that] assms(2)
    by (cases s) (auto simp: commits_def command_effect_def)
  with False show ?thesis
    by (auto simp: run_command_def command_effect_stay [OF assms(2)] split: option.split)
qed

lemma execute_inner_result_commits:
  assumes "store_wf L (fst s)" "session_table_wf L (snd s)"
  shows "commits s (command_effect L au (fst s)) (execute_inner_result L E fw au request s)"
  unfolding execute_inner_result_def using assms
  by (auto intro!: commits_try_in command_effect_stay run_command_commits split: option.split)

lemma execute_inner_result_fails:
  assumes "store_wf L (fst s)" "session_table_wf L (snd s)"
    "execute_inner_result L E fw au request s = (r, s')" "\<not> is_ok r"
  shows "s' = s"
  using execute_inner_result_commits [OF assms(1,2)] commits_D(2) assms(3,4) by metis

end
