(* ===== verification/Engine.thy ===== *)
theory Engine
  imports Refinement
begin

unbundle bit_operations_syntax

text \<open>
  The outer protocol engine (\<^verbatim>\<open>device.rs\<close>: \<^verbatim>\<open>handle_encoded\<close> down to \<^verbatim>\<open>session_message_with\<close>):
  plain commands, the creation and authentication of secure sessions, and session messages.
  A session is taken out of the table while its message is processed and only put back when
  everything succeeded, so every failure closes it. The clock is read once per message.
\<close>

section \<open>Session policy\<close>

definition session_authorization :: "'k Device \<Rightarrow> u16 \<Rightarrow> SessionAuthorization res" where
  "session_authorization d i =
     and_then (ok_or (bt_get (dv_objects d) (ObjectKey Ty_AuthenticationKey i)) ObjectNotFound) (\<lambda>r.
     case or_material r of
       Mat_Authentication _ \<Rightarrow>
         Ok \<lparr>au_key_id = i, au_capabilities = oi_capabilities (or_info r),
             au_delegated_capabilities = oi_delegated_capabilities (or_info r),
             au_domains = oi_domains (or_info r)\<rparr>
     | _ \<Rightarrow> Err InvalidData)"

definition authentication_key_material :: "'k Device \<Rightarrow> u16 \<Rightarrow> AuthenticationKeyMaterial res" where
  "authentication_key_material d i =
     and_then (ok_or (bt_get (dv_objects d) (ObjectKey Ty_AuthenticationKey i)) ObjectNotFound) (\<lambda>r.
     case or_material r of Mat_Authentication material \<Rightarrow> Ok material | _ \<Rightarrow> Err InvalidData)"

section \<open>Plain commands\<close>

text \<open>\<^verbatim>\<open>Ok(data) => Frame::response, Err(error) => Frame::error\<close>.\<close>

definition respond :: "u8 \<Rightarrow> bytes res \<Rightarrow> Frame res" where
  "respond command r = (case r of
       Ok data \<Rightarrow> Ok (frame_response command data) | Err e \<Rightarrow> Ok (frame_error e)
     | Panic \<Rightarrow> Panic | Diverge \<Rightarrow> Diverge)"

definition execute_plain :: "'k lib \<Rightarrow> FirmwareProfile \<Rightarrow> 'k Device \<Rightarrow> Frame \<Rightarrow> Frame res" where
  "execute_plain L fw d request = respond (fr_command request)
     (case execute_plain_or_authenticated L fw d request of
        Some r \<Rightarrow> r | None \<Rightarrow> Err InvalidCommand)"

section \<open>Creating and authenticating sessions\<close>

definition free_session_id :: "'k Device \<Rightarrow> u8 res" where
  "free_session_id d =
     ok_or (List.find (\<lambda>sid. \<not> bt_contains (dv_sessions d) sid) (map of_nat [0..<MAX_SESSIONS])) SessionsFull"

definition open_session ::
  "'k lib \<Rightarrow> 'k env \<Rightarrow> CreateSessionRequest \<Rightarrow> SessionAuthorization \<Rightarrow> 'k Device \<Rightarrow> Frame res \<times> 'k Device" where
  "open_session L E decoded au d =
     try_in (authentication_key_material d (cs_authentication_key_id decoded)) d (\<lambda>material.
     try_in (free_session_id d) d (\<lambda>sid.
     let host = cs_host_challenge_or_public_key decoded in
     case material of
       Auth_Symmetric static_keys \<Rightarrow>
         if length host \<noteq> CHALLENGE_LENGTH then (Err WrongLength, d)
         else
           try_in (ok_or (entropy E 0 CHALLENGE_LENGTH) StorageFailed) d (\<lambda>card_challenge.
           try_in (begin_symmetric L sid static_keys host card_challenge) d
             (\<lambda>(secure, card_cryptogram, expected_host_cryptogram).
           (Ok (frame_response (command_code Cmd_CreateSession) (sid # card_challenge @ card_cryptogram)),
            d\<lparr>dv_sessions := bt_insert sid
                \<lparr>se_authorization = au, se_secure = secure,
                 se_expected_host_cryptogram = Some expected_host_cryptogram,
                 se_authenticated = False, se_last_activity = now E, se_objects = bt_empty\<rparr>
                (dv_sessions d)\<rparr>)))
     | Auth_Asymmetric host_static_public \<Rightarrow>
         if length host \<noteq> P256_PUBLIC_KEY_LENGTH then (Err WrongLength, d)
         else
           try_in (begin_asymmetric L E sid (dv_static_private d) host_static_public host) d
             (\<lambda>(secure, device_ephemeral_public, receipt).
           (Ok (frame_response (command_code Cmd_CreateSession) (sid # device_ephemeral_public @ receipt)),
            record_unlogged_authentication_if_full
              (d\<lparr>dv_sessions := bt_insert sid
                \<lparr>se_authorization = au, se_secure = secure, se_expected_host_cryptogram = None,
                 se_authenticated = True, se_last_activity = now E, se_objects = bt_empty\<rparr>
                (dv_sessions d)\<rparr>)))))"

text \<open>The audit record both session commands write after they ran.\<close>

definition audit_session_command ::
  "'k lib \<Rightarrow> SessionAuthorization \<Rightarrow> CommandCode \<Rightarrow> Frame \<Rightarrow> Frame res \<times> 'k Device \<Rightarrow> Frame res \<times> 'k Device" where
  "audit_session_command L au command request m =
     (case fst m of
        Panic \<Rightarrow> m
      | Diverge \<Rightarrow> m
      | _ \<Rightarrow> (fst m, if should_audit (snd m) command
                   then append_audit_entry L au command request (result_code (fst m)) (snd m)
                   else snd m))"

definition create_session ::
  "'k lib \<Rightarrow> 'k env \<Rightarrow> Frame \<Rightarrow> 'k Device \<Rightarrow> Frame res \<times> 'k Device" where
  "create_session L E request d =
     try_in (decode_request decode_create_session (fr_data request)) d (\<lambda>decoded.
     try_in (session_authorization d (cs_authentication_key_id decoded)) d (\<lambda>au.
     audit_session_command L au Cmd_CreateSession request (open_session L E decoded au d)))"

text \<open>\<^verbatim>\<open>authenticate_session\<close> on the entry \<open>entry\<close>, already removed from the table.\<close>

definition confirm_session ::
  "'k lib \<Rightarrow> 'k env \<Rightarrow> Frame \<Rightarrow> u8 \<Rightarrow> 'k SessionEntry \<Rightarrow> 'k Device \<Rightarrow> Frame res \<times> 'k Device" where
  "confirm_session L E request sid entry d =
     (if se_authenticated entry then (Err InvalidSession, d)
      else
        try_in (ok_or (se_expected_host_cryptogram entry) AuthenticationFailed) d (\<lambda>expected.
        let m = authenticate_symmetric L (se_secure entry) request expected in
        try_in (fst m) d (\<lambda>_.
        (Ok (frame_response (command_code Cmd_AuthenticateSession) []),
         record_unlogged_authentication_if_full
           (d\<lparr>dv_sessions := bt_insert sid
               (entry\<lparr>se_secure := snd m, se_expected_host_cryptogram := None, se_authenticated := True,
                      se_last_activity := now E\<rparr>) (dv_sessions d)\<rparr>)))))"

definition authenticate_session ::
  "'k lib \<Rightarrow> 'k env \<Rightarrow> Frame \<Rightarrow> 'k Device \<Rightarrow> Frame res \<times> 'k Device" where
  "authenticate_session L E request d =
     try_in (decode_request decode_session_envelope (fr_data request)) d (\<lambda>(sid, _).
     try_in (ok_or (bt_get (dv_sessions d) sid) InvalidSession) d (\<lambda>entry.
     audit_session_command L (se_authorization entry) Cmd_AuthenticateSession request
       (confirm_session L E request sid entry (d\<lparr>dv_sessions := bt_remove sid (dv_sessions d)\<rparr>))))"

section \<open>Session messages\<close>

text \<open>
  The response to a decrypted command: the refusal of the session's capability check, the
  answer of the transport's hook, or the built-in implementation.
\<close>

type_synonym hook = "SessionAuthorization \<Rightarrow> Frame \<Rightarrow> Frame option"

definition handled_response :: "hook \<Rightarrow> SessionAuthorization \<Rightarrow> Frame \<Rightarrow> Frame option" where
  "handled_response hk au inner =
     (case Option.bind (command_from_byte (fr_command inner)) required_session_capability of
        Some required \<Rightarrow>
          (case require_capability au required of Err e \<Rightarrow> Some (frame_error e) | _ \<Rightarrow> hk au inner)
      | None \<Rightarrow> hk au inner)"

definition closes_session :: "Frame \<Rightarrow> bool \<Rightarrow> Frame \<Rightarrow> bool" where
  "closes_session inner handled_externally response =
     (command_from_byte (fr_command inner) = Some Cmd_CloseSession
      \<or> command_from_byte (fr_command inner) = Some Cmd_ResetDevice \<and> \<not> handled_externally
        \<and> fr_command response \<noteq> ERROR_COMMAND)"

definition limit_response :: "Frame \<Rightarrow> Frame" where
  "limit_response response =
     (if secure_response_fits response then response else frame_error WrongLength)"

definition process_message ::
  "'k lib \<Rightarrow> 'k env \<Rightarrow> FirmwareProfile \<Rightarrow> hook \<Rightarrow> u8 \<Rightarrow> 'k SessionEntry \<Rightarrow> Frame \<Rightarrow> 'k Device \<Rightarrow>
     Frame res \<times> 'k Device" where
  "process_message L E fw hk sid entry inner d =
     (let au = se_authorization entry; handled = handled_response hk au inner;
          m = (case handled of
                 Some response \<Rightarrow> (Ok response, (d, Some (se_objects entry)))
               | None \<Rightarrow> execute_inner_with_session L E fw au inner (d, Some (se_objects entry)))
      in try_in (fst m) (fst (snd m)) (\<lambda>response.
         let d = fst (snd m); response = limit_response response;
             c = encrypt_response L (se_secure entry) response
         in try_in (fst c) d (\<lambda>outer.
            (Ok outer,
             if closes_session inner (handled \<noteq> None) response then d
             else d\<lparr>dv_sessions := bt_insert sid
                    (entry\<lparr>se_secure := snd c,
                           se_objects := (case snd (snd m) of Some t \<Rightarrow> t | None \<Rightarrow> bt_empty)\<rparr>)
                    (dv_sessions d)\<rparr>))))"

definition session_message_with ::
  "'k lib \<Rightarrow> 'k env \<Rightarrow> FirmwareProfile \<Rightarrow> hook \<Rightarrow> Frame \<Rightarrow> 'k Device \<Rightarrow> Frame res \<times> 'k Device" where
  "session_message_with L E fw hk request d =
     try_in (decode_request decode_session_envelope (fr_data request)) d (\<lambda>(sid, _).
     try_in (ok_or (bt_get (dv_sessions d) sid) InvalidSession) d (\<lambda>entry.
     let d = d\<lparr>dv_sessions := bt_remove sid (dv_sessions d)\<rparr> in
     if \<not> se_authenticated entry then (Err InvalidSession, d)
     else
       let c = decrypt_request L (se_secure entry) request in
       try_in (fst c) d (\<lambda>inner.
       process_message L E fw hk sid (entry\<lparr>se_secure := snd c, se_last_activity := now E\<rparr>) inner d)))"

section \<open>Frames\<close>

text \<open>\<^verbatim>\<open>result.unwrap_or_else(Frame::error)\<close>.\<close>

definition or_error_frame :: "Frame res \<times> 'k Device \<Rightarrow> Frame res \<times> 'k Device" where
  "or_error_frame m = (case fst m of Err e \<Rightarrow> (Ok (frame_error e), snd m) | _ \<Rightarrow> m)"

definition handle_frame_with ::
  "'k lib \<Rightarrow> 'k env \<Rightarrow> FirmwareProfile \<Rightarrow> hook \<Rightarrow> Frame \<Rightarrow> 'k Device \<Rightarrow> Frame res \<times> 'k Device" where
  "handle_frame_with L E fw hk request d =
     (let d = expire_inactive_sessions (now E) d in
      case command_from_byte (fr_command request) of
        Some c \<Rightarrow>
          if c \<in> {Cmd_Echo, Cmd_GetDeviceInfo, Cmd_GetDevicePublicKey} then (execute_plain L fw d request, d)
          else or_error_frame
            (if c = Cmd_CreateSession then create_session L E request d
             else if c = Cmd_AuthenticateSession then authenticate_session L E request d
             else if c = Cmd_SessionMessage then session_message_with L E fw hk request d
             else (Err InvalidCommand, d))
      | None \<Rightarrow> or_error_frame (Err InvalidCommand, d))"

definition handle_encoded_with ::
  "'k lib \<Rightarrow> 'k env \<Rightarrow> FirmwareProfile \<Rightarrow> hook \<Rightarrow> bytes \<Rightarrow> 'k Device \<Rightarrow> bytes res \<times> 'k Device" where
  "handle_encoded_with L E fw hk encoded d =
     (case frame_parse encoded of
        Ok request \<Rightarrow>
          let m = handle_frame_with L E fw hk request d in
          (and_then (fst m) (\<lambda>response. Ok (frame_encode response)), snd m)
      | Err e \<Rightarrow> (Ok (frame_encode (frame_error e)), d)
      | Panic \<Rightarrow> (Panic, d)
      | Diverge \<Rightarrow> (Diverge, d))"

definition no_hook :: hook where
  "no_hook au inner = None"

definition handle_encoded ::
  "'k lib \<Rightarrow> 'k env \<Rightarrow> FirmwareProfile \<Rightarrow> bytes \<Rightarrow> 'k Device \<Rightarrow> bytes res \<times> 'k Device" where
  "handle_encoded L E fw encoded d = handle_encoded_with L E fw no_hook encoded d"

end
