(* ===== verification/Invariants.thy ===== *)
theory Invariants
  imports Engine
begin

unbundle bit_operations_syntax

text \<open>
  The invariant of a device and its preservation by every protocol message: the object
  store and its generation history, the options, the bound of the audit log, and the
  session table. The reachable devices are those built from the factory state by messages,
  provisioning and persistence; all of them satisfy the invariant.
\<close>

section \<open>The invariant\<close>

definition core_wf :: "'k lib \<Rightarrow> 'k Device \<Rightarrow> bool" where
  "core_wf L d = (store_wf L d \<and> options_wf (dv_options d) \<and> log_bounded d)"

definition authorization_wf :: "SessionAuthorization \<Rightarrow> bool" where
  "authorization_wf au = (cap_wf (au_capabilities au) \<and> cap_wf (au_delegated_capabilities au))"

text \<open>
  A session entry knows its own number, has a full-width message counter, and waits for a
  host cryptogram exactly while it is not authenticated.
\<close>

definition session_wf :: "'k lib \<Rightarrow> u8 \<Rightarrow> 'k SessionEntry \<Rightarrow> bool" where
  "session_wf L sid e =
     (unat sid < MAX_SESSIONS \<and> ss_sid (se_secure e) = sid \<and> length (ss_counter (se_secure e)) = BLOCK_SIZE
      \<and> authorization_wf (se_authorization e) \<and> session_objects_wf L (se_objects e)
      \<and> se_authenticated e = (se_expected_host_cryptogram e = None))"

definition sessions_wf :: "'k lib \<Rightarrow> (u8, 'k SessionEntry) btree \<Rightarrow> bool" where
  "sessions_wf L ss = (bt_wf ss \<and> bt.all_of (session_wf L) ss)"

definition device_wf :: "'k lib \<Rightarrow> 'k Device \<Rightarrow> bool" where
  "device_wf L d = (core_wf L d \<and> sessions_wf L (dv_sessions d))"

section \<open>The core\<close>

lemma core_wf_frame:
  assumes "core_wf L d" "dv_objects d' = dv_objects d" "dv_sequence_history d' = dv_sequence_history d"
    "dv_options d' = dv_options d" "dv_config d' = dv_config d"
    "length (as_entries (dv_audit d')) \<le> unat (cf_log_capacity (dv_config d))"
  shows "core_wf L d'"
  using assms by (simp add: core_wf_def store_wf_def log_bounded_def)

lemma append_audit_entry_core:
  "core_wf L d \<Longrightarrow> core_wf L (append_audit_entry L au c q r d)"
  by (simp add: core_wf_def store_wf_def append_audit_entry_bounded)

lemma store_effect_core:
  assumes eff: "store_effect L au d d'" and wf: "core_wf L d" and kdf: "password_kdf_ok L"
  shows "core_wf L d'"
proof -
  have "store_wf L d'" using store_effect_wf eff wf kdf by (auto simp: core_wf_def)
  moreover have "options_wf (dv_options d') \<and> log_bounded d'"
    using eff
  proof cases
    case options_set
    then show ?thesis using wf options_changed_frame
      by (auto simp: core_wf_def log_bounded_def options_changed_def)
  next
    case log_read
    then show ?thesis using wf log_trimmed_frame [OF log_read(2)] log_trimmed_bounded [OF log_read(2)]
      by (auto simp: core_wf_def)
  qed (use wf in \<open>auto simp: core_wf_def log_bounded_def reset_device_store audit_initial_def\<close>)
  ultimately show ?thesis by (simp add: core_wf_def)
qed

lemma store_effect_sessions:
  "store_effect L au d d' \<Longrightarrow> dv_sessions d' = dv_sessions d \<or> dv_sessions d' = bt_empty"
  by (cases rule: store_effectE) (auto simp: options_changed_frame log_trimmed_frame reset_device_store)

lemma finish_command_frame [simp]:
  "dv_objects (finish_command L fw au q a r d) = dv_objects d"
  "dv_sessions (finish_command L fw au q a r d) = dv_sessions d"
  "dv_options (finish_command L fw au q a r d) = dv_options d"
  "dv_sequence_history (finish_command L fw au q a r d) = dv_sequence_history d"
  "dv_config (finish_command L fw au q a r d) = dv_config d"
  "dv_static_private (finish_command L fw au q a r d) = dv_static_private d"
  by (simp_all add: finish_command_def Let_def split: option.split)

lemma finish_command_core: "core_wf L d \<Longrightarrow> core_wf L (finish_command L fw au q a r d)"
  using append_audit_entry_core [of L d au]
  by (auto simp: finish_command_def Let_def core_wf_def store_wf_def log_bounded_def split: option.split)

section \<open>One command\<close>

text \<open>
  A command inside a session keeps the core invariant and the session's object table, and
  it either keeps the other sessions or closes all of them.
\<close>

lemma execute_inner_result_state:
  assumes "store_wf L (fst s)" "session_table_wf L (snd s)"
  shows "store_effect L au (fst s) (fst (snd (execute_inner_result L E fw au q s)))"
    "session_table_wf L (snd (snd (execute_inner_result L E fw au q s)))"
proof -
  let ?m = "execute_inner_result L E fw au q s"
  have m: "commits s (command_effect L au (fst s)) (fst ?m, snd ?m)"
    using execute_inner_result_commits [OF assms] by simp
  have "command_effect L au (fst s) (snd ?m)"
  proof (cases "is_ok (fst ?m)")
    case True
    then show ?thesis using commits_D(1) [OF m] by blast
  next
    case False
    then have "snd ?m = s" using commits_D(2) [OF m] by blast
    then show ?thesis using assms(2) by (simp add: command_effect_def store_effect.unchanged)
  qed
  then show "store_effect L au (fst s) (fst (snd ?m))" "session_table_wf L (snd (snd ?m))"
    by (simp_all add: command_effect_def)
qed

lemma execute_inner_result_core:
  assumes "core_wf L (fst s)" "session_table_wf L (snd s)" "password_kdf_ok L"
  shows "core_wf L (fst (snd (execute_inner_result L E fw au q s)))"
    "session_table_wf L (snd (snd (execute_inner_result L E fw au q s)))"
    "dv_sessions (fst (snd (execute_inner_result L E fw au q s))) \<in> {dv_sessions (fst s), bt_empty}"
proof -
  have wf: "store_wf L (fst s)" using assms(1) by (simp add: core_wf_def)
  note eff = execute_inner_result_state [OF wf assms(2), where E = E and fw = fw and au = au and q = q]
  show "core_wf L (fst (snd (execute_inner_result L E fw au q s)))"
    by (rule store_effect_core [OF eff(1) assms(1,3)])
  show "session_table_wf L (snd (snd (execute_inner_result L E fw au q s)))" by (rule eff(2))
  show "dv_sessions (fst (snd (execute_inner_result L E fw au q s))) \<in> {dv_sessions (fst s), bt_empty}"
    using store_effect_sessions [OF eff(1)] by simp
qed

lemma execute_inner_with_session_core:
  assumes "core_wf L (fst s)" "session_table_wf L (snd s)" "password_kdf_ok L"
    "execute_inner_with_session L E fw au q s = (r, s')"
  shows "core_wf L (fst s')" "session_table_wf L (snd s')"
    "dv_sessions (fst s') = dv_sessions (fst s) \<or> dv_sessions (fst s') = bt_empty"
proof -
  note inner = execute_inner_result_core [OF assms(1-3), where E = E and fw = fw and au = au and q = q]
  have s': "s' = s \<or> s' = snd (execute_inner_result L E fw au q s)
      \<or> (\<exists>a r. s' = (finish_command L fw au q a r (fst (snd (execute_inner_result L E fw au q s))),
             snd (snd (execute_inner_result L E fw au q s))))"
    using assms(4) by (auto simp: execute_inner_with_session_def Let_def split: if_splits result.splits)
  then show "core_wf L (fst s')" "session_table_wf L (snd s')"
    "dv_sessions (fst s') = dv_sessions (fst s) \<or> dv_sessions (fst s') = bt_empty"
    using inner assms(1,2) by (auto simp: finish_command_core)
qed

section \<open>Sessions\<close>

lemma sessions_wf_remove: "sessions_wf L ss \<Longrightarrow> sessions_wf L (bt_remove sid ss)"
  by (simp add: sessions_wf_def bt.wf_remove bt.all_of_remove)

lemma sessions_wf_insert: "sessions_wf L ss \<Longrightarrow> session_wf L sid e \<Longrightarrow> sessions_wf L (bt_insert sid e ss)"
  by (simp add: sessions_wf_def bt.wf_insert bt.all_of_insert)

lemma sessions_wf_retain: "sessions_wf L ss \<Longrightarrow> sessions_wf L (bt_retain p ss)"
  by (simp add: sessions_wf_def bt.wf_retain bt.all_of_retain)

lemma sessions_wf_empty [simp]: "sessions_wf L bt_empty"
  by (simp add: sessions_wf_def bt.wf_empty)

lemma sessions_wfD: "sessions_wf L ss \<Longrightarrow> bt_get ss sid = Some e \<Longrightarrow> session_wf L sid e"
  unfolding sessions_wf_def by (blast dest: bt.all_ofD)

text \<open>The channel operations keep the session number and the width of the counter.\<close>

lemma verify_request_mac_frame:
  "ss_sid (snd (verify_request_mac L s q)) = ss_sid s"
  "ss_counter (snd (verify_request_mac L s q)) = ss_counter s"
  by (auto simp: verify_request_mac_def Let_def try_in_def split: result.splits)

lemma decrypt_request_frame:
  "ss_sid (snd (decrypt_request L s q)) = ss_sid s"
  "ss_counter (snd (decrypt_request L s q)) = ss_counter s"
  using verify_request_mac_frame [of L s q]
  by (auto simp: decrypt_request_def try_st_def try_in_def split: result.splits)

lemma authenticate_symmetric_frame:
  "ss_sid (snd (authenticate_symmetric L s q x)) = ss_sid s"
  "length (ss_counter (snd (authenticate_symmetric L s q x))) = length (ss_counter s)"
  using verify_request_mac_frame [of L s q]
  by (auto simp: authenticate_symmetric_def try_st_def try_in_def split: result.splits)

lemma encrypt_response_frame:
  "ss_sid (snd (encrypt_response L s q)) = ss_sid s"
  "length (ss_counter (snd (encrypt_response L s q))) = length (ss_counter s)"
  by (auto simp: encrypt_response_def try_in_def Let_def split: result.splits)

lemma begin_symmetric_frame:
  "begin_symmetric L sid k h c = Ok (s, y, z) \<Longrightarrow> ss_sid s = sid \<and> length (ss_counter s) = BLOCK_SIZE"
  by (auto simp: begin_symmetric_def secure_session_new_def Let_def split: if_splits)

lemma begin_asymmetric_frame:
  "begin_asymmetric L E sid k h c = Ok (s, y, z) \<Longrightarrow> ss_sid s = sid \<and> length (ss_counter s) = BLOCK_SIZE"
  by (auto simp: begin_asymmetric_def secure_session_new_def Let_def split: if_splits)

lemma session_authorization_wf:
  "store_wf L d \<Longrightarrow> session_authorization d i = Ok au \<Longrightarrow> authorization_wf au"
proof -
  assume wf: "store_wf L d" and au: "session_authorization d i = Ok au"
  then obtain r where r: "bt_get (dv_objects d) (ObjectKey Ty_AuthenticationKey i) = Some r"
    by (auto simp: session_authorization_def)
  with au have "au_capabilities au = oi_capabilities (or_info r)"
    "au_delegated_capabilities au = oi_delegated_capabilities (or_info r)"
    by (auto simp: session_authorization_def split: ObjectMaterial.splits)
  with store_wfD(2) [OF wf r] show ?thesis by (simp add: authorization_wf_def record_wf_def info_wf_def)
qed

lemma free_session_id_Ok:
  assumes "free_session_id d = Ok sid"
  shows "unat sid < MAX_SESSIONS" "bt_get (dv_sessions d) sid = None"
  using assms by (auto simp: free_session_id_def find_Some_iff MAX_SESSIONS_def unat_of_nat)

section \<open>One message\<close>

lemma device_wf_sessions:
  "device_wf L d \<Longrightarrow> sessions_wf L ss \<Longrightarrow> device_wf L (d\<lparr>dv_sessions := ss\<rparr>)"
  by (simp add: device_wf_def core_wf_def store_wf_def log_bounded_def)

lemma record_unlogged_wf: "device_wf L d \<Longrightarrow> device_wf L (record_unlogged_authentication_if_full d)"
  by (simp add: device_wf_def core_wf_def store_wf_def log_bounded_def)

lemma append_audit_entry_wf: "device_wf L d \<Longrightarrow> device_wf L (append_audit_entry L au c q r d)"
  using append_audit_entry_core [of L d] by (simp add: device_wf_def)

lemma audit_session_command_wf:
  "device_wf L (snd m) \<Longrightarrow> device_wf L (snd (audit_session_command L au c q m))"
  by (auto simp: audit_session_command_def append_audit_entry_wf split: result.split)

lemma open_session_wf:
  assumes wf: "device_wf L d" and au: "authorization_wf au"
  shows "device_wf L (snd (open_session L E decoded au d))"
proof -
  let ?entry = "\<lambda>secure x auth. \<lparr>se_authorization = au, se_secure = secure,
      se_expected_host_cryptogram = x, se_authenticated = auth, se_last_activity = now E,
      se_objects = bt_empty\<rparr>"
  have opened: "device_wf L (d\<lparr>dv_sessions := bt_insert sid (?entry secure x auth) (dv_sessions d)\<rparr>)"
    if "free_session_id d = Ok sid" "ss_sid secure = sid \<and> length (ss_counter secure) = BLOCK_SIZE"
      "auth = (x = None)" for sid secure x auth
    using that wf au free_session_id_Ok(1) [OF that(1)]
    by (intro device_wf_sessions sessions_wf_insert) (auto simp: device_wf_def session_wf_def)
  show ?thesis
    unfolding open_session_def Let_def
    by (rule try_in_rule [where P = "\<lambda>m. device_wf L (snd m)"],
        rule try_in_rule [where P = "\<lambda>m. device_wf L (snd m)"])
      (auto simp: wf split: AuthenticationKeyMaterial.split
        intro!: try_in_rule [where P = "\<lambda>m. device_wf L (snd m)"] opened record_unlogged_wf
        dest: begin_symmetric_frame begin_asymmetric_frame)
qed

lemma create_session_wf:
  assumes "device_wf L d"
  shows "device_wf L (snd (create_session L E request d))"
proof -
  have "store_wf L d" using assms by (simp add: device_wf_def core_wf_def)
  then show ?thesis
    unfolding create_session_def using assms
    by (auto intro!: try_in_rule [where P = "\<lambda>m. device_wf L (snd m)"] audit_session_command_wf
        open_session_wf intro: session_authorization_wf)
qed

lemma confirm_session_wf:
  assumes wf: "device_wf L d" and entry: "session_wf L sid entry"
  shows "device_wf L (snd (confirm_session L E request sid entry d))"
proof -
  have "session_wf L sid (entry\<lparr>se_secure := snd (authenticate_symmetric L (se_secure entry) request x),
      se_expected_host_cryptogram := None, se_authenticated := True, se_last_activity := t\<rparr>)" for x t
    using entry authenticate_symmetric_frame [of L "se_secure entry" request x] by (simp add: session_wf_def)
  moreover have "sessions_wf L (dv_sessions d)" using wf by (simp add: device_wf_def)
  ultimately show ?thesis
    unfolding confirm_session_def Let_def using wf
    by (auto intro!: try_in_rule [where P = "\<lambda>m. device_wf L (snd m)"] record_unlogged_wf
        device_wf_sessions sessions_wf_insert)
qed

lemma authenticate_session_wf:
  assumes "device_wf L d"
  shows "device_wf L (snd (authenticate_session L E request d))"
proof -
  have ss: "sessions_wf L (dv_sessions d)" using assms by (simp add: device_wf_def)
  show ?thesis
    unfolding authenticate_session_def
    by (auto intro!: try_in_rule [where P = "\<lambda>m. device_wf L (snd m)"] audit_session_command_wf
        confirm_session_wf device_wf_sessions sessions_wf_remove sessions_wfD [OF ss] ss simp: assms)
qed

lemma process_message_wf:
  assumes wf: "device_wf L d" and entry: "session_wf L sid entry" and kdf: "password_kdf_ok L"
  shows "device_wf L (snd (process_message L E fw hk sid entry inner d))"
proof -
  let ?s = "(d, Some (se_objects entry))"
  let ?m = "case handled_response hk (se_authorization entry) inner of
      Some response \<Rightarrow> (Ok response, ?s)
    | None \<Rightarrow> execute_inner_with_session L E fw (se_authorization entry) inner ?s"
  have init: "core_wf L (fst ?s)" "session_table_wf L (snd ?s)"
    using wf entry by (simp_all add: device_wf_def session_wf_def session_table_wf_def)
  obtain r d' objs where m: "?m = (r, (d', objs))" by (metis prod.exhaust)
  have ss: "sessions_wf L (dv_sessions d)" using wf by (simp add: device_wf_def)
  have "core_wf L d' \<and> session_table_wf L objs \<and> (dv_sessions d' = dv_sessions d \<or> dv_sessions d' = bt_empty)"
  proof (cases "handled_response hk (se_authorization entry) inner")
    case None
    with m have "execute_inner_with_session L E fw (se_authorization entry) inner ?s = (r, (d', objs))"
      by simp
    from execute_inner_with_session_core [OF init kdf this] show ?thesis by simp
  qed (use m init in auto)
  with ss have inner: "core_wf L d'" "session_table_wf L objs" "sessions_wf L (dv_sessions d')"
    by auto
  have wf': "device_wf L d'" using inner by (simp add: device_wf_def)
  have "device_wf L (d'\<lparr>dv_sessions := bt_insert sid (entry\<lparr>se_secure := snd (encrypt_response L (se_secure entry) f),
      se_objects := (case objs of Some t \<Rightarrow> t | None \<Rightarrow> bt_empty)\<rparr>) (dv_sessions d')\<rparr>)" for f
    using wf' inner entry encrypt_response_frame [of L "se_secure entry" f]
    by (intro device_wf_sessions sessions_wf_insert)
      (auto simp: session_wf_def session_table_wf_def split: option.splits)
  then show ?thesis
    unfolding process_message_def Let_def m using wf'
    by (auto intro!: try_in_rule [where P = "\<lambda>m. device_wf L (snd m)"])
qed

lemma session_message_wf:
  assumes wf: "device_wf L d" and kdf: "password_kdf_ok L"
  shows "device_wf L (snd (session_message_with L E fw hk request d))"
proof -
  have ss: "sessions_wf L (dv_sessions d)" using wf by (simp add: device_wf_def)
  have removed: "device_wf L (d\<lparr>dv_sessions := bt_remove sid (dv_sessions d)\<rparr>)" for sid
    by (intro device_wf_sessions sessions_wf_remove wf ss)
  have entry: "session_wf L sid (e\<lparr>se_secure := snd (decrypt_request L (se_secure e) request), se_last_activity := t\<rparr>)"
    if "bt_get (dv_sessions d) sid = Some e" for sid e t
    using sessions_wfD [OF ss that] decrypt_request_frame [of L "se_secure e" request]
    by (simp add: session_wf_def)
  show ?thesis
    unfolding session_message_with_def Let_def
    by (auto intro!: try_in_rule [where P = "\<lambda>m. device_wf L (snd m)"] process_message_wf removed entry kdf
        simp: wf)
qed

lemma or_error_frame_state [simp]: "snd (or_error_frame m) = snd m"
  by (simp add: or_error_frame_def split: result.split)

lemma expire_wf: "device_wf L d \<Longrightarrow> device_wf L (expire_inactive_sessions t d)"
  unfolding expire_inactive_sessions_def
  by (intro device_wf_sessions sessions_wf_retain) (auto simp: device_wf_def)

lemma handle_frame_wf:
  assumes "device_wf L d" "password_kdf_ok L"
  shows "device_wf L (snd (handle_frame_with L E fw hk request d))"
  using expire_wf [OF assms(1), of "now E"] assms(2)
  by (auto simp: handle_frame_with_def Let_def create_session_wf authenticate_session_wf session_message_wf
      split: option.split)

lemma handle_encoded_wf:
  assumes "device_wf L d" "password_kdf_ok L"
  shows "device_wf L (snd (handle_encoded_with L E fw hk encoded d))"
  using handle_frame_wf [OF assms] assms(1)
  by (auto simp: handle_encoded_with_def Let_def split: result.split)

section \<open>Reachable devices\<close>

inductive reachable :: "'k lib \<Rightarrow> FirmwareProfile \<Rightarrow> 'k Device \<Rightarrow> bool" for L fw where
  factory: "factory_default_with_device_static_private L config key = Ok d \<Longrightarrow> reachable L fw d"
| message: "\<lbrakk>reachable L fw d; handle_encoded_with L E fw hk encoded d = (Ok response, d')\<rbrakk>
    \<Longrightarrow> reachable L fw d'"
| provision: "\<lbrakk>reachable L fw d; info_wf (or_info r); provision_object L r d = (Ok (), d')\<rbrakk>
    \<Longrightarrow> reachable L fw d'"
| commit: "\<lbrakk>reachable L fw d; take_persistent_change d = (r, d')\<rbrakk> \<Longrightarrow> reachable L fw d'"
| disconnect: "reachable L fw d \<Longrightarrow> reachable L fw (clear_sessions d)"

lemma factory_device_wf:
  assumes "factory_default_with_device_static_private L config key = Ok d" "password_kdf_ok L"
  shows "device_wf L d"
proof -
  obtain k where d: "d = install_factory_authentication_key L
      \<lparr>dv_config = config, dv_objects = bt_empty, dv_sessions = bt_empty, dv_static_private = k,
       dv_state_epoch = 0, dv_sequence_history = bt_empty, dv_options = options_default,
       dv_audit = audit_initial, dv_persistent_change = False\<rparr>"
    using assms(1) by (auto simp: factory_default_with_device_static_private_def)
  have "store_wf L d" unfolding d by (rule factory_install_wf [OF assms(2)]) simp_all
  then show ?thesis
    by (simp add: device_wf_def core_wf_def d install_factory_authentication_key_def Let_def log_bounded_def
        audit_initial_def)
qed

lemma provision_object_wf:
  assumes "device_wf L d" "info_wf (or_info r)" "provision_object L r d = (Ok (), d')"
  shows "device_wf L d'"
proof -
  obtain r' where p: "promote_private_material L r = Ok r'" "record_validate L r' = Ok ()"
    and d': "d' = d\<lparr>dv_sequence_history :=
        bt_insert (oi_id (or_info r')) (ucast (oi_sequence (or_info r'))) (dv_sequence_history d),
      dv_objects := bt_insert (info_key (or_info r')) r' (dv_objects d), dv_persistent_change := True\<rparr>"
    using assms(3) by (auto simp: provision_object_def Let_def info_key_def)
  have "record_wf L r'" using promote_wf [OF p assms(2)] by blast
  with assms(1) have "store_wf L (d\<lparr>dv_sequence_history :=
        bt_insert (oi_id (or_info r')) (ucast (oi_sequence (or_info r'))) (dv_sequence_history d),
      dv_objects := bt_insert (info_key (or_info r')) r' (dv_objects d)\<rparr>)"
    by (intro put_record_wf) (simp_all add: device_wf_def core_wf_def)
  then show ?thesis using assms(1) d' by (simp add: device_wf_def core_wf_def log_bounded_def store_wf_def)
qed

lemma take_persistent_change_wf:
  "device_wf L d \<Longrightarrow> take_persistent_change d = (r, d') \<Longrightarrow> device_wf L d'"
  by (auto simp: take_persistent_change_def device_wf_def core_wf_def store_wf_def log_bounded_def
      split: if_splits)

lemma clear_sessions_wf: "device_wf L d \<Longrightarrow> device_wf L (clear_sessions d)"
  unfolding clear_sessions_def by (rule device_wf_sessions) simp_all

lemma reachable_wf: "reachable L fw d \<Longrightarrow> password_kdf_ok L \<Longrightarrow> device_wf L d"
proof (induction rule: reachable.induct)
  case (message d E hk encoded response d')
  then show ?case using handle_encoded_wf by (metis snd_conv)
qed (auto intro: factory_device_wf provision_object_wf take_persistent_change_wf clear_sessions_wf)

end
