(* ===== verification/Messages.thy ===== *)
theory Messages
  imports Invariants
begin

unbundle bit_operations_syntax

text \<open>
  What one protocol message can do to the durable part of a device. A message changes the
  object store, the generation history, the options or the device key only through one
  command of an authenticated session, and then only by an effect authorized for that
  session.
\<close>

section \<open>Bookkeeping\<close>

text \<open>
  What the engine itself may do around a command: replace the session table, append audit
  entries, count unlogged authentications and raise the persistence flag.
\<close>

inductive bookkeeping :: "'k lib \<Rightarrow> 'k Device \<Rightarrow> 'k Device \<Rightarrow> bool" for L d where
  nothing: "bookkeeping L d d"
| sessions: "bookkeeping L d d' \<Longrightarrow> bookkeeping L d (d'\<lparr>dv_sessions := ss\<rparr>)"
| audited: "bookkeeping L d d' \<Longrightarrow> bookkeeping L d (append_audit_entry L au c q r d')"
| unlogged: "bookkeeping L d d' \<Longrightarrow> bookkeeping L d (record_unlogged_authentication_if_full d')"
| flagged: "bookkeeping L d d' \<Longrightarrow> bookkeeping L d (d'\<lparr>dv_persistent_change := True\<rparr>)"

declare bookkeeping.intros [simp]

lemma bookkeeping_trans:
  assumes "bookkeeping L d1 d2" "bookkeeping L d2 d3"
  shows "bookkeeping L d1 d3"
  using assms(2,1) by induction simp_all

lemma bookkeeping_finish [simp]: "bookkeeping L d d' \<Longrightarrow> bookkeeping L d (finish_command L fw au q a r d')"
  by (auto simp: finish_command_def Let_def split: option.split)

lemma bookkeeping_expire [simp]: "bookkeeping L d d' \<Longrightarrow> bookkeeping L d (expire_inactive_sessions t d')"
  by (simp add: expire_inactive_sessions_def)

definition same_store :: "'k Device \<Rightarrow> 'k Device \<Rightarrow> bool" where
  "same_store d d' =
     (dv_objects d' = dv_objects d \<and> dv_sequence_history d' = dv_sequence_history d
      \<and> dv_options d' = dv_options d \<and> dv_static_private d' = dv_static_private d
      \<and> dv_config d' = dv_config d \<and> dv_state_epoch d' = dv_state_epoch d)"

lemma bookkeeping_store: "bookkeeping L d d' \<Longrightarrow> same_store d d'"
  by (induction rule: bookkeeping.induct) (simp_all add: same_store_def)

lemma append_audit_entry_flag: "dv_persistent_change d \<Longrightarrow> dv_persistent_change (append_audit_entry L au c q r d)"
  by (simp add: append_audit_entry_def Let_def)

lemma record_unlogged_flag:
  "dv_persistent_change d \<Longrightarrow> dv_persistent_change (record_unlogged_authentication_if_full d)"
  by (simp add: record_unlogged_authentication_if_full_def Let_def)

text \<open>Bookkeeping never lowers the flag, and without the flag it does not touch the log.\<close>

lemma bookkeeping_flag:
  assumes "bookkeeping L d d'"
  shows "dv_persistent_change d \<longrightarrow> dv_persistent_change d'"
    "dv_audit d' = dv_audit d \<or> dv_persistent_change d'"
  using assms
proof induction
  case (audited d' au c q r)
  { case 1 then show ?case using audited.IH append_audit_entry_flag by metis }
  { case 2 then show ?case using audited.IH append_audit_entry_flag
      by (auto simp: append_audit_entry_def Let_def) }
next
  case (unlogged d')
  { case 1 then show ?case using unlogged.IH record_unlogged_flag by metis }
  { case 2 then show ?case using unlogged.IH record_unlogged_flag
      by (auto simp: record_unlogged_authentication_if_full_def Let_def) }
qed auto

lemma bookkeeping_log:
  "bookkeeping L d d' \<Longrightarrow> log_wf L (dv_audit d) \<Longrightarrow> log_wf L (dv_audit d')"
  by (induction rule: bookkeeping.induct) (simp_all add: append_audit_entry_chain, simp_all add: log_wf_def)

section \<open>The effect of a message\<close>

text \<open>
  A message is either pure bookkeeping or one authorized effect of an authenticated session
  followed by bookkeeping; an effect that changes the device raises the persistence flag.
\<close>

inductive message_effect :: "'k lib \<Rightarrow> 'k Device \<Rightarrow> 'k Device \<Rightarrow> bool" for L d d' where
  idle: "bookkeeping L d d' \<Longrightarrow> message_effect L d d'"
| command: "\<lbrakk>bt_get (dv_sessions d) sid = Some e; se_authenticated e;
    store_effect L (se_authorization e) (d\<lparr>dv_sessions := ss\<rparr>) d2; bookkeeping L d2 d';
    d2 = d\<lparr>dv_sessions := ss\<rparr> \<or> dv_persistent_change d'\<rbrakk>
    \<Longrightarrow> message_effect L d d'"

section \<open>Updates raise the flag\<close>

text \<open>
  The response of an update is at most three bytes long, so it always fits the channel and
  the outcome that the flag depends on is the handler's own.
\<close>

definition short_response :: "bytes res \<times> 'k Device \<Rightarrow> bool" where
  "short_response m = (\<forall>bs. fst m = Ok bs \<longrightarrow> length bs \<le> 3)"

lemma short_response_simps [simp]:
  "short_response (Ok bs, d) = (length bs \<le> 3)" "short_response (Err e, d)"
  "short_response (Panic, d)" "short_response (Diverge, d)"
  by (simp_all add: short_response_def)

lemma short_validate_and_write [simp]:
  "length bs \<le> 3 \<Longrightarrow> short_response (validate_and_write L E r bs d)"
  "length bs \<le> 3 \<Longrightarrow> short_response (validate_and_write_imported L E r bs d)"
  by (auto simp: validate_and_write_def validate_and_write_imported_def short_response_def try_st_def try_in_def
      split: result.splits)

lemma short_try_in: "(\<And>x. r = Ok x \<Longrightarrow> short_response (k x)) \<Longrightarrow> short_response (try_in r d k)"
  by (cases r) (simp_all add: short_response_def)

lemma short_try_st: "(\<And>x d. short_response (k x d)) \<Longrightarrow> short_response (try_st m k)"
  unfolding try_st_def by (intro short_try_in)

lemmas short_intros = short_try_in short_try_st

lemma short_updates:
  "short_response (put_opaque L E fw au data d)"
  "short_response (put_authentication_key L E fw au data d)"
  "short_response (put_asymmetric_key L E fw au data g d)"
  "short_response (put_hmac_key L E fw au data g d)"
  "short_response (put_symmetric_key L E fw au data g d)"
  "short_response (put_wrap_key L E fw au data g d)"
  "short_response (put_public_wrap_key L E fw au data d)"
  "short_response (put_otp_aead_key L E fw au data g d)"
  "short_response (put_template L E fw au data d)"
  "short_response (change_authentication_key L E fw data d)"
  unfolding put_opaque_def put_authentication_key_def put_asymmetric_key_def put_hmac_key_def
    put_symmetric_key_def put_wrap_key_def put_public_wrap_key_def put_otp_aead_key_def put_template_def
    change_authentication_key_def Let_def
  by (auto intro!: short_intros split: option.split AuthenticationKeyMaterial.split ObjectMaterial.split)

lemma short_imports:
  "short_response (import_wrapped L E fw au data d)"
  "short_response (import_rsa_wrapped L E fw au data d)"
  "short_response (put_rsa_wrapped_key L E fw au data d)"
  unfolding import_wrapped_def import_rsa_wrapped_def put_rsa_wrapped_key_def finish_import_def Let_def
  by (auto intro!: short_intros)

lemma short_others:
  "short_response (set_log_index data d)" "short_response (set_option fw data d)"
  "short_response (delete_object data d)" "short_response (reset_command L E data d)"
  unfolding set_log_index_def set_option_def delete_object_def reset_command_def Let_def
  by (auto intro!: short_intros)

lemma run_update_flagged:
  "run_update L E fw au c data d = Some m \<Longrightarrow> short_response m \<and> command_changes_persistent_state c"
  by (cases c) (auto simp: run_update_def short_updates short_imports short_others
      command_changes_persistent_state_def)

lemma run_command_flagged:
  assumes "fst (snd (run_command L E fw au c data s)) \<noteq> fst s"
  shows "short_response (fst (run_command L E fw au c data s), d) \<and> command_changes_persistent_state c"
  using assms run_update_flagged [of L E fw au c data "fst s"]
  by (auto simp: run_command_def Let_def short_response_def split: if_splits option.splits)

lemma execute_inner_result_flagged:
  assumes "fst (snd (execute_inner_result L E fw au q s)) \<noteq> fst s"
  shows "short_response (fst (execute_inner_result L E fw au q s), d)
    \<and> (\<exists>c. supported_command fw q = Some c \<and> command_changes_persistent_state c)"
  using assms run_command_flagged [of L E fw au _ "fr_data q" s d]
  by (auto simp: execute_inner_result_def try_in_def supported_command_def split: option.splits result.splits if_splits)

section \<open>Every message has such an effect\<close>

lemma audit_session_command_book:
  "bookkeeping L d (snd m) \<Longrightarrow> bookkeeping L d (snd (audit_session_command L au c q m))"
  by (auto simp: audit_session_command_def split: result.split)

lemma open_session_book: "bookkeeping L d (snd (open_session L E decoded au d))"
  unfolding open_session_def Let_def
  by (rule try_in_rule [where P = "\<lambda>m. bookkeeping L d (snd m)"],
      rule try_in_rule [where P = "\<lambda>m. bookkeeping L d (snd m)"])
    (auto split: AuthenticationKeyMaterial.split intro!: try_in_rule [where P = "\<lambda>m. bookkeeping L d (snd m)"])

lemma create_session_book: "bookkeeping L d (snd (create_session L E request d))"
  unfolding create_session_def
  by (auto intro!: try_in_rule [where P = "\<lambda>m. bookkeeping L d (snd m)"] audit_session_command_book
      open_session_book)

lemma confirm_session_book:
  "bookkeeping L d' d \<Longrightarrow> bookkeeping L d' (snd (confirm_session L E request sid entry d))"
  by (auto simp: confirm_session_def Let_def try_in_def split: result.splits)

lemma authenticate_session_book: "bookkeeping L d (snd (authenticate_session L E request d))"
  unfolding authenticate_session_def
  by (auto intro!: try_in_rule [where P = "\<lambda>m. bookkeeping L d (snd m)"] audit_session_command_book
      confirm_session_book)

lemma execute_inner_with_session_effect:
  assumes wf: "store_wf L (fst s)" "session_table_wf L (snd s)"
    and run: "execute_inner_with_session L E fw au q s = (r, s')"
  shows "\<exists>d2. store_effect L au (fst s) d2 \<and> bookkeeping L d2 (fst s')
    \<and> (d2 = fst s \<or> dv_persistent_change (fst s'))"
proof -
  let ?m = "execute_inner_result L E fw au q s"
  note eff = execute_inner_result_state(1) [OF wf, where E = E and fw = fw and au = au and q = q]
  have book: "fst s' = fst s \<or> bookkeeping L (fst (snd ?m)) (fst s')"
    using run by (auto simp: execute_inner_with_session_def Let_def split: if_splits result.splits)
  have "dv_persistent_change (fst s')" if changed: "fst (snd ?m) \<noteq> fst s" "fst s' \<noteq> fst s"
  proof -
    obtain c where c: "supported_command fw q = Some c" "command_changes_persistent_state c"
      and short: "short_response (fst ?m, fst s)"
      using execute_inner_result_flagged [OF changed(1)] by blast
    obtain bs where bs: "fst ?m = Ok bs"
      using execute_inner_result_fails [OF wf, of E fw au q "fst ?m" "snd ?m"] changed(1)
      unfolding is_ok_iff by (metis prod.collapse)
    with short have "secure_response_data_fits (length bs)"
      by (simp add: short_response_def secure_response_data_fits_iff)
    then have "fst s' = finish_command L fw au q (should_audit (fst s) c) (Ok bs) (fst (snd ?m))"
      using run bs c(1) changed(2)
      by (auto simp: execute_inner_with_session_def Let_def split: if_splits)
    then show ?thesis using c by (simp add: finish_command_def Let_def)
  qed
  with eff book show ?thesis by (metis bookkeeping.nothing store_effect.unchanged)
qed

lemma process_message_effect:
  assumes "store_wf L d" "session_objects_wf L (se_objects entry)"
  shows "\<exists>d2. store_effect L (se_authorization entry) d d2
    \<and> bookkeeping L d2 (snd (process_message L E fw hk sid entry inner d))
    \<and> (d2 = d \<or> dv_persistent_change (snd (process_message L E fw hk sid entry inner d)))"
proof -
  let ?au = "se_authorization entry" and ?s = "(d, Some (se_objects entry))"
  let ?m = "case handled_response hk ?au inner of
      Some response \<Rightarrow> (Ok response, ?s)
    | None \<Rightarrow> execute_inner_with_session L E fw ?au inner ?s"
  obtain r d' objs where m: "?m = (r, (d', objs))" by (metis prod.exhaust)
  have "\<exists>d2. store_effect L ?au d d2 \<and> bookkeeping L d2 d' \<and> (d2 = d \<or> dv_persistent_change d')"
  proof (cases "handled_response hk ?au inner")
    case None
    with m have run: "execute_inner_with_session L E fw ?au inner ?s = (r, (d', objs))" by simp
    have "store_wf L (fst ?s)" "session_table_wf L (snd ?s)"
      using assms by (simp_all add: session_table_wf_def)
    from execute_inner_with_session_effect [OF this run] show ?thesis by simp
  qed (use m in \<open>auto intro: exI [of _ d'] store_effect.unchanged\<close>)
  moreover have "bookkeeping L d' (snd (process_message L E fw hk sid entry inner d))"
    unfolding process_message_def Let_def m
    by (auto intro!: try_in_rule [where P = "\<lambda>m. bookkeeping L d' (snd m)"])
  ultimately show ?thesis using bookkeeping_trans bookkeeping_flag(1) by metis
qed

lemma session_message_effect:
  assumes "device_wf L d"
  shows "message_effect L d (snd (session_message_with L E fw hk request d))"
proof -
  have wf: "store_wf L d" using assms by (simp add: device_wf_def core_wf_def)
  have run: "message_effect L d (snd (process_message L E fw hk sid (e\<lparr>se_secure := x, se_last_activity := t\<rparr>)
      inner (d\<lparr>dv_sessions := ss\<rparr>)))"
    if "bt_get (dv_sessions d) sid = Some e" "se_authenticated e" for sid e x t inner ss
  proof -
    let ?d = "d\<lparr>dv_sessions := ss\<rparr>" and ?e = "e\<lparr>se_secure := x, se_last_activity := t\<rparr>"
    have "session_objects_wf L (se_objects ?e)"
      using assms sessions_wfD [OF _ that(1)] by (auto simp: device_wf_def session_wf_def)
    moreover have "store_wf L ?d" using wf by (simp add: store_wf_def)
    ultimately obtain d2 where "store_effect L (se_authorization e) ?d d2"
      "bookkeeping L d2 (snd (process_message L E fw hk sid ?e inner ?d))"
      "d2 = ?d \<or> dv_persistent_change (snd (process_message L E fw hk sid ?e inner ?d))"
      using process_message_effect [of L ?d ?e E fw hk sid inner] by auto
    with that show ?thesis by (intro message_effect.command [of _ sid e L ss d2]) simp_all
  qed
  show ?thesis
    unfolding session_message_with_def Let_def
    by (auto intro!: try_in_rule [where P = "\<lambda>m. message_effect L d (snd m)"] run)
      (simp_all add: message_effect.idle)
qed

lemma bookkeeping_from_sessions:
  "bookkeeping L (d\<lparr>dv_sessions := ss\<rparr>) d' \<Longrightarrow> bookkeeping L d d'"
  by (rule bookkeeping_trans) simp_all

lemma message_effect_sessions:
  assumes "message_effect L (d\<lparr>dv_sessions := ss\<rparr>) d'"
    "\<And>sid e. bt_get ss sid = Some e \<Longrightarrow> bt_get (dv_sessions d) sid = Some e"
  shows "message_effect L d d'"
  using assms(1)
proof cases
  case idle
  then show ?thesis by (intro message_effect.idle) (rule bookkeeping_from_sessions)
next
  case (command sid e ss' d2)
  then show ?thesis using assms(2) by (intro message_effect.command [of _ sid e L ss' d2]) simp_all
qed

lemma handle_encoded_effect:
  assumes "device_wf L d"
  shows "message_effect L d (snd (handle_encoded_with L E fw hk encoded d))"
proof -
  let ?d = "expire_inactive_sessions (now E) d"
  have wf: "device_wf L ?d" using assms by (rule expire_wf)
  have "bt_wf (dv_sessions d)" using assms by (simp add: device_wf_def sessions_wf_def)
  then have live: "bt_get (bt_retain p (dv_sessions d)) sid = Some e \<Longrightarrow> bt_get (dv_sessions d) sid = Some e"
    for p sid e by (auto simp: bt.get_retain split: option.splits if_splits)
  have "message_effect L ?d (snd (handle_frame_with L E fw hk request d))" for request
    unfolding handle_frame_with_def Let_def
    using session_message_effect [OF wf, of E fw hk request] create_session_book [of L ?d E request]
      authenticate_session_book [of L ?d E request]
    by (auto intro: message_effect.idle split: option.split)
  then have "message_effect L d (snd (handle_frame_with L E fw hk request d))" for request
    unfolding expire_inactive_sessions_def using live by (rule message_effect_sessions)
  then show ?thesis
    by (auto simp: handle_encoded_with_def Let_def intro: message_effect.idle split: result.split)
qed

end
