(* ===== verification/Guarantees.thy ===== *)
theory Guarantees
  imports Messages
begin

unbundle bit_operations_syntax

text \<open>
  What the message-level refinement means for the parts of a device: which changes of an
  object, of an option, of the generation history and of the audit log one message can
  cause, what becomes of the sessions, and what forced auditing guarantees.
\<close>

section \<open>Objects\<close>

text \<open>The policies of the sessions that may act on a device.\<close>

definition acting :: "'k Device \<Rightarrow> SessionAuthorization \<Rightarrow> bool" where
  "acting d au = (\<exists>sid e. bt_get (dv_sessions d) sid = Some e \<and> se_authenticated e \<and> se_authorization e = au)"

definition factory_objects :: "'k lib \<Rightarrow> (ObjectKey, 'k ObjectRecord) btree" where
  "factory_objects L = bt_insert (ObjectKey Ty_AuthenticationKey 1) (factory_record L) bt_empty"

text \<open>
  The changes of the object under key \<open>k\<close> that the policy \<open>au\<close> allows: a creation within the
  delegated policy, a deletion, a replacement of the material under an unchanged policy, or
  a reset of the whole device.
\<close>

inductive object_change ::
  "'k lib \<Rightarrow> SessionAuthorization \<Rightarrow> (ObjectKey, 'k ObjectRecord) btree \<Rightarrow> (ObjectKey, 'k ObjectRecord) btree \<Rightarrow>
     ObjectKey \<Rightarrow> bool" for L au objs objs' k where
  create: "\<lbrakk>bt_get objs k = None; bt_get objs' k = Some r; within_delegation au (or_info r);
    cap_contains (au_capabilities au) c\<rbrakk> \<Longrightarrow> object_change L au objs objs' k"
| remove: "\<lbrakk>bt_get objs k = Some old; bt_get objs' k = None; can_see au (or_info old);
    cap_contains (au_capabilities au) (deletion_capability (oi_object_type (or_info old)))\<rbrakk>
    \<Longrightarrow> object_change L au objs objs' k"
| replace_opaque: "\<lbrakk>bt_get objs k = Some old; bt_get objs' k = Some r; same_policy (or_info r) (or_info old);
    key_type k = Ty_Opaque; authorize_use au (or_info old) Cap_PutOpaque Cap_PutOpaque = Ok ()\<rbrakk>
    \<Longrightarrow> object_change L au objs objs' k"
| replace_own_key: "\<lbrakk>bt_get objs k = Some old; bt_get objs' k = Some r; same_policy (or_info r) (or_info old);
    k = ObjectKey Ty_AuthenticationKey (au_key_id au);
    authorize_use au (or_info old) Cap_ChangeAuthenticationKey Cap_ChangeAuthenticationKey = Ok ()\<rbrakk>
    \<Longrightarrow> object_change L au objs objs' k"
| reset: "\<lbrakk>cap_contains (au_capabilities au) Cap_ResetDevice; objs' = factory_objects L\<rbrakk>
    \<Longrightarrow> object_change L au objs objs' k"

lemma store_effect_change:
  assumes "store_effect L au d d'" "store_wf L d" "cap_wf (au_delegated_capabilities au)"
    "bt_get (dv_objects d') k \<noteq> bt_get (dv_objects d) k"
  shows "object_change L au (dv_objects d) (dv_objects d') k"
  using assms(1)
proof cases
  case (created r c)
  let ?r = "r\<lparr>or_info := (or_info r)\<lparr>oi_sequence := ucast (next_generation d (oi_id (or_info r)))\<rparr>\<rparr>"
  have "within_delegation au (or_info r)" "cap_contains (au_capabilities au) c"
    using created authorize_create_Ok [OF assms(3), of "or_info r" c]
    by (auto simp: within_delegation_def record_wf_def)
  with created assms(4) show ?thesis
    by (auto simp: store_record_objects within_delegation_def
        intro!: object_change.create [of _ _ _ _ au c] split: if_splits)
next
  case (opaque_replaced k' old r n)
  with store_wfD(1) [OF assms(2)] have "info_key (or_info r) = k'" by (auto simp: info_key_def)
  with opaque_replaced assms(4) show ?thesis
    by (auto simp: store_record_objects same_policy_def simp del: authorize_use_Ok
        intro!: object_change.replace_opaque split: if_splits)
next
  case (authentication_key_changed old r a n)
  then have "info_key (or_info r) = ObjectKey Ty_AuthenticationKey (au_key_id au)"
    using store_wfD(1) [OF assms(2)] by (auto simp: info_key_def)
  with authentication_key_changed assms(4) show ?thesis
    by (auto simp: store_record_objects same_policy_def simp del: authorize_use_Ok
        intro!: object_change.replace_own_key split: if_splits)
next
  case (deleted k' old)
  have "bt_wf (dv_objects d)" using assms(2) by (simp add: store_wf_def)
  with deleted assms(4) show ?thesis
    by (auto simp: bt.get_remove intro!: object_change.remove split: if_splits)
next
  case (device_reset key)
  then show ?thesis by (intro object_change.reset) (simp_all add: reset_device_store factory_objects_def)
qed (use assms(4) in \<open>auto simp: options_changed_frame log_trimmed_frame\<close>)

lemma message_change:
  assumes "device_wf L d" "message_effect L d d'" "bt_get (dv_objects d') k \<noteq> bt_get (dv_objects d) k"
  shows "\<exists>au. acting d au \<and> object_change L au (dv_objects d) (dv_objects d') k"
  using assms(2)
proof cases
  case idle
  with assms(3) show ?thesis using bookkeeping_store by (fastforce simp: same_store_def)
next
  case (command sid e ss d2)
  let ?d = "d\<lparr>dv_sessions := ss\<rparr>"
  have same: "same_store d2 d'" using command by (simp add: bookkeeping_store)
  have "store_wf L ?d" using assms(1) by (simp add: device_wf_def core_wf_def store_wf_def)
  moreover have "cap_wf (au_delegated_capabilities (se_authorization e))"
    using assms(1) sessions_wfD [OF _ command(1)] by (auto simp: device_wf_def session_wf_def authorization_wf_def)
  moreover have "bt_get (dv_objects d2) k \<noteq> bt_get (dv_objects ?d) k"
    using assms(3) same by (simp add: same_store_def)
  ultimately have "object_change L (se_authorization e) (dv_objects ?d) (dv_objects d2) k"
    by (intro store_effect_change [OF command(3)])
  with same command(1,2) show ?thesis by (auto simp: same_store_def acting_def)
qed

section \<open>Options, generations and the audit log\<close>

text \<open>A message that reset the device, on behalf of a session allowed to do so.\<close>

definition was_reset :: "'k lib \<Rightarrow> 'k Device \<Rightarrow> 'k Device \<Rightarrow> bool" where
  "was_reset L d d' =
     ((\<exists>au. acting d au \<and> cap_contains (au_capabilities au) Cap_ResetDevice)
      \<and> dv_objects d' = factory_objects L \<and> dv_options d' = options_default)"

text \<open>Generation numbers only move on, one write at a time.\<close>

definition history_advances :: "(u16, u64) btree \<Rightarrow> (u16, u64) btree \<Rightarrow> bool" where
  "history_advances h h' =
     (\<forall>i g. bt_get h i = Some g \<longrightarrow> bt_get h' i = Some g \<or> bt_get h' i = Some (g + 1))"

definition keeps_policy_state :: "'k lib \<Rightarrow> 'k Device \<Rightarrow> 'k Device \<Rightarrow> bool" where
  "keeps_policy_state L d d' =
     (fixed_kept (dv_options d) (dv_options d')
      \<and> history_advances (dv_sequence_history d) (dv_sequence_history d'))"

lemma store_record_advances:
  "history_advances (dv_sequence_history d) (dv_sequence_history (store_record r d))"
  by (auto simp: history_advances_def store_record_def Let_def next_generation_def)

lemma store_effect_policy_state:
  assumes "store_effect L au d d'" "options_wf (dv_options d)"
  shows "keeps_policy_state L d d'
    \<or> cap_contains (au_capabilities au) Cap_ResetDevice \<and> (\<exists>key. d' = reset_device L key d)"
  using assms(1)
proof cases
  case options_set
  then show ?thesis using assms(2) options_changed_frame(2) [OF options_set(2)]
    by (auto simp: keeps_policy_state_def options_changed_def history_advances_def)
next
  case log_read
  then show ?thesis using log_trimmed_frame [OF log_read(2)]
    by (auto simp: keeps_policy_state_def history_advances_def)
qed (auto simp: keeps_policy_state_def store_record_advances, auto simp: history_advances_def store_record_def Let_def)

lemma message_policy_state:
  assumes "device_wf L d" "message_effect L d d'"
  shows "keeps_policy_state L d d' \<or> was_reset L d d'"
  using assms(2)
proof cases
  case idle
  then show ?thesis using bookkeeping_store
    by (fastforce simp: same_store_def keeps_policy_state_def history_advances_def)
next
  case (command sid e ss d2)
  have same: "same_store d2 d'" using command by (simp add: bookkeeping_store)
  have "options_wf (dv_options (d\<lparr>dv_sessions := ss\<rparr>))" using assms(1) by (simp add: device_wf_def core_wf_def)
  then show ?thesis using store_effect_policy_state [OF command(3)] same command(1,2)
    by (auto simp: same_store_def keeps_policy_state_def was_reset_def acting_def reset_device_store
        factory_objects_def)
qed

lemma store_effect_log:
  assumes "store_effect L au d d'" "log_wf L (dv_audit d)" "log_numbered (dv_audit d)"
  shows "log_wf L (dv_audit d')"
  using assms(1)
proof cases
  case options_set
  then show ?thesis using assms(2) options_changed_frame(4) [OF options_set(2)] by simp
next
  case log_read
  then show ?thesis using log_trimmed_chain assms(2,3) by blast
qed (use assms(2) in \<open>auto simp: store_record_def Let_def reset_device_store log_wf_def audit_initial_def\<close>)

lemma message_log:
  assumes "message_effect L d d'" "log_wf L (dv_audit d)" "log_numbered (dv_audit d)"
  shows "log_wf L (dv_audit d')"
  using assms(1)
proof cases
  case idle
  then show ?thesis using assms(2) bookkeeping_log by blast
next
  case (command sid e ss d2)
  then show ?thesis using assms(2,3) bookkeeping_log store_effect_log [OF command(3)] by simp
qed

section \<open>Sessions\<close>

lemma store_effect_sessions_reset:
  "store_effect L au d d' \<Longrightarrow> dv_sessions d' = dv_sessions d
     \<or> dv_sessions d' = bt_empty \<and> cap_contains (au_capabilities au) Cap_ResetDevice"
  by (cases rule: store_effectE) (auto simp: options_changed_frame log_trimmed_frame reset_device_store)

lemma execute_inner_with_session_sessions:
  assumes "store_wf L (fst s)" "session_table_wf L (snd s)"
    "execute_inner_with_session L E fw au q s = (r, s')"
  shows "dv_sessions (fst s') = dv_sessions (fst s)
    \<or> dv_sessions (fst s') = bt_empty \<and> cap_contains (au_capabilities au) Cap_ResetDevice"
  using store_effect_sessions_reset [OF execute_inner_result_state(1) [OF assms(1,2), of au E fw q]] assms(3)
  by (auto simp: execute_inner_with_session_def Let_def split: if_splits result.splits)

text \<open>
  What processing a message leaves of the session table \<open>ss\<close>: the table or, after a reset, an
  empty one, and on success possibly the session itself.
\<close>

definition session_outcome ::
  "bool \<Rightarrow> bool \<Rightarrow> u8 \<Rightarrow> 'k SessionEntry \<Rightarrow> (u8, 'k SessionEntry) btree \<Rightarrow> (u8, 'k SessionEntry) btree \<Rightarrow> bool" where
  "session_outcome ok may_reset sid entry ss ss' =
     (\<exists>base. (base = ss \<or> base = bt_empty \<and> may_reset)
        \<and> (ss' = base \<or> ok \<and> (\<exists>e. ss' = bt_insert sid e base \<and> se_last_activity e = se_last_activity entry
             \<and> se_authorization e = se_authorization entry)))"

lemma process_message_sessions:
  assumes "store_wf L d" "session_objects_wf L (se_objects entry)"
  shows "session_outcome (is_ok (fst (process_message L E fw hk sid entry inner d)))
    (cap_contains (au_capabilities (se_authorization entry)) Cap_ResetDevice) sid entry (dv_sessions d)
    (dv_sessions (snd (process_message L E fw hk sid entry inner d)))"
proof -
  let ?au = "se_authorization entry" and ?s = "(d, Some (se_objects entry))"
  let ?m = "case handled_response hk ?au inner of
      Some response \<Rightarrow> (Ok response, ?s)
    | None \<Rightarrow> execute_inner_with_session L E fw ?au inner ?s"
  obtain r d' objs where m: "?m = (r, (d', objs))" by (metis prod.exhaust)
  have base: "dv_sessions d' = dv_sessions d
      \<or> dv_sessions d' = bt_empty \<and> cap_contains (au_capabilities ?au) Cap_ResetDevice"
  proof (cases "handled_response hk ?au inner")
    case None
    with m have run: "execute_inner_with_session L E fw ?au inner ?s = (r, (d', objs))" by simp
    show ?thesis using execute_inner_with_session_sessions [OF _ _ run] assms
      by (simp add: session_table_wf_def)
  qed (use m in auto)
  then show ?thesis
    unfolding process_message_def Let_def m session_outcome_def
    by (cases r) (auto simp: try_in_def split: result.split intro!: exI [of _ "dv_sessions d'"])
qed

text \<open>
  One message touches at most the session it names: all others stay as they are, unless a
  session allowed to reset the device does so. The session it names is gone, unchanged, or
  active at the time of the message.
\<close>

definition touches_one ::
  "bool \<Rightarrow> nat \<Rightarrow> (u8, 'k SessionEntry) btree \<Rightarrow> (u8, 'k SessionEntry) btree \<Rightarrow> bool" where
  "touches_one may_reset t ss ss' =
     (\<exists>sid. (\<forall>sid'. sid' \<noteq> sid \<longrightarrow> bt_get ss' sid' = bt_get ss sid' \<or> bt_get ss' sid' = None \<and> may_reset)
        \<and> (\<forall>e. bt_get ss' sid = Some e \<longrightarrow> bt_get ss sid = Some e \<or> se_last_activity e = t))"

lemma touches_one_refl [simp]: "touches_one b t ss ss"
  by (simp add: touches_one_def)

lemma touches_one_remove [simp]: "touches_one b t ss (bt_remove sid ss)"
  by (auto simp: touches_one_def intro!: exI [of _ sid])

lemma touches_one_insert: "se_last_activity e = t \<Longrightarrow> touches_one b t ss (bt_insert sid e ss)"
  by (auto simp: touches_one_def intro!: exI [of _ sid])

lemma touches_one_replace: "se_last_activity e = t \<Longrightarrow> touches_one b t ss (bt_insert sid e (bt_remove sid ss))"
  by (auto simp: touches_one_def intro!: exI [of _ sid])

lemma touches_one_outcome:
  "session_outcome ok may_reset sid entry (bt_remove sid ss) ss' \<Longrightarrow> se_last_activity entry = t \<Longrightarrow>
     (may_reset \<Longrightarrow> b) \<Longrightarrow> touches_one b t ss ss'"
  unfolding session_outcome_def touches_one_def
  by (elim exE conjE disjE) (auto intro!: exI [of _ sid])

lemma open_session_touches:
  "touches_one b (now E) (dv_sessions d) (dv_sessions (snd (open_session L E decoded au d)))"
  unfolding open_session_def Let_def
  by (rule try_in_rule [where P = "\<lambda>m. touches_one b (now E) (dv_sessions d) (dv_sessions (snd m))"],
      rule try_in_rule [where P = "\<lambda>m. touches_one b (now E) (dv_sessions d) (dv_sessions (snd m))"])
    (auto split: AuthenticationKeyMaterial.split simp: touches_one_insert
      intro!: try_in_rule [where P = "\<lambda>m. touches_one b (now E) (dv_sessions d) (dv_sessions (snd m))"])

lemma audit_session_command_sessions [simp]:
  "dv_sessions (snd (audit_session_command L au c q m)) = dv_sessions (snd m)"
  by (auto simp: audit_session_command_def split: result.split)

lemma create_session_touches:
  "touches_one b (now E) (dv_sessions d) (dv_sessions (snd (create_session L E request d)))"
  unfolding create_session_def
  by (auto intro!: try_in_rule [where P = "\<lambda>m. touches_one b (now E) (dv_sessions d) (dv_sessions (snd m))"]
      open_session_touches)

lemma authenticate_session_touches:
  "touches_one b (now E) (dv_sessions d) (dv_sessions (snd (authenticate_session L E request d)))"
  unfolding authenticate_session_def confirm_session_def Let_def
  by (auto simp: touches_one_replace
      intro!: try_in_rule [where P = "\<lambda>m. touches_one b (now E) (dv_sessions d) (dv_sessions (snd m))"])

lemma session_message_touches:
  assumes wf: "device_wf L d"
    and reset: "\<And>au. acting d au \<Longrightarrow> cap_contains (au_capabilities au) Cap_ResetDevice \<Longrightarrow> b"
  shows "touches_one b (now E) (dv_sessions d) (dv_sessions (snd (session_message_with L E fw hk request d)))"
proof -
  have run: "touches_one b (now E) (dv_sessions d) (dv_sessions (snd (process_message L E fw hk sid
      (e\<lparr>se_secure := x, se_last_activity := now E\<rparr>) inner (d\<lparr>dv_sessions := bt_remove sid (dv_sessions d)\<rparr>))))"
    if "bt_get (dv_sessions d) sid = Some e" "se_authenticated e" for sid e x inner
  proof -
    let ?d = "d\<lparr>dv_sessions := bt_remove sid (dv_sessions d)\<rparr>" and ?e = "e\<lparr>se_secure := x, se_last_activity := now E\<rparr>"
    have "session_objects_wf L (se_objects ?e)"
      using wf sessions_wfD [OF _ that(1)] by (auto simp: device_wf_def session_wf_def)
    moreover have "store_wf L ?d" using wf by (simp add: device_wf_def core_wf_def store_wf_def)
    moreover have "acting d (se_authorization ?e)" using that by (auto simp: acting_def)
    ultimately show ?thesis
      using process_message_sessions [of L ?d ?e E fw hk sid inner] reset
      by (auto intro: touches_one_outcome)
  qed
  show ?thesis
    unfolding session_message_with_def Let_def
    by (auto intro!: try_in_rule [where P = "\<lambda>m. touches_one b (now E) (dv_sessions d) (dv_sessions (snd m))"] run)
qed

lemma acting_expire:
  assumes "device_wf L d" "acting (expire_inactive_sessions t d) au"
  shows "acting d au"
proof -
  obtain sid e where e: "bt_get (dv_sessions (expire_inactive_sessions t d)) sid = Some e"
    "se_authenticated e" "se_authorization e = au"
    using assms(2) by (auto simp: acting_def)
  have "bt_wf (dv_sessions d)" using assms(1) by (simp add: device_wf_def sessions_wf_def)
  with e(1) have "bt_get (dv_sessions d) sid = Some e"
    by (simp add: expire_inactive_sessions_def bt.get_retain split: option.splits if_splits)
  with e(2,3) show ?thesis by (auto simp: acting_def)
qed

lemma handle_frame_touches:
  assumes "device_wf L d" "\<And>au. acting d au \<Longrightarrow> cap_contains (au_capabilities au) Cap_ResetDevice \<Longrightarrow> b"
  shows "touches_one b (now E) (dv_sessions (expire_inactive_sessions (now E) d))
    (dv_sessions (snd (handle_frame_with L E fw hk request d)))"
proof -
  let ?d = "expire_inactive_sessions (now E) d"
  have "b" if "acting ?d au" "cap_contains (au_capabilities au) Cap_ResetDevice" for au
    using acting_expire [OF assms(1) that(1)] that(2) by (rule assms(2))
  note reset = this
  have "touches_one b (now E) (dv_sessions ?d) (dv_sessions (snd (session_message_with L E fw hk request ?d)))"
    by (rule session_message_touches [where d = ?d and L = L, OF expire_wf [OF assms(1)]]) (rule reset)
  then show ?thesis
    using create_session_touches [of b E ?d L request] authenticate_session_touches [of b E ?d L request]
    by (auto simp: handle_frame_with_def Let_def split: option.split)
qed

text \<open>A failed session message closes the session it names.\<close>

lemma session_message_closes:
  assumes wf: "device_wf L d"
    and dec: "decode_request decode_session_envelope (fr_data request) = Ok (sid, rest)"
    and fails: "\<not> is_ok (fst (session_message_with L E fw hk request d))"
  shows "bt_get (dv_sessions (snd (session_message_with L E fw hk request d))) sid = None"
proof (cases "bt_get (dv_sessions d) sid")
  case (Some e)
  let ?d = "d\<lparr>dv_sessions := bt_remove sid (dv_sessions d)\<rparr>"
  let ?e = "e\<lparr>se_secure := snd (decrypt_request L (se_secure e) request), se_last_activity := now E\<rparr>"
  have "session_objects_wf L (se_objects ?e)"
    using wf sessions_wfD [OF _ Some] by (auto simp: device_wf_def session_wf_def)
  moreover have "store_wf L ?d" using wf by (simp add: device_wf_def core_wf_def store_wf_def)
  ultimately have "bt_get (dv_sessions (snd (process_message L E fw hk sid ?e inner ?d))) sid = None"
    if "\<not> is_ok (fst (process_message L E fw hk sid ?e inner ?d))" for inner
    using process_message_sessions [of L ?d ?e E fw hk sid inner] that by (auto simp: session_outcome_def)
  with fails dec Some show ?thesis
    by (auto simp: session_message_with_def Let_def try_in_def simp del: decode_request_Ok
        split: if_splits result.splits)
qed (use dec in \<open>simp add: session_message_with_def del: decode_request_Ok\<close>)

section \<open>Auditing\<close>

lemma store_effect_room:
  assumes "store_effect L au d d'" "\<not> log_full d"
  shows "\<not> log_full d'"
  using assms(1)
proof cases
  case (log_read)
  then show ?thesis using assms(2)
    by (auto simp: log_trimmed_def log_full_def not_le intro: le_less_trans [OF length_filter_le])
qed (use assms(2) in \<open>auto simp: log_full_def options_changed_frame reset_device_store audit_initial_def\<close>)

text \<open>The entry the log ends with describes the command, who sent it and what it answered.\<close>

definition recorded ::
  "SessionAuthorization \<Rightarrow> CommandCode \<Rightarrow> Frame \<Rightarrow> Frame \<Rightarrow> AuditEntry \<Rightarrow> bool" where
  "recorded au c request response e =
     (ae_command e = command_code c \<and> ae_session_key e = au_key_id au
      \<and> ae_length e = saturate_u16 (length (fr_data request))
      \<and> ((ae_result e = 0 \<and> (\<exists>data. response = frame_response (fr_command request) data))
         \<or> (\<exists>err. ae_result e = error_code err \<and> response = frame_error err)))"

lemma append_audit_entry_recorded:
  assumes "\<not> log_full d"
  shows "\<exists>e. as_entries (dv_audit (append_audit_entry L au c q r d)) = as_entries (dv_audit d) @ [e]
    \<and> ae_command e = command_code c \<and> ae_session_key e = au_key_id au \<and> ae_result e = r
    \<and> ae_length e = saturate_u16 (length (fr_data q))"
  using assms by (simp add: append_audit_entry_def audit_entry_def Let_def)

lemma finish_command_recorded:
  assumes "\<not> log_full d" "supported_command fw q = Some c"
  shows "\<exists>e. as_entries (dv_audit (finish_command L fw au q True r d)) = as_entries (dv_audit d) @ [e]
    \<and> ae_command e = command_code c \<and> ae_session_key e = au_key_id au \<and> ae_result e = result_code r
    \<and> ae_length e = saturate_u16 (length (fr_data q))"
  using append_audit_entry_recorded [OF assms(1)] assms(2) by (auto simp: finish_command_def Let_def)

lemma execute_inner_with_session_recorded:
  assumes wf: "store_wf L d" "session_table_wf L t"
    and cmd: "supported_command fw q = Some c" "should_audit d c" and room: "\<not> log_full d"
    and run: "execute_inner_with_session L E fw au q (d, t) = (Ok f, (d', t'))"
  shows "\<exists>es e. as_entries (dv_audit d') = es @ [e] \<and> recorded au c q f e"
proof -
  let ?m = "execute_inner_result L E fw au q (d, t)"
  let ?r = "and_then (fst ?m) (\<lambda>data. if secure_response_data_fits (length data) then Ok data else Err WrongLength)"
  have "\<not> blocked_by_full_log fw q d" using room by (simp add: blocked_by_full_log_def)
  then have d': "d' = finish_command L fw au q True ?r (fst (snd ?m))"
    and f: "(\<exists>data. ?r = Ok data \<and> f = frame_response (fr_command q) data) \<or> (\<exists>e. ?r = Err e \<and> f = frame_error e)"
    using run cmd by (auto simp: execute_inner_with_session_def Let_def split: result.splits if_splits)
  have "\<not> log_full (fst (snd ?m))"
    using store_effect_room [OF execute_inner_result_state(1) [of L "(d, t)"]] wf room by simp
  from finish_command_recorded [OF this cmd(1), of L au ?r] f show ?thesis
    unfolding d' recorded_def by (auto simp: result_code_def)
qed

lemma execute_inner_with_session_full:
  assumes "supported_command fw q = Some c" "\<not> command_is_meta c" "c \<notin> {Cmd_GetLogEntries, Cmd_SetLogIndex}"
    "op_force_audit (dv_options d) \<noteq> OPTION_OFF" "log_full d"
  shows "execute_inner_with_session L E fw au q (d, t) = (Ok (frame_error LogFull), (d, t))"
  using assms by (simp add: execute_inner_with_session_def blocked_by_full_log_def)

section \<open>Refused commands\<close>

lemma own_sessions: "\<exists>ss. d = d\<lparr>dv_sessions := ss\<rparr>"
  by (rule exI [of _ "dv_sessions d"]) simp

lemma process_message_refused:
  assumes "command_from_byte (fr_command inner) = Some c" "required_session_capability c = Some r"
    "\<not> cap_contains (au_capabilities (se_authorization entry)) r"
  shows "\<exists>ss. snd (process_message L E fw hk sid entry inner d) = d\<lparr>dv_sessions := ss\<rparr>
    \<and> fst (process_message L E fw hk sid entry inner d)
        = fst (encrypt_response L (se_secure entry) (frame_error InsufficientPermissions))"
proof -
  have "handled_response hk (se_authorization entry) inner = Some (frame_error InsufficientPermissions)"
    using assms by (simp add: handled_response_def require_capability_def)
  moreover have "secure_response_fits (frame_error InsufficientPermissions)"
    by (simp add: secure_response_fits_def frame_error_def secure_response_data_fits_iff)
  ultimately show ?thesis using own_sessions
    by (auto simp: process_message_def Let_def limit_response_def try_in_def split: result.split)
qed

section \<open>Authentication and timeouts\<close>

text \<open>A session is confirmed only by its own cryptogram under the session's tag.\<close>

lemma authenticate_session_requires:
  assumes wf: "device_wf L d" and run: "authenticate_session L E q d = (Ok f, d')"
  shows "\<exists>sid e expected s1. bt_get (dv_sessions d) sid = Some e \<and> \<not> se_authenticated e
    \<and> se_expected_host_cryptogram e = Some expected
    \<and> verify_request_mac L (se_secure e) q = (Ok (sid # expected), s1)
    \<and> (\<exists>e'. bt_get (dv_sessions d') sid = Some e' \<and> se_authenticated e' \<and> se_authorization e' = se_authorization e)"
proof -
  obtain sid rest where dec: "decode_request decode_session_envelope (fr_data q) = Ok (sid, rest)"
    using run by (cases "decode_request decode_session_envelope (fr_data q)")
      (auto simp: authenticate_session_def simp del: decode_request_Ok)
  obtain e where e: "bt_get (dv_sessions d) sid = Some e"
    using run dec by (cases "bt_get (dv_sessions d) sid")
      (auto simp: authenticate_session_def simp del: decode_request_Ok)
  let ?d = "d\<lparr>dv_sessions := bt_remove sid (dv_sessions d)\<rparr>"
  let ?m = "confirm_session L E q sid e ?d"
  have m: "audit_session_command L (se_authorization e) Cmd_AuthenticateSession q ?m = (Ok f, d')"
    using run dec e by (simp add: authenticate_session_def del: decode_request_Ok)
  then have ok: "fst ?m = Ok f" and sessions: "dv_sessions d' = dv_sessions (snd ?m)"
    using audit_session_command_sessions [of L "se_authorization e" Cmd_AuthenticateSession q ?m]
    by (auto simp: audit_session_command_def split: result.splits)
  obtain expected where x: "\<not> se_authenticated e" "se_expected_host_cryptogram e = Some expected"
    and a: "fst (authenticate_symmetric L (se_secure e) q expected) = Ok ()"
    using ok by (auto simp: confirm_session_def Let_def try_in_def split: if_splits result.splits)
  obtain payload s1 where v: "verify_request_mac L (se_secure e) q = (Ok payload, s1)"
    "length payload = 1 + MAC_LENGTH" "payload ! 0 = ss_sid s1" "drop 1 payload = expected"
    using a by (cases "verify_request_mac L (se_secure e) q")
      (auto simp: authenticate_symmetric_def try_st_def try_in_def split: if_splits result.splits)
  have "ss_sid s1 = sid"
    using verify_request_mac_frame [of L "se_secure e" q] v(1) wf sessions_wfD [OF _ e]
    by (auto simp: device_wf_def session_wf_def)
  then have "payload = sid # expected"
    using v(2-4) by (cases payload) auto
  moreover have "\<exists>e'. bt_get (dv_sessions d') sid = Some e' \<and> se_authenticated e' \<and> se_authorization e' = se_authorization e"
    using ok sessions x a by (auto simp: confirm_session_def Let_def try_in_def split: if_splits result.splits)
  ultimately show ?thesis using e x v(1) by blast
qed

lemma session_timeout_pos: "0 < SESSION_INACTIVITY_TIMEOUT"
  by (simp add: SESSION_INACTIVITY_TIMEOUT_def)

text \<open>After a message no session is left that has been inactive for too long.\<close>

lemma handle_frame_fresh:
  assumes wf: "device_wf L d" and e: "bt_get (dv_sessions (snd (handle_frame_with L E fw hk request d))) sid = Some e"
  shows "now E - se_last_activity e < SESSION_INACTIVITY_TIMEOUT"
proof -
  let ?ss = "dv_sessions (expire_inactive_sessions (now E) d)"
  have fresh: "now E - se_last_activity x < SESSION_INACTIVITY_TIMEOUT" if "bt_get ?ss i = Some x" for i x
    using that wf by (auto simp: expire_inactive_sessions_def bt.get_retain device_wf_def sessions_wf_def
        split: option.splits if_splits)
  have "touches_one True (now E) ?ss (dv_sessions (snd (handle_frame_with L E fw hk request d)))"
    by (rule handle_frame_touches [OF wf]) simp
  then show ?thesis using e fresh
    unfolding touches_one_def by (metis diff_self_eq_0 option.distinct(1) session_timeout_pos)
qed

end
