(* ===== verification/Channel_Protocol.thy ===== *)
theory Channel_Protocol
  imports Secure_Channel
begin

unbundle bit_operations_syntax

text \<open>
  The secure channel seen from both ends. The host's side of the protocol is written as a
  reference: how it protects a command and opens a response with the keys it shares with
  the device. Under the documented laws of the library's primitives the device recovers
  every protected command and the host every response, both ends stay in step, and an
  accepted request carries the tag of the whole conversation so far.
\<close>

section \<open>The laws of the primitives\<close>

definition block_law :: "'k lib \<Rightarrow> bool" where
  "block_law L = (\<forall>k b. length k = 16 \<and> length b = 16 \<longrightarrow> (\<exists>c. encrypt_aes_block L k b = Inr c \<and> length c = 16))"

definition cbc_law :: "'k lib \<Rightarrow> bool" where
  "cbc_law L = (\<forall>k iv m. length k = 16 \<and> length iv = 16 \<and> length m mod 16 = 0 \<longrightarrow>
     (\<exists>c. encrypt_aes_cbc L k iv m = Inr c \<and> length c = length m \<and> decrypt_aes_cbc L k iv c = Inr m))"

definition pad_law :: "'k lib \<Rightarrow> bool" where
  "pad_law L = (\<forall>m. length (pad_iso7816 L m) = (length m div 16 + 1) * 16
     \<and> unpad_iso7816 L (pad_iso7816 L m) = Some m)"

definition cmac_law :: "'k lib \<Rightarrow> bool" where
  "cmac_law L = (\<forall>k m. length k = 16 \<longrightarrow> (\<exists>t. aes_cmac L k m = Inr t \<and> length t = 16))"

definition cipher_laws :: "'k lib \<Rightarrow> bool" where
  "cipher_laws L = (block_law L \<and> cbc_law L \<and> pad_law L \<and> cmac_law L)"

definition session_keys_wf :: "SecureSession \<Rightarrow> bool" where
  "session_keys_wf s = (length (ss_enc s) = 16 \<and> length (ss_mac s) = 16 \<and> length (ss_rmac s) = 16
     \<and> length (ss_counter s) = 16)"

lemma cipher_laws_block:
  assumes "cipher_laws L" "session_keys_wf s"
  shows "\<exists>iv. encrypt_block L (ss_enc s) (ss_counter s) = Ok iv \<and> length iv = 16"
proof -
  obtain c where "encrypt_aes_block L (ss_enc s) (ss_counter s) = Inr c" "length c = 16"
    using assms unfolding cipher_laws_def block_law_def session_keys_wf_def by blast
  then show ?thesis by (simp add: encrypt_block_def symmetric_result_def)
qed

lemma cipher_laws_cbc:
  assumes "cipher_laws L" "length k = 16" "length iv = 16" "length m mod 16 = 0"
  shows "\<exists>c. cbc_encrypt L k iv m = Ok c \<and> length c = length m \<and> cbc_decrypt L k iv c = Ok m"
proof -
  have "\<exists>c. encrypt_aes_cbc L k iv m = Inr c \<and> length c = length m \<and> decrypt_aes_cbc L k iv c = Inr m"
    using assms by (simp add: cipher_laws_def cbc_law_def)
  then show ?thesis by (auto simp: cbc_encrypt_def cbc_decrypt_def symmetric_result_def)
qed

lemma cipher_laws_pad:
  assumes "cipher_laws L"
  shows "length (pad L m) = (length m div 16 + 1) * 16" "unpad L (pad L m) = Ok m"
  using assms by (simp_all add: cipher_laws_def pad_law_def pad_def unpad_def)

lemma cipher_laws_cmac:
  assumes "cipher_laws L" "length k = 16"
  shows "\<exists>t. cmac L k m = Ok t \<and> length t = 16"
proof -
  have "\<exists>t. aes_cmac L k m = Inr t \<and> length t = 16" using assms by (simp add: cipher_laws_def cmac_law_def)
  then show ?thesis by (auto simp: cmac_def symmetric_result_def)
qed

text \<open>What both ends compute for a plaintext: the padded encryption under the current counter.\<close>

lemma cipher_laws_seal:
  assumes "cipher_laws L" "session_keys_wf s"
  shows "\<exists>iv c. encrypt_block L (ss_enc s) (ss_counter s) = Ok iv \<and> cbc_encrypt L (ss_enc s) iv (pad L m) = Ok c
    \<and> cbc_decrypt L (ss_enc s) iv c = Ok (pad L m) \<and> length c = (length m div 16 + 1) * 16"
proof -
  obtain iv where iv: "encrypt_block L (ss_enc s) (ss_counter s) = Ok iv" "length iv = 16"
    using cipher_laws_block [OF assms] by blast
  obtain c where "cbc_encrypt L (ss_enc s) iv (pad L m) = Ok c" "length c = length (pad L m)"
    "cbc_decrypt L (ss_enc s) iv c = Ok (pad L m)"
    using cipher_laws_cbc [OF assms(1) _ iv(2), of "ss_enc s" "pad L m"] assms
    by (auto simp: cipher_laws_pad session_keys_wf_def)
  with iv show ?thesis using cipher_laws_pad(1) [OF assms(1)] by auto
qed

section \<open>The host\<close>

definition host_tag :: "'k lib \<Rightarrow> SecureSession \<Rightarrow> bytes \<Rightarrow> bytes res" where
  "host_tag L s data = cmac L (ss_mac s)
     (ss_mac_chaining_value s @ command_code Cmd_SessionMessage # be16 (of_nat (length data + MAC_LENGTH)) @ data)"

definition host_request :: "'k lib \<Rightarrow> SecureSession \<Rightarrow> Frame \<Rightarrow> Frame res" where
  "host_request L s inner =
     and_then (encrypt_block L (ss_enc s) (ss_counter s)) (\<lambda>iv.
     and_then (cbc_encrypt L (ss_enc s) iv (pad L (frame_encode inner))) (\<lambda>ciphertext.
     let data = ss_sid s # ciphertext in
     and_then (host_tag L s data) (\<lambda>tag.
     frame_new (command_code Cmd_SessionMessage) (data @ take MAC_LENGTH tag))))"

definition host_open :: "'k lib \<Rightarrow> SecureSession \<Rightarrow> Frame \<Rightarrow> Frame res" where
  "host_open L s outer =
     (let n = length (fr_data outer) - MAC_LENGTH; data = take n (fr_data outer) in
      and_then (cmac L (ss_rmac s) (ss_mac_chaining_value s @ take (3 + n) (frame_encode outer))) (\<lambda>tag.
      if fr_command outer \<noteq> SESSION_MESSAGE_RESPONSE \<or> take MAC_LENGTH tag \<noteq> drop n (fr_data outer)
         \<or> data = [] \<or> hd data \<noteq> ss_sid s
      then Err AuthenticationFailed
      else
        and_then (encrypt_block L (ss_enc s) (ss_counter s)) (\<lambda>iv.
        and_then (cbc_decrypt L (ss_enc s) iv (tl data)) (\<lambda>clear.
        and_then (unpad L clear) frame_parse))))"

section \<open>Requests\<close>

lemma padded_length_iff: "(n div 16 + 1) * 16 \<le> (8180::nat) \<longleftrightarrow> n \<le> 8175"
proof -
  have "(n div 16 + 1) * 16 \<le> 8180 \<longleftrightarrow> n div 16 < 511" by auto
  also have "\<dots> \<longleftrightarrow> n < 511 * 16" by (rule div_less_iff_less_mult) simp
  finally show ?thesis by auto
qed

text \<open>A frame is protected by its header and payload without the tag.\<close>

lemma take_frame_encode:
  assumes "length (fr_data q) = n + MAC_LENGTH"
  shows "take (3 + n) (frame_encode q) = fr_command q # be16 (of_nat (n + MAC_LENGTH)) @ take n (fr_data q)"
proof -
  let ?h = "fr_command q # be16 (of_nat (n + MAC_LENGTH))"
  have "frame_encode q = ?h @ fr_data q" using assms by (simp add: frame_encode_def)
  moreover have "take (3 + n) (?h @ fr_data q) = ?h @ take n (fr_data q)"
    by (simp only: take_append) simp
  ultimately show ?thesis by simp
qed

lemma verify_request_mac_iff:
  assumes "length (fr_data q) = n + MAC_LENGTH"
  shows "verify_request_mac L s q = (Ok payload, s') \<longleftrightarrow>
    (\<exists>tag. cmac L (ss_mac s) (ss_mac_chaining_value s @ fr_command q # be16 (of_nat (n + MAC_LENGTH))
         @ take n (fr_data q)) = Ok tag \<and> take MAC_LENGTH tag = drop n (fr_data q)
       \<and> payload = take n (fr_data q) \<and> s' = s\<lparr>ss_mac_chaining_value := tag\<rparr>)"
proof -
  have "length (fr_data q) - MAC_LENGTH = n" "\<not> length (fr_data q) < MAC_LENGTH" using assms by simp_all
  then show ?thesis
    unfolding verify_request_mac_def Let_def using take_frame_encode [OF assms]
    by (auto simp: try_in_def split: result.split)
qed

lemma request_round_trip:
  assumes laws: "cipher_laws L" and keys: "session_keys_wf s"
    and fits: "frame_wf inner" "length (fr_data inner) \<le> 8172"
  shows "\<exists>q tag. host_request L s inner = Ok q \<and> frame_wf q \<and> fr_command q = command_code Cmd_SessionMessage
    \<and> decrypt_request L s q = (Ok inner, s\<lparr>ss_mac_chaining_value := tag\<rparr>)"
proof -
  let ?m = "frame_encode inner"
  obtain iv c where seal: "encrypt_block L (ss_enc s) (ss_counter s) = Ok iv"
    "cbc_encrypt L (ss_enc s) iv (pad L ?m) = Ok c" "cbc_decrypt L (ss_enc s) iv c = Ok (pad L ?m)"
    "length c = (length ?m div 16 + 1) * 16"
    using cipher_laws_seal [OF laws keys, of ?m] by blast
  let ?data = "ss_sid s # c"
  obtain tag where tag: "host_tag L s ?data = Ok tag" "length tag = 16"
    using cipher_laws_cmac [OF laws] keys unfolding host_tag_def session_keys_wf_def by blast
  let ?q = "\<lparr>fr_command = command_code Cmd_SessionMessage, fr_data = ?data @ take MAC_LENGTH tag\<rparr>"
  have "length ?m = 3 + length (fr_data inner)" by (simp add: length_frame_encode HEADER_LENGTH_def)
  with fits have len: "length c \<le> 8180" using padded_length_iff [of "length ?m"] by (simp only: seal(4))
  then have q: "host_request L s inner = Ok ?q"
    using seal(1,2) tag by (simp add: host_request_def frame_new_def frame_consts MAC_LENGTH_def)
  have "verify_request_mac L s ?q = (Ok ?data, s\<lparr>ss_mac_chaining_value := tag\<rparr>)"
    using tag verify_request_mac_iff [of ?q "length ?data" L s ?data] by (simp add: host_tag_def MAC_LENGTH_def)
  then have "decrypt_request L s ?q = (Ok inner, s\<lparr>ss_mac_chaining_value := tag\<rparr>)"
    using seal frame_parse_encode [OF fits(1)] cipher_laws_pad(2) [OF laws]
    by (simp add: decrypt_request_def BLOCK_SIZE_def)
  with q len tag show ?thesis by (auto simp: frame_wf_def frame_consts MAC_LENGTH_def)
qed

section \<open>Acceptance\<close>

text \<open>
  A request is accepted only with the first eight bytes of the tag over the chaining value
  and the request itself, and its tag becomes the next chaining value.
\<close>

lemma decrypt_request_accepts:
  assumes "decrypt_request L s q = (Ok inner, s')"
  shows "\<exists>n tag. length (fr_data q) = n + MAC_LENGTH
    \<and> cmac L (ss_mac s) (ss_mac_chaining_value s @ fr_command q # be16 (of_nat (n + MAC_LENGTH))
         @ take n (fr_data q)) = Ok tag
    \<and> take MAC_LENGTH tag = drop n (fr_data q) \<and> s' = s\<lparr>ss_mac_chaining_value := tag\<rparr>"
proof -
  obtain payload s1 where v: "verify_request_mac L s q = (Ok payload, s1)" and s': "s' = s1"
    using assms by (auto simp: decrypt_request_def try_st_def try_in_def split: result.splits if_splits)
      (metis prod.collapse)+
  have "MAC_LENGTH \<le> length (fr_data q)"
    using v by (auto simp: verify_request_mac_def split: if_splits)
  then obtain n where n: "length (fr_data q) = n + MAC_LENGTH" by (metis add.commute le_Suc_ex)
  with v s' verify_request_mac_iff [OF n, of L s payload s1] show ?thesis by auto
qed

text \<open>The tag a host computes for a request is the one the device chains on.\<close>

lemma decrypt_request_tag:
  assumes "decrypt_request L s q = (Ok inner, s\<lparr>ss_mac_chaining_value := tag\<rparr>)"
    "fr_command q = command_code Cmd_SessionMessage"
    "fr_data q = data @ mac" "length mac = MAC_LENGTH"
  shows "host_tag L s data = Ok tag"
proof -
  obtain n tag' where n: "length (fr_data q) = n + MAC_LENGTH"
    "cmac L (ss_mac s) (ss_mac_chaining_value s @ fr_command q # be16 (of_nat (n + MAC_LENGTH))
         @ take n (fr_data q)) = Ok tag'" "s\<lparr>ss_mac_chaining_value := tag\<rparr> = s\<lparr>ss_mac_chaining_value := tag'\<rparr>"
    using decrypt_request_accepts [OF assms(1)] by blast
  have "tag' = tag" using arg_cong [OF n(3), of ss_mac_chaining_value] by simp
  moreover have "n = length data" using n(1) assms(3,4) by simp
  ultimately show ?thesis using n(2) assms(2,3) by (simp only: host_tag_def) simp
qed

text \<open>The shape of a protected response: long enough for a block and the tag, and a well-formed frame.\<close>

lemma encrypt_response_shape:
  assumes "cipher_laws L" "session_keys_wf s" "encrypt_response L s f = (Ok q, s')"
  shows "frame_wf q" "fr_command q = SESSION_MESSAGE_RESPONSE" "1 + BLOCK_SIZE + MAC_LENGTH \<le> length (fr_data q)"
proof -
  obtain iv c where seal: "encrypt_block L (ss_enc s) (ss_counter s) = Ok iv"
    "cbc_encrypt L (ss_enc s) iv (pad L (frame_encode f)) = Ok c" "length c = (length (frame_encode f) div 16 + 1) * 16"
    using cipher_laws_seal [OF assms(1,2), of "frame_encode f"] by blast
  let ?data = "ss_sid s # c"
  obtain tag where tag: "cmac L (ss_rmac s) (ss_mac_chaining_value s @ SESSION_MESSAGE_RESPONSE
      # be16 (of_nat (length ?data + MAC_LENGTH)) @ ?data) = Ok tag" "length tag = 16"
    using cipher_laws_cmac [OF assms(1)] assms(2) unfolding session_keys_wf_def by blast
  have new: "frame_new SESSION_MESSAGE_RESPONSE (?data @ take MAC_LENGTH tag) = Ok q"
    using assms(3) seal tag by (simp add: encrypt_response_def Let_def)
  then have q: "q = \<lparr>fr_command = SESSION_MESSAGE_RESPONSE, fr_data = ?data @ take MAC_LENGTH tag\<rparr>" and "frame_wf q"
    by (auto simp: frame_new_def frame_wf_def split: if_splits)
  then show "frame_wf q" "fr_command q = SESSION_MESSAGE_RESPONSE" by simp_all
  have "16 \<le> length c" using seal(3) by simp
  then show "1 + BLOCK_SIZE + MAC_LENGTH \<le> length (fr_data q)" using q tag(2) by (simp add: BLOCK_SIZE_def MAC_LENGTH_def)
qed

text \<open>The tag a request carries over after it was accepted once.\<close>

lemma replay_verifies_iff:
  assumes n: "length (fr_data q) = n + MAC_LENGTH"
    and first: "verify_request_mac L s q = (Ok payload, s1)"
    and later: "ss_mac s2 = ss_mac s" "ss_mac_chaining_value s2 = ss_mac_chaining_value s1"
  shows "(\<exists>p s3. verify_request_mac L s2 q = (Ok p, s3)) \<longleftrightarrow>
    (\<exists>tag. cmac L (ss_mac s) (ss_mac_chaining_value s1 @ fr_command q # be16 (of_nat (n + MAC_LENGTH))
         @ take n (fr_data q)) = Ok tag \<and> take MAC_LENGTH tag = take MAC_LENGTH (ss_mac_chaining_value s1))"
  using first later unfolding verify_request_mac_iff [OF n] by auto

section \<open>Responses\<close>

lemma encrypt_response_fits_iff:
  assumes laws: "cipher_laws L" and keys: "session_keys_wf s"
  shows "is_ok (fst (encrypt_response L s f)) \<longleftrightarrow> secure_response_fits f"
proof -
  let ?m = "frame_encode f"
  obtain iv c where seal: "encrypt_block L (ss_enc s) (ss_counter s) = Ok iv"
    "cbc_encrypt L (ss_enc s) iv (pad L ?m) = Ok c" "length c = (length ?m div 16 + 1) * 16"
    using cipher_laws_seal [OF laws keys, of ?m] by blast
  let ?data = "ss_sid s # c"
  obtain tag where tag: "cmac L (ss_rmac s) (ss_mac_chaining_value s @ SESSION_MESSAGE_RESPONSE
      # be16 (of_nat (length ?data + MAC_LENGTH)) @ ?data) = Ok tag" "length tag = 16"
    using cipher_laws_cmac [OF laws] keys unfolding session_keys_wf_def by blast
  have "length ?m = 3 + length (fr_data f)" by (simp add: length_frame_encode HEADER_LENGTH_def)
  then have "length c \<le> 8180 \<longleftrightarrow> length (fr_data f) \<le> 8172"
    using padded_length_iff [of "length ?m"] by (simp only: seal(3)) simp
  then show ?thesis
    using seal tag by (auto simp: encrypt_response_def Let_def frame_new_def frame_consts MAC_LENGTH_def
        secure_response_fits_def secure_response_data_fits_iff)
qed

lemma response_round_trip:
  assumes laws: "cipher_laws L" and keys: "session_keys_wf s"
    and fits: "frame_wf f" "encrypt_response L s f = (Ok q, s')"
  shows "host_open L s q = Ok f" "s' = s\<lparr>ss_counter := increment_counter (ss_counter s)\<rparr>"
proof -
  let ?m = "frame_encode f"
  obtain iv c where seal: "encrypt_block L (ss_enc s) (ss_counter s) = Ok iv"
    "cbc_encrypt L (ss_enc s) iv (pad L ?m) = Ok c" "cbc_decrypt L (ss_enc s) iv c = Ok (pad L ?m)"
    using cipher_laws_seal [OF laws keys, of ?m] by blast
  let ?data = "ss_sid s # c"
  obtain tag where tag: "cmac L (ss_rmac s) (ss_mac_chaining_value s @ SESSION_MESSAGE_RESPONSE
      # be16 (of_nat (length ?data + MAC_LENGTH)) @ ?data) = Ok tag" "length tag = 16"
    using cipher_laws_cmac [OF laws] keys unfolding session_keys_wf_def by blast
  have q: "q = \<lparr>fr_command = SESSION_MESSAGE_RESPONSE, fr_data = ?data @ take MAC_LENGTH tag\<rparr>"
    and "s' = s\<lparr>ss_counter := increment_counter (ss_counter s)\<rparr>"
    using fits(2) seal tag by (auto simp: encrypt_response_def Let_def frame_new_def add.assoc split: if_splits)
  then show "s' = s\<lparr>ss_counter := increment_counter (ss_counter s)\<rparr>" by simp
  have n: "length (fr_data q) = length ?data + MAC_LENGTH" using q tag by (simp add: MAC_LENGTH_def)
  have header: "take (3 + length ?data) (frame_encode q)
      = SESSION_MESSAGE_RESPONSE # be16 (of_nat (length ?data + MAC_LENGTH)) @ ?data"
    using take_frame_encode [OF n] by (simp add: q)
  have "length (fr_data q) - MAC_LENGTH = length ?data" using n by simp
  then have "host_open L s q = and_then (unpad L (pad L ?m)) frame_parse"
    unfolding host_open_def Let_def using header tag seal by (simp add: q)
  also have "\<dots> = Ok f" using cipher_laws_pad(2) [OF laws] frame_parse_encode [OF fits(1)] by simp
  finally show "host_open L s q = Ok f" .
qed

section \<open>The counter\<close>

text \<open>The sessions after a sequence of responses.\<close>

fun after_responses :: "'k lib \<Rightarrow> SecureSession \<Rightarrow> Frame list \<Rightarrow> SecureSession" where
  "after_responses L s [] = s"
| "after_responses L s (f # fs) = after_responses L (snd (encrypt_response L s f)) fs"

lemma encrypt_response_counter:
  assumes "encrypt_response L s f = (Ok q, s')"
  shows "be_nat (ss_counter s') = (be_nat (ss_counter s) + 1) mod 256 ^ length (ss_counter s)"
    "length (ss_counter s') = length (ss_counter s)"
  using assms increment_counter_nat [of "ss_counter s"]
  by (auto simp: encrypt_response_def Let_def try_in_def split: result.splits)

lemma after_responses_counter:
  assumes "cipher_laws L" "session_keys_wf s" "\<forall>f \<in> set fs. secure_response_fits f"
  shows "be_nat (ss_counter (after_responses L s fs)) = (be_nat (ss_counter s) + length fs) mod 256 ^ 16"
  using assms(2,3)
proof (induction fs arbitrary: s)
  case Nil
  then show ?case using be_nat_bound [of "ss_counter s"] by (simp add: session_keys_wf_def)
next
  case (Cons f fs)
  obtain q s' where r: "encrypt_response L s f = (Ok q, s')"
    using encrypt_response_fits_iff [OF assms(1) Cons.prems(1), of f] Cons.prems(2)
    unfolding is_ok_iff by (metis list.set_intros(1) prod.collapse)
  have s': "s' = s\<lparr>ss_counter := increment_counter (ss_counter s)\<rparr>"
    using r by (auto simp: encrypt_response_def Let_def try_in_def split: result.splits)
  have "session_keys_wf s'" using Cons.prems(1) by (simp add: s' session_keys_wf_def)
  then have "be_nat (ss_counter (after_responses L s (f # fs))) = (be_nat (ss_counter s') + length fs) mod 256 ^ 16"
    using Cons.IH Cons.prems(2) r by simp
  also have "\<dots> = ((be_nat (ss_counter s) + 1) mod 256 ^ 16 + length fs) mod 256 ^ 16"
    using encrypt_response_counter(1) [OF r] Cons.prems(1) by (simp add: session_keys_wf_def)
  also have "\<dots> = (be_nat (ss_counter s) + length (f # fs)) mod 256 ^ 16"
    by (simp only: mod_add_left_eq) (simp add: ac_simps)
  finally show ?case .
qed

end
