(* ===== verification/Conversation.thy ===== *)
theory Conversation
  imports Guarantees Channel_Protocol
begin

unbundle bit_operations_syntax

text \<open>
  A whole exchange of one session message, host and device together: the host protects a
  command with the keys of the session, the device's engine finds the session, opens the
  request, runs the command and protects the response, and the host opens it. The
  theorems compose the channel (\<^verbatim>\<open>secure_channel.rs\<close>) with the engine (\<^verbatim>\<open>device.rs\<close>).
\<close>

section \<open>One exchange\<close>

text \<open>What the engine computes for a decrypted command, before the response is limited and sealed.\<close>

definition command_outcome ::
  "'k lib \<Rightarrow> 'k env \<Rightarrow> FirmwareProfile \<Rightarrow> hook \<Rightarrow> 'k SessionEntry \<Rightarrow> Frame \<Rightarrow> 'k Device \<Rightarrow>
     Frame res \<times> ('k Device \<times> 'k SessionObjects option)" where
  "command_outcome L E fw hk e inner d =
     (case handled_response hk (se_authorization e) inner of
        Some response \<Rightarrow> (Ok response, (d, Some (se_objects e)))
      | None \<Rightarrow> execute_inner_with_session L E fw (se_authorization e) inner (d, Some (se_objects e)))"

text \<open>The device while it processes a message of session \<open>sid\<close> at time \<open>t\<close>.\<close>

definition in_message :: "nat \<Rightarrow> u8 \<Rightarrow> 'k Device \<Rightarrow> 'k Device" where
  "in_message t sid d = d\<lparr>dv_sessions := bt_remove sid (dv_sessions (expire_inactive_sessions t d))\<rparr>"

text \<open>The session entry that waits for the next message, and whether it is kept.\<close>

definition next_entry :: "nat \<Rightarrow> 'k SessionEntry \<Rightarrow> bytes \<Rightarrow> 'k SessionObjects option \<Rightarrow> 'k SessionEntry" where
  "next_entry t e tag objs =
     e\<lparr>se_last_activity := t,
       se_secure := (se_secure e)\<lparr>ss_mac_chaining_value := tag,
                                 ss_counter := increment_counter (ss_counter (se_secure e))\<rparr>,
       se_objects := (case objs of Some x \<Rightarrow> x | None \<Rightarrow> bt_empty)\<rparr>"

definition session_live :: "nat \<Rightarrow> u8 \<Rightarrow> 'k SessionEntry \<Rightarrow> 'k Device \<Rightarrow> bool" where
  "session_live t sid e d =
     (bt_get (dv_sessions d) sid = Some e \<and> se_authenticated e \<and> session_keys_wf (se_secure e)
      \<and> t - se_last_activity e < SESSION_INACTIVITY_TIMEOUT)"

lemma limit_response_fits [simp]: "secure_response_fits (limit_response f)" "frame_wf (limit_response f)"
  by (auto simp: limit_response_def secure_response_fits_def frame_error_def secure_response_data_fits_iff
      frame_wf_def frame_consts)

lemma expire_keeps:
  "bt_wf (dv_sessions d) \<Longrightarrow> session_live t sid e d \<Longrightarrow>
     bt_get (dv_sessions (expire_inactive_sessions t d)) sid = Some e"
  by (simp add: expire_inactive_sessions_def session_live_def bt.get_retain)

lemma session_envelope:
  "decode_request decode_session_envelope (sid # rest) = Ok (sid, rest)"
  by (simp add: decode_session_envelope_def read_remainder_def reader_new_def)

lemma command_outcome_entry [simp]:
  "command_outcome L E fw hk (e\<lparr>se_secure := s, se_last_activity := t\<rparr>) inner d = command_outcome L E fw hk e inner d"
  by (simp add: command_outcome_def split: option.split)

lemma process_message_outcome:
  assumes "command_outcome L E fw hk e inner d = (Ok response, (d2, objs))"
    "encrypt_response L (se_secure e) (limit_response response) = (Ok outer, s')"
  shows "process_message L E fw hk sid e inner d = (Ok outer,
    if closes_session inner (handled_response hk (se_authorization e) inner \<noteq> None) (limit_response response)
    then d2 else d2\<lparr>dv_sessions := bt_insert sid
      (e\<lparr>se_secure := s', se_objects := (case objs of Some x \<Rightarrow> x | None \<Rightarrow> bt_empty)\<rparr>) (dv_sessions d2)\<rparr>)"
  unfolding process_message_def Let_def assms(1) [unfolded command_outcome_def] by (simp add: assms(2))

lemma exchange_sealed:
  assumes laws: "cipher_laws L" and wf: "device_wf L d" and live: "session_live (now E) sid e d"
    and fits: "frame_wf inner" "length (fr_data inner) \<le> 8172"
    and run: "command_outcome L E fw hk e inner
        (in_message (now E) sid d) = (Ok response, (d2, objs))"
  shows "\<exists>q outer tag s'. host_request L (se_secure e) inner = Ok q
    \<and> decrypt_request L (se_secure e) q = (Ok inner, (se_secure e)\<lparr>ss_mac_chaining_value := tag\<rparr>)
    \<and> encrypt_response L ((se_secure e)\<lparr>ss_mac_chaining_value := tag\<rparr>) (limit_response response) = (Ok outer, s')
    \<and> handle_encoded_with L E fw hk (frame_encode q) d = (Ok (frame_encode outer),
        if closes_session inner (handled_response hk (se_authorization e) inner \<noteq> None) (limit_response response)
        then d2 else d2\<lparr>dv_sessions := bt_insert sid (next_entry (now E) e tag objs) (dv_sessions d2)\<rparr>)"
proof -
  let ?s = "se_secure e"
  have entry: "bt_get (dv_sessions d) sid = Some e" "se_authenticated e" "session_keys_wf ?s"
    using live by (simp_all add: session_live_def)
  have sid: "ss_sid ?s = sid" "bt_wf (dv_sessions d)"
    using wf sessions_wfD [OF _ entry(1)] by (auto simp: device_wf_def session_wf_def sessions_wf_def)
  obtain q tag where q: "host_request L ?s inner = Ok q" "frame_wf q" "fr_command q = command_code Cmd_SessionMessage"
    "decrypt_request L ?s q = (Ok inner, ?s\<lparr>ss_mac_chaining_value := tag\<rparr>)"
    using request_round_trip [OF laws entry(3) fits] by blast
  let ?t = "?s\<lparr>ss_mac_chaining_value := tag\<rparr>"
  have keys: "session_keys_wf ?t" using entry(3) by (simp add: session_keys_wf_def)
  obtain outer s' where outer: "encrypt_response L ?t (limit_response response) = (Ok outer, s')"
    using encrypt_response_fits_iff [OF laws keys, of "limit_response response"]
    unfolding is_ok_iff by (metis limit_response_fits(1) prod.collapse)
  note opened = response_round_trip [OF laws keys limit_response_fits(2) outer]
  obtain rest where rest: "fr_data q = sid # rest"
    using q(1) sid by (auto simp: host_request_def frame_new_def Let_def split: if_splits)
  have cmd: "command_from_byte (fr_command q) = Some Cmd_SessionMessage"
    unfolding q(3) by (rule command_from_code)
  have "process_message L E fw hk sid (e\<lparr>se_secure := ?t, se_last_activity := now E\<rparr>) inner (in_message (now E) sid d)
    = (Ok outer, if closes_session inner (handled_response hk (se_authorization e) inner \<noteq> None) (limit_response response)
        then d2 else d2\<lparr>dv_sessions := bt_insert sid (next_entry (now E) e tag objs) (dv_sessions d2)\<rparr>)"
    using process_message_outcome [of L E fw hk "e\<lparr>se_secure := ?t, se_last_activity := now E\<rparr>" inner
        "in_message (now E) sid d" response d2 objs outer s' sid] run outer opened(2)
    by (simp add: next_entry_def)
  then have "handle_frame_with L E fw hk q d = (Ok outer,
      if closes_session inner (handled_response hk (se_authorization e) inner \<noteq> None) (limit_response response)
        then d2 else d2\<lparr>dv_sessions := bt_insert sid (next_entry (now E) e tag objs) (dv_sessions d2)\<rparr>)"
    using cmd q(4) rest entry(2) expire_keeps [OF sid(2) live]
    by (simp add: handle_frame_with_def session_message_with_def or_error_frame_def session_envelope Let_def
        in_message_def expire_inactive_sessions_def del: decode_request_Ok)
  then show ?thesis
    using q(1,4) frame_parse_encode [OF q(2)] outer by (auto simp: handle_encoded_with_def)
qed

lemma exchange:
  assumes laws: "cipher_laws L" and wf: "device_wf L d" and live: "session_live (now E) sid e d"
    and fits: "frame_wf inner" "length (fr_data inner) \<le> 8172"
    and run: "command_outcome L E fw hk e inner
        (in_message (now E) sid d) = (Ok response, (d2, objs))"
  shows "\<exists>q outer tag. host_request L (se_secure e) inner = Ok q
    \<and> handle_encoded_with L E fw hk (frame_encode q) d = (Ok (frame_encode outer),
        if closes_session inner (handled_response hk (se_authorization e) inner \<noteq> None) (limit_response response)
        then d2 else d2\<lparr>dv_sessions := bt_insert sid (next_entry (now E) e tag objs) (dv_sessions d2)\<rparr>)
    \<and> host_open L ((se_secure e)\<lparr>ss_mac_chaining_value := tag\<rparr>) outer = Ok (limit_response response)"
proof -
  obtain q outer tag s' where x: "host_request L (se_secure e) inner = Ok q"
    "encrypt_response L ((se_secure e)\<lparr>ss_mac_chaining_value := tag\<rparr>) (limit_response response) = (Ok outer, s')"
    "handle_encoded_with L E fw hk (frame_encode q) d = (Ok (frame_encode outer),
        if closes_session inner (handled_response hk (se_authorization e) inner \<noteq> None) (limit_response response)
        then d2 else d2\<lparr>dv_sessions := bt_insert sid (next_entry (now E) e tag objs) (dv_sessions d2)\<rparr>)"
    using exchange_sealed [OF assms] by blast
  have "session_keys_wf ((se_secure e)\<lparr>ss_mac_chaining_value := tag\<rparr>)"
    using live by (simp add: session_live_def session_keys_wf_def)
  from response_round_trip(1) [OF laws this limit_response_fits(2) x(2)] x(1,3) show ?thesis by blast
qed

section \<open>Echo\<close>

text \<open>
  Echo asks for no capability and touches nothing, so an open session always answers it and
  is ready for the next message.
\<close>

lemma echo_byte: "command_from_byte 1 = Some Cmd_Echo"
  using command_from_code [of Cmd_Echo] by simp

lemma echo_outcome:
  assumes "length data \<le> 8172"
  shows "command_outcome L E fw no_hook e \<lparr>fr_command = command_code Cmd_Echo, fr_data = data\<rparr> d
    = (Ok (frame_response (command_code Cmd_Echo) data), (d, Some (se_objects e)))"
proof -
  let ?q = "\<lparr>fr_command = command_code Cmd_Echo, fr_data = data\<rparr>"
  have "decode_request decode_remainder data = Ok data"
    by (simp add: decode_remainder_def read_remainder_def)
  then have "execute_inner_result L E fw au ?q (d, t) = (Ok data, (d, t))" for au t
    by (simp add: execute_inner_result_def execute_plain_or_authenticated_def echo_byte del: decode_request_Ok)
  moreover have "handled_response no_hook (se_authorization e) ?q = None"
    by (simp add: handled_response_def no_hook_def required_session_capability_def echo_byte)
  moreover have "secure_response_data_fits (length data)" using assms by (simp add: secure_response_data_fits_iff)
  ultimately show ?thesis
    by (auto simp: command_outcome_def execute_inner_with_session_def Let_def blocked_by_full_log_def
        supported_command_def echo_byte command_is_meta_def should_audit_def command_can_be_audited_def finish_command_def
        command_changes_persistent_state_def split: option.splits if_splits)
qed

lemma echo_exchange:
  assumes laws: "cipher_laws L" and wf: "device_wf L d" and live: "session_live (now E) sid e d"
    and len: "length data \<le> 8172"
  shows "\<exists>q outer tag. host_request L (se_secure e) \<lparr>fr_command = command_code Cmd_Echo, fr_data = data\<rparr> = Ok q
    \<and> handle_encoded L E fw (frame_encode q) d = (Ok (frame_encode outer),
        (in_message (now E) sid d)\<lparr>dv_sessions := bt_insert sid (next_entry (now E) e tag (Some (se_objects e)))
           (dv_sessions (in_message (now E) sid d))\<rparr>)
    \<and> host_open L ((se_secure e)\<lparr>ss_mac_chaining_value := tag\<rparr>) outer
        = Ok (frame_response (command_code Cmd_Echo) data)"
proof -
  let ?inner = "\<lparr>fr_command = command_code Cmd_Echo, fr_data = data\<rparr>"
  have "frame_wf ?inner" using len by (simp add: frame_wf_def frame_consts)
  moreover have "secure_response_fits (frame_response (command_code Cmd_Echo) data)"
    using len by (simp add: secure_response_fits_def frame_response_def secure_response_data_fits_iff)
  then have "limit_response (frame_response (command_code Cmd_Echo) data) = frame_response (command_code Cmd_Echo) data"
    by (simp add: limit_response_def)
  moreover have "\<not> closes_session ?inner b f" for b f by (simp add: closes_session_def echo_byte)
  ultimately show ?thesis
    using exchange [OF laws wf live, of ?inner fw no_hook] len echo_outcome [OF len, of L E fw e]
    unfolding handle_encoded_def by simp
qed

end
