(* ===== verification/Persistence.thy ===== *)
theory Persistence
  imports Guarantees
begin

unbundle bit_operations_syntax

text \<open>
  Durable state (\<^verbatim>\<open>persistent_state\<close> and \<^verbatim>\<open>from_persistent_state\<close> in \<^verbatim>\<open>device.rs\<close>) and the
  runtime that owns a persistent device (\<^verbatim>\<open>persistent_runtime.rs\<close>). The CBOR encoding of the
  state structure is generated by a library and is a parameter, a pair of a writer and a
  reader; so are the state file and the background writer.
\<close>

section \<open>The stored image\<close>

definition PERSISTENT_STATE_SCHEMA :: string where "PERSISTENT_STATE_SCHEMA = ''virtual-yubihsm-state''"
definition PERSISTENT_STATE_VERSION :: u16 where "PERSISTENT_STATE_VERSION = 3"

record PersistentState =
  ps_schema :: string
  ps_version :: u16
  ps_config :: DeviceConfig
  ps_objects :: "StoredObjectRecord list"
  ps_device_static_private :: bytes
  ps_state_epoch :: u64
  ps_sequence_history :: "(u16, u64) btree"
  ps_options :: DeviceOptions
  ps_audit :: AuditState

text \<open>\<^verbatim>\<open>ciborium::into_writer\<close> and \<^verbatim>\<open>ciborium::from_reader\<close> with the position it stops at.\<close>

type_synonym state_writer = "PersistentState \<Rightarrow> bytes option"
type_synonym state_reader = "bytes \<Rightarrow> (PersistentState \<times> nat) option"

primrec collect_stored :: "'k lib \<Rightarrow> 'k ObjectRecord list \<Rightarrow> StoredObjectRecord list res" where
  "collect_stored L [] = Ok []"
| "collect_stored L (r # rs) =
     and_then (to_stored L r) (\<lambda>s. and_then (collect_stored L rs) (\<lambda>ss. Ok (s # ss)))"

definition persistent_state :: "'k lib \<Rightarrow> state_writer \<Rightarrow> 'k Device \<Rightarrow> bytes res" where
  "persistent_state L W d =
     and_then (collect_stored L (bt_values (dv_objects d))) (\<lambda>objects.
     and_then (ok_or (key_serialized L (dv_static_private d)) StorageFailed) (\<lambda>key.
     and_then (if length key = 32 then Ok key else Err StorageFailed) (\<lambda>key.
     ok_or (W \<lparr>ps_schema = PERSISTENT_STATE_SCHEMA, ps_version = PERSISTENT_STATE_VERSION,
               ps_config = dv_config d, ps_objects = objects, ps_device_static_private = key,
               ps_state_epoch = dv_state_epoch d, ps_sequence_history = dv_sequence_history d,
               ps_options = dv_options d, ps_audit = dv_audit d\<rparr>) StorageFailed)))"

section \<open>Restoring\<close>

definition version_two_object_length :: "'k lib \<Rightarrow> 'k ObjectRecord \<Rightarrow> nat res" where
  "version_two_object_length L r =
     (let algorithm = algorithm_from_byte (oi_algorithm (or_info r)) in
      case oi_object_type (or_info r) of
        Ty_AsymmetricKey \<Rightarrow> (case algorithm of
            Some a \<Rightarrow> if a = Alg_Ed25519 then Ok 64 else ok_or (asymmetric_object_length a) InvalidData
          | None \<Rightarrow> Err InvalidData)
      | Ty_WrapKey \<Rightarrow> (case algorithm of
            Some a \<Rightarrow> if is_rsa_key a then ok_or (asymmetric_object_length a) InvalidData
                      else Ok (material_len L (or_material r))
          | None \<Rightarrow> Ok (material_len L (or_material r)))
      | _ \<Rightarrow> Ok (material_len L (or_material r)))"

text \<open>Migration of an object written by an older version: check the old length, then renew it.\<close>

definition migrate_object ::
  "'k lib \<Rightarrow> u16 \<Rightarrow> StoredObjectRecord \<Rightarrow> 'k ObjectRecord \<Rightarrow> 'k ObjectRecord res" where
  "migrate_object L stored_version stored r =
     (if stored_version < PERSISTENT_STATE_VERSION then
        and_then (if stored_version = 1 then Ok (stored_len (so_material stored))
                  else if stored_version = 2 then version_two_object_length L r
                  else Err InvalidData) (\<lambda>previous_length.
        if unat (oi_length (or_info r)) \<noteq> previous_length then Err InvalidData
        else normalize_info_length L r)
      else Ok r)"

definition restore_object :: "'k lib \<Rightarrow> u16 \<Rightarrow> StoredObjectRecord \<Rightarrow> 'k ObjectRecord res" where
  "restore_object L stored_version stored =
     and_then (from_stored L stored) (\<lambda>r.
     and_then (migrate_object L stored_version stored r) (\<lambda>r.
     and_then (record_validate L r) (\<lambda>_. Ok r)))"

primrec restore_objects ::
  "'k lib \<Rightarrow> u16 \<Rightarrow> StoredObjectRecord list \<Rightarrow> (ObjectKey, 'k ObjectRecord) btree \<Rightarrow>
     (ObjectKey, 'k ObjectRecord) btree res" where
  "restore_objects L v [] objects = Ok objects"
| "restore_objects L v (stored # rest) objects =
     and_then (restore_object L v stored) (\<lambda>r.
     let key = info_key (or_info r) in
     if bt_contains objects key then Err InvalidData
     else restore_objects L v rest (bt_insert key r objects))"

definition state_acceptable :: "DeviceConfig \<Rightarrow> PersistentState \<Rightarrow> bool" where
  "state_acceptable config state =
     (ps_schema state = PERSISTENT_STATE_SCHEMA
      \<and> ps_version state \<in> {1, 2, PERSISTENT_STATE_VERSION}
      \<and> cf_serial (ps_config state) = cf_serial config
      \<and> length (as_entries (ps_audit state)) \<le> unat (cf_log_capacity config)
      \<and> valid_option_value (op_force_audit (ps_options state))
      \<and> valid_option_value (op_fips_mode (ps_options state))
      \<and> list_all valid_option_value (bt_values (op_command_audit (ps_options state)))
      \<and> list_all valid_option_value (bt_values (op_algorithm_toggle (ps_options state))))"

definition from_persistent_state ::
  "'k lib \<Rightarrow> state_reader \<Rightarrow> DeviceConfig \<Rightarrow> bytes \<Rightarrow> 'k Device res" where
  "from_persistent_state L R config encoded =
     and_then (ok_or (R encoded) InvalidData) (\<lambda>(state, position).
     if position \<noteq> length encoded \<or> \<not> state_acceptable config state then Err InvalidData
     else
       and_then (ok_or (key_from_serialized_for_kind L (Kind_Ec P256) (ps_device_static_private state))
                   InvalidData) (\<lambda>device_static_private.
       if \<not> history_validate (ps_sequence_history state) then Err InvalidData
       else
         and_then (restore_objects L (ps_version state) (ps_objects state) bt_empty) (\<lambda>objects.
         Ok \<lparr>dv_config = config, dv_objects = objects, dv_sessions = bt_empty,
             dv_static_private = device_static_private, dv_state_epoch = ps_state_epoch state,
             dv_sequence_history = ps_sequence_history state, dv_options = ps_options state,
             dv_audit = ps_audit state, dv_persistent_change = False\<rparr>)))"

section \<open>What a restored device satisfies\<close>

lemma promoted_iff:
  "promote_private_material L r = Ok r \<longleftrightarrow> \<not> (holds_private_key (or_info r) \<and> (\<exists>v. or_material r = Mat_Secret v))"
proof -
  have "r\<lparr>or_material := m\<rparr> \<noteq> r" if "typed_private_material L (or_info r) v = Ok m" "or_material r = Mat_Secret v" for v m
    using typed_material_not_secret [OF that(1)] that(2) by (metis ObjectRecord.select_convs(2) ObjectRecord.surjective ObjectRecord.update_convs(2))
  then show ?thesis
    by (auto simp: promote_private_material_def split: ObjectMaterial.splits)
qed

lemma from_stored_promoted: "from_stored L s = Ok r \<Longrightarrow> promote_private_material L r = Ok r"
  unfolding promoted_iff
  by (auto simp: from_stored_def typed_material_not_secret split: StoredObjectMaterial.splits if_splits)

lemma from_stored_info: "from_stored L s = Ok r \<Longrightarrow> or_info r = so_info s"
  by (auto simp: from_stored_def)

lemma normalize_promoted:
  "normalize_info_length L r = Ok r' \<Longrightarrow> promote_private_material L r = Ok r \<Longrightarrow>
     promote_private_material L r' = Ok r'"
  unfolding promoted_iff by (auto simp: normalize_info_length_def holds_private_key_def)

lemma restore_object_Ok:
  assumes "restore_object L v s = Ok r" "info_wf (so_info s)"
  shows "record_wf L r"
proof -
  obtain r0 where r0: "from_stored L s = Ok r0" "migrate_object L v s r0 = Ok r" "record_validate L r = Ok ()"
    using assms(1) by (auto simp: restore_object_def)
  have "promote_private_material L r = Ok r" "info_wf (or_info r) = info_wf (or_info r0)"
    using r0(2) from_stored_promoted [OF r0(1)] normalize_promoted [of L r0 r] normalize_wf [of L r0 r]
    by (auto simp: migrate_object_def split: if_splits)
  then show ?thesis using r0 assms(2) from_stored_info [OF r0(1)] by (simp add: record_wf_def)
qed

lemma restore_objects_wf:
  assumes "restore_objects L v ss objs = Ok objs'" "list_all (\<lambda>s. info_wf (so_info s)) ss" "bt_wf objs"
    "bt.all_of (\<lambda>k r. k = info_key (or_info r) \<and> record_wf L r) objs"
  shows "bt_wf objs' \<and> bt.all_of (\<lambda>k r. k = info_key (or_info r) \<and> record_wf L r) objs'"
  using assms
proof (induction ss arbitrary: objs)
  case (Cons s ss)
  then obtain r where r: "restore_object L v s = Ok r"
    "restore_objects L v ss (bt_insert (info_key (or_info r)) r objs) = Ok objs'"
    by (auto simp: Let_def split: if_splits)
  have "record_wf L r" using restore_object_Ok [OF r(1)] Cons.prems(2) by simp
  then show ?case using Cons.IH [OF r(2)] Cons.prems by (simp add: bt.wf_insert bt.all_of_insert)
qed simp

section \<open>Saving and restoring\<close>

text \<open>The laws of the key library: a key that was read from bytes can be written and read again.\<close>

definition serialized_law :: "'k lib \<Rightarrow> bool" where
  "serialized_law L = (\<forall>kind bs k. key_from_serialized_for_kind L kind bs = Some k \<longrightarrow>
     (\<exists>bs'. key_serialized L k = Some bs' \<and> key_from_serialized_for_kind L kind bs' = Some k))"

definition rsa_primes_law :: "'k lib \<Rightarrow> bool" where
  "rsa_primes_law L = (\<forall>p q e k. key_restore_rsa_primes L p q e = Some k \<longrightarrow>
     (\<exists>p' q' x. key_rsa_crt_components L k = Some (p', q', x) \<and> length p' \<le> length p \<and> length q' \<le> length q
        \<and> key_restore_rsa_primes L (replicate (length p - length p') 0 @ p')
            (replicate (length q - length q') 0 @ q') e = Some k))"

definition agreement_key_law :: "'k lib \<Rightarrow> bool" where
  "agreement_key_law L =
     ((\<forall>c bs k. montgomery_from_serialized L c bs = Some k \<longrightarrow>
         montgomery_from_serialized L c (montgomery_serialized L k) = Some k)
      \<and> (\<forall>p bs k. ml_kem_from_serialized L p bs = Some k \<longrightarrow>
         ml_kem_from_serialized L p (ml_kem_serialized L k) = Some k)
      \<and> (\<forall>c bs k. hybrid_from_seed L c bs = Some k \<longrightarrow> hybrid_from_seed L c (hybrid_seed L k) = Some k))"

definition key_storage_laws :: "'k lib \<Rightarrow> bool" where
  "key_storage_laws L = (serialized_law L \<and> rsa_primes_law L \<and> agreement_key_law L)"

text \<open>A record whose private key, if it holds one, is one its own algorithm reads from bytes.\<close>

definition record_typed :: "'k lib \<Rightarrow> 'k ObjectRecord \<Rightarrow> bool" where
  "record_typed L r =
     (if holds_private_key (or_info r) \<and> (\<forall>a n k v. or_material r \<notin> {Mat_Authentication a, Mat_Opaque v,
           Mat_Public v, Mat_OtpAeadKey n k})
      then \<exists>bs. typed_private_material L (or_info r) bs = Ok (or_material r)
      else case or_material r of
          Mat_SigningKey _ \<Rightarrow> False | Mat_MontgomeryKey _ \<Rightarrow> False | Mat_MlKemKey _ \<Rightarrow> False
        | Mat_HybridKemKey _ \<Rightarrow> False | _ \<Rightarrow> True)"

lemma typed_private_restores:
  assumes laws: "key_storage_laws L" and typed: "typed_private_material L info bs = Ok m"
  shows "\<exists>bs'. to_stored L \<lparr>or_info = info, or_material = m\<rparr> = Ok \<lparr>so_info = info, so_material = Stored_Secret bs'\<rparr>
    \<and> typed_private_material L info bs' = Ok m"
proof -
  obtain a where a: "algorithm_from_byte (oi_algorithm info) = Some a"
    using typed by (auto simp: typed_private_material_def)
  show ?thesis
  proof (cases "algorithm_ml_kem a = None \<and> algorithm_hybrid_kem a = None \<and> a \<noteq> Alg_X25519 \<and> a \<noteq> Alg_X448")
    case True
    show ?thesis
    proof (cases "is_rsa_key a")
      case rsa: True
      then obtain n k where n: "asymmetric_key_length a = Some n" "length bs = n" "n mod 2 = 0"
        and k: "key_restore_rsa_primes L (take (n div 2) bs) (drop (n div 2) bs) [1, 0, 1] = Some k"
        and m: "m = Mat_SigningKey k"
        using typed a True by (auto simp: typed_private_material_def split: if_splits)
      obtain h where h: "n = 2 * h" using n(3) by (metis mod_0_imp_dvd dvdE)
      have lens: "length (take h bs) = h" "length (drop h bs) = h" using n(2) h by simp_all
      have k': "key_restore_rsa_primes L (take h bs) (drop h bs) [1, 0, 1] = Some k" using k h by simp
      have "rsa_primes_law L" using laws by (simp add: key_storage_laws_def)
      from this [unfolded rsa_primes_law_def, rule_format, OF k', unfolded lens]
      obtain p q x where pq: "key_rsa_crt_components L k = Some (p, q, x)" "length p \<le> h" "length q \<le> h"
        "key_restore_rsa_primes L (replicate (h - length p) 0 @ p) (replicate (h - length q) 0 @ q) [1, 0, 1] = Some k"
        by blast
      let ?bs = "(replicate (h - length p) 0 @ p) @ (replicate (h - length q) 0 @ q)"
      have "length ?bs = n" using pq h by simp
      moreover have "take h ?bs = replicate (h - length p) 0 @ p" "drop h ?bs = replicate (h - length q) 0 @ q"
        using pq by simp_all
      ultimately have "typed_private_material L info ?bs = Ok m"
        using a True rsa n(1) pq(4) m h by (simp add: typed_private_material_def del: append_assoc)
      moreover have "to_stored L \<lparr>or_info = info, or_material = m\<rparr>
          = Ok \<lparr>so_info = info, so_material = Stored_Secret ?bs\<rparr>"
        using a rsa n(1) pq m h by (cases x) (simp add: to_stored_def left_pad_def)
      ultimately show ?thesis by blast
    next
      case ec: False
      then obtain kind k where kind: "object_key_kind a = Ok kind"
        "key_from_serialized_for_kind L kind bs = Some k" "m = Mat_SigningKey k"
        using typed a True by (auto simp: typed_private_material_def)
      then obtain bs' where "key_serialized L k = Some bs'" "key_from_serialized_for_kind L kind bs' = Some k"
        using laws unfolding key_storage_laws_def serialized_law_def by blast
      then show ?thesis using a True ec kind by (auto simp: typed_private_material_def to_stored_def)
    qed
  next
    case False
    with typed a laws show ?thesis
      by (auto simp: typed_private_material_def to_stored_def key_storage_laws_def agreement_key_law_def Let_def
          split: option.splits if_splits)
  qed
qed

lemma stored_restores:
  assumes "key_storage_laws L" "record_typed L r"
  shows "\<exists>s. to_stored L r = Ok s \<and> from_stored L s = Ok r \<and> so_info s = or_info r"
proof (cases "holds_private_key (or_info r) \<and> (\<exists>bs. typed_private_material L (or_info r) bs = Ok (or_material r))")
  case True
  then obtain bs where "to_stored L r = Ok \<lparr>so_info = or_info r, so_material = Stored_Secret bs\<rparr>"
    "typed_private_material L (or_info r) bs = Ok (or_material r)"
    using typed_private_restores [OF assms(1), of "or_info r" _ "or_material r"] by (cases r) auto
  with True show ?thesis by (cases r) (auto simp: from_stored_def)
next
  case False
  with assms(2) show ?thesis
    by (cases r) (auto simp: record_typed_def to_stored_def from_stored_def split: if_splits ObjectMaterial.splits)
qed

lemma from_stored_typed: "from_stored L s = Ok r \<Longrightarrow> record_typed L r"
  by (cases "so_material s") (auto simp: from_stored_def record_typed_def split: if_splits ObjectMaterial.splits)

lemma bt_insert_last: "bt_wf (m @ [(k, v)]) \<Longrightarrow> bt_insert k v m = m @ [(k, v)]"
  by (induction m) (auto simp: bt_wf_def sorted_wrt_append)

lemma bt_wf_appendD: "bt_wf (m @ m') \<Longrightarrow> bt_wf m"
  by (simp add: bt_wf_def sorted_wrt_append)

lemma restore_objects_stored:
  assumes laws: "key_storage_laws L" and wf: "bt_wf (acc @ objs)"
    and recs: "\<forall>(k, r) \<in> set objs. k = info_key (or_info r) \<and> record_wf L r \<and> record_typed L r"
  shows "\<exists>ss. collect_stored L (bt_values objs) = Ok ss
    \<and> restore_objects L PERSISTENT_STATE_VERSION ss acc = Ok (acc @ objs)"
  using wf recs
proof (induction objs arbitrary: acc)
  case (Cons e objs)
  obtain k r where e: "e = (k, r)" by (cases e)
  with Cons.prems(2) have r: "k = info_key (or_info r)" "record_wf L r" "record_typed L r" by auto
  obtain s where s: "to_stored L r = Ok s" "from_stored L s = Ok r"
    using stored_restores [OF laws r(3)] by blast
  have acc: "bt_wf (acc @ [(k, r)])" using Cons.prems(1) e bt_wf_appendD [of "acc @ [e]" objs] by simp
  then have fresh: "bt_get acc k = None"
    by (auto simp: bt_wf_def sorted_wrt_append bt_get_def map_of_eq_None_iff)
  have last: "bt_insert k r acc = acc @ [(k, r)]" using acc by (rule bt_insert_last)
  obtain ss where ss: "collect_stored L (bt_values objs) = Ok ss"
    "restore_objects L PERSISTENT_STATE_VERSION ss (acc @ [(k, r)]) = Ok ((acc @ [(k, r)]) @ objs)"
    using Cons.IH [of "acc @ [(k, r)]"] Cons.prems e by auto
  have "restore_object L PERSISTENT_STATE_VERSION s = Ok r"
    using s(2) r(2) by (simp add: restore_object_def migrate_object_def record_wf_def)
  then have "restore_objects L PERSISTENT_STATE_VERSION (s # ss) acc = Ok (acc @ e # objs)"
    using ss(2) fresh last r(1) e by simp
  then show ?case using ss(1) s(1) e by (auto simp: bt_values_def)
qed (simp add: bt_values_def)

text \<open>The laws of the state codec and the device key.\<close>

definition state_codec_law :: "state_writer \<Rightarrow> state_reader \<Rightarrow> bool" where
  "state_codec_law W R = (\<forall>state bs. W state = Some bs \<longrightarrow> R bs = Some (state, length bs))"

definition store_typed :: "'k lib \<Rightarrow> 'k Device \<Rightarrow> bool" where
  "store_typed L d = (list_all (record_typed L) (bt_values (dv_objects d))
     \<and> (\<exists>key. key_serialized L (dv_static_private d) = Some key \<and> length key = 32
          \<and> key_from_serialized_for_kind L (Kind_Ec P256) key = Some (dv_static_private d)))"

text \<open>A power cycle: the volatile part is gone, the running firmware's configuration is in force.\<close>

definition power_cycled :: "DeviceConfig \<Rightarrow> 'k Device \<Rightarrow> 'k Device" where
  "power_cycled config d = d\<lparr>dv_config := config, dv_sessions := bt_empty, dv_persistent_change := False\<rparr>"

lemma options_wf_values:
  assumes "options_wf opts"
  shows "list_all valid_option_value (bt_values (op_command_audit opts))"
    "list_all valid_option_value (bt_values (op_algorithm_toggle opts))"
  using assms
  by (auto simp: options_wf_def command_audit_wf_def algorithm_toggle_wf_def bt.all_of_entries bt_values_def
      list_all_iff)

lemma save_restore:
  assumes wf: "device_wf L d" and typed: "store_typed L d"
    and laws: "key_storage_laws L" "state_codec_law W R"
    and config: "cf_serial config = cf_serial (dv_config d)"
      "length (as_entries (dv_audit d)) \<le> unat (cf_log_capacity config)"
  shows "\<exists>state. persistent_state L W d = ok_or (W state) StorageFailed
    \<and> (\<forall>image. W state = Some image \<longrightarrow> from_persistent_state L R config image = Ok (power_cycled config d))"
proof -
  let ?objs = "dv_objects d"
  have store: "bt_wf ?objs" "history_validate (dv_sequence_history d)" "options_wf (dv_options d)"
    using wf by (simp_all add: device_wf_def core_wf_def store_wf_def)
  have "\<forall>(k, r) \<in> set ?objs. k = info_key (or_info r) \<and> record_wf L r \<and> record_typed L r"
    using wf typed store(1)
    by (auto simp: device_wf_def core_wf_def store_wf_def bt.all_of_entries store_typed_def list_all_iff bt_values_def)
  then obtain ss where ss: "collect_stored L (bt_values ?objs) = Ok ss"
    "restore_objects L PERSISTENT_STATE_VERSION ss bt_empty = Ok ?objs"
    using restore_objects_stored [OF laws(1), of bt_empty ?objs] store(1) by (auto simp: bt_empty_def)
  obtain key where key: "key_serialized L (dv_static_private d) = Some key" "length key = 32"
    "key_from_serialized_for_kind L (Kind_Ec P256) key = Some (dv_static_private d)"
    using typed by (auto simp: store_typed_def)
  let ?state = "\<lparr>ps_schema = PERSISTENT_STATE_SCHEMA, ps_version = PERSISTENT_STATE_VERSION,
     ps_config = dv_config d, ps_objects = ss, ps_device_static_private = key,
     ps_state_epoch = dv_state_epoch d, ps_sequence_history = dv_sequence_history d,
     ps_options = dv_options d, ps_audit = dv_audit d\<rparr>"
  have image: "R image = Some (?state, length image)" if "W ?state = Some image" for image
    using laws(2) that unfolding state_codec_law_def by blast
  have "state_acceptable config ?state"
    using config options_wf_values [OF store(3)] store(3) by (simp add: state_acceptable_def options_wf_def)
  then have "from_persistent_state L R config image = Ok (power_cycled config d)" if "W ?state = Some image" for image
    using image [OF that] key(3) store(2) ss(2) by (simp add: from_persistent_state_def power_cycled_def)
  moreover have "persistent_state L W d = ok_or (W ?state) StorageFailed"
    using ss(1) key by (simp add: persistent_state_def)
  ultimately show ?thesis by blast
qed

text \<open>What restoring establishes on its own, whatever the image holds.\<close>

definition restored_ok :: "'k lib \<Rightarrow> DeviceConfig \<Rightarrow> 'k Device \<Rightarrow> bool" where
  "restored_ok L config d =
     (dv_config d = config \<and> dv_sessions d = bt_empty \<and> \<not> dv_persistent_change d \<and> log_bounded d
      \<and> valid_option_value (op_force_audit (dv_options d)) \<and> valid_option_value (op_fips_mode (dv_options d))
      \<and> list_all valid_option_value (bt_values (op_command_audit (dv_options d)))
      \<and> list_all valid_option_value (bt_values (op_algorithm_toggle (dv_options d)))
      \<and> history_validate (dv_sequence_history d) \<and> bt_wf (dv_objects d)
      \<and> bt.all_of (\<lambda>k r. k = info_key (or_info r) \<and> record_validate L r = Ok ()
           \<and> promote_private_material L r = Ok r) (dv_objects d))"

lemma restore_object_valid:
  assumes "restore_object L v s = Ok r"
  shows "record_validate L r = Ok () \<and> promote_private_material L r = Ok r"
proof -
  obtain r0 where r0: "from_stored L s = Ok r0" "migrate_object L v s r0 = Ok r" "record_validate L r = Ok ()"
    using assms by (auto simp: restore_object_def)
  then show ?thesis
    using from_stored_promoted [OF r0(1)] normalize_promoted [of L r0 r]
    by (auto simp: migrate_object_def split: if_splits)
qed

lemma restore_objects_valid:
  assumes "restore_objects L v ss objs = Ok objs'" "bt_wf objs"
    "bt.all_of (\<lambda>k r. k = info_key (or_info r) \<and> record_validate L r = Ok () \<and> promote_private_material L r = Ok r) objs"
  shows "bt_wf objs' \<and> bt.all_of (\<lambda>k r. k = info_key (or_info r) \<and> record_validate L r = Ok ()
    \<and> promote_private_material L r = Ok r) objs'"
  using assms
proof (induction ss arbitrary: objs)
  case (Cons s ss)
  then obtain r where r: "restore_object L v s = Ok r"
    "restore_objects L v ss (bt_insert (info_key (or_info r)) r objs) = Ok objs'"
    by (auto simp: Let_def split: if_splits)
  then show ?case using Cons.IH [OF r(2)] Cons.prems restore_object_valid [OF r(1)]
    by (simp add: bt.wf_insert bt.all_of_insert)
qed simp

lemma from_persistent_state_Ok:
  assumes "from_persistent_state L R config encoded = Ok d"
  shows "restored_ok L config d"
    "\<exists>state. R encoded = Some (state, length encoded) \<and> cf_serial (ps_config state) = cf_serial config"
proof -
  obtain state objs where st: "R encoded = Some (state, length encoded)" "state_acceptable config state"
    "history_validate (ps_sequence_history state)"
    "restore_objects L (ps_version state) (ps_objects state) bt_empty = Ok objs"
    and d: "dv_objects d = objs" "dv_options d = ps_options state" "dv_audit d = ps_audit state"
      "dv_config d = config" "dv_sessions d = bt_empty" "dv_sequence_history d = ps_sequence_history state"
      "\<not> dv_persistent_change d"
    using assms by (auto simp: from_persistent_state_def split: if_splits)
  show "restored_ok L config d"
    using st d restore_objects_valid [OF st(4)]
    by (simp add: restored_ok_def state_acceptable_def log_bounded_def bt.wf_empty)
  show "\<exists>state. R encoded = Some (state, length encoded) \<and> cf_serial (ps_config state) = cf_serial config"
    using st by (auto simp: state_acceptable_def)
qed

text \<open>A device restored from any image keeps saving and restoring exactly.\<close>

lemma restore_objects_typed:
  assumes "restore_objects L PERSISTENT_STATE_VERSION ss objs = Ok objs'"
    "bt.all_of (\<lambda>_ r. record_typed L r) objs"
  shows "bt.all_of (\<lambda>_ r. record_typed L r) objs'"
  using assms
proof (induction ss arbitrary: objs)
  case (Cons s ss)
  then obtain r where r: "restore_object L PERSISTENT_STATE_VERSION s = Ok r"
    "restore_objects L PERSISTENT_STATE_VERSION ss (bt_insert (info_key (or_info r)) r objs) = Ok objs'"
    by (auto simp: Let_def split: if_splits)
  have "record_typed L r" using r(1) from_stored_typed by (auto simp: restore_object_def migrate_object_def)
  then show ?case using Cons.IH [OF r(2)] Cons.prems by (simp add: bt.all_of_insert)
qed simp

section \<open>The runtime\<close>

text \<open>
  Outcomes of the runtime's \<^verbatim>\<open>io::Result\<close>s, named after the step that failed. The background
  writer is a parameter: whether it is healthy before and after, the ticket it issues for a
  mutation of the current state, and whether that ticket is acknowledged as durable.
\<close>

datatype io_error = Io_Unhealthy | Io_Epoch | Io_Record | Io_NotDurable | Io_Read | Io_InvalidData | Io_Encode | Io_Write

record 'k writer =
  wr_healthy :: bool
  wr_record :: "'k Device \<Rightarrow> nat option"
  wr_wait :: "nat \<Rightarrow> bool"
  wr_healthy_after :: bool

definition io_result :: "io_error \<Rightarrow> 'a res \<Rightarrow> ('a, io_error) result" where
  "io_result cause r = map_err (\<lambda>_. cause) r"

lemma io_result_Ok [simp]: "io_result cause r = Ok x \<longleftrightarrow> r = Ok x"
  by (cases r) (simp_all add: io_result_def)

text \<open>\<^verbatim>\<open>PersistentDeviceHandle::execute_observing\<close>; the observer cannot change the device.\<close>

definition persistent_execute ::
  "'k lib \<Rightarrow> 'k env \<Rightarrow> FirmwareProfile \<Rightarrow> 'k writer \<Rightarrow> bytes \<Rightarrow> 'k Device \<Rightarrow>
     (bytes, io_error) result \<times> 'k Device" where
  "persistent_execute L E fw w encoded d =
     (if \<not> wr_healthy w then (Err Io_Unhealthy, d)
      else
        let m = handle_encoded L E fw encoded d in
        try_in (io_result Io_Unhealthy (fst m)) (snd m) (\<lambda>response.
        let c = take_persistent_change (snd m) in
        try_in (io_result Io_Epoch (fst c)) (snd c) (\<lambda>changed.
        if changed then
          try_in (ok_or (wr_record w (snd c)) Io_Record) (snd c) (\<lambda>ticket.
          if wr_wait w ticket then (Ok response, snd c) else (Err Io_NotDurable, snd c))
        else if wr_healthy_after w then (Ok response, snd c)
        else (Err Io_Unhealthy, snd c))))"

datatype file_read = File_Contents bytes | File_NotFound | File_Error

definition encode_state :: "'k lib \<Rightarrow> state_writer \<Rightarrow> 'k Device \<Rightarrow> (bytes, io_error) result" where
  "encode_state L W d = io_result Io_Encode (persistent_state L W d)"

text \<open>
  \<^verbatim>\<open>load_or_create_state\<close>: what the file system reports is a parameter, and so is whether the
  new image could be written. The result carries the image written, if any.
\<close>

definition load_or_create_state ::
  "'k lib \<Rightarrow> 'k env \<Rightarrow> state_writer \<Rightarrow> state_reader \<Rightarrow> file_read \<Rightarrow> (bytes \<Rightarrow> bool) \<Rightarrow> DeviceConfig \<Rightarrow>
     ('k Device \<times> bytes option, io_error) result" where
  "load_or_create_state L E W R file written config = (case file of
       File_Contents encoded \<Rightarrow>
         and_then (io_result Io_InvalidData (from_persistent_state L R config encoded)) (\<lambda>d. Ok (d, None))
     | File_NotFound \<Rightarrow>
         and_then (io_result Io_InvalidData (factory_default L E config)) (\<lambda>d.
         and_then (encode_state L W d) (\<lambda>image.
         if written image then Ok (d, Some image) else Err Io_Write))
     | File_Error \<Rightarrow> Err Io_Read)"

text \<open>Devices with the same durable state.\<close>

definition same_durable :: "'k Device \<Rightarrow> 'k Device \<Rightarrow> bool" where
  "same_durable d d' = (same_store d d' \<and> dv_audit d' = dv_audit d)"

lemma message_unflagged:
  assumes "message_effect L d d'" "\<not> dv_persistent_change d'"
  shows "same_durable d d'"
  using assms(1)
proof cases
  case idle
  then show ?thesis using bookkeeping_store [OF idle] bookkeeping_flag(2) [OF idle] assms(2) by (simp add: same_durable_def)
next
  case (command sid e ss d2)
  then have "d2 = d\<lparr>dv_sessions := ss\<rparr>" using assms(2) by simp
  with command(4) have book: "bookkeeping L d d'" by (auto intro: bookkeeping_from_sessions)
  show ?thesis using bookkeeping_store [OF book] bookkeeping_flag(2) [OF book] assms(2) by (simp add: same_durable_def)
qed

lemma unat_u64_MAX: "unat (2 ^ 64 - 1 :: u64) = 2 ^ 64 - 1"
  by simp

lemma take_persistent_change_Ok:
  assumes "take_persistent_change d = (Ok changed, d')"
  shows "\<not> dv_persistent_change d'"
    "if changed then dv_state_epoch d' = dv_state_epoch d + 1 \<and> unat (dv_state_epoch d') = unat (dv_state_epoch d) + 1
     else d' = d"
proof -
  show "\<not> dv_persistent_change d'" using assms by (auto simp: take_persistent_change_def split: if_splits)
  have "unat (x + 1) = unat x + 1" if "x \<noteq> 2 ^ 64 - 1" for x :: u64
  proof -
    have "unat x \<noteq> 2 ^ 64 - 1" using that by (metis unat_u64_MAX word_unat_eq_iff)
    then show ?thesis using unat_lt [of x] by (simp add: unat_word_ariths)
  qed
  then show "if changed then dv_state_epoch d' = dv_state_epoch d + 1 \<and> unat (dv_state_epoch d') = unat (dv_state_epoch d) + 1
     else d' = d"
    using assms by (auto simp: take_persistent_change_def split: if_splits)
qed

text \<open>
  A response leaves the runtime only when the message changed nothing durable, or when the
  writer has acknowledged the state with the next epoch.
\<close>

definition acknowledged :: "'k writer \<Rightarrow> 'k Device \<Rightarrow> 'k Device \<Rightarrow> bool" where
  "acknowledged w d d' =
     (unat (dv_state_epoch d') = unat (dv_state_epoch d) + 1
      \<and> (\<exists>ticket. wr_record w d' = Some ticket \<and> wr_wait w ticket))"

lemma store_effect_epoch: "store_effect L au d d' \<Longrightarrow> dv_state_epoch d' = dv_state_epoch d"
  by (cases rule: store_effectE)
    (auto simp: options_changed_def log_trimmed_def store_record_def reset_device_def
      install_factory_authentication_key_def Let_def)

lemma message_epoch:
  assumes "message_effect L d d'"
  shows "dv_state_epoch d' = dv_state_epoch d"
  using assms
proof cases
  case idle
  then show ?thesis using bookkeeping_store by (auto simp: same_store_def)
next
  case (command sid e ss d2)
  then show ?thesis using bookkeeping_store [OF command(4)] store_effect_epoch [OF command(3)]
    by (simp add: same_store_def)
qed

lemma persistent_execute_released:
  assumes wf: "device_wf L d" and clean: "\<not> dv_persistent_change d"
    and run: "persistent_execute L E fw w encoded d = (Ok response, d')"
  shows "\<not> dv_persistent_change d' \<and> (same_durable d d' \<or> acknowledged w d d')"
proof -
  let ?m = "handle_encoded L E fw encoded d"
  obtain changed where c: "take_persistent_change (snd ?m) = (Ok changed, d')"
    and wait: "changed \<Longrightarrow> \<exists>ticket. wr_record w d' = Some ticket \<and> wr_wait w ticket"
    using run by (cases "take_persistent_change (snd ?m)")
      (auto simp: persistent_execute_def Let_def try_in_def split: result.splits if_splits)
  have eff: "message_effect L d (snd ?m)" unfolding handle_encoded_def by (rule handle_encoded_effect [OF wf])
  note taken = take_persistent_change_Ok [OF c]
  show ?thesis
  proof (cases changed)
    case True
    then have "unat (dv_state_epoch d') = unat (dv_state_epoch d) + 1"
      using taken(2) message_epoch [OF eff] by metis
    with True show ?thesis using taken(1) wait by (auto simp: acknowledged_def)
  next
    case False
    then have "d' = snd ?m" using taken(2) by simp
    then show ?thesis using taken(1) message_unflagged [OF eff] by simp
  qed
qed

end
