(* ===== verification/Wrapped_Objects.thy ===== *)
theory Wrapped_Objects
  imports Refinement
begin

unbundle bit_operations_syntax

text \<open>
  Round trips of the wrapping commands: an exported object is read back as the object it
  was, up to what the wrapped form does not carry (the generation number and the imported
  flag of the origin), and wrapped data unwraps to itself. The CBOR and AES-CCM libraries
  enter by their documented laws.
\<close>

section \<open>Laws of the libraries\<close>

definition cbor_law :: "'k lib \<Rightarrow> bool" where
  "cbor_law L = (\<forall>v bs. cbor_into_writer L v = Some bs \<longrightarrow> cbor_from_reader L bs = Some (v, length bs))"

definition ccm_law :: "'k lib \<Rightarrow> bool" where
  "ccm_law L = (\<forall>key nonce data c. encrypt_aes_ccm L key nonce data = Some c \<longrightarrow>
     length c = length data + AES_CCM_TAG_SIZE \<and> decrypt_aes_ccm L key nonce c = Some data)"

definition nonce_law :: "'k env \<Rightarrow> bool" where
  "nonce_law E = (\<forall>i n bs. entropy E i n = Some bs \<longrightarrow> length bs = n)"

section \<open>The wrapped form of an object\<close>

definition wrapped_form :: "'k ObjectRecord \<Rightarrow> 'k ObjectRecord" where
  "wrapped_form r = r\<lparr>or_info := (or_info r)\<lparr>oi_sequence := 0, oi_origin := oi_origin (or_info r) AND 0x0f\<rparr>\<rparr>"

text \<open>Material that is written as it is; private asymmetric keys go through PKCS#8.\<close>

definition plain_material :: "'k ObjectMaterial \<Rightarrow> bool" where
  "plain_material m = (case m of
       Mat_SigningKey _ \<Rightarrow> False | Mat_MontgomeryKey _ \<Rightarrow> False | Mat_MlKemKey _ \<Rightarrow> False
     | Mat_HybridKemKey _ \<Rightarrow> False | Mat_OtpAeadKey nonce_id _ \<Rightarrow> length nonce_id = 4 | _ \<Rightarrow> True)"

lemma wrapped_form_simps [simp]:
  "or_material (wrapped_form r) = or_material r"
  "oi_object_type (or_info (wrapped_form r)) = oi_object_type (or_info r)"
  "oi_algorithm (or_info (wrapped_form r)) = oi_algorithm (or_info r)"
  "info_wf (or_info (wrapped_form r)) = info_wf (or_info r)"
  by (simp_all add: wrapped_form_def info_wf_def)

lemma record_validate_form [simp]: "record_validate L (wrapped_form r) = record_validate L r"
proof -
  have "info_validate (or_info (wrapped_form r)) = info_validate (or_info r)"
    by (simp add: wrapped_form_def info_validate_def)
  moreover have "expected_info_length L (wrapped_form r) = expected_info_length L r"
    by (simp add: expected_info_length_def)
  moreover have "oi_length (or_info (wrapped_form r)) = oi_length (or_info r)" by (simp add: wrapped_form_def)
  ultimately show ?thesis by (simp only: record_validate_def wrapped_form_simps)
qed

lemma validate_wrapped_form [simp]: "validate_wrapped_object L (wrapped_form r) = validate_wrapped_object L r"
  unfolding validate_wrapped_object_def by (simp only: wrapped_form_simps record_validate_form)

lemma wrapped_material_form:
  "plain_material (or_material r) \<Longrightarrow> wrapped_material L (wrapped_form r) = wrapped_material L r"
  by (auto simp: wrapped_material_def plain_material_def Let_def split: ObjectMaterial.splits)

lemma wrapped_fields_form: "wrapped_fields (or_info (wrapped_form r)) m = wrapped_fields (or_info r) m"
  by (simp add: wrapped_fields_def wrapped_form_def and.assoc)

lemma encode_wrapped_form:
  "plain_material (or_material r) \<Longrightarrow> encode_wrapped_object L (wrapped_form r) = encode_wrapped_object L r"
  unfolding encode_wrapped_object_def wrapped_fields_form by (simp add: wrapped_material_form)

lemma wrapped_u8_uint [simp]: "wrapped_u8 (Cbor_Integer (uint b)) = Ok b"
  using uint_bounded [of b] by (simp add: wrapped_u8_def)

lemma wrapped_u16_uint [simp]: "wrapped_u16 (Cbor_Integer (uint w)) = Ok w"
  using uint_bounded [of w] by (simp add: wrapped_u16_def)

lemma wrapped_u8_numeral [simp]:
  "wrapped_u8 (Cbor_Integer 0) = Ok 0" "wrapped_u8 (Cbor_Integer 1) = Ok 1"
  "numeral k < (256 :: int) \<Longrightarrow> wrapped_u8 (Cbor_Integer (numeral k)) = Ok (numeral k)"
  by (simp_all add: wrapped_u8_def)

lemma origin_low [simp]: "((x :: u8) AND 15) AND 240 = 0"
  by (simp add: and.assoc)

lemma decode_material:
  assumes "wrapped_material L r = Ok v" "validate_wrapped_object L r = Ok ()"
    "plain_material (or_material r)" "algorithm_from_byte (oi_algorithm (or_info r)) = Some a"
  shows "decode_wrapped_material L (oi_object_type (or_info r)) a v = Ok (or_material r)"
  using assms
  by (cases "or_material r"; cases "oi_object_type (or_info r)")
    (auto simp: wrapped_material_def validate_wrapped_object_def plain_material_def decode_wrapped_material_def
      wrapped_array_def next_value_def wrapped_bytes_def wrapped_array_bytes_def is_rsa_key_def Let_def
      split: AuthenticationKeyMaterial.splits if_splits)

lemma decode_fields:
  assumes "wrapped_material L r = Ok m" "validate_wrapped_object L r = Ok ()" "plain_material (or_material r)"
    "info_wf (or_info r)"
  shows "decode_wrapped_fields L (wrapped_fields (or_info r) m)
    = Ok ((wrapped_form r)\<lparr>or_info := (or_info (wrapped_form r))\<lparr>oi_length := 0\<rparr>\<rparr>)"
proof -
  obtain a where a: "algorithm_from_byte (oi_algorithm (or_info r)) = Some a"
    using assms(2) by (auto simp: validate_wrapped_object_def)
  show ?thesis
    using decode_material [OF assms(1-3) a] a assms(4)
    by (simp add: decode_wrapped_fields_def wrapped_fields_def wrapped_array_bytes_def wrapped_bytes_def
        info_wf_def cap_wf_def wrapped_form_def)
qed

lemma wrapped_round_trip:
  assumes law: "cbor_law L" and wf: "info_wf (or_info r)" and plain: "plain_material (or_material r)"
    and enc: "encode_wrapped_object L r = Ok bs"
  shows "decode_wrapped_object L bs = Ok (wrapped_form r)"
proof -
  obtain m where m: "validate_wrapped_object L r = Ok ()" "wrapped_material L r = Ok m"
    "cbor_into_writer L (wrapped_fields (or_info r) m) = Some bs" "length bs \<le> 65535"
    using enc by (auto simp: encode_wrapped_object_def split: if_splits)
  let ?r = "wrapped_form r"
  let ?raw = "?r\<lparr>or_info := (or_info ?r)\<lparr>oi_length := 0\<rparr>\<rparr>"
  have valid: "record_validate L ?r = Ok ()" using m(1) by (simp add: validate_wrapped_object_def)
  then have "expected_info_length L ?raw = Ok (unat (oi_length (or_info ?r)))"
    unfolding expected_info_length_upd by (rule record_validate_length)
  then have "normalize_info_length L ?raw = Ok ?r"
    using unat_lt [of "oi_length (or_info ?r)"] by (simp add: normalize_info_length_def)
  moreover have "cbor_from_reader L bs = Some (wrapped_fields (or_info r) m, length bs)"
    using law m(3) by (simp add: cbor_law_def)
  ultimately show ?thesis
    using m(4) decode_fields [OF m(2,1) plain wf] valid enc encode_wrapped_form [OF plain, of L]
    by (simp add: decode_wrapped_object_def)
qed

section \<open>Wrapped data\<close>

lemma wrap_unwrap:
  assumes law: "ccm_law L" "nonce_law E"
    and wrap: "wrap_data L E fw au d (be16 i @ data) = Ok wrapped"
  shows "unwrap_data L fw au d (be16 i @ wrapped) = Ok data"
proof -
  have req: "decode_request decode_id_remainder (be16 i @ bs) = Ok \<lparr>ir_id = i, ir_payload = bs\<rparr>" for bs
    by simp
  obtain object nonce key c where o: "ccm_wrap_key fw au d i = Ok object" "object_secret object = Ok key"
    and n: "entropy E 0 AES_CCM_NONCE_SIZE = Some nonce" and c: "encrypt_aes_ccm L key nonce data = Some c"
    and w: "wrapped = 1 # nonce @ c"
    using wrap by (auto simp: wrap_data_def req simp del: decode_request_Ok)
  have "length nonce = AES_CCM_NONCE_SIZE" using law(2) n unfolding nonce_law_def by blast
  moreover have "length c = length data + AES_CCM_TAG_SIZE" "decrypt_aes_ccm L key nonce c = Some data"
    using law(1) c unfolding ccm_law_def by blast+
  ultimately show ?thesis
    using o w by (simp add: unwrap_data_def req AES_CCM_NONCE_SIZE_def AES_CCM_TAG_SIZE_def del: decode_request_Ok)
qed

end
