(* ===== verification/Policies.thy ===== *)
theory Policies
  imports Refinement
begin

unbundle bit_operations_syntax

text \<open>
  The documented object policy (\<^verbatim>\<open>README\<close>, "Authorization") as a table of its own, and the
  proof that the dispatcher enforces it: a command that uses a key succeeds only when the
  session and the key both carry the command's capability and share a domain; an export
  succeeds only for an exportable object within the wrap key's delegation; a listing shows
  exactly the objects of the session's domains that match the filters.
\<close>

section \<open>Commands that use one key\<close>

text \<open>The type of the key named by the first two bytes of a request and the capability of the command.\<close>

fun use_policy :: "CommandCode \<Rightarrow> (ObjectType \<times> Capability) option" where
  "use_policy Cmd_SignPkcs1 = Some (Ty_AsymmetricKey, Cap_SignPkcs)"
| "use_policy Cmd_SignPss = Some (Ty_AsymmetricKey, Cap_SignPss)"
| "use_policy Cmd_SignEcdsa = Some (Ty_AsymmetricKey, Cap_SignEcdsa)"
| "use_policy Cmd_SignEddsa = Some (Ty_AsymmetricKey, Cap_SignEddsa)"
| "use_policy Cmd_SignMlDsa = Some (Ty_AsymmetricKey, Cap_SignMlDsa)"
| "use_policy Cmd_EncapsulateMlKem = Some (Ty_AsymmetricKey, Cap_EncapsulateMlKem)"
| "use_policy Cmd_DecapsulateMlKem = Some (Ty_AsymmetricKey, Cap_DecapsulateMlKem)"
| "use_policy Cmd_EncapsulateHybridKem = Some (Ty_AsymmetricKey, Cap_EncapsulateHybridKem)"
| "use_policy Cmd_DecapsulateHybridKem = Some (Ty_AsymmetricKey, Cap_DecapsulateHybridKem)"
| "use_policy Cmd_DeriveEcdh = Some (Ty_AsymmetricKey, Cap_DeriveEcdh)"
| "use_policy Cmd_DeriveEcdhKdf = Some (Ty_AsymmetricKey, Cap_DeriveEcdhKdf)"
| "use_policy Cmd_DecryptPkcs1 = Some (Ty_AsymmetricKey, Cap_DecryptPkcs)"
| "use_policy Cmd_DecryptOaep = Some (Ty_AsymmetricKey, Cap_DecryptOaep)"
| "use_policy Cmd_SignHmac = Some (Ty_HmacKey, Cap_SignHmac)"
| "use_policy Cmd_VerifyHmac = Some (Ty_HmacKey, Cap_VerifyHmac)"
| "use_policy Cmd_WrapData = Some (Ty_WrapKey, Cap_WrapData)"
| "use_policy Cmd_UnwrapData = Some (Ty_WrapKey, Cap_UnwrapData)"
| "use_policy Cmd_EncryptEcb = Some (Ty_SymmetricKey, Cap_EncryptEcb)"
| "use_policy Cmd_DecryptEcb = Some (Ty_SymmetricKey, Cap_DecryptEcb)"
| "use_policy Cmd_EncryptCbc = Some (Ty_SymmetricKey, Cap_EncryptCbc)"
| "use_policy Cmd_DecryptCbc = Some (Ty_SymmetricKey, Cap_DecryptCbc)"
| "use_policy Cmd_CreateOtpAead = Some (Ty_OtpAeadKey, Cap_CreateOtpAead)"
| "use_policy Cmd_RandomizeOtpAead = Some (Ty_OtpAeadKey, Cap_RandomizeOtpAead)"
| "use_policy Cmd_DecryptOtp = Some (Ty_OtpAeadKey, Cap_DecryptOtp)"
| "use_policy Cmd_GetTemplate = Some (Ty_Template, Cap_GetTemplate)"
| "use_policy Cmd_ImportWrapped = Some (Ty_WrapKey, Cap_ImportWrapped)"
| "use_policy Cmd_ImportRsaWrapped = Some (Ty_WrapKey, Cap_ImportWrapped)"
| "use_policy _ = None"

text \<open>The named object exists, shares a domain with the session, and both carry the capability.\<close>

definition may_use :: "SessionAuthorization \<Rightarrow> 'k Device \<Rightarrow> ObjectKey \<Rightarrow> Capability \<Rightarrow> bool" where
  "may_use au d k c =
     (\<exists>r. bt_get (dv_objects d) k = Some r \<and> can_see au (or_info r)
        \<and> cap_contains (au_capabilities au) c \<and> cap_contains (oi_capabilities (or_info r)) c)"

lemma authorize_object_use: "authorize_object au d k c = Ok u \<longleftrightarrow> may_use au d k c"
  by (auto simp: authorize_object_def may_use_def)

lemma read_u16_prefix: "and_then (read_u16 bs) f = Ok x \<Longrightarrow> \<exists>i rest. bs = be16 i @ rest \<and> f (i, rest) = Ok x"
  by auto

lemma execute_inner_result_authorized:
  assumes "execute_inner_result L E fw au q s = (Ok out, s')" "supported_command fw q = Some c"
    "c \<notin> {Cmd_Echo, Cmd_GetDeviceInfo, Cmd_GetDevicePublicKey}"
  shows "authorize_command_request L au (fst s) c (fr_data q) = Ok ()
    \<and> run_command L E fw au c (fr_data q) s = (Ok out, s')"
proof -
  have "command_from_byte (fr_command q) = Some c" "command_supported fw c"
    using assms(2) by (auto simp: supported_command_def split: option.splits if_splits)
  moreover from this(1) assms(3) have "execute_plain_or_authenticated L fw (fst s) q = None"
    by (cases c) (auto simp: execute_plain_or_authenticated_def)
  ultimately show ?thesis using assms(1)
    by (auto simp: execute_inner_result_def try_in_def split: result.splits)
qed

lemmas use_decoders = decode_id_remainder_def decode_u16_def decode_sign_pss_def decode_sign_ml_dsa_def
  decode_derive_ecdh_kdf_def decode_decrypt_oaep_def decode_aes_cbc_def decode_create_otp_aead_def
  decode_decrypt_otp_def decode_import_wrapped_def decode_import_rsa_wrapped_def read_remainder_def

lemma authorize_request_use:
  assumes "authorize_request_objects L au d c data = Ok u" "use_policy c = Some (t, cap)"
  shows "\<exists>i rest. data = be16 i @ rest \<and> may_use au d (ObjectKey t i) cap"
  using assms
  by (cases c) (auto simp: authorize_request_objects_def authorize_object_use use_decoders split: if_splits)

lemma use_authorized:
  assumes "execute_inner_result L E fw au q s = (Ok out, s')" "supported_command fw q = Some c"
    "use_policy c = Some (t, cap)"
  shows "\<exists>i rest. fr_data q = be16 i @ rest \<and> may_use au (fst s) (ObjectKey t i) cap"
proof -
  have "c \<notin> {Cmd_Echo, Cmd_GetDeviceInfo, Cmd_GetDevicePublicKey}" using assms(3) by auto
  from execute_inner_result_authorized [OF assms(1,2) this]
  have "authorize_request_objects L au (fst s) c (fr_data q) = Ok ()"
    by (auto simp: authorize_command_request_def)
  from authorize_request_use [OF this assms(3)] show ?thesis .
qed

section \<open>Exports\<close>

text \<open>What a successful export of \<open>target\<close> under \<open>wrap_key\<close> needs.\<close>

definition may_export :: "SessionAuthorization \<Rightarrow> 'k ObjectRecord \<Rightarrow> 'k ObjectRecord \<Rightarrow> bool" where
  "may_export au target wrap_key =
     (can_see au (or_info target) \<and> can_see au (or_info wrap_key)
      \<and> cap_contains (au_capabilities au) Cap_ExportWrapped
      \<and> cap_contains (oi_capabilities (or_info wrap_key)) Cap_ExportWrapped
      \<and> cap_contains (oi_capabilities (or_info target)) Cap_ExportableUnderWrap
      \<and> cap_bits (oi_capabilities (or_info target)) \<subseteq> cap_bits (oi_delegated_capabilities (or_info wrap_key)))"

lemma authorize_wrapped_export_Ok:
  assumes "info_wf (or_info target)" "info_wf (or_info wrap_key)"
  shows "authorize_wrapped_export au target wrap_key = Ok u \<longleftrightarrow> may_export au target wrap_key"
  using assms
  by (auto simp: authorize_wrapped_export_def may_export_def cap_is_subset_of_def cap_contains_all_bits
      info_wf_def split: if_splits)

lemma export_authorized:
  assumes wf: "store_wf L (fst s)"
    and run: "execute_inner_result L E fw au q s = (Ok out, s')" "supported_command fw q = Some c"
    and c: "c \<in> {Cmd_ExportWrapped, Cmd_ExportRsaWrapped, Cmd_GetRsaWrappedKey}"
  shows "\<exists>k w target wrap_key. bt_get (dv_objects (fst s)) k = Some target
    \<and> bt_get (dv_objects (fst s)) w = Some wrap_key
    \<and> key_type w = (if c = Cmd_ExportWrapped then Ty_WrapKey else Ty_PublicWrapKey)
    \<and> may_export au target wrap_key"
proof -
  have "c \<notin> {Cmd_Echo, Cmd_GetDeviceInfo, Cmd_GetDevicePublicKey}" using c by auto
  from execute_inner_result_authorized [OF run this]
  have auth: "authorize_request_objects L au (fst s) c (fr_data q) = Ok ()"
    by (auto simp: authorize_command_request_def)
  have rec: "info_wf (or_info r)" if "bt_get (dv_objects (fst s)) k = Some r" for k r
    using store_wfD [OF wf that] by (simp add: record_wf_def)
  let ?t = "if c = Cmd_ExportWrapped then Ty_WrapKey else Ty_PublicWrapKey"
  have "\<exists>i k. authorize_wrapped_export_request au (fst s) ?t i k = Ok ()"
    using auth c by (auto simp: authorize_request_objects_def) blast+
  then obtain i k target wrap_key where t: "bt_get (dv_objects (fst s)) k = Some target"
    and w: "bt_get (dv_objects (fst s)) (ObjectKey ?t i) = Some wrap_key"
    and e: "authorize_wrapped_export au target wrap_key = Ok ()"
    unfolding authorize_wrapped_export_request_def by auto
  have "may_export au target wrap_key"
    using e authorize_wrapped_export_Ok [OF rec [OF t] rec [OF w]] by blast
  with t w show ?thesis by (intro exI [of _ k] exI [of _ "ObjectKey ?t i"]) simp
qed

section \<open>Listings\<close>

lemma list_objects_exact:
  assumes wf: "store_wf L d" and dec: "decode_request decode_filters data = Ok filters"
  shows "\<exists>infos. list_objects au d data = Ok (concat (map list_entry infos))
    \<and> set infos = {or_info r | k r. bt_get (dv_objects d) k = Some r \<and> can_see au (or_info r)
         \<and> filters_match filters (or_info r)}
    \<and> sorted_wrt (<) (map info_key infos)"
proof -
  let ?rs = "filter (\<lambda>r. can_see au (or_info r) \<and> filters_match filters (or_info r)) (bt_values (dv_objects d))"
  let ?infos = "map or_info ?rs"
  have b: "bt_wf (dv_objects d)" using wf by (simp add: store_wf_def)
  have keys: "map (\<lambda>r. info_key (or_info r)) (bt_values (dv_objects d)) = bt_keys (dv_objects d)"
    using wf b by (auto simp: store_wf_def bt.all_of_entries bt_values_def bt_keys_def)
  have "list_objects au d data = Ok (concat (map list_entry ?infos))"
    using dec by (simp add: list_objects_def o_def del: decode_request_Ok)
  moreover have "set (bt_values (dv_objects d)) = {r. \<exists>k. bt_get (dv_objects d) k = Some r}"
    using b by (force simp: bt_values_def bt_get_mem image_iff)
  then have "set ?infos = {or_info r | k r. bt_get (dv_objects d) k = Some r \<and> can_see au (or_info r)
         \<and> filters_match filters (or_info r)}" by auto
  moreover have "sorted_wrt (\<lambda>r r'. info_key (or_info r) < info_key (or_info r')) (bt_values (dv_objects d))"
    using b keys by (metis bt_wf_def bt_keys_def sorted_wrt_map)
  then have "sorted_wrt (<) (map info_key ?infos)"
    by (simp add: sorted_wrt_map sorted_wrt_filter)
  ultimately show ?thesis by blast
qed

section \<open>Opaque objects\<close>

lemma validate_and_write_stores:
  assumes "validate_and_write L E r out d = (Ok bs, d')" "\<forall>v. or_material r \<noteq> Mat_Secret v"
  shows "bs = out \<and> (\<exists>r'. bt_get (dv_objects d') (info_key (or_info r)) = Some r' \<and> or_material r' = or_material r)"
  using assms
  by (auto simp: validate_and_write_def write_object_def promote_private_material_def store_record_objects
      try_st_def try_in_def split: result.splits if_splits ObjectMaterial.splits)

lemma write_object_readable:
  assumes "write_object L E r d = (Ok u, d')" "\<forall>v. or_material r \<noteq> Mat_Secret v"
  shows "\<exists>r'. bt_get (dv_objects d') (info_key (or_info r)) = Some r' \<and> or_material r' = or_material r"
  using assms
  by (auto simp: write_object_def promote_private_material_def store_record_objects try_in_def
      split: result.splits if_splits ObjectMaterial.splits)

lemma put_get_opaque:
  assumes wf: "store_wf L d" and put: "put_opaque L E fw au (encode_object_header h @ material) d = (Ok out, d')"
    and h: "header_valid h"
  shows "\<exists>i. out = be16 i \<and> (oh_requested_id h \<noteq> 0 \<longrightarrow> i = oh_requested_id h) \<and> get_opaque d' out = Ok material"
proof -
  have dec: "decode_request decode_object_request (encode_object_header h @ material)
      = Ok \<lparr>oq_header = h, oq_material = material\<rparr>"
    using h object_header_iff [of "encode_object_header h @ material" h material]
    by (simp add: decode_object_request_def read_remainder_def)
  have get: "get_opaque d' (be16 i) = Ok material"
    if "bt_get (dv_objects d') (ObjectKey Ty_Opaque i) = Some r" "or_material r = Mat_Opaque material" for i r
    using that by (simp add: get_opaque_def decode_u16_def)
  show ?thesis
  proof (cases "if oh_requested_id h \<noteq> 0 then bt_get (dv_objects d) (ObjectKey Ty_Opaque (oh_requested_id h)) else None")
    case None
    then obtain i where i: "resolve_id E d Ty_Opaque (oh_requested_id h) = Ok i"
      and w: "validate_and_write L E \<lparr>or_info = new_info h i (length material) Ty_Opaque (oh_algorithm h) 2 cap_NONE,
          or_material = Mat_Opaque material\<rparr> (be16 i) d = (Ok out, d')"
      using put dec unfolding put_opaque_def
      by (auto simp: Let_def try_in_def simp del: decode_request_Ok split: result.splits if_splits option.splits)
    from validate_and_write_stores [OF w] get resolve_id_Ok(4) [OF i] show ?thesis by auto
  next
    case (Some old)
    then have req: "oh_requested_id h \<noteq> 0" "bt_get (dv_objects d) (ObjectKey Ty_Opaque (oh_requested_id h)) = Some old"
      by (auto split: if_splits)
    then obtain n where out: "out = be16 (oh_requested_id h)"
      and w: "fst (write_object L E \<lparr>or_info = (or_info old)\<lparr>oi_length := n\<rparr>, or_material = Mat_Opaque material\<rparr> d) = Ok ()"
        "d' = snd (write_object L E \<lparr>or_info = (or_info old)\<lparr>oi_length := n\<rparr>, or_material = Mat_Opaque material\<rparr> d)"
      using put dec Some unfolding put_opaque_def
      by (auto simp: Let_def try_in_def try_st_def simp del: decode_request_Ok split: result.splits if_splits)
    have "info_key ((or_info old)\<lparr>oi_length := n\<rparr>) = ObjectKey Ty_Opaque (oh_requested_id h)"
      using store_wfD(1) [OF wf req(2)] by (simp add: info_key_def)
    with write_object_readable [of L E "\<lparr>or_info = (or_info old)\<lparr>oi_length := n\<rparr>, or_material = Mat_Opaque material\<rparr>" d "()" d']
      w out get show ?thesis by (metis ObjectMaterial.distinct ObjectRecord.select_convs prod.collapse)
  qed
qed

end
