(* ===== verification/Sample_Library.thy ===== *)
theory Sample_Library
  imports Key_Library
begin

text \<open>
  A concrete library and environment, small enough to evaluate, on which the hypotheses of
  the properties are shown to be satisfiable. Nothing in it is cryptographically
  meaningful: the ciphers are the identity, tags are sums, and the private keys are their own
  serialisation. The padding is the real ISO 7816-4 one.
\<close>

section \<open>Padding and tags\<close>

definition sample_pad :: "bytes \<Rightarrow> bytes" where
  "sample_pad data = data @ 0x80 # replicate (15 - length data mod 16) 0"

definition sample_unpad :: "bytes \<Rightarrow> bytes option" where
  "sample_unpad data = (case dropWhile (\<lambda>b. b = 0) (rev data) of
     b # rest \<Rightarrow> if b = 0x80 then Some (rev rest) else None | [] \<Rightarrow> None)"

definition sample_tag :: "bytes \<Rightarrow> bytes \<Rightarrow> bytes" where
  "sample_tag key data = replicate 15 (sum_list data) @ [sum_list key]"

definition sample_cmac :: "bytes \<Rightarrow> bytes \<Rightarrow> SoftwareSymmetricError + bytes" where
  "sample_cmac key data = Inr (sample_tag key data)"

definition sample_cbc :: "bytes \<Rightarrow> bytes \<Rightarrow> bytes \<Rightarrow> SoftwareSymmetricError + bytes" where
  "sample_cbc key iv data = (if length data mod 16 = 0 then Inr data else Inl InvalidDataLength)"

definition sample_seal :: "nat \<Rightarrow> bytes \<Rightarrow> bytes \<Rightarrow> bytes \<Rightarrow> bytes option" where
  "sample_seal n key nonce data = Some (data @ take n (sample_tag key data))"

definition sample_open :: "nat \<Rightarrow> bytes \<Rightarrow> bytes \<Rightarrow> bytes \<Rightarrow> bytes option" where
  "sample_open n key nonce data =
     (let clear = take (length data - n) data in
      if length data < n \<or> drop (length data - n) data \<noteq> take n (sample_tag key clear) then None else Some clear)"

lemma dropWhile_zeros: "dropWhile (\<lambda>b. b = 0) (replicate n 0 @ xs) = dropWhile (\<lambda>b. b = 0) xs"
  by (induction n) simp_all

lemma sample_unpad_pad: "sample_unpad (sample_pad data) = Some data"
  by (simp add: sample_unpad_def sample_pad_def dropWhile_zeros)

lemma sample_pad_length: "length (sample_pad data) mod 16 = 0"
  by (simp add: sample_pad_def) presburger

lemma sample_open_seal:
  "n \<le> 16 \<Longrightarrow> sample_seal n key nonce data = Some c \<Longrightarrow> sample_open n key nonce c = Some data"
  by (auto simp: sample_seal_def sample_open_def sample_tag_def)

section \<open>The CBOR fragment\<close>

text \<open>
  Integers below \<open>2 ^ 16\<close>, byte and text strings with a two-byte length and arrays of
  indefinite length: the first byte is that of CBOR, array items end with the break byte.
\<close>

definition sample_cbor_sized :: "u8 \<Rightarrow> bytes \<Rightarrow> bytes option" where
  "sample_cbor_sized tag bs = (if length bs < 65536 then Some (tag # be16 (of_nat (length bs)) @ bs) else None)"

fun sample_cbor_write :: "CborValue \<Rightarrow> bytes option" and sample_cbor_items :: "CborValue list \<Rightarrow> bytes option" where
  "sample_cbor_write (Cbor_Integer i) = (if 0 \<le> i \<and> i < 65536 then Some (0x19 # be16 (of_int i)) else None)"
| "sample_cbor_write (Cbor_Bytes bs) = sample_cbor_sized 0x59 bs"
| "sample_cbor_write (Cbor_Text cs) = sample_cbor_sized 0x79 (map (\<lambda>c. of_nat (of_char c)) cs)"
| "sample_cbor_write (Cbor_Array vs) = map_option (\<lambda>bs. 0x9f # bs) (sample_cbor_items vs)"
| "sample_cbor_write _ = None"
| "sample_cbor_items [] = Some [0xff]"
| "sample_cbor_items (v # vs) =
     Option.bind (sample_cbor_write v) (\<lambda>a. map_option (\<lambda>b. a @ b) (sample_cbor_items vs))"

definition sample_cbor_take :: "bytes \<Rightarrow> (bytes \<times> bytes) option" where
  "sample_cbor_take bs =
     (let n = unat (from_be (take 2 bs) :: u16) in
      if length bs < 2 + n then None else Some (take n (drop 2 bs), drop (2 + n) bs))"

text \<open>The reader; the fuel is the number of bytes.\<close>

fun sample_cbor_value :: "nat \<Rightarrow> bytes \<Rightarrow> (CborValue \<times> bytes) option"
  and sample_cbor_values :: "nat \<Rightarrow> bytes \<Rightarrow> (CborValue list \<times> bytes) option" where
  "sample_cbor_value (Suc f) (b # bs) =
     (if b = 0x19 then (if length bs < 2 then None else Some (Cbor_Integer (uint (from_be (take 2 bs) :: u16)), drop 2 bs))
      else if b = 0x59 then map_option (\<lambda>(v, bs). (Cbor_Bytes v, bs)) (sample_cbor_take bs)
      else if b = 0x79 then
        map_option (\<lambda>(v, bs). (Cbor_Text (map (\<lambda>b. char_of (unat b)) v), bs)) (sample_cbor_take bs)
      else if b = 0x9f then map_option (\<lambda>(vs, bs). (Cbor_Array vs, bs)) (sample_cbor_values f bs)
      else None)"
| "sample_cbor_value _ _ = None"
| "sample_cbor_values (Suc f) (b # bs) =
     (if b = 0xff then Some ([], bs)
      else Option.bind (sample_cbor_value f (b # bs)) (\<lambda>(v, bs).
        map_option (\<lambda>(vs, bs). (v # vs, bs)) (sample_cbor_values f bs)))"
| "sample_cbor_values _ _ = None"

definition sample_cbor_read :: "bytes \<Rightarrow> (CborValue \<times> nat) option" where
  "sample_cbor_read bs = map_option (\<lambda>(v, rest). (v, length bs - length rest)) (sample_cbor_value (length bs + 1) bs)"

lemma sample_cbor_take_sized:
  "sample_cbor_sized t bs = Some c \<Longrightarrow> \<exists>r. c = t # r \<and> sample_cbor_take (r @ rest) = Some (bs, rest)"
  by (auto simp: sample_cbor_sized_def sample_cbor_take_def unat_of_nat split: if_splits)

lemma sample_text: "map (\<lambda>b. char_of (unat (b :: u8))) (map (\<lambda>c. of_nat (of_char c)) cs) = cs"
  by (induction cs) (simp_all add: unat_of_nat of_char_mod_256)

lemma sample_cbor_write_head: "sample_cbor_write v = Some bs \<Longrightarrow> \<exists>b r. bs = b # r \<and> b \<noteq> 0xff"
  by (cases v) (auto simp: sample_cbor_sized_def split: if_splits)

lemma sample_cbor_round_trip:
  "sample_cbor_write v = Some bs \<Longrightarrow> length bs < f \<Longrightarrow> sample_cbor_value f (bs @ rest) = Some (v, rest)"
  "sample_cbor_items vs = Some bs \<Longrightarrow> length bs < f \<Longrightarrow> sample_cbor_values f (bs @ rest) = Some (vs, rest)"
proof (induction v and vs arbitrary: bs f rest and bs f rest rule: sample_cbor_write_sample_cbor_items.induct)
  case (1 i)
  then show ?case
    by (cases f) (auto simp: uint_word_of_int split: if_splits)
next
  case (2 v)
  then show ?case using sample_cbor_take_sized [of "0x59" v bs rest] by (cases f) auto
next
  case (3 cs)
  then show ?case
    using sample_cbor_take_sized [of "0x79" "map (\<lambda>c. of_nat (of_char c)) cs" bs rest] sample_text [of cs]
    by (cases f) auto
next
  case (4 vs)
  then show ?case by (cases f) auto
next
  case 6
  then show ?case by (cases f) auto
next
  case (7 v vs)
  then obtain a b where ab: "sample_cbor_write v = Some a" "sample_cbor_items vs = Some b" "bs = a @ b"
    by (auto simp: bind_eq_Some_conv)
  obtain h r where h: "a = h # r" "h \<noteq> 0xff" using sample_cbor_write_head [OF ab(1)] by blast
  obtain g where f: "f = Suc g" using 7(4) by (cases f) auto
  have "0 < length b" using ab(2) by (cases vs) (auto simp: bind_eq_Some_conv dest: sample_cbor_write_head)
  then have "length a < g" using 7(4) unfolding f ab(3) length_append by linarith
  then have "sample_cbor_value g (a @ (b @ rest)) = Some (v, b @ rest)" by (rule 7(1) [OF ab(1)])
  moreover have "sample_cbor_values g (b @ rest) = Some (vs, rest)"
    using 7(2) [OF ab(1,2)] 7(4) f ab(3) h(1) by simp
  ultimately show ?case using f ab(3) h by simp
qed simp_all

lemma sample_cbor_law: "sample_cbor_write v = Some bs \<Longrightarrow> sample_cbor_read bs = Some (v, length bs)"
  using sample_cbor_round_trip(1) [of v bs "length bs + 1" "[]"] by (simp add: sample_cbor_read_def)

section \<open>The library\<close>

definition sample_lib :: "bytes lib" where
  "sample_lib =
     \<lparr>aes_cmac = sample_cmac,
      encrypt_aes_block = (\<lambda>key block. if length block = 16 then Inr block else Inl InvalidDataLength),
      encrypt_aes_cbc = sample_cbc, decrypt_aes_cbc = sample_cbc,
      encrypt_aes_ecb = (\<lambda>key data. Some data), decrypt_aes_ecb = (\<lambda>key data. Some data),
      encrypt_aes_ccm = sample_seal 16, decrypt_aes_ccm = sample_open 16,
      encrypt_yubico_otp_aead = sample_seal 8, decrypt_yubico_otp_aead = sample_open 8,
      wrap_aes_kwp = (\<lambda>key data. Some data), unwrap_aes_kwp = (\<lambda>key data. Some data),
      pad_iso7816 = sample_pad, unpad_iso7816 = sample_unpad,
      scp03_key = (\<lambda>key constant context. Some (replicate 16 constant)),
      scp03_cryptogram = (\<lambda>key constant context. Some (replicate 8 constant)),
      hash_digest = (\<lambda>algorithm data. replicate 32 (sum_list data)),
      hmac_compute = (\<lambda>algorithm key data. Some (replicate 32 (sum_list data))),
      x963_kdf = (\<lambda>algorithm secret info n. Some (replicate n 0)),
      x963_kdf_sha256 = (\<lambda>secret info n. Some (replicate n 0)),
      yubico_password_kdf = (\<lambda>password. replicate 32 1),
      cmac_counter_kdf = (\<lambda>key fields n. Some (replicate n 0)),
      cbor_into_writer = sample_cbor_write, cbor_from_reader = sample_cbor_read,
      bit_string = Some, octet_string = Some, octet_to_der = Some, octet_from_der = Some,
      object_identifier = Some, subject_public_key_info = (\<lambda>_. None), name_from_str = (\<lambda>_. None),
      serial_number_new = Some, certificate_from_der = (\<lambda>_. None),
      basic_constraints_extension = (\<lambda>_ _ _. None), key_usage_extension = (\<lambda>_ _ _. None),
      certificate_builder_new = (\<lambda>_. False),
      key_kind = (\<lambda>_. Kind_Ec P256), key_is_rsa = (\<lambda>_. False), key_is_ml_dsa = (\<lambda>_. False),
      key_public = (\<lambda>key. Pub_Ec P256 (0x04 # key @ key)), key_serialized = Some, key_private_value = Some,
      key_rsa_crt_components = (\<lambda>_. None), key_modulus_bits = (\<lambda>_. 0),
      key_from_serialized_for_kind = (\<lambda>kind bs. if length bs = 32 then Some bs else None),
      key_from_rsa_primes = (\<lambda>_ _ _. None), key_restore_rsa_primes = (\<lambda>_ _ _. None),
      key_to_pkcs8_der = Some, key_from_pkcs8_der_for_kind = (\<lambda>_ bs. Some bs),
      ml_dsa_from_serialized = (\<lambda>_ _. None), ml_dsa_expanded_length = (\<lambda>_. 0),
      ml_dsa_prehash_length = (\<lambda>_. None), certificate_signer = (\<lambda>_. False),
      derive_with_signing_key = (\<lambda>key peer. Some key), public_key_valid = (\<lambda>_. True),
      edwards_private_length = (\<lambda>_. 32), montgomery_curve = (\<lambda>_. Curve_X25519),
      montgomery_serialized = (\<lambda>key. key), montgomery_public = (\<lambda>key. key),
      montgomery_from_serialized = (\<lambda>_ _. None), montgomery_derive = (\<lambda>key peer. Some key),
      rfc8410_to_der = (\<lambda>_ bs. Some bs), rfc8410_from_der = (\<lambda>_. None),
      ml_kem_parameters = (\<lambda>_. MlKem512), ml_kem_serialized = (\<lambda>key. key), ml_kem_expanded = (\<lambda>key. key),
      ml_kem_public = (\<lambda>key. key), ml_kem_from_serialized = (\<lambda>_ _. None),
      ml_kem_expanded_length = (\<lambda>_. 0), ml_kem_ciphertext_length = (\<lambda>_. 0),
      ml_kem_decapsulate = (\<lambda>_ _. None), hybrid_construction = (\<lambda>_. MlKem768P256),
      hybrid_seed = (\<lambda>key. key), hybrid_public = (\<lambda>_. None), hybrid_from_seed = (\<lambda>_ _. None),
      hybrid_ciphertext_length = (\<lambda>_. 0), hybrid_decapsulate = (\<lambda>_ _. None)\<rparr>"

text \<open>An execution at the given time whose \<open>i\<close>-th draw yields bytes \<open>i + 1\<close>.\<close>

definition sample_env :: "nat \<Rightarrow> bytes env" where
  "sample_env t =
     \<lparr>now = t, entropy = (\<lambda>i n. Some (replicate n (of_nat (i + 1)))),
      generate_key = (\<lambda>kind. Some (replicate 32 7)), generate_montgomery = (\<lambda>_. None),
      generate_ml_kem = (\<lambda>_. None), generate_ml_dsa = (\<lambda>_. None), generate_hybrid = (\<lambda>_. None),
      validate_rsa_private = Inr, validate_rsa_public = (\<lambda>_ _ _. None),
      sign_pkcs1v15_digest = (\<lambda>_ _ _. None), sign_pkcs1v15_payload = (\<lambda>_ _. None),
      sign_pss_digest = (\<lambda>_ _ _ _ _. None), sign_prehash_ecdsa_der = (\<lambda>key _ _ digest. Some digest),
      sign_message = (\<lambda>_ _ _. None), ml_dsa_sign = (\<lambda>_ _ _ _. None),
      ml_dsa_sign_prehash = (\<lambda>_ _ _ _ _. None), decrypt_pkcs1v15 = (\<lambda>_ _. None),
      decrypt_oaep_digest = (\<lambda>_ _ _ _. None), encrypt_pkcs1v15 = (\<lambda>_ _. None),
      encrypt_oaep_digest = (\<lambda>_ _ _ _. None), validity_from_now = (\<lambda>_. None),
      certificate_build = (\<lambda>_ _ _. None), ml_kem_encapsulate = (\<lambda>_ _. None),
      hybrid_encapsulate = (\<lambda>_ _. None)\<rparr>"

end
