(* ===== verification/Sample_Device.thy ===== *)
theory Sample_Device
  imports Messages Sample_Library
begin

text \<open>
  A concrete device on the sample library: the factory state, the same device with one
  authenticated session opened by the factory Authentication Key, and requests that fit
  it. The witnesses of the properties are stated on these.
\<close>

section \<open>The factory device\<close>

definition sample_fw :: FirmwareProfile where
  "sample_fw = Full"

definition sample_device :: "bytes Device" where
  "sample_device = install_factory_authentication_key sample_lib
     \<lparr>dv_config = config_default sample_fw, dv_objects = bt_empty, dv_sessions = bt_empty,
      dv_static_private = replicate 32 9, dv_state_epoch = 0, dv_sequence_history = bt_empty,
      dv_options = options_default, dv_audit = audit_initial, dv_persistent_change = False\<rparr>"

lemma sample_factory:
  "factory_default_with_device_static_private sample_lib (config_default sample_fw) (replicate 32 9)
     = Ok sample_device"
  by (simp add: factory_default_with_device_static_private_def sample_device_def sample_lib_def)

lemma sample_kdf: "password_kdf_ok sample_lib"
  by (simp add: password_kdf_ok_def sample_lib_def)

lemma sample_reachable: "reachable sample_lib sample_fw sample_device"
  by (rule reachable.factory [OF sample_factory])

lemma sample_device_wf: "device_wf sample_lib sample_device"
  by (rule factory_device_wf [OF sample_factory sample_kdf])

section \<open>A device with a session\<close>

definition sample_authorization :: SessionAuthorization where
  "sample_authorization =
     \<lparr>au_key_id = 1, au_capabilities = cap_ALL, au_delegated_capabilities = cap_ALL, au_domains = u16_MAX\<rparr>"

definition sample_secure :: SecureSession where
  "sample_secure = \<lparr>ss_sid = 0, ss_enc = replicate 16 4, ss_mac = replicate 16 6, ss_rmac = replicate 16 7,
     ss_counter = replicate 15 0 @ [1], ss_mac_chaining_value = replicate 16 0\<rparr>"

definition sample_session :: "bytes SessionEntry" where
  "sample_session =
     \<lparr>se_authorization = sample_authorization, se_secure = sample_secure, se_expected_host_cryptogram = None,
      se_authenticated = True, se_last_activity = 0, se_objects = bt_empty\<rparr>"

definition sample_open_device :: "bytes Device" where
  "sample_open_device = sample_device\<lparr>dv_sessions := bt_insert 0 sample_session bt_empty\<rparr>"

lemma sample_session_wf: "session_wf sample_lib 0 sample_session"
  by (simp add: session_wf_def sample_session_def sample_secure_def sample_authorization_def MAX_SESSIONS_def
      BLOCK_SIZE_def authorization_wf_def)

lemma sample_open_device_wf: "device_wf sample_lib sample_open_device"
  unfolding sample_open_device_def
  by (intro device_wf_sessions sessions_wf_insert sample_device_wf sample_session_wf) simp

end
