(* ===== verification/Sample_Laws.thy ===== *)
theory Sample_Laws
  imports Conversation Persistence Wrapped_Objects Policies Sample_Device
begin

text \<open>
  The sample library satisfies the laws the properties rely on, and concrete inputs on
  which their hypotheses hold: an open session, a stored image, an exported object.
\<close>

section \<open>Laws\<close>

lemma sample_pad_blocks: "length (sample_pad data) = (length data div 16 + 1) * 16"
proof -
  have "length data = length data div 16 * 16 + length data mod 16" "length data mod 16 < 16" by simp_all
  then have "length data + 15 - length data mod 16 = 15 + length data div 16 * 16" by linarith
  then show ?thesis by (simp add: sample_pad_def)
qed

lemma sample_cipher_laws: "cipher_laws sample_lib"
  by (simp add: cipher_laws_def block_law_def cbc_law_def pad_law_def cmac_law_def sample_lib_def sample_cbc_def
      sample_cmac_def sample_tag_def sample_unpad_pad sample_pad_blocks)

lemma sample_keys: "session_keys_wf sample_secure"
  by (simp add: session_keys_wf_def sample_secure_def)

lemma sample_live: "session_live (now (sample_env 2)) 0 sample_session sample_open_device"
  using sample_keys
  by (simp add: session_live_def sample_open_device_def sample_session_def sample_env_def
      SESSION_INACTIVITY_TIMEOUT_def)

lemma sample_key_storage: "key_storage_laws sample_lib"
  by (simp add: key_storage_laws_def serialized_law_def rsa_primes_law_def agreement_key_law_def sample_lib_def)

lemma sample_ccm: "ccm_law sample_lib"
  using sample_open_seal [of 16]
  by (auto simp: ccm_law_def sample_lib_def sample_seal_def sample_tag_def AES_CCM_TAG_SIZE_def)

lemma sample_nonce: "nonce_law (sample_env t)"
  by (simp add: nonce_law_def sample_env_def)

section \<open>A stored image\<close>

lemma sample_objects: "dv_objects sample_device = [(ObjectKey Ty_AuthenticationKey 1, factory_record sample_lib)]"
  by (simp add: sample_device_def install_factory_authentication_key_def factory_record_def info_key_def Let_def
      bt_empty_def)

lemma sample_store_typed: "store_typed sample_lib sample_device"
  by (simp add: store_typed_def sample_objects bt_values_def record_typed_def holds_private_key_def
      factory_record_def)
    (simp add: sample_device_def install_factory_authentication_key_def sample_lib_def Let_def)

definition sample_state :: PersistentState where
  "sample_state =
     \<lparr>ps_schema = PERSISTENT_STATE_SCHEMA, ps_version = PERSISTENT_STATE_VERSION,
      ps_config = dv_config sample_device,
      ps_objects = [\<lparr>so_info = or_info (factory_record sample_lib),
        so_material = Stored_Authentication (Auth_Symmetric (replicate 32 1))\<rparr>],
      ps_device_static_private = replicate 32 9, ps_state_epoch = 0,
      ps_sequence_history = dv_sequence_history sample_device, ps_options = options_default,
      ps_audit = audit_initial\<rparr>"

text \<open>A state codec for the states that differ from the sample state in their epoch only.\<close>

definition sample_writer :: state_writer where
  "sample_writer state =
     (if state\<lparr>ps_state_epoch := 0\<rparr> = sample_state then Some (be64 (ps_state_epoch state)) else None)"

definition sample_reader :: state_reader where
  "sample_reader bs =
     (if length bs = 8 then Some (sample_state\<lparr>ps_state_epoch := from_be bs\<rparr>, 8) else None)"

lemma sample_codec: "state_codec_law sample_writer sample_reader"
proof -
  have "sample_reader bs = Some (state, length bs)" if "sample_writer state = Some bs" for state bs
  proof -
    have bs: "bs = be64 (ps_state_epoch state)" and st: "state\<lparr>ps_state_epoch := 0\<rparr> = sample_state"
      using that by (auto simp: sample_writer_def split: if_splits)
    then have "sample_state\<lparr>ps_state_epoch := ps_state_epoch state\<rparr> = state" unfolding st [symmetric] by simp
    then show ?thesis using bs by (simp add: sample_reader_def)
  qed
  then show ?thesis by (simp add: state_codec_law_def)
qed

section \<open>Commands\<close>

lemma sample_audit: "dv_audit sample_device = audit_initial"
  by (simp add: sample_device_def install_factory_authentication_key_def Let_def)

text \<open>A device that audits BlinkDevice and must not lose an entry.\<close>

definition sample_audited_device :: "bytes Device" where
  "sample_audited_device = sample_device\<lparr>dv_options := options_default\<lparr>op_force_audit := OPTION_ON,
     op_command_audit := bt_insert (command_code Cmd_BlinkDevice) OPTION_ON bt_empty\<rparr>\<rparr>"

definition sample_blink :: Frame where
  "sample_blink = \<lparr>fr_command = command_code Cmd_BlinkDevice, fr_data = [3]\<rparr>"

lemma sample_store: "store_wf sample_lib sample_device"
  using sample_device_wf by (simp add: device_wf_def core_wf_def)

lemma sample_audited_store: "store_wf sample_lib sample_audited_device"
  using sample_store by (simp add: sample_audited_device_def store_wf_def)

lemma sample_blink_supported: "supported_command sample_fw sample_blink = Some Cmd_BlinkDevice"
  unfolding supported_command_def sample_blink_def Frame.select_convs command_from_code
  by (simp add: sample_fw_def command_supported_def)

lemma sample_blink_audited: "should_audit sample_audited_device Cmd_BlinkDevice"
  by (simp add: should_audit_def command_can_be_audited_def command_is_meta_def sample_audited_device_def
      option_value_def option_consts)

lemma sample_blink_result:
  "execute_inner_result sample_lib (sample_env 2) sample_fw sample_authorization sample_blink (sample_audited_device, None)
     = (Ok [], (sample_audited_device, None))"
proof -
  have byte: "command_from_byte (fr_command sample_blink) = Some Cmd_BlinkDevice"
    unfolding sample_blink_def Frame.select_convs by (rule command_from_code)
  have "command_supported sample_fw Cmd_BlinkDevice" by (simp add: sample_fw_def command_supported_def)
  moreover have "authorize_command_request sample_lib sample_authorization sample_audited_device Cmd_BlinkDevice
      (fr_data sample_blink) = Ok ()"
    by (simp add: authorize_command_request_def authorize_request_objects_def required_session_capability_def
        sample_authorization_def cap_contains_bits cap_bits_ALL)
  moreover have "decode_request decode_u8 (fr_data sample_blink) = Ok 3"
    by (simp add: sample_blink_def decode_u8_def)
  ultimately show ?thesis using byte
    by (simp add: execute_inner_result_def execute_plain_or_authenticated_def run_command_def run_query_def
        del: decode_request_Ok)
qed

lemma sample_blink_runs:
  "execute_inner_with_session sample_lib (sample_env 2) sample_fw sample_authorization sample_blink
     (sample_audited_device, None)
   = (Ok (frame_response (fr_command sample_blink) []),
      (append_audit_entry sample_lib sample_authorization Cmd_BlinkDevice sample_blink 0 sample_audited_device, None))"
proof -
  have "\<not> log_full sample_audited_device"
    by (simp add: log_full_def sample_audited_device_def sample_audit audit_initial_def)
      (simp add: sample_device_def install_factory_authentication_key_def config_default_def Let_def)
  then show ?thesis
    by (simp add: execute_inner_with_session_def blocked_by_full_log_def sample_blink_result sample_blink_supported
        sample_blink_audited finish_command_def result_code_def command_changes_persistent_state_def
        secure_response_data_fits_iff Let_def)
qed

definition sample_entry :: "u16 \<Rightarrow> AuditEntry" where
  "sample_entry n = \<lparr>ae_number = n, ae_command = 0, ae_length = 0, ae_session_key = 1, ae_target_key = 0,
     ae_second_key = 0, ae_result = 0, ae_systick = 0, ae_digest = replicate 16 0\<rparr>"

section \<open>A handshake\<close>

definition sample_waiting_device :: "bytes Device" where
  "sample_waiting_device = sample_device\<lparr>dv_sessions := bt_insert 0
     (sample_session\<lparr>se_authenticated := False, se_expected_host_cryptogram := Some (replicate 8 1)\<rparr>) bt_empty\<rparr>"

definition sample_confirmation :: Frame where
  "sample_confirmation = \<lparr>fr_command = command_code Cmd_AuthenticateSession,
     fr_data = (0 # replicate 8 1) @ replicate 8 29\<rparr>"

lemma sample_waiting_wf: "device_wf sample_lib sample_waiting_device"
  unfolding sample_waiting_device_def using sample_session_wf
  by (intro device_wf_sessions sessions_wf_insert sample_device_wf) (simp_all add: session_wf_def)

lemma sample_confirmation_mac:
  "verify_request_mac sample_lib sample_secure sample_confirmation
     = (Ok (0 # replicate 8 1), sample_secure\<lparr>ss_mac_chaining_value := replicate 15 29 @ [96]\<rparr>)"
  by code_simp

lemma sample_sid: "ss_sid sample_secure = 0"
  by (simp add: sample_secure_def)

lemma sample_confirms:
  "\<exists>f d'. authenticate_session sample_lib (sample_env 2) sample_confirmation sample_waiting_device = (Ok f, d')"
proof -
  have "decode_request decode_session_envelope (fr_data sample_confirmation) = Ok (0, replicate 8 1 @ replicate 8 29)"
    by (simp add: sample_confirmation_def session_envelope del: decode_request_Ok)
  moreover have "fst (authenticate_symmetric sample_lib sample_secure sample_confirmation (replicate 8 1)) = Ok ()"
    using sample_sid by (simp add: authenticate_symmetric_def sample_confirmation_mac MAC_LENGTH_def)
  ultimately have "is_ok (fst (authenticate_session sample_lib (sample_env 2) sample_confirmation sample_waiting_device))"
    by (simp add: authenticate_session_def confirm_session_def audit_session_command_def sample_waiting_device_def
        sample_session_def Let_def del: decode_request_Ok)
  then show ?thesis unfolding is_ok_iff by (metis prod.collapse)
qed

section \<open>A plain message\<close>

definition sample_echo :: Frame where
  "sample_echo = \<lparr>fr_command = command_code Cmd_Echo, fr_data = [7]\<rparr>"

lemma sample_unflagged: "\<not> dv_persistent_change sample_device"
  by (simp add: sample_device_def install_factory_authentication_key_def Let_def)

lemma sample_echo_handled:
  "handle_encoded sample_lib (sample_env 2) sample_fw (frame_encode sample_echo) sample_device
     = (Ok (frame_encode (frame_response (command_code Cmd_Echo) [7])), expire_inactive_sessions 2 sample_device)"
proof -
  have "frame_parse (frame_encode sample_echo) = Ok sample_echo"
    by (rule frame_parse_encode) (simp add: sample_echo_def frame_wf_def frame_consts)
  moreover have "command_from_byte (fr_command sample_echo) = Some Cmd_Echo"
    unfolding sample_echo_def Frame.select_convs by (rule command_from_code)
  moreover have "decode_request decode_remainder (fr_data sample_echo) = Ok [7]"
    by (simp add: decode_remainder_def read_remainder_def sample_echo_def)
  moreover have "now (sample_env 2) = 2" by (simp add: sample_env_def)
  moreover have "fr_command sample_echo = command_code Cmd_Echo" by (simp add: sample_echo_def)
  ultimately show ?thesis
    by (simp add: handle_encoded_def handle_encoded_with_def handle_frame_with_def execute_plain_def respond_def
        execute_plain_or_authenticated_def Let_def del: decode_request_Ok)
qed

lemma sample_echo_persistent:
  "persistent_execute sample_lib (sample_env 2) sample_fw
     \<lparr>wr_healthy = True, wr_record = (\<lambda>_. None), wr_wait = (\<lambda>_. False), wr_healthy_after = True\<rparr>
     (frame_encode sample_echo) sample_device
   = (Ok (frame_encode (frame_response (command_code Cmd_Echo) [7])), expire_inactive_sessions 2 sample_device)"
  using sample_unflagged
  by (simp add: persistent_execute_def sample_echo_handled io_result_def take_persistent_change_def
      expire_inactive_sessions_def)

lemma sample_image_restores:
  "from_persistent_state sample_lib sample_reader (dv_config sample_device) (be64 0)
     = Ok (power_cycled (dv_config sample_device) sample_device)"
proof -
  obtain state where state: "persistent_state sample_lib sample_writer sample_device = ok_or (sample_writer state) StorageFailed"
    "\<And>image. sample_writer state = Some image \<Longrightarrow> from_persistent_state sample_lib sample_reader
       (dv_config sample_device) image = Ok (power_cycled (dv_config sample_device) sample_device)"
    using save_restore [OF sample_device_wf sample_store_typed sample_key_storage sample_codec refl]
    by (auto simp: sample_audit audit_initial_def)
  have "persistent_state sample_lib sample_writer sample_device = Ok (be64 0)"
    by (simp add: persistent_state_def sample_objects bt_values_def to_stored_def factory_record_def)
      (simp add: sample_writer_def sample_state_def factory_record_def sample_device_def sample_lib_def
        install_factory_authentication_key_def Let_def)
  then have "sample_writer state = Some (be64 0)" using state(1) by (cases "sample_writer state") simp_all
  then show ?thesis by (rule state(2))
qed

end
