(* ===== verification/Checksum.thy ===== *)
theory Checksum
  imports Use
begin

unbundle bit_operations_syntax

text \<open>
  The checksum of Yubico OTP tokens (\<^verbatim>\<open>yubico_crc16\<close> in \<^verbatim>\<open>device.rs\<close>). The shift register is
  linear, so appending the complemented checksum in little-endian order to any data gives
  the residue that \<^verbatim>\<open>decrypt_otp\<close> compares against.
\<close>

section \<open>The shift register is linear\<close>

lemma and_one_xor: "(a XOR b) AND 1 \<noteq> 0 \<longleftrightarrow> (a AND 1 \<noteq> 0) \<noteq> (b AND (1::u16) \<noteq> 0)"
  by (simp add: and_one_eq odd_iff_mod_2_eq_one [symmetric] even_xor_iff)

lemma xor_constants:
  "(x XOR k) XOR k = (x :: u16)" "(x XOR k) XOR y = (x XOR y) XOR k"
  "x XOR (y XOR k) = (x XOR y) XOR k"
  by (rule bit_word_eqI, auto simp: bit_xor_iff)+

lemma crc_shift_xor: "crc_shift n (a XOR b) = crc_shift n a XOR crc_shift n b"
proof (induction n arbitrary: a b)
  case (Suc n)
  let ?s = "\<lambda>crc :: u16. if crc AND 1 \<noteq> 0 then drop_bit 1 crc XOR 0x8408 else drop_bit 1 crc"
  have "?s (a XOR b) = ?s a XOR ?s b"
    by (cases "a AND 1 \<noteq> 0"; cases "b AND 1 \<noteq> 0")
      (simp_all only: and_one_xor drop_bit_xor xor_constants if_True if_False simp_thms)
  then show ?case using Suc.IH [of "?s a" "?s b"] by (simp only: crc_shift.simps)
qed simp

lemma crc_shift_high: "take_bit n x = 0 \<Longrightarrow> crc_shift n x = drop_bit n x"
proof (induction n arbitrary: x)
  case (Suc n)
  have "\<not> bit x 0" using arg_cong [OF Suc.prems, of "\<lambda>y. bit y 0"] by (simp add: bit_take_bit_iff)
  then have even: "x AND 1 = 0" by (simp add: and_one_eq bit_0 even_iff_mod_2_eq_zero)
  have "take_bit n (drop_bit 1 x) = 0" using Suc.prems by (simp add: take_bit_drop_bit)
  then show ?case using Suc.IH [of "drop_bit 1 x"] even by simp
qed simp

section \<open>The residue\<close>

definition crc_step :: "u16 \<Rightarrow> u8 \<Rightarrow> u16" where
  "crc_step crc byte = crc_shift 8 (crc XOR ucast byte)"

lemma crc_step_split:
  assumes "c XOR ucast b = push_bit 8 h XOR l"
  shows "crc_step c b = drop_bit 8 (push_bit 8 h) XOR crc_shift 8 l"
  using crc_shift_high [of 8 "push_bit 8 h"] unfolding crc_step_def assms crc_shift_xor
  by (simp add: take_bit_push_bit)

text \<open>The two bytes that close a token: the complemented checksum, low byte first.\<close>

definition crc_trailer :: "bytes \<Rightarrow> bytes" where
  "crc_trailer data = (let c = NOT (yubico_crc16 data) in [ucast c, ucast (drop_bit 8 c)])"

lemma crc_low_byte:
  "(c :: u16) XOR ucast (ucast (NOT c) :: u8) = push_bit 8 (drop_bit 8 c) XOR mask 8"
proof (rule bit_word_eqI)
  fix n :: nat assume "n < LENGTH(16)"
  show "bit (c XOR ucast (ucast (NOT c) :: u8)) n = bit (push_bit 8 (drop_bit 8 c) XOR mask 8) n"
    using \<open>n < LENGTH(16)\<close>
    by (auto simp: bit_xor_iff bit_push_bit_iff bit_drop_bit_eq bit_mask_iff bit_ucast_iff bit_not_iff)
qed

lemma crc_high_byte:
  "(drop_bit 8 c XOR k) XOR ucast (ucast (drop_bit 8 (NOT c)) :: u8) = k XOR (mask 8 :: u16)"
proof (rule bit_word_eqI)
  fix n :: nat assume n: "n < LENGTH(16)"
  have "n < 8" if "bit c (8 + n)" using bit_imp_le_length [OF that] by simp
  then show "bit ((drop_bit 8 c XOR k) XOR ucast (ucast (drop_bit 8 (NOT c)) :: u8)) n = bit (k XOR mask 8) n"
    using n by (auto simp: bit_xor_iff bit_drop_bit_eq bit_mask_iff bit_ucast_iff bit_not_iff)
qed

lemma crc_shift_8: "crc_shift 8 c = crc_shift (Suc (Suc (Suc (Suc (Suc (Suc (Suc (Suc 0)))))))) c"
  by (simp add: numeral_eq_Suc)

lemma crc_shift_ff: "crc_shift 8 0xff = 0x0f78"
  by (simp add: crc_shift_8)

lemma crc_shift_0f87: "crc_shift 8 0x0f87 = 0xf0b8"
  by (simp add: crc_shift_8)

lemma crc_residue: "yubico_crc16 (data @ crc_trailer data) = 0xf0b8"
proof -
  let ?c = "yubico_crc16 data"
  let ?d = "crc_step ?c (ucast (NOT ?c))"
  have "?d = drop_bit 8 (push_bit 8 (drop_bit 8 ?c)) XOR crc_shift 8 (mask 8)"
    by (rule crc_step_split [OF crc_low_byte])
  moreover have "drop_bit 8 (push_bit 8 (drop_bit 8 ?c)) = drop_bit 8 ?c"
    by (rule bit_word_eqI) (auto simp: bit_drop_bit_eq bit_push_bit_iff dest: bit_imp_le_length)
  ultimately have d: "?d = drop_bit 8 ?c XOR crc_shift 8 (mask 8)" by simp
  have "yubico_crc16 (data @ crc_trailer data) = crc_step ?d (ucast (drop_bit 8 (NOT ?c)))"
    by (simp add: yubico_crc16_def crc_trailer_def crc_step_def Let_def)
  also have "\<dots> = crc_shift 8 (crc_shift 8 (mask 8) XOR mask 8)"
    unfolding d by (simp only: crc_step_def crc_high_byte)
  also have "\<dots> = 0xf0b8" by (simp add: mask_numeral crc_shift_ff crc_shift_0f87)
  finally show ?thesis .
qed

section \<open>One-time passwords\<close>

text \<open>
  The plaintext of a Yubico one-time password: private identifier, use counter, low and high
  part of the timestamp, session use, random bytes, and the trailer of the checksum.
\<close>

definition otp_token :: "bytes \<Rightarrow> bytes \<Rightarrow> bytes \<Rightarrow> u8 \<Rightarrow> u8 \<Rightarrow> bytes \<Rightarrow> bytes" where
  "otp_token private_id counter low high use random =
     (let body = private_id @ counter @ low @ [high, use] @ random in body @ crc_trailer body)"

lemma otp_token_residue: "yubico_crc16 (otp_token p c l h u r) = 0xf0b8"
  unfolding otp_token_def Let_def by (rule crc_residue)

lemma decrypt_otp_accepts:
  assumes key: "otp_aead_key fw au d i = Ok object" "otp_aead_decrypt L object aead = Ok credential"
    and len: "length aead = 36" "length otp = 16" "length credential = 22"
    and parts: "length counter = 2" "length low = 2" "length random = 2"
    and token: "decrypt_aes_ecb L (take 16 credential) otp
      = Some (otp_token (drop 16 credential) counter low high use random)"
  shows "decrypt_otp L fw au d (be16 i @ aead @ otp) = Ok (counter @ [use, high] @ low)"
proof -
  have dec: "decode_request decode_decrypt_otp (be16 i @ aead @ otp) = Ok \<lparr>dt_id = i, dt_aead = aead, dt_otp = otp\<rparr>"
    using len by (simp add: decode_decrypt_otp_def)
  let ?p = "drop 16 credential" and ?t = "otp_token (drop 16 credential) counter low high use random"
  obtain x where t: "?t = ?p @ counter @ low @ [high, use] @ x" by (simp add: otp_token_def Let_def)
  have p: "length ?p = 6" using len(3) by simp
  have "slice 0 16 credential = Ok (take 16 credential)" "slice 16 22 credential = Ok ?p"
    using len(3) by (simp_all add: slice_def)
  moreover have "slice 0 6 ?t = Ok ?p" "slice 6 8 ?t = Ok counter" "slice 11 12 ?t = Ok [use]"
    "slice 10 11 ?t = Ok [high]" "slice 8 10 ?t = Ok low"
    using p parts by (simp_all add: slice_def t)
  ultimately show ?thesis
    using key token otp_token_residue [of ?p counter low high use random]
    by (simp add: decrypt_otp_def dec del: decode_request_Ok)
qed

end
