(* ===== verification/Sample_Keys.thy ===== *)
theory Sample_Keys
  imports Sample_Laws Checksum
begin

text \<open>
  A device that holds one key of each kind the key-using commands need, and runs of these
  commands on it.
\<close>

definition sample_record :: "ObjectType \<Rightarrow> u16 \<Rightarrow> Algorithm \<Rightarrow> u16 \<Rightarrow> bytes ObjectMaterial \<Rightarrow> bytes ObjectRecord" where
  "sample_record t i a n m =
     \<lparr>or_info = \<lparr>oi_capabilities = cap_ALL, oi_id = i, oi_length = n, oi_domains = u16_MAX, oi_object_type = t,
        oi_algorithm = algorithm_code a, oi_sequence = 0, oi_origin = 2, oi_label = [],
        oi_delegated_capabilities = cap_ALL\<rparr>, or_material = m\<rparr>"

definition sample_wrap_key :: "bytes ObjectRecord" where
  "sample_wrap_key = sample_record Ty_WrapKey 2 Alg_Aes128CcmWrap 24 (Mat_Secret (replicate 16 5))"

definition sample_otp_key :: "bytes ObjectRecord" where
  "sample_otp_key = sample_record Ty_OtpAeadKey 3 Alg_Aes128YubicoOtp 20 (Mat_OtpAeadKey [1, 2, 3, 4] (replicate 16 5))"

definition sample_aes_key :: "bytes ObjectRecord" where
  "sample_aes_key = sample_record Ty_SymmetricKey 4 Alg_Aes128 16 (Mat_Secret (replicate 16 8))"

definition sample_key_device :: "bytes Device" where
  "sample_key_device = store_record sample_wrap_key (store_record sample_otp_key (store_record sample_aes_key sample_device))"

lemma sample_records_wf:
  "record_wf sample_lib sample_wrap_key" "record_wf sample_lib sample_otp_key" "record_wf sample_lib sample_aes_key"
proof -
  have byte: "algorithm_from_byte (algorithm_code a) = Some a" for a by (rule algorithm_from_code)
  show "record_wf sample_lib sample_wrap_key" "record_wf sample_lib sample_otp_key" "record_wf sample_lib sample_aes_key"
    unfolding record_wf_def record_validate_def promote_private_material_def expected_info_length_def
      holds_private_key_def sample_wrap_key_def sample_otp_key_def sample_aes_key_def sample_record_def
      ObjectRecord.select_convs ObjectInfo.select_convs byte
    by (simp_all add: info_wf_def is_rsa_key_def material_len_def)
qed

lemma sample_key_store: "store_wf sample_lib sample_key_device"
  unfolding sample_key_device_def by (intro store_record_wf sample_store sample_records_wf)

lemma sample_key_get:
  "bt_get (dv_objects sample_key_device) (ObjectKey Ty_WrapKey 2) = Some sample_wrap_key"
  "bt_get (dv_objects sample_key_device) (ObjectKey Ty_OtpAeadKey 3) = Some sample_otp_key"
  "bt_get (dv_objects sample_key_device) (ObjectKey Ty_SymmetricKey 4) = Some sample_aes_key"
  by code_simp+

lemma sample_enabled:
  "algorithm_enabled sample_fw sample_key_device (algorithm_code Alg_Aes128CcmWrap)"
  "algorithm_enabled sample_fw sample_key_device (algorithm_code Alg_Aes128YubicoOtp)"
  "algorithm_enabled sample_fw sample_key_device (algorithm_code Alg_Aes128)"
  by code_simp+

section \<open>Runs\<close>

lemma sample_lookups:
  "ccm_wrap_key sample_fw sample_authorization sample_key_device 2 = Ok sample_wrap_key"
  "otp_aead_key sample_fw sample_authorization sample_key_device 3 = Ok sample_otp_key"
  by code_simp+

definition sample_wrap_request :: bytes where
  "sample_wrap_request = be16 2 @ [10, 20, 30]"

lemma sample_wrap_runs:
  "is_ok (wrap_data sample_lib (sample_env 2) sample_fw sample_authorization sample_key_device sample_wrap_request)"
  by code_simp

definition sample_export :: bytes where
  "sample_export = be16 2 @ [object_type_code Ty_SymmetricKey] @ be16 4"

lemma sample_encodes: "\<exists>bs. encode_wrapped_object sample_lib sample_aes_key = Ok bs"
proof -
  let ?v = "Cbor_Array [Cbor_Integer 0, Cbor_Bytes (replicate 16 8)]"
  have alg: "algorithm_from_byte (oi_algorithm (or_info sample_aes_key)) = Some Alg_Aes128"
    unfolding sample_aes_key_def sample_record_def by (simp only: ObjectRecord.select_convs ObjectInfo.select_convs algorithm_from_code)
  have "record_validate sample_lib sample_aes_key = Ok ()" using sample_records_wf(3) by (simp add: record_wf_def)
  then have "validate_wrapped_object sample_lib sample_aes_key = Ok ()"
    using alg by (simp add: validate_wrapped_object_def guard_def) (simp add: sample_aes_key_def sample_record_def)
  moreover have "wrapped_material sample_lib sample_aes_key = Ok ?v"
    by (simp add: wrapped_material_def wrapped_array_def sample_aes_key_def sample_record_def Let_def)
  moreover obtain out where "sample_cbor_write (wrapped_fields (or_info sample_aes_key) ?v) = Some out" "length out \<le> 65535"
    by (simp add: wrapped_fields_def WRAPPED_OBJECT_SCHEMA_def sample_cbor_sized_def sample_aes_key_def
        sample_record_def cap_ALL_def)
  ultimately show ?thesis
    by (simp add: encode_wrapped_object_def sample_lib_def)
qed

lemma sample_export_runs:
  "\<exists>bs. export_wrapped sample_lib (sample_env 2) sample_fw sample_authorization sample_key_device sample_export = Ok bs"
proof -
  have dec: "decode_request decode_export_wrapped sample_export
      = Ok \<lparr>ew_wrap_id = 2, ew_target = ObjectKey Ty_SymmetricKey 4, ew_format = None\<rparr>"
    by code_simp
  have secret: "object_secret sample_wrap_key = Ok (replicate 16 5)"
    by (simp add: object_secret_def sample_wrap_key_def sample_record_def)
  have "\<exists>c. encrypt_aes_ccm sample_lib k n p = Some c" for k n p by (simp add: sample_lib_def sample_seal_def)
  then show ?thesis using sample_encodes secret
    by (auto simp: export_wrapped_def dec sample_lookups sample_key_get sample_env_def simp del: decode_request_Ok)
qed

lemma sample_export_authorized:
  "authorize_command_request sample_lib sample_authorization sample_key_device Cmd_ExportWrapped sample_export = Ok ()"
  "authorize_command_request sample_lib sample_authorization sample_key_device Cmd_WrapData sample_wrap_request = Ok ()"
  by code_simp+

text \<open>A query the dispatcher authorizes runs as the match of the dispatcher says.\<close>

lemma query_executes:
  assumes "c \<notin> {Cmd_Echo, Cmd_GetDeviceInfo, Cmd_GetDevicePublicKey, Cmd_SessionObject}" "command_supported fw c"
    "authorize_command_request L au d c data = Ok ()" "run_query L E fw au c data d = Some (Ok out)"
  shows "execute_inner_result L E fw au \<lparr>fr_command = command_code c, fr_data = data\<rparr> (d, t) = (Ok out, (d, t))"
proof -
  let ?q = "\<lparr>fr_command = command_code c, fr_data = data\<rparr>"
  have byte: "command_from_byte (fr_command ?q) = Some c" by (simp only: Frame.select_convs command_from_code)
  with assms(1) have "execute_plain_or_authenticated L fw d ?q = None"
    by (cases c) (auto simp: execute_plain_or_authenticated_def)
  with assms byte show ?thesis by (simp add: execute_inner_result_def run_command_def)
qed

lemma sample_supported:
  "supported_command sample_fw \<lparr>fr_command = command_code Cmd_WrapData, fr_data = x\<rparr> = Some Cmd_WrapData"
  "supported_command sample_fw \<lparr>fr_command = command_code Cmd_ExportWrapped, fr_data = x\<rparr> = Some Cmd_ExportWrapped"
  unfolding supported_command_def Frame.select_convs command_from_code
  by (simp_all add: sample_fw_def command_supported_def)

lemma sample_wrap_executes:
  "\<exists>out. execute_inner_result sample_lib (sample_env 2) sample_fw sample_authorization
     \<lparr>fr_command = command_code Cmd_WrapData, fr_data = sample_wrap_request\<rparr> (sample_key_device, None)
     = (Ok out, (sample_key_device, None))"
proof -
  obtain out where "wrap_data sample_lib (sample_env 2) sample_fw sample_authorization sample_key_device
      sample_wrap_request = Ok out"
    using sample_wrap_runs by (auto simp: is_ok_iff)
  then have "run_query sample_lib (sample_env 2) sample_fw sample_authorization Cmd_WrapData sample_wrap_request
      sample_key_device = Some (Ok out)" by (simp add: run_query_def)
  from query_executes [OF _ _ sample_export_authorized(2) this, of None] show ?thesis
    by (auto simp: sample_fw_def command_supported_def)
qed

lemma sample_export_executes:
  "\<exists>out. execute_inner_result sample_lib (sample_env 2) sample_fw sample_authorization
     \<lparr>fr_command = command_code Cmd_ExportWrapped, fr_data = sample_export\<rparr> (sample_key_device, None)
     = (Ok out, (sample_key_device, None))"
proof -
  obtain out where "run_query sample_lib (sample_env 2) sample_fw sample_authorization Cmd_ExportWrapped sample_export
      sample_key_device = Some (Ok out)" using sample_export_runs by (auto simp: run_query_def)
  from query_executes [OF _ _ sample_export_authorized(1) this, of None] show ?thesis
    by (auto simp: sample_fw_def command_supported_def)
qed

lemma sample_filters: "\<exists>filters. decode_request decode_filters [1, 2, 0] = Ok filters"
proof -
  have "is_ok (decode_request decode_filters [1, 2, 0])" by code_simp
  then show ?thesis by (simp only: is_ok_iff)
qed

lemma sample_cbor: "cbor_law sample_lib"
  using sample_cbor_law by (simp add: cbor_law_def sample_lib_def)

definition sample_header :: ObjectHeader where
  "sample_header = \<lparr>oh_requested_id = 9, oh_label = replicate 40 0, oh_domains = 1, oh_capabilities = cap_NONE,
     oh_algorithm = algorithm_code Alg_OpaqueData\<rparr>"

lemma sample_header_valid: "header_valid sample_header"
  by (simp add: header_valid_def sample_header_def cap_NONE_def)

definition sample_credential :: bytes where
  "sample_credential = replicate 16 11 @ [21, 22, 23, 24, 25, 26]"

definition sample_aead :: bytes where
  "sample_aead = replicate 6 0 @ sample_credential @ take 8 (sample_tag (replicate 16 5) sample_credential)"

lemma sample_aead_opens: "otp_aead_decrypt sample_lib sample_otp_key sample_aead = Ok sample_credential"
  by code_simp

lemma sample_put_enabled: "require_algorithm_enabled sample_fw sample_device (algorithm_code Alg_OpaqueData) = Ok ()"
  by code_simp

lemma sample_puts:
  "\<exists>out d'. put_opaque sample_lib (sample_env 2) sample_fw sample_authorization
     (encode_object_header sample_header @ [1, 2, 3]) sample_device = (Ok out, d')"
proof -
  let ?info = "new_info sample_header 9 (length [1, 2, 3 :: u8]) Ty_Opaque (algorithm_code Alg_OpaqueData) 2 cap_NONE"
  have dec: "decode_request decode_object_request (encode_object_header sample_header @ [1, 2, 3])
      = Ok \<lparr>oq_header = sample_header, oq_material = [1, 2, 3]\<rparr>"
    using sample_header_valid object_header_iff [of "encode_object_header sample_header @ [1, 2, 3]" sample_header "[1, 2, 3]"]
    by (simp add: decode_object_request_def read_remainder_def)
  have header: "oh_requested_id sample_header = 9" "oh_algorithm sample_header = algorithm_code Alg_OpaqueData"
    by (simp_all add: sample_header_def)
  have free: "bt_get (dv_objects sample_device) (ObjectKey Ty_Opaque 9) = None"
    by (simp add: sample_objects bt_get_def)
  have "authorize_create sample_authorization ?info Cap_PutOpaque = Ok ()"
    by code_simp
  moreover have valid: "record_validate sample_lib \<lparr>or_info = ?info, or_material = Mat_Opaque [1, 2, 3]\<rparr> = Ok ()"
    by code_simp
  moreover have "is_ok (fst (write_object sample_lib (sample_env 2) \<lparr>or_info = ?info, or_material = Mat_Opaque [1, 2, 3]\<rparr> sample_device))"
    using valid by (simp add: write_object_def promote_private_material_def check_public_wrap_key_def new_info_def)
  ultimately have "is_ok (fst (put_opaque sample_lib (sample_env 2) sample_fw sample_authorization
      (encode_object_header sample_header @ [1, 2, 3]) sample_device))"
    using free sample_put_enabled
    by (simp add: put_opaque_def dec header resolve_id_def validate_and_write_def Let_def try_st_def is_ok_iff
        u16_try_from_def del: decode_request_Ok)
  then show ?thesis unfolding is_ok_iff by (metis prod.collapse)
qed

end
