(* ===== verification/Bit_Extraction.thy ===== *)
theory Bit_Extraction
  imports Session_Commands
begin

unbundle bit_operations_syntax

text \<open>
  The \<^verbatim>\<open>Extract\<close> operation of session objects against its meaning: the output is the run of
  bits of the base value that starts at the offset, most significant bit first, read
  cyclically.
\<close>

definition msb_bit :: "bytes \<Rightarrow> nat \<Rightarrow> bool" where
  "msb_bit bs j = bit (bs ! (j div 8)) (7 - j mod 8)"

lemma extract_byte_bit:
  assumes i: "i < 8" and base: "base \<noteq> []"
  shows "bit (extract_byte base off k) (7 - i) = msb_bit base ((off + k * 8 + i) mod (length base * 8))"
proof -
  define n where "n = length base"
  define b where "b = (off + k * 8) mod (n * 8)"
  define q where "q = b div 8"
  define r where "r = b mod 8"
  have n: "0 < n" using base by (simp add: n_def)
  have b: "b = 8 * q + r" "r < 8" "b < n * 8" using n by (simp_all add: q_def r_def b_def)
  have q: "q < n" using b by linarith
  have pos: "(off + k * 8 + i) mod (n * 8) = (b + i) mod (n * 8)" by (simp add: b_def mod_add_left_eq)
  show ?thesis
  proof (cases "r + i < 8")
    case True
    have "(b + i) mod (n * 8) = 8 * q + (r + i)" using b q True by simp
    moreover have "(8 * q + (r + i)) div 8 = q" "(8 * q + (r + i)) mod 8 = r + i" using True by simp_all
    ultimately have m: "msb_bit base ((off + k * 8 + i) mod (n * 8)) = bit (base ! q) (7 - (r + i))"
      using pos by (simp add: msb_bit_def)
    have "bit (extract_byte base off k) (7 - i) = bit (base ! q) (7 - (r + i))"
    proof (cases "r = 0")
      case False
      have "\<not> bit (base ! ((q + 1) mod n)) (8 - r + (7 - i))"
        using True False b(2) bit_imp_le_length [of "base ! ((q + 1) mod n)" "8 - r + (7 - i)"] by auto
      moreover have "r \<le> 7 - i" "7 - i - r = 7 - (r + i)" "7 - i < 8" using True i by simp_all
      ultimately show ?thesis using False i
        by (simp add: extract_byte_def Let_def n_def [symmetric] b_def [symmetric] q_def [symmetric]
            r_def [symmetric] bit_or_iff bit_push_bit_iff bit_drop_bit_eq)
    qed (simp add: extract_byte_def Let_def n_def [symmetric] b_def [symmetric] q_def [symmetric] r_def [symmetric])
    then show ?thesis using m by (simp add: n_def)
  next
    case False
    have r: "r \<noteq> 0" using False i by simp
    have "(b + i) mod (n * 8) = 8 * ((q + 1) mod n) + (r + i - 8)"
    proof (cases "q + 1 = n")
      case True
      then have "b + i = n * 8 + (r + i - 8)" "r + i - 8 < n * 8" using b False i q by simp_all
      then show ?thesis using True by simp
    next
      case less: False
      then show ?thesis using b False i q by simp
    qed
    moreover have "r + i - 8 < 8" using b i by simp
    ultimately have m: "msb_bit base ((off + k * 8 + i) mod (n * 8)) = bit (base ! ((q + 1) mod n)) (7 - (r + i - 8))"
      using pos by (simp add: msb_bit_def)
    have "\<not> r \<le> 7 - i" "8 - r + (7 - i) = 7 - (r + i - 8)" using False i b by simp_all
    then have "bit (extract_byte base off k) (7 - i) = bit (base ! ((q + 1) mod n)) (7 - (r + i - 8))"
      using r by (simp add: extract_byte_def Let_def n_def [symmetric] b_def [symmetric] q_def [symmetric]
          r_def [symmetric] bit_or_iff bit_push_bit_iff bit_drop_bit_eq)
    then show ?thesis using m by (simp add: n_def)
  qed
qed

lemma extract_bytes_bits:
  assumes "base \<noteq> []" "j < 8 * len"
  shows "msb_bit (extract_bytes base off len) j = msb_bit base ((off + j) mod (8 * length base))"
proof -
  have "j div 8 < len" using assms(2) by auto
  then have "msb_bit (extract_bytes base off len) j = bit (extract_byte base off (j div 8)) (7 - j mod 8)"
    by (simp add: msb_bit_def extract_bytes_def)
  also have "\<dots> = msb_bit base ((off + j div 8 * 8 + j mod 8) mod (length base * 8))"
    by (rule extract_byte_bit) (simp_all add: assms(1))
  also have "off + j div 8 * 8 + j mod 8 = off + j" by simp
  finally show ?thesis by (simp add: mult.commute)
qed

end
