(* ===== verification/Host_Io.thy ===== *)
theory Host_Io
  imports Persistence
begin

text \<open>
  What the two transport frontends use of Rust's \<^verbatim>\<open>std\<close>: \<^verbatim>\<open>io::Error\<close> with its kind and the
  number of the operating system error it wraps, validity of a UTF-8 byte string
  (\<^verbatim>\<open>str::from_utf8\<close>), and the conversion of text to bytes. Error messages are not modelled:
  an error is its kind, or its number.
\<close>

section \<open>Errors\<close>

datatype ErrorKind =
    NotFound | PermissionDenied | BrokenPipe | WouldBlock | InvalidInput | MalformedData
  | WriteZero | Interrupted | UnexpectedEof | OtherKind

text \<open>
  \<open>Custom\<close> is an error the program makes, \<open>Os\<close> one it takes from \<^verbatim>\<open>errno\<close>, and \<open>Runtime\<close> one
  the persistent runtime reports. \<^verbatim>\<open>ErrorKind::InvalidData\<close> is called \<open>MalformedData\<close> here,
  since the device's own error code has that name.
\<close>

datatype io_failure = Custom ErrorKind | Os nat | Runtime io_error

type_synonym 'a io = "('a, io_failure) result"

text \<open>The kinds Linux error numbers have, as far as the frontends ask for them.\<close>

definition os_error_kind :: "nat \<Rightarrow> ErrorKind" where
  "os_error_kind n =
     (if n = 1 \<or> n = 13 then PermissionDenied else if n = 2 then NotFound
      else if n = 4 then Interrupted else if n = 11 then WouldBlock
      else if n = 22 then InvalidInput else if n = 32 then BrokenPipe else OtherKind)"

primrec error_kind :: "io_failure \<Rightarrow> ErrorKind" where
  "error_kind (Custom k) = k"
| "error_kind (Os n) = os_error_kind n"
| "error_kind (Runtime e) = (if e = Io_InvalidData then MalformedData else OtherKind)"

primrec raw_os_error :: "io_failure \<Rightarrow> nat option" where
  "raw_os_error (Custom k) = None"
| "raw_os_error (Os n) = Some n"
| "raw_os_error (Runtime e) = None"

definition invalid :: "'a io" where "invalid = Err (Custom MalformedData)"

text \<open>\<^verbatim>\<open>if condition { return invalid(..) }\<close>.\<close>

definition reject_if :: "bool \<Rightarrow> unit io" where
  "reject_if b = (if b then invalid else Ok ())"

lemma reject_if_eq [simp]:
  "reject_if b = Ok u \<longleftrightarrow> \<not> b" "reject_if False = Ok ()" "reject_if True = invalid"
  by (simp_all add: reject_if_def invalid_def)

lemma invalid_eq [simp]:
  "invalid \<noteq> Ok x" "Ok x \<noteq> invalid" "\<not> is_ok invalid" "try_in invalid s k = (invalid, s)" "and_then invalid f = invalid"
  by (simp_all add: invalid_def)

lemma os_error_kind_simps [simp]:
  "os_error_kind 4 = Interrupted" "os_error_kind 11 = WouldBlock"
  "os_error_kind n = Interrupted \<longleftrightarrow> n = 4" "os_error_kind n = WouldBlock \<longleftrightarrow> n = 11"
  "os_error_kind n \<noteq> UnexpectedEof" "os_error_kind n \<noteq> WriteZero" "os_error_kind n \<noteq> MalformedData"
  by (simp_all add: os_error_kind_def)

section \<open>What holds after a call\<close>

text \<open>
  \<open>after S m Q\<close>: a method that returns a value leaves a state with \<open>Q\<close>, one that fails leaves a
  state with \<open>S\<close>.
\<close>

definition after :: "('s \<Rightarrow> bool) \<Rightarrow> ('a, 'e) result \<times> 's \<Rightarrow> ('a \<Rightarrow> 's \<Rightarrow> bool) \<Rightarrow> bool" where
  "after S m Q = (case fst m of Ok x \<Rightarrow> Q x (snd m) | _ \<Rightarrow> S (snd m))"

lemma after_simps [simp]:
  "after S (Ok x, s) Q = Q x s" "after S (Err e, s) Q = S s" "after S (Panic, s) Q = S s" "after S (Diverge, s) Q = S s"
  "after S (invalid, s) Q = S s"
  by (simp_all add: after_def invalid_def)

lemma after_try_in:
  "(\<And>x. r = Ok x \<Longrightarrow> after S (k x) Q) \<Longrightarrow> S s \<Longrightarrow> after S (try_in r s k) Q"
  by (cases r) simp_all

lemma after_try_st:
  "after S m P \<Longrightarrow> (\<And>x s'. P x s' \<Longrightarrow> after S (k x s') Q) \<Longrightarrow> after S (try_st m k) Q"
  by (cases m; cases "fst m") simp_all

lemma after_mono:
  "after S m P \<Longrightarrow> (\<And>x s'. P x s' \<Longrightarrow> Q x s') \<Longrightarrow> (\<And>s'. S s' \<Longrightarrow> T s') \<Longrightarrow> after T m Q"
  by (cases m; cases "fst m") simp_all

lemma after_fails: "\<not> is_ok r \<Longrightarrow> S s \<Longrightarrow> after S (r, s) Q"
  by (cases r) simp_all

lemma after_any: "after S m (\<lambda>_. S) \<Longrightarrow> S (snd m)"
  by (cases m; cases "fst m") simp_all

section \<open>Text\<close>

definition str_bytes :: "string \<Rightarrow> bytes" where
  "str_bytes s = map of_char s"

text \<open>
  What a lead byte says of a character: how many bytes follow, and the range the first of them
  lies in. The ranges exclude overlong forms, surrogates and what is beyond U+10FFFF.
\<close>

definition utf8_lead :: "u8 \<Rightarrow> (nat \<times> u8 \<times> u8) option" where
  "utf8_lead b =
     (if b < 0x80 then Some (0, 0, 0)
      else if b < 0xC2 then None
      else if b < 0xE0 then Some (1, 0x80, 0xBF)
      else if b = 0xE0 then Some (2, 0xA0, 0xBF)
      else if b = 0xED then Some (2, 0x80, 0x9F)
      else if b < 0xF0 then Some (2, 0x80, 0xBF)
      else if b = 0xF0 then Some (3, 0x90, 0xBF)
      else if b < 0xF4 then Some (3, 0x80, 0xBF)
      else if b = 0xF4 then Some (3, 0x80, 0x8F)
      else None)"

definition utf8_continuation :: "u8 \<Rightarrow> bool" where
  "utf8_continuation b = (0x80 \<le> b \<and> b \<le> 0xBF)"

fun utf8_valid :: "bytes \<Rightarrow> bool" where
  "utf8_valid [] = True"
| "utf8_valid (b # bs) = (case utf8_lead b of
       None \<Rightarrow> False
     | Some (n, lo, hi) \<Rightarrow>
         (n = 0 \<or> (n \<le> length bs \<and> lo \<le> hd bs \<and> hd bs \<le> hi
                   \<and> list_all utf8_continuation (take n bs)))
         \<and> utf8_valid (drop n bs))"

lemma utf8_valid_ascii: "list_all (\<lambda>b. b < 0x80) bs \<Longrightarrow> utf8_valid bs"
  by (induction bs) (simp_all add: utf8_lead_def)

end
