(* ===== verification/Worker_Protocol.thy ===== *)
theory Worker_Protocol
  imports Host_Io
begin

text \<open>
  The control channel between the supervisor and the USB worker (\<^verbatim>\<open>worker_protocol.rs\<close>): the
  record kinds, the packet a record is sent as, the checks on a received packet with its
  ancillary descriptors, and the table of names that comes with the first record. A file is
  the number of its descriptor. The system calls are parameters: what \<^verbatim>\<open>send\<close> returns for a
  packet, and what \<^verbatim>\<open>recvmsg\<close> has delivered.
\<close>

section \<open>Records\<close>

definition MAGIC :: bytes where "MAGIC = str_bytes ''UGSP''"
definition VERSION :: u8 where "VERSION = 1"
definition RECORD_HEADER_LENGTH :: nat where "RECORD_HEADER_LENGTH = 20"
definition MAX_BODY_LENGTH :: nat where "MAX_BODY_LENGTH = 1024 * 1024"
definition MAX_DESCRIPTORS :: nat where "MAX_DESCRIPTORS = 32"

datatype Kind =
    InitialResources | UsbEndpoints | UsbBusEvent | UsbControlRequest | Quiesce
  | ConfigurationRejected | Configure | UsbControlResponse | Serving | Quiesced

primrec kind_code :: "Kind \<Rightarrow> u8" where
  "kind_code InitialResources = 0x01"
| "kind_code UsbEndpoints = 0x02"
| "kind_code UsbBusEvent = 0x03"
| "kind_code UsbControlRequest = 0x04"
| "kind_code Quiesce = 0x11"
| "kind_code ConfigurationRejected = 0x12"
| "kind_code Configure = 0x80"
| "kind_code UsbControlResponse = 0x81"
| "kind_code Serving = 0x82"
| "kind_code Quiesced = 0x84"

definition kind_from_byte :: "u8 \<Rightarrow> Kind io" where
  "kind_from_byte value =
     (if value = 0x01 then Ok InitialResources
      else if value = 0x02 then Ok UsbEndpoints
      else if value = 0x03 then Ok UsbBusEvent
      else if value = 0x04 then Ok UsbControlRequest
      else if value = 0x11 then Ok Quiesce
      else if value = 0x12 then Ok ConfigurationRejected
      else if value = 0x80 then Ok Configure
      else if value = 0x81 then Ok UsbControlResponse
      else if value = 0x82 then Ok Serving
      else if value = 0x84 then Ok Quiesced
      else invalid)"

type_synonym fd = int

record Record =
  rec_kind :: Kind
  rec_generation :: u32
  rec_request_id :: u32
  rec_body :: bytes
  rec_files :: "fd list"

definition record_new :: "Kind \<Rightarrow> u32 \<Rightarrow> u32 \<Rightarrow> bytes \<Rightarrow> Record" where
  "record_new kind generation request_id body =
     \<lparr>rec_kind = kind, rec_generation = generation, rec_request_id = request_id, rec_body = body, rec_files = []\<rparr>"

section \<open>Sending\<close>

text \<open>The packet of a record; \<open>files\<close> is the descriptor count it declares.\<close>

definition record_packet :: "nat \<Rightarrow> Record \<Rightarrow> bytes" where
  "record_packet files r =
     MAGIC @ [VERSION, kind_code (rec_kind r)] @ be16 (of_nat files) @ be32 (rec_generation r)
     @ be32 (rec_request_id r) @ be32 (of_nat (length (rec_body r))) @ rec_body r"

text \<open>\<open>libc_send packet\<close> is the number of bytes taken, or the error number.\<close>

type_synonym libc_send = "bytes \<Rightarrow> nat + nat"

definition send :: "libc_send \<Rightarrow> Record \<Rightarrow> bytes io" where
  "send libc_send r =
     (if rec_files r \<noteq> [] \<or> length (rec_body r) > MAX_BODY_LENGTH then invalid
      else let packet = record_packet 0 r in
        case libc_send packet of
          Inl errno \<Rightarrow> Err (Os errno)
        | Inr len \<Rightarrow> if len \<noteq> length packet then Err (Custom WriteZero) else Ok packet)"

section \<open>Receiving\<close>

text \<open>
  One ancillary message: its level, type and declared length, and the descriptors that follow
  its header. \<open>CMSG_BASE\<close> is \<^verbatim>\<open>CMSG_LEN(0)\<close> of a 64-bit Linux.
\<close>

record cmsg =
  cmsg_level :: int
  cmsg_type :: int
  cmsg_len :: nat
  cmsg_data :: "fd list"

definition CMSG_BASE :: nat where "CMSG_BASE = 16"
definition SOL_SOCKET :: int where "SOL_SOCKET = 1"
definition SCM_RIGHTS :: int where "SCM_RIGHTS = 1"

text \<open>What \<^verbatim>\<open>recvmsg\<close> left in the buffers; the flag is \<^verbatim>\<open>MSG_TRUNC | MSG_CTRUNC\<close>.\<close>

datatype recvmsg = Recv_Failed nat | Recv_Data bytes bool "cmsg list"

text \<open>The loop over the ancillary messages.\<close>

fun collect_descriptors :: "cmsg list \<Rightarrow> fd list io" where
  "collect_descriptors [] = Ok []"
| "collect_descriptors (c # cs) =
     (if cmsg_level c \<noteq> SOL_SOCKET \<or> cmsg_type c \<noteq> SCM_RIGHTS then invalid
      else if cmsg_len c < CMSG_BASE \<or> (cmsg_len c - CMSG_BASE) mod 4 \<noteq> 0 then invalid
      else and_then (collect_descriptors cs) (\<lambda>fs.
        Ok (take ((cmsg_len c - CMSG_BASE) div 4) (cmsg_data c) @ fs)))"

definition receive :: "recvmsg \<Rightarrow> Record io" where
  "receive m = (case m of
       Recv_Failed errno \<Rightarrow> Err (Os errno)
     | Recv_Data packet truncated ancillary \<Rightarrow>
         if length packet = 0 then Err (Custom UnexpectedEof)
         else
           and_then (reject_if (truncated \<or> length packet < RECORD_HEADER_LENGTH)) (\<lambda>_.
           and_then (reject_if (take 4 packet \<noteq> MAGIC \<or> packet ! 4 \<noteq> VERSION)) (\<lambda>_.
           and_then (kind_from_byte (packet ! 5)) (\<lambda>kind.
           let declared_files = unat (from_be (take 2 (drop 6 packet)) :: u16);
               generation = from_be (take 4 (drop 8 packet));
               request_id = from_be (take 4 (drop 12 packet));
               body_length = unat (from_be (take 4 (drop 16 packet)) :: u32) in
           and_then (reject_if (body_length > MAX_BODY_LENGTH
                                \<or> length packet \<noteq> RECORD_HEADER_LENGTH + body_length)) (\<lambda>_.
           and_then (collect_descriptors ancillary) (\<lambda>descriptors.
           and_then (reject_if (length descriptors \<noteq> declared_files
                                \<or> length descriptors > MAX_DESCRIPTORS)) (\<lambda>_.
           Ok \<lparr>rec_kind = kind, rec_generation = generation, rec_request_id = request_id,
               rec_body = drop RECORD_HEADER_LENGTH packet, rec_files = descriptors\<rparr>)))))))"

section \<open>The initial resources\<close>

text \<open>The loop over the name table: \<open>body\<close> is what is left of it from the offset on.\<close>

fun resource_names :: "nat \<Rightarrow> bytes \<Rightarrow> (bytes list \<times> bytes) io" where
  "resource_names 0 body = Ok ([], body)"
| "resource_names (Suc count) body =
     (if length body < 2 then invalid
      else let len = unat (from_be (take 2 body) :: u16); body = drop 2 body in
        if length body < len then invalid
        else if \<not> utf8_valid (take len body) then invalid
        else and_then (resource_names count (drop len body)) (\<lambda>(names, rest).
          Ok (take len body # names, rest)))"

definition validate_initial_resources :: "Record \<Rightarrow> (bytes \<times> fd) list io" where
  "validate_initial_resources r =
     (if rec_kind r \<noteq> InitialResources \<or> rec_generation r \<noteq> 0 \<or> rec_request_id r \<noteq> 0 then invalid
      else if length (rec_body r) < 2 then invalid
      else let count = unat (from_be (take 2 (rec_body r)) :: u16) in
        if count \<noteq> length (rec_files r) then invalid
        else and_then (resource_names count (drop 2 (rec_body r))) (\<lambda>(names, rest).
          if rest \<noteq> [] then invalid else Ok (zip names (rec_files r))))"

section \<open>What is accepted\<close>

lemma kind_from_code [simp]: "kind_from_byte (kind_code k) = Ok k"
  by (cases k) (simp_all add: kind_from_byte_def)

lemma kind_from_byte_Ok: "kind_from_byte b = Ok k \<longleftrightarrow> b = kind_code k"
proof
  show "kind_from_byte b = Ok k \<Longrightarrow> b = kind_code k"
    by (auto simp: kind_from_byte_def split: if_splits)
qed simp

lemma length_MAGIC [simp]: "length MAGIC = 4"
  by (simp add: MAGIC_def str_bytes_def)

lemma length_record_packet: "length (record_packet n r) = RECORD_HEADER_LENGTH + length (rec_body r)"
  by (simp add: record_packet_def RECORD_HEADER_LENGTH_def)

lemma record_packet_fields:
  "take 4 (record_packet n r) = MAGIC" "record_packet n r ! 4 = VERSION"
  "record_packet n r ! 5 = kind_code (rec_kind r)"
  "take 2 (drop 6 (record_packet n r)) = be16 (of_nat n)"
  "take 4 (drop 8 (record_packet n r)) = be32 (rec_generation r)"
  "take 4 (drop 12 (record_packet n r)) = be32 (rec_request_id r)"
  "take 4 (drop 16 (record_packet n r)) = be32 (of_nat (length (rec_body r)))"
  "drop 20 (record_packet n r) = rec_body r"
  by (simp_all add: record_packet_def nth_append)

text \<open>A packet is its eight fields, whatever they hold.\<close>

lemma be32_from_be: "length bs = 4 \<Longrightarrow> be32 (from_be bs) = bs"
  using be_of_nat_nat [of bs] by (simp add: be32_def unat_from_be)

lemma split_at: "xs = take n xs @ drop n xs"
  by simp

lemma packet_split:
  assumes "20 \<le> length (p :: bytes)"
  shows "p = take 4 p @ [p ! 4, p ! 5] @ take 2 (drop 6 p) @ take 4 (drop 8 p) @ take 4 (drop 12 p)
    @ take 4 (drop 16 p) @ drop 20 p"
proof -
  have "p = take 4 p @ drop 4 p" by simp
  moreover have "drop 4 p = p ! 4 # p ! 5 # drop 6 p"
    using assms Cons_nth_drop_Suc [of 4 p] Cons_nth_drop_Suc [of 5 p] by simp
  moreover have "drop 6 p = take 2 (drop 6 p) @ drop 8 p" using split_at [of "drop 6 p" 2] by simp
  moreover have "drop 8 p = take 4 (drop 8 p) @ drop 12 p" using split_at [of "drop 8 p" 4] by simp
  moreover have "drop 12 p = take 4 (drop 12 p) @ drop 16 p" using split_at [of "drop 12 p" 4] by simp
  moreover have "drop 16 p = take 4 (drop 16 p) @ drop 20 p" using split_at [of "drop 16 p" 4] by simp
  ultimately show ?thesis by (metis append_Cons append_Nil)
qed

text \<open>
  A received packet becomes the record \<open>r\<close> exactly when it is the packet of \<open>r\<close>, with as many
  descriptors attached as it declares.
\<close>

definition delivers :: "recvmsg \<Rightarrow> Record \<Rightarrow> bool" where
  "delivers m r = (case m of
       Recv_Failed errno \<Rightarrow> False
     | Recv_Data packet truncated ancillary \<Rightarrow>
         \<not> truncated \<and> packet = record_packet (length (rec_files r)) r
         \<and> length (rec_body r) \<le> MAX_BODY_LENGTH
         \<and> length (rec_files r) \<le> MAX_DESCRIPTORS
         \<and> collect_descriptors ancillary = Ok (rec_files r))"

lemma of_nat_unat_words: "of_nat (unat (w :: u16)) = w" "of_nat (unat (v :: u32)) = v"
  by simp_all

lemma unat_body_length: "n \<le> MAX_BODY_LENGTH \<Longrightarrow> unat (of_nat n :: u32) = n"
  by (simp add: MAX_BODY_LENGTH_def unat_of_nat)

lemma unat_descriptor_count: "n \<le> MAX_DESCRIPTORS \<Longrightarrow> unat (of_nat n :: u16) = n"
  by (simp add: MAX_DESCRIPTORS_def unat_of_nat)

lemma record_packet_nonempty [simp]: "record_packet n r \<noteq> []"
  using length_record_packet [of n r] by (auto simp: RECORD_HEADER_LENGTH_def)

lemma receive_delivers: "delivers m r \<Longrightarrow> receive m = Ok r"
  by (cases m) (simp_all add: delivers_def receive_def record_packet_fields length_record_packet Let_def
      unat_body_length unat_descriptor_count RECORD_HEADER_LENGTH_def)

text \<open>The checks a packet has passed when a record comes out of it.\<close>

lemma receive_checks:
  assumes "receive (Recv_Data p t anc) = Ok r"
  shows "\<not> t" "20 \<le> length p" "take 4 p = MAGIC" "p ! 4 = VERSION" "p ! 5 = kind_code (rec_kind r)"
    "rec_generation r = from_be (take 4 (drop 8 p))" "rec_request_id r = from_be (take 4 (drop 12 p))"
    "rec_body r = drop 20 p" "length p = 20 + unat (from_be (take 4 (drop 16 p)) :: u32)"
    "unat (from_be (take 4 (drop 16 p)) :: u32) \<le> MAX_BODY_LENGTH"
    "collect_descriptors anc = Ok (rec_files r)"
    "length (rec_files r) = unat (from_be (take 2 (drop 6 p)) :: u16)" "length (rec_files r) \<le> MAX_DESCRIPTORS"
proof -
  have "length p \<noteq> 0" using assms by (auto simp: receive_def)
  with assms obtain kind fds where k: "\<not> (t \<or> length p < RECORD_HEADER_LENGTH)"
    "\<not> (take 4 p \<noteq> MAGIC \<or> p ! 4 \<noteq> VERSION)" "kind_from_byte (p ! 5) = Ok kind"
    "\<not> (unat (from_be (take 4 (drop 16 p)) :: u32) > MAX_BODY_LENGTH
       \<or> length p \<noteq> RECORD_HEADER_LENGTH + unat (from_be (take 4 (drop 16 p)) :: u32))"
    "collect_descriptors anc = Ok fds"
    "\<not> (length fds \<noteq> unat (from_be (take 2 (drop 6 p)) :: u16) \<or> length fds > MAX_DESCRIPTORS)"
    and r: "\<lparr>rec_kind = kind, rec_generation = from_be (take 4 (drop 8 p)),
      rec_request_id = from_be (take 4 (drop 12 p)), rec_body = drop RECORD_HEADER_LENGTH p, rec_files = fds\<rparr> = r"
    unfolding receive_def recvmsg.case Let_def if_not_P [OF \<open>length p \<noteq> 0\<close>] and_then_Ok reject_if_eq(1) result.inject(1)
    by blast
  show "\<not> t" "20 \<le> length p" "take 4 p = MAGIC" "p ! 4 = VERSION" "p ! 5 = kind_code (rec_kind r)"
    "rec_generation r = from_be (take 4 (drop 8 p))" "rec_request_id r = from_be (take 4 (drop 12 p))"
    "rec_body r = drop 20 p" "length p = 20 + unat (from_be (take 4 (drop 16 p)) :: u32)"
    "unat (from_be (take 4 (drop 16 p)) :: u32) \<le> MAX_BODY_LENGTH"
    "collect_descriptors anc = Ok (rec_files r)"
    "length (rec_files r) = unat (from_be (take 2 (drop 6 p)) :: u16)" "length (rec_files r) \<le> MAX_DESCRIPTORS"
    unfolding r [symmetric] Record.select_convs RECORD_HEADER_LENGTH_def
    using k [unfolded RECORD_HEADER_LENGTH_def kind_from_byte_Ok de_Morgan_disj not_not not_less] by blast+
qed

lemma receive_inverts:
  assumes "receive m = Ok r"
  shows "delivers m r"
proof -
  obtain p t anc where m: "m = Recv_Data p t anc" using assms by (cases m) (simp_all add: receive_def)
  note c = receive_checks [OF assms [unfolded m]]
  note len = c(2) and magic = c(3,4) and kind = c(5) and gen = c(6) and req = c(7) and body = c(8)
    and bl = c(9,10) and files = c(11,12,13)
  have fields: "length (take 2 (drop 6 p)) = 2" "length (take 4 (drop 8 p)) = 4" "length (take 4 (drop 12 p)) = 4"
    "length (take 4 (drop 16 p)) = 4" using len by simp_all
  have "length (rec_body r) = unat (from_be (take 4 (drop 16 p)) :: u32)"
    by (simp only: body bl(1) length_drop diff_add_inverse)
  then have "be32 (of_nat (length (rec_body r))) = take 4 (drop 16 p)"
    using fields(4) by (simp only: of_nat_unat_words be32_from_be)
  moreover have "be16 (of_nat (length (rec_files r))) = take 2 (drop 6 p)"
    using fields(1) by (simp only: files(2) of_nat_unat_words be16_from_be)
  moreover have "be32 (rec_generation r) = take 4 (drop 8 p)" "be32 (rec_request_id r) = take 4 (drop 12 p)"
    using fields(2,3) by (simp_all only: gen req be32_from_be)
  ultimately have "record_packet (length (rec_files r)) r = p"
    unfolding record_packet_def by (simp only: packet_split [OF len, symmetric] magic [symmetric] kind [symmetric] body)
  moreover have "length (rec_body r) \<le> MAX_BODY_LENGTH"
    using bl(2) by (simp only: body bl(1) length_drop diff_add_inverse)
  ultimately show ?thesis unfolding m delivers_def recvmsg.case using c(1) files(1,3) by blast
qed

lemma receive_exact: "receive m = Ok r \<longleftrightarrow> delivers m r"
  using receive_delivers receive_inverts by blast

text \<open>What one end sends, the other receives, as a socket that keeps packets whole carries it.\<close>

lemma send_receive: "send libc_send r = Ok packet \<Longrightarrow> receive (Recv_Data packet False []) = Ok r"
  by (auto simp: receive_exact delivers_def send_def Let_def MAX_DESCRIPTORS_def split: if_splits sum.splits)

text \<open>The name table a supervisor sends for the names \<open>names\<close>.\<close>

definition name_entry :: "bytes \<Rightarrow> bytes" where
  "name_entry name = be16 (of_nat (length name)) @ name"

definition name_table :: "bytes list \<Rightarrow> bytes" where
  "name_table names = be16 (of_nat (length names)) @ concat (map name_entry names)"

definition name_ok :: "bytes \<Rightarrow> bool" where
  "name_ok name = (length name < 2 ^ 16 \<and> utf8_valid name)"

lemma resource_names_entries:
  "list_all name_ok names \<Longrightarrow>
    resource_names (length names) (concat (map name_entry names) @ rest) = Ok (names, rest)"
  by (induction names) (simp_all add: name_entry_def name_ok_def unat_of_nat Let_def)

lemma resource_names_inverts:
  "resource_names n body = Ok (names, rest) \<Longrightarrow>
    length names = n \<and> list_all name_ok names \<and> body = concat (map name_entry names) @ rest"
proof (induction n arbitrary: body names)
  case (Suc n)
  let ?len = "unat (from_be (take 2 body) :: u16)" and ?b = "drop 2 body"
  obtain ns where names: "names = take ?len ?b # ns" and two: "2 \<le> length body"
    and len: "?len \<le> length ?b" and valid: "utf8_valid (take ?len ?b)"
    and rest: "resource_names n (drop ?len ?b) = Ok (ns, rest)"
    using Suc.prems by (auto simp: Let_def split: if_splits)
  have entry: "name_entry (take ?len ?b) = take 2 body @ take ?len ?b"
    using two len by (simp add: name_entry_def be16_from_be)
  have "?len < 2 ^ 16" using unat_lt [of "from_be (take 2 body) :: u16"] by simp
  moreover note IH = Suc.IH [OF rest]
  moreover have "body = take 2 body @ take ?len ?b @ drop ?len ?b" by (metis append_take_drop_id)
  ultimately show ?case using names entry valid len by (simp add: name_ok_def)
qed simp

lemma validate_initial_resources_exact:
  "validate_initial_resources r = Ok resources \<longleftrightarrow>
     rec_kind r = InitialResources \<and> rec_generation r = 0 \<and> rec_request_id r = 0
     \<and> rec_body r = name_table (map fst resources) \<and> rec_files r = map snd resources
     \<and> length resources < 2 ^ 16 \<and> list_all name_ok (map fst resources)" (is "?l \<longleftrightarrow> ?r")
proof
  assume ?l
  then obtain names where two: "2 \<le> length (rec_body r)"
    and count: "unat (from_be (take 2 (rec_body r)) :: u16) = length (rec_files r)"
    and names: "resource_names (length (rec_files r)) (drop 2 (rec_body r)) = Ok (names, [])"
    and res: "resources = zip names (rec_files r)"
    and kind: "rec_kind r = InitialResources" "rec_generation r = 0" "rec_request_id r = 0"
    by (auto simp: validate_initial_resources_def Let_def split: if_splits)
  note inv = resource_names_inverts [OF names]
  have "be16 (of_nat (length names)) = take 2 (rec_body r)"
    using inv count [symmetric] two by (simp add: be16_from_be)
  then have "rec_body r = name_table names"
    using inv append_take_drop_id [of 2 "rec_body r"] by (simp add: name_table_def)
  moreover have "length (rec_files r) < 2 ^ 16" using count unat_lt [of "from_be (take 2 (rec_body r)) :: u16"] by simp
  ultimately show ?r using inv res kind by simp
next
  assume ?r
  then show ?l
    by (simp add: validate_initial_resources_def name_table_def unat_of_nat Let_def zip_map_fst_snd
        resource_names_entries [of "map fst resources" "[]", simplified])
qed

end
