(* ===== verification/Usb_Identity.thy ===== *)
theory Usb_Identity
  imports Host_Io
begin

text \<open>
  The USB identity the worker publishes (\<^verbatim>\<open>usb_identity.rs\<close>): the device, configuration and
  string descriptors. The \<^verbatim>\<open>UsbPersonality\<close> they are put into belongs to another crate; its
  constructors are a parameter.
\<close>

definition BULK_OUT :: u8 where "BULK_OUT = 0x01"
definition BULK_IN :: u8 where "BULK_IN = 0x81"
definition MAX_PACKET_SIZE :: u16 where "MAX_PACKET_SIZE = 64"
definition VENDOR_ID :: u16 where "VENDOR_ID = 0x1050"
definition PRODUCT_ID :: u16 where "PRODUCT_ID = 0x0030"

datatype UsbSpeed = FullSpeed

record 'p usb_library =
  usb_personality_new :: "UsbSpeed \<Rightarrow> bytes \<Rightarrow> bytes \<Rightarrow> 'p"
  usb_with_string :: "u8 \<Rightarrow> u16 \<Rightarrow> bytes \<Rightarrow> 'p \<Rightarrow> 'p"
  usb_with_microsoft_os_1 :: "u8 \<Rightarrow> (u8 \<times> string \<times> string) list \<Rightarrow> 'p \<Rightarrow> 'p"

text \<open>\<^verbatim>\<open>to_le_bytes\<close>, and the low and high byte of a length (\<^verbatim>\<open>as u8\<close>, \<^verbatim>\<open>>> 8\<close>).\<close>

definition le16 :: "u16 \<Rightarrow> bytes" where
  "le16 w = [ucast w, ucast (drop_bit 8 w)]"

text \<open>\<^verbatim>\<open>encode_utf16\<close> of a text, given by the scalar values of its characters.\<close>

definition encode_utf16_char :: "nat \<Rightarrow> u16 list" where
  "encode_utf16_char c =
     (if c < 0x10000 then [of_nat c]
      else [0xD800 + of_nat ((c - 0x10000) div 0x400), 0xDC00 + of_nat ((c - 0x10000) mod 0x400)])"

definition encode_utf16 :: "nat list \<Rightarrow> u16 list" where
  "encode_utf16 s = concat (map encode_utf16_char s)"

definition string_descriptor :: "nat list \<Rightarrow> (bytes, io_failure) result" where
  "string_descriptor value =
     (let words = encode_utf16 value; len = 2 + length words * 2 in
      if len < 256 then Ok ([of_nat len, 3] @ concat (map le16 words)) else Panic)"

definition endpoint :: "bytes \<Rightarrow> u8 \<Rightarrow> bytes" where
  "endpoint output address = output @ [7, 5, address, 0x02] @ le16 MAX_PACKET_SIZE @ [0]"

definition configuration_descriptor :: bytes where
  "configuration_descriptor =
     (let body = [9, 4, 0, 0, 2, 0xff, 0, 0, 0];
          body = endpoint body BULK_OUT;
          body = endpoint body BULK_IN;
          total_length = of_nat (9 + length body) :: u16 in
      [9, 2] @ le16 total_length @ [1, 1, 0, 0x80, 15] @ body)"

definition device_descriptor :: bytes where
  "device_descriptor =
     [18, 1, 0x00, 0x02, 0, 0, 0, 64] @ le16 VENDOR_ID @ le16 PRODUCT_ID @ le16 0x0241 @ [1, 2, 3, 1]"

definition text_scalars :: "string \<Rightarrow> nat list" where
  "text_scalars s = map of_char s"

definition personality :: "'p usb_library \<Rightarrow> u32 \<Rightarrow> ('p, io_failure) result" where
  "personality U serial =
     (let p = usb_personality_new U FullSpeed device_descriptor configuration_descriptor;
          p = usb_with_string U 0 0 [4, 3, 0x09, 0x04] p in
      and_then (string_descriptor (text_scalars ''Virtual USB Gadget'')) (\<lambda>manufacturer.
      let p = usb_with_string U 1 0x0409 manufacturer p in
      and_then (string_descriptor (text_scalars ''Virtual YubiHSM 2'')) (\<lambda>product.
      let p = usb_with_string U 2 0x0409 product p in
      and_then (string_descriptor (text_scalars (decimal (unat serial)))) (\<lambda>number.
      let p = usb_with_string U 3 0x0409 number p in
      Ok (usb_with_microsoft_os_1 U 0x27 [(0, ''WINUSB'', '''')] p)))))"

section \<open>Well-formed descriptors\<close>

text \<open>
  A host walks a configuration by the length byte each descriptor starts with. \<open>descriptor_walk\<close>
  is that walk: the descriptors one after the other, with nothing left over.
\<close>

function descriptor_walk :: "bytes \<Rightarrow> bytes list option" where
  "descriptor_walk [] = Some []"
| "descriptor_walk (l # bs) =
     (if unat l < 2 \<or> length (l # bs) < unat l then None
      else map_option ((#) (take (unat l) (l # bs))) (descriptor_walk (drop (unat l) (l # bs))))"
  by pat_completeness auto
termination by (relation "measure length") auto

lemma configuration_descriptor_bytes:
  "configuration_descriptor =
     [9, 2, 32, 0, 1, 1, 0, 0x80, 15, 9, 4, 0, 0, 2, 0xff, 0, 0, 0,
      7, 5, 1, 2, 64, 0, 0, 7, 5, 0x81, 2, 64, 0, 0]"
  by (simp add: configuration_descriptor_def endpoint_def le16_def BULK_OUT_def BULK_IN_def MAX_PACKET_SIZE_def)

text \<open>
  The configuration holds its own header, one vendor interface and two bulk endpoints of the
  packet size, and announces its own length.
\<close>

lemma configuration_descriptor_walk:
  "descriptor_walk configuration_descriptor =
     Some [[9, 2] @ le16 (of_nat (length configuration_descriptor)) @ [1, 1, 0, 0x80, 15],
           [9, 4, 0, 0, 2, 0xff, 0, 0, 0],
           endpoint [] BULK_OUT, endpoint [] BULK_IN]"
  by (simp add: configuration_descriptor_bytes endpoint_def le16_def BULK_OUT_def BULK_IN_def MAX_PACKET_SIZE_def)

lemma length_le16_concat [simp]: "length (concat (map le16 ws)) = 2 * length ws"
  by (induction ws) (simp_all add: le16_def)

lemma string_descriptor_walk:
  assumes "string_descriptor value = Ok d"
  shows "descriptor_walk d = Some [d]" "d ! 1 = 3"
proof -
  let ?ws = "encode_utf16 value"
  have len: "2 + length ?ws * 2 < 256" and d: "d = [of_nat (2 + length ?ws * 2), 3] @ concat (map le16 ?ws)"
    using assms by (auto simp: string_descriptor_def Let_def split: if_splits)
  have "unat (of_nat (2 + length ?ws * 2) :: u8) = 2 + length ?ws * 2"
    using len by (subst unat_of_nat) simp
  then show "descriptor_walk d = Some [d]" using d by (simp del: of_nat_add of_nat_mult)
  show "d ! 1 = 3" using d by simp
qed

text \<open>A text of the basic plane has one code unit per character.\<close>

lemma encode_utf16_ascii: "length (encode_utf16 (text_scalars s)) = length s"
proof (induction s)
  case (Cons c s)
  have "(of_char c :: nat) < 0x10000" using less_trans [of "of_char c" 256 "0x10000 :: nat"] by simp
  then show ?case using Cons by (simp add: encode_utf16_def text_scalars_def encode_utf16_char_def)
qed (simp add: encode_utf16_def text_scalars_def)

lemma length_decimal: "n < 10 ^ Suc k \<Longrightarrow> length (decimal n) \<le> Suc k"
proof (induction k arbitrary: n)
  case (Suc k)
  then show ?case by (subst decimal.simps) (simp add: less_mult_imp_div_less)
qed (subst decimal.simps; simp)

lemma length_decimal_u32: "length (decimal (unat (w :: u32))) \<le> 10"
proof -
  have "unat w < 10 ^ Suc 9" using unat_lt [of w] by simp
  from length_decimal [OF this] show ?thesis by simp
qed

lemma string_descriptor_short:
  "length s \<le> 126 \<Longrightarrow> string_descriptor (text_scalars s) =
     Ok ([of_nat (2 + length s * 2), 3] @ concat (map le16 (encode_utf16 (text_scalars s))))"
  by (simp add: string_descriptor_def encode_utf16_ascii Let_def)

text \<open>The identity exists for every serial number: no descriptor is too long.\<close>

lemma personality_total: "\<exists>p. personality U serial = Ok p"
  using length_decimal_u32 [of serial] by (simp add: personality_def string_descriptor_short Let_def)

end
