(* ===== verification/Buttons.thy ===== *)
theory Buttons
  imports Host_Io
begin

text \<open>
  The KEY3 button of the display board (\<^verbatim>\<open>buttons.rs\<close>): a thread drains GPIO edge events,
  publishes the level of the line in an atomic flag and wakes the control loop with a datagram;
  the control loop empties the datagrams and reads the flag. Both sides are modelled as the
  source's functions, over what the descriptors deliver, and again as the interleaving of
  their atomic actions, for the property that no change of the level is missed.
\<close>

section \<open>The button thread\<close>

definition GPIO_V2_LINE_EVENT_SIZE :: nat where "GPIO_V2_LINE_EVENT_SIZE = 48"
definition GPIO_V2_LINE_EVENT_ID_OFFSET :: nat where "GPIO_V2_LINE_EVENT_ID_OFFSET = 8"
definition GPIO_V2_LINE_EVENT_RISING_EDGE :: u32 where "GPIO_V2_LINE_EVENT_RISING_EDGE = 1"
definition GPIO_V2_LINE_EVENT_FALLING_EDGE :: u32 where "GPIO_V2_LINE_EVENT_FALLING_EDGE = 2"

text \<open>
  \<open>reads\<close> are the results the nonblocking line descriptor still delivers: the bytes of an event,
  or an error number. A descriptor with nothing left reports \<^verbatim>\<open>EWOULDBLOCK\<close>. The event
  identifier is in the byte order of the host, which is little-endian on every supported board.
\<close>

type_synonym line_reads = "(bytes + nat) list"

definition event_id :: "bytes \<Rightarrow> u32" where
  "event_id event = from_be (rev (take 4 (drop GPIO_V2_LINE_EVENT_ID_OFFSET event)))"

definition is_edge :: "bytes \<Rightarrow> bool" where
  "is_edge event = (event_id event \<in> {GPIO_V2_LINE_EVENT_RISING_EDGE, GPIO_V2_LINE_EVENT_FALLING_EDGE})"

fun drain_events :: "line_reads \<Rightarrow> bool \<Rightarrow> bool io" where
  "drain_events [] saw_transition = Ok saw_transition"
| "drain_events (Inl event # reads) saw_transition =
     (if length event = GPIO_V2_LINE_EVENT_SIZE then drain_events reads (saw_transition \<or> is_edge event)
      else if length event = 0 then Err (Custom UnexpectedEof)
      else invalid)"
| "drain_events (Inr errno # reads) saw_transition =
     (if error_kind (Os errno) = WouldBlock then Ok saw_transition
      else if error_kind (Os errno) = Interrupted then drain_events reads saw_transition
      else Err (Os errno))"

text \<open>The flag and the datagrams that wait for the control loop.\<close>

record reconnect_state =
  rs_pressed :: bool
  rs_queue :: "bytes list"

text \<open>
  \<open>level\<close> is what \<^verbatim>\<open>read_pressed\<close> returns; \<open>notify\<close> is the result of sending the wake-up byte:
  the bytes sent, or an error number.
\<close>

definition drain_reconnect_events ::
  "line_reads \<Rightarrow> bool io \<Rightarrow> nat + nat \<Rightarrow> reconnect_state \<Rightarrow> unit io \<times> reconnect_state" where
  "drain_reconnect_events reads level notify s =
     try_in (drain_events reads False) s (\<lambda>saw_transition.
     if \<not> saw_transition then (Ok (), s)
     else
       try_in level s (\<lambda>current.
       let swapped = rs_pressed s; s = s\<lparr>rs_pressed := current\<rparr> in
       if swapped = current then (Ok (), s)
       else case notify of
         Inl sent \<Rightarrow>
           if sent = 1 then (Ok (), s\<lparr>rs_queue := rs_queue s @ [[0]]\<rparr>)
           else (Err (Custom WriteZero), s)
       | Inr errno \<Rightarrow>
           if error_kind (Os errno) = WouldBlock then (Ok (), s) else (Err (Os errno), s)))"

text \<open>
  One turn of \<^verbatim>\<open>button_loop\<close>: \<open>None\<close> when the loop goes on. The poll result is an error number or
  the events of the line and of the shutdown descriptor, \<open>(readable, other events)\<close> each.
\<close>

definition button_turn ::
  "nat + (bool \<times> bool) \<times> (bool \<times> bool) \<Rightarrow> line_reads \<Rightarrow> bool io \<Rightarrow> nat + nat \<Rightarrow> reconnect_state \<Rightarrow>
     unit option io \<times> reconnect_state" where
  "button_turn polled reads level notify s = (case polled of
       Inl errno \<Rightarrow> if error_kind (Os errno) = Interrupted then (Ok None, s) else (Err (Os errno), s)
     | Inr ((line_in, line_other), (stop_in, stop_other)) \<Rightarrow>
         if stop_in then (Ok (Some ()), s)
         else
           try_st (if line_in then drain_reconnect_events reads level notify s else (Ok (), s)) (\<lambda>_ s.
           if line_other \<or> stop_other then (Err (Custom OtherKind), s) else (Ok None, s)))"

section \<open>The control side\<close>

text \<open>
  \<^verbatim>\<open>take_reconnect_state\<close>: the datagrams are read until the socket would block. \<open>received\<close> are
  the results of the receive calls, a datagram or an error number; an empty socket blocks.
\<close>

fun take_datagrams :: "(bytes + nat) list \<Rightarrow> unit io" where
  "take_datagrams [] = Ok ()"
| "take_datagrams (Inl byte # rs) = (if byte = [0] then take_datagrams rs else invalid)"
| "take_datagrams (Inr errno # rs) =
     (if error_kind (Os errno) = WouldBlock then Ok ()
      else if error_kind (Os errno) = Interrupted then take_datagrams rs
      else Err (Os errno))"

definition take_reconnect_state :: "(bytes + nat) list \<Rightarrow> reconnect_state \<Rightarrow> bool io" where
  "take_reconnect_state received s = and_then (take_datagrams received) (\<lambda>_. Ok (rs_pressed s))"

lemma take_queue: "list_all (\<lambda>b. b = [0]) q \<Longrightarrow> take_datagrams (map Inl q) = Ok ()"
  by (induction q) simp_all

text \<open>
  After a successful drain that saw an edge the flag is the level of the line, and a change of
  the flag has left a datagram, or found the queue full.
\<close>

lemma drain_reconnect_events_Ok:
  assumes "drain_reconnect_events reads level notify s = (Ok (), s')"
    and "drain_events reads False = Ok True"
  shows "level = Ok (rs_pressed s')"
    "rs_pressed s' \<noteq> rs_pressed s \<Longrightarrow>
       rs_queue s' = rs_queue s @ [[0]] \<and> notify = Inl 1 \<or> rs_queue s' = rs_queue s \<and> notify = Inr 11"
proof -
  obtain current where level: "level = Ok current"
    using assms by (cases level) (simp_all add: drain_reconnect_events_def)
  consider "s' = s\<lparr>rs_pressed := current\<rparr>" "rs_pressed s = current"
    | "s' = s\<lparr>rs_pressed := current, rs_queue := rs_queue s @ [[0]]\<rparr>" "notify = Inl 1"
    | "s' = s\<lparr>rs_pressed := current\<rparr>" "notify = Inr 11"
    using assms(1) by (cases "rs_pressed s = current"; cases notify)
      (simp_all add: drain_reconnect_events_def assms(2) level Let_def split: if_splits del: try_in_Ok)
  then have "current = rs_pressed s' \<and> (rs_pressed s' \<noteq> rs_pressed s \<longrightarrow>
       rs_queue s' = rs_queue s @ [[0]] \<and> notify = Inl 1 \<or> rs_queue s' = rs_queue s \<and> notify = Inr 11)"
    by cases simp_all
  then show "level = Ok (rs_pressed s')"
    "rs_pressed s' \<noteq> rs_pressed s \<Longrightarrow>
       rs_queue s' = rs_queue s @ [[0]] \<and> notify = Inl 1 \<or> rs_queue s' = rs_queue s \<and> notify = Inr 11"
    using level by blast+
qed

lemma drain_quiet:
  assumes "drain_reconnect_events reads level notify s = (r, s')" and "drain_events reads False \<noteq> Ok True"
  shows "s' = s"
  using assms by (cases "drain_events reads False") (auto simp: drain_reconnect_events_def)

section \<open>No change is missed\<close>

text \<open>
  The two threads interleave at their atomic actions. The producer drains the edge events,
  reads the level of the line, swaps it into the flag, and if that changed the flag sends a datagram, which a full queue
  refuses. The consumer receives datagrams until there is none, then loads the flag.
  \<open>bw_seen\<close> is the level the consumer acted on last.
\<close>

datatype producer = P_Idle | P_Drained | P_Read bool | P_Notify
datatype consumer = C_Idle | C_Draining | C_Load

record button_world =
  bw_level :: bool
  bw_edges :: bool
  bw_flag :: bool
  bw_queue :: nat
  bw_capacity :: nat
  bw_producer :: producer
  bw_consumer :: consumer
  bw_seen :: bool

definition button_start :: "bool \<Rightarrow> nat \<Rightarrow> button_world" where
  "button_start level capacity =
     \<lparr>bw_level = level, bw_edges = False, bw_flag = level, bw_queue = 0, bw_capacity = capacity,
      bw_producer = P_Idle, bw_consumer = C_Idle, bw_seen = level\<rparr>"

inductive button_step :: "button_world \<Rightarrow> button_world \<Rightarrow> bool" where
  line: "button_step w (w\<lparr>bw_level := \<not> bw_level w, bw_edges := True\<rparr>)"
| drain: "bw_producer w = P_Idle \<Longrightarrow> bw_edges w \<Longrightarrow>
    button_step w (w\<lparr>bw_edges := False, bw_producer := P_Drained\<rparr>)"
| read: "bw_producer w = P_Drained \<Longrightarrow> button_step w (w\<lparr>bw_producer := P_Read (bw_level w)\<rparr>)"
| swap: "bw_producer w = P_Read l \<Longrightarrow>
    button_step w (w\<lparr>bw_flag := l, bw_producer := (if bw_flag w = l then P_Idle else P_Notify)\<rparr>)"
| notify: "bw_producer w = P_Notify \<Longrightarrow> bw_queue w < bw_capacity w \<Longrightarrow>
    button_step w (w\<lparr>bw_queue := Suc (bw_queue w), bw_producer := P_Idle\<rparr>)"
| refused: "bw_producer w = P_Notify \<Longrightarrow> bw_queue w = bw_capacity w \<Longrightarrow>
    button_step w (w\<lparr>bw_producer := P_Idle\<rparr>)"
| wake: "bw_consumer w = C_Idle \<Longrightarrow> bw_queue w > 0 \<Longrightarrow> button_step w (w\<lparr>bw_consumer := C_Draining\<rparr>)"
| recv: "bw_consumer w = C_Draining \<Longrightarrow> bw_queue w > 0 \<Longrightarrow> button_step w (w\<lparr>bw_queue := bw_queue w - 1\<rparr>)"
| empty: "bw_consumer w = C_Draining \<Longrightarrow> bw_queue w = 0 \<Longrightarrow> button_step w (w\<lparr>bw_consumer := C_Load\<rparr>)"
| load: "bw_consumer w = C_Load \<Longrightarrow> button_step w (w\<lparr>bw_seen := bw_flag w, bw_consumer := C_Idle\<rparr>)"

inductive_cases button_stepE: "button_step w w'"

inductive button_reachable :: "bool \<Rightarrow> nat \<Rightarrow> button_world \<Rightarrow> bool" for level capacity where
  start: "button_reachable level capacity (button_start level capacity)"
| step: "button_reachable level capacity w \<Longrightarrow> button_step w w' \<Longrightarrow> button_reachable level capacity w'"

text \<open>
  The invariant: a level the flag does not show yet is on its way to it, and a flag the consumer
  has not seen yet has a datagram queued, one about to be sent, or a consumer about to load it.
\<close>

definition button_inv :: "button_world \<Rightarrow> bool" where
  "button_inv w =
     ((bw_edges w \<or> (case bw_producer w of P_Drained \<Rightarrow> True | P_Read l \<Rightarrow> l = bw_level w | _ \<Rightarrow> bw_flag w = bw_level w))
      \<and> (bw_seen w = bw_flag w \<or> bw_queue w > 0 \<or> bw_producer w = P_Notify \<or> bw_consumer w \<noteq> C_Idle)
      \<and> bw_queue w \<le> bw_capacity w)"

lemma button_inv_step: "button_step w w' \<Longrightarrow> button_inv w \<Longrightarrow> 0 < bw_capacity w \<Longrightarrow> button_inv w'"
  by (induction rule: button_step.induct) (auto simp: button_inv_def split: producer.splits)

lemma button_capacity_step: "button_step w w' \<Longrightarrow> bw_capacity w' = bw_capacity w"
  by (induction rule: button_step.induct) simp_all

lemma button_reachable_inv:
  assumes "button_reachable level capacity w" "0 < capacity"
  shows "button_inv w \<and> bw_capacity w = capacity"
  using assms
proof induction
  case start
  then show ?case by (simp add: button_inv_def button_start_def)
next
  case (step w w')
  then show ?case using button_inv_step button_capacity_step by metis
qed

text \<open>
  When neither side has anything left to do, the level the consumer acted on is the level of the
  line.
\<close>

definition button_quiet :: "button_world \<Rightarrow> bool" where
  "button_quiet w = (\<not> bw_edges w \<and> bw_producer w = P_Idle \<and> bw_consumer w = C_Idle \<and> bw_queue w = 0)"

lemma button_quiet_seen:
  assumes "button_reachable level capacity w" "0 < capacity" "button_quiet w"
  shows "bw_seen w = bw_level w"
  using button_reachable_inv [OF assms(1,2)] assms(3) by (simp add: button_inv_def button_quiet_def)

text \<open>As long as it is not quiet, one of the two sides has a step to take.\<close>

lemma button_progress:
  assumes "button_reachable level capacity w" "0 < capacity" "\<not> button_quiet w"
  shows "\<exists>w'. button_step w w' \<and> bw_level w' = bw_level w"
proof -
  have inv: "bw_queue w \<le> bw_capacity w" using button_reachable_inv [OF assms(1,2)] by (simp add: button_inv_def)
  consider "bw_producer w = P_Idle" "bw_edges w" | "bw_producer w = P_Drained" | l where "bw_producer w = P_Read l" | "bw_producer w = P_Notify"
    | "bw_consumer w = C_Draining" | "bw_consumer w = C_Load" | "bw_consumer w = C_Idle" "bw_queue w > 0"
    using assms(3) by (cases "bw_producer w"; cases "bw_consumer w") (auto simp: button_quiet_def)
  then show ?thesis
  proof cases
    case 4
    then show ?thesis using inv button_step.notify [of w] button_step.refused [of w] by (cases "bw_queue w = bw_capacity w") fastforce+
  next
    case 5
    then show ?thesis using button_step.recv [of w] button_step.empty [of w] by (cases "bw_queue w = 0") fastforce+
  qed (use button_step.drain button_step.read button_step.swap button_step.load button_step.wake in fastforce)+
qed

text \<open>
  With the line at rest the steps run out: the weight of a state falls with every one of them.
  A queued datagram weighs what the consumer's round for it weighs.
\<close>

definition consumer_weight :: "consumer \<Rightarrow> nat \<Rightarrow> nat" where
  "consumer_weight c q = (case c of
       C_Idle \<Rightarrow> 4 * q
     | C_Draining \<Rightarrow> if q = 0 then 2 else 4 * q - 1
     | C_Load \<Rightarrow> 4 * q + 1)"

definition producer_weight :: "producer \<Rightarrow> nat" where
  "producer_weight p = (case p of P_Idle \<Rightarrow> 0 | P_Notify \<Rightarrow> 5 | P_Read l \<Rightarrow> 6 | P_Drained \<Rightarrow> 7)"

definition button_weight :: "button_world \<Rightarrow> nat" where
  "button_weight w = consumer_weight (bw_consumer w) (bw_queue w) + producer_weight (bw_producer w)
     + (if bw_edges w then 8 else 0)"

definition button_rest_step :: "button_world \<Rightarrow> button_world \<Rightarrow> bool" where
  "button_rest_step w w' = (button_step w w' \<and> bw_level w' = bw_level w)"

lemmas button_weights = button_weight_def producer_weight_def consumer_weight_def

lemma button_rest_step_weight: "button_rest_step w w' \<Longrightarrow> button_weight w' < button_weight w"
proof -
  assume "button_rest_step w w'"
  then have "button_step w w'" and "bw_level w' = bw_level w" by (simp_all add: button_rest_step_def)
  then show ?thesis
    by (induction rule: button_step.induct) (auto simp: button_weights split: consumer.splits)
qed

lemma button_settles:
  assumes "button_reachable level capacity w" "0 < capacity"
  shows "\<exists>w'. button_rest_step\<^sup>*\<^sup>* w w' \<and> button_quiet w' \<and> bw_seen w' = bw_level w"
  using assms(1)
proof (induction "button_weight w" arbitrary: w rule: less_induct)
  case less
  show ?case
  proof (cases "button_quiet w")
    case True
    with button_quiet_seen [OF less.prems assms(2)] show ?thesis by blast
  next
    case False
    with button_progress [OF less.prems assms(2)] obtain w1
      where w1: "button_rest_step w w1" by (auto simp: button_rest_step_def)
    then have "button_reachable level capacity w1" and "bw_level w1 = bw_level w"
      using less.prems by (auto simp: button_rest_step_def intro: button_reachable.step)
    with less.hyps [OF button_rest_step_weight [OF w1]] show ?thesis
      using w1 by (metis converse_rtranclp_into_rtranclp)
  qed
qed

text \<open>And there is no other way for it to end: without a step left, the world is quiet.\<close>

lemma button_stuck_quiet:
  assumes "button_reachable level capacity w" "0 < capacity" "\<nexists>w'. button_rest_step w w'"
  shows "button_quiet w \<and> bw_seen w = bw_level w"
  using button_progress [OF assms(1,2)] button_quiet_seen [OF assms(1,2)] assms(3)
  by (auto simp: button_rest_step_def)

end
