(* ===== verification/Display_Status.thy ===== *)
theory Display_Status
  imports Host_Io
begin

text \<open>
  The status display of the USB worker (\<^verbatim>\<open>display.rs\<close>): the panel behind its lock, and the thread
  that follows the USB state and the identify command. The panel driver and the blinking
  indicator belong to another crate: the results of their calls are parameters, and the state
  here is what the thread asked of them. Times are in nanoseconds.
\<close>

datatype DisplayKind = St7789Spi | Sh1106Spi | Sh1106I2c

datatype frame_asset = LED_OFF_FRAME | LED_ON_FRAME | OLED_LED_OFF_FRAME | OLED_LED_ON_FRAME

section \<open>The panel\<close>

record Hardware =
  hw_kind :: DisplayKind
  hw_display :: bool
  hw_error_reported :: bool

text \<open>Whether opening, writing to and shutting down the panel succeed.\<close>

record panel_results =
  pr_open :: bool
  pr_write :: bool
  pr_shutdown :: bool

definition hardware_new :: "DisplayKind \<Rightarrow> Hardware" where
  "hardware_new kind = \<lparr>hw_kind = kind, hw_display = False, hw_error_reported = False\<rparr>"

definition report_error :: "Hardware \<Rightarrow> Hardware" where
  "report_error h = h\<lparr>hw_error_reported := True, hw_display := False\<rparr>"

definition frame_of :: "DisplayKind \<Rightarrow> bool \<Rightarrow> frame_asset" where
  "frame_of kind led_on = (case kind of
       St7789Spi \<Rightarrow> if led_on then LED_ON_FRAME else LED_OFF_FRAME
     | Sh1106Spi \<Rightarrow> if led_on then OLED_LED_ON_FRAME else OLED_LED_OFF_FRAME
     | Sh1106I2c \<Rightarrow> if led_on then OLED_LED_ON_FRAME else OLED_LED_OFF_FRAME)"

text \<open>\<^verbatim>\<open>Hardware::render\<close>, with the frame the panel has taken.\<close>

definition render :: "panel_results \<Rightarrow> bool \<Rightarrow> Hardware \<Rightarrow> frame_asset option \<times> Hardware" where
  "render pr led_on h =
     (if \<not> hw_display h \<and> \<not> pr_open pr then (None, report_error h)
      else
        let h = (if hw_display h then h else h\<lparr>hw_display := True, hw_error_reported := False\<rparr>) in
        if pr_write pr then (Some (frame_of (hw_kind h) led_on), h) else (None, report_error h))"

definition turn_off :: "panel_results \<Rightarrow> Hardware \<Rightarrow> Hardware" where
  "turn_off pr h =
     (if \<not> hw_display h then h
      else
        let h = h\<lparr>hw_display := False\<rparr> in
        if pr_shutdown pr then h else report_error h)"

section \<open>The display thread\<close>

datatype display_command =
    Dc_Identify u8 | Dc_PersonalityPresent | Dc_PersonalityAbsent | Dc_Bind | Dc_Unbind
  | Dc_Suspend | Dc_Resume | Dc_Shutdown

text \<open>What ends a wait: a command, the deadline of the identification, or that all senders are gone.\<close>

datatype incoming = Received display_command | Timeout | Disconnected

record display_state =
  ds_personality_present :: bool
  ds_bound :: bool
  ds_suspended :: bool
  ds_identify_until :: "nat option"
  ds_identify_guard :: bool
  ds_indicator :: bool
  ds_hardware :: Hardware
  ds_frames :: "frame_asset list"

record display_env =
  de_now :: nat
  de_indicator :: "unit io"
  de_attention :: "unit io"
  de_lock :: "unit io"
  de_panel :: panel_results

definition display_start :: "DisplayKind \<Rightarrow> display_state" where
  "display_start kind =
     \<lparr>ds_personality_present = False, ds_bound = False, ds_suspended = False, ds_identify_until = None,
      ds_identify_guard = False, ds_indicator = False, ds_hardware = hardware_new kind, ds_frames = []\<rparr>"

definition NANOS_PER_SEC :: nat where "NANOS_PER_SEC = 1000000000"

text \<open>\<^verbatim>\<open>identify_until = None; drop(identify_guard.take())\<close>.\<close>

definition end_identify :: "display_state \<Rightarrow> display_state" where
  "end_identify s = s\<lparr>ds_identify_until := None, ds_identify_guard := False\<rparr>"

text \<open>\<^verbatim>\<open>indicator.enable()\<close> and \<^verbatim>\<open>indicator.disable()\<close>: the indicator follows a call that succeeds.\<close>

definition set_indicator :: "display_env \<Rightarrow> bool \<Rightarrow> display_state \<Rightarrow> unit io \<times> display_state" where
  "set_indicator e on s = try_in (de_indicator e) s (\<lambda>_. (Ok (), s\<lparr>ds_indicator := on\<rparr>))"

text \<open>\<^verbatim>\<open>lock_hardware(..)?.render(false)\<close>.\<close>

definition show_idle :: "display_env \<Rightarrow> display_state \<Rightarrow> unit io \<times> display_state" where
  "show_idle e s = try_in (de_lock e) s (\<lambda>_.
     let r = render (de_panel e) False (ds_hardware s) in
     (Ok (), s\<lparr>ds_hardware := snd r, ds_frames := ds_frames s @ (case fst r of None \<Rightarrow> [] | Some f \<Rightarrow> [f])\<rparr>))"

definition show_nothing :: "display_env \<Rightarrow> display_state \<Rightarrow> unit io \<times> display_state" where
  "show_nothing e s = try_in (de_lock e) s (\<lambda>_.
     (Ok (), s\<lparr>ds_hardware := turn_off (de_panel e) (ds_hardware s)\<rparr>))"

text \<open>
  One command. The result says whether the thread is done (\<open>Some ()\<close>) or waits again (\<open>None\<close>).
\<close>

definition display_command :: "display_env \<Rightarrow> display_command \<Rightarrow> display_state \<Rightarrow> unit option io \<times> display_state" where
  "display_command e c s = (case c of
       Dc_Identify seconds \<Rightarrow>
         if ds_personality_present s \<and> ds_bound s \<and> \<not> ds_suspended s \<and> seconds \<noteq> 0 then
           let s = s\<lparr>ds_identify_guard := False\<rparr> in
           try_in (de_attention e) s (\<lambda>_.
           (Ok None, s\<lparr>ds_identify_guard := True,
                       ds_identify_until := Some (de_now e + unat seconds * NANOS_PER_SEC)\<rparr>))
         else (Ok None, s)
     | Dc_PersonalityPresent \<Rightarrow>
         let s = end_identify (s\<lparr>ds_personality_present := True, ds_bound := False, ds_suspended := False\<rparr>) in
         try_st (set_indicator e False s) (\<lambda>_ s.
         try_st (show_idle e s) (\<lambda>_ s. (Ok None, s)))
     | Dc_PersonalityAbsent \<Rightarrow>
         let s = end_identify (s\<lparr>ds_personality_present := False, ds_bound := False, ds_suspended := False\<rparr>);
             disabled = set_indicator e False s in
         try_st (show_nothing e (snd disabled)) (\<lambda>_ s.
         try_in (fst disabled) s (\<lambda>_. (Ok None, s)))
     | Dc_Bind \<Rightarrow>
         let s = end_identify (s\<lparr>ds_bound := True, ds_suspended := False\<rparr>) in
         if ds_personality_present s then
           try_st (show_idle e s) (\<lambda>_ s.
           try_st (set_indicator e True s) (\<lambda>_ s. (Ok None, s)))
         else (Ok None, s)
     | Dc_Unbind \<Rightarrow>
         let s = end_identify (s\<lparr>ds_bound := False, ds_suspended := False\<rparr>) in
         try_st (set_indicator e False s) (\<lambda>_ s.
         try_st (if ds_personality_present s then show_idle e s else (Ok (), s)) (\<lambda>_ s. (Ok None, s)))
     | Dc_Suspend \<Rightarrow>
         let s = end_identify (s\<lparr>ds_suspended := True\<rparr>) in
         try_st (set_indicator e False s) (\<lambda>_ s.
         try_st (if ds_personality_present s then show_idle e s else (Ok (), s)) (\<lambda>_ s. (Ok None, s)))
     | Dc_Resume \<Rightarrow>
         if ds_personality_present s \<and> ds_bound s \<and> ds_suspended s then
           let s = s\<lparr>ds_suspended := False\<rparr> in
           try_st (show_idle e s) (\<lambda>_ s.
           try_st (set_indicator e True s) (\<lambda>_ s. (Ok None, s)))
         else (Ok None, s)
     | Dc_Shutdown \<Rightarrow>
         let s = s\<lparr>ds_identify_guard := False\<rparr>;
             stopped = set_indicator e False s in
         try_st (show_nothing e (snd stopped)) (\<lambda>_ s.
         try_in (fst stopped) s (\<lambda>_. (Ok (Some ()), s))))"

definition display_turn :: "display_env \<Rightarrow> incoming \<Rightarrow> display_state \<Rightarrow> unit option io \<times> display_state" where
  "display_turn e i s = (case i of
       Received c \<Rightarrow> display_command e c s
     | Timeout \<Rightarrow> (Ok None, end_identify s)
     | Disconnected \<Rightarrow> display_command e Dc_Shutdown s)"

text \<open>
  \<^verbatim>\<open>display_loop\<close>, over what its waits deliver. A timeout is only possible while an
  identification has a deadline: without one the thread waits for the next command.
\<close>

fun display_loop :: "(display_env \<times> incoming) list \<Rightarrow> display_state \<Rightarrow> unit option io \<times> display_state" where
  "display_loop [] s = (Ok None, s)"
| "display_loop ((e, i) # waits) s =
     (if i = Timeout \<and> ds_identify_until s = None then display_loop waits s
      else
        let t = display_turn e i s in
        if fst t = Ok None then display_loop waits (snd t) else t)"

section \<open>What the display shows\<close>

definition attached :: "display_state \<Rightarrow> bool" where
  "attached s = (ds_personality_present s \<and> ds_bound s \<and> \<not> ds_suspended s)"

text \<open>
  The indicator runs exactly while the device is attached and awake, an identification only
  then and only with its deadline, and the panel is lit only while a personality is published.
\<close>

definition display_inv :: "display_state \<Rightarrow> bool" where
  "display_inv s =
     ((ds_indicator s \<longleftrightarrow> attached s)
      \<and> (ds_identify_guard s \<longleftrightarrow> ds_identify_until s \<noteq> None)
      \<and> (ds_identify_guard s \<longrightarrow> attached s)
      \<and> (hw_display (ds_hardware s) \<longrightarrow> ds_personality_present s))"

lemmas display_defs = display_command_def set_indicator_def show_idle_def show_nothing_def end_identify_def
  display_inv_def attached_def Let_def

lemma turn_off_display [simp]: "\<not> hw_display (turn_off pr h)"
  by (simp add: turn_off_def report_error_def Let_def)

lemma display_start_inv: "display_inv (display_start kind)"
  by (simp add: display_inv_def attached_def display_start_def hardware_new_def)

lemma display_command_inv:
  assumes "display_inv s" "fst (display_command e c s) = Ok None"
  shows "display_inv (snd (display_command e c s))"
proof (cases c)
  case (Dc_Identify seconds)
  then show ?thesis using assms by (cases "de_attention e") (auto simp: display_defs split: if_splits)
qed (use assms in \<open>cases "de_indicator e"; cases "de_lock e"; simp add: display_defs split: if_splits\<close>)+

lemma display_turn_inv:
  assumes "display_inv s" "fst (display_turn e i s) = Ok None"
  shows "display_inv (snd (display_turn e i s))"
  using assms display_command_inv [of s e]
  by (cases i) (simp_all add: display_turn_def, simp add: display_defs)

lemma display_loop_inv:
  "display_loop waits s = (Ok None, s') \<Longrightarrow> display_inv s \<Longrightarrow> display_inv s'"
proof (induction waits s rule: display_loop.induct)
  case (2 e i waits s)
  then show ?case
    by (cases "i = Timeout \<and> ds_identify_until s = None"; cases "display_turn e i s")
      (use display_turn_inv [of s e i] in \<open>auto simp: Let_def split: if_splits\<close>)
qed simp

text \<open>However the thread ends in order, the panel is dark and no identification is left running.\<close>

lemma display_command_done:
  "display_command e c s = (Ok (Some ()), s') \<Longrightarrow>
     c = Dc_Shutdown \<and> \<not> hw_display (ds_hardware s') \<and> \<not> ds_identify_guard s' \<and> \<not> ds_indicator s'"
  by (cases c; cases "de_indicator e"; cases "de_lock e") (auto simp: display_defs split: if_splits)

lemma display_loop_done:
  "display_loop waits s = (Ok (Some ()), s') \<Longrightarrow>
     \<not> hw_display (ds_hardware s') \<and> \<not> ds_identify_guard s' \<and> \<not> ds_indicator s'"
proof (induction waits s rule: display_loop.induct)
  case (2 e i waits s)
  show ?case
  proof (cases "i = Timeout \<and> ds_identify_until s = None \<or> fst (display_turn e i s) = Ok None")
    case True
    then show ?thesis using 2 by (auto simp: Let_def split: if_splits)
  next
    case False
    then have "display_turn e i s = (Ok (Some ()), s')" using 2(3) by (auto simp: Let_def split: if_splits)
    then show ?thesis by (cases i) (auto simp: display_turn_def dest: display_command_done)
  qed
qed simp

text \<open>Every frame the thread writes is the idle one of its panel.\<close>

lemma render_frame: "fst (render pr led h) = Some f \<Longrightarrow> f = frame_of (hw_kind h) led"
  by (auto simp: render_def Let_def split: if_splits)

lemma hw_kind_kept [simp]:
  "hw_kind (snd (render pr led h)) = hw_kind h" "hw_kind (turn_off pr h) = hw_kind h"
  by (simp_all add: render_def turn_off_def report_error_def Let_def)

end
