(* ===== verification/Usb_Control.thy ===== *)
theory Usb_Control
  imports Worker_Protocol Usb_Identity Buttons Display_Status
begin

text \<open>
  The control side of the USB worker (\<^verbatim>\<open>functionfs.rs\<close>): its initial resources, the endpoint map,
  and the loops that answer the supervisor and follow the KEY3 button. A loop is a function of
  what its turns observe: the poll result, the record received, the button's datagrams, the
  results of the sends. The device is shared with the endpoint threads: each turn says what they
  did to it since the last one.
\<close>

section \<open>Resources and endpoints\<close>

record Resources =
  rc_display_bus :: fd
  rc_display_control :: fd
  rc_reconnect_button :: fd

text \<open>\<^verbatim>\<open>InitialResources::parse\<close>: the loop, then the three \<^verbatim>\<open>ok_or_else\<close>.\<close>

datatype resource_slot = Slot_Bus | Slot_Control | Slot_Button

definition resource_slot :: "bytes \<Rightarrow> resource_slot option" where
  "resource_slot name =
     (if name = str_bytes ''display-spi'' \<or> name = str_bytes ''display-i2c'' then Some Slot_Bus
      else if name = str_bytes ''display-control'' then Some Slot_Control
      else if name = str_bytes ''reconnect-button'' then Some Slot_Button
      else None)"

fun place_resources :: "(bytes \<times> fd) list \<Rightarrow> (resource_slot \<Rightarrow> fd option) \<Rightarrow> (resource_slot \<Rightarrow> fd option) io" where
  "place_resources [] slots = Ok slots"
| "place_resources ((name, file) # resources) slots = (case resource_slot name of
       None \<Rightarrow> invalid
     | Some slot \<Rightarrow>
         if slots slot \<noteq> None then invalid else place_resources resources (slots(slot := Some file)))"

definition resources_parse :: "(bytes \<times> fd) list \<Rightarrow> Resources io" where
  "resources_parse resources =
     and_then (place_resources resources (\<lambda>_. None)) (\<lambda>slots.
     and_then (ok_or (slots Slot_Bus) (Custom MalformedData)) (\<lambda>bus.
     and_then (ok_or (slots Slot_Control) (Custom MalformedData)) (\<lambda>ctl.
     and_then (ok_or (slots Slot_Button) (Custom MalformedData)) (\<lambda>button.
     Ok \<lparr>rc_display_bus = bus, rc_display_control = ctl, rc_reconnect_button = button\<rparr>))))"

record Endpoints =
  ep_output :: fd
  ep_input :: fd

text \<open>\<open>nonblocking file\<close> is the result of \<^verbatim>\<open>set_nonblocking\<close>.\<close>

fun place_endpoints ::
  "(fd \<Rightarrow> unit io) \<Rightarrow> bytes \<Rightarrow> fd list \<Rightarrow> fd option \<Rightarrow> fd option \<Rightarrow> (fd option \<times> fd option) io" where
  "place_endpoints nonblocking (address # transfer_type # high # low # entries) (file # files) output input =
     and_then (nonblocking file) (\<lambda>_.
     and_then (reject_if (transfer_type \<noteq> 2 \<or> from_be [high, low] \<noteq> MAX_PACKET_SIZE)) (\<lambda>_.
     if address = BULK_OUT then
       if output \<noteq> None then invalid else place_endpoints nonblocking entries files (Some file) input
     else if address = BULK_IN then
       if input \<noteq> None then invalid else place_endpoints nonblocking entries files output (Some file)
     else invalid))"
| "place_endpoints nonblocking entries files output input = Ok (output, input)"

definition endpoints_from_record :: "(fd \<Rightarrow> unit io) \<Rightarrow> Record \<Rightarrow> Endpoints io" where
  "endpoints_from_record nonblocking r =
     (if length (rec_body r) < 2 then invalid
      else
        let count = unat (from_be (take 2 (rec_body r)) :: u16) in
        and_then (reject_if (length (rec_body r) \<noteq> 2 + count * 4 \<or> length (rec_files r) \<noteq> count)) (\<lambda>_.
        and_then (place_endpoints nonblocking (drop 2 (rec_body r)) (rec_files r) None None) (\<lambda>(output, input).
        and_then (ok_or output (Custom MalformedData)) (\<lambda>output.
        and_then (ok_or input (Custom MalformedData)) (\<lambda>input.
        Ok \<lparr>ep_output = output, ep_input = input\<rparr>)))))"

section \<open>The control loop\<close>

text \<open>The bus events the worker distinguishes; \<open>Bus_Other\<close> is any other one.\<close>

datatype UsbBusEvent = Bus_Bind | Bus_Unbind | Bus_Enable | Bus_Disable | Bus_Suspend | Bus_Resume | Bus_Other

datatype lifecycle_call = Lc_Activate nat | Lc_Stop

record 'k worker =
  wk_device :: "'k Device"
  wk_configure_request :: u32
  wk_sent :: "Record list"
  wk_display :: "display_command list"
  wk_lifecycle :: "lifecycle_call list"

text \<open>
  One turn of a loop. \<open>ct_poll\<close> is an error number or the number of ready descriptors;
  \<open>ct_decode\<close> is \<^verbatim>\<open>UsbBusEvent::decode\<close>, of another crate.
\<close>

record 'k control_turn =
  ct_run :: "'k Device \<Rightarrow> 'k Device"
  ct_poll :: "nat + nat"
  ct_stop :: bool
  ct_control_events :: u16
  ct_received :: recvmsg
  ct_decode :: "bytes \<Rightarrow> (UsbBusEvent \<times> nat) io"
  ct_button_events :: u16
  ct_datagrams :: "(bytes + nat) list"
  ct_buttons :: reconnect_state
  ct_send :: libc_send
  ct_display :: "unit io"
  ct_lock :: "unit io"

definition POLLIN :: u16 where "POLLIN = 0x001"
definition POLLHUP :: u16 where "POLLHUP = 0x010"

definition transmit :: "libc_send \<Rightarrow> Record \<Rightarrow> 'k worker \<Rightarrow> unit io \<times> 'k worker" where
  "transmit libc_send r w = try_in (send libc_send r) w (\<lambda>_. (Ok (), w\<lparr>wk_sent := wk_sent w @ [r]\<rparr>))"

text \<open>\<open>display\<close> is the result of \<^verbatim>\<open>send_command\<close>: an error when the display thread is gone.\<close>

definition show_status :: "unit io \<Rightarrow> display_command \<Rightarrow> 'k worker \<Rightarrow> unit io \<times> 'k worker" where
  "show_status display c w = try_in display w (\<lambda>_. (Ok (), w\<lparr>wk_display := wk_display w @ [c]\<rparr>))"

definition publish_personality ::
  "libc_send \<Rightarrow> unit io \<Rightarrow> u32 \<Rightarrow> u32 \<Rightarrow> bytes \<Rightarrow> 'k worker \<Rightarrow> unit io \<times> 'k worker" where
  "publish_personality libc_send display generation request_id pers w =
     try_st (transmit libc_send (record_new Configure generation request_id pers) w) (\<lambda>_ w.
     show_status display (if pers = [] then Dc_PersonalityAbsent else Dc_PersonalityPresent) w)"

datatype ControlOutcome = Outcome_Quiesce u32 bool | Outcome_Exit

text \<open>\<^verbatim>\<open>PersistentDeviceHandle::clear_sessions\<close>; \<open>ct_lock\<close> is the result of taking the lock.\<close>

definition drop_sessions :: "'k control_turn \<Rightarrow> 'k worker \<Rightarrow> unit io \<times> 'k worker" where
  "drop_sessions t w = try_in (ct_lock t) w (\<lambda>_. (Ok (), w\<lparr>wk_device := clear_sessions (wk_device w)\<rparr>))"

definition bus_event ::
  "'k control_turn \<Rightarrow> UsbBusEvent \<Rightarrow> nat \<Rightarrow> 'k worker \<Rightarrow> unit io \<times> 'k worker" where
  "bus_event t event activation w =
     (let w = (if event = Bus_Enable then w\<lparr>wk_lifecycle := wk_lifecycle w @ [Lc_Activate activation]\<rparr> else w) in
      try_st (if event \<in> {Bus_Bind, Bus_Unbind, Bus_Disable} then drop_sessions t w else (Ok (), w)) (\<lambda>_ w.
      case event of
        Bus_Bind \<Rightarrow> show_status (ct_display t) Dc_Bind w
      | Bus_Unbind \<Rightarrow> show_status (ct_display t) Dc_Unbind w
      | Bus_Suspend \<Rightarrow> show_status (ct_display t) Dc_Suspend w
      | Bus_Resume \<Rightarrow> show_status (ct_display t) Dc_Resume w
      | _ \<Rightarrow> (Ok (), w)))"

text \<open>The record of one turn; \<open>None\<close> means that the turn goes on.\<close>

definition control_record ::
  "'k control_turn \<Rightarrow> u32 \<Rightarrow> bool \<Rightarrow> Record \<Rightarrow> 'k worker \<Rightarrow> ControlOutcome option io \<times> 'k worker" where
  "control_record t generation pending r w =
     (if rec_generation r \<noteq> generation \<or> rec_files r \<noteq> [] then (invalid, w)
      else if rec_kind r = UsbBusEvent \<and> rec_request_id r = 0 then
        try_in (ct_decode t (rec_body r)) w (\<lambda>(event, activation).
        try_st (bus_event t event activation w) (\<lambda>_ w. (Ok None, w)))
      else if rec_kind r = UsbControlRequest \<and> rec_request_id r \<noteq> 0 then
        try_st (transmit (ct_send t) (record_new UsbControlResponse generation (rec_request_id r) [0]) w) (\<lambda>_ w. (Ok None, w))
      else if rec_kind r = Quiesce \<and> rec_body r = [] then
        try_st (show_status (ct_display t) Dc_Unbind (w\<lparr>wk_lifecycle := wk_lifecycle w @ [Lc_Stop]\<rparr>)) (\<lambda>_ w.
        if rec_request_id r = 0 then (Ok (Some (Outcome_Quiesce 0 False)), w)
        else if pending \<and> rec_request_id r = wk_configure_request w then
          (Ok (Some (Outcome_Quiesce (rec_request_id r) True)), w)
        else (invalid, w))
      else (invalid, w))"

text \<open>\<^verbatim>\<open>configure_request.checked_add(1)\<close>, the publication and the update of the counter.\<close>

definition configure_next ::
  "'k control_turn \<Rightarrow> u32 \<Rightarrow> bytes \<Rightarrow> 'k worker \<Rightarrow> unit io \<times> 'k worker" where
  "configure_next t generation pers w =
     (if wk_configure_request w = - 1 then (Err (Custom OtherKind), w)
      else
        let request_id = wk_configure_request w + 1 in
        try_st (publish_personality (ct_send t) (ct_display t) generation request_id pers w) (\<lambda>_ w.
        (Ok (), w\<lparr>wk_configure_request := request_id\<rparr>)))"

text \<open>The control descriptor of one turn of \<^verbatim>\<open>serve_control\<close>, and then the button's.\<close>

definition control_input ::
  "u32 \<Rightarrow> 'k control_turn \<Rightarrow> bool \<Rightarrow> 'k worker \<Rightarrow> ControlOutcome option io \<times> 'k worker" where
  "control_input generation t pending w =
     (if and (ct_control_events t) POLLIN \<noteq> 0 then
        (case receive (ct_received t) of
           Ok r \<Rightarrow> control_record t generation pending r w
         | Err e \<Rightarrow> if error_kind e = UnexpectedEof then (Ok (Some Outcome_Exit), w) else (Err e, w)
         | Panic \<Rightarrow> (Panic, w)
         | Diverge \<Rightarrow> (Diverge, w))
      else if ct_control_events t \<noteq> 0 then
        if and (ct_control_events t) POLLHUP \<noteq> 0 then (Ok (Some Outcome_Exit), w)
        else (Err (Custom OtherKind), w)
      else (Ok None, w))"

definition button_input :: "u32 \<Rightarrow> 'k control_turn \<Rightarrow> bool \<Rightarrow> 'k worker \<Rightarrow> bool io \<times> 'k worker" where
  "button_input generation t pending w =
     try_st
       (if and (ct_button_events t) POLLIN \<noteq> 0 \<and> \<not> pending then
          try_in (take_reconnect_state (ct_datagrams t) (ct_buttons t)) w (\<lambda>pressed.
          if pressed then try_st (configure_next t generation [] w) (\<lambda>_ w. (Ok True, w)) else (Ok False, w))
        else (Ok pending, w))
       (\<lambda>pending w.
         if and (ct_button_events t) (not POLLIN) \<noteq> 0 then (Err (Custom OtherKind), w) else (Ok pending, w))"

text \<open>
  One turn of \<^verbatim>\<open>serve_control\<close>. The result is the outcome that ends the loop, or \<open>None\<close>, with the
  flag \<^verbatim>\<open>unconfiguration_pending\<close> as the turn leaves it.
\<close>

definition control_turn ::
  "u32 \<Rightarrow> 'k control_turn \<Rightarrow> bool \<Rightarrow> 'k worker \<Rightarrow> (ControlOutcome option \<times> bool) io \<times> 'k worker" where
  "control_turn generation t pending w0 =
     (let w = w0\<lparr>wk_device := ct_run t (wk_device w0)\<rparr> in
      case ct_poll t of
        Inl errno \<Rightarrow>
          if error_kind (Os errno) = Interrupted then (Ok (None, pending), w) else (Err (Os errno), w)
      | Inr ready \<Rightarrow>
          if ct_stop t then (Err (Custom Interrupted), w)
          else if ready = 0 then (Ok (None, pending), w)
          else
            try_st (control_input generation t pending w) (\<lambda>outcome w.
            case outcome of
              Some x \<Rightarrow> (Ok (Some x, pending), w)
            | None \<Rightarrow> try_st (button_input generation t pending w) (\<lambda>pending w. (Ok (None, pending), w))))"

text \<open>\<^verbatim>\<open>serve_control\<close> over its turns; \<open>None\<close> when it still waits after the last one.\<close>

fun control_turns ::
  "u32 \<Rightarrow> 'k control_turn list \<Rightarrow> bool \<Rightarrow> 'k worker \<Rightarrow> ControlOutcome option io \<times> 'k worker" where
  "control_turns generation [] pending w = (Ok None, w)"
| "control_turns generation (t # ts) pending w =
     try_st (control_turn generation t pending w) (\<lambda>(outcome, pending) w.
     case outcome of Some x \<Rightarrow> (Ok (Some x), w) | None \<Rightarrow> control_turns generation ts pending w)"

definition serve_control ::
  "u32 \<Rightarrow> 'k control_turn list \<Rightarrow> 'k worker \<Rightarrow> ControlOutcome option io \<times> 'k worker" where
  "serve_control generation turns w = control_turns generation turns False w"

text \<open>One turn of \<^verbatim>\<open>wait_for_reinsert\<close>: \<open>None\<close> when the loop goes on.\<close>

definition reinsert_turn ::
  "u32 \<Rightarrow> bytes \<Rightarrow> 'k control_turn \<Rightarrow> 'k worker \<Rightarrow> bool option io \<times> 'k worker" where
  "reinsert_turn generation pers t w0 =
     (let w = w0\<lparr>wk_device := ct_run t (wk_device w0)\<rparr> in
      case ct_poll t of
        Inl errno \<Rightarrow> if error_kind (Os errno) = Interrupted then (Ok None, w) else (Err (Os errno), w)
      | Inr ready \<Rightarrow>
          if ct_stop t then (Ok (Some False), w)
          else if ready = 0 then (Ok None, w)
          else if ct_control_events t \<noteq> 0 then
            (case receive (ct_received t) of
               Err e \<Rightarrow> if error_kind e = UnexpectedEof then (Ok (Some False), w) else (Err e, w)
             | Ok r \<Rightarrow> (invalid, w)
             | Panic \<Rightarrow> (Panic, w)
             | Diverge \<Rightarrow> (Diverge, w))
          else
            try_in (if and (ct_button_events t) POLLIN \<noteq> 0
                    then take_reconnect_state (ct_datagrams t) (ct_buttons t) else Ok True) w (\<lambda>pressed.
            if \<not> pressed then try_st (configure_next t generation pers w) (\<lambda>_ w. (Ok (Some True), w))
            else if and (ct_button_events t) (not POLLIN) \<noteq> 0 then (Err (Custom OtherKind), w)
            else (Ok None, w)))"

fun wait_for_reinsert ::
  "u32 \<Rightarrow> bytes \<Rightarrow> 'k control_turn list \<Rightarrow> 'k worker \<Rightarrow> bool option io \<times> 'k worker" where
  "wait_for_reinsert generation pers [] w = (Ok None, w)"
| "wait_for_reinsert generation pers (t # ts) w =
     try_st (reinsert_turn generation pers t w) (\<lambda>outcome w.
     case outcome of Some x \<Rightarrow> (Ok (Some x), w) | None \<Rightarrow> wait_for_reinsert generation pers ts w)"

section \<open>A disconnected host\<close>

text \<open>Talking to the supervisor and the display leaves the device alone.\<close>

lemma transmit_device [simp]: "wk_device (snd (transmit c r w)) = wk_device w"
  by (simp add: transmit_def try_in_def split: result.split)

lemma show_status_device [simp]: "wk_device (snd (show_status display c w)) = wk_device w"
  by (simp add: show_status_def try_in_def split: result.split)

lemma publish_device: "publish_personality c display g n pers w = (r, w') \<Longrightarrow> wk_device w' = wk_device w"
  using transmit_device [of c "record_new Configure g n pers" w]
  by (cases "transmit c (record_new Configure g n pers) w"; cases "fst (transmit c (record_new Configure g n pers) w)")
    (auto simp: publish_personality_def show_status_def try_in_def split: result.splits)

lemma button_input_device: "button_input g t pending w = (Ok p, w') \<Longrightarrow> wk_device w' = wk_device w"
  by (auto simp: button_input_def configure_next_def Let_def dest!: publish_device split: if_splits)

lemma bus_event_drops:
  assumes "bus_event t event activation w = (Ok (), w')" "event \<in> {Bus_Bind, Bus_Unbind, Bus_Disable}"
  shows "wk_device w' = clear_sessions (wk_device w)"
  using assms by (auto simp: bus_event_def drop_sessions_def show_status_def)

text \<open>Whatever else the turn does, the bus event that ends the connection ends every session.\<close>

lemma control_turn_drops:
  assumes turn: "control_turn g t pending w = (Ok (None, pending'), w')"
    and ready: "ct_poll t = Inr ready" "0 < ready" "and (ct_control_events t) POLLIN \<noteq> 0"
    and event: "receive (ct_received t) = Ok r" "rec_kind r = UsbBusEvent" "rec_request_id r = 0"
      "ct_decode t (rec_body r) = Ok (event, activation)" "event \<in> {Bus_Bind, Bus_Unbind, Bus_Disable}"
  shows "wk_device w' = clear_sessions (ct_run t (wk_device w))"
proof -
  let ?w = "w\<lparr>wk_device := ct_run t (wk_device w)\<rparr>"
  obtain w1 where "bus_event t event activation ?w = (Ok (), w1)" "button_input g t pending w1 = (Ok pending', w')"
    using turn ready event by (auto simp: control_turn_def control_input_def control_record_def Let_def split: if_splits)
  with bus_event_drops [OF _ event(5)] button_input_device show ?thesis by fastforce
qed

end
