(* ===== verification/Persistent_Runtime.thy ===== *)
theory Persistent_Runtime
  imports Host_Io
begin

text \<open>
  Ownership of one durable device (\<^verbatim>\<open>persistent_runtime.rs\<close>): opening it under its lock, and
  closing it. The lock, the file system and the background writer belong to other crates; the
  results of their calls are parameters. \<^verbatim>\<open>execute_observing\<close>, the state file and its first
  creation are in the theory of the durable state.
\<close>

text \<open>The two files of a device, next to each other in the state directory.\<close>

definition state_file :: "u32 \<Rightarrow> string" where
  "state_file serial = ''yubihsm-'' @ decimal (unat serial) @ ''.cbor''"

definition lock_file :: "u32 \<Rightarrow> string" where
  "lock_file serial = ''yubihsm-'' @ decimal (unat serial) @ ''.lock''"

record runtime_calls =
  rt_lock :: "string \<Rightarrow> unit io"
  rt_read :: "string \<Rightarrow> file_read"
  rt_replace :: "string \<Rightarrow> bytes \<Rightarrow> bool"
  rt_start :: "unit io"
  rt_flush :: "unit io"

text \<open>An open runtime: the device, the files it owns and its version.\<close>

record 'k PersistentDevice =
  pd_device :: "'k Device"
  pd_state_path :: string
  pd_lock_path :: string
  pd_version :: bytes

definition open_device ::
  "'k lib \<Rightarrow> 'k env \<Rightarrow> state_writer \<Rightarrow> state_reader \<Rightarrow> runtime_calls \<Rightarrow> DeviceConfig \<Rightarrow> 'k PersistentDevice io" where
  "open_device L E W R rt config =
     (let state_path = state_file (cf_serial config); lock_path = lock_file (cf_serial config) in
      and_then (rt_lock rt lock_path) (\<lambda>_.
      and_then (map_err Runtime
        (load_or_create_state L E W R (rt_read rt state_path) (rt_replace rt state_path) config)) (\<lambda>(d, image).
      and_then (rt_start rt) (\<lambda>_.
      Ok \<lparr>pd_device = d, pd_state_path = state_path, pd_lock_path = lock_path, pd_version = cf_version config\<rparr>))))"

text \<open>The final flush decides the result; the lock is released after it in either case.\<close>

definition shutdown_device :: "runtime_calls \<Rightarrow> 'k PersistentDevice \<Rightarrow> unit io" where
  "shutdown_device rt pd = rt_flush rt"

text \<open>
  Different serial numbers have different files: two devices in one directory share neither
  state nor lock, and no lock is another device's state.
\<close>

text \<open>The number a string of decimal digits denotes.\<close>

definition digits_value :: "string \<Rightarrow> nat" where
  "digits_value s = foldl (\<lambda>n c. n * 10 + (of_char c - 48)) 0 s"

lemma digits_value_append [simp]: "digits_value (s @ [c]) = digits_value s * 10 + (of_char c - 48)"
  by (simp add: digits_value_def)

lemma of_char_digit: "n < 10 \<Longrightarrow> of_char (char_of (48 + n :: nat)) = 48 + n"
  by simp

lemma digits_value_decimal: "digits_value (decimal n) = n"
proof (induction n rule: decimal.induct)
  case (1 n)
  show ?case
  proof (cases "n < 10")
    case True
    then show ?thesis by (subst decimal.simps) (simp add: digits_value_def)
  next
    case False
    then show ?thesis using 1 by (subst decimal.simps) (simp add: of_char_digit)
  qed
qed

lemma decimal_inj: "decimal m = decimal n \<longleftrightarrow> m = n"
  by (metis digits_value_decimal)

lemma state_file_inj: "state_file a = state_file b \<longleftrightarrow> a = b" "lock_file a = lock_file b \<longleftrightarrow> a = b"
  by (simp_all add: state_file_def lock_file_def decimal_inj word_unat_eq_iff)

text \<open>
  A device is opened only under its lock, from the state that was saved or from the factory
  state when there is none; a state that cannot be read or is not acceptable stops the open, and
  nothing is written over it.
\<close>

lemma open_device_Ok:
  assumes "open_device L E W R rt config = Ok pd"
  shows "rt_lock rt (lock_file (cf_serial config)) = Ok ()"
    "(\<exists>encoded. rt_read rt (state_file (cf_serial config)) = File_Contents encoded
        \<and> from_persistent_state L R config encoded = Ok (pd_device pd))
     \<or> (\<exists>image. rt_read rt (state_file (cf_serial config)) = File_NotFound
        \<and> factory_default L E config = Ok (pd_device pd) \<and> persistent_state L W (pd_device pd) = Ok image
        \<and> rt_replace rt (state_file (cf_serial config)) image)"
  using assms
  by (auto simp: open_device_def load_or_create_state_def encode_state_def Let_def
      split: file_read.splits if_splits)

end
