(* ===== verification/Usb_Worker.thy ===== *)
theory Usb_Worker
  imports Usb_Control Persistent_Runtime
begin

text \<open>
  The USB worker as a whole (\<^verbatim>\<open>run_worker\<close> of \<^verbatim>\<open>functionfs.rs\<close>): the start, one generation of
  endpoints after the other, and the orderly end. The records it sends are shown to follow the
  supervisor's protocol, whatever it receives and whichever call fails.
\<close>

section \<open>One generation\<close>

text \<open>
  The inputs of a generation: the record that hands over the endpoints, the results of the
  system calls, and the turns of the two loops.
\<close>

record 'k generation =
  gn_received :: recvmsg
  gn_nonblocking :: "fd \<Rightarrow> unit io"
  gn_start :: "unit io"
  gn_serving :: libc_send
  gn_turns :: "'k control_turn list"
  gn_shutdown :: "unit io"
  gn_flush :: "unit io"
  gn_quiesced :: libc_send
  gn_reinsert :: "'k control_turn list"

datatype worker_next = Again | Finished

text \<open>What the outcome of the control loop asks for; \<open>None\<close> when the worker still waits.\<close>

definition finish_generation ::
  "bytes \<Rightarrow> 'k generation \<Rightarrow> u32 \<Rightarrow> ControlOutcome \<Rightarrow> 'k worker \<Rightarrow> worker_next option io \<times> 'k worker" where
  "finish_generation pers g generation outcome w = (case outcome of
       Outcome_Exit \<Rightarrow> (Ok (Some Finished), w)
     | Outcome_Quiesce request_id ejected \<Rightarrow>
         try_st (transmit (gn_quiesced g) (record_new Quiesced generation request_id []) w) (\<lambda>_ w.
         if \<not> ejected then (Ok (Some Finished), w)
         else
           try_st (wait_for_reinsert generation pers (gn_reinsert g) w) (\<lambda>reinserted w.
           case reinserted of
             None \<Rightarrow> (Ok None, w)
           | Some True \<Rightarrow> (Ok (Some Again), w)
           | Some False \<Rightarrow> (Ok (Some Finished), w))))"

text \<open>From the announcement that the endpoints are served to the end of the generation.\<close>

definition serve_generation ::
  "bytes \<Rightarrow> 'k generation \<Rightarrow> u32 \<Rightarrow> 'k worker \<Rightarrow> worker_next option io \<times> 'k worker" where
  "serve_generation pers g generation w =
     try_st (transmit (gn_serving g) (record_new Serving generation (wk_configure_request w) []) w) (\<lambda>_ w.
     let c = serve_control generation (gn_turns g) w in
     if fst c = Ok None then (Ok None, snd c)
     else
       let w = (snd c)\<lparr>wk_lifecycle := wk_lifecycle (snd c) @ [Lc_Stop]\<rparr> in
       try_in (fst c) w (\<lambda>outcome.
       try_in (gn_shutdown g) w (\<lambda>_.
       try_in (gn_flush g) w (\<lambda>_.
       case outcome of None \<Rightarrow> (Ok None, w) | Some out \<Rightarrow> finish_generation pers g generation out w))))"

text \<open>The body of the worker's loop.\<close>

definition worker_generation ::
  "bytes \<Rightarrow> 'k generation \<Rightarrow> 'k worker \<Rightarrow> worker_next option io \<times> 'k worker" where
  "worker_generation pers g w =
     try_in (receive (gn_received g)) w (\<lambda>r.
     if rec_kind r = ConfigurationRejected then (invalid, w)
     else if rec_kind r \<noteq> UsbEndpoints \<or> rec_generation r = 0 \<or> rec_request_id r \<noteq> wk_configure_request w
     then (invalid, w)
     else
       try_in (endpoints_from_record (gn_nonblocking g) r) w (\<lambda>_.
       try_in (gn_start g) w (\<lambda>_.
       serve_generation pers g (rec_generation r) w)))"

fun worker_loop :: "bytes \<Rightarrow> 'k generation list \<Rightarrow> 'k worker \<Rightarrow> unit option io \<times> 'k worker" where
  "worker_loop pers [] w = (Ok None, w)"
| "worker_loop pers (g # gs) w =
     try_st (worker_generation pers g w) (\<lambda>next w.
     case next of
       None \<Rightarrow> (Ok None, w)
     | Some Again \<Rightarrow> worker_loop pers gs w
     | Some Finished \<Rightarrow> (Ok (Some ()), w))"

section \<open>The worker\<close>

record ('k, 'p) startup =
  su_euid :: nat
  su_received :: recvmsg
  su_state_directory :: "bytes option"
  su_open :: "bytes \<Rightarrow> u32 \<Rightarrow> 'k Device io"
  su_library :: "'p usb_library"
  su_to_cbor :: "'p \<Rightarrow> bytes io"
  su_display_start :: "unit io"
  su_buttons_start :: "bool io"
  su_send :: libc_send
  su_display :: "unit io"
  su_reinsert :: "'k control_turn list"
  su_persistence_shutdown :: "unit io"
  su_buttons_shutdown :: "unit io"
  su_display_shutdown :: "unit io"

definition required_path :: "bytes option \<Rightarrow> bytes io" where
  "required_path value = (case value of
       None \<Rightarrow> Err (Custom NotFound)
     | Some path \<Rightarrow>
         if path = [] then Err (Custom NotFound)
         else if hd path \<noteq> of_char (CHR ''/'') then invalid
         else Ok path)"

text \<open>The first publication: absent while the button is held, and then the wait for its release.\<close>

definition first_personality ::
  "('k, 'p) startup \<Rightarrow> bool \<Rightarrow> bytes \<Rightarrow> 'k worker \<Rightarrow> bool option io \<times> 'k worker" where
  "first_personality su pressed pers w =
     (if pressed then
        try_st (publish_personality (su_send su) (su_display su) 0 (wk_configure_request w) [] w) (\<lambda>_ w.
        wait_for_reinsert 0 pers (su_reinsert su) w)
      else
        try_st (publish_personality (su_send su) (su_display su) 0 (wk_configure_request w) pers w) (\<lambda>_ w.
        (Ok (Some True), w)))"

definition worker_serve ::
  "('k, 'p) startup \<Rightarrow> bool \<Rightarrow> bytes \<Rightarrow> 'k generation list \<Rightarrow> 'k worker \<Rightarrow> unit option io \<times> 'k worker" where
  "worker_serve su pressed pers gs w =
     try_st (first_personality su pressed pers w) (\<lambda>inserted w.
     case inserted of
       None \<Rightarrow> (Ok None, w)
     | Some False \<Rightarrow> (Ok (Some ()), w)
     | Some True \<Rightarrow> worker_loop pers gs w)"

definition worker_start :: "'k Device \<Rightarrow> 'k worker" where
  "worker_start d =
     \<lparr>wk_device = d, wk_configure_request = 1, wk_sent = [], wk_display = [], wk_lifecycle = []\<rparr>"

text \<open>What is set up before the worker publishes anything.\<close>

definition prepare_worker :: "u32 \<Rightarrow> ('k, 'p) startup \<Rightarrow> ('k Device \<times> bytes \<times> bool) io" where
  "prepare_worker serial su =
     (if su_euid su = 0 then Err (Custom PermissionDenied)
      else
        and_then (receive (su_received su)) (\<lambda>r.
        and_then (validate_initial_resources r) (\<lambda>table.
        and_then (resources_parse table) (\<lambda>_.
        and_then (required_path (su_state_directory su)) (\<lambda>directory.
        and_then (su_open su directory serial) (\<lambda>d.
        and_then (personality (su_library su) serial) (\<lambda>p.
        and_then (su_to_cbor su p) (\<lambda>pers.
        and_then (su_display_start su) (\<lambda>_.
        and_then (su_buttons_start su) (\<lambda>pressed.
        Ok (d, pers, pressed)))))))))))"

text \<open>
  \<^verbatim>\<open>run_worker\<close>. A worker that never got to publish has no state to report. The result is \<open>None\<close>
  while it still serves; when it stops, the first failure among its own result and the three
  shutdowns is the one returned.
\<close>

definition run_worker ::
  "u32 \<Rightarrow> ('k, 'p) startup \<Rightarrow> 'k generation list \<Rightarrow> unit option io \<times> 'k worker option" where
  "run_worker serial su gs = (case prepare_worker serial su of
       Err e \<Rightarrow> (Err e, None)
     | Panic \<Rightarrow> (Panic, None)
     | Diverge \<Rightarrow> (Diverge, None)
     | Ok (d, pers, pressed) \<Rightarrow>
         let m = worker_serve su pressed pers gs (worker_start d) in
         (if fst m = Ok None then Ok None
          else
            and_then (fst m) (\<lambda>done.
            and_then (su_persistence_shutdown su) (\<lambda>_.
            and_then (su_buttons_shutdown su) (\<lambda>_.
            and_then (su_display_shutdown su) (\<lambda>_. Ok done)))),
          Some (snd m)))"

section \<open>The supervisor's protocol\<close>

text \<open>
  What a supervisor may rely on, as an automaton over the records it receives. Configuration
  requests are numbered from 1 without a gap; a worker announces its personality, serves it under
  the generation the supervisor gave, may then ask once for its removal, and after it has confirmed
  that the endpoints are quiet announces the personality again.
\<close>

datatype phase =
    Ph_Start | Ph_Absent u32 nat | Ph_Announced nat | Ph_Serving u32 nat | Ph_Ejecting u32 nat | Ph_Ended

fun phase_step :: "phase \<Rightarrow> Record \<Rightarrow> phase option" where
  "phase_step Ph_Start r =
     (if rec_kind r = Configure \<and> rec_generation r = 0 \<and> rec_request_id r = 1
     then Some (if rec_body r = [] then Ph_Absent 0 1 else Ph_Announced 1) else None)"
| "phase_step (Ph_Absent g n) r =
     (if rec_kind r = Configure \<and> rec_generation r = g \<and> unat (rec_request_id r) = n + 1 \<and> rec_body r \<noteq> []
     then Some (Ph_Announced (n + 1)) else None)"
| "phase_step (Ph_Announced n) r =
     (if rec_kind r = Serving \<and> rec_generation r \<noteq> 0 \<and> unat (rec_request_id r) = n \<and> rec_body r = []
     then Some (Ph_Serving (rec_generation r) n) else None)"
| "phase_step (Ph_Serving g n) r =
     (if rec_generation r \<noteq> g then None
     else if rec_kind r = UsbControlResponse \<and> rec_request_id r \<noteq> 0 \<and> rec_body r = [0] then Some (Ph_Serving g n)
     else if rec_kind r = Configure \<and> unat (rec_request_id r) = n + 1 \<and> rec_body r = []
     then Some (Ph_Ejecting g (n + 1))
     else if rec_kind r = Quiesced \<and> rec_request_id r = 0 \<and> rec_body r = [] then Some Ph_Ended
     else None)"
| "phase_step (Ph_Ejecting g n) r =
     (if rec_generation r \<noteq> g then None
     else if rec_kind r = UsbControlResponse \<and> rec_request_id r \<noteq> 0 \<and> rec_body r = [0] then Some (Ph_Ejecting g n)
     else if rec_kind r = Quiesced \<and> rec_request_id r = 0 \<and> rec_body r = [] then Some Ph_Ended
     else if rec_kind r = Quiesced \<and> unat (rec_request_id r) = n \<and> rec_body r = [] then Some (Ph_Absent g n)
     else None)"
| "phase_step Ph_Ended r = None"

fun phase_run :: "phase \<Rightarrow> Record list \<Rightarrow> phase option" where
  "phase_run p [] = Some p"
| "phase_run p (r # rs) = Option.bind (phase_step p r) (\<lambda>p. phase_run p rs)"

lemma phase_run_snoc: "phase_run p (rs @ [r]) = Option.bind (phase_run p rs) (\<lambda>p. phase_step p r)"
proof (induction rs arbitrary: p)
  case (Cons x rs)
  then show ?case by (cases "phase_step p x") simp_all
qed simp

definition at_phase :: "phase \<Rightarrow> 'k worker \<Rightarrow> bool" where
  "at_phase p w = (phase_run Ph_Start (wk_sent w) = Some p)"

text \<open>The records sent so far are a run of the protocol.\<close>

definition follows :: "'k worker \<Rightarrow> bool" where
  "follows w = (phase_run Ph_Start (wk_sent w) \<noteq> None)"

lemma at_phase_follows: "at_phase p w \<Longrightarrow> follows w"
  by (simp add: at_phase_def follows_def)

text \<open>A worker at \<open>p\<close> whose counter is the last configuration request.\<close>

definition position :: "(nat \<Rightarrow> phase) \<Rightarrow> 'k worker \<Rightarrow> bool" where
  "position p w = at_phase (p (unat (wk_configure_request w))) w"

lemma position_follows: "position p w \<Longrightarrow> follows w"
  by (simp add: position_def at_phase_follows)

lemma position_other [simp]:
  "position p (w\<lparr>wk_device := d\<rparr>) = position p w" "position p (w\<lparr>wk_lifecycle := l\<rparr>) = position p w"
  "position p (w\<lparr>wk_display := c\<rparr>) = position p w" "at_phase q (w\<lparr>wk_display := c\<rparr>) = at_phase q w"
  by (simp_all add: position_def at_phase_def)

definition in_service :: "bool \<Rightarrow> u32 \<Rightarrow> nat \<Rightarrow> phase" where
  "in_service pending g n = (if pending then Ph_Ejecting g n else Ph_Serving g n)"

section \<open>Each step keeps to it\<close>

lemma transmit_phase:
  assumes "at_phase p w" "phase_step p r = Some q"
  shows "after follows (transmit libc_send r w)
    (\<lambda>_ w'. at_phase q w' \<and> wk_configure_request w' = wk_configure_request w)"
  unfolding transmit_def
proof (rule after_try_in)
  show "follows w" using assms(1) by (rule at_phase_follows)
qed (use assms in \<open>simp add: at_phase_def phase_run_snoc\<close>)

lemma show_status_phase:
  assumes "at_phase p w"
  shows "after follows (show_status dsp c w)
    (\<lambda>_ w'. at_phase p w' \<and> wk_configure_request w' = wk_configure_request w)"
  unfolding show_status_def
  by (rule after_try_in) (use assms in \<open>simp_all add: at_phase_follows\<close>)

lemma publish_phase:
  assumes "at_phase p w" "phase_step p (record_new Configure g n pers) = Some q"
  shows "after follows (publish_personality libc_send dsp g n pers w)
    (\<lambda>_ w'. at_phase q w' \<and> wk_configure_request w' = wk_configure_request w)"
  unfolding publish_personality_def
proof (rule after_try_st [OF transmit_phase [OF assms]])
  fix x w' assume "at_phase q w' \<and> wk_configure_request w' = wk_configure_request w"
  then show "after follows (show_status dsp (if pers = [] then Dc_PersonalityAbsent else Dc_PersonalityPresent) w')
      (\<lambda>_ w'. at_phase q w' \<and> wk_configure_request w' = wk_configure_request w)"
    by (auto intro: after_mono [OF show_status_phase])
qed

lemma unat_next: "w \<noteq> - 1 \<Longrightarrow> unat (w + 1 :: u32) = unat w + 1"
  by (metis Suc_eq_plus1 add.commute unatSuc word_neq_0_conv add_eq_0_iff2)

lemma configure_next_phase:
  assumes "position p w"
    and "\<And>n r. rec_kind r = Configure \<Longrightarrow> rec_generation r = g \<Longrightarrow> unat (rec_request_id r) = n + 1 \<Longrightarrow>
      rec_body r = pers \<Longrightarrow> phase_step (p n) r = Some (q (n + 1))"
  shows "after follows (configure_next t g pers w) (\<lambda>_. position q)"
proof (cases "wk_configure_request w = - 1")
  case True
  then show ?thesis using assms(1) by (simp add: configure_next_def position_follows)
next
  case False
  let ?n = "unat (wk_configure_request w)"
  have "phase_step (p ?n) (record_new Configure g (wk_configure_request w + 1) pers) = Some (q (?n + 1))"
    by (rule assms(2)) (simp_all add: record_new_def unat_next [OF False])
  note published = publish_phase [OF assms(1) [unfolded position_def] this, of "ct_send t" "ct_display t"]
  show ?thesis unfolding configure_next_def if_not_P [OF False] Let_def
    by (rule after_try_st [OF published]) (simp add: position_def at_phase_def unat_next [OF False])
qed

lemma eject_phase:
  "position (in_service False g) w \<Longrightarrow> after follows (configure_next t g [] w) (\<lambda>_. position (in_service True g))"
  by (erule configure_next_phase) (simp add: in_service_def)

lemma reinsert_phase:
  "position (Ph_Absent g) w \<Longrightarrow> pers \<noteq> [] \<Longrightarrow>
     after follows (configure_next t g pers w) (\<lambda>_. position Ph_Announced)"
  by (erule configure_next_phase) simp

lemma drop_sessions_phase:
  assumes "position p w"
  shows "after follows (drop_sessions t w) (\<lambda>_. position p)"
  unfolding drop_sessions_def by (rule after_try_in) (use assms in \<open>simp_all add: position_follows\<close>)

lemma show_status_position:
  assumes "position p w"
  shows "after follows (show_status dsp c w) (\<lambda>_ w'. position p w' \<and> wk_configure_request w' = wk_configure_request w)"
  using after_mono [OF show_status_phase [OF assms [unfolded position_def]]] by (simp add: position_def)

lemma bus_event_phase:
  assumes "position p w"
  shows "after follows (bus_event t event activation w) (\<lambda>_. position p)"
proof -
  let ?w = "if event = Bus_Enable then w\<lparr>wk_lifecycle := wk_lifecycle w @ [Lc_Activate activation]\<rparr> else w"
  have pos: "position p ?w" using assms by simp
  show ?thesis unfolding bus_event_def Let_def
  proof (rule after_try_st [where P = "\<lambda>_. position p"])
    show "after follows (if event \<in> {Bus_Bind, Bus_Unbind, Bus_Disable} then drop_sessions t ?w else (Ok (), ?w))
        (\<lambda>_. position p)"
      using drop_sessions_phase [OF pos] pos by (cases "event \<in> {Bus_Bind, Bus_Unbind, Bus_Disable}") simp_all
  next
    fix u and w' :: "'a worker" assume "position p w'"
    then show "after follows (case event of Bus_Bind \<Rightarrow> show_status (ct_display t) Dc_Bind w'
        | Bus_Unbind \<Rightarrow> show_status (ct_display t) Dc_Unbind w' | Bus_Suspend \<Rightarrow> show_status (ct_display t) Dc_Suspend w'
        | Bus_Resume \<Rightarrow> show_status (ct_display t) Dc_Resume w' | _ \<Rightarrow> (Ok (), w')) (\<lambda>_. position p)"
      by (cases event) (auto intro: after_mono [OF show_status_position])
  qed
qed

text \<open>What the control loop may stop with: the end, or a quiescence it can confirm.\<close>

definition outcome_ok :: "bool \<Rightarrow> 'k worker \<Rightarrow> ControlOutcome \<Rightarrow> bool" where
  "outcome_ok pending w x = (case x of
       Outcome_Exit \<Rightarrow> True
     | Outcome_Quiesce request_id ejected \<Rightarrow>
         if ejected then pending \<and> request_id = wk_configure_request w \<and> request_id \<noteq> 0 else request_id = 0)"

lemma outcome_ok_lifecycle [simp]: "outcome_ok pending (w\<lparr>wk_lifecycle := l\<rparr>) x = outcome_ok pending w x"
  by (cases x) (simp_all add: outcome_ok_def)

lemma control_record_phase:
  assumes pos: "position (in_service pending g) w"
  shows "after follows (control_record t g pending r w)
    (\<lambda>x w'. position (in_service pending g) w' \<and> (case x of None \<Rightarrow> True | Some out \<Rightarrow> outcome_ok pending w' out))"
proof -
  let ?Q = "\<lambda>x w'. position (in_service pending g) w' \<and> (case x of None \<Rightarrow> True | Some out \<Rightarrow> outcome_ok pending w' out)"
  note f = position_follows [OF pos]
  consider (bad) "rec_generation r \<noteq> g \<or> rec_files r \<noteq> []"
    | (event) "\<not> (rec_generation r \<noteq> g \<or> rec_files r \<noteq> [])" "rec_kind r = UsbBusEvent \<and> rec_request_id r = 0"
    | (request) "\<not> (rec_generation r \<noteq> g \<or> rec_files r \<noteq> [])" "rec_kind r = UsbControlRequest \<and> rec_request_id r \<noteq> 0"
    | (quiesce) "\<not> (rec_generation r \<noteq> g \<or> rec_files r \<noteq> [])" "rec_kind r = Quiesce \<and> rec_body r = []"
    | (other) "control_record t g pending r w = (invalid, w)"
    unfolding control_record_def by metis
  then show ?thesis
  proof cases
    case bad
    then show ?thesis using f by (simp add: control_record_def)
  next
    case event
    then have "control_record t g pending r w =
        try_in (ct_decode t (rec_body r)) w (\<lambda>(event, activation).
        try_st (bus_event t event activation w) (\<lambda>_ w. (Ok None, w)))"
      by (simp add: control_record_def)
    then show ?thesis using f
      by (auto intro!: after_try_in intro: after_try_st [OF bus_event_phase [OF pos]])
  next
    case request
    let ?r = "record_new UsbControlResponse g (rec_request_id r) [0]"
    have "phase_step (in_service pending g n) ?r = Some (in_service pending g n)" for n
      using request by (simp add: in_service_def record_new_def)
    from transmit_phase [OF pos [unfolded position_def] this, of "ct_send t"] request show ?thesis
      by (auto simp: control_record_def position_def elim!: after_try_st)
  next
    case quiesce
    have "position (in_service pending g) (w\<lparr>wk_lifecycle := wk_lifecycle w @ [Lc_Stop]\<rparr>)" using pos by simp
    note shown = show_status_position [OF this, of "ct_display t" Dc_Unbind]
    have "control_record t g pending r w =
      try_st (show_status (ct_display t) Dc_Unbind (w\<lparr>wk_lifecycle := wk_lifecycle w @ [Lc_Stop]\<rparr>)) (\<lambda>_ w.
        if rec_request_id r = 0 then (Ok (Some (Outcome_Quiesce 0 False)), w)
        else if pending \<and> rec_request_id r = wk_configure_request w then
          (Ok (Some (Outcome_Quiesce (rec_request_id r) True)), w)
        else (invalid, w))"
      using quiesce by (simp add: control_record_def)
    then show ?thesis
      by (simp only:) (rule after_try_st [OF shown], auto simp: outcome_ok_def position_follows)
  next
    case other
    then show ?thesis using f by simp
  qed
qed

lemma control_input_phase:
  assumes "position (in_service pending g) w"
  shows "after follows (control_input g t pending w)
    (\<lambda>x w'. position (in_service pending g) w' \<and> (case x of None \<Rightarrow> True | Some out \<Rightarrow> outcome_ok pending w' out))"
  using control_record_phase [OF assms] assms position_follows [OF assms]
  by (auto simp: control_input_def outcome_ok_def split: result.split)

lemma button_input_phase:
  assumes "position (in_service pending g) w"
  shows "after follows (button_input g t pending w) (\<lambda>pending'. position (in_service pending' g))"
  unfolding button_input_def
proof (rule after_try_st [where P = "\<lambda>pending'. position (in_service pending' g)"])
  show "after follows (if and (ct_button_events t) POLLIN \<noteq> 0 \<and> \<not> pending then
          try_in (take_reconnect_state (ct_datagrams t) (ct_buttons t)) w (\<lambda>pressed.
          if pressed then try_st (configure_next t g [] w) (\<lambda>_ w. (Ok True, w)) else (Ok False, w))
        else (Ok pending, w)) (\<lambda>pending'. position (in_service pending' g))"
    using assms
    by (auto simp: position_follows intro!: after_try_in after_try_st [OF eject_phase])
qed (simp add: position_follows)

lemma control_turn_phase:
  assumes "position (in_service pending g) w"
  shows "after follows (control_turn g t pending w) (\<lambda>(x, pending') w'. position (in_service pending' g) w'
    \<and> (case x of None \<Rightarrow> True | Some out \<Rightarrow> outcome_ok pending' w' out))"
proof -
  let ?w = "w\<lparr>wk_device := ct_run t (wk_device w)\<rparr>"
  have pos: "position (in_service pending g) ?w" using assms by simp
  have "after follows (try_st (control_input g t pending ?w) (\<lambda>outcome w.
            case outcome of
              Some x \<Rightarrow> (Ok (Some x, pending), w)
            | None \<Rightarrow> try_st (button_input g t pending w) (\<lambda>pending w. (Ok (None, pending), w))))
     (\<lambda>(x, pending') w'. position (in_service pending' g) w'
        \<and> (case x of None \<Rightarrow> True | Some out \<Rightarrow> outcome_ok pending' w' out))"
    by (rule after_try_st [OF control_input_phase [OF pos]])
      (auto split: option.splits intro!: after_try_st [OF button_input_phase])
  then show ?thesis using pos position_follows [OF pos]
    by (auto simp: control_turn_def Let_def split: sum.split)
qed

text \<open>Where the two loops leave the worker.\<close>

definition served :: "u32 \<Rightarrow> ControlOutcome option \<Rightarrow> 'k worker \<Rightarrow> bool" where
  "served g x w = (case x of
       None \<Rightarrow> follows w
     | Some out \<Rightarrow> \<exists>pending. position (in_service pending g) w \<and> outcome_ok pending w out)"

definition reinserted :: "bool option \<Rightarrow> 'k worker \<Rightarrow> bool" where
  "reinserted x w = (if x = Some True then position Ph_Announced w else follows w)"

lemma served_simps [simp]:
  "served g None w = follows w"
  "served g (Some out) w = (\<exists>pending. position (in_service pending g) w \<and> outcome_ok pending w out)"
  by (simp_all add: served_def)

lemma reinserted_simps [simp]:
  "reinserted None w = follows w" "reinserted (Some True) w = position Ph_Announced w"
  "reinserted (Some False) w = follows w"
  by (simp_all add: reinserted_def)

lemma control_turns_phase:
  "position (in_service pending g) w \<Longrightarrow> after follows (control_turns g ts pending w) (served g)"
proof (induction ts arbitrary: pending w)
  case (Cons t ts)
  show ?case unfolding control_turns.simps
    by (rule after_try_st [OF control_turn_phase [OF Cons.prems]])
      (use Cons.IH in \<open>auto split: option.splits, blast\<close>)
qed (simp add: position_follows)

lemma reinsert_turn_phase:
  assumes "position (Ph_Absent g) w" "pers \<noteq> []"
  shows "after follows (reinsert_turn g pers t w) (\<lambda>x w'. case x of
      None \<Rightarrow> position (Ph_Absent g) w' | Some True \<Rightarrow> position Ph_Announced w' | Some False \<Rightarrow> follows w')"
proof -
  let ?w = "w\<lparr>wk_device := ct_run t (wk_device w)\<rparr>"
  have pos: "position (Ph_Absent g) ?w" using assms by simp
  then show ?thesis using position_follows [OF pos] assms(2) unfolding reinsert_turn_def Let_def
    by (auto split: sum.split result.split intro!: after_try_in after_try_st [OF reinsert_phase])
qed

lemma wait_for_reinsert_phase:
  "position (Ph_Absent g) w \<Longrightarrow> pers \<noteq> [] \<Longrightarrow> after follows (wait_for_reinsert g pers ts w) reinserted"
proof (induction ts arbitrary: w)
  case (Cons t ts)
  show ?case unfolding wait_for_reinsert.simps
    by (rule after_try_st [OF reinsert_turn_phase [OF Cons.prems]])
      (use Cons.IH Cons.prems(2) in \<open>auto split: option.splits bool.splits\<close>)
qed (simp add: position_follows)

section \<open>The whole worker\<close>

lemma quiesced_phase:
  assumes "position (in_service pending g) w" "outcome_ok pending w (Outcome_Quiesce request_id ejected)"
  shows "after follows (transmit libc_send (record_new Quiesced g request_id []) w)
    (\<lambda>_ w'. if ejected then position (Ph_Absent g) w' else follows w')"
proof (cases ejected)
  case True
  let ?n = "unat (wk_configure_request w)"
  have "phase_step (in_service pending g ?n) (record_new Quiesced g request_id []) = Some (Ph_Absent g ?n)"
    using assms(2) True by (auto simp: outcome_ok_def in_service_def record_new_def)
  note sent = transmit_phase [OF assms(1) [unfolded position_def] this]
  show ?thesis by (rule after_mono [OF sent]) (simp_all add: True position_def)
next
  case False
  have "phase_step (in_service pending g (unat (wk_configure_request w))) (record_new Quiesced g request_id []) = Some Ph_Ended"
    using assms(2) False by (simp add: outcome_ok_def in_service_def record_new_def)
  note sent = transmit_phase [OF assms(1) [unfolded position_def] this]
  show ?thesis by (rule after_mono [OF sent]) (auto simp: False at_phase_follows)
qed

text \<open>After a generation: to be continued under the personality announced last, or over.\<close>

definition generation_done :: "worker_next option \<Rightarrow> 'k worker \<Rightarrow> bool" where
  "generation_done x w = (if x = Some Again then position Ph_Announced w else follows w)"

lemma generation_done_simps [simp]:
  "generation_done None w = follows w" "generation_done (Some Again) w = position Ph_Announced w"
  "generation_done (Some Finished) w = follows w"
  by (simp_all add: generation_done_def)

lemma serve_control_phase:
  assumes "position (Ph_Serving g) w"
  shows "after follows (serve_control g ts w) (served g)"
  unfolding serve_control_def by (rule control_turns_phase) (use assms in \<open>simp add: in_service_def position_def\<close>)

lemma finish_generation_phase:
  assumes "position (in_service pending gen) w" "outcome_ok pending w out" "pers \<noteq> []"
  shows "after follows (finish_generation pers g gen out w) generation_done"
proof (cases out)
  case (Outcome_Quiesce request_id ejected)
  note sent = quiesced_phase [OF assms(1) assms(2) [unfolded Outcome_Quiesce], of "gn_quiesced g"]
  show ?thesis unfolding finish_generation_def Outcome_Quiesce ControlOutcome.case
    using assms(3)
    by (intro after_try_st [OF sent])
      (auto split: if_splits option.split bool.split intro!: after_try_st [OF wait_for_reinsert_phase])
next
  case Outcome_Exit
  then show ?thesis using assms(1) by (simp add: finish_generation_def position_follows)
qed

lemma serve_generation_phase:
  assumes pos: "position Ph_Announced w" and gen: "gen \<noteq> 0" and pers: "pers \<noteq> []"
  shows "after follows (serve_generation pers g gen w) generation_done"
proof -
  let ?n = "wk_configure_request w"
  have step: "phase_step (Ph_Announced (unat ?n)) (record_new Serving gen ?n []) = Some (Ph_Serving gen (unat ?n))"
    using gen by (simp add: record_new_def)
  note sent = transmit_phase [OF pos [unfolded position_def] step, of "gn_serving g"]
  show ?thesis unfolding serve_generation_def
  proof (rule after_try_st [OF sent])
    fix u and w' :: "'a worker"
    assume w': "at_phase (Ph_Serving gen (unat ?n)) w' \<and> wk_configure_request w' = ?n"
    let ?c = "serve_control gen (gn_turns g) w'"
    let ?w = "(snd ?c)\<lparr>wk_lifecycle := wk_lifecycle (snd ?c) @ [Lc_Stop]\<rparr>"
    have c: "after follows ?c (served gen)" by (rule serve_control_phase) (use w' in \<open>simp add: position_def\<close>)
    then have f: "follows (snd ?c)"
      by (cases ?c; cases "fst ?c"; auto simp: served_def position_follows split: option.splits)
    then have fw: "follows ?w" by (simp add: follows_def)
    have "after follows (try_in (fst ?c) ?w (\<lambda>outcome. try_in (gn_shutdown g) ?w (\<lambda>_. try_in (gn_flush g) ?w (\<lambda>_.
        case outcome of None \<Rightarrow> (Ok None, ?w) | Some out \<Rightarrow> finish_generation pers g gen out ?w)))) generation_done"
    proof (intro after_try_in fw)
      fix x u v assume "fst ?c = Ok x"
      with c have "served gen x (snd ?c)" by (simp add: after_def)
      then show "after follows (case x of None \<Rightarrow> (Ok None, ?w) | Some out \<Rightarrow> finish_generation pers g gen out ?w)
          generation_done"
        using fw pers finish_generation_phase [of _ gen ?w _ pers g] by (cases x) auto
    qed
    then show "after follows (let c = serve_control gen (gn_turns g) w' in
        if fst c = Ok None then (Ok None, snd c)
        else let w = (snd c)\<lparr>wk_lifecycle := wk_lifecycle (snd c) @ [Lc_Stop]\<rparr> in
          try_in (fst c) w (\<lambda>outcome. try_in (gn_shutdown g) w (\<lambda>_. try_in (gn_flush g) w (\<lambda>_.
          case outcome of None \<Rightarrow> (Ok None, w) | Some out \<Rightarrow> finish_generation pers g gen out w)))) generation_done"
      using f by (simp add: Let_def)
  qed
qed

lemma worker_generation_phase:
  assumes "position Ph_Announced w" "pers \<noteq> []"
  shows "after follows (worker_generation pers g w) generation_done"
  using assms position_follows [OF assms(1)] unfolding worker_generation_def
  by (auto intro!: after_try_in serve_generation_phase)

lemma worker_loop_phase:
  "position Ph_Announced w \<Longrightarrow> pers \<noteq> [] \<Longrightarrow> after follows (worker_loop pers gs w) (\<lambda>_. follows)"
proof (induction gs arbitrary: w)
  case (Cons g gs)
  show ?case unfolding worker_loop.simps
    by (rule after_try_st [OF worker_generation_phase [OF Cons.prems]])
      (use Cons.IH Cons.prems(2) in \<open>auto split: option.split worker_next.split\<close>)
qed (simp add: position_follows)

lemma first_personality_phase:
  assumes "pers \<noteq> []"
  shows "after follows (first_personality su pressed pers (worker_start d)) reinserted"
proof -
  have start: "at_phase Ph_Start (worker_start d)" by (simp add: at_phase_def worker_start_def)
  have one: "wk_configure_request (worker_start d) = 1" by (simp add: worker_start_def)
  note absent = publish_phase [OF start, where g = 0 and n = 1 and pers = "[]" and q = "Ph_Absent 0 1"]
  note present = publish_phase [OF start, where g = 0 and n = 1 and pers = pers and q = "Ph_Announced 1"]
  show ?thesis unfolding first_personality_def one
    using assms
    by (auto simp: record_new_def position_def one intro!: after_try_st [OF absent] after_try_st [OF present] wait_for_reinsert_phase)
qed

lemma worker_serve_phase:
  assumes "pers \<noteq> []"
  shows "after follows (worker_serve su pressed pers gs (worker_start d)) (\<lambda>_. follows)"
  unfolding worker_serve_def
  by (rule after_try_st [OF first_personality_phase [OF assms]])
    (use worker_loop_phase assms in \<open>auto split: option.splits bool.splits\<close>)

lemma run_worker_follows:
  assumes "run_worker serial su gs = (r, Some w)" "\<And>p. su_to_cbor su p \<noteq> Ok []"
  shows "follows w"
proof -
  obtain d pers pressed where p: "prepare_worker serial su = Ok (d, pers, pressed)"
    using assms(1) by (auto simp: run_worker_def split: result.splits)
  then have "pers \<noteq> []" using assms(2) by (auto simp: prepare_worker_def split: if_splits)
  from after_any [OF worker_serve_phase [OF this]] show ?thesis
    using assms(1) p by (auto simp: run_worker_def Let_def)
qed

end
