(* ===== verification/Usb_Endpoint.thy ===== *)
theory Usb_Endpoint
  imports Usb_Control
begin

text \<open>
  The bulk endpoints of the USB worker (\<^verbatim>\<open>functionfs.rs\<close>): the thread that reads requests and runs
  them on the device, and the thread that writes the responses. Reads, writes and the background
  writer are parameters, turn by turn. The last section adds what a host does with the packets, and
  shows that it gets the device's responses, one for each request and in order.
\<close>

section \<open>Writing responses\<close>

definition endpoint_is_unavailable :: "io_failure \<Rightarrow> bool" where
  "endpoint_is_unavailable e = (raw_os_error e \<in> {Some 11, Some 19, Some 32, Some 108})"

text \<open>
  \<open>writes\<close> are the results of the write calls to come, a length or an error number. The value is the
  transfers the endpoint has accepted and the results left; \<open>None\<close> is a write that still blocks.
\<close>

type_synonym writes = "(nat + nat) list"

fun write_transfer :: "writes \<Rightarrow> bytes \<Rightarrow> (bytes list io \<times> writes) option" where
  "write_transfer [] bs = None"
| "write_transfer (Inl len # ws) bs =
     Some (if len = length bs then Ok [bs] else Err (Custom WriteZero), ws)"
| "write_transfer (Inr errno # ws) bs =
     (if error_kind (Os errno) = Interrupted then write_transfer ws bs
      else if endpoint_is_unavailable (Os errno) then Some (Ok [], ws)
      else Some (Err (Os errno), ws))"

text \<open>\<^verbatim>\<open>?\<close> between two writes.\<close>

definition then_write ::
  "(bytes list io \<times> writes) option \<Rightarrow> (writes \<Rightarrow> (bytes list io \<times> writes) option) \<Rightarrow> (bytes list io \<times> writes) option" where
  "then_write m k = (case m of
       None \<Rightarrow> None
     | Some (Ok ts, ws) \<Rightarrow> (case k ws of
           None \<Rightarrow> None
         | Some (r, ws') \<Rightarrow> Some (and_then r (\<lambda>us. Ok (ts @ us)), ws'))
     | Some (e, ws) \<Rightarrow> Some (e, ws))"

definition write_response :: "writes \<Rightarrow> bytes \<Rightarrow> (bytes list io \<times> writes) option" where
  "write_response ws bs =
     then_write (write_transfer ws bs) (\<lambda>ws.
     if bs \<noteq> [] \<and> length bs mod unat MAX_PACKET_SIZE = 0 then write_transfer ws [] else Some (Ok [], ws))"

fun serve_responses :: "writes \<Rightarrow> bytes list \<Rightarrow> (bytes list io \<times> writes) option" where
  "serve_responses ws [] = Some (Ok [], ws)"
| "serve_responses ws (r # rs) = then_write (write_response ws r) (\<lambda>ws. serve_responses ws rs)"

section \<open>Reading requests\<close>

definition RECEIVE_BUFFER_SIZE :: nat where
  "RECEIVE_BUFFER_SIZE = MAX_FRAME_LENGTH + unat MAX_PACKET_SIZE"

text \<open>
  What \<^verbatim>\<open>handle_encoded_observing\<close> shows its observer: the authorization, the decrypted command and the
  response of a session message that reached its command.
\<close>

definition observed_message ::
  "'k lib \<Rightarrow> 'k env \<Rightarrow> FirmwareProfile \<Rightarrow> Frame \<Rightarrow> 'k Device \<Rightarrow> (SessionAuthorization \<times> Frame \<times> Frame) option" where
  "observed_message L E fw request d =
     (case decode_request decode_session_envelope (fr_data request) of
        Ok (sid, _) \<Rightarrow>
          (case bt_get (dv_sessions d) sid of
             Some entry \<Rightarrow>
               if \<not> se_authenticated entry then None
               else (case fst (decrypt_request L (se_secure entry) request) of
                 Ok inner \<Rightarrow>
                   let au = se_authorization entry; d = d\<lparr>dv_sessions := bt_remove sid (dv_sessions d)\<rparr> in
                   (case handled_response no_hook au inner of
                      Some response \<Rightarrow> Some (au, inner, limit_response response)
                    | None \<Rightarrow>
                        (case fst (execute_inner_with_session L E fw au inner (d, Some (se_objects entry))) of
                           Ok response \<Rightarrow> Some (au, inner, limit_response response)
                         | _ \<Rightarrow> None))
               | _ \<Rightarrow> None)
           | None \<Rightarrow> None)
      | _ \<Rightarrow> None)"

definition observed ::
  "'k lib \<Rightarrow> 'k env \<Rightarrow> FirmwareProfile \<Rightarrow> bytes \<Rightarrow> 'k Device \<Rightarrow> (SessionAuthorization \<times> Frame \<times> Frame) option" where
  "observed L E fw encoded d = (case frame_parse encoded of
       Ok request \<Rightarrow>
         if command_from_byte (fr_command request) = Some Cmd_SessionMessage
         then observed_message L E fw request (expire_inactive_sessions (now E) d) else None
     | _ \<Rightarrow> None)"

text \<open>The observer of \<^verbatim>\<open>serve_endpoint\<close>: a blink command that succeeded is shown on the display.\<close>

definition identify :: "(SessionAuthorization \<times> Frame \<times> Frame) option \<Rightarrow> (display_command list, io_failure) result" where
  "identify seen = (case seen of
       None \<Rightarrow> Ok []
     | Some (au, request, response) \<Rightarrow>
         if fr_command request = command_code Cmd_BlinkDevice
            \<and> fr_command response = or (command_code Cmd_BlinkDevice) 0x80
         then (case fr_data request of [] \<Rightarrow> Panic | seconds # _ \<Rightarrow> Ok [Dc_Identify seconds])
         else Ok [])"

record 'k endpoint_turn =
  et_stop :: bool
  et_read :: "bytes + nat"
  et_env :: "'k env"
  et_writer :: "'k writer"
  et_channel :: bool

record 'k endpoint_state =
  es_device :: "'k Device"
  es_responses :: "bytes list"
  es_identify :: "display_command list"

definition serve_request ::
  "'k lib \<Rightarrow> FirmwareProfile \<Rightarrow> 'k endpoint_turn \<Rightarrow> bytes \<Rightarrow> 'k endpoint_state \<Rightarrow> unit io \<times> 'k endpoint_state" where
  "serve_request L fw t request s =
     (let E = et_env t; w = et_writer t; d = es_device s;
          m = persistent_execute L E fw w request d in
      try_in (identify (if wr_healthy w then observed L E fw request d else None)) s (\<lambda>shown.
      let s = s\<lparr>es_device := snd m, es_identify := es_identify s @ shown\<rparr> in
      try_in (map_err Runtime (fst m)) s (\<lambda>response.
      if et_channel t then (Ok (), s\<lparr>es_responses := es_responses s @ [response]\<rparr>)
      else (Err (Custom OtherKind), s))))"

text \<open>One turn of the inner loop: it goes on, waits for the next activation, or is told to stop.\<close>

datatype endpoint_next = Ep_Continue | Ep_Break | Ep_Return

definition endpoint_turn ::
  "'k lib \<Rightarrow> FirmwareProfile \<Rightarrow> 'k endpoint_turn \<Rightarrow> 'k endpoint_state \<Rightarrow> endpoint_next io \<times> 'k endpoint_state" where
  "endpoint_turn L fw t s =
     (if et_stop t then (Ok Ep_Return, s)
      else case et_read t of
        Inl request \<Rightarrow>
          if request = [] then (Ok Ep_Continue, s)
          else try_st (serve_request L fw t request s) (\<lambda>_ s. (Ok Ep_Continue, s))
      | Inr errno \<Rightarrow>
          if error_kind (Os errno) = Interrupted then (Ok Ep_Continue, s)
          else if endpoint_is_unavailable (Os errno) then (Ok Ep_Break, s)
          else (Err (Os errno), s))"

fun endpoint_turns ::
  "'k lib \<Rightarrow> FirmwareProfile \<Rightarrow> 'k endpoint_turn list \<Rightarrow> 'k endpoint_state \<Rightarrow> endpoint_next io \<times> 'k endpoint_state" where
  "endpoint_turns L fw [] s = (Ok Ep_Continue, s)"
| "endpoint_turns L fw (t # ts) s =
     try_st (endpoint_turn L fw t s) (\<lambda>next s.
     if next = Ep_Continue then endpoint_turns L fw ts s else (Ok next, s))"

text \<open>
  \<^verbatim>\<open>serve_endpoint\<close>: one list of turns for every activation; after the last one the lifecycle is
  stopped. The result is \<open>None\<close> while the thread still reads.
\<close>

fun serve_endpoint ::
  "'k lib \<Rightarrow> FirmwareProfile \<Rightarrow> 'k endpoint_turn list list \<Rightarrow> 'k endpoint_state \<Rightarrow> unit option io \<times> 'k endpoint_state" where
  "serve_endpoint L fw [] s = (Ok (Some ()), s)"
| "serve_endpoint L fw (ts # activations) s =
     try_st (endpoint_turns L fw ts s) (\<lambda>next s.
     case next of
       Ep_Continue \<Rightarrow> (Ok None, s)
     | Ep_Break \<Rightarrow> serve_endpoint L fw activations s
     | Ep_Return \<Rightarrow> (Ok (Some ()), s))"

text \<open>The worker logs a session identifier and a description of each failure.\<close>

definition frame_session_id :: "Frame \<Rightarrow> u8 option" where
  "frame_session_id request =
     (if command_from_byte (fr_command request) \<in> {Some Cmd_AuthenticateSession, Some Cmd_SessionMessage}
      then (case fr_data request of [] \<Rightarrow> None | b # _ \<Rightarrow> Some b) else None)"

definition response_error :: "Frame \<Rightarrow> (u8 \<times> DeviceError option) option" where
  "response_error response =
     (if fr_command response \<noteq> 0x7f then None
      else let code = (case fr_data response of [] \<Rightarrow> 0xff | b # _ \<Rightarrow> b) in
        Some (code, error_from_byte code))"

section \<open>The observer is safe\<close>

lemma try_in_fst:
  assumes "fst (try_in r s k) = Ok y"
  obtains x where "r = Ok x" "fst (k x) = Ok y"
  using assms by (cases r) auto

lemma blink_command: "command_from_byte (command_code Cmd_BlinkDevice) = Some Cmd_BlinkDevice"
  by (rule command_from_code)

lemma blink_response_code: "or (command_code Cmd_BlinkDevice) 0x80 \<noteq> ERROR_COMMAND"
  by (simp add: ERROR_COMMAND_def)

lemma limit_response_command:
  "fr_command (limit_response r) = or (command_code Cmd_BlinkDevice) 0x80 \<Longrightarrow> limit_response r = r"
  by (auto simp: limit_response_def frame_error_def ERROR_COMMAND_def split: if_splits)

lemma blink_result:
  assumes "fr_command inner = command_code Cmd_BlinkDevice"
    and "fst (execute_inner_result L E fw au inner s) = Ok data"
  shows "fr_data inner \<noteq> []"
proof -
  have byte: "command_from_byte (fr_command inner) = Some Cmd_BlinkDevice"
    using blink_command assms(1) by (simp only:)
  have "\<exists>b. decode_request decode_u8 (fr_data inner) = Ok b"
    using assms(2) byte
    by (auto simp: execute_inner_result_def execute_plain_or_authenticated_def run_command_def run_query_def
        simp del: decode_request_Ok split: if_splits elim!: try_in_fst)
  then show ?thesis by (auto simp: decode_u8_def read_u8_def)
qed

lemma blink_execution:
  assumes "fst (execute_inner_with_session L E fw au inner s) = Ok response"
    and "fr_command inner = command_code Cmd_BlinkDevice"
    and "fr_command response = or (command_code Cmd_BlinkDevice) 0x80"
  shows "fr_data inner \<noteq> []"
proof -
  have "fr_command (frame_error e) \<noteq> or (command_code Cmd_BlinkDevice) 0x80" for e
    using blink_response_code by (simp add: frame_error_def)
  then obtain data where "fst (execute_inner_result L E fw au inner s) = Ok data"
    using assms(1,3)
    by (auto simp: execute_inner_with_session_def Let_def split: if_splits result.splits)
  then show ?thesis by (rule blink_result [OF assms(2)])
qed

text \<open>Indexing the command's data never panics, whatever the host has sent.\<close>

lemma handled_not_blink:
  "handled_response no_hook au inner = Some response \<Longrightarrow> fr_command response = ERROR_COMMAND"
  by (auto simp: handled_response_def no_hook_def frame_error_def split: option.splits result.splits)

lemma observed_blink:
  assumes "observed L E fw encoded d = Some (au, request, response)"
    and "fr_command request = command_code Cmd_BlinkDevice"
    and "fr_command response = or (command_code Cmd_BlinkDevice) 0x80"
  shows "fr_data request \<noteq> []"
proof -
  obtain r s where r: "response = limit_response r"
    and "handled_response no_hook au request = Some r
      \<or> fst (execute_inner_with_session L E fw au request s) = Ok r"
    using assms(1) by (auto simp: observed_def observed_message_def Let_def
      split: result.splits if_splits option.splits)
  moreover have "r = response" using limit_response_command assms(3) r by metis
  ultimately show ?thesis
    using handled_not_blink blink_execution assms(2,3) blink_response_code by metis
qed

lemma identify_safe: "\<exists>shown. identify (if healthy then observed L E fw encoded d else None) = Ok shown"
  using observed_blink [of L E fw encoded d]
  by (auto simp: identify_def split: option.split list.split)

section \<open>The host's side\<close>

text \<open>
  A bulk transfer goes over the bus in packets of the endpoint's size, the last one possibly
  shorter; an empty transfer is one empty packet. A host read is over at the first short packet.
\<close>

function packets :: "bytes \<Rightarrow> bytes list" where
  "packets bs = (if length bs \<le> 64 then [bs] else take 64 bs # packets (drop 64 bs))"
  by pat_completeness auto
termination by (relation "measure length") auto

declare packets.simps [simp del]

fun host_reads :: "bytes list \<Rightarrow> bytes \<Rightarrow> bytes list" where
  "host_reads [] buffered = []"
| "host_reads (p # ps) buffered =
     (if length p < 64 then (buffered @ p) # host_reads ps [] else host_reads ps (buffered @ p))"

lemma host_reads_transfer:
  "host_reads (packets bs @ ps) buffered =
     (if bs \<noteq> [] \<and> length bs mod 64 = 0 then host_reads ps (buffered @ bs)
      else (buffered @ bs) # host_reads ps [])"
proof (induction bs arbitrary: buffered rule: packets.induct)
  case (1 bs)
  show ?case
  proof (cases "length bs \<le> 64")
    case True
    then show ?thesis by (subst packets.simps) (auto dest: le_neq_implies_less)
  next
    case False
    then have "length bs mod 64 = (length bs - 64) mod 64" by (simp add: mod_if [of "length bs"] le_mod_geq)
    with False 1 show ?thesis by (subst packets.simps) auto
  qed
qed

text \<open>Writes that meet an enabled endpoint: interruptions and errors, but no disconnect.\<close>

definition writes_available :: "writes \<Rightarrow> bool" where
  "writes_available ws =
     list_all (\<lambda>w. case w of Inl len \<Rightarrow> True | Inr errno \<Rightarrow> \<not> endpoint_is_unavailable (Os errno)) ws"

lemma writes_available_simps [simp]:
  "writes_available []" "writes_available (Inl len # ws) = writes_available ws"
  "writes_available (Inr errno # ws) = (\<not> endpoint_is_unavailable (Os errno) \<and> writes_available ws)"
  by (simp_all add: writes_available_def)

lemma write_transfer_Ok:
  "write_transfer ws bs = Some (Ok ts, ws') \<Longrightarrow> writes_available ws \<Longrightarrow> ts = [bs] \<and> writes_available ws'"
  by (induction ws bs rule: write_transfer.induct) (auto split: if_splits)

lemma then_write_Ok:
  assumes "then_write m k = Some (Ok ts, ws')"
  obtains us vs ws where "m = Some (Ok us, ws)" "k ws = Some (Ok vs, ws')" "ts = us @ vs"
  using assms by (auto simp: then_write_def split: option.splits result.splits prod.splits)

lemma unat_MAX_PACKET_SIZE [simp]: "unat MAX_PACKET_SIZE = 64"
  by (simp add: MAX_PACKET_SIZE_def)

text \<open>A host that reads what one response was written as gets that response, and stands ready for the next.\<close>

lemma write_response_host:
  assumes "write_response ws bs = Some (Ok ts, ws')" "writes_available ws"
  shows "writes_available ws'" "host_reads (concat (map packets ts) @ ps) [] = bs # host_reads ps []"
proof -
  obtain us vs w where u: "write_transfer ws bs = Some (Ok us, w)" and ts: "ts = us @ vs"
    and v: "(if bs \<noteq> [] \<and> length bs mod 64 = 0 then write_transfer w [] else Some (Ok [], w)) = Some (Ok vs, ws')"
    using assms(1) unfolding write_response_def unat_MAX_PACKET_SIZE by (rule then_write_Ok)
  have us: "us = [bs]" "writes_available w" using write_transfer_Ok [OF u assms(2)] by simp_all
  have vs: "vs = (if bs \<noteq> [] \<and> length bs mod 64 = 0 then [[]] else []) \<and> writes_available ws'"
    using v write_transfer_Ok [OF _ us(2), of "[]" vs ws'] us(2) by (cases "bs \<noteq> [] \<and> length bs mod 64 = 0") auto
  then show "writes_available ws'" by simp
  have "packets [] = [[]]" by (subst packets.simps) simp
  then show "host_reads (concat (map packets ts) @ ps) [] = bs # host_reads ps []"
    using us vs by (auto simp: ts host_reads_transfer)
qed

lemma serve_responses_host:
  "serve_responses ws rs = Some (Ok ts, ws') \<Longrightarrow> writes_available ws \<Longrightarrow> host_reads (concat (map packets ts)) [] = rs"
proof (induction ws rs arbitrary: ts rule: serve_responses.induct)
  case (2 ws r rs)
  obtain us vs w where u: "write_response ws r = Some (Ok us, w)" and v: "serve_responses w rs = Some (Ok vs, ws')"
    and ts: "ts = us @ vs"
    using 2(2) unfolding serve_responses.simps by (rule then_write_Ok)
  note u = write_response_host [OF u 2(3)]
  show ?case using 2(1) [OF v u(1)] u(2) ts by simp
qed simp

section \<open>One response for each request\<close>

text \<open>
  The reference: the requests run on the device one after the other, each giving its response. The
  environment of each, its clock and its random source, is its own.
\<close>

inductive device_run ::
  "'k lib \<Rightarrow> FirmwareProfile \<Rightarrow> 'k Device \<Rightarrow> bytes list \<Rightarrow> bytes list \<Rightarrow> 'k Device \<Rightarrow> bool" for L fw where
  finished: "device_run L fw d [] [] d"
| request: "handle_encoded L E fw x d = (Ok r, d1) \<Longrightarrow> take_persistent_change d1 = (Ok changed, d2) \<Longrightarrow>
    device_run L fw d2 xs rs d' \<Longrightarrow> device_run L fw d (x # xs) (r # rs) d'"

lemma device_run_append:
  "device_run L fw d xs rs d1 \<Longrightarrow> device_run L fw d1 ys qs d2 \<Longrightarrow> device_run L fw d (xs @ ys) (rs @ qs) d2"
  by (induction rule: device_run.induct) (auto intro: device_run.request)

lemma persistent_execute_Ok:
  assumes "persistent_execute L E fw w x d = (Ok r, d')"
  obtains d1 changed where "handle_encoded L E fw x d = (Ok r, d1)" "take_persistent_change d1 = (Ok changed, d')"
  using assms
  by (cases "handle_encoded L E fw x d"; cases "take_persistent_change (snd (handle_encoded L E fw x d))")
    (auto simp: persistent_execute_def Let_def split: if_splits)

lemma serve_request_run:
  assumes "serve_request L fw t x s = (Ok u, s')"
  obtains r where "es_responses s' = es_responses s @ [r]" "device_run L fw (es_device s) [x] [r] (es_device s')"
proof -
  obtain r d' where m: "persistent_execute L (et_env t) fw (et_writer t) x (es_device s) = (Ok r, d')"
    and s': "es_responses s' = es_responses s @ [r]" "es_device s' = d'"
    using assms
    by (cases "persistent_execute L (et_env t) fw (et_writer t) x (es_device s)")
      (auto simp: serve_request_def Let_def split: if_splits)
  then show thesis
    using that by (auto elim!: persistent_execute_Ok intro: device_run.intros)
qed

text \<open>The requests a run of the thread answers: what it reads until it stops.\<close>

fun turn_requests :: "'k endpoint_turn list \<Rightarrow> bytes list" where
  "turn_requests [] = []"
| "turn_requests (t # ts) =
     (if et_stop t then []
      else case et_read t of
        Inl x \<Rightarrow> (if x = [] then [] else [x]) @ turn_requests ts
      | Inr errno \<Rightarrow> if error_kind (Os errno) = Interrupted then turn_requests ts else [])"

fun turns_break :: "'k endpoint_turn list \<Rightarrow> bool" where
  "turns_break [] = False"
| "turns_break (t # ts) =
     (\<not> et_stop t \<and> (case et_read t of
        Inl x \<Rightarrow> turns_break ts
      | Inr errno \<Rightarrow> if error_kind (Os errno) = Interrupted then turns_break ts else endpoint_is_unavailable (Os errno)))"

fun endpoint_requests :: "'k endpoint_turn list list \<Rightarrow> bytes list" where
  "endpoint_requests [] = []"
| "endpoint_requests (ts # tss) = turn_requests ts @ (if turns_break ts then endpoint_requests tss else [])"

lemma endpoint_turns_run:
  "endpoint_turns L fw ts s = (Ok n, s') \<Longrightarrow>
     (n = Ep_Break \<longleftrightarrow> turns_break ts)
     \<and> (\<exists>rs. es_responses s' = es_responses s @ rs \<and> device_run L fw (es_device s) (turn_requests ts) rs (es_device s'))"
proof (induction ts arbitrary: s)
  case (Cons t ts)
  show ?case
  proof (cases "\<not> et_stop t \<and> (\<exists>x. et_read t = Inl x \<and> x \<noteq> [])")
    case True
    then obtain x s1 where x: "et_read t = Inl x" "x \<noteq> []" and s1: "serve_request L fw t x s = (Ok (), s1)"
      and rest: "endpoint_turns L fw ts s1 = (Ok n, s')"
      using Cons.prems by (auto simp: endpoint_turn_def)
    obtain r where "es_responses s1 = es_responses s @ [r]" "device_run L fw (es_device s) [x] [r] (es_device s1)"
      using s1 by (rule serve_request_run)
    with Cons.IH [OF rest] True x show ?thesis by (auto intro: device_run_append [of L fw _ "[x]" "[r]", simplified])
  next
    case False
    then show ?thesis using Cons.prems Cons.IH [of s]
      by (auto simp: endpoint_turn_def intro: device_run.finished split: sum.splits if_splits)
  qed
qed (auto intro: device_run.finished)

lemma serve_endpoint_run:
  "serve_endpoint L fw tss s = (Ok x, s') \<Longrightarrow>
     \<exists>rs. es_responses s' = es_responses s @ rs
       \<and> device_run L fw (es_device s) (endpoint_requests tss) rs (es_device s')"
proof (induction tss arbitrary: s)
  case (Cons ts tss)
  obtain n s1 where n: "endpoint_turns L fw ts s = (Ok n, s1)"
    and rest: "(case n of Ep_Continue \<Rightarrow> (Ok None, s1) | Ep_Break \<Rightarrow> serve_endpoint L fw tss s1
      | Ep_Return \<Rightarrow> (Ok (Some ()), s1)) = (Ok x, s')"
    using Cons.prems by auto
  from endpoint_turns_run [OF n] obtain rs where rs: "n = Ep_Break \<longleftrightarrow> turns_break ts"
    "es_responses s1 = es_responses s @ rs" "device_run L fw (es_device s) (turn_requests ts) rs (es_device s1)"
    by blast
  show ?case
  proof (cases n)
    case Ep_Break
    then obtain qs where "es_responses s' = es_responses s1 @ qs"
      "device_run L fw (es_device s1) (endpoint_requests tss) qs (es_device s')"
      using Cons.IH rest by auto
    then show ?thesis using rs Ep_Break device_run_append [OF rs(3)] by auto
  qed (use rest rs in auto)
qed (auto intro: device_run.finished)

lemma usb_transparent:
  assumes "serve_endpoint L fw tss \<lparr>es_device = d, es_responses = [], es_identify = []\<rparr> = (Ok x, s')"
    and "serve_responses ws (es_responses s') = Some (Ok ts, ws')" "writes_available ws"
  shows "device_run L fw d (endpoint_requests tss) (host_reads (concat (map packets ts)) []) (es_device s')"
  using serve_endpoint_run [OF assms(1)] serve_responses_host [OF assms(2,3)] by auto

end
