(* ===== verification/Arguments.thy ===== *)
theory Arguments
  imports Persistent_Runtime Display_Status
begin

text \<open>
  The command lines of the two frontends: \<^verbatim>\<open>src/main.rs\<close> of the USB worker and \<^verbatim>\<open>main.rs\<close> of the
  I2C target. Arguments are texts; the usage text \<^verbatim>\<open>--help\<close> prints is not modelled, only that it
  ends the parse without options.
\<close>

section \<open>Numbers\<close>

definition is_digit :: "char \<Rightarrow> bool" where
  "is_digit c = (48 \<le> (of_char c :: nat) \<and> (of_char c :: nat) \<le> 57)"

text \<open>\<^verbatim>\<open>str::parse::<u32>\<close>: an optional plus sign and decimal digits that fit, checked digit by digit.\<close>

fun parse_digits :: "nat \<Rightarrow> string \<Rightarrow> nat option" where
  "parse_digits n [] = Some n"
| "parse_digits n (c # cs) =
     (if \<not> is_digit c then None
      else let m = n * 10 + (of_char c - 48) in if m < 2 ^ 32 then parse_digits m cs else None)"

definition parse_u32 :: "string \<Rightarrow> u32 option" where
  "parse_u32 s = map_option of_nat (case s of
       [] \<Rightarrow> None
     | c # cs \<Rightarrow>
         if cs = [] \<and> (c = CHR ''+'' \<or> c = CHR ''-'') then None
         else if c = CHR ''+'' then parse_digits 0 cs
         else parse_digits 0 s)"

definition parse_serial :: "string \<Rightarrow> u32 io" where
  "parse_serial value = (case parse_u32 value of
       None \<Rightarrow> Err (Custom InvalidInput)
     | Some serial \<Rightarrow> if serial = 0 then Err (Custom InvalidInput) else Ok serial)"

definition starts_with :: "string \<Rightarrow> string \<Rightarrow> bool" where
  "starts_with s prefix = (take (length prefix) s = prefix)"

definition is_absolute :: "string \<Rightarrow> bool" where
  "is_absolute path = starts_with path ''/''"

section \<open>The USB worker\<close>

datatype PersistenceMode = Batched nat | Immediate

record Options =
  opt_serial :: u32
  opt_display :: DisplayKind
  opt_persistence :: PersistenceMode

definition parse_display :: "string \<Rightarrow> DisplayKind io" where
  "parse_display value =
     (if value = ''st7789-spi'' then Ok St7789Spi
      else if value = ''sh1106-spi'' then Ok Sh1106Spi
      else if value = ''sh1106-i2c'' then Ok Sh1106I2c
      else Err (Custom InvalidInput))"

definition parse_persistence :: "string \<Rightarrow> PersistenceMode io" where
  "parse_persistence value =
     (if value = ''batched'' then Ok (Batched 500)
      else if value = ''immediate'' then Ok Immediate
      else Err (Custom InvalidInput))"

text \<open>\<open>f\<close> continues with the value after an option; without one the parse fails.\<close>

fun with_value :: "string list \<Rightarrow> (string \<Rightarrow> string list \<Rightarrow> 'a io) \<Rightarrow> 'a io" where
  "with_value [] f = Err (Custom InvalidInput)"
| "with_value (v # args) f = f v args"

lemma with_value_cong [fundef_cong]:
  "args = args' \<Longrightarrow> (\<And>v rest. args' = v # rest \<Longrightarrow> f v rest = g v rest) \<Longrightarrow> with_value args f = with_value args' g"
  by (cases args') simp_all

function worker_arguments :: "string list \<Rightarrow> Options \<Rightarrow> Options option io" where
  "worker_arguments [] opts = Ok (Some opts)"
| "worker_arguments (argument # args) opts =
     (if argument = ''-h'' \<or> argument = ''--help'' then Ok None
      else if argument = ''--serial'' then
        with_value args (\<lambda>v args. and_then (parse_serial v) (\<lambda>serial.
        worker_arguments args (opts\<lparr>opt_serial := serial\<rparr>)))
      else if argument = ''--display'' then
        with_value args (\<lambda>v args. and_then (parse_display v) (\<lambda>kind.
        worker_arguments args (opts\<lparr>opt_display := kind\<rparr>)))
      else if starts_with argument ''--display='' then
        and_then (parse_display (drop 10 argument)) (\<lambda>kind.
        worker_arguments args (opts\<lparr>opt_display := kind\<rparr>))
      else if argument = ''--persistence'' then
        with_value args (\<lambda>v args. and_then (parse_persistence v) (\<lambda>mode.
        worker_arguments args (opts\<lparr>opt_persistence := mode\<rparr>)))
      else if starts_with argument ''--persistence='' then
        and_then (parse_persistence (drop 14 argument)) (\<lambda>mode.
        worker_arguments args (opts\<lparr>opt_persistence := mode\<rparr>))
      else Err (Custom InvalidInput))"
  by pat_completeness auto
termination by (relation "measure (length \<circ> fst)") auto

definition worker_options :: "string list \<Rightarrow> Options option io" where
  "worker_options args = worker_arguments args
     \<lparr>opt_serial = 12345678, opt_display = St7789Spi, opt_persistence = Batched 500\<rparr>"

section \<open>The I2C target\<close>

datatype I2cPersistence = I2c_Batched | I2c_Immediate

record I2cOptions =
  io_serial :: u32
  io_state_directory :: string
  io_device :: string
  io_inherited_device :: bool
  io_persistence :: I2cPersistence

text \<open>The local variables of \<^verbatim>\<open>parse_arguments\<close>.\<close>

record i2c_parse =
  ip_serial :: "u32 option"
  ip_state_directory :: "string option"
  ip_device :: string
  ip_persistence :: I2cPersistence
  ip_inherited_device :: bool
  ip_explicit_device :: bool

definition DEFAULT_DEVICE :: string where "DEFAULT_DEVICE = ''/dev/bsc-target0''"

definition parse_i2c_persistence :: "string \<Rightarrow> I2cPersistence io" where
  "parse_i2c_persistence value =
     (if value = ''batched'' then Ok I2c_Batched
      else if value = ''immediate'' then Ok I2c_Immediate
      else Err (Custom InvalidInput))"

function i2c_arguments :: "string list \<Rightarrow> i2c_parse \<Rightarrow> i2c_parse option io" where
  "i2c_arguments [] p = Ok (Some p)"
| "i2c_arguments (argument # args) p =
     (if argument = ''-h'' \<or> argument = ''--help'' then Ok None
      else if argument = ''--serial'' then
        with_value args (\<lambda>v args. and_then (parse_serial v) (\<lambda>serial.
        i2c_arguments args (p\<lparr>ip_serial := Some serial\<rparr>)))
      else if argument = ''--state-directory'' then
        with_value args (\<lambda>v args. i2c_arguments args (p\<lparr>ip_state_directory := Some v\<rparr>))
      else if argument = ''--inherited-device'' then
        i2c_arguments args (p\<lparr>ip_inherited_device := True\<rparr>)
      else if argument = ''--device'' then
        with_value args (\<lambda>v args. i2c_arguments args (p\<lparr>ip_explicit_device := True, ip_device := v\<rparr>))
      else if argument = ''--persistence'' then
        with_value args (\<lambda>v args. and_then (parse_i2c_persistence v) (\<lambda>mode.
        i2c_arguments args (p\<lparr>ip_persistence := mode\<rparr>)))
      else if starts_with argument ''--persistence='' then
        and_then (parse_i2c_persistence (drop 14 argument)) (\<lambda>mode.
        i2c_arguments args (p\<lparr>ip_persistence := mode\<rparr>))
      else Err (Custom InvalidInput))"
  by pat_completeness auto
termination by (relation "measure (length \<circ> fst)") auto

definition i2c_finish :: "i2c_parse \<Rightarrow> I2cOptions io" where
  "i2c_finish p =
     and_then (ok_or (ip_serial p) (Custom InvalidInput)) (\<lambda>serial.
     and_then (ok_or (ip_state_directory p) (Custom InvalidInput)) (\<lambda>directory.
     and_then (guard (is_absolute directory) (Custom InvalidInput)) (\<lambda>_.
     and_then (guard (\<not> (ip_inherited_device p \<and> ip_explicit_device p)) (Custom InvalidInput)) (\<lambda>_.
     and_then (guard (is_absolute (ip_device p)) (Custom InvalidInput)) (\<lambda>_.
     Ok \<lparr>io_serial = serial, io_state_directory = directory, io_device = ip_device p,
         io_inherited_device = ip_inherited_device p, io_persistence = ip_persistence p\<rparr>)))))"

definition i2c_initial :: i2c_parse where
  "i2c_initial =
     \<lparr>ip_serial = None, ip_state_directory = None, ip_device = DEFAULT_DEVICE, ip_persistence = I2c_Batched,
      ip_inherited_device = False, ip_explicit_device = False\<rparr>"

definition i2c_options :: "string list \<Rightarrow> I2cOptions option io" where
  "i2c_options args =
     and_then (i2c_arguments args i2c_initial) (\<lambda>p.
     case p of None \<Rightarrow> Ok None | Some p \<Rightarrow> and_then (i2c_finish p) (\<lambda>opts. Ok (Some opts)))"

section \<open>Decimal numbers are read back\<close>

lemma parse_digits_append:
  "parse_digits n (s @ [c]) = (case parse_digits n s of
      None \<Rightarrow> None
    | Some m \<Rightarrow> if is_digit c \<and> m * 10 + (of_char c - 48) < 2 ^ 32 then Some (m * 10 + (of_char c - 48)) else None)"
  by (induction s arbitrary: n) (auto simp: Let_def)

lemma is_digit_char: "n < 10 \<Longrightarrow> is_digit (char_of (48 + n :: nat))"
  by (simp add: is_digit_def of_char_digit)

lemma parse_digits_decimal: "n < 2 ^ 32 \<Longrightarrow> parse_digits 0 (decimal n) = Some n"
proof (induction n rule: decimal.induct)
  case (1 n)
  show ?case
  proof (cases "n < 10")
    case True
    then show ?thesis using is_digit_char [OF True] of_char_digit [OF True] by (subst decimal.simps) (simp add: Let_def)
  next
    case False
    moreover have "n div 10 < 2 ^ 32" using 1(2) by (meson div_le_dividend le_less_trans)
    moreover have "n mod 10 < 10" by simp
    ultimately show ?thesis using 1 is_digit_char [of "n mod 10"] of_char_digit [of "n mod 10"]
      by (subst decimal.simps) (simp add: parse_digits_append)
  qed
qed

lemma decimal_hd: "is_digit (hd (decimal n)) \<and> decimal n \<noteq> []"
proof (induction n rule: decimal.induct)
  case (1 n)
  then show ?case by (subst decimal.simps, subst decimal.simps) (auto simp: is_digit_char)
qed

lemma parse_u32_decimal: "parse_u32 (decimal (unat w)) = Some w"
proof -
  obtain c cs where s: "decimal (unat w) = c # cs" "is_digit c"
    using decimal_hd [of "unat w"] by (cases "decimal (unat w)") auto
  then have "c \<noteq> CHR ''+''" "c \<noteq> CHR ''-''" by (auto simp: is_digit_def)
  moreover have "parse_digits 0 (decimal (unat w)) = Some (unat w)"
    by (rule parse_digits_decimal) (use unat_lt [of w] in simp)
  ultimately show ?thesis using s by (simp add: parse_u32_def)
qed

lemma parse_serial_decimal: "serial \<noteq> 0 \<Longrightarrow> parse_serial (decimal (unat serial)) = Ok serial"
  by (simp add: parse_serial_def parse_u32_decimal)

lemma parse_serial_Ok: "parse_serial s = Ok serial \<Longrightarrow> serial \<noteq> 0"
  by (auto simp: parse_serial_def split: option.splits if_splits)

section \<open>What a command line can say\<close>

text \<open>Options that make sense: the target runs with these and no others.\<close>

definition i2c_valid :: "I2cOptions \<Rightarrow> bool" where
  "i2c_valid opts =
     (io_serial opts \<noteq> 0 \<and> is_absolute (io_state_directory opts) \<and> is_absolute (io_device opts)
      \<and> (io_inherited_device opts \<longrightarrow> io_device opts = DEFAULT_DEVICE))"

definition i2c_render :: "I2cOptions \<Rightarrow> string list" where
  "i2c_render opts =
     [''--serial'', decimal (unat (io_serial opts)), ''--state-directory'', io_state_directory opts]
     @ (if io_inherited_device opts then [''--inherited-device''] else [''--device'', io_device opts])
     @ [''--persistence'', case io_persistence opts of I2c_Batched \<Rightarrow> ''batched'' | I2c_Immediate \<Rightarrow> ''immediate'']"

lemma i2c_render_parses: "i2c_valid opts \<Longrightarrow> i2c_options (i2c_render opts) = Ok (Some opts)"
  by (cases "io_persistence opts")
    (auto simp: i2c_options_def i2c_render_def i2c_valid_def i2c_initial_def i2c_finish_def parse_serial_decimal
      parse_i2c_persistence_def starts_with_def)

text \<open>The device path is the default one unless it was given, and a serial number is never zero.\<close>

definition parse_inv :: "i2c_parse \<Rightarrow> bool" where
  "parse_inv p = (ip_serial p \<noteq> Some 0 \<and> (ip_explicit_device p \<or> ip_device p = DEFAULT_DEVICE))"

lemma with_value_Ok:
  "with_value args f = Ok x \<longleftrightarrow> (\<exists>v rest. args = v # rest \<and> f v rest = Ok x)"
  by (cases args) auto

lemma i2c_arguments_inv:
  "i2c_arguments args p = Ok (Some q) \<Longrightarrow> parse_inv p \<Longrightarrow> parse_inv q"
proof (induction "length args" arbitrary: args p rule: less_induct)
  case less
  note IH = less.hyps
  show ?case
  proof (cases args)
    case Nil
    then show ?thesis using less.prems by simp
  next
    case (Cons argument rest)
    have step: "i2c_arguments rest p' = Ok (Some q) \<Longrightarrow> parse_inv p' \<Longrightarrow> parse_inv q"
      "rest = v # tail \<Longrightarrow> i2c_arguments tail p' = Ok (Some q) \<Longrightarrow> parse_inv p' \<Longrightarrow> parse_inv q" for v tail p'
      using IH [of rest p'] IH [of tail p'] Cons by simp_all
    have keeps: "parse_inv (p\<lparr>ip_state_directory := d\<rparr>)" "parse_inv (p\<lparr>ip_inherited_device := True\<rparr>)"
      "parse_inv (p\<lparr>ip_explicit_device := True, ip_device := v\<rparr>)" "parse_inv (p\<lparr>ip_persistence := m\<rparr>)"
      "serial \<noteq> 0 \<Longrightarrow> parse_inv (p\<lparr>ip_serial := Some serial\<rparr>)" for d v m serial
      using less.prems(2) by (simp_all add: parse_inv_def)
    from less.prems(1) show ?thesis unfolding Cons i2c_arguments.simps
      by (simp only: with_value_Ok and_then_Ok result.inject option.distinct result.distinct split: if_split_asm)
        (metis keeps step parse_serial_Ok)+
  qed
qed

lemma i2c_options_valid: "i2c_options args = Ok (Some opts) \<Longrightarrow> i2c_valid opts"
proof -
  assume "i2c_options args = Ok (Some opts)"
  then obtain p where p: "i2c_arguments args i2c_initial = Ok (Some p)" and finish: "i2c_finish p = Ok opts"
    by (auto simp: i2c_options_def split: option.splits)
  have "parse_inv p" by (rule i2c_arguments_inv [OF p]) (simp add: parse_inv_def i2c_initial_def)
  with finish show ?thesis by (auto simp: i2c_finish_def i2c_valid_def parse_inv_def)
qed

lemma worker_arguments_serial:
  "worker_arguments args opts = Ok (Some q) \<Longrightarrow> opt_serial opts \<noteq> 0 \<Longrightarrow> opt_serial q \<noteq> 0"
proof (induction "length args" arbitrary: args opts rule: less_induct)
  case less
  note IH = less.hyps
  show ?case
  proof (cases args)
    case Nil
    then show ?thesis using less.prems by simp
  next
    case (Cons argument rest)
    have step: "worker_arguments rest p' = Ok (Some q) \<Longrightarrow> opt_serial p' \<noteq> 0 \<Longrightarrow> opt_serial q \<noteq> 0"
      "rest = v # tail \<Longrightarrow> worker_arguments tail p' = Ok (Some q) \<Longrightarrow> opt_serial p' \<noteq> 0 \<Longrightarrow> opt_serial q \<noteq> 0"
      for v tail p'
      using IH [of rest p'] IH [of tail p'] Cons by simp_all
    have keeps: "opt_serial (opts\<lparr>opt_display := k\<rparr>) \<noteq> 0" "opt_serial (opts\<lparr>opt_persistence := m\<rparr>) \<noteq> 0"
      "serial \<noteq> 0 \<Longrightarrow> opt_serial (opts\<lparr>opt_serial := serial\<rparr>) \<noteq> 0" for k m serial
      using less.prems(2) by simp_all
    from less.prems(1) show ?thesis unfolding Cons worker_arguments.simps
      by (simp only: with_value_Ok and_then_Ok result.inject option.distinct result.distinct split: if_split_asm)
        (metis keeps step parse_serial_Ok)+
  qed
qed

end
