(* ===== verification/I2c_Target.thy ===== *)
theory I2c_Target
  imports Usb_Endpoint Arguments
begin

text \<open>
  The I2C frontend (\<^verbatim>\<open>virtual-yubihsm-i2c\<close>): opening and checking the target device, the recovery
  exchange that never reaches the HSM, and the loop that reads requests and queues responses.
  System calls are parameters, as in the USB worker.
\<close>

section \<open>Recovery (recovery.rs)\<close>

definition PREFIX :: bytes where
  "PREFIX = [0x00, 0x00, 0x0d] @ str_bytes ''BSCRECOV'' @ [0x01]"

definition recovery_response :: "bytes \<Rightarrow> bytes option" where
  "recovery_response request =
     (if length request \<noteq> length PREFIX + 4 \<or> take (length PREFIX) request \<noteq> PREFIX then None
      else Some (request[0 := 0x80]))"

section \<open>The target device (linux.rs)\<close>

text \<open>
  \<^verbatim>\<open>open_target\<close>: the result of opening the path, or of the \<^verbatim>\<open>fcntl\<close> calls on descriptor 3 that the
  launcher has left open; \<open>flags\<close> are its status flags.
\<close>

definition O_ACCMODE :: u32 where "O_ACCMODE = 3"
definition O_RDWR :: u32 where "O_RDWR = 2"

definition open_target :: "I2cOptions \<Rightarrow> fd io \<Rightarrow> nat + u32 \<Rightarrow> nat option \<Rightarrow> fd io" where
  "open_target options opened flags set_flags =
     (if \<not> io_inherited_device options then opened
      else case flags of
        Inl errno \<Rightarrow> Err (Os errno)
      | Inr flags \<Rightarrow>
          if and flags O_ACCMODE \<noteq> O_RDWR then Err (Custom PermissionDenied)
          else (case set_flags of Some errno \<Rightarrow> Err (Os errno) | None \<Rightarrow> Ok 3))"

text \<open>\<open>metadata\<close> is the error number, or whether the path is a directory and its permission bits.\<close>

definition validate_state_directory :: "nat + bool \<times> u32 \<Rightarrow> unit io" where
  "validate_state_directory metadata = (case metadata of
       Inl errno \<Rightarrow> Err (Os errno)
     | Inr (is_dir, mode) \<Rightarrow>
         if \<not> is_dir then Err (Custom InvalidInput)
         else if and (and mode 0x1ff) 0x3f \<noteq> 0 then Err (Custom PermissionDenied)
         else Ok ())"

definition validate_target_info :: "u32 list \<Rightarrow> unit io" where
  "validate_target_info info =
     (if info ! 0 \<noteq> 3 \<or> info ! 5 \<noteq> 1 \<or> and (info ! 6) 1 = 0 then Err (Custom OtherKind)
      else if unat (info ! 3) < MAX_FRAME_LENGTH then Err (Custom OtherKind)
      else Ok ())"

definition validate_target :: "nat + u32 list \<Rightarrow> unit io" where
  "validate_target info = (case info of Inl errno \<Rightarrow> Err (Os errno) | Inr info \<Rightarrow> validate_target_info info)"

definition POLLERR :: u16 where "POLLERR = 0x008"
definition POLLNVAL :: u16 where "POLLNVAL = 0x020"

definition wait_for_descriptor :: "nat + u16 \<Rightarrow> unit io" where
  "wait_for_descriptor polled = (case polled of
       Inl errno \<Rightarrow> if error_kind (Os errno) = Interrupted then Ok () else Err (Os errno)
     | Inr revents \<Rightarrow>
         if and revents (or (or POLLERR POLLHUP) POLLNVAL) \<noteq> 0 then Err (Custom OtherKind) else Ok ())"

text \<open>\<^verbatim>\<open>queue_response\<close> over the results of the write calls; \<open>None\<close> when they run out.\<close>

fun queue_response :: "writes \<Rightarrow> bytes \<Rightarrow> unit io option" where
  "queue_response [] response = None"
| "queue_response (Inl len # ws) response =
     Some (if len = length response then Ok () else Err (Custom WriteZero))"
| "queue_response (Inr errno # ws) response =
     (if error_kind (Os errno) = Interrupted then queue_response ws response else Some (Err (Os errno)))"

section \<open>The serving loop\<close>

record 'k i2c_turn =
  it_stop :: bool
  it_read :: "bytes + nat"
  it_poll :: "nat + u16"
  it_recover :: "nat option"
  it_env :: "'k env"
  it_writer :: "'k writer"
  it_writes :: writes

record 'k i2c_state =
  is_device :: "'k Device"
  is_replies :: "bytes list"

datatype i2c_next = I2c_Continue | I2c_Stop | I2c_Waiting

text \<open>The reply to one request, once it is in the target's queue.\<close>

definition reply :: "'k i2c_turn \<Rightarrow> bytes \<Rightarrow> 'k i2c_state \<Rightarrow> i2c_next io \<times> 'k i2c_state" where
  "reply t response s = (case queue_response (it_writes t) response of
       None \<Rightarrow> (Ok I2c_Waiting, s)
     | Some r \<Rightarrow> try_in r s (\<lambda>_. (Ok I2c_Continue, s\<lparr>is_replies := is_replies s @ [response]\<rparr>)))"

definition i2c_turn ::
  "'k lib \<Rightarrow> FirmwareProfile \<Rightarrow> 'k i2c_turn \<Rightarrow> 'k i2c_state \<Rightarrow> i2c_next io \<times> 'k i2c_state" where
  "i2c_turn L fw t s =
     (if it_stop t then (Ok I2c_Stop, s)
      else case it_read t of
        Inr errno \<Rightarrow>
          if error_kind (Os errno) = WouldBlock then
            try_in (wait_for_descriptor (it_poll t)) s (\<lambda>_. (Ok I2c_Continue, s))
          else if error_kind (Os errno) = Interrupted then (Ok I2c_Continue, s)
          else (Err (Os errno), s)
      | Inl request \<Rightarrow>
          if request = [] then (Ok I2c_Continue, s)
          else (case recovery_response request of
            Some response \<Rightarrow>
              (case it_recover t of
                 Some errno \<Rightarrow>
                   if error_kind (Os errno) = WouldBlock then (Ok I2c_Continue, s) else (Err (Os errno), s)
               | None \<Rightarrow> reply t response s)
          | None \<Rightarrow>
              let m = persistent_execute L (it_env t) fw (it_writer t) request (is_device s);
                  s = s\<lparr>is_device := snd m\<rparr> in
              try_in (map_err Runtime (fst m)) s (\<lambda>response. reply t response s)))"

fun i2c_serve ::
  "'k lib \<Rightarrow> FirmwareProfile \<Rightarrow> 'k i2c_turn list \<Rightarrow> 'k i2c_state \<Rightarrow> i2c_next io \<times> 'k i2c_state" where
  "i2c_serve L fw [] s = (Ok I2c_Waiting, s)"
| "i2c_serve L fw (t # ts) s =
     try_st (i2c_turn L fw t s) (\<lambda>next s.
     if next = I2c_Continue then i2c_serve L fw ts s else (Ok next, s))"

text \<open>
  \<^verbatim>\<open>run\<close>: everything is checked before the first request is read; the device is flushed in either
  case, and the loop's own failure is the one reported. \<open>handlers\<close> is the result of installing the
  signal handlers.
\<close>

record 'k i2c_startup =
  st_opened :: "fd io"
  st_flags :: "nat + u32"
  st_set_flags :: "nat option"
  st_handlers :: "unit io"
  st_metadata :: "nat + bool \<times> u32"
  st_info :: "nat + u32 list"
  st_open :: "u32 \<Rightarrow> 'k Device io"
  st_shutdown :: "unit io"

definition prepare_target :: "I2cOptions \<Rightarrow> 'k i2c_startup \<Rightarrow> 'k Device io" where
  "prepare_target options st =
     and_then (open_target options (st_opened st) (st_flags st) (st_set_flags st)) (\<lambda>_.
     and_then (st_handlers st) (\<lambda>_.
     and_then (validate_state_directory (st_metadata st)) (\<lambda>_.
     and_then (validate_target (st_info st)) (\<lambda>_.
     st_open st (io_serial options)))))"

definition run_target ::
  "'k lib \<Rightarrow> FirmwareProfile \<Rightarrow> I2cOptions \<Rightarrow> 'k i2c_startup \<Rightarrow> 'k i2c_turn list \<Rightarrow> i2c_next io \<times> 'k i2c_state option" where
  "run_target L fw options st turns = (case prepare_target options st of
       Err e \<Rightarrow> (Err e, None)
     | Panic \<Rightarrow> (Panic, None)
     | Diverge \<Rightarrow> (Diverge, None)
     | Ok d \<Rightarrow>
         let m = i2c_serve L fw turns \<lparr>is_device = d, is_replies = []\<rparr> in
         (if fst m = Ok I2c_Waiting then fst m
          else and_then (fst m) (\<lambda>next. and_then (st_shutdown st) (\<lambda>_. Ok next)), Some (snd m)))"

section \<open>Recovery is not an HSM command\<close>

lemma length_PREFIX [simp]: "length PREFIX = 12"
  by (simp add: PREFIX_def str_bytes_def)

lemma PREFIX_bytes: "PREFIX = [0x00, 0x00, 0x0d, 0x42, 0x53, 0x43, 0x52, 0x45, 0x43, 0x4f, 0x56, 0x01]"
  by (simp add: PREFIX_def str_bytes_def)

lemma recovery_request:
  assumes "recovery_response x = Some y"
  obtains nonce where "length nonce = 4" "x = PREFIX @ nonce" "y = 0x80 # tl PREFIX @ nonce"
proof -
  have x: "length x = 16" "take 12 x = PREFIX" "y = x[0 := 0x80]"
    using assms by (auto simp: recovery_response_def split: if_splits)
  then have "x = PREFIX @ drop 12 x" by (metis append_take_drop_id)
  moreover from this have "y = 0x80 # tl PREFIX @ drop 12 x" using x(3) by (metis PREFIX_bytes append_Cons list.sel(3) list_update_code(2))
  ultimately show thesis using that [of "drop 12 x"] x(1) by simp
qed

text \<open>
  A recovery request is a well-formed frame whose command byte no command has: without the
  special case the device would refuse it, so no command is shadowed by it.
\<close>

lemma command_zero: "command_from_byte 0 = None"
  by (simp add: command_from_byte_def)

lemma recovery_is_no_command:
  assumes "recovery_response x = Some y"
  shows "frame_parse x = Ok \<lparr>fr_command = 0, fr_data = drop 3 x\<rparr>"
    "fst (handle_encoded L E fw x d) = Ok (frame_encode (frame_error InvalidCommand))"
proof -
  obtain nonce where n: "length nonce = 4" "x = PREFIX @ nonce" using assms by (rule recovery_request)
  show p: "frame_parse x = Ok \<lparr>fr_command = 0, fr_data = drop 3 x\<rparr>"
    using n by (simp add: frame_parse_def frame_new_def frame_consts PREFIX_bytes from_be_def be_nat_def Let_def)
  show "fst (handle_encoded L E fw x d) = Ok (frame_encode (frame_error InvalidCommand))"
    by (simp add: handle_encoded_def handle_encoded_with_def p handle_frame_with_def command_zero or_error_frame_def Let_def)
qed

section \<open>One reply for each request\<close>

text \<open>The requests that reach the device, and the replies to the others.\<close>

text \<open>
  \<open>i2c_run\<close> is the reference: an HSM request is answered by the device, a recovery request with its
  own bytes under the response bit and without the device, or not at all when a newer request
  superseded it.
\<close>

inductive i2c_run ::
  "'k lib \<Rightarrow> FirmwareProfile \<Rightarrow> 'k Device \<Rightarrow> bytes list \<Rightarrow> bytes list \<Rightarrow> 'k Device \<Rightarrow> bool" for L fw where
  finished: "i2c_run L fw d [] [] d"
| command: "recovery_response x = None \<Longrightarrow> device_run L fw d [x] [r] d1 \<Longrightarrow>
    i2c_run L fw d1 xs rs d' \<Longrightarrow> i2c_run L fw d (x # xs) (r # rs) d'"
| recovery: "recovery_response x = Some r \<Longrightarrow> i2c_run L fw d xs rs d' \<Longrightarrow> i2c_run L fw d (x # xs) (r # rs) d'"
| superseded: "recovery_response x = Some r \<Longrightarrow> i2c_run L fw d xs rs d' \<Longrightarrow> i2c_run L fw d (x # xs) rs d'"

text \<open>The requests a run of the loop has read before it was told to stop.\<close>

fun i2c_requests :: "'k i2c_turn list \<Rightarrow> bytes list" where
  "i2c_requests [] = []"
| "i2c_requests (t # ts) =
     (if it_stop t then []
      else (case it_read t of Inl x \<Rightarrow> if x = [] then [] else [x] | Inr errno \<Rightarrow> []) @ i2c_requests ts)"

text \<open>No write of a turn is left without a result.\<close>

definition turn_complete :: "'k i2c_turn \<Rightarrow> bool" where
  "turn_complete t = (\<forall>response. queue_response (it_writes t) response \<noteq> None)"

lemma queue_response_complete:
  "(\<exists>w \<in> set ws. \<forall>errno. w = Inr errno \<longrightarrow> errno \<noteq> 4) \<Longrightarrow> queue_response ws response \<noteq> None"
  by (induction ws response rule: queue_response.induct) auto

lemma reply_complete:
  assumes "reply t response s = (Ok n, s')" "turn_complete t"
  shows "n = I2c_Continue \<and> s' = s\<lparr>is_replies := is_replies s @ [response]\<rparr>"
  using assms(1) assms(2) [unfolded turn_complete_def, rule_format, of response]
  by (cases "queue_response (it_writes t) response") (auto simp: reply_def)

lemma i2c_turn_run:
  assumes "i2c_turn L fw t s = (Ok n, s')" "turn_complete t"
  shows "if it_stop t then n = I2c_Stop \<and> s' = s
    else n = I2c_Continue \<and> (case it_read t of
        Inr errno \<Rightarrow> s' = s
      | Inl x \<Rightarrow>
          if x = [] then s' = s
          else case recovery_response x of
            None \<Rightarrow> \<exists>r. is_replies s' = is_replies s @ [r] \<and> device_run L fw (is_device s) [x] [r] (is_device s')
          | Some r \<Rightarrow> is_device s' = is_device s \<and> (is_replies s' = is_replies s @ [r] \<or> is_replies s' = is_replies s))"
proof (cases "\<not> it_stop t \<and> (\<exists>x. it_read t = Inl x \<and> x \<noteq> [] \<and> recovery_response x = None)")
  case True
  then obtain x where x: "it_read t = Inl x" "x \<noteq> []" "recovery_response x = None" by blast
  let ?m = "persistent_execute L (it_env t) fw (it_writer t) x (is_device s)"
  obtain r d' where m: "?m = (Ok r, d')" and re: "reply t r (s\<lparr>is_device := d'\<rparr>) = (Ok n, s')"
    using assms(1) True x by (cases ?m) (auto simp: i2c_turn_def Let_def)
  have "n = I2c_Continue \<and> s' = s\<lparr>is_device := d', is_replies := is_replies s @ [r]\<rparr>"
    using reply_complete [OF re assms(2)] by simp
  moreover have "device_run L fw (is_device s) [x] [r] d'"
    using m by (auto elim!: persistent_execute_Ok intro: device_run.intros)
  ultimately show ?thesis using True x by auto
next
  case False
  then show ?thesis using assms
    by (auto simp: i2c_turn_def split: sum.splits if_splits option.splits dest: reply_complete)
qed

lemma i2c_serve_run:
  "i2c_serve L fw ts s = (Ok n, s') \<Longrightarrow> list_all turn_complete ts \<Longrightarrow>
     \<exists>rs. is_replies s' = is_replies s @ rs \<and> i2c_run L fw (is_device s) (i2c_requests ts) rs (is_device s')"
proof (induction ts arbitrary: s)
  case (Cons t ts)
  obtain k s1 where k: "i2c_turn L fw t s = (Ok k, s1)"
    and rest: "(if k = I2c_Continue then i2c_serve L fw ts s1 else (Ok k, s1)) = (Ok n, s')"
    using Cons.prems(1) by auto
  note turn = i2c_turn_run [OF k] and complete = Cons.prems(2)
  show ?case
  proof (cases "it_stop t")
    case True
    then show ?thesis using turn rest complete by (auto intro: i2c_run.finished)
  next
    case False
    with turn complete rest have "i2c_serve L fw ts s1 = (Ok n, s')" by simp
    from Cons.IH [OF this] complete obtain rs where
      rs: "is_replies s' = is_replies s1 @ rs" "i2c_run L fw (is_device s1) (i2c_requests ts) rs (is_device s')" by auto
    show ?thesis
    proof (cases "it_read t")
      case (Inl x)
      then show ?thesis using turn complete False rs
        by (cases "x = []"; cases "recovery_response x")
          (auto intro: i2c_run.command i2c_run.recovery i2c_run.superseded)
    next
      case (Inr errno)
      then show ?thesis using turn complete False rs by auto
    qed
  qed
qed (auto intro: i2c_run.finished)

end
