(* ===== verification/Client_Session.thy ===== *)
theory Client_Session
  imports Conversation
begin

unbundle bit_operations_syntax

text \<open>
  The client of the qualification tool (\<^verbatim>\<open>yubihsm-qualification/src/lib.rs\<close>): the transport it
  talks through, opening a session with a symmetric authentication key, protecting a command and
  checking the response, closing. It is an independent implementation of the host's side of the
  secure channel. The theorems put it together with the device and show that they understand each
  other: a session opens, every command is answered, and both ends stay in step.
\<close>

section \<open>Transports\<close>

text \<open>The errors of the tool are messages; only that there is one is modelled.\<close>

type_synonym 'a case_result = "('a, unit) result"

text \<open>A transport, with the kinds of its errors (\<^verbatim>\<open>FrameTransport\<close>, \<^verbatim>\<open>TransportErrorKind\<close>).\<close>

datatype TransportErrorKind = Te_Other | Te_InvalidCommandFrame

type_synonym 't transport = "bytes \<Rightarrow> 't \<Rightarrow> (bytes, TransportErrorKind) result \<times> 't"

definition or_message :: "('a, 'e) result \<Rightarrow> 'a case_result" where
  "or_message r = map_err (\<lambda>_. ()) r"

definition ensure :: "bool \<Rightarrow> unit case_result" where
  "ensure condition = guard condition ()"

text \<open>
  \<^verbatim>\<open>InProcessTransport\<close>: the device itself, with the environments its executions find, one for
  each exchange.
\<close>

fun in_process :: "'k lib \<Rightarrow> FirmwareProfile \<Rightarrow> ('k env list \<times> 'k Device) transport" where
  "in_process L fw request ([], d) = (Err Te_Other, ([], d))"
| "in_process L fw request (E # Es, d) =
     (let m = handle_encoded L E fw request d in (map_err (\<lambda>_. Te_Other) (fst m), (Es, snd m)))"

definition exchange_raw :: "'t transport \<Rightarrow> bytes \<Rightarrow> 't \<Rightarrow> Frame case_result \<times> 't" where
  "exchange_raw tr request t =
     (let m = tr request t in
      try_in (or_message (fst m)) (snd m) (\<lambda>response. (or_message (frame_parse response), snd m)))"

definition exchange_frame :: "'t transport \<Rightarrow> Frame \<Rightarrow> 't \<Rightarrow> Frame case_result \<times> 't" where
  "exchange_frame tr request t = exchange_raw tr (frame_encode request) t"

definition expect_response :: "Frame \<Rightarrow> CommandCode \<Rightarrow> bytes case_result" where
  "expect_response response command =
     (if fr_command response = ERROR_COMMAND then Err ()
      else and_then (ensure (fr_command response = command_code command OR RESPONSE_BIT)) (\<lambda>_. Ok (fr_data response)))"

definition expect_device_error :: "Frame \<Rightarrow> DeviceError \<Rightarrow> unit case_result" where
  "expect_device_error response expected =
     ensure (fr_command response = ERROR_COMMAND \<and> fr_data response = [error_code expected])"

text \<open>\<^verbatim>\<open>Frame::new(..).unwrap()\<close>.\<close>

definition new_frame :: "CommandCode \<Rightarrow> bytes \<Rightarrow> Frame case_result" where
  "new_frame command data = (case frame_new (command_code command) data of Ok f \<Rightarrow> Ok f | _ \<Rightarrow> Panic)"

section \<open>Sessions\<close>

record SymmetricSession =
  cl_sid :: u8
  cl_enc :: bytes
  cl_mac :: bytes
  cl_rmac :: bytes
  cl_counter :: bytes
  cl_command_mac :: bytes

definition HOST_CHALLENGE :: bytes where
  "HOST_CHALLENGE = [0x51, 0x75, 0x61, 0x6c, 0x69, 0x66, 0x79, 0x21]"

definition message_key :: "bytes option \<Rightarrow> bytes case_result" where
  "message_key k = ok_or k ()"

definition message_cmac :: "'k lib \<Rightarrow> bytes \<Rightarrow> bytes \<Rightarrow> bytes case_result" where
  "message_cmac L key data = or_message (cmac L key data)"

definition open_symmetric ::
  "'k lib \<Rightarrow> 't transport \<Rightarrow> u16 \<Rightarrow> bytes \<Rightarrow> 't \<Rightarrow> SymmetricSession case_result \<times> 't" where
  "open_symmetric L tr authentication_key_id static_keys t =
     try_in (new_frame Cmd_CreateSession (be16 authentication_key_id @ HOST_CHALLENGE)) t (\<lambda>request.
     try_st (exchange_frame tr request t) (\<lambda>response t.
     try_in (expect_response response Cmd_CreateSession) t (\<lambda>create.
     try_in (ensure (length create = 17)) t (\<lambda>_.
     let sid = create ! 0; context = HOST_CHALLENGE @ take 8 (drop 1 create) in
     try_in (message_key (scp03_key L (take 16 static_keys) 0x04 context)) t (\<lambda>s_enc.
     try_in (message_key (scp03_key L (drop 16 static_keys) 0x06 context)) t (\<lambda>s_mac.
     try_in (message_key (scp03_key L (drop 16 static_keys) 0x07 context)) t (\<lambda>s_rmac.
     try_in (message_key (scp03_cryptogram L s_mac 0x00 context)) t (\<lambda>card_cryptogram.
     try_in (ensure (drop 9 create = card_cryptogram)) t (\<lambda>_.
     try_in (message_key (scp03_cryptogram L s_mac 0x01 context)) t (\<lambda>host_cryptogram.
     let authenticate_payload = sid # host_cryptogram;
         encoded_without_mac = [command_code Cmd_AuthenticateSession, 0, 17] @ authenticate_payload in
     try_in (message_cmac L s_mac (replicate 16 0 @ encoded_without_mac)) t (\<lambda>command_mac.
     try_in (new_frame Cmd_AuthenticateSession (authenticate_payload @ take MAC_LENGTH command_mac)) t (\<lambda>request.
     try_st (exchange_frame tr request t) (\<lambda>response t.
     try_in (expect_response response Cmd_AuthenticateSession) t (\<lambda>_.
     (Ok \<lparr>cl_sid = sid, cl_enc = s_enc, cl_mac = s_mac, cl_rmac = s_rmac,
          cl_counter = replicate 15 0 @ [1], cl_command_mac = command_mac\<rparr>, t)))))))))))))))"

text \<open>The big-endian length bytes of a session message (\<^verbatim>\<open>>> 8\<close> and \<^verbatim>\<open>as u8\<close>).\<close>

definition length_bytes :: "nat \<Rightarrow> bytes" where
  "length_bytes n = [of_nat (n div 256), of_nat n]"

text \<open>The checks on a response, and what it decrypts to.\<close>

definition open_response ::
  "'k lib \<Rightarrow> SymmetricSession \<Rightarrow> bytes \<Rightarrow> bytes \<Rightarrow> Frame \<Rightarrow> Frame case_result" where
  "open_response L s iv command_mac outer =
     and_then (ensure (fr_command outer = command_code Cmd_SessionMessage OR RESPONSE_BIT)) (\<lambda>_.
     and_then (ensure (length (fr_data outer) \<ge> 1 + BLOCK_SIZE + MAC_LENGTH)) (\<lambda>_.
     let payload_length = length (fr_data outer) - MAC_LENGTH in
     and_then (message_cmac L (cl_rmac s) (command_mac @ take (3 + payload_length) (frame_encode outer))) (\<lambda>expected_rmac.
     and_then (ensure (drop payload_length (fr_data outer) = take MAC_LENGTH expected_rmac)) (\<lambda>_.
     and_then (ensure (fr_data outer ! 0 = cl_sid s)) (\<lambda>_.
     and_then (or_message (cbc_decrypt L (cl_enc s) iv (drop 1 (take payload_length (fr_data outer))))) (\<lambda>clear.
     and_then (or_message (unpad L clear)) (\<lambda>clear.
     or_message (frame_parse clear))))))))"

definition client_command ::
  "'k lib \<Rightarrow> 't transport \<Rightarrow> Frame \<Rightarrow> SymmetricSession \<times> 't \<Rightarrow> Frame case_result \<times> SymmetricSession \<times> 't" where
  "client_command L tr inner st =
     (let s = fst st; t = snd st in
      try_in (or_message (encrypt_block L (cl_enc s) (cl_counter s))) st (\<lambda>iv.
      try_in (or_message (cbc_encrypt L (cl_enc s) iv (pad L (frame_encode inner)))) st (\<lambda>ciphertext.
      let data = cl_sid s # ciphertext;
          encoded_without_mac = [command_code Cmd_SessionMessage] @ length_bytes (length data + MAC_LENGTH) @ data in
      try_in (message_cmac L (cl_mac s) (cl_command_mac s @ encoded_without_mac)) st (\<lambda>command_mac.
      try_in (new_frame Cmd_SessionMessage (data @ take MAC_LENGTH command_mac)) st (\<lambda>request.
      let x = exchange_frame tr request t in
      try_in (fst x) (s, snd x) (\<lambda>outer.
      if fr_command outer = ERROR_COMMAND then (Ok outer, (s, snd x))
      else
        try_in (open_response L s iv command_mac outer) (s, snd x) (\<lambda>response.
        (Ok response, (s\<lparr>cl_command_mac := command_mac, cl_counter := increment_counter (cl_counter s)\<rparr>, snd x)))))))))"

definition client_close :: "'k lib \<Rightarrow> 't transport \<Rightarrow> SymmetricSession \<times> 't \<Rightarrow> unit case_result \<times> SymmetricSession \<times> 't" where
  "client_close L tr st =
     try_in (new_frame Cmd_CloseSession []) st (\<lambda>request.
     try_st (client_command L tr request st) (\<lambda>response st.
     try_in (expect_response response Cmd_CloseSession) st (\<lambda>_. (Ok (), st))))"

section \<open>The client is the reference host\<close>

text \<open>The two ends agree on everything the channel depends on.\<close>

definition in_step :: "SymmetricSession \<Rightarrow> SecureSession \<Rightarrow> bool" where
  "in_step s ss =
     (cl_sid s = ss_sid ss \<and> cl_enc s = ss_enc ss \<and> cl_mac s = ss_mac ss \<and> cl_rmac s = ss_rmac ss
      \<and> cl_counter s = ss_counter ss \<and> cl_command_mac s = ss_mac_chaining_value ss)"

lemma or_message_simps [simp]:
  "or_message (Ok x) = Ok x" "or_message (Err e) = Err ()" "or_message r = Ok y \<longleftrightarrow> r = Ok y"
  by (simp_all add: or_message_def)

lemma ensure_simps [simp]: "ensure b = Ok u \<longleftrightarrow> b" "ensure True = Ok ()"
  by (simp_all add: ensure_def)

lemma message_key_simps [simp]: "message_key (Some k) = Ok k" "message_key x = Ok k \<longleftrightarrow> x = Some k"
  by (simp_all add: message_key_def)

lemma message_cmac_Ok [simp]: "message_cmac L k m = Ok t \<longleftrightarrow> cmac L k m = Ok t"
  by (simp add: message_cmac_def)

lemma length_bytes_be16:
  assumes "n < 65536"
  shows "length_bytes n = be16 (of_nat n)"
proof -
  have "unat (of_nat n :: u16) = n" using assms by (simp add: unat_of_nat)
  then show ?thesis by (simp only: be16_def length_bytes_def) (simp add: numeral_2_eq_2)
qed

lemma new_frame_Ok: "new_frame c data = Ok f \<longleftrightarrow> frame_new (command_code c) data = Ok f"
  by (auto simp: new_frame_def split: result.splits)

text \<open>What the reference host computes on the way to its request.\<close>

lemma host_request_parts:
  assumes laws: "cipher_laws L" and keys: "session_keys_wf ss" and req: "host_request L ss inner = Ok q"
  obtains iv c tag where "encrypt_block L (ss_enc ss) (ss_counter ss) = Ok iv"
    "cbc_encrypt L (ss_enc ss) iv (pad L (frame_encode inner)) = Ok c"
    "host_tag L ss (ss_sid ss # c) = Ok tag" "length tag = 16" "frame_wf q"
    "q = \<lparr>fr_command = command_code Cmd_SessionMessage, fr_data = (ss_sid ss # c) @ take MAC_LENGTH tag\<rparr>"
proof -
  obtain iv c tag where x: "encrypt_block L (ss_enc ss) (ss_counter ss) = Ok iv"
    "cbc_encrypt L (ss_enc ss) iv (pad L (frame_encode inner)) = Ok c"
    "host_tag L ss (ss_sid ss # c) = Ok tag"
    "frame_new (command_code Cmd_SessionMessage) ((ss_sid ss # c) @ take MAC_LENGTH tag) = Ok q"
    using req by (auto simp: host_request_def Let_def)
  have "length tag = 16"
    using cipher_laws_cmac [OF laws] keys x(3) unfolding host_tag_def session_keys_wf_def by (metis result.inject(1))
  moreover have "q = \<lparr>fr_command = command_code Cmd_SessionMessage, fr_data = (ss_sid ss # c) @ take MAC_LENGTH tag\<rparr>" "frame_wf q"
    using x(4) by (auto simp: frame_new_def frame_wf_def split: if_splits)
  ultimately show thesis using that x(1-3) by blast
qed

text \<open>
  The client accepts a response exactly as the reference host does, given that it is long enough.
\<close>

lemma open_response_reference:
  assumes step: "in_step s ss" and iv: "encrypt_block L (ss_enc ss) (ss_counter ss) = Ok iv"
    and long: "1 + BLOCK_SIZE + MAC_LENGTH \<le> length (fr_data outer)"
    and opened: "host_open L (ss\<lparr>ss_mac_chaining_value := tag\<rparr>) outer = Ok response"
  shows "open_response L s iv tag outer = Ok response"
proof -
  let ?n = "length (fr_data outer) - MAC_LENGTH"
  have n: "0 < ?n" using long by (simp add: BLOCK_SIZE_def MAC_LENGTH_def)
  then obtain b rest where data: "fr_data outer = b # rest" by (cases "fr_data outer") auto
  obtain m where m: "?n = Suc m" using n by (cases ?n) auto
  have "take ?n (fr_data outer) = b # take m rest" using data m by simp
  with opened iv long step data show ?thesis
    by (auto simp: host_open_def open_response_def Let_def in_step_def SESSION_MESSAGE_RESPONSE_def split: if_splits)
qed

lemma client_exchange:
  assumes laws: "cipher_laws L" and wf: "device_wf L d" and live: "session_live (now E) sid e d"
    and step: "in_step s (se_secure e)"
    and fits: "frame_wf inner" "length (fr_data inner) \<le> 8172"
    and run: "command_outcome L E fw no_hook e inner (in_message (now E) sid d) = (Ok response, (d2, objs))"
  shows "\<exists>s' tag. client_command L (in_process L fw) inner (s, (E # Es, d)) = (Ok (limit_response response), (s', (Es,
      if closes_session inner (handled_response no_hook (se_authorization e) inner \<noteq> None) (limit_response response)
      then d2 else d2\<lparr>dv_sessions := bt_insert sid (next_entry (now E) e tag objs) (dv_sessions d2)\<rparr>)))
    \<and> in_step s' (se_secure (next_entry (now E) e tag objs))"
proof -
  let ?ss = "se_secure e"
  have keys: "session_keys_wf ?ss" using live by (simp add: session_live_def)
  obtain q outer tag x where q: "host_request L ?ss inner = Ok q"
    and dec: "decrypt_request L ?ss q = (Ok inner, ?ss\<lparr>ss_mac_chaining_value := tag\<rparr>)"
    and enc: "encrypt_response L (?ss\<lparr>ss_mac_chaining_value := tag\<rparr>) (limit_response response) = (Ok outer, x)"
    and handled: "handle_encoded_with L E fw no_hook (frame_encode q) d = (Ok (frame_encode outer),
        if closes_session inner (handled_response no_hook (se_authorization e) inner \<noteq> None) (limit_response response)
        then d2 else d2\<lparr>dv_sessions := bt_insert sid (next_entry (now E) e tag objs) (dv_sessions d2)\<rparr>)"
    using exchange_sealed [OF laws wf live fits run] by blast
  have keys': "session_keys_wf (?ss\<lparr>ss_mac_chaining_value := tag\<rparr>)" using keys by (simp add: session_keys_wf_def)
  note shape = encrypt_response_shape [OF laws keys' enc]
  obtain iv c t where p: "encrypt_block L (ss_enc ?ss) (ss_counter ?ss) = Ok iv"
    "cbc_encrypt L (ss_enc ?ss) iv (pad L (frame_encode inner)) = Ok c"
    "host_tag L ?ss (ss_sid ?ss # c) = Ok t" "length t = 16" "frame_wf q"
    "q = \<lparr>fr_command = command_code Cmd_SessionMessage, fr_data = (ss_sid ?ss # c) @ take MAC_LENGTH t\<rparr>"
    using host_request_parts [OF laws keys q] by metis
  have "host_tag L ?ss (ss_sid ?ss # c) = Ok tag"
    by (rule decrypt_request_tag [OF dec, where mac = "take MAC_LENGTH t"]) (simp_all add: p(4,6) MAC_LENGTH_def)
  with p(3) have t: "t = tag" by simp
  have total: "length (ss_sid ?ss # c) + MAC_LENGTH < 65536"
    using p(5) unfolding p(6) frame_wf_def by (simp add: frame_consts MAC_LENGTH_def p(4))
  have mac: "cmac L (ss_mac ?ss) (ss_mac_chaining_value ?ss @ [command_code Cmd_SessionMessage]
      @ length_bytes (length (ss_sid ?ss # c) + MAC_LENGTH) @ ss_sid ?ss # c) = Ok tag"
    using p(3) t unfolding host_tag_def length_bytes_be16 [OF total] by simp
  have new: "new_frame Cmd_SessionMessage ((ss_sid ?ss # c) @ take MAC_LENGTH tag) = Ok q"
    using p(5) unfolding new_frame_Ok frame_new_def p(6) t frame_wf_def by simp
  have ex: "exchange_frame (in_process L fw) q (E # Es, d) = (Ok outer, (Es,
      if closes_session inner (handled_response no_hook (se_authorization e) inner \<noteq> None) (limit_response response)
      then d2 else d2\<lparr>dv_sessions := bt_insert sid (next_entry (now E) e tag objs) (dv_sessions d2)\<rparr>))"
    using handled frame_parse_encode [OF shape(1)]
    by (simp add: exchange_frame_def exchange_raw_def handle_encoded_def)
  have opened: "open_response L s iv tag outer = Ok (limit_response response)"
    by (rule open_response_reference [OF step p(1) shape(3) response_round_trip(1) [OF laws keys' limit_response_fits(2) enc]])
  have no_error: "fr_command outer \<noteq> ERROR_COMMAND"
    unfolding shape(2) by (simp add: SESSION_MESSAGE_RESPONSE_def ERROR_COMMAND_def RESPONSE_BIT_def)
  have cl: "cl_sid s = ss_sid ?ss" "cl_enc s = ss_enc ?ss" "cl_mac s = ss_mac ?ss" "cl_counter s = ss_counter ?ss"
    "cl_command_mac s = ss_mac_chaining_value ?ss" using step by (simp_all add: in_step_def)
  let ?s' = "s\<lparr>cl_command_mac := tag, cl_counter := increment_counter (cl_counter s)\<rparr>"
  have "client_command L (in_process L fw) inner (s, (E # Es, d)) = (Ok (limit_response response), (?s', (Es,
      if closes_session inner (handled_response no_hook (se_authorization e) inner \<noteq> None) (limit_response response)
      then d2 else d2\<lparr>dv_sessions := bt_insert sid (next_entry (now E) e tag objs) (dv_sessions d2)\<rparr>)))"
    unfolding client_command_def fst_conv snd_conv Let_def cl(1-5)
    using p(1,2) mac new ex opened no_error cl(4) by (simp add: message_cmac_def)
  moreover have "in_step ?s' (se_secure (next_entry (now E) e tag objs))"
    using step by (simp add: in_step_def next_entry_def)
  ultimately show ?thesis by blast
qed

section \<open>Opening a session\<close>

text \<open>SCP03 derives sixteen-byte keys and eight-byte cryptograms from sixteen-byte keys.\<close>

definition scp03_law :: "'k lib \<Rightarrow> bool" where
  "scp03_law L = (\<forall>key constant context. length key = 16 \<longrightarrow>
     (\<exists>k. scp03_key L key constant context = Some k \<and> length k = 16)
     \<and> (\<exists>c. scp03_cryptogram L key constant context = Some c \<and> length c = 8))"

lemma scp03_lawD:
  assumes "scp03_law L" "length key = 16"
  obtains k where "scp03_key L key constant context = Some k" "length k = 16"
  using assms unfolding scp03_law_def by blast

lemma scp03_lawD_cryptogram:
  assumes "scp03_law L" "length key = 16"
  obtains c where "scp03_cryptogram L key constant context = Some c" "length c = 8"
  using assms unfolding scp03_law_def by blast

text \<open>What a device is, apart from its sessions, its log and the flag of the persistent runtime.\<close>

definition same_contents :: "'k Device \<Rightarrow> 'k Device \<Rightarrow> bool" where
  "same_contents d d' =
     (dv_objects d' = dv_objects d \<and> dv_config d' = dv_config d \<and> dv_options d' = dv_options d
      \<and> dv_sequence_history d' = dv_sequence_history d \<and> dv_static_private d' = dv_static_private d)"

lemma same_contents_refl [simp]: "same_contents d d"
  by (simp add: same_contents_def)

lemma same_contents_trans: "same_contents d1 d2 \<Longrightarrow> same_contents d2 d3 \<Longrightarrow> same_contents d1 d3"
  by (simp add: same_contents_def)

lemma same_contents_sessions [simp]:
  "same_contents d (d'\<lparr>dv_sessions := ss\<rparr>) = same_contents d d'"
  "same_contents (d\<lparr>dv_sessions := ss\<rparr>) d' = same_contents d d'"
  by (simp_all add: same_contents_def)

lemma same_contents_audit [simp]:
  "same_contents d (append_audit_entry L au c q r d') = same_contents d d'"
  "same_contents d (record_unlogged_authentication_if_full d') = same_contents d d'"
  "same_contents d (expire_inactive_sessions t d') = same_contents d d'"
  "same_contents (expire_inactive_sessions t d) d' = same_contents d d'"
  by (simp_all add: same_contents_def append_audit_entry_def record_unlogged_authentication_if_full_def
      expire_inactive_sessions_def Let_def)

lemma session_authorization_same: "same_contents d d' \<Longrightarrow> session_authorization d' i = session_authorization d i"
  by (simp add: same_contents_def session_authorization_def)

text \<open>A message that is neither plain nor in a session, from its frame to the engine's handler.\<close>

lemma handle_encoded_session:
  assumes "frame_wf q" "fr_command q = command_code c" "c = Cmd_CreateSession \<or> c = Cmd_AuthenticateSession"
    and "(if c = Cmd_CreateSession then create_session L E q (expire_inactive_sessions (now E) d)
      else authenticate_session L E q (expire_inactive_sessions (now E) d)) = (Ok f, d')"
  shows "handle_encoded L E fw (frame_encode q) d = (Ok (frame_encode f), d')"
proof -
  have "command_from_byte (fr_command q) = Some c" using command_from_code assms(2) by (simp only:)
  then show ?thesis using assms(3,4) frame_parse_encode [OF assms(1)]
    by (auto simp: handle_encoded_def handle_encoded_with_def handle_frame_with_def or_error_frame_def Let_def)
qed

definition created_entry ::
  "SessionAuthorization \<Rightarrow> SecureSession \<Rightarrow> bytes \<Rightarrow> nat \<Rightarrow> 'k SessionEntry" where
  "created_entry au secure expected t =
     \<lparr>se_authorization = au, se_secure = secure, se_expected_host_cryptogram = Some expected,
      se_authenticated = False, se_last_activity = t, se_objects = bt_empty\<rparr>"

lemma create_session_step:
  assumes material: "authentication_key_material d kid = Ok (Auth_Symmetric keys)"
    and free: "free_session_id d = Ok sid"
    and entropy: "entropy E 0 CHALLENGE_LENGTH = Some cc"
    and begun: "begin_symmetric L sid keys host cc = Ok (secure, card_cryptogram, expected)"
    and host: "length host = CHALLENGE_LENGTH"
  obtains au d' where
    "create_session L E \<lparr>fr_command = command_code Cmd_CreateSession, fr_data = be16 kid @ host\<rparr> d
      = (Ok (frame_response (command_code Cmd_CreateSession) (sid # cc @ card_cryptogram)), d')"
    "dv_sessions d' = bt_insert sid (created_entry au secure expected (now E)) (dv_sessions d)"
    "session_authorization d kid = Ok au" "same_contents d d'"
proof -
  let ?q = "\<lparr>fr_command = command_code Cmd_CreateSession, fr_data = be16 kid @ host\<rparr>"
  obtain x where x: "bt_get (dv_objects d) (ObjectKey Ty_AuthenticationKey kid) = Some x"
    using material by (auto simp: authentication_key_material_def)
  with material have "or_material x = Mat_Authentication (Auth_Symmetric keys)"
    by (cases "or_material x") (simp_all add: authentication_key_material_def)
  with x obtain au where au: "session_authorization d kid = Ok au"
    by (auto simp: session_authorization_def)
  have dec: "decode_request decode_create_session (fr_data ?q)
      = Ok \<lparr>cs_authentication_key_id = kid, cs_host_challenge_or_public_key = host\<rparr>"
    by (simp add: decode_create_session_def read_u16_def read_remainder_def reader_new_def)
  let ?d = "d\<lparr>dv_sessions := bt_insert sid (created_entry au secure expected (now E)) (dv_sessions d)\<rparr>"
  let ?f = "frame_response (command_code Cmd_CreateSession) (sid # cc @ card_cryptogram)"
  have opened: "open_session L E \<lparr>cs_authentication_key_id = kid, cs_host_challenge_or_public_key = host\<rparr> au d = (Ok ?f, ?d)"
    using material free entropy begun host by (simp add: open_session_def created_entry_def)
  let ?d' = "if should_audit ?d Cmd_CreateSession
      then append_audit_entry L au Cmd_CreateSession ?q (result_code (Ok ?f :: Frame res)) ?d else ?d"
  have "create_session L E ?q d = (Ok ?f, ?d')"
    using dec au opened by (simp add: create_session_def audit_session_command_def del: decode_request_Ok)
  moreover have "dv_sessions ?d' = bt_insert sid (created_entry au secure expected (now E)) (dv_sessions d)"
    by simp
  moreover have "same_contents d ?d'" by simp
  ultimately show thesis using that au by blast
qed

lemma authenticate_session_step:
  assumes entry: "bt_get (dv_sessions d) sid = Some (created_entry au secure expected t)"
    and sid: "ss_sid secure = sid" and len: "length expected = 8" "length tag = 16"
    and tag: "cmac L (ss_mac secure) (ss_mac_chaining_value secure @ [command_code Cmd_AuthenticateSession, 0, 17]
      @ sid # expected) = Ok tag"
  obtains d' e where
    "authenticate_session L E \<lparr>fr_command = command_code Cmd_AuthenticateSession,
        fr_data = (sid # expected) @ take MAC_LENGTH tag\<rparr> d
      = (Ok (frame_response (command_code Cmd_AuthenticateSession) []), d')"
    "bt_get (dv_sessions d') sid = Some e" "se_authenticated e" "se_last_activity e = now E" "se_authorization e = au"
    "se_secure e = secure\<lparr>ss_mac_chaining_value := tag, ss_counter := increment_counter (ss_counter secure)\<rparr>"
    "same_contents d d'"
proof -
  let ?q = "\<lparr>fr_command = command_code Cmd_AuthenticateSession, fr_data = (sid # expected) @ take MAC_LENGTH tag\<rparr>"
  let ?e = "created_entry au secure expected t"
  have n: "length (fr_data ?q) = 9 + MAC_LENGTH" using len by (simp add: MAC_LENGTH_def)
  have "be_of_nat 2 17 = [0, 17]" by code_simp
  then have b: "be16 (of_nat (9 + MAC_LENGTH)) = [0, 17]" by (simp only: be16_def MAC_LENGTH_def) simp
  have parts: "take 9 (fr_data ?q) = sid # expected" "drop 9 (fr_data ?q) = take MAC_LENGTH tag"
    using len by (simp_all add: MAC_LENGTH_def)
  have mac: "verify_request_mac L secure ?q = (Ok (sid # expected), secure\<lparr>ss_mac_chaining_value := tag\<rparr>)"
    unfolding verify_request_mac_iff [OF n] b parts using tag by (intro exI [of _ tag]) simp
  have auth: "authenticate_symmetric L secure ?q expected =
      (Ok (), secure\<lparr>ss_mac_chaining_value := tag, ss_counter := increment_counter (ss_counter secure)\<rparr>)"
    using mac sid len by (simp add: authenticate_symmetric_def MAC_LENGTH_def)
  have dec: "decode_request decode_session_envelope (fr_data ?q) = Ok (sid, expected @ take MAC_LENGTH tag)"
    using session_envelope [of sid "expected @ take MAC_LENGTH tag"] by simp
  let ?e' = "?e\<lparr>se_secure := secure\<lparr>ss_mac_chaining_value := tag, ss_counter := increment_counter (ss_counter secure)\<rparr>,
      se_expected_host_cryptogram := None, se_authenticated := True, se_last_activity := now E\<rparr>"
  let ?m = "confirm_session L E ?q sid ?e (d\<lparr>dv_sessions := bt_remove sid (dv_sessions d)\<rparr>)"
  have m: "fst ?m = Ok (frame_response (command_code Cmd_AuthenticateSession) [])"
    "bt_get (dv_sessions (snd ?m)) sid = Some ?e'" "same_contents d (snd ?m)"
    using auth by (simp_all add: confirm_session_def created_entry_def)
  let ?x = "audit_session_command L au Cmd_AuthenticateSession ?q ?m"
  have x: "authenticate_session L E ?q d = ?x"
    using entry dec by (simp add: authenticate_session_def created_entry_def del: decode_request_Ok)
  have "fst ?x = Ok (frame_response (command_code Cmd_AuthenticateSession) [])" "bt_get (dv_sessions (snd ?x)) sid = Some ?e'"
    "same_contents d (snd ?x)" using m by (simp_all add: audit_session_command_def)
  then show thesis using that [of "snd ?x" ?e'] x by (simp add: created_entry_def prod_eq_iff)
qed

lemma expect_frame_response:
  assumes "command_code c OR RESPONSE_BIT \<noteq> ERROR_COMMAND"
  shows "expect_response (frame_response (command_code c) data) c = Ok data"
  using assms by (simp add: expect_response_def frame_response_def)

lemma first_counter: "increment_counter (replicate BLOCK_SIZE 0) = replicate 15 0 @ [1]"
  by code_simp

text \<open>What both ends derive from the keys and the two challenges.\<close>

lemma symmetric_keys_derived:
  assumes law: "scp03_law L" and keys: "length keys = 32" and lens: "length host_challenge = 8" "length cc = 8"
  obtains s_enc s_mac s_rmac card_cryptogram host where
    "scp03_key L (take 16 keys) 0x04 (host_challenge @ cc) = Some s_enc" "length s_enc = 16"
    "scp03_key L (drop 16 keys) 0x06 (host_challenge @ cc) = Some s_mac" "length s_mac = 16"
    "scp03_key L (drop 16 keys) 0x07 (host_challenge @ cc) = Some s_rmac" "length s_rmac = 16"
    "scp03_cryptogram L s_mac 0x00 (host_challenge @ cc) = Some card_cryptogram" "length card_cryptogram = 8"
    "scp03_cryptogram L s_mac 0x01 (host_challenge @ cc) = Some host" "length host = 8"
    "\<And>sid. begin_symmetric L sid keys host_challenge cc = Ok (secure_session_new sid s_enc s_mac s_rmac
      (replicate BLOCK_SIZE 0) (replicate BLOCK_SIZE 0), card_cryptogram, host)"
proof -
  let ?ctx = "host_challenge @ cc"
  have k: "length (take 16 keys) = 16" "length (drop 16 keys) = 16" using keys by simp_all
  obtain s_enc where enc: "scp03_key L (take 16 keys) 0x04 ?ctx = Some s_enc" "length s_enc = 16"
    by (rule scp03_lawD [OF law k(1)])
  obtain s_mac where mac: "scp03_key L (drop 16 keys) 0x06 ?ctx = Some s_mac" "length s_mac = 16"
    by (rule scp03_lawD [OF law k(2)])
  obtain s_rmac where rmac: "scp03_key L (drop 16 keys) 0x07 ?ctx = Some s_rmac" "length s_rmac = 16"
    by (rule scp03_lawD [OF law k(2)])
  obtain card_cryptogram where card_cryptogram: "scp03_cryptogram L s_mac 0x00 ?ctx = Some card_cryptogram" "length card_cryptogram = 8"
    by (rule scp03_lawD_cryptogram [OF law mac(2)])
  obtain host where host: "scp03_cryptogram L s_mac 0x01 ?ctx = Some host" "length host = 8"
    by (rule scp03_lawD_cryptogram [OF law mac(2)])
  have "begin_symmetric L sid keys host_challenge cc = Ok (secure_session_new sid s_enc s_mac s_rmac
      (replicate BLOCK_SIZE 0) (replicate BLOCK_SIZE 0), card_cryptogram, host)" for sid
    using keys lens enc mac rmac card_cryptogram host
    by (simp add: begin_symmetric_def CHALLENGE_LENGTH_def derive_key_def derive_cryptogram_def)
  then show thesis using that enc mac rmac card_cryptogram host by blast
qed

lemma exchange_handled:
  assumes "handle_encoded L E fw (frame_encode q) d = (Ok (frame_encode f), d')" "frame_wf f"
  shows "exchange_frame (in_process L fw) q (E # Es, d) = (Ok f, (Es, d'))"
  using assms(1) frame_parse_encode [OF assms(2)] by (simp add: exchange_frame_def exchange_raw_def)

lemma handled_wf:
  assumes "handle_encoded L E fw request d = (r, d')" "device_wf L d" "password_kdf_ok L"
  shows "device_wf L d'"
  using handle_encoded_wf [OF assms(2,3)] assms(1) unfolding handle_encoded_def by (metis snd_conv)

text \<open>The first exchange: the session is created, and the client knows all it needs to authenticate.\<close>

lemma client_creates:
  assumes wf: "device_wf L d" and kdf: "password_kdf_ok L"
    and material: "authentication_key_material d kid = Ok (Auth_Symmetric keys)"
    and free: "free_session_id (expire_inactive_sessions (now E) d) = Ok sid"
    and entropy: "entropy E 0 CHALLENGE_LENGTH = Some cc"
    and begun: "begin_symmetric L sid keys HOST_CHALLENGE cc = Ok (secure, card_cryptogram, host)"
    and lens: "length cc = 8" "length card_cryptogram = 8"
    and soon: "t - now E < SESSION_INACTIVITY_TIMEOUT"
  obtains q f au d' where "new_frame Cmd_CreateSession (be16 kid @ HOST_CHALLENGE) = Ok q"
    "exchange_frame (in_process L fw) q (E # Es, d) = (Ok f, (Es, d'))"
    "expect_response f Cmd_CreateSession = Ok (sid # cc @ card_cryptogram)"
    "bt_get (dv_sessions (expire_inactive_sessions t d')) sid = Some (created_entry au secure host (now E))"
    "session_authorization d kid = Ok au" "same_contents d d'" "device_wf L d'"
proof -
  let ?d = "expire_inactive_sessions (now E) d"
  let ?q = "\<lparr>fr_command = command_code Cmd_CreateSession, fr_data = be16 kid @ HOST_CHALLENGE\<rparr>"
  let ?f = "frame_response (command_code Cmd_CreateSession) (sid # cc @ card_cryptogram)"
  have material': "authentication_key_material ?d kid = Ok (Auth_Symmetric keys)"
    using material by (simp add: authentication_key_material_def expire_inactive_sessions_def)
  obtain au d' where c: "create_session L E ?q ?d = (Ok ?f, d')"
    "dv_sessions d' = bt_insert sid (created_entry au secure host (now E)) (dv_sessions ?d)" "session_authorization ?d kid = Ok au" "same_contents ?d d'"
    by (rule create_session_step [OF material' free entropy begun])
      (simp add: HOST_CHALLENGE_def CHALLENGE_LENGTH_def)
  have q: "frame_wf ?q" "new_frame Cmd_CreateSession (be16 kid @ HOST_CHALLENGE) = Ok ?q"
    unfolding new_frame_Ok by (simp_all add: frame_wf_def frame_new_def frame_consts HOST_CHALLENGE_def)
  have h: "handle_encoded L E fw (frame_encode ?q) d = (Ok (frame_encode ?f), d')"
    by (rule handle_encoded_session [OF q(1), where c = Cmd_CreateSession]) (use c(1) in simp_all)
  have f: "frame_wf ?f" using lens by (simp add: frame_wf_def frame_response_def frame_consts)
  have r: "expect_response ?f Cmd_CreateSession = Ok (sid # cc @ card_cryptogram)"
    by (rule expect_frame_response) (simp add: RESPONSE_BIT_def ERROR_COMMAND_def)
  have "bt_wf (dv_sessions d')" using handled_wf [OF h wf kdf] by (simp add: device_wf_def sessions_wf_def)
  moreover have "bt_get (dv_sessions d') sid = Some (created_entry au secure host (now E))" unfolding c(2) by simp
  ultimately have "bt_get (dv_sessions (expire_inactive_sessions t d')) sid = Some (created_entry au secure host (now E))"
    using soon by (simp add: expire_inactive_sessions_def bt.get_retain created_entry_def)
  then show thesis using that [OF q(2) exchange_handled [OF h f] r] c(3,4) handled_wf [OF h wf kdf]
    session_authorization_same [of d ?d] by simp
qed

text \<open>The second exchange: the host's cryptogram, under the first tag of the chain.\<close>

lemma client_authenticates:
  assumes wf: "device_wf L d" and kdf: "password_kdf_ok L"
    and entry: "bt_get (dv_sessions (expire_inactive_sessions (now E) d)) sid = Some (created_entry au secure host t)"
    and secure: "ss_sid secure = sid" and lens: "length host = 8" "length tag = 16"
    and tag: "cmac L (ss_mac secure) (ss_mac_chaining_value secure @ [command_code Cmd_AuthenticateSession, 0, 17]
      @ sid # host) = Ok tag"
  obtains q f d' e where "new_frame Cmd_AuthenticateSession ((sid # host) @ take MAC_LENGTH tag) = Ok q"
    "exchange_frame (in_process L fw) q (E # Es, d) = (Ok f, (Es, d'))"
    "expect_response f Cmd_AuthenticateSession = Ok []" "device_wf L d'"
    "bt_get (dv_sessions d') sid = Some e" "se_authenticated e" "se_last_activity e = now E" "se_authorization e = au"
    "se_secure e = secure\<lparr>ss_mac_chaining_value := tag, ss_counter := increment_counter (ss_counter secure)\<rparr>"
    "same_contents d d'"
proof -
  let ?q = "\<lparr>fr_command = command_code Cmd_AuthenticateSession, fr_data = (sid # host) @ take MAC_LENGTH tag\<rparr>"
  let ?f = "frame_response (command_code Cmd_AuthenticateSession) []"
  obtain d' e where a: "authenticate_session L E ?q (expire_inactive_sessions (now E) d) = (Ok ?f, d')"
    "bt_get (dv_sessions d') sid = Some e" "se_authenticated e" "se_last_activity e = now E" "se_authorization e = au"
    "se_secure e = secure\<lparr>ss_mac_chaining_value := tag, ss_counter := increment_counter (ss_counter secure)\<rparr>"
    "same_contents (expire_inactive_sessions (now E) d) d'"
    by (rule authenticate_session_step [OF entry secure lens tag])
  have q: "frame_wf ?q" "new_frame Cmd_AuthenticateSession ((sid # host) @ take MAC_LENGTH tag) = Ok ?q"
    unfolding new_frame_Ok using lens by (simp_all add: frame_wf_def frame_new_def frame_consts MAC_LENGTH_def)
  have h: "handle_encoded L E fw (frame_encode ?q) d = (Ok (frame_encode ?f), d')"
    by (rule handle_encoded_session [OF q(1), where c = Cmd_AuthenticateSession]) (use a(1) in simp_all)
  have f: "frame_wf ?f" by (simp add: frame_wf_def frame_response_def frame_consts)
  have r: "expect_response ?f Cmd_AuthenticateSession = Ok []"
    by (rule expect_frame_response) (simp add: RESPONSE_BIT_def ERROR_COMMAND_def)
  show thesis by (rule that [OF q(2) exchange_handled [OF h f] r handled_wf [OF h wf kdf] a(2-6)]) (use a(7) in simp)
qed

lemma client_opens:
  assumes laws: "cipher_laws L" "scp03_law L" "password_kdf_ok L" and wf: "device_wf L d"
    and material: "authentication_key_material d kid = Ok (Auth_Symmetric keys)" "length keys = 32"
    and free: "free_session_id (expire_inactive_sessions (now E1) d) = Ok sid"
    and entropy: "entropy E1 0 CHALLENGE_LENGTH = Some cc" "length cc = 8"
    and soon: "now E2 - now E1 < SESSION_INACTIVITY_TIMEOUT"
  shows "\<exists>s d' e. open_symmetric L (in_process L fw) kid keys (E1 # E2 # Es, d) = (Ok s, (Es, d'))
    \<and> session_live (now E2) sid e d' \<and> in_step s (se_secure e)
    \<and> se_last_activity e = now E2 \<and> session_authorization d kid = Ok (se_authorization e)
    \<and> same_contents d d' \<and> device_wf L d'"
proof -
  let ?ctx = "HOST_CHALLENGE @ cc"
  have "length HOST_CHALLENGE = 8" by (simp add: HOST_CHALLENGE_def)
  then obtain s_enc s_mac s_rmac card_cryptogram host where
    k: "scp03_key L (take 16 keys) 0x04 ?ctx = Some s_enc" "scp03_key L (drop 16 keys) 0x06 ?ctx = Some s_mac"
      "scp03_key L (drop 16 keys) 0x07 ?ctx = Some s_rmac"
      "scp03_cryptogram L s_mac 0x00 ?ctx = Some card_cryptogram" "scp03_cryptogram L s_mac 0x01 ?ctx = Some host"
    and lens: "length s_enc = 16" "length s_mac = 16" "length s_rmac = 16" "length card_cryptogram = 8" "length host = 8"
    and begun: "begin_symmetric L sid keys HOST_CHALLENGE cc = Ok (secure_session_new sid s_enc s_mac s_rmac
      (replicate BLOCK_SIZE 0) (replicate BLOCK_SIZE 0), card_cryptogram, host)"
    using symmetric_keys_derived [OF laws(2) material(2) _ entropy(2)] by metis
  let ?ss = "secure_session_new sid s_enc s_mac s_rmac (replicate BLOCK_SIZE 0) (replicate BLOCK_SIZE 0)"
  have ss: "ss_sid ?ss = sid" "ss_mac ?ss = s_mac" "ss_mac_chaining_value ?ss = replicate BLOCK_SIZE 0"
    by (simp_all add: secure_session_new_def)
  obtain tag where tag: "cmac L s_mac (replicate BLOCK_SIZE 0 @ [command_code Cmd_AuthenticateSession, 0, 17] @ sid # host) = Ok tag"
    "length tag = 16" using cipher_laws_cmac [OF laws(1) lens(2)] by blast
  obtain q1 f1 au d1 where c: "new_frame Cmd_CreateSession (be16 kid @ HOST_CHALLENGE) = Ok q1"
    "exchange_frame (in_process L fw) q1 (E1 # E2 # Es, d) = (Ok f1, (E2 # Es, d1))"
    "expect_response f1 Cmd_CreateSession = Ok (sid # cc @ card_cryptogram)" "session_authorization d kid = Ok au"
    "same_contents d d1" and wf1: "device_wf L d1"
    and entry: "bt_get (dv_sessions (expire_inactive_sessions (now E2) d1)) sid = Some (created_entry au ?ss host (now E1))"
    by (rule client_creates [OF wf laws(3) material(1) free entropy(1) begun entropy(2) lens(4) soon])
  obtain q2 f2 d2 e where a: "new_frame Cmd_AuthenticateSession ((sid # host) @ take MAC_LENGTH tag) = Ok q2"
    "exchange_frame (in_process L fw) q2 (E2 # Es, d1) = (Ok f2, (Es, d2))"
    "expect_response f2 Cmd_AuthenticateSession = Ok []"
    and e: "device_wf L d2" "bt_get (dv_sessions d2) sid = Some e" "se_authenticated e" "se_last_activity e = now E2"
    "se_authorization e = au"
    "se_secure e = ?ss\<lparr>ss_mac_chaining_value := tag, ss_counter := increment_counter (ss_counter ?ss)\<rparr>"
    and same: "same_contents d1 d2"
    by (rule client_authenticates [OF wf1 laws(3) entry ss(1) lens(5) tag(2), where fw = fw and Es = Es]) (use tag(1) in \<open>simp_all add: ss\<close>)
  let ?s = "\<lparr>cl_sid = sid, cl_enc = s_enc, cl_mac = s_mac, cl_rmac = s_rmac,
      cl_counter = replicate 15 0 @ [1], cl_command_mac = tag\<rparr>"
  have "open_symmetric L (in_process L fw) kid keys (E1 # E2 # Es, d) = (Ok ?s, (Es, d2))"
    using k lens(4) entropy(2) tag(1) c(1-3) a by (simp add: open_symmetric_def BLOCK_SIZE_def message_cmac_def)
  moreover have "in_step ?s (se_secure e)"
    unfolding e(6) by (simp add: in_step_def secure_session_new_def first_counter)
  moreover have "session_live (now E2) sid e d2" using e lens
    by (simp add: session_live_def session_keys_wf_def secure_session_new_def SESSION_INACTIVITY_TIMEOUT_def BLOCK_SIZE_def)
  ultimately show ?thesis using e(1,4,5) c(4) same_contents_trans [OF c(5) same] by blast
qed


section \<open>A conversation\<close>

text \<open>The commands of a case, one after the other.\<close>

fun client_commands ::
  "'k lib \<Rightarrow> 't transport \<Rightarrow> Frame list \<Rightarrow> SymmetricSession \<times> 't \<Rightarrow> Frame list case_result \<times> SymmetricSession \<times> 't" where
  "client_commands L tr [] st = (Ok [], st)"
| "client_commands L tr (inner # inners) st =
     try_st (client_command L tr inner st) (\<lambda>response st.
     try_st (client_commands L tr inners st) (\<lambda>responses st. (Ok (response # responses), st)))"

text \<open>No two messages are further apart than a session survives.\<close>

fun timely :: "nat \<Rightarrow> 'k env list \<Rightarrow> bool" where
  "timely t [] = True"
| "timely t (E # Es) = (now E - t < SESSION_INACTIVITY_TIMEOUT \<and> timely (now E) Es)"

definition echo_frame :: "bytes \<Rightarrow> Frame" where
  "echo_frame data = \<lparr>fr_command = command_code Cmd_Echo, fr_data = data\<rparr>"

lemma exchange_frame_wf:
  assumes "device_wf L (snd t)" "password_kdf_ok L"
  shows "device_wf L (snd (snd (exchange_frame (in_process L fw) q t)))"
proof (cases t)
  case (Pair Es d)
  with assms handle_encoded_wf [of L d] show ?thesis
    by (cases Es) (auto simp: exchange_frame_def exchange_raw_def try_st_def try_in_def handle_encoded_def Let_def split: result.split prod.split)
qed

lemma client_command_wf:
  assumes "device_wf L (snd t)" "password_kdf_ok L"
  shows "device_wf L (snd (snd (snd (client_command L (in_process L fw) inner (s, t)))))"
  using assms exchange_frame_wf [OF assms]
  by (auto simp: client_command_def try_in_def Let_def split: result.split)

lemma client_echo:
  assumes laws: "cipher_laws L" "password_kdf_ok L" and wf: "device_wf L d"
    and live: "session_live (now E) sid e d" and step: "in_step s (se_secure e)" and len: "length data \<le> 8172"
  obtains s' d' e' where "client_command L (in_process L fw) (echo_frame data) (s, (E # Es, d))
      = (Ok (frame_response (command_code Cmd_Echo) data), (s', (Es, d')))"
    "device_wf L d'" "session_live (now E) sid e' d'" "in_step s' (se_secure e')" "se_last_activity e' = now E"
proof -
  have fits: "frame_wf (echo_frame data)" "length (fr_data (echo_frame data)) \<le> 8172"
    using len by (simp_all add: echo_frame_def frame_wf_def frame_consts)
  have limit: "limit_response (frame_response (command_code Cmd_Echo) data) = frame_response (command_code Cmd_Echo) data"
    using len by (simp add: limit_response_def secure_response_fits_def frame_response_def secure_response_data_fits_iff)
  have stays: "\<not> closes_session (echo_frame data) b f" for b f by (simp add: closes_session_def echo_byte echo_frame_def)
  let ?d = "in_message (now E) sid d"
  obtain s' tag where x: "client_command L (in_process L fw) (echo_frame data) (s, (E # Es, d))
      = (Ok (frame_response (command_code Cmd_Echo) data), (s', (Es,
          ?d\<lparr>dv_sessions := bt_insert sid (next_entry (now E) e tag (Some (se_objects e))) (dv_sessions ?d)\<rparr>)))"
    "in_step s' (se_secure (next_entry (now E) e tag (Some (se_objects e))))"
    using client_exchange [OF laws(1) wf live step fits echo_outcome [OF len, of L E fw e, folded echo_frame_def], of Es]
      stays limit by auto
  have "device_wf L (?d\<lparr>dv_sessions := bt_insert sid (next_entry (now E) e tag (Some (se_objects e))) (dv_sessions ?d)\<rparr>)"
    using client_command_wf [of L "(E # Es, d)" fw "echo_frame data" s] wf laws(2) x(1) by simp
  then show thesis using that [OF x(1)] x(2) live
    by (simp add: session_live_def next_entry_def session_keys_wf_def SESSION_INACTIVITY_TIMEOUT_def)
qed

text \<open>
  Whatever is echoed, in however many messages, the client gets it back and the two ends are in step
  afterwards.
\<close>

lemma client_echoes:
  assumes "cipher_laws L" "password_kdf_ok L" "device_wf L d"
    and "session_live t sid e d" "se_last_activity e = t" "in_step s (se_secure e)"
    and "timely t Es" "length Es = length datas" "\<forall>data\<in>set datas. length data \<le> 8172"
  shows "\<exists>s' d' e'. client_commands L (in_process L fw) (map echo_frame datas) (s, (Es @ Fs, d))
      = (Ok (map (frame_response (command_code Cmd_Echo)) datas), (s', (Fs, d')))
    \<and> device_wf L d' \<and> bt_get (dv_sessions d') sid = Some e' \<and> in_step s' (se_secure e')"
  using assms(3-)
proof (induction datas arbitrary: Es d e s t)
  case Nil
  then show ?case by (auto simp: session_live_def)
next
  case (Cons data datas)
  then obtain E Es' where Es: "Es = E # Es'" by (cases Es) auto
  have live: "session_live (now E) sid e d" using Cons.prems Es by (simp add: session_live_def)
  have "length data \<le> 8172" using Cons.prems by simp
  then obtain s1 d1 e1 where x: "client_command L (in_process L fw) (echo_frame data) (s, (E # (Es' @ Fs), d))
      = (Ok (frame_response (command_code Cmd_Echo) data), (s1, (Es' @ Fs, d1)))"
    "device_wf L d1" "session_live (now E) sid e1 d1" "in_step s1 (se_secure e1)" "se_last_activity e1 = now E"
    by (rule client_echo [OF assms(1,2) Cons.prems(1) live Cons.prems(4)])
  have rest: "timely (now E) Es'" "length Es' = length datas" "\<forall>data\<in>set datas. length data \<le> 8172"
    using Cons.prems Es by auto
  from Cons.IH [OF x(2,3,5,4) rest] x(1) show ?case unfolding Es by (auto simp del: command_code.simps)
qed

text \<open>
  From keys to answers: with the keys of an authentication key the client opens a session on a device
  that has a free slot and gets an answer to every message it sends in time.
\<close>

lemma client_converses:
  assumes laws: "cipher_laws L" "scp03_law L" "password_kdf_ok L" and wf: "device_wf L d"
    and material: "authentication_key_material d kid = Ok (Auth_Symmetric keys)" "length keys = 32"
    and free: "free_session_id (expire_inactive_sessions (now E1) d) = Ok sid"
    and entropy: "entropy E1 0 CHALLENGE_LENGTH = Some cc" "length cc = 8"
    and times: "timely (now E1) (E2 # Es)" "length Es = length datas" "\<forall>data\<in>set datas. length data \<le> 8172"
  shows "\<exists>s s' d1 d2 e. open_symmetric L (in_process L fw) kid keys (E1 # E2 # Es, d) = (Ok s, (Es, d1))
    \<and> client_commands L (in_process L fw) (map echo_frame datas) (s, (Es, d1))
      = (Ok (map (frame_response (command_code Cmd_Echo)) datas), (s', ([], d2)))
    \<and> bt_get (dv_sessions d2) sid = Some e \<and> in_step s' (se_secure e)"
proof -
  have soon: "now E2 - now E1 < SESSION_INACTIVITY_TIMEOUT" "timely (now E2) Es" using times(1) by simp_all
  obtain s d1 e where opened: "open_symmetric L (in_process L fw) kid keys (E1 # E2 # Es, d) = (Ok s, (Es, d1))"
    and e: "session_live (now E2) sid e d1" "in_step s (se_secure e)" "se_last_activity e = now E2" "device_wf L d1"
    using client_opens [OF laws wf material free entropy soon(1)] by blast
  from client_echoes [OF laws(1,3) e(4,1,3,2) soon(2) times(2,3), of fw "[]"] opened show ?thesis by auto
qed

end
