(* ===== verification/Sample_Host.thy ===== *)
theory Sample_Host
  imports Sample_Laws Usb_Worker I2c_Target Client_Session
begin

text \<open>
  Concrete runs of the programs around the device: a USB worker that is configured, serves one
  generation and is quiesced, an endpoint that answers one request, an I2C target that answers a
  command and a recovery request, and a host that opens a session on the sample device.
\<close>

section \<open>The worker\<close>

text \<open>A socket that takes every packet whole, and the packet of a record with its descriptors.\<close>

definition sample_send :: libc_send where
  "sample_send packet = Inr (length packet)"

definition sample_message :: "Record \<Rightarrow> recvmsg" where
  "sample_message r = Recv_Data (record_packet (length (rec_files r)) r) False
     [\<lparr>cmsg_level = SOL_SOCKET, cmsg_type = SCM_RIGHTS, cmsg_len = CMSG_BASE + 4 * length (rec_files r),
       cmsg_data = rec_files r\<rparr>]"

lemma sample_receive:
  "length (rec_body r) \<le> MAX_BODY_LENGTH \<Longrightarrow> length (rec_files r) \<le> MAX_DESCRIPTORS \<Longrightarrow>
     receive (sample_message r) = Ok r"
  unfolding receive_exact by (simp add: delivers_def sample_message_def)

definition sample_resources :: Record where
  "sample_resources =
     \<lparr>rec_kind = InitialResources, rec_generation = 0, rec_request_id = 0,
      rec_body = name_table [str_bytes ''display-spi'', str_bytes ''display-control'', str_bytes ''reconnect-button''],
      rec_files = [4, 5, 6]\<rparr>"

definition sample_endpoints :: Record where
  "sample_endpoints =
     \<lparr>rec_kind = UsbEndpoints, rec_generation = 1, rec_request_id = 1,
      rec_body = [0, 2, 0x01, 2, 0, 64, 0x81, 2, 0, 64], rec_files = [7, 8]\<rparr>"

definition sample_turn :: "Record \<Rightarrow> bytes control_turn" where
  "sample_turn r =
     \<lparr>ct_run = (\<lambda>d. d), ct_poll = Inr 1, ct_stop = False, ct_control_events = POLLIN,
      ct_received = sample_message r, ct_decode = (\<lambda>_. invalid), ct_button_events = 0, ct_datagrams = [],
      ct_buttons = \<lparr>rs_pressed = False, rs_queue = []\<rparr>, ct_send = sample_send, ct_display = Ok (), ct_lock = Ok ()\<rparr>"

definition sample_generation :: "bytes generation" where
  "sample_generation =
     \<lparr>gn_received = sample_message sample_endpoints, gn_nonblocking = (\<lambda>_. Ok ()), gn_start = Ok (),
      gn_serving = sample_send,
      gn_turns = [sample_turn (record_new UsbControlRequest 1 9 []), sample_turn (record_new Quiesce 1 0 [])],
      gn_shutdown = Ok (), gn_flush = Ok (), gn_quiesced = sample_send, gn_reinsert = []\<rparr>"

definition sample_startup :: "(bytes, unit) startup" where
  "sample_startup =
     \<lparr>su_euid = 1000, su_received = sample_message sample_resources,
      su_state_directory = Some (str_bytes ''/state''), su_open = (\<lambda>_ _. Ok sample_device),
      su_library = \<lparr>usb_personality_new = (\<lambda>_ _ _. ()), usb_with_string = (\<lambda>_ _ _ p. p),
                    usb_with_microsoft_os_1 = (\<lambda>_ _ p. p)\<rparr>,
      su_to_cbor = (\<lambda>_. Ok [1]), su_display_start = Ok (), su_buttons_start = Ok False, su_send = sample_send,
      su_display = Ok (), su_reinsert = [], su_persistence_shutdown = Ok (), su_buttons_shutdown = Ok (),
      su_display_shutdown = Ok ()\<rparr>"

lemma sample_prepared: "prepare_worker 42 sample_startup = Ok (sample_device, [1], False)"
proof -
  let ?names = "[str_bytes ''display-spi'', str_bytes ''display-control'', str_bytes ''reconnect-button'']"
  have "length (name_table ?names) \<le> MAX_BODY_LENGTH"
    by (simp add: name_table_def name_entry_def str_bytes_def MAX_BODY_LENGTH_def)
  then have r: "receive (su_received sample_startup) = Ok sample_resources"
    by (simp add: sample_startup_def, subst sample_receive) (simp_all add: sample_resources_def MAX_DESCRIPTORS_def)
  have "list_all utf8_valid ?names" by code_simp
  then have "list_all name_ok ?names" by (simp add: name_ok_def str_bytes_def)
  then have v: "validate_initial_resources sample_resources = Ok (zip ?names [4, 5, 6])"
    unfolding validate_initial_resources_exact by (simp add: sample_resources_def)
  have p: "resources_parse (zip ?names [4, 5, 6])
      = Ok \<lparr>rc_display_bus = 4, rc_display_control = 5, rc_reconnect_button = 6\<rparr>" by code_simp
  have path: "required_path (su_state_directory sample_startup) = Ok (str_bytes ''/state'')"
    by (simp add: sample_startup_def required_path_def str_bytes_def)
  have "\<exists>x. personality (su_library sample_startup) 42 = Ok x" by (rule personality_total)
  with r v p path show ?thesis
    by (simp add: prepare_worker_def) (auto simp: sample_startup_def)
qed

definition sample_worker :: "bytes worker" where
  "sample_worker =
     \<lparr>wk_device = sample_device, wk_configure_request = 1,
      wk_sent = [record_new Configure 0 1 [1], record_new Serving 1 1 [], record_new UsbControlResponse 1 9 [0],
                 record_new Quiesced 1 0 []],
      wk_display = [Dc_PersonalityPresent, Dc_Unbind], wk_lifecycle = [Lc_Stop, Lc_Stop]\<rparr>"

lemma sample_transmit:
  "length (rec_body r) \<le> MAX_BODY_LENGTH \<Longrightarrow> rec_files r = [] \<Longrightarrow>
     transmit sample_send r w = (Ok (), w\<lparr>wk_sent := wk_sent w @ [r]\<rparr>)"
  by (simp add: transmit_def send_def sample_send_def Let_def)

lemma sample_new:
  "rec_files (record_new k g n body) = []" "rec_body (record_new k g n body) = body"
  by (simp_all add: record_new_def)

lemma sample_calls:
  "gn_serving sample_generation = sample_send" "gn_quiesced sample_generation = sample_send"
  "gn_shutdown sample_generation = Ok ()" "gn_flush sample_generation = Ok ()"
  by (simp_all add: sample_generation_def)

lemma sample_endpoints_placed:
  "endpoints_from_record (\<lambda>_. Ok ()) sample_endpoints = Ok \<lparr>ep_output = 7, ep_input = 8\<rparr>"
  by code_simp

lemma sample_control:
  "serve_control 1 (gn_turns sample_generation) w
   = (Ok (Some (Outcome_Quiesce 0 False)),
      w\<lparr>wk_sent := wk_sent w @ [record_new UsbControlResponse 1 9 [0]],
        wk_display := wk_display w @ [Dc_Unbind], wk_lifecycle := wk_lifecycle w @ [Lc_Stop]\<rparr>)"
  by (simp add: serve_control_def sample_generation_def control_turn_def control_input_def control_record_def button_input_def sample_turn_def sample_receive
      sample_transmit show_status_def record_new_def POLLIN_def MAX_BODY_LENGTH_def Let_def)

lemma sample_worker_run: "run_worker 42 sample_startup [sample_generation] = (Ok (Some ()), Some sample_worker)"
proof -
  let ?w1 = "(worker_start sample_device)\<lparr>wk_sent := [record_new Configure 0 1 [1]], wk_display := [Dc_PersonalityPresent]\<rparr>"
  have first: "first_personality sample_startup False [1] (worker_start sample_device) = (Ok (Some True), ?w1)"
    by (simp add: first_personality_def publish_personality_def sample_startup_def sample_transmit show_status_def
        worker_start_def record_new_def MAX_BODY_LENGTH_def)
  have r: "receive (gn_received sample_generation) = Ok sample_endpoints"
    by (simp add: sample_generation_def, subst sample_receive)
      (simp_all add: sample_endpoints_def MAX_DESCRIPTORS_def MAX_BODY_LENGTH_def)
  have "worker_generation [1] sample_generation ?w1 = serve_generation [1] sample_generation 1 ?w1"
    using sample_endpoints_placed by (simp add: worker_generation_def r)
      (simp add: sample_generation_def sample_endpoints_def worker_start_def)
  also have "\<dots> = (Ok (Some Finished), sample_worker)"
    by (simp add: serve_generation_def finish_generation_def sample_calls sample_control
        sample_transmit sample_new worker_start_def sample_worker_def Let_def)
  finally show ?thesis
    using first by (simp add: run_worker_def sample_prepared worker_serve_def Let_def) (simp add: sample_startup_def)
qed

section \<open>The endpoint\<close>

definition sample_healthy :: "bytes writer" where
  "sample_healthy = \<lparr>wr_healthy = True, wr_record = (\<lambda>_. None), wr_wait = (\<lambda>_. False), wr_healthy_after = True\<rparr>"

definition sample_read :: "bytes + nat \<Rightarrow> bytes endpoint_turn" where
  "sample_read r = \<lparr>et_stop = False, et_read = r, et_env = sample_env 2, et_writer = sample_healthy, et_channel = True\<rparr>"

text \<open>One request, then the host disables the endpoint.\<close>

definition sample_activation :: "bytes endpoint_turn list" where
  "sample_activation = [sample_read (Inl (frame_encode sample_echo)), sample_read (Inr 108)]"

definition sample_answer :: bytes where
  "sample_answer = frame_encode (frame_response (command_code Cmd_Echo) [7])"

lemma sample_answer_length: "length sample_answer = 4" by code_simp

lemma sample_request: "frame_encode sample_echo \<noteq> []" by code_simp

lemma sample_unobserved: "observed sample_lib (sample_env 2) sample_fw (frame_encode sample_echo) sample_device = None"
proof -
  have "frame_parse (frame_encode sample_echo) = Ok sample_echo"
    by (rule frame_parse_encode) (simp add: sample_echo_def frame_wf_def frame_consts)
  moreover have "command_from_byte (fr_command sample_echo) = Some Cmd_Echo"
    unfolding sample_echo_def Frame.select_convs by (rule command_from_code)
  ultimately show ?thesis by (simp add: observed_def)
qed

lemma sample_endpoint_run:
  "serve_endpoint sample_lib sample_fw [sample_activation] \<lparr>es_device = sample_device, es_responses = [], es_identify = []\<rparr>
   = (Ok (Some ()), \<lparr>es_device = expire_inactive_sessions 2 sample_device, es_responses = [sample_answer], es_identify = []\<rparr>)"
  using sample_echo_persistent sample_unobserved sample_request
  by (simp add: sample_activation_def sample_read_def endpoint_turn_def serve_request_def identify_def
      endpoint_is_unavailable_def sample_healthy_def sample_answer_def os_error_kind_def)

lemma sample_endpoint_write: "serve_responses [Inl 4] [sample_answer] = Some (Ok [sample_answer], [])"
  by (simp add: write_response_def then_write_def sample_answer_length MAX_PACKET_SIZE_def)

section \<open>The I2C target\<close>

definition sample_i2c :: "bytes \<Rightarrow> nat \<Rightarrow> bytes i2c_turn" where
  "sample_i2c request n = \<lparr>it_stop = False, it_read = Inl request, it_poll = Inr 0, it_recover = None,
     it_env = sample_env 2, it_writer = sample_healthy, it_writes = [Inl n]\<rparr>"

definition sample_recovery :: bytes where
  "sample_recovery = PREFIX @ [1, 2, 3, 4]"

lemma sample_recovers: "recovery_response sample_recovery = Some (sample_recovery[0 := 0x80])"
  by code_simp

lemma sample_i2c_run:
  "i2c_serve sample_lib sample_fw [sample_i2c (frame_encode sample_echo) 4, sample_i2c sample_recovery 16]
     \<lparr>is_device = sample_device, is_replies = []\<rparr>
   = (Ok I2c_Waiting, \<lparr>is_device = expire_inactive_sessions 2 sample_device,
        is_replies = [sample_answer, sample_recovery[0 := 0x80]]\<rparr>)"
proof -
  have "recovery_response (frame_encode sample_echo) = None" by code_simp
  moreover have "sample_recovery \<noteq> []" "length sample_recovery = 16" by code_simp+
  ultimately show ?thesis
    using sample_echo_persistent sample_request sample_recovers
    by (simp add: i2c_turn_def reply_def sample_i2c_def sample_healthy_def sample_answer_length [unfolded sample_answer_def, simplified])
      (simp add: sample_answer_def)
qed

section \<open>The client\<close>

lemma sample_scp03: "scp03_law sample_lib"
  by (simp add: scp03_law_def sample_lib_def)

lemma sample_material: "authentication_key_material sample_device 1 = Ok (Auth_Symmetric (replicate 32 1))"
  by (simp add: authentication_key_material_def sample_objects bt_get_def factory_record_def)
    (simp add: sample_lib_def)

lemma sample_free: "free_session_id (expire_inactive_sessions t sample_device) = Ok 0"
proof -
  have "dv_sessions (expire_inactive_sessions t sample_device) = bt_empty"
    by (simp add: expire_inactive_sessions_def sample_device_def install_factory_authentication_key_def Let_def
        bt_retain_def bt_empty_def)
  then show ?thesis by (simp add: free_session_id_def MAX_SESSIONS_def upt_rec)
qed

end
