(* ===== verification/Client_Requests.thy ===== *)
theory Client_Requests
  imports Client_Session Request_Codecs Host_Io
begin

text \<open>
  The requests the qualification tool builds and the answers it takes apart
  (\<^verbatim>\<open>yubihsm-qualification/src/lib.rs\<close>, from \<^verbatim>\<open>list_objects\<close> on). The tool writes every layout by hand;
  the lemmas show that the decoders of the device read back exactly the fields that were meant.
\<close>

section \<open>Building requests\<close>

text \<open>\<^verbatim>\<open>Vec::resize\<close> with zeros, and the fields all creation requests start with.\<close>

definition resize :: "nat \<Rightarrow> bytes \<Rightarrow> bytes" where
  "resize n bs = take n bs @ replicate (n - length bs) 0"

definition creation_header :: "u16 \<Rightarrow> bytes \<Rightarrow> u16 \<Rightarrow> CapabilitySet \<Rightarrow> u8 \<Rightarrow> bytes" where
  "creation_header id_value label domain_bits capabilities algorithm =
     resize 42 (be16 id_value @ label) @ be16 domain_bits @ capabilities @ [algorithm]"

definition build_put_opaque :: "u16 \<Rightarrow> u16 \<Rightarrow> CapabilitySet \<Rightarrow> bytes \<Rightarrow> bytes \<Rightarrow> Frame case_result" where
  "build_put_opaque i domain_bits capabilities label payload =
     new_frame Cmd_PutOpaque
       (creation_header i label domain_bits capabilities (algorithm_code Alg_OpaqueData) @ payload)"

text \<open>\<^verbatim>\<open>put_secret_key\<close>, for HMAC and symmetric keys; the assertion on the command is a debug check.\<close>

definition build_put_secret_key ::
  "CommandCode \<Rightarrow> u16 \<Rightarrow> CapabilitySet \<Rightarrow> Algorithm \<Rightarrow> bytes \<Rightarrow> bytes \<Rightarrow> Frame case_result" where
  "build_put_secret_key command i capabilities algorithm key label =
     (if command \<notin> {Cmd_PutHmacKey, Cmd_PutSymmetricKey} then Panic
      else new_frame command (creation_header i label 1 capabilities (algorithm_code algorithm) @ key))"

definition build_generate_asymmetric_key ::
  "u16 \<Rightarrow> CapabilitySet \<Rightarrow> Algorithm \<Rightarrow> bytes \<Rightarrow> Frame case_result" where
  "build_generate_asymmetric_key i capabilities algorithm label =
     new_frame Cmd_GenerateAsymmetricKey (creation_header i label 1 capabilities (algorithm_code algorithm))"

definition build_put_wrap_key ::
  "u16 \<Rightarrow> Algorithm \<Rightarrow> CapabilitySet \<Rightarrow> CapabilitySet \<Rightarrow> bytes \<Rightarrow> Frame case_result" where
  "build_put_wrap_key i algorithm capabilities delegated key =
     new_frame Cmd_PutWrapKey
       (creation_header i (str_bytes ''qualification wrap'') 1 capabilities (algorithm_code algorithm) @ delegated @ key)"

definition build_generate_wrap_key ::
  "u16 \<Rightarrow> Algorithm \<Rightarrow> CapabilitySet \<Rightarrow> CapabilitySet \<Rightarrow> bytes \<Rightarrow> Frame case_result" where
  "build_generate_wrap_key i algorithm capabilities delegated label =
     new_frame Cmd_GenerateWrapKey
       (creation_header i label 1 capabilities (algorithm_code algorithm) @ delegated)"

definition build_put_public_wrap_key ::
  "u16 \<Rightarrow> Algorithm \<Rightarrow> CapabilitySet \<Rightarrow> CapabilitySet \<Rightarrow> bytes \<Rightarrow> Frame case_result" where
  "build_put_public_wrap_key i algorithm capabilities delegated modulus =
     new_frame Cmd_PutPublicWrapKey
       (creation_header i (str_bytes ''qualification public wrap'') 1 capabilities (algorithm_code algorithm)
        @ delegated @ modulus)"

text \<open>The nonce of an OTP key is little endian (\<^verbatim>\<open>to_le_bytes\<close>).\<close>

definition build_put_otp_aead_key :: "u16 \<Rightarrow> CapabilitySet \<Rightarrow> u32 \<Rightarrow> bytes \<Rightarrow> Frame case_result" where
  "build_put_otp_aead_key i capabilities nonce_id key =
     new_frame Cmd_PutOtpAeadKey
       (creation_header i (str_bytes ''qualification otp'') 1 capabilities (algorithm_code Alg_Aes128YubicoOtp)
        @ rev (be32 nonce_id) @ key)"

definition build_put_named_authentication_key ::
  "u16 \<Rightarrow> bytes \<Rightarrow> u16 \<Rightarrow> CapabilitySet \<Rightarrow> CapabilitySet \<Rightarrow> bytes \<Rightarrow> Frame case_result" where
  "build_put_named_authentication_key i label domain_bits capabilities delegated static_keys =
     new_frame Cmd_PutAuthenticationKey
       (creation_header i label domain_bits capabilities AUTHENTICATION_ALGORITHM_AES128_YUBICO
        @ delegated @ static_keys)"

definition build_put_authentication_key ::
  "u16 \<Rightarrow> u16 \<Rightarrow> CapabilitySet \<Rightarrow> CapabilitySet \<Rightarrow> bytes \<Rightarrow> Frame case_result" where
  "build_put_authentication_key i domain_bits capabilities delegated static_keys =
     build_put_named_authentication_key i (str_bytes ''qualification auth'') domain_bits capabilities delegated static_keys"

definition build_put_asymmetric_authentication_key ::
  "u16 \<Rightarrow> u16 \<Rightarrow> CapabilitySet \<Rightarrow> CapabilitySet \<Rightarrow> bytes \<Rightarrow> Frame case_result" where
  "build_put_asymmetric_authentication_key i domain_bits capabilities delegated public_key =
     new_frame Cmd_PutAuthenticationKey
       (creation_header i (str_bytes ''qualification asymmetric auth'') domain_bits capabilities
          (algorithm_code Alg_EcP256YubicoAuthentication)
        @ delegated @ public_key)"

definition object_key_bytes :: "u16 \<Rightarrow> ObjectType \<Rightarrow> bytes" where
  "object_key_bytes i object_type = be16 i @ [object_type_code object_type]"

section \<open>Commands with their answers\<close>

text \<open>A command whose answer is the data of its response.\<close>

definition client_query ::
  "'k lib \<Rightarrow> 't transport \<Rightarrow> CommandCode \<Rightarrow> bytes \<Rightarrow> SymmetricSession \<times> 't \<Rightarrow>
     bytes case_result \<times> SymmetricSession \<times> 't" where
  "client_query L tr command data st =
     try_in (new_frame command data) st (\<lambda>request.
     try_st (client_command L tr request st) (\<lambda>response st.
     (expect_response response command, st)))"

fun listed_entries :: "bytes \<Rightarrow> (u16 \<times> ObjectType) list case_result" where
  "listed_entries (high # low # kind # sequence # rest) =
     and_then (ok_or (object_type_from_byte kind) ()) (\<lambda>object_type.
     and_then (listed_entries rest) (\<lambda>entries. Ok ((from_be [high, low], object_type) # entries)))"
| "listed_entries rest = Ok []"

definition client_list_objects ::
  "'k lib \<Rightarrow> 't transport \<Rightarrow> SymmetricSession \<times> 't \<Rightarrow> (u16 \<times> ObjectType) set case_result \<times> SymmetricSession \<times> 't" where
  "client_list_objects L tr st =
     try_st (client_query L tr Cmd_ListObjects [] st) (\<lambda>data st.
     try_in (ensure (length data mod 4 = 0)) st (\<lambda>_.
     try_in (listed_entries data) st (\<lambda>entries. (Ok (set entries), st))))"

definition unused_id :: "(u16 \<times> ObjectType) set \<Rightarrow> ObjectType \<Rightarrow> u16 \<Rightarrow> u16 case_result" where
  "unused_id objects object_type start =
     ok_or (List.find (\<lambda>i. (i, object_type) \<notin> objects) (map of_nat [unat start..<65535])) ()"

definition client_get_public_key ::
  "'k lib \<Rightarrow> 't transport \<Rightarrow> u16 \<Rightarrow> ObjectType \<Rightarrow> SymmetricSession \<times> 't \<Rightarrow> bytes case_result \<times> SymmetricSession \<times> 't" where
  "client_get_public_key L tr i object_type st =
     client_query L tr Cmd_GetPublicKey
       (be16 i @ (if object_type \<noteq> Ty_AsymmetricKey then [object_type_code object_type] else [])) st"

definition client_derive_ecdh ::
  "'k lib \<Rightarrow> 't transport \<Rightarrow> u16 \<Rightarrow> bytes \<Rightarrow> SymmetricSession \<times> 't \<Rightarrow> bytes case_result \<times> SymmetricSession \<times> 't" where
  "client_derive_ecdh L tr i peer_public_without_marker st =
     client_query L tr Cmd_DeriveEcdh (be16 i @ [0x04] @ peer_public_without_marker) st"

definition client_derive_montgomery ::
  "'k lib \<Rightarrow> 't transport \<Rightarrow> u16 \<Rightarrow> bytes \<Rightarrow> SymmetricSession \<times> 't \<Rightarrow> bytes case_result \<times> SymmetricSession \<times> 't" where
  "client_derive_montgomery L tr i peer_public st = client_query L tr Cmd_DeriveEcdh (be16 i @ peer_public) st"

definition client_delete_object ::
  "'k lib \<Rightarrow> 't transport \<Rightarrow> u16 \<Rightarrow> ObjectType \<Rightarrow> SymmetricSession \<times> 't \<Rightarrow> unit case_result \<times> SymmetricSession \<times> 't" where
  "client_delete_object L tr i object_type st =
     try_st (client_query L tr Cmd_DeleteObject (object_key_bytes i object_type) st) (\<lambda>_ st. (Ok (), st))"

section \<open>The device reads what was written\<close>

lemma resize_id: "resize 42 (be16 i @ label) = be16 i @ resize 40 label"
  by (simp add: resize_def)

lemma length_resize [simp]: "length (resize n bs) = n"
  by (simp add: resize_def)

definition header_fields :: "u16 \<Rightarrow> bytes \<Rightarrow> u16 \<Rightarrow> CapabilitySet \<Rightarrow> u8 \<Rightarrow> ObjectHeader" where
  "header_fields i label domain_bits capabilities algorithm =
     \<lparr>oh_requested_id = i, oh_label = resize 40 label, oh_domains = domain_bits, oh_capabilities = capabilities,
      oh_algorithm = algorithm\<rparr>"

lemma creation_header_encodes:
  "creation_header i label domain_bits capabilities algorithm
     = encode_object_header (header_fields i label domain_bits capabilities algorithm)"
  by (simp add: creation_header_def encode_object_header_def header_fields_def resize_id)

lemma header_fields_valid: "header_valid (header_fields i label d c a) \<longleftrightarrow> length c = 8"
  by (simp add: header_valid_def header_fields_def)

lemma creation_request_read:
  assumes "length capabilities = 8"
  shows "decode_request decode_object_request (creation_header i label d capabilities a @ material) = Ok
      \<lparr>oq_header = header_fields i label d capabilities a, oq_material = material\<rparr>"
    and "length delegated = 8 \<Longrightarrow>
      decode_request decode_delegated_object (creation_header i label d capabilities a @ delegated @ material) = Ok
      \<lparr>dq_header = header_fields i label d capabilities a, dq_delegated_capabilities = delegated, dq_material = material\<rparr>"
    and "length nonce = 4 \<Longrightarrow>
      decode_request decode_otp_aead_key (creation_header i label d capabilities a @ nonce @ material) = Ok
      \<lparr>ok_header = header_fields i label d capabilities a, ok_nonce_id = nonce, ok_material = material\<rparr>"
  unfolding object_request.decode_iff delegated_request.decode_iff otp_request.decode_iff
  using assms by (simp_all add: creation_header_encodes header_fields_valid)

lemma new_frame_data: "new_frame c data = Ok f \<Longrightarrow> fr_command f = command_code c \<and> fr_data f = data \<and> frame_wf f"
  unfolding new_frame_Ok by (auto simp: frame_new_def frame_wf_def split: if_splits)

text \<open>
  Every creation request of the tool, as the device decodes it: the padded label, the domains, the
  capabilities and the algorithm that were asked for, then the delegated capabilities or the nonce, then
  the key.
\<close>

lemma object_requests_read:
  assumes "length capabilities = 8"
  shows "build_put_opaque i d capabilities label payload = Ok f \<Longrightarrow> decode_request decode_object_request (fr_data f)
      = Ok \<lparr>oq_header = header_fields i label d capabilities (algorithm_code Alg_OpaqueData), oq_material = payload\<rparr>"
    and "build_put_secret_key c i capabilities a key label = Ok f \<Longrightarrow> decode_request decode_object_request (fr_data f)
      = Ok \<lparr>oq_header = header_fields i label 1 capabilities (algorithm_code a), oq_material = key\<rparr>"
    and "build_generate_asymmetric_key i capabilities a label = Ok f \<Longrightarrow> decode_request decode_object_request (fr_data f)
      = Ok \<lparr>oq_header = header_fields i label 1 capabilities (algorithm_code a), oq_material = []\<rparr>"
  using creation_request_read(1) [OF assms] creation_request_read(1) [OF assms, of _ _ _ _ "[]"]
  by (auto simp: build_put_opaque_def build_put_secret_key_def build_generate_asymmetric_key_def
      dest!: new_frame_data split: if_splits simp del: decode_request_Ok)

lemma delegated_requests_read:
  assumes "length capabilities = 8" "length delegated = 8"
  shows "build_put_wrap_key i a capabilities delegated key = Ok f \<Longrightarrow> decode_request decode_delegated_object (fr_data f)
      = Ok \<lparr>dq_header = header_fields i (str_bytes ''qualification wrap'') 1 capabilities (algorithm_code a),
            dq_delegated_capabilities = delegated, dq_material = key\<rparr>"
    and "build_generate_wrap_key i a capabilities delegated label = Ok f \<Longrightarrow> decode_request decode_delegated_object (fr_data f)
      = Ok \<lparr>dq_header = header_fields i label 1 capabilities (algorithm_code a),
            dq_delegated_capabilities = delegated, dq_material = []\<rparr>"
    and "build_put_public_wrap_key i a capabilities delegated modulus = Ok f \<Longrightarrow> decode_request decode_delegated_object (fr_data f)
      = Ok \<lparr>dq_header = header_fields i (str_bytes ''qualification public wrap'') 1 capabilities (algorithm_code a),
            dq_delegated_capabilities = delegated, dq_material = modulus\<rparr>"
    and "build_put_named_authentication_key i label d capabilities delegated keys = Ok f \<Longrightarrow>
      decode_request decode_delegated_object (fr_data f)
      = Ok \<lparr>dq_header = header_fields i label d capabilities AUTHENTICATION_ALGORITHM_AES128_YUBICO,
            dq_delegated_capabilities = delegated, dq_material = keys\<rparr>"
    and "build_put_asymmetric_authentication_key i d capabilities delegated public_key = Ok f \<Longrightarrow>
      decode_request decode_delegated_object (fr_data f)
      = Ok \<lparr>dq_header = header_fields i (str_bytes ''qualification asymmetric auth'') d capabilities
              (algorithm_code Alg_EcP256YubicoAuthentication),
            dq_delegated_capabilities = delegated, dq_material = public_key\<rparr>"
  using creation_request_read(2) [OF assms] creation_request_read(2) [OF assms, of _ _ _ _ "[]"]
  by (auto simp: build_put_wrap_key_def build_generate_wrap_key_def build_put_public_wrap_key_def
      build_put_named_authentication_key_def build_put_asymmetric_authentication_key_def
      dest!: new_frame_data simp del: decode_request_Ok)

lemma otp_request_read:
  assumes "length capabilities = 8" "build_put_otp_aead_key i capabilities nonce key = Ok f"
  shows "decode_request decode_otp_aead_key (fr_data f)
    = Ok \<lparr>ok_header = header_fields i (str_bytes ''qualification otp'') 1 capabilities (algorithm_code Alg_Aes128YubicoOtp),
          ok_nonce_id = rev (be32 nonce), ok_material = key\<rparr>"
  using assms(2) creation_request_read(3) [OF assms(1)]
  by (auto simp: build_put_otp_aead_key_def dest!: new_frame_data simp del: decode_request_Ok)

lemma object_key_read: "decode_request decode_object_key (object_key_bytes i t) = Ok (ObjectKey t i)"
  by (simp add: object_key_bytes_def object_key.prefix_iff)

section \<open>The tool reads what the device answers\<close>

lemma listed_entries_read:
  "listed_entries (concat (map list_entry infos)) = Ok (map (\<lambda>i. (oi_id i, oi_object_type i)) infos)"
proof (induction infos)
  case (Cons i infos)
  obtain h l where b: "be16 (oi_id i) = [h, l]" by (cases "be16 (oi_id i)" rule: list.exhaust) (auto simp: be16_def numeral_2_eq_2)
  then have "from_be [h, l] = oi_id i" by (metis from_be16)
  with b Cons show ?case by (simp add: list_entry_def)
qed simp

lemma listed_entries_length: "length (concat (map list_entry infos)) = 4 * length infos"
  by (induction infos) (simp_all add: list_entry_def)

text \<open>The identifier the tool picks is the first one from the start on that is not listed.\<close>

lemma word_range:
  "set (map of_nat [unat a..<unat b]) = {i :: 'a :: len word. a \<le> i \<and> i < b}" (is "?l = ?r")
proof
  show "?l \<subseteq> ?r"
  proof
    fix i assume "i \<in> ?l"
    then obtain n where n: "unat a \<le> n" "n < unat b" "i = of_nat n" by auto
    then have "n < 2 ^ LENGTH('a)" using unsigned_less [of b] by (meson less_trans)
    with n show "i \<in> ?r" by (simp add: word_le_nat_alt word_less_nat_alt unat_of_nat)
  qed
  show "?r \<subseteq> ?l"
  proof
    fix i assume "i \<in> ?r"
    then have "unat i \<in> set [unat a..<unat b]" by (simp add: word_le_nat_alt word_less_nat_alt)
    moreover have "i = of_nat (unat i)" by simp
    ultimately show "i \<in> ?l" unfolding list.set_map by blast
  qed
qed

lemma unused_id_range: "map of_nat [unat start..<65535] = (map of_nat [unat start..<unat (- 1 :: u16)] :: u16 list)"
  by (simp add: unsigned_minus_1_eq_mask mask_eq_exp_minus_1)

lemma find_SomeD: "List.find P xs = Some x \<Longrightarrow> P x \<and> x \<in> set xs"
  by (induction xs) (auto split: if_splits)

lemma unused_id_fresh:
  assumes "unused_id objects t start = Ok i"
  shows "(i, t) \<notin> objects" "start \<le> i" "i < - 1"
proof -
  from assms have "(i, t) \<notin> objects \<and> i \<in> set (map of_nat [unat start..<unat (- 1 :: u16)])"
    unfolding unused_id_def unused_id_range by (auto simp: ok_or_def dest: find_SomeD split: option.splits)
  then show "(i, t) \<notin> objects" "start \<le> i" "i < - 1" unfolding word_range by auto
qed

lemma unused_id_full: "unused_id objects t start = Err () \<longleftrightarrow> (\<forall>i. start \<le> i \<and> i < - 1 \<longrightarrow> (i, t) \<in> objects)"
proof -
  have "unused_id objects t start = Err ()
    \<longleftrightarrow> \<not> (\<exists>i. i \<in> set (map of_nat [unat start..<unat (- 1 :: u16)]) \<and> (i, t) \<notin> objects)"
    unfolding unused_id_def unused_id_range find_None_iff [symmetric] by (simp add: ok_or_def split: option.split)
  then show ?thesis unfolding word_range by auto
qed

end
