(* ===== verification/Qualification.thy ===== *)
theory Qualification
  imports Client_Requests
begin

text \<open>
  The qualification tool (\<^verbatim>\<open>yubihsm-qualification/src/lib.rs\<close>): its cases and what they report. A case
  fails with its name; the names of the cases that passed are collected. The cases of the smoke profile
  are the first ones of every profile.
\<close>

section \<open>Cases\<close>

type_synonym 't run_state = "string list \<times> 't"
type_synonym 'a qualification = "('a, string) result"

definition run_case_value ::
  "string \<Rightarrow> ('t \<Rightarrow> 'a case_result \<times> 't) \<Rightarrow> 't run_state \<Rightarrow> 'a qualification \<times> 't run_state" where
  "run_case_value name body st =
     (let m = body (snd st) in
      try_in (map_err (\<lambda>_. name) (fst m)) (fst st, snd m) (\<lambda>v. (Ok v, (fst st @ [name], snd m))))"

definition run_case ::
  "string \<Rightarrow> ('t \<Rightarrow> unit case_result \<times> 't) \<Rightarrow> 't run_state \<Rightarrow> unit qualification \<times> 't run_state" where
  "run_case name body st = run_case_value name body st"

record DeviceIdentity =
  id_version :: bytes
  id_serial :: u32
  id_log_capacity :: u8
  id_log_used :: u8
  id_algorithms :: bytes

section \<open>The smoke profile\<close>

text \<open>\<^verbatim>\<open>Frame::new\<close> with a raw command byte.\<close>

definition raw_frame :: "u8 \<Rightarrow> bytes \<Rightarrow> Frame case_result" where
  "raw_frame command data = (case frame_new command data of Ok f \<Rightarrow> Ok f | _ \<Rightarrow> Panic)"

definition case_malformed_frames :: "'t transport \<Rightarrow> 't \<Rightarrow> unit case_result \<times> 't" where
  "case_malformed_frames tr t =
     (let m = tr [command_code Cmd_Echo, 0, 1] t in
      try_in
        (case fst m of
           Ok encoded \<Rightarrow> and_then (or_message (frame_parse encoded)) (\<lambda>response. expect_device_error response WrongLength)
         | Err kind \<Rightarrow> if kind = Te_InvalidCommandFrame then Ok () else Err ()
         | Panic \<Rightarrow> Panic
         | Diverge \<Rightarrow> Diverge) (snd m) (\<lambda>_.
      try_in (raw_frame 0x02 []) (snd m) (\<lambda>request.
      try_st (exchange_frame tr request (snd m)) (\<lambda>response t.
      (expect_device_error response InvalidCommand, t)))))"

definition plain_query :: "'t transport \<Rightarrow> CommandCode \<Rightarrow> bytes \<Rightarrow> 't \<Rightarrow> bytes case_result \<times> 't" where
  "plain_query tr command data t =
     try_in (new_frame command data) t (\<lambda>request.
     try_st (exchange_frame tr request t) (\<lambda>response t. (expect_response response command, t)))"

definition case_plain_echo :: "'t transport \<Rightarrow> 't \<Rightarrow> unit case_result \<times> 't" where
  "case_plain_echo tr t =
     (let payload = str_bytes ''yubihsm qualification echo'' in
      try_st (plain_query tr Cmd_Echo payload t) (\<lambda>data t. (ensure (data = payload), t)))"

definition case_identity :: "'t transport \<Rightarrow> 't \<Rightarrow> DeviceIdentity case_result \<times> 't" where
  "case_identity tr t =
     try_st (plain_query tr Cmd_GetDeviceInfo [] t) (\<lambda>data t.
     if length data < 9 then (Err (), t)
     else (Ok \<lparr>id_version = take 3 data, id_serial = from_be (take 4 (drop 3 data)), id_log_capacity = data ! 7,
               id_log_used = data ! 8, id_algorithms = drop 9 data\<rparr>, t))"

definition case_public_key :: "'t transport \<Rightarrow> 't \<Rightarrow> unit case_result \<times> 't" where
  "case_public_key tr t =
     try_st (plain_query tr Cmd_GetDevicePublicKey [] t) (\<lambda>data t.
     try_in (ensure (length data = 65)) t (\<lambda>_.
     (ensure (data ! 0 = algorithm_code Alg_EcP256YubicoAuthentication), t)))"

definition case_session_boundary :: "'t transport \<Rightarrow> 't \<Rightarrow> unit case_result \<times> 't" where
  "case_session_boundary tr t =
     try_in (new_frame Cmd_GetStorageInfo []) t (\<lambda>request.
     try_st (exchange_frame tr request t) (\<lambda>response t. (expect_device_error response InvalidCommand, t)))"

text \<open>\<^verbatim>\<open>run\<close> up to the first check of the profile.\<close>

definition run_smoke :: "'t transport \<Rightarrow> 't run_state \<Rightarrow> DeviceIdentity qualification \<times> 't run_state" where
  "run_smoke tr st =
     try_st (run_case ''malformed and unknown frames'' (case_malformed_frames tr) st) (\<lambda>_ st.
     try_st (run_case ''plain echo'' (case_plain_echo tr) st) (\<lambda>_ st.
     try_st (run_case_value ''device identity'' (case_identity tr) st) (\<lambda>identity st.
     try_st (run_case ''device public key'' (case_public_key tr) st) (\<lambda>_ st.
     try_st (run_case ''plain session boundary'' (case_session_boundary tr) st) (\<lambda>_ st.
     (Ok identity, st))))))"

section \<open>The smoke profile passes\<close>

text \<open>Outside a session the engine answers three commands and refuses everything else.\<close>

lemma plain_exchange:
  assumes "frame_wf q" "command_from_byte (fr_command q) = Some c" "c \<in> {Cmd_Echo, Cmd_GetDeviceInfo, Cmd_GetDevicePublicKey}"
    "execute_plain_or_authenticated L fw (expire_inactive_sessions (now E) d) q = Some (Ok data)" "length data \<le> MAX_DATA_LENGTH"
  shows "exchange_frame (in_process L fw) q (E # Es, d)
    = (Ok (frame_response (fr_command q) data), (Es, expire_inactive_sessions (now E) d))"
proof (rule exchange_handled)
  show "handle_encoded L E fw (frame_encode q) d
      = (Ok (frame_encode (frame_response (fr_command q) data)), expire_inactive_sessions (now E) d)"
    using assms frame_parse_encode [OF assms(1)]
    by (simp add: handle_encoded_def handle_encoded_with_def handle_frame_with_def execute_plain_def respond_def Let_def)
  show "frame_wf (frame_response (fr_command q) data)" using assms(5) by (simp add: frame_wf_def frame_response_def)
qed

lemma refused_exchange:
  assumes "frame_wf q" "\<forall>c. command_from_byte (fr_command q) = Some c \<longrightarrow> c \<notin> {Cmd_Echo, Cmd_GetDeviceInfo, Cmd_GetDevicePublicKey,
      Cmd_CreateSession, Cmd_AuthenticateSession, Cmd_SessionMessage}"
  shows "exchange_frame (in_process L fw) q (E # Es, d)
    = (Ok (frame_error InvalidCommand), (Es, expire_inactive_sessions (now E) d))"
proof (rule exchange_handled)
  show "handle_encoded L E fw (frame_encode q) d
      = (Ok (frame_encode (frame_error InvalidCommand)), expire_inactive_sessions (now E) d)"
    using assms(2) frame_parse_encode [OF assms(1)]
    by (auto simp: handle_encoded_def handle_encoded_with_def handle_frame_with_def or_error_frame_def Let_def
        split: option.split)
qed (simp add: frame_wf_def frame_error_def frame_consts)

lemma run_case_value_Ok:
  "body t = (Ok v, t') \<Longrightarrow> run_case_value name body (passed, t) = (Ok v, (passed @ [name], t'))"
  by (simp add: run_case_value_def)

lemma plain_query_Ok:
  assumes "new_frame c data = Ok q" "command_from_byte (fr_command q) = Some c"
    "c \<in> {Cmd_Echo, Cmd_GetDeviceInfo, Cmd_GetDevicePublicKey}"
    "execute_plain_or_authenticated L fw (expire_inactive_sessions (now E) d) q = Some (Ok answer)"
    "length answer \<le> MAX_DATA_LENGTH"
  shows "plain_query (in_process L fw) c data (E # Es, d) = (Ok answer, (Es, expire_inactive_sessions (now E) d))"
proof -
  note q = new_frame_data [OF assms(1)]
  have "expect_response (frame_response (command_code c) answer) c = Ok answer"
    using assms(3) by (intro expect_frame_response) (auto simp: RESPONSE_BIT_def ERROR_COMMAND_def)
  with plain_exchange [of q c L fw E d answer Es] q assms show ?thesis by (simp add: plain_query_def)
qed

lemma small_frame: "length data \<le> MAX_DATA_LENGTH \<Longrightarrow> new_frame c data = Ok \<lparr>fr_command = command_code c, fr_data = data\<rparr>"
  unfolding new_frame_Ok by (simp add: frame_new_def)

lemma expect_error_frame: "expect_device_error (frame_error x) x = Ok ()"
  by (simp add: expect_device_error_def frame_error_def)

lemma case_malformed_passes:
  "case_malformed_frames (in_process L fw) (E1 # E2 # Es, d) = (Ok (), (Es, expire_inactive_sessions (now E2) d))"
proof -
  have "frame_parse [command_code Cmd_Echo, 0, 1] = Err WrongLength" by code_simp
  then have first: "in_process L fw [command_code Cmd_Echo, 0, 1] (E1 # E2 # Es, d)
      = (Ok (frame_encode (frame_error WrongLength)), (E2 # Es, d))"
    by (simp add: handle_encoded_def handle_encoded_with_def)
  have e: "frame_parse (frame_encode (frame_error x)) = Ok (frame_error x)" for x
    by (rule frame_parse_encode) (simp add: frame_wf_def frame_error_def frame_consts)
  have "command_from_byte 2 = None" by code_simp
  then have "exchange_frame (in_process L fw) \<lparr>fr_command = 2, fr_data = []\<rparr> (E2 # Es, d)
      = (Ok (frame_error InvalidCommand), (Es, expire_inactive_sessions (now E2) d))"
    by (intro refused_exchange) (simp_all add: frame_wf_def)
  with first e show ?thesis
    by (simp add: case_malformed_frames_def raw_frame_def frame_new_def expect_error_frame del: in_process.simps)
qed

lemma case_echo_passes:
  "case_plain_echo (in_process L fw) (E # Es, d) = (Ok (), (Es, expire_inactive_sessions (now E) d))"
proof -
  let ?p = "str_bytes ''yubihsm qualification echo''"
  have n: "length ?p \<le> MAX_DATA_LENGTH" by (simp add: str_bytes_def frame_consts)
  have "plain_query (in_process L fw) Cmd_Echo ?p (E # Es, d) = (Ok ?p, (Es, expire_inactive_sessions (now E) d))"
    by (rule plain_query_Ok [OF small_frame [OF n]])
      (use n command_from_code [of Cmd_Echo] in \<open>simp_all add: execute_plain_or_authenticated_def decode_remainder_def read_remainder_def\<close>)
  then show ?thesis by (simp add: case_plain_echo_def)
qed

lemma case_boundary_passes:
  "case_session_boundary (in_process L fw) (E # Es, d) = (Ok (), (Es, expire_inactive_sessions (now E) d))"
proof -
  have "exchange_frame (in_process L fw) \<lparr>fr_command = command_code Cmd_GetStorageInfo, fr_data = []\<rparr> (E # Es, d)
      = (Ok (frame_error InvalidCommand), (Es, expire_inactive_sessions (now E) d))"
    by (rule refused_exchange) (unfold Frame.select_convs command_from_code, simp_all add: frame_wf_def)
  then show ?thesis by (simp add: case_session_boundary_def small_frame expect_error_frame)
qed

text \<open>What the tool reports as the device's identity.\<close>

definition identity_of :: "FirmwareProfile \<Rightarrow> 'k Device \<Rightarrow> DeviceIdentity" where
  "identity_of fw d =
     \<lparr>id_version = cf_version (dv_config d), id_serial = cf_serial (dv_config d),
      id_log_capacity = cf_log_capacity (dv_config d), id_log_used = saturate_u8 (length (as_entries (dv_audit d))),
      id_algorithms = enabled_algorithms fw d\<rparr>"

lemma algorithm_enabled_sessions: "algorithm_enabled fw (d\<lparr>dv_sessions := x\<rparr>) = algorithm_enabled fw d"
  by (rule ext) (simp add: algorithm_enabled_def)

lemma expire_keeps_device [simp]:
  "dv_config (expire_inactive_sessions t d) = dv_config d" "dv_audit (expire_inactive_sessions t d) = dv_audit d"
  "dv_static_private (expire_inactive_sessions t d) = dv_static_private d"
  "enabled_algorithms fw (expire_inactive_sessions t d) = enabled_algorithms fw d"
  "identity_of fw (expire_inactive_sessions t d) = identity_of fw d"
  by (simp_all add: expire_inactive_sessions_def enabled_algorithms_def algorithm_enabled_sessions identity_of_def)

lemma case_identity_passes:
  assumes "length (cf_version (dv_config d)) = 3" "length (cf_algorithms (dv_config d)) \<le> 256"
  shows "case_identity (in_process L fw) (E # Es, d) = (Ok (identity_of fw d), (Es, expire_inactive_sessions (now E) d))"
proof -
  let ?data = "cf_version (dv_config d) @ be32 (cf_serial (dv_config d))
      @ [cf_log_capacity (dv_config d), saturate_u8 (length (as_entries (dv_audit d)))] @ enabled_algorithms fw d"
  have "length (enabled_algorithms fw d) \<le> 256"
    unfolding enabled_algorithms_def by (rule le_trans [OF length_filter_le assms(2)])
  then have n: "length ?data \<le> MAX_DATA_LENGTH" using assms(1) by (simp add: frame_consts)
  have "decode_request decode_get_device_info [] = Ok None"
    by (simp add: decode_get_device_info_def remaining_len_def)
  then have info: "get_device_info fw (expire_inactive_sessions (now E) d) [] = Ok ?data"
    by (simp add: get_device_info_def del: decode_request_Ok)
  have "plain_query (in_process L fw) Cmd_GetDeviceInfo [] (E # Es, d) = (Ok ?data, (Es, expire_inactive_sessions (now E) d))"
    by (rule plain_query_Ok [OF small_frame])
      (use n info command_from_code [of Cmd_GetDeviceInfo] in \<open>simp_all add: execute_plain_or_authenticated_def\<close>)
  with assms(1) show ?thesis by (simp add: case_identity_def identity_of_def nth_append)
qed

lemma case_public_key_passes:
  assumes "key_public L (dv_static_private d) = Pub_Ec curve point" "length point = 65"
  shows "case_public_key (in_process L fw) (E # Es, d) = (Ok (), (Es, expire_inactive_sessions (now E) d))"
proof -
  have "decode_request decode_empty [] = Ok ()" by (simp add: decode_empty_def)
  moreover have "point \<noteq> []" using assms(2) by auto
  ultimately have key: "get_device_public_key L (expire_inactive_sessions (now E) d) []
      = Ok (point[0 := AUTHENTICATION_ALGORITHM_EC_P256])"
    using assms(1) by (simp add: get_device_public_key_def del: decode_request_Ok)
  have "plain_query (in_process L fw) Cmd_GetDevicePublicKey [] (E # Es, d)
      = (Ok (point[0 := AUTHENTICATION_ALGORITHM_EC_P256]), (Es, expire_inactive_sessions (now E) d))"
    by (rule plain_query_Ok [OF small_frame])
      (use key assms(2) command_from_code [of Cmd_GetDevicePublicKey] in \<open>simp_all add: execute_plain_or_authenticated_def frame_consts\<close>)
  with assms(2) show ?thesis by (simp add: case_public_key_def AUTHENTICATION_ALGORITHM_EC_P256_def)
qed

text \<open>
  On every device whose configuration has the widths of the code and whose static key is a P-256 key, the
  smoke profile passes, reports the device's identity, and leaves the device as it was but for expired
  sessions.
\<close>

lemma smoke_passes:
  assumes config: "length (cf_version (dv_config d)) = 3" "length (cf_algorithms (dv_config d)) \<le> 256"
    and key: "key_public L (dv_static_private d) = Pub_Ec curve point" "length point = 65"
  shows "\<exists>d'. run_smoke (in_process L fw) ([], ([E1, E2, E3, E4, E5, E6], d)) = (Ok (identity_of fw d),
      ([''malformed and unknown frames'', ''plain echo'', ''device identity'', ''device public key'',
        ''plain session boundary''], ([], d')))
    \<and> d' = fold (\<lambda>E. expire_inactive_sessions (now E)) [E2, E3, E4, E5, E6] d"
  using assms
  by (simp add: run_smoke_def run_case_def run_case_value_Ok case_malformed_passes case_echo_passes case_identity_passes
      case_public_key_passes case_boundary_passes)

end
