(* ===== verification/Client_Runs.thy ===== *)
theory Client_Runs
  imports Client_Requests
begin

unbundle bit_operations_syntax

text \<open>
  Commands of the client on an open session, as they change the pair of client and device: what the
  engine computes for the command is what the client gets, and both ends are ready for the next command.
  Scripts of commands follow by composing these steps.
\<close>

section \<open>A client on its session\<close>

definition client_at :: "'k lib \<Rightarrow> nat \<Rightarrow> u8 \<Rightarrow> SessionAuthorization \<Rightarrow> SymmetricSession \<Rightarrow> 'k Device \<Rightarrow> bool" where
  "client_at L t sid au s d =
     (device_wf L d \<and> (\<exists>e. session_live t sid e d \<and> se_last_activity e = t \<and> in_step s (se_secure e)
        \<and> se_authorization e = au))"

lemma same_contents_in_message [simp]: "same_contents (in_message t sid d) d' = same_contents d d'"
  by (simp add: in_message_def)

lemma same_contents_finish [simp]: "same_contents d (finish_command L fw au q audit r d') = same_contents d d'"
  by (simp add: finish_command_def same_contents_def append_audit_entry_def Let_def split: option.split)

section \<open>One command\<close>

text \<open>
  The outcome of a command in a session: its handler, or the check before it, returned \<open>r\<close> and left the
  device \<open>d'\<close>; the log did not block it and the answer fits.
\<close>

definition fits_answer :: "bytes res \<Rightarrow> bool" where
  "fits_answer r = (case r of Ok data \<Rightarrow> length data \<le> 8172 | Err _ \<Rightarrow> True | _ \<Rightarrow> False)"

definition answer_frame :: "CommandCode \<Rightarrow> bytes res \<Rightarrow> Frame" where
  "answer_frame c r = (case r of Ok data \<Rightarrow> frame_response (command_code c) data | Err e \<Rightarrow> frame_error e
     | _ \<Rightarrow> frame_error InvalidCommand)"

definition runs_in_session ::
  "'k lib \<Rightarrow> 'k env \<Rightarrow> FirmwareProfile \<Rightarrow> SessionAuthorization \<Rightarrow> CommandCode \<Rightarrow> bytes \<Rightarrow> 'k Device \<Rightarrow> bytes res \<Rightarrow> 'k Device \<Rightarrow> bool" where
  "runs_in_session L E fw au c data d r d' =
     (let q = \<lparr>fr_command = command_code c, fr_data = data\<rparr> in
      handled_response no_hook au q = None \<and> \<not> blocked_by_full_log fw q d \<and> length data \<le> 8172 \<and> fits_answer r
      \<and> (\<forall>objs. execute_inner_result L E fw au q (d, Some objs) = (r, (d', Some objs))))"

lemma answer_frame_limit: "fits_answer r \<Longrightarrow> limit_response (answer_frame c r) = answer_frame c r"
  by (cases r) (simp_all add: fits_answer_def answer_frame_def limit_response_def secure_response_fits_def frame_response_def
      frame_error_def secure_response_data_fits_iff)

lemma runs_command_outcome:
  assumes "runs_in_session L E fw (se_authorization e) c data d r d'"
  shows "\<exists>d2. command_outcome L E fw no_hook e \<lparr>fr_command = command_code c, fr_data = data\<rparr> d
      = (Ok (answer_frame c r), (d2, Some (se_objects e))) \<and> same_contents d' d2 \<and> dv_sessions d2 = dv_sessions d'"
proof -
  let ?q = "\<lparr>fr_command = command_code c, fr_data = data\<rparr>"
  have r: "handled_response no_hook (se_authorization e) ?q = None" "\<not> blocked_by_full_log fw ?q d"
    "execute_inner_result L E fw (se_authorization e) ?q (d, Some (se_objects e)) = (r, (d', Some (se_objects e)))"
    "fits_answer r" using assms by (simp_all add: runs_in_session_def Let_def)
  then show ?thesis
    by (cases r) (simp_all add: command_outcome_def execute_inner_with_session_def fits_answer_def answer_frame_def
        secure_response_data_fits_iff Let_def del: command_code.simps)
qed

lemma client_exchanges:
  assumes laws: "cipher_laws L" "password_kdf_ok L" and at: "client_at L t sid au s d"
    and soon: "now E - t < SESSION_INACTIVITY_TIMEOUT"
    and run: "runs_in_session L E fw au c data (in_message (now E) sid d) r d'"
  obtains s' d2 e where "client_command L (in_process L fw) \<lparr>fr_command = command_code c, fr_data = data\<rparr> (s, (E # Es, d))
      = (Ok (answer_frame c r), (s', (Es, if closes_session \<lparr>fr_command = command_code c, fr_data = data\<rparr> False (answer_frame c r)
          then d2 else d2\<lparr>dv_sessions := bt_insert sid e (dv_sessions d2)\<rparr>)))"
    "same_contents d' d2" "dv_sessions d2 = dv_sessions d'" "in_step s' (se_secure e)" "se_authorization e = au" "se_authenticated e"
    "session_keys_wf (se_secure e)" "se_last_activity e = now E"
proof -
  let ?q = "\<lparr>fr_command = command_code c, fr_data = data\<rparr>"
  obtain e where e: "session_live t sid e d" "se_last_activity e = t" "in_step s (se_secure e)" "se_authorization e = au"
    and wf: "device_wf L d" using at by (auto simp: client_at_def)
  have live: "session_live (now E) sid e d" using e(1,2) soon by (simp add: session_live_def)
  obtain d2 where out: "command_outcome L E fw no_hook e ?q (in_message (now E) sid d)
      = (Ok (answer_frame c r), (d2, Some (se_objects e)))" and same: "same_contents d' d2" "dv_sessions d2 = dv_sessions d'"
    using runs_command_outcome [OF run [folded e(4)]] by blast
  have fits: "frame_wf ?q" "length (fr_data ?q) \<le> 8172" "fits_answer r" "handled_response no_hook au ?q = None"
    using run by (simp_all add: runs_in_session_def Let_def frame_wf_def frame_consts)
  let ?e = "\<lambda>tag. next_entry (now E) e tag (Some (se_objects e))"
  obtain s' tag where x: "client_command L (in_process L fw) ?q (s, (E # Es, d))
      = (Ok (answer_frame c r), (s', (Es, if closes_session ?q False (answer_frame c r) then d2
          else d2\<lparr>dv_sessions := bt_insert sid (?e tag) (dv_sessions d2)\<rparr>)))" "in_step s' (se_secure (?e tag))"
    using client_exchange [OF laws(1) wf live e(3) fits(1,2) out, of Es] answer_frame_limit [OF fits(3)] fits(4) e(4) by auto
  show thesis by (rule that [OF x(1) same x(2)]) (use live e(4) in \<open>simp_all add: session_live_def next_entry_def session_keys_wf_def\<close>)
qed

text \<open>A command that keeps the session open.\<close>

lemma client_runs:
  assumes laws: "cipher_laws L" "password_kdf_ok L" and at: "client_at L t sid au s d"
    and soon: "now E - t < SESSION_INACTIVITY_TIMEOUT"
    and run: "runs_in_session L E fw au c data (in_message (now E) sid d) r d'"
    and stays: "c \<noteq> Cmd_CloseSession" "c \<noteq> Cmd_ResetDevice"
  obtains s' d2 where "client_command L (in_process L fw) \<lparr>fr_command = command_code c, fr_data = data\<rparr> (s, (E # Es, d))
      = (Ok (answer_frame c r), (s', (Es, d2)))"
    "client_at L (now E) sid au s' d2" "same_contents d' d2"
proof -
  let ?q = "\<lparr>fr_command = command_code c, fr_data = data\<rparr>"
  have stays': "\<not> closes_session ?q b f" for b f
    unfolding closes_session_def Frame.select_convs command_from_code using stays by simp
  obtain s' d2 e where run': "client_command L (in_process L fw) ?q (s, (E # Es, d))
      = (Ok (answer_frame c r), (s', (Es, if closes_session ?q False (answer_frame c r) then d2
          else d2\<lparr>dv_sessions := bt_insert sid e (dv_sessions d2)\<rparr>)))"
    and same: "same_contents d' d2" and e: "in_step s' (se_secure e)" "se_authorization e = au" "se_authenticated e"
    "session_keys_wf (se_secure e)" "se_last_activity e = now E"
    by (rule client_exchanges [OF laws at soon run])
  have x: "client_command L (in_process L fw) ?q (s, (E # Es, d))
      = (Ok (answer_frame c r), (s', (Es, d2\<lparr>dv_sessions := bt_insert sid e (dv_sessions d2)\<rparr>)))"
    using run' by (simp only: stays' if_False)
  have "device_wf L (d2\<lparr>dv_sessions := bt_insert sid e (dv_sessions d2)\<rparr>)"
    using client_command_wf [of L "(E # Es, d)" fw ?q s] at laws(2) x by (simp add: client_at_def)
  then have "client_at L (now E) sid au s' (d2\<lparr>dv_sessions := bt_insert sid e (dv_sessions d2)\<rparr>)"
    using e by (auto simp: client_at_def session_live_def SESSION_INACTIVITY_TIMEOUT_def)
  then show thesis using that [OF x] same by simp
qed

section \<open>What runs\<close>

text \<open>The session of a client that has every capability the command asks for, with auditing not forced.\<close>

lemma may_run:
  assumes "\<And>cap. required_session_capability c = Some cap \<Longrightarrow> cap_contains (au_capabilities au) cap"
    "op_force_audit (dv_options d) = OPTION_OFF"
  shows "handled_response no_hook au \<lparr>fr_command = command_code c, fr_data = data\<rparr> = None"
    "\<not> blocked_by_full_log fw \<lparr>fr_command = command_code c, fr_data = data\<rparr> d"
proof -
  show "handled_response no_hook au \<lparr>fr_command = command_code c, fr_data = data\<rparr> = None"
    unfolding handled_response_def Frame.select_convs command_from_code using assms(1)
    by (auto simp: no_hook_def require_capability_def split: option.split)
qed (use assms(2) in \<open>simp add: blocked_by_full_log_def\<close>)

lemma runs_query:
  assumes "\<And>cap. required_session_capability c = Some cap \<Longrightarrow> cap_contains (au_capabilities au) cap"
    "op_force_audit (dv_options d) = OPTION_OFF" "command_supported fw c"
    "c \<notin> {Cmd_Echo, Cmd_GetDeviceInfo, Cmd_GetDevicePublicKey, Cmd_SessionObject}"
    "authorize_request_objects L au d c data = Ok ()" "run_query L E fw au c data d = Some r" "fits_answer r" "length data \<le> 8172"
  shows "runs_in_session L E fw au c data d r d"
proof -
  have "execute_inner_result L E fw au \<lparr>fr_command = command_code c, fr_data = data\<rparr> (d, Some objs) = (r, (d, Some objs))" for objs
    unfolding execute_inner_result_def execute_plain_or_authenticated_def Frame.select_convs command_from_code
    using assms(1,3-6) by (cases c) (auto simp: authorize_command_request_def run_command_def require_capability_def split: option.splits)
  then show ?thesis using may_run [OF assms(1,2)] assms(7,8) by (simp add: runs_in_session_def Let_def del: command_code.simps)
qed

lemma runs_update:
  assumes "\<And>cap. required_session_capability c = Some cap \<Longrightarrow> cap_contains (au_capabilities au) cap"
    "op_force_audit (dv_options d) = OPTION_OFF" "command_supported fw c"
    "c \<notin> {Cmd_Echo, Cmd_GetDeviceInfo, Cmd_GetDevicePublicKey, Cmd_SessionObject}"
    "authorize_request_objects L au d c data = Ok ()" "run_query L E fw au c data d = None"
    "run_update L E fw au c data d = Some (r, d')" "fits_answer r" "length data \<le> 8172"
  shows "runs_in_session L E fw au c data d r d'"
proof -
  have "execute_inner_result L E fw au \<lparr>fr_command = command_code c, fr_data = data\<rparr> (d, Some objs) = (r, (d', Some objs))" for objs
    unfolding execute_inner_result_def execute_plain_or_authenticated_def Frame.select_convs command_from_code
    using assms(1,3-7) by (cases c) (auto simp: authorize_command_request_def run_command_def require_capability_def split: option.splits)
  then show ?thesis using may_run [OF assms(1,2)] assms(8,9) by (simp add: runs_in_session_def Let_def del: command_code.simps)
qed

lemma runs_refused:
  assumes "\<And>cap. required_session_capability c = Some cap \<Longrightarrow> cap_contains (au_capabilities au) cap"
    "op_force_audit (dv_options d) = OPTION_OFF" "command_supported fw c"
    "c \<notin> {Cmd_Echo, Cmd_GetDeviceInfo, Cmd_GetDevicePublicKey}"
    "authorize_request_objects L au d c data = Err e" "length data \<le> 8172"
  shows "runs_in_session L E fw au c data d (Err e) d"
proof -
  have "execute_inner_result L E fw au \<lparr>fr_command = command_code c, fr_data = data\<rparr> (d, Some objs) = (Err e, (d, Some objs))" for objs
    unfolding execute_inner_result_def execute_plain_or_authenticated_def Frame.select_convs command_from_code
    using assms(1,3-5) by (cases c) (auto simp: authorize_command_request_def require_capability_def split: option.splits)
  then show ?thesis using may_run [OF assms(1,2)] assms(6)
    by (simp add: runs_in_session_def fits_answer_def Let_def del: command_code.simps)
qed

lemma runs_echo:
  assumes "op_force_audit (dv_options d) = OPTION_OFF" "length data \<le> 8172"
  shows "runs_in_session L E fw au Cmd_Echo data d (Ok data) d"
proof -
  have "execute_inner_result L E fw au \<lparr>fr_command = command_code Cmd_Echo, fr_data = data\<rparr> (d, Some objs) = (Ok data, (d, Some objs))" for objs
    unfolding execute_inner_result_def execute_plain_or_authenticated_def Frame.select_convs command_from_code
    by (simp add: decode_remainder_def read_remainder_def)
  then show ?thesis using may_run [of Cmd_Echo au d] assms
    by (simp add: runs_in_session_def fits_answer_def Let_def del: command_code.simps)
qed

section \<open>The client's steps\<close>

lemma response_is_no_error: "command_code c OR RESPONSE_BIT \<noteq> ERROR_COMMAND"
proof -
  have "bit (command_code c OR RESPONSE_BIT) 7" "\<not> bit ERROR_COMMAND 7"
    by (simp_all add: RESPONSE_BIT_def ERROR_COMMAND_def bit_or_iff)
  then show ?thesis by metis
qed

lemma client_query_Ok:
  assumes "cipher_laws L" "password_kdf_ok L" "client_at L t sid au s d" "now E - t < SESSION_INACTIVITY_TIMEOUT"
    "runs_in_session L E fw au c data (in_message (now E) sid d) (Ok answer) d'" "c \<noteq> Cmd_CloseSession" "c \<noteq> Cmd_ResetDevice"
  obtains s' d2 where "client_query L (in_process L fw) c data (s, (E # Es, d)) = (Ok answer, (s', (Es, d2)))"
    "client_at L (now E) sid au s' d2" "same_contents d' d2"
proof -
  have "length data \<le> MAX_DATA_LENGTH" using assms(5) by (simp add: runs_in_session_def Let_def frame_consts)
  then have q: "new_frame c data = Ok \<lparr>fr_command = command_code c, fr_data = data\<rparr>"
    unfolding new_frame_Ok by (simp add: frame_new_def)
  obtain s' d2 where x: "client_command L (in_process L fw) \<lparr>fr_command = command_code c, fr_data = data\<rparr> (s, (E # Es, d))
      = (Ok (answer_frame c (Ok answer)), (s', (Es, d2)))" "client_at L (now E) sid au s' d2" "same_contents d' d2"
    by (rule client_runs [OF assms])
  have "expect_response (answer_frame c (Ok answer)) c = Ok answer"
    by (simp add: answer_frame_def expect_frame_response response_is_no_error del: command_code.simps)
  with x q show thesis by (intro that) (simp_all add: client_query_def del: command_code.simps)
qed

lemma client_reads:
  assumes "cipher_laws L" "password_kdf_ok L" "client_at L t sid au s d" "now E - t < SESSION_INACTIVITY_TIMEOUT"
    "runs_in_session L E fw au c data (in_message (now E) sid d) (Ok answer) (in_message (now E) sid d)"
    "c \<noteq> Cmd_CloseSession" "c \<noteq> Cmd_ResetDevice"
  obtains s' d2 where "client_query L (in_process L fw) c data (s, (E # Es, d)) = (Ok answer, (s', (Es, d2)))"
    "client_at L (now E) sid au s' d2" "same_contents d d2"
  by (rule client_query_Ok [OF assms, where Es = Es]) (simp add: that)

text \<open>A session opened with the keys of an authentication key has the rights of that key.\<close>

lemma client_opens_at:
  assumes "cipher_laws L" "scp03_law L" "password_kdf_ok L" "device_wf L d"
    "authentication_key_material d kid = Ok (Auth_Symmetric keys)" "length keys = 32"
    "free_session_id (expire_inactive_sessions (now E1) d) = Ok sid" "entropy E1 0 CHALLENGE_LENGTH = Some cc" "length cc = 8"
    "now E2 - now E1 < SESSION_INACTIVITY_TIMEOUT" "session_authorization d kid = Ok au"
  obtains s d' where "open_symmetric L (in_process L fw) kid keys (E1 # E2 # Es, d) = (Ok s, (Es, d'))"
    "client_at L (now E2) sid au s d'" "same_contents d d'"
  using client_opens [OF assms(1-10), of fw Es] assms(11) that unfolding client_at_def by fastforce

text \<open>The listing a client gets is the set of the objects its session may see.\<close>

definition visible_objects :: "SessionAuthorization \<Rightarrow> 'k Device \<Rightarrow> (u16 \<times> ObjectType) set" where
  "visible_objects au d =
     {(oi_id (or_info r), oi_object_type (or_info r)) | r. r \<in> set (bt_values (dv_objects d)) \<and> can_see au (or_info r)}"

lemma list_all_objects:
  "list_objects au d [] = Ok (concat (map list_entry (map or_info
     (filter (\<lambda>r. can_see au (or_info r)) (bt_values (dv_objects d))))))"
proof -
  have "decode_request decode_filters [] = Ok filters_default"
    by (simp add: decode_filters_def, subst filters_loop.simps) (simp add: remaining_len_def)
  then show ?thesis
    by (simp add: list_objects_def filters_match_def filters_default_def comp_def is_none_or_def del: decode_request_Ok)
qed

lemma client_lists:
  assumes "cipher_laws L" "password_kdf_ok L" "client_at L t sid au s d" "now E - t < SESSION_INACTIVITY_TIMEOUT"
    "op_force_audit (dv_options d) = OPTION_OFF" "length (dv_objects d) \<le> 2043" "command_supported fw Cmd_ListObjects"
  obtains s' d2 where "client_list_objects L (in_process L fw) (s, (E # Es, d)) = (Ok (visible_objects au d), (s', (Es, d2)))"
    "client_at L (now E) sid au s' d2" "same_contents d d2"
proof -
  let ?d = "in_message (now E) sid d"
  let ?infos = "map or_info (filter (\<lambda>r. can_see au (or_info r)) (bt_values (dv_objects d)))"
  have objects: "dv_objects ?d = dv_objects d" "dv_options ?d = dv_options d" by (simp_all add: in_message_def)
  have len: "length (concat (map list_entry ?infos)) \<le> 8172"
  proof -
    have "length ?infos \<le> length (bt_values (dv_objects d))" by simp
    also have "\<dots> \<le> 2043" using assms(6) by (simp add: bt_values_def)
    finally show ?thesis unfolding listed_entries_length by simp
  qed
  have run: "runs_in_session L E fw au Cmd_ListObjects [] ?d (Ok (concat (map list_entry ?infos))) ?d"
    by (rule runs_query) (use assms(5,7) objects len in
      \<open>simp_all add: authorize_request_objects_def run_query_def list_all_objects fits_answer_def\<close>)
  obtain s' d2 where x: "client_query L (in_process L fw) Cmd_ListObjects [] (s, (E # Es, d))
      = (Ok (concat (map list_entry ?infos)), (s', (Es, d2)))" "client_at L (now E) sid au s' d2" "same_contents ?d d2"
    by (rule client_query_Ok [OF assms(1-4) run]) simp_all
  have "set (map (\<lambda>i. (oi_id i, oi_object_type i)) ?infos) = visible_objects au d"
    by (auto simp: visible_objects_def)
  with x listed_entries_read [of ?infos] listed_entries_length [of ?infos] show thesis
    by (intro that [of s' d2]) (simp_all add: client_list_objects_def)
qed

text \<open>Closing the session takes it out of the device.\<close>

lemma client_closes:
  assumes laws: "cipher_laws L" "password_kdf_ok L" and at: "client_at L t sid au s d" and soon: "now E - t < SESSION_INACTIVITY_TIMEOUT"
    and off: "op_force_audit (dv_options d) = OPTION_OFF" and supported: "command_supported fw Cmd_CloseSession"
  obtains s' d2 where "client_close L (in_process L fw) (s, (E # Es, d)) = (Ok (), (s', (Es, d2)))"
    "device_wf L d2" "bt_get (dv_sessions d2) sid = None" "same_contents d d2"
proof -
  let ?d = "in_message (now E) sid d" and ?q = "\<lparr>fr_command = command_code Cmd_CloseSession, fr_data = []\<rparr>"
  have empty: "decode_request decode_empty [] = Ok ()" by (simp add: decode_empty_def)
  have run: "runs_in_session L E fw au Cmd_CloseSession [] ?d (Ok []) ?d"
    by (rule runs_query) (use off supported empty in
      \<open>simp_all add: authorize_request_objects_def run_query_def in_message_def fits_answer_def del: decode_request_Ok\<close>)
  obtain s' d2 e where x: "client_command L (in_process L fw) ?q (s, (E # Es, d))
      = (Ok (answer_frame Cmd_CloseSession (Ok [])), (s', (Es, if closes_session ?q False (answer_frame Cmd_CloseSession (Ok []))
          then d2 else d2\<lparr>dv_sessions := bt_insert sid e (dv_sessions d2)\<rparr>)))"
    "same_contents ?d d2" "dv_sessions d2 = dv_sessions ?d"
    by (rule client_exchanges [OF laws at soon run])
  have closes: "closes_session ?q b f" for b f
    unfolding closes_session_def Frame.select_convs command_from_code by simp
  have wf: "device_wf L d" using at by (simp add: client_at_def)
  have wf2: "device_wf L d2"
    using client_command_wf [of L "(E # Es, d)" fw ?q s] wf laws(2) x(1) closes by simp
  have gone: "bt_get (dv_sessions d2) sid = None" using x(3) by (simp add: in_message_def bt.get_remove)
  have "new_frame Cmd_CloseSession [] = Ok ?q" unfolding new_frame_Ok by (simp add: frame_new_def)
  moreover have "expect_response (answer_frame Cmd_CloseSession (Ok [])) Cmd_CloseSession = Ok []"
    by (simp add: answer_frame_def expect_frame_response response_is_no_error del: command_code.simps)
  ultimately show thesis
    using x(1,2) closes wf2 gone by (intro that [of s' d2]) (simp_all add: client_close_def del: command_code.simps)
qed

end
