(* ===== verification/Qualification_Managed.thy ===== *)
theory Qualification_Managed
  imports Qualification Client_Runs
begin

text \<open>
  The managed part of the qualification tool: credentials of both kinds, cases on an authenticated
  session, and the two maintenance operations (replacing the discovery credential, removing objects that
  an interrupted run left behind). For the cases it is shown that they pass on any device that meets
  their preconditions, and what they leave of it.
\<close>

section \<open>Credentials\<close>

text \<open>
  A provider of an asymmetric credential is an operator's token or a platform key
  (\<^verbatim>\<open>AsymmetricCredentialProvider\<close>): one attempt of it is its public key and what it derives. The provider
  is asked anew for every session, so what it begins with depends on the state it is asked in.
\<close>

record AsymmetricSessionKeys =
  ak_receipt :: "bytes option"
  ak_encryption :: bytes
  ak_mac :: bytes
  ak_response_mac :: bytes

record AsymmetricCredentialAttempt =
  aa_host_public_key :: bytes
  aa_derive_session_keys :: "bytes \<Rightarrow> bytes \<Rightarrow> bytes \<Rightarrow> AsymmetricSessionKeys case_result"

datatype 't CredentialMaterial = Cred_Symmetric bytes | Cred_Asymmetric "'t \<Rightarrow> AsymmetricCredentialAttempt case_result"

record 't Credentials =
  cr_authentication_key_id :: u16
  cr_material :: "'t CredentialMaterial"

definition credentials_from_password :: "'k lib \<Rightarrow> u16 \<Rightarrow> bytes \<Rightarrow> 't Credentials" where
  "credentials_from_password L authentication_key_id password =
     \<lparr>cr_authentication_key_id = authentication_key_id, cr_material = Cred_Symmetric (yubico_password_kdf L password)\<rparr>"

definition credentials_from_static_keys :: "u16 \<Rightarrow> bytes \<Rightarrow> 't Credentials" where
  "credentials_from_static_keys authentication_key_id static_keys =
     \<lparr>cr_authentication_key_id = authentication_key_id, cr_material = Cred_Symmetric static_keys\<rparr>"

text \<open>
  \<open>sec1_ok\<close> is the check of an encoded point by the elliptic curve crate
  (\<^verbatim>\<open>p256::PublicKey::from_sec1_bytes\<close>).
\<close>

definition receipt_verifies :: "'k lib \<Rightarrow> AsymmetricSessionKeys \<Rightarrow> bytes \<Rightarrow> bytes \<Rightarrow> unit case_result" where
  "receipt_verifies L keys receipt_input receipt = (case ak_receipt keys of
       None \<Rightarrow> Ok ()
     | Some receipt_key \<Rightarrow>
         and_then (message_cmac L receipt_key receipt_input) (\<lambda>expected_receipt. ensure (expected_receipt = receipt)))"

definition open_asymmetric ::
  "'k lib \<Rightarrow> (bytes \<Rightarrow> bool) \<Rightarrow> 't transport \<Rightarrow> u16 \<Rightarrow> AsymmetricCredentialAttempt case_result \<Rightarrow> 't \<Rightarrow>
     SymmetricSession case_result \<times> 't" where
  "open_asymmetric L sec1_ok tr authentication_key_id provider t =
     try_in provider t (\<lambda>attempt.
     let host_public_key = aa_host_public_key attempt in
     try_in (ensure (length host_public_key = 65 \<and> host_public_key ! 0 = 0x04)) t (\<lambda>_.
     try_in (new_frame Cmd_CreateSession (be16 authentication_key_id @ host_public_key)) t (\<lambda>request.
     try_st (exchange_frame tr request t) (\<lambda>response t.
     try_in (expect_response response Cmd_CreateSession) t (\<lambda>create.
     try_in (ensure (length create = 82)) t (\<lambda>_.
     let sid = create ! 0; device_ephemeral = take 65 (drop 1 create); receipt = drop 66 create in
     try_in (ensure (sec1_ok device_ephemeral)) t (\<lambda>_.
     try_st (plain_query tr Cmd_GetDevicePublicKey [] t) (\<lambda>device_public t.
     try_in (ensure (length device_public = 65)) t (\<lambda>_.
     let device_public_key = 0x04 # drop 1 device_public in
     try_in (ensure (sec1_ok device_public_key)) t (\<lambda>_.
     try_in (aa_derive_session_keys attempt (host_public_key @ device_ephemeral) device_public_key receipt) t (\<lambda>keys.
     try_in (receipt_verifies L keys (device_ephemeral @ host_public_key) receipt) t (\<lambda>_.
     (Ok \<lparr>cl_sid = sid, cl_enc = ak_encryption keys, cl_mac = ak_mac keys, cl_rmac = ak_response_mac keys,
          cl_counter = replicate 15 0 @ [1], cl_command_mac = receipt\<rparr>, t)))))))))))))"

definition client_open ::
  "'k lib \<Rightarrow> (bytes \<Rightarrow> bool) \<Rightarrow> 't transport \<Rightarrow> 't Credentials \<Rightarrow> 't \<Rightarrow> SymmetricSession case_result \<times> 't" where
  "client_open L sec1_ok tr credentials t = (case cr_material credentials of
       Cred_Symmetric static_keys \<Rightarrow> open_symmetric L tr (cr_authentication_key_id credentials) static_keys t
     | Cred_Asymmetric provider \<Rightarrow> open_asymmetric L sec1_ok tr (cr_authentication_key_id credentials) (provider t) t)"

text \<open>A script on a session of its own; the session is a local variable of the script.\<close>

definition in_session ::
  "'k lib \<Rightarrow> (bytes \<Rightarrow> bool) \<Rightarrow> 't transport \<Rightarrow> 't Credentials \<Rightarrow>
     (SymmetricSession \<times> 't \<Rightarrow> 'a case_result \<times> SymmetricSession \<times> 't) \<Rightarrow> 't \<Rightarrow> 'a case_result \<times> 't" where
  "in_session L sec1_ok tr credentials script t =
     try_st (client_open L sec1_ok tr credentials t) (\<lambda>s t.
     let m = script (s, t) in (fst m, snd (snd m)))"

section \<open>Cases\<close>

definition script_secure_session :: "'k lib \<Rightarrow> 't transport \<Rightarrow> SymmetricSession \<times> 't \<Rightarrow> unit case_result \<times> SymmetricSession \<times> 't" where
  "script_secure_session L tr st =
     try_st (client_query L tr Cmd_Echo (str_bytes ''encrypted echo'') st) (\<lambda>data st.
     try_in (ensure (data = str_bytes ''encrypted echo'')) st (\<lambda>_.
     try_st (client_query L tr Cmd_GetPseudoRandom (be16 32) st) (\<lambda>random st.
     try_in (ensure (length random = 32)) st (\<lambda>_.
     client_close L tr st))))"

definition case_secure_session ::
  "'k lib \<Rightarrow> (bytes \<Rightarrow> bool) \<Rightarrow> 't transport \<Rightarrow> 't Credentials \<Rightarrow> 't \<Rightarrow> unit case_result \<times> 't" where
  "case_secure_session L sec1_ok tr credentials = in_session L sec1_ok tr credentials (script_secure_session L tr)"

text \<open>A command that must be refused with a given error.\<close>

definition client_expects_error ::
  "'k lib \<Rightarrow> 't transport \<Rightarrow> CommandCode \<Rightarrow> bytes \<Rightarrow> DeviceError \<Rightarrow> SymmetricSession \<times> 't \<Rightarrow>
     unit case_result \<times> SymmetricSession \<times> 't" where
  "client_expects_error L tr command data expected st =
     try_in (new_frame command data) st (\<lambda>request.
     try_st (client_command L tr request st) (\<lambda>response st. (expect_device_error response expected, st)))"

text \<open>A request that was built beforehand.\<close>

definition client_send ::
  "'k lib \<Rightarrow> 't transport \<Rightarrow> Frame case_result \<Rightarrow> CommandCode \<Rightarrow> SymmetricSession \<times> 't \<Rightarrow>
     bytes case_result \<times> SymmetricSession \<times> 't" where
  "client_send L tr request command st =
     try_in request st (\<lambda>request.
     try_st (client_command L tr request st) (\<lambda>response st. (expect_response response command, st)))"

definition script_opaque_lifecycle :: "'k lib \<Rightarrow> 't transport \<Rightarrow> SymmetricSession \<times> 't \<Rightarrow> unit case_result \<times> SymmetricSession \<times> 't" where
  "script_opaque_lifecycle L tr st =
     try_st (client_list_objects L tr st) (\<lambda>objects st.
     try_in (unused_id objects Ty_Opaque 0x7e00) st (\<lambda>i.
     let payload = str_bytes ''temporary qualification object'' in
     try_st (client_send L tr (build_put_opaque i 1 (cap_from_capabilities [Cap_GetOpaque]) (str_bytes ''qualification'') payload)
       Cmd_PutOpaque st) (\<lambda>data st.
     try_in (ensure (data = be16 i)) st (\<lambda>_.
     try_st (client_query L tr Cmd_GetOpaque (be16 i) st) (\<lambda>data st.
     try_in (ensure (data = payload)) st (\<lambda>_.
     try_st (client_query L tr Cmd_GetObjectInfo (object_key_bytes i Ty_Opaque) st) (\<lambda>data st.
     try_in (ensure (length data = 66)) st (\<lambda>_.
     try_st (client_list_objects L tr st) (\<lambda>listed st.
     try_in (ensure ((i, Ty_Opaque) \<in> listed)) st (\<lambda>_.
     try_st (client_delete_object L tr i Ty_Opaque st) (\<lambda>_ st.
     try_st (client_expects_error L tr Cmd_GetOpaque (be16 i) ObjectNotFound st) (\<lambda>_ st.
     client_close L tr st))))))))))))"

definition case_opaque_lifecycle ::
  "'k lib \<Rightarrow> (bytes \<Rightarrow> bool) \<Rightarrow> 't transport \<Rightarrow> 't Credentials \<Rightarrow> 't \<Rightarrow> unit case_result \<times> 't" where
  "case_opaque_lifecycle L sec1_ok tr credentials = in_session L sec1_ok tr credentials (script_opaque_lifecycle L tr)"

section \<open>The cases pass\<close>

lemma same_options: "same_contents d d' \<Longrightarrow> dv_options d' = dv_options d"
  by (simp add: same_contents_def)

text \<open>
  The operator's key is on the device, a session slot is free, no command is lost to a forced audit, and
  no pause of the run is longer than a session survives.
\<close>

definition may_qualify ::
  "'k lib \<Rightarrow> 'k Device \<Rightarrow> 't Credentials \<Rightarrow> u8 \<Rightarrow> SessionAuthorization \<Rightarrow> 'k env \<Rightarrow> 'k env list \<Rightarrow> bool" where
  "may_qualify L d credentials sid au E Es = (case cr_material credentials of
       Cred_Symmetric keys \<Rightarrow>
         device_wf L d \<and> authentication_key_material d (cr_authentication_key_id credentials) = Ok (Auth_Symmetric keys)
         \<and> length keys = 32 \<and> session_authorization d (cr_authentication_key_id credentials) = Ok au
         \<and> free_session_id (expire_inactive_sessions (now E) d) = Ok sid
         \<and> (\<exists>cc. entropy E 0 CHALLENGE_LENGTH = Some cc \<and> length cc = 8)
         \<and> timely (now E) Es \<and> op_force_audit (dv_options d) = OPTION_OFF
     | Cred_Asymmetric _ \<Rightarrow> False)"

lemma opens_in_session:
  assumes "cipher_laws L" "scp03_law L" "password_kdf_ok L" "may_qualify L d credentials sid au E1 (E2 # Es)"
  obtains s d1 where "in_session L sec1_ok (in_process L fw) credentials script (E1 # E2 # Fs, d)
      = (let m = script (s, (Fs, d1)) in (fst m, snd (snd m)))"
    "client_at L (now E2) sid au s d1" "same_contents d d1" "timely (now E2) Es" "op_force_audit (dv_options d1) = OPTION_OFF"
proof -
  obtain keys cc where m: "cr_material credentials = Cred_Symmetric keys" "device_wf L d"
    "authentication_key_material d (cr_authentication_key_id credentials) = Ok (Auth_Symmetric keys)" "length keys = 32"
    "session_authorization d (cr_authentication_key_id credentials) = Ok au"
    "free_session_id (expire_inactive_sessions (now E1) d) = Ok sid" "entropy E1 0 CHALLENGE_LENGTH = Some cc" "length cc = 8"
    and t: "now E2 - now E1 < SESSION_INACTIVITY_TIMEOUT" "timely (now E2) Es" "op_force_audit (dv_options d) = OPTION_OFF"
    using assms(4) by (auto simp: may_qualify_def split: CredentialMaterial.splits)
  obtain s d1 where s: "open_symmetric L (in_process L fw) (cr_authentication_key_id credentials) keys (E1 # E2 # Fs, d) = (Ok s, (Fs, d1))"
    "client_at L (now E2) sid au s d1" "same_contents d d1"
    by (rule client_opens_at [OF assms(1-3) m(2-4,6-8) t(1) m(5)])
  show thesis by (rule that [OF _ s(2,3) t(2)]) (use s m(1) t(3) same_options [OF s(3)] in \<open>simp_all add: in_session_def client_open_def\<close>)
qed

lemma client_random:
  assumes "cipher_laws L" "password_kdf_ok L" "client_at L t sid au s d" "now E - t < SESSION_INACTIVITY_TIMEOUT"
    "op_force_audit (dv_options d) = OPTION_OFF" "command_supported fw Cmd_GetPseudoRandom"
    "cap_contains (au_capabilities au) Cap_GetPseudoRandom" "entropy E 0 (unat n) = Some random" "length random \<le> 8172"
  obtains s' d2 where "client_query L (in_process L fw) Cmd_GetPseudoRandom (be16 n) (s, (E # Es, d)) = (Ok random, (s', (Es, d2)))"
    "client_at L (now E) sid au s' d2" "same_contents d d2"
proof -
  let ?d = "in_message (now E) sid d"
  have "decode_request decode_u16 (be16 n) = Ok n" by (simp add: decode_u16_def)
  then have run: "runs_in_session L E fw au Cmd_GetPseudoRandom (be16 n) ?d (Ok random) ?d"
    by (intro runs_query) (use assms(5-9) in
      \<open>simp_all add: authorize_request_objects_def run_query_def get_pseudo_random_def in_message_def fits_answer_def del: decode_request_Ok\<close>)
  show thesis by (rule client_reads [OF assms(1-4) run, where Es = Es]) (simp_all add: that)
qed

lemma secure_session_passes:
  assumes laws: "cipher_laws L" "scp03_law L" "password_kdf_ok L"
    and ready: "may_qualify L d credentials sid au E1 [E2, E3, E4, E5]"
    and fw: "command_supported fw Cmd_GetPseudoRandom" "command_supported fw Cmd_CloseSession"
    and random: "cap_contains (au_capabilities au) Cap_GetPseudoRandom" "entropy E4 0 32 = Some random" "length random = 32"
  obtains d' where "case_secure_session L sec1_ok (in_process L fw) credentials ([E1, E2, E3, E4, E5], d) = (Ok (), ([], d'))"
    "device_wf L d'" "same_contents d d'" "bt_get (dv_sessions d') sid = None"
proof -
  let ?echo = "str_bytes ''encrypted echo''"
  obtain s1 d1 where o1: "case_secure_session L sec1_ok (in_process L fw) credentials ([E1, E2, E3, E4, E5], d)
      = (let m = script_secure_session L (in_process L fw) (s1, ([E3, E4, E5], d1)) in (fst m, snd (snd m)))"
    "client_at L (now E2) sid au s1 d1" "same_contents d d1" "timely (now E2) [E3, E4, E5]" "op_force_audit (dv_options d1) = OPTION_OFF"
    using opens_in_session [OF laws ready] unfolding case_secure_session_def by metis
  have t: "now E3 - now E2 < SESSION_INACTIVITY_TIMEOUT" "now E4 - now E3 < SESSION_INACTIVITY_TIMEOUT"
    "now E5 - now E4 < SESSION_INACTIVITY_TIMEOUT" using o1(4) by simp_all
  have e: "length ?echo \<le> 8172" by (simp add: str_bytes_def)
  have run: "runs_in_session L E3 fw au Cmd_Echo ?echo (in_message (now E3) sid d1) (Ok ?echo) (in_message (now E3) sid d1)"
    by (rule runs_echo [OF _ e]) (use o1(5) in \<open>simp add: in_message_def\<close>)
  obtain s2 d2 where o2: "client_query L (in_process L fw) Cmd_Echo ?echo (s1, ([E3, E4, E5], d1)) = (Ok ?echo, (s2, ([E4, E5], d2)))"
    "client_at L (now E3) sid au s2 d2" "same_contents d1 d2"
    by (rule client_reads [OF laws(1,3) o1(2) t(1) run]) simp_all
  have off2: "op_force_audit (dv_options d2) = OPTION_OFF" using same_options [OF o2(3)] o1(5) by simp
  have n: "entropy E4 0 (unat (32 :: u16)) = Some random" "length random \<le> 8172" using random(2,3) by simp_all
  obtain s3 d3 where o3: "client_query L (in_process L fw) Cmd_GetPseudoRandom (be16 32) (s2, ([E4, E5], d2)) = (Ok random, (s3, ([E5], d3)))"
    "client_at L (now E4) sid au s3 d3" "same_contents d2 d3"
    by (rule client_random [OF laws(1,3) o2(2) t(2) off2 fw(1) random(1) n])
  have off3: "op_force_audit (dv_options d3) = OPTION_OFF" using same_options [OF o3(3)] off2 by simp
  obtain s4 d4 where o4: "client_close L (in_process L fw) (s3, ([E5], d3)) = (Ok (), (s4, ([], d4)))"
    "device_wf L d4" "bt_get (dv_sessions d4) sid = None" "same_contents d3 d4"
    by (rule client_closes [OF laws(1,3) o3(2) t(3) off3 fw(2)])
  have "same_contents d d4" using o1(3) o2(3) o3(3) o4(4) by (simp add: same_contents_def)
  with o1(1) o2(1) o3(1) o4 random(3) show thesis by (intro that [of d4]) (simp_all add: script_secure_session_def)
qed

end
