(* ===== verification/Qualification_Objects.thy ===== *)
theory Qualification_Objects
  imports Qualification_Managed
begin

unbundle bit_operations_syntax

text \<open>
  The life of a temporary opaque object under the qualification tool: put, read, described, listed,
  deleted, gone. Each command of the case is one lemma; the case passes on every device that meets its
  preconditions and leaves the objects as they were.
\<close>

section \<open>The temporary object\<close>

definition opaque_record :: "u16 \<Rightarrow> CapabilitySet \<Rightarrow> bytes \<Rightarrow> bytes \<Rightarrow> 'k ObjectRecord" where
  "opaque_record i capabilities label payload =
     \<lparr>or_info = new_info (header_fields i label 1 capabilities OPAQUE_DATA_ALGORITHM) i (length payload) Ty_Opaque
        OPAQUE_DATA_ALGORITHM 2 cap_NONE,
      or_material = Mat_Opaque payload\<rparr>"

lemma opaque_record_simps [simp]:
  "info_key (or_info (opaque_record i c l p)) = ObjectKey Ty_Opaque i" "or_material (opaque_record i c l p) = Mat_Opaque p"
  "oi_domains (or_info (opaque_record i c l p)) = 1" "oi_capabilities (or_info (opaque_record i c l p)) = c"
  "oi_delegated_capabilities (or_info (opaque_record i c l p)) = cap_NONE" "oi_id (or_info (opaque_record i c l p)) = i"
  "oi_object_type (or_info (opaque_record i c l p)) = Ty_Opaque"
  by (simp_all add: opaque_record_def new_info_def header_fields_def info_key_def)

lemma opaque_record_validates:
  assumes "i \<noteq> 0" "i \<noteq> u16_MAX" "length p < 65536"
  shows "info_validate (or_info (opaque_record i c l p :: 'k ObjectRecord)) = Ok ()"
    "record_validate (L :: 'k lib) (opaque_record i c l p) = Ok ()"
proof -
  have "length (trim_label (resize 40 l)) \<le> length (resize 40 l)" unfolding trim_label_def by (rule length_takeWhile_le)
  then have "length (oi_label (or_info (opaque_record i c l p :: 'k ObjectRecord))) \<le> 40"
    by (simp add: opaque_record_def new_info_def header_fields_def)
  with assms show v: "info_validate (or_info (opaque_record i c l p :: 'k ObjectRecord)) = Ok ()" by simp
  have "unat (oi_length (or_info (opaque_record i c l p :: 'k ObjectRecord))) = length p"
    using assms(3) by (simp add: opaque_record_def new_info_def unat_of_nat)
  with v show "record_validate L (opaque_record i c l p) = Ok ()"
    unfolding record_validate_def by (simp add: expected_info_length_def Let_def del: info_validate_Ok)
qed

lemma put_opaque_stores:
  assumes "decode_request decode_object_request data = Ok
      \<lparr>oq_header = header_fields i l 1 c OPAQUE_DATA_ALGORITHM, oq_material = p\<rparr>"
    "algorithm_enabled fw d OPAQUE_DATA_ALGORITHM" "bt_get (dv_objects d) (ObjectKey Ty_Opaque i) = None"
    "i \<noteq> 0" "i \<noteq> u16_MAX" "length p < 65536" "cap_contains (au_capabilities au) Cap_PutOpaque" "odd (au_domains au)"
    "cap_is_subset_of c (au_delegated_capabilities au)" "cap_is_subset_of cap_NONE (au_delegated_capabilities au)"
  shows "put_opaque (L :: 'k lib) E fw au data d = (Ok (be16 i), store_record (opaque_record i c l p) d)"
proof -
  note v = opaque_record_validates [OF assms(4-6)]
  have h: "oh_requested_id (header_fields i l 1 c OPAQUE_DATA_ALGORITHM) = i"
    "oh_algorithm (header_fields i l 1 c OPAQUE_DATA_ALGORITHM) = OPAQUE_DATA_ALGORITHM" by (simp_all add: header_fields_def)
  have "(1 :: u16) AND NOT (au_domains au) = 0"
  proof (rule bit_word_eqI)
    fix n show "bit ((1 :: u16) AND NOT (au_domains au)) n = bit (0 :: u16) n"
      using assms(8) by (cases n) (auto simp: bit_simps simp flip: bit_0)
  qed
  then have create: "authorize_create au (or_info (opaque_record i c l p :: 'k ObjectRecord)) Cap_PutOpaque = Ok ()"
    using v(1) assms(7,9,10) by (simp add: authorize_create_def require_capability_def del: one_and_eq info_validate_Ok)
  have written: "validate_and_write L E (opaque_record i c l p) r d = (Ok r, store_record (opaque_record i c l p) d)" for r
    using v(2) by (simp add: validate_and_write_def write_object_def promote_private_material_def check_public_wrap_key_def)
  show ?thesis
    using assms(1-6) create written h
    by (simp add: put_opaque_def require_algorithm_enabled_def resolve_id_def u16_try_from_def opaque_record_def Let_def
        del: decode_request_Ok)
qed

section \<open>The commands of the case\<close>

lemma client_send_query: "client_send L tr (new_frame c data) c st = client_query L tr c data st"
  by (simp add: client_send_def client_query_def)

lemma store_record_in_message [simp]:
  "same_contents (store_record r (in_message t sid d)) d' = same_contents (store_record r d) d'"
  by (simp add: same_contents_def store_record_def in_message_def next_generation_def Let_def)

lemma client_puts_opaque:
  assumes laws: "cipher_laws L" "password_kdf_ok L" and at: "client_at L t sid au s d"
    and soon: "now E - t < SESSION_INACTIVITY_TIMEOUT" and off: "op_force_audit (dv_options d) = OPTION_OFF"
    and fw: "command_supported fw Cmd_PutOpaque" "algorithm_enabled fw d OPAQUE_DATA_ALGORITHM"
    and fresh: "bt_get (dv_objects d) (ObjectKey Ty_Opaque i) = None" "i \<noteq> 0" "i \<noteq> u16_MAX"
    and au: "cap_contains (au_capabilities au) Cap_PutOpaque" "odd (au_domains au)"
      "cap_is_subset_of c (au_delegated_capabilities au)" "cap_is_subset_of cap_NONE (au_delegated_capabilities au)"
    and lens: "length c = 8" "length p \<le> 8000"
  obtains s' d2 where "client_send L (in_process L fw) (build_put_opaque i 1 c l p) Cmd_PutOpaque (s, (E # Es, d))
      = (Ok (be16 i), (s', (Es, d2)))"
    "client_at L (now E) sid au s' d2" "same_contents (store_record (opaque_record i c l p) d) d2"
proof -
  let ?d = "in_message (now E) sid d" and ?data = "creation_header i l 1 c (algorithm_code Alg_OpaqueData) @ p"
  have alg: "algorithm_code Alg_OpaqueData = OPAQUE_DATA_ALGORITHM" by (simp add: OPAQUE_DATA_ALGORITHM_def)
  have dec: "decode_request decode_object_request ?data = Ok
      \<lparr>oq_header = header_fields i l 1 c OPAQUE_DATA_ALGORITHM, oq_material = p\<rparr>"
    unfolding alg by (rule creation_request_read(1) [OF lens(1)])
  have n: "length ?data \<le> 8172" using lens by (simp add: creation_header_def)
  have d: "dv_objects ?d = dv_objects d" "dv_options ?d = dv_options d" "algorithm_enabled fw ?d OPAQUE_DATA_ALGORITHM"
    using fw(2) by (simp_all add: in_message_def algorithm_enabled_def)
  have put: "put_opaque L E fw au ?data ?d = (Ok (be16 i), store_record (opaque_record i c l p) ?d)"
    by (rule put_opaque_stores [OF dec d(3) _ fresh(2,3) _ au]) (use fresh(1) d(1) lens(2) in simp_all)
  have run: "runs_in_session L E fw au Cmd_PutOpaque ?data ?d (Ok (be16 i)) (store_record (opaque_record i c l p) ?d)"
    by (rule runs_update) (use off d fw(1) au(1) fresh dec put n in
      \<open>simp_all add: authorize_request_objects_def run_query_def run_update_def fits_answer_def header_fields_def del: decode_request_Ok\<close>)
  show thesis
    by (rule client_query_Ok [OF laws at soon run, where Es = Es]) (simp_all add: that build_put_opaque_def client_send_query)
qed

lemma client_gets_opaque:
  assumes laws: "cipher_laws L" "password_kdf_ok L" and at: "client_at L t sid au s d"
    and soon: "now E - t < SESSION_INACTIVITY_TIMEOUT" and off: "op_force_audit (dv_options d) = OPTION_OFF"
    and fw: "command_supported fw Cmd_GetOpaque" "cap_contains (au_capabilities au) Cap_GetOpaque"
    and stored: "bt_get (dv_objects d) (ObjectKey Ty_Opaque i) = Some r" "or_material r = Mat_Opaque p" "can_see au (or_info r)"
      "length p \<le> 8172"
  obtains s' d2 where "client_query L (in_process L fw) Cmd_GetOpaque (be16 i) (s, (E # Es, d)) = (Ok p, (s', (Es, d2)))"
    "client_at L (now E) sid au s' d2" "same_contents d d2"
proof -
  let ?d = "in_message (now E) sid d"
  have dec: "decode_request decode_u16 (be16 i) = Ok i" by (simp add: decode_u16_def)
  have run: "runs_in_session L E fw au Cmd_GetOpaque (be16 i) ?d (Ok p) ?d"
    by (rule runs_query) (use off fw stored dec in
      \<open>simp_all add: authorize_request_objects_def run_query_def get_opaque_def require_object_visible_def require_visible_def
        in_message_def fits_answer_def del: decode_request_Ok\<close>)
  show thesis by (rule client_reads [OF laws at soon run, where Es = Es]) (simp_all add: that)
qed

lemma client_describes:
  assumes laws: "cipher_laws L" "password_kdf_ok L" and at: "client_at L t sid au s d"
    and soon: "now E - t < SESSION_INACTIVITY_TIMEOUT" and off: "op_force_audit (dv_options d) = OPTION_OFF"
    and fw: "command_supported fw Cmd_GetObjectInfo"
    and stored: "bt_get (dv_objects d) (ObjectKey ty i) = Some r" "can_see au (or_info r)"
  obtains s' d2 info where "client_query L (in_process L fw) Cmd_GetObjectInfo (object_key_bytes i ty) (s, (E # Es, d))
      = (Ok info, (s', (Es, d2)))"
    "length info = 66" "take 40 (drop 18 info) = resize 40 (oi_label (or_info r))"
    "client_at L (now E) sid au s' d2" "same_contents d d2"
proof -
  let ?d = "in_message (now E) sid d"
  let ?i = "(or_info r)\<lparr>oi_capabilities := cap_retain_firmware_supported fw (oi_capabilities (or_info r)),
        oi_delegated_capabilities := cap_retain_firmware_supported fw (oi_delegated_capabilities (or_info r))\<rparr>"
  have "record_wf L r" using at stored(1) store_wfD(2) by (auto simp: client_at_def device_wf_def core_wf_def)
  then have wf: "info_wf ?i" "info_validate ?i = Ok ()"
    using record_validate_info [of L r] by (auto simp: record_wf_def info_wf_def)
  obtain info where info: "info_encode ?i = Ok info" "length info = 66" "take 40 (drop 18 info) = resize 40 (oi_label (or_info r))"
    using info_encode_layout [OF wf] wf by (simp add: info_wf_def cap_wf_def resize_def drop_Cons')
  have run: "runs_in_session L E fw au Cmd_GetObjectInfo (object_key_bytes i ty) ?d (Ok info) ?d"
    by (rule runs_query) (use off fw stored info object_key_read [of i ty] in
      \<open>simp_all add: authorize_request_objects_def run_query_def get_object_info_def require_object_visible_def require_visible_def
        in_message_def fits_answer_def object_key_bytes_def del: decode_request_Ok\<close>)
  show thesis by (rule client_reads [OF laws at soon run, where Es = Es]) (simp_all add: that info(2,3))
qed

lemma client_deletes:
  assumes laws: "cipher_laws L" "password_kdf_ok L" and at: "client_at L t sid au s d"
    and soon: "now E - t < SESSION_INACTIVITY_TIMEOUT" and off: "op_force_audit (dv_options d) = OPTION_OFF"
    and fw: "command_supported fw Cmd_DeleteObject" "cap_contains (au_capabilities au) (deletion_capability ty)"
    and stored: "bt_get (dv_objects d) (ObjectKey ty i) = Some r" "can_see au (or_info r)" "oi_object_type (or_info r) = ty"
  obtains s' d2 where "client_delete_object L (in_process L fw) i ty (s, (E # Es, d)) = (Ok (), (s', (Es, d2)))"
    "client_at L (now E) sid au s' d2" "same_contents (d\<lparr>dv_objects := bt_remove (ObjectKey ty i) (dv_objects d)\<rparr>) d2"
proof -
  let ?d = "in_message (now E) sid d"
  let ?d' = "?d\<lparr>dv_objects := bt_remove (ObjectKey ty i) (dv_objects ?d)\<rparr>"
  have run: "runs_in_session L E fw au Cmd_DeleteObject (object_key_bytes i ty) ?d (Ok []) ?d'"
    by (rule runs_update) (use off fw stored object_key_read [of i ty] in
      \<open>simp_all add: authorize_request_objects_def run_query_def run_update_def delete_object_def authorize_delete_def
        require_visible_def require_capability_def in_message_def fits_answer_def object_key_bytes_def
        del: decode_request_Ok authorize_delete_Ok\<close>)
  have "same_contents ?d' d2 = same_contents (d\<lparr>dv_objects := bt_remove (ObjectKey ty i) (dv_objects d)\<rparr>) d2" for d2
    by (simp add: same_contents_def in_message_def)
  then show thesis
    by - (rule client_query_Ok [OF laws at soon run, where Es = Es], simp_all add: that client_delete_object_def)
qed

lemma client_misses_opaque:
  assumes laws: "cipher_laws L" "password_kdf_ok L" and at: "client_at L t sid au s d"
    and soon: "now E - t < SESSION_INACTIVITY_TIMEOUT" and off: "op_force_audit (dv_options d) = OPTION_OFF"
    and fw: "command_supported fw Cmd_GetOpaque" "cap_contains (au_capabilities au) Cap_GetOpaque"
    and gone: "bt_get (dv_objects d) (ObjectKey Ty_Opaque i) = None"
  obtains s' d2 where "client_expects_error L (in_process L fw) Cmd_GetOpaque (be16 i) ObjectNotFound (s, (E # Es, d))
      = (Ok (), (s', (Es, d2)))"
    "client_at L (now E) sid au s' d2" "same_contents d d2"
proof -
  let ?d = "in_message (now E) sid d" and ?q = "\<lparr>fr_command = command_code Cmd_GetOpaque, fr_data = be16 i\<rparr>"
  have dec: "decode_request decode_u16 (be16 i) = Ok i" by (simp add: decode_u16_def)
  have run: "runs_in_session L E fw au Cmd_GetOpaque (be16 i) ?d (Err ObjectNotFound) ?d"
    by (rule runs_refused) (use off fw gone dec in
      \<open>simp_all add: authorize_request_objects_def require_object_visible_def in_message_def del: decode_request_Ok\<close>)
  obtain s' d2 where x: "client_command L (in_process L fw) ?q (s, (E # Es, d)) = (Ok (frame_error ObjectNotFound), (s', (Es, d2)))"
    "client_at L (now E) sid au s' d2" "same_contents d d2"
    by (rule client_runs [OF laws at soon run, where Es = Es]) (simp_all add: answer_frame_def)
  have "new_frame Cmd_GetOpaque (be16 i) = Ok ?q" by (rule small_frame) (simp add: frame_consts)
  with x show thesis
    by (intro that [of s' d2]) (simp_all add: client_expects_error_def expect_error_frame del: command_code.simps)
qed

section \<open>The case\<close>

lemma visible_objects_same: "same_contents d d' \<Longrightarrow> visible_objects au d' = visible_objects au d"
  by (simp add: same_contents_def visible_objects_def)

lemma visible_objects_mem:
  assumes "device_wf L d" "bt_get (dv_objects d) (ObjectKey ty i) = Some r" "can_see au (or_info r)"
  shows "(i, ty) \<in> visible_objects au d"
proof -
  have w: "store_wf L d" using assms(1) by (simp add: device_wf_def core_wf_def)
  then have "(ObjectKey ty i, r) \<in> set (dv_objects d)" using bt.get_entries [of "dv_objects d"] assms(2) by (simp add: store_wf_def)
  then have "r \<in> set (bt_values (dv_objects d))" by (force simp: bt_values_def)
  moreover have "oi_id (or_info r) = i" "oi_object_type (or_info r) = ty"
    using store_wfD(1) [OF w assms(2)] by (simp_all add: info_key_def)
  ultimately show ?thesis using assms(3) unfolding visible_objects_def by blast
qed

text \<open>
  What the case asks of the device: the commands it uses, the rights of the operator's key, an identifier
  that is free and not hidden by an object of another domain, and a listing that fits one answer.
\<close>

definition opaque_case_ready ::
  "FirmwareProfile \<Rightarrow> SessionAuthorization \<Rightarrow> 'k Device \<Rightarrow> u16 \<Rightarrow> bool" where
  "opaque_case_ready fw au d i =
     (list_all (command_supported fw) [Cmd_ListObjects, Cmd_PutOpaque, Cmd_GetOpaque, Cmd_GetObjectInfo, Cmd_DeleteObject, Cmd_CloseSession]
      \<and> algorithm_enabled fw d OPAQUE_DATA_ALGORITHM
      \<and> list_all (cap_contains (au_capabilities au)) [Cap_PutOpaque, Cap_GetOpaque, Cap_DeleteOpaque]
      \<and> cap_is_subset_of (cap_from_capabilities [Cap_GetOpaque]) (au_delegated_capabilities au)
      \<and> cap_is_subset_of cap_NONE (au_delegated_capabilities au)
      \<and> odd (au_domains au) \<and> length (dv_objects d) < 2043
      \<and> unused_id (visible_objects au d) Ty_Opaque 0x7e00 = Ok i
      \<and> (case bt_get (dv_objects d) (ObjectKey Ty_Opaque i) of Some r \<Rightarrow> can_see au (or_info r) | None \<Rightarrow> True))"

lemma opaque_case_fresh:
  assumes "device_wf L d" "opaque_case_ready fw au d i"
  shows "bt_get (dv_objects d) (ObjectKey Ty_Opaque i) = None" "i \<noteq> 0" "i \<noteq> u16_MAX"
proof -
  have u: "unused_id (visible_objects au d) Ty_Opaque 0x7e00 = Ok i" using assms(2) by (simp add: opaque_case_ready_def)
  note f = unused_id_fresh [OF u]
  show "bt_get (dv_objects d) (ObjectKey Ty_Opaque i) = None"
    using visible_objects_mem [OF assms(1)] f(1) assms(2) by (auto simp: opaque_case_ready_def split: option.splits)
  show "i \<noteq> 0" "i \<noteq> u16_MAX" using f(2,3) by auto
qed

lemma opaque_case_stores:
  assumes laws: "cipher_laws L" "password_kdf_ok L" and at: "client_at L t sid au s1 d1" and contents: "same_contents d d1" "device_wf L d"
    and times: "timely t [E3, E4, E5]" and off: "op_force_audit (dv_options d) = OPTION_OFF"
    and ready: "opaque_case_ready fw au d i" and lens: "length c = 8" "length p \<le> 8000" "cap_is_subset_of c (au_delegated_capabilities au)"
  obtains s2 s3 s4 d2 d3 d4 r where
    "client_list_objects L (in_process L fw) (s1, (E3 # E4 # E5 # Es, d1)) = (Ok (visible_objects au d), (s2, (E4 # E5 # Es, d2)))"
    "client_send L (in_process L fw) (build_put_opaque i 1 c l p) Cmd_PutOpaque (s2, (E4 # E5 # Es, d2)) = (Ok (be16 i), (s3, (E5 # Es, d3)))"
    "client_query L (in_process L fw) Cmd_GetOpaque (be16 i) (s3, (E5 # Es, d3)) = (Ok p, (s4, (Es, d4)))"
    "client_at L (now E5) sid au s4 d4" "dv_objects d4 = bt_insert (ObjectKey Ty_Opaque i) r (dv_objects d)"
    "dv_options d4 = dv_options d" "can_see au (or_info r)" "oi_object_type (or_info r) = Ty_Opaque"
proof -
  let ?k = "ObjectKey Ty_Opaque i" and ?tr = "in_process L fw"
  note fresh = opaque_case_fresh [OF contents(2) ready]
  note c = ready [unfolded opaque_case_ready_def, simplified]
  have t: "now E3 - t < SESSION_INACTIVITY_TIMEOUT" "now E4 - now E3 < SESSION_INACTIVITY_TIMEOUT"
    "now E5 - now E4 < SESSION_INACTIVITY_TIMEOUT" using times by simp_all
  have objs1: "dv_objects d1 = dv_objects d" "dv_options d1 = dv_options d" "dv_config d1 = dv_config d"
    using contents(1) by (simp_all add: same_contents_def)
  obtain s2 d2 where o2: "client_list_objects L ?tr (s1, (E3 # E4 # E5 # Es, d1)) = (Ok (visible_objects au d1), (s2, (E4 # E5 # Es, d2)))"
    "client_at L (now E3) sid au s2 d2" "same_contents d1 d2"
    by (rule client_lists [OF laws at t(1), where fw = fw]) (use c off objs1 in simp_all)
  have objs2: "dv_objects d2 = dv_objects d" "dv_options d2 = dv_options d" "dv_config d2 = dv_config d"
    using o2(3) objs1 by (simp_all add: same_contents_def)
  have enabled: "algorithm_enabled fw d2 OPAQUE_DATA_ALGORITHM" using c objs2 by (simp add: algorithm_enabled_def)
  obtain s3 d3 where o3: "client_send L ?tr (build_put_opaque i 1 c l p) Cmd_PutOpaque (s2, (E4 # E5 # Es, d2))
      = (Ok (be16 i), (s3, (E5 # Es, d3)))"
    "client_at L (now E4) sid au s3 d3" "same_contents (store_record (opaque_record i c l p) d2) d3"
    by (rule client_puts_opaque [OF laws o2(2) t(2) _ _ enabled _ fresh(2,3) _ _ lens(3) _ lens(1,2)]) (use c off objs2 fresh(1) in simp_all)
  obtain r where r: "bt_get (dv_objects d3) ?k = Some r" "or_material r = Mat_Opaque p" "can_see au (or_info r)"
    "oi_object_type (or_info r) = Ty_Opaque" "dv_objects d3 = bt_insert ?k r (dv_objects d)" "dv_options d3 = dv_options d"
  proof
    let ?r = "(opaque_record i c l p :: 'a ObjectRecord)\<lparr>or_info := (or_info (opaque_record i c l p :: 'a ObjectRecord))\<lparr>oi_sequence := ucast (next_generation d2 i)\<rparr>\<rparr>"
    show "dv_objects d3 = bt_insert ?k ?r (dv_objects d)" "dv_options d3 = dv_options d"
      using o3(3) objs2 by (simp_all add: same_contents_def store_record_def Let_def)
    then show "bt_get (dv_objects d3) ?k = Some ?r" by simp
    show "can_see au (or_info ?r)" using c by (simp add: can_see_def and_one_eq odd_iff_mod_2_eq_one)
  qed simp_all
  obtain s4 d4 where o4: "client_query L ?tr Cmd_GetOpaque (be16 i) (s3, (E5 # Es, d3)) = (Ok p, (s4, (Es, d4)))"
    "client_at L (now E5) sid au s4 d4" "same_contents d3 d4"
    by (rule client_gets_opaque [OF laws o3(2) t(3) _ _ _ r(1-3), where fw = fw]) (use c off r(6) lens in simp_all)
  show thesis
    by (rule that [OF o2(1) [unfolded visible_objects_same [OF contents(1)]] o3(1) o4(1,2) _ _ r(3,4)])
      (use o4(3) r(5,6) in \<open>simp_all add: same_contents_def\<close>)
qed

lemma opaque_case_removes:
  assumes laws: "cipher_laws L" "password_kdf_ok L" and at: "client_at L t sid au s4 d4"
    and times: "timely t [E6, E7, E8, E9, E10]" and off: "op_force_audit (dv_options d) = OPTION_OFF"
    and ready: "opaque_case_ready fw au d i" and wf: "device_wf L d"
    and stored: "dv_objects d4 = bt_insert (ObjectKey Ty_Opaque i) r (dv_objects d)" "dv_options d4 = dv_options d"
      "can_see au (or_info r)" "oi_object_type (or_info r) = Ty_Opaque"
  obtains s5 s6 s7 s8 s9 d5 d6 d7 d8 d9 info listed where
    "client_query L (in_process L fw) Cmd_GetObjectInfo (object_key_bytes i Ty_Opaque) (s4, ([E6, E7, E8, E9, E10], d4))
      = (Ok info, (s5, ([E7, E8, E9, E10], d5)))" "length info = 66"
    "client_list_objects L (in_process L fw) (s5, ([E7, E8, E9, E10], d5)) = (Ok listed, (s6, ([E8, E9, E10], d6)))"
    "(i, Ty_Opaque) \<in> listed"
    "client_delete_object L (in_process L fw) i Ty_Opaque (s6, ([E8, E9, E10], d6)) = (Ok (), (s7, ([E9, E10], d7)))"
    "client_expects_error L (in_process L fw) Cmd_GetOpaque (be16 i) ObjectNotFound (s7, ([E9, E10], d7)) = (Ok (), (s8, ([E10], d8)))"
    "client_close L (in_process L fw) (s8, ([E10], d8)) = (Ok (), (s9, ([], d9)))"
    "device_wf L d9" "bt_get (dv_sessions d9) sid = None" "dv_objects d9 = dv_objects d"
proof -
  let ?k = "ObjectKey Ty_Opaque i" and ?tr = "in_process L fw"
  note fresh = opaque_case_fresh [OF wf ready]
  note c = ready [unfolded opaque_case_ready_def, simplified]
  have t: "now E6 - t < SESSION_INACTIVITY_TIMEOUT" "now E7 - now E6 < SESSION_INACTIVITY_TIMEOUT"
    "now E8 - now E7 < SESSION_INACTIVITY_TIMEOUT" "now E9 - now E8 < SESSION_INACTIVITY_TIMEOUT"
    "now E10 - now E9 < SESSION_INACTIVITY_TIMEOUT" using times by simp_all
  have w: "bt_wf (dv_objects d)" using wf by (simp add: device_wf_def core_wf_def store_wf_def)
  obtain s5 d5 info where o5: "client_query L ?tr Cmd_GetObjectInfo (object_key_bytes i Ty_Opaque) (s4, ([E6, E7, E8, E9, E10], d4))
      = (Ok info, (s5, ([E7, E8, E9, E10], d5)))" "length info = 66"
    "take 40 (drop 18 info) = resize 40 (oi_label (or_info r))" "client_at L (now E6) sid au s5 d5" "same_contents d4 d5"
    by (rule client_describes [OF laws at t(1), where fw = fw and ty = Ty_Opaque and i = i and r = r]) (use c off stored in simp_all)
  have objs5: "dv_objects d5 = bt_insert ?k r (dv_objects d)" "dv_options d5 = dv_options d"
    using o5(5) stored by (simp_all add: same_contents_def)
  have len: "length (dv_objects d5) \<le> 2043" using c objs5(1) bt.length_insert [OF w, of ?k r] by (simp split: if_splits)
  obtain s6 d6 where o6: "client_list_objects L ?tr (s5, ([E7, E8, E9, E10], d5)) = (Ok (visible_objects au d5), (s6, ([E8, E9, E10], d6)))"
    "client_at L (now E7) sid au s6 d6" "same_contents d5 d6"
    by (rule client_lists [OF laws o5(4) t(2) _ len, where fw = fw]) (use c off objs5 in simp_all)
  have listed: "(i, Ty_Opaque) \<in> visible_objects au d5"
    using visible_objects_mem [of L d5 Ty_Opaque i r au] o5(4) stored(3) objs5(1) by (simp add: client_at_def)
  have objs6: "dv_objects d6 = bt_insert ?k r (dv_objects d)" "dv_options d6 = dv_options d"
    using o6(3) objs5 by (simp_all add: same_contents_def)
  obtain s7 d7 where o7: "client_delete_object L ?tr i Ty_Opaque (s6, ([E8, E9, E10], d6)) = (Ok (), (s7, ([E9, E10], d7)))"
    "client_at L (now E8) sid au s7 d7" "same_contents (d6\<lparr>dv_objects := bt_remove ?k (dv_objects d6)\<rparr>) d7"
    by (rule client_deletes [OF laws o6(2) t(3), where fw = fw and r = r and ty = Ty_Opaque and i = i]) (use c off objs6 stored in simp_all)
  have "bt_remove ?k (bt_insert ?k r (dv_objects d)) = dv_objects d"
    using fresh(1) w by (intro bt_ext) (auto simp: bt.wf_insert bt.wf_remove)
  then have objs7: "dv_objects d7 = dv_objects d" "dv_options d7 = dv_options d"
    using o7(3) objs6 by (simp_all add: same_contents_def)
  obtain s8 d8 where o8: "client_expects_error L ?tr Cmd_GetOpaque (be16 i) ObjectNotFound (s7, ([E9, E10], d7))
      = (Ok (), (s8, ([E10], d8)))" "client_at L (now E9) sid au s8 d8" "same_contents d7 d8"
    by (rule client_misses_opaque [OF laws o7(2) t(4), where fw = fw and i = i]) (use c off objs7 fresh(1) in simp_all)
  have objs8: "dv_objects d8 = dv_objects d" "dv_options d8 = dv_options d" using o8(3) objs7 by (simp_all add: same_contents_def)
  obtain s9 d9 where o9: "client_close L ?tr (s8, ([E10], d8)) = (Ok (), (s9, ([], d9)))"
    "device_wf L d9" "bt_get (dv_sessions d9) sid = None" "same_contents d8 d9"
    by (rule client_closes [OF laws o8(2) t(5), where fw = fw]) (use c off objs8 in simp_all)
  show thesis
    by (rule that [OF o5(1,2) o6(1) listed o7(1) o8(1) o9(1-3)]) (use o9(4) objs8 in \<open>simp add: same_contents_def\<close>)
qed

lemma opaque_lifecycle_passes:
  assumes laws: "cipher_laws L" "scp03_law L" "password_kdf_ok L"
    and ready: "may_qualify L d credentials sid au E1 [E2, E3, E4, E5, E6, E7, E8, E9, E10]"
    and case_ready: "opaque_case_ready fw au d i"
  shows "\<exists>d'. case_opaque_lifecycle L sec1_ok (in_process L fw) credentials ([E1, E2, E3, E4, E5, E6, E7, E8, E9, E10], d)
      = (Ok (), ([], d')) \<and> device_wf L d' \<and> dv_objects d' = dv_objects d \<and> bt_get (dv_sessions d') sid = None"
proof -
  let ?c = "cap_from_capabilities [Cap_GetOpaque]" and ?l = "str_bytes ''qualification''"
  let ?p = "str_bytes ''temporary qualification object''" and ?k = "ObjectKey Ty_Opaque i"
  let ?tr = "in_process L fw" and ?Es = "[E6, E7, E8, E9, E10]"
  have wf: "device_wf L d" "op_force_audit (dv_options d) = OPTION_OFF"
    using ready by (auto simp: may_qualify_def split: CredentialMaterial.splits)
  have lens: "length ?c = 8" by code_simp
  have "length ?p \<le> 8000" by (simp add: str_bytes_def)
  note lens = lens this
  have sub: "cap_is_subset_of ?c (au_delegated_capabilities au)" "unused_id (visible_objects au d) Ty_Opaque 0x7e00 = Ok i"
    using case_ready by (simp_all add: opaque_case_ready_def)
  obtain s1 d1 where o1: "case_opaque_lifecycle L sec1_ok ?tr credentials (E1 # E2 # E3 # E4 # E5 # ?Es, d)
      = (let m = script_opaque_lifecycle L ?tr (s1, (E3 # E4 # E5 # ?Es, d1)) in (fst m, snd (snd m)))"
    "client_at L (now E2) sid au s1 d1" "same_contents d d1" "timely (now E2) (E3 # E4 # E5 # ?Es)"
    "op_force_audit (dv_options d1) = OPTION_OFF"
    unfolding case_opaque_lifecycle_def by (rule opens_in_session [OF laws ready])
  have t: "timely (now E2) [E3, E4, E5]" "timely (now E5) ?Es" using o1(4) by simp_all
  obtain s2 s3 s4 d2 d3 d4 r where a:
    "client_list_objects L ?tr (s1, (E3 # E4 # E5 # ?Es, d1)) = (Ok (visible_objects au d), (s2, (E4 # E5 # ?Es, d2)))"
    "client_send L ?tr (build_put_opaque i 1 ?c ?l ?p) Cmd_PutOpaque (s2, (E4 # E5 # ?Es, d2)) = (Ok (be16 i), (s3, (E5 # ?Es, d3)))"
    "client_query L ?tr Cmd_GetOpaque (be16 i) (s3, (E5 # ?Es, d3)) = (Ok ?p, (s4, (?Es, d4)))"
    and r: "client_at L (now E5) sid au s4 d4" "dv_objects d4 = bt_insert ?k r (dv_objects d)"
    "dv_options d4 = dv_options d" "can_see au (or_info r)" "oi_object_type (or_info r) = Ty_Opaque"
    by (rule opaque_case_stores [OF laws(1,3) o1(2,3) wf(1) t(1) wf(2) case_ready lens sub(1)])
  obtain s5 s6 s7 s8 s9 d5 d6 d7 d8 d9 info listed where b:
    "client_query L ?tr Cmd_GetObjectInfo (object_key_bytes i Ty_Opaque) (s4, (?Es, d4))
      = (Ok info, (s5, ([E7, E8, E9, E10], d5)))" "length info = 66"
    "client_list_objects L ?tr (s5, ([E7, E8, E9, E10], d5)) = (Ok listed, (s6, ([E8, E9, E10], d6)))" "(i, Ty_Opaque) \<in> listed"
    "client_delete_object L ?tr i Ty_Opaque (s6, ([E8, E9, E10], d6)) = (Ok (), (s7, ([E9, E10], d7)))"
    "client_expects_error L ?tr Cmd_GetOpaque (be16 i) ObjectNotFound (s7, ([E9, E10], d7)) = (Ok (), (s8, ([E10], d8)))"
    "client_close L ?tr (s8, ([E10], d8)) = (Ok (), (s9, ([], d9)))"
    and d9: "device_wf L d9" "bt_get (dv_sessions d9) sid = None" "dv_objects d9 = dv_objects d"
    by (rule opaque_case_removes [OF laws(1,3) r(1) t(2) wf(2) case_ready wf(1) r(2-5)])
  have "script_opaque_lifecycle L ?tr (s1, (E3 # E4 # E5 # ?Es, d1)) = (Ok (), (s9, ([], d9)))"
    using sub(2) a b by (simp add: script_opaque_lifecycle_def)
  with o1(1) d9 show ?thesis by simp
qed

end
