(* ===== verification/Qualification_Cleanup.thy ===== *)
theory Qualification_Cleanup
  imports Qualification_Objects "HOL-Library.Product_Lexorder"
begin

text \<open>
  Removing what an interrupted qualification run left on a device
  (\<^verbatim>\<open>cleanup_qualification_objects\<close>): every object the administrator can see is described, and deleted when
  its label starts with the prefix reserved for the tool. The loop ends, removes exactly these objects,
  and reports how many it removed and how many are left.
\<close>

section \<open>The operation\<close>

record CleanupReport =
  rp_removed :: nat
  rp_remaining :: nat

text \<open>The label in an object's description, up to its first zero byte.\<close>

definition described_label :: "bytes \<Rightarrow> bytes" where
  "described_label data = takeWhile (\<lambda>b. b \<noteq> 0) (take 40 (drop 18 data))"

definition reserved_label :: "bytes \<Rightarrow> bool" where
  "reserved_label label = (take 13 label = str_bytes ''qualification'')"

fun cleanup_loop ::
  "'k lib \<Rightarrow> 't transport \<Rightarrow> (u16 \<times> ObjectType) list \<Rightarrow> nat \<Rightarrow> SymmetricSession \<times> 't \<Rightarrow>
     nat case_result \<times> SymmetricSession \<times> 't" where
  "cleanup_loop L tr [] removed st = (Ok removed, st)"
| "cleanup_loop L tr ((i, object_type) # objects) removed st =
     try_st (client_query L tr Cmd_GetObjectInfo (object_key_bytes i object_type) st) (\<lambda>data st.
     try_in (ensure (length data = 66)) st (\<lambda>_.
     if reserved_label (described_label data)
     then try_st (client_delete_object L tr i object_type st) (\<lambda>_ st. cleanup_loop L tr objects (removed + 1) st)
     else cleanup_loop L tr objects removed st))"

text \<open>The objects are visited in the order of the set (\<^verbatim>\<open>BTreeSet\<close>).\<close>

definition script_cleanup ::
  "'k lib \<Rightarrow> 't transport \<Rightarrow> SymmetricSession \<times> 't \<Rightarrow> CleanupReport case_result \<times> SymmetricSession \<times> 't" where
  "script_cleanup L tr st =
     try_st (client_list_objects L tr st) (\<lambda>objects st.
     try_st (cleanup_loop L tr (sorted_list_of_set objects) 0 st) (\<lambda>removed st.
     try_st (client_close L tr st) (\<lambda>_ st.
     (Ok \<lparr>rp_removed = removed, rp_remaining = card objects - removed\<rparr>, st))))"

definition cleanup_qualification_objects ::
  "'k lib \<Rightarrow> (bytes \<Rightarrow> bool) \<Rightarrow> 't transport \<Rightarrow> 't Credentials \<Rightarrow> 't \<Rightarrow> CleanupReport case_result \<times> 't" where
  "cleanup_qualification_objects L sec1_ok tr administrator = in_session L sec1_ok tr administrator (script_cleanup L tr)"

section \<open>What the loop removes\<close>

definition leftover :: "'k ObjectRecord \<Rightarrow> bool" where
  "leftover r = reserved_label (takeWhile (\<lambda>b. b \<noteq> 0) (oi_label (or_info r)))"

lemma described_leftover:
  assumes "take 40 (drop 18 info) = resize 40 (oi_label (or_info r))" "length (oi_label (or_info r)) \<le> 40"
  shows "reserved_label (described_label info) = leftover r"
proof -
  have "takeWhile (\<lambda>b. b \<noteq> 0) (xs @ replicate n 0) = takeWhile (\<lambda>b. b \<noteq> 0) xs" for xs :: bytes and n
    by (induction xs) (cases n, simp_all)
  with assms show ?thesis by (simp add: described_label_def leftover_def resize_def)
qed

text \<open>An object that the loop can handle, and what is left of a list of objects.\<close>

definition may_clean :: "SessionAuthorization \<Rightarrow> 'k Device \<Rightarrow> u16 \<times> ObjectType \<Rightarrow> bool" where
  "may_clean au d = (\<lambda>(i, ty). case bt_get (dv_objects d) (ObjectKey ty i) of
       Some r \<Rightarrow> can_see au (or_info r) \<and> (leftover r \<longrightarrow> cap_contains (au_capabilities au) (deletion_capability ty))
     | None \<Rightarrow> False)"

definition is_leftover :: "'k Device \<Rightarrow> u16 \<times> ObjectType \<Rightarrow> bool" where
  "is_leftover d = (\<lambda>(i, ty). case bt_get (dv_objects d) (ObjectKey ty i) of Some r \<Rightarrow> leftover r | None \<Rightarrow> False)"

definition without_leftovers :: "(u16 \<times> ObjectType) list \<Rightarrow> 'k Device \<Rightarrow> (ObjectKey, 'k ObjectRecord) btree" where
  "without_leftovers objs d = bt_retain (\<lambda>k r. \<not> (leftover r \<and> (key_id k, key_type k) \<in> set objs)) (dv_objects d)"

lemma without_leftovers_step:
  assumes "bt_wf (dv_objects d)"
    "dv_objects d' = (if is_leftover d (i, ty) then bt_remove (ObjectKey ty i) (dv_objects d) else dv_objects d)"
  shows "without_leftovers objs d' = without_leftovers ((i, ty) # objs) d"
proof -
  have "dv_objects d' = filter (\<lambda>e. \<not> (is_leftover d (i, ty) \<and> fst e = ObjectKey ty i)) (dv_objects d)"
    using assms(2) by (simp add: bt_remove_def)
  then show ?thesis unfolding without_leftovers_def bt_retain_def
  proof (simp only: filter_filter, intro filter_cong [OF refl], clarify)
    fix k r assume "(k, r) \<in> set (dv_objects d)"
    then have "bt_get (dv_objects d) k = Some r" using bt.get_entries [OF assms(1)] by simp
    then have "(key_id k, key_type k) = (i, ty) \<Longrightarrow> leftover r = is_leftover d (i, ty)" by (cases k) (auto simp: is_leftover_def)
    then show "(\<not> (is_leftover d (i, ty) \<and> fst (k, r) = ObjectKey ty i) \<and> \<not> (leftover r \<and> (key_id k, key_type k) \<in> set objs))
        = (\<not> (leftover r \<and> (key_id k, key_type k) \<in> set ((i, ty) # objs)))"
      by (cases k) auto
  qed
qed

text \<open>One turn of the loop: it takes one message, or two when the object is deleted.\<close>

lemma cleanup_step:
  assumes laws: "cipher_laws L" "password_kdf_ok L" and at: "client_at L t sid au s d" and t: "timely t (E1 # E2 # Es)"
    and fw: "command_supported fw Cmd_GetObjectInfo" "command_supported fw Cmd_DeleteObject"
    and off: "op_force_audit (dv_options d) = OPTION_OFF" and may: "may_clean au d (i, ty)"
  obtains m t' s' d' where "\<forall>objs n. cleanup_loop L (in_process L fw) ((i, ty) # objs) n (s, (E1 # E2 # Es, d))
      = cleanup_loop L (in_process L fw) objs (n + of_bool (is_leftover d (i, ty))) (s', (drop m (E1 # E2 # Es), d'))"
    "m \<le> 2" "client_at L t' sid au s' d'" "timely t' (drop m (E1 # E2 # Es))"
    "dv_objects d' = (if is_leftover d (i, ty) then bt_remove (ObjectKey ty i) (dv_objects d) else dv_objects d)"
    "dv_options d' = dv_options d"
proof -
  have times: "now E1 - t < SESSION_INACTIVITY_TIMEOUT" "now E2 - now E1 < SESSION_INACTIVITY_TIMEOUT" using t by simp_all
  obtain r where r: "bt_get (dv_objects d) (ObjectKey ty i) = Some r" "can_see au (or_info r)"
    "leftover r \<Longrightarrow> cap_contains (au_capabilities au) (deletion_capability ty)" "is_leftover d (i, ty) = leftover r"
    using may by (auto simp: may_clean_def is_leftover_def split: option.splits)
  have "store_wf L d" using at by (simp add: client_at_def device_wf_def core_wf_def)
  note rec = store_wfD [OF this r(1)]
  obtain s1 d1 info where o1: "client_query L (in_process L fw) Cmd_GetObjectInfo (object_key_bytes i ty) (s, (E1 # E2 # Es, d))
      = (Ok info, (s1, (E2 # Es, d1)))" "length info = 66" "take 40 (drop 18 info) = resize 40 (oi_label (or_info r))"
    "client_at L (now E1) sid au s1 d1" "same_contents d d1"
    by (rule client_describes [OF laws at times(1) off fw(1) r(1,2)])
  have "length (oi_label (or_info r)) \<le> 40" using record_validate_info [of L r] rec(2) by (auto simp: record_wf_def)
  then have label: "reserved_label (described_label info) = leftover r" by (rule described_leftover [OF o1(3)])
  have same: "dv_objects d1 = dv_objects d" "dv_options d1 = dv_options d" using o1(5) by (simp_all add: same_contents_def)
  show thesis
  proof (cases "leftover r")
    case False
    then show thesis by (intro that [where m = 1 and s' = s1 and d' = d1 and t' = "now E1"]) (use t o1 label r(4) same in simp_all)
  next
    case True
    obtain s2 d2 where o2: "client_delete_object L (in_process L fw) i ty (s1, (E2 # Es, d1)) = (Ok (), (s2, (Es, d2)))"
      "client_at L (now E2) sid au s2 d2" "same_contents (d1\<lparr>dv_objects := bt_remove (ObjectKey ty i) (dv_objects d1)\<rparr>) d2"
      by (rule client_deletes [OF laws o1(4) times(2) _ fw(2) r(3) [OF True], where r = r and i = i and Es = Es])
        (use off same r rec(1) in \<open>simp_all add: info_key_def\<close>)
    then show thesis
      by (intro that [where m = 2 and s' = s2 and d' = d2 and t' = "now E2"]) (use t o1 label r(4) same True in \<open>simp_all add: same_contents_def\<close>)
  qed
qed

lemma cleanup_loop_exact:
  assumes laws: "cipher_laws L" "password_kdf_ok L"
    and fw: "command_supported fw Cmd_GetObjectInfo" "command_supported fw Cmd_DeleteObject"
    and "client_at L t sid au s d" "timely t Es" "2 * length objs \<le> length Es" "op_force_audit (dv_options d) = OPTION_OFF"
    and "distinct objs" "list_all (may_clean au d) objs"
  shows "\<exists>k t' s' d'. cleanup_loop L (in_process L fw) objs n (s, (Es, d))
      = (Ok (n + length (filter (is_leftover d) objs)), (s', (drop k Es, d')))
    \<and> k \<le> 2 * length objs \<and> client_at L t' sid au s' d' \<and> timely t' (drop k Es)
    \<and> dv_objects d' = without_leftovers objs d \<and> dv_options d' = dv_options d"
  using assms(5-)
proof (induction objs arbitrary: n t s d Es)
  case Nil
  have "without_leftovers [] d = dv_objects d" by (simp add: without_leftovers_def bt_retain_def)
  with Nil show ?case by (intro exI [of _ 0] exI [of _ t] exI [of _ s] exI [of _ d]) simp
next
  case (Cons x objs)
  obtain i ty where x: "x = (i, ty)" by (cases x)
  obtain E1 E2 Es' where Es: "Es = E1 # E2 # Es'" using Cons.prems(3) by (cases Es; cases "tl Es") auto
  have w: "bt_wf (dv_objects d)" using Cons.prems(1) by (simp add: client_at_def device_wf_def core_wf_def store_wf_def)
  have may: "may_clean au d (i, ty)" using Cons.prems(6) x by simp
  obtain m t1 s1 d1 where o1: "\<forall>objs n. cleanup_loop L (in_process L fw) ((i, ty) # objs) n (s, (E1 # E2 # Es', d))
      = cleanup_loop L (in_process L fw) objs (n + of_bool (is_leftover d (i, ty))) (s1, (drop m (E1 # E2 # Es'), d1))"
    "m \<le> 2" "client_at L t1 sid au s1 d1" "timely t1 (drop m (E1 # E2 # Es'))"
    "dv_objects d1 = (if is_leftover d (i, ty) then bt_remove (ObjectKey ty i) (dv_objects d) else dv_objects d)"
    "dv_options d1 = dv_options d"
    by (rule cleanup_step [OF laws Cons.prems(1) Cons.prems(2) [unfolded Es] fw Cons.prems(4) may])
  have "bt_get (dv_objects d1) (ObjectKey ty' i') = bt_get (dv_objects d) (ObjectKey ty' i')" if "(i', ty') \<in> set objs" for i' ty'
    using Cons.prems(5) that x o1(5) by auto
  then have rest: "list_all (may_clean au d1) objs" "filter (is_leftover d1) objs = filter (is_leftover d) objs"
    using Cons.prems(6) by (auto simp: list_all_iff may_clean_def is_leftover_def intro!: filter_cong)
  have n: "2 * length objs \<le> length (drop m Es)" using Cons.prems(3) o1(2) by simp
  from Cons.IH [OF o1(3) o1(4) [folded Es] n _ _ rest(1), of "n + of_bool (is_leftover d (i, ty))"]
  obtain k t' s' d' where ih: "cleanup_loop L (in_process L fw) objs (n + of_bool (is_leftover d (i, ty))) (s1, (drop m Es, d1))
      = (Ok (n + of_bool (is_leftover d (i, ty)) + length (filter (is_leftover d1) objs)), (s', (drop k (drop m Es), d')))"
    "k \<le> 2 * length objs" "client_at L t' sid au s' d'" "timely t' (drop k (drop m Es))"
    "dv_objects d' = without_leftovers objs d1" "dv_options d' = dv_options d1"
    using Cons.prems(4,5) o1(6) by auto
  have "dv_objects d' = without_leftovers (x # objs) d"
    unfolding ih(5) x by (rule without_leftovers_step [OF w o1(5)])
  with ih o1(1) [rule_format, of objs n] o1(2,6) rest(2) show ?case
    by - (rule exI [of _ "k + m"], rule exI [of _ t'], rule exI [of _ s'], rule exI [of _ d'],
        simp add: x Es add.commute del: cleanup_loop.simps)
qed

section \<open>The whole operation\<close>

lemma visible_objects_finite: "finite (visible_objects au d)"
proof -
  have "visible_objects au d = (\<lambda>r. (oi_id (or_info r), oi_object_type (or_info r)))
      ` set (filter (\<lambda>r. can_see au (or_info r)) (bt_values (dv_objects d)))"
    by (auto simp: visible_objects_def)
  then show ?thesis by simp
qed

lemma visible_objects_iff:
  assumes "device_wf L d"
  shows "(i, ty) \<in> visible_objects au d \<longleftrightarrow> (\<exists>r. bt_get (dv_objects d) (ObjectKey ty i) = Some r \<and> can_see au (or_info r))"
proof
  have w: "store_wf L d" using assms by (simp add: device_wf_def core_wf_def)
  then have wf: "bt_wf (dv_objects d)" by (simp add: store_wf_def)
  assume "(i, ty) \<in> visible_objects au d"
  then obtain k r where r: "(k, r) \<in> set (dv_objects d)" "can_see au (or_info r)" "i = oi_id (or_info r)" "ty = oi_object_type (or_info r)"
    by (auto simp: visible_objects_def bt_values_def)
  then have "bt_get (dv_objects d) k = Some r" using bt.get_entries [OF wf] by simp
  with r store_wfD(1) [OF w this] show "\<exists>r. bt_get (dv_objects d) (ObjectKey ty i) = Some r \<and> can_see au (or_info r)"
    by (auto simp: info_key_def)
qed (use visible_objects_mem [OF assms] in blast)

lemma without_visible_leftovers:
  assumes "device_wf L d" "set objs = visible_objects au d" "dv_objects d' = dv_objects d"
  shows "without_leftovers objs d' = bt_retain (\<lambda>_ r. \<not> (leftover r \<and> can_see au (or_info r))) (dv_objects d)"
  unfolding without_leftovers_def bt_retain_def assms(2,3)
proof (rule filter_cong [OF refl], clarify)
  fix k r assume "(k, r) \<in> set (dv_objects d)"
  then have "bt_get (dv_objects d) k = Some r"
    using bt.get_entries [of "dv_objects d"] assms(1) by (simp add: device_wf_def core_wf_def store_wf_def)
  then have "(key_id k, key_type k) \<in> visible_objects au d \<longleftrightarrow> can_see au (or_info r)"
    by (cases k) (simp add: visible_objects_iff [OF assms(1)])
  then show "(\<not> (leftover r \<and> (key_id k, key_type k) \<in> visible_objects au d)) = (\<not> (leftover r \<and> can_see au (or_info r)))" by simp
qed

lemma count_partition:
  assumes "finite A"
  shows "length (filter P (sorted_list_of_set A)) = card {x \<in> A. P x}" "card A - card {x \<in> A. P x} = card {x \<in> A. \<not> P x}"
proof -
  show "length (filter P (sorted_list_of_set A)) = card {x \<in> A. P x}"
    using distinct_card [of "filter P (sorted_list_of_set A)"] assms by simp
  have "{x \<in> A. \<not> P x} = A - {x \<in> A. P x}" by blast
  then show "card A - card {x \<in> A. P x} = card {x \<in> A. \<not> P x}"
    using card_Diff_subset [of "{x \<in> A. P x}" A] assms by simp
qed

lemma cleanup_exact:
  assumes laws: "cipher_laws L" "scp03_law L" "password_kdf_ok L"
    and ready: "may_qualify L d administrator sid au E1 (E2 # Es)"
    and fw: "list_all (command_supported fw) [Cmd_ListObjects, Cmd_GetObjectInfo, Cmd_DeleteObject, Cmd_CloseSession]"
    and size: "length (dv_objects d) \<le> 2043" "2 * card (visible_objects au d) + 2 \<le> length Es"
    and caps: "\<forall>x\<in>visible_objects au d. is_leftover d x \<longrightarrow> cap_contains (au_capabilities au) (deletion_capability (snd x))"
  shows "\<exists>Es' d'. cleanup_qualification_objects L sec1_ok (in_process L fw) administrator (E1 # E2 # Es, d)
      = (Ok \<lparr>rp_removed = card {x \<in> visible_objects au d. is_leftover d x},
             rp_remaining = card {x \<in> visible_objects au d. \<not> is_leftover d x}\<rparr>, (Es', d'))
    \<and> dv_objects d' = bt_retain (\<lambda>_ r. \<not> (leftover r \<and> can_see au (or_info r))) (dv_objects d)
    \<and> device_wf L d' \<and> bt_get (dv_sessions d') sid = None"
proof -
  let ?v = "visible_objects au d" and ?tr = "in_process L fw" and ?objs = "sorted_list_of_set (visible_objects au d)"
  have wf: "device_wf L d" using ready by (auto simp: may_qualify_def split: CredentialMaterial.splits)
  obtain E3 Es3 where Es: "Es = E3 # Es3" using size(2) by (cases Es) auto
  obtain s1 d1 where o1: "cleanup_qualification_objects L sec1_ok ?tr administrator (E1 # E2 # Es, d)
      = (let m = script_cleanup L ?tr (s1, (Es, d1)) in (fst m, snd (snd m)))"
    "client_at L (now E2) sid au s1 d1" "same_contents d d1" "timely (now E2) Es" "op_force_audit (dv_options d1) = OPTION_OFF"
    unfolding cleanup_qualification_objects_def by (rule opens_in_session [OF laws ready])
  have objs1: "dv_objects d1 = dv_objects d" "dv_options d1 = dv_options d" using o1(3) by (simp_all add: same_contents_def)
  obtain s2 d2 where o2: "client_list_objects L ?tr (s1, (E3 # Es3, d1)) = (Ok (visible_objects au d1), (s2, (Es3, d2)))"
    "client_at L (now E3) sid au s2 d2" "same_contents d1 d2"
    by (rule client_lists [OF laws(1,3) o1(2) _ o1(5), where E = E3 and fw = fw]) (use o1(4) Es fw size objs1 in simp_all)
  have objs2: "dv_objects d2 = dv_objects d" "dv_options d2 = dv_options d1" using o2(3) objs1 by (simp_all add: same_contents_def)
  have visible: "visible_objects au d1 = ?v" by (rule visible_objects_same [OF o1(3)])
  have set: "set ?objs = ?v" "distinct ?objs" "length ?objs = card ?v" using visible_objects_finite [of au d] by simp_all
  have same: "is_leftover d2 = is_leftover d" using objs2(1) by (simp add: is_leftover_def)
  have clean: "list_all (may_clean au d2) ?objs"
    unfolding list_all_iff set(1) using visible_objects_iff [OF wf] caps
    by (force simp: may_clean_def objs2(1) is_leftover_def)
  obtain k t' s3 d3 where o3: "cleanup_loop L ?tr ?objs 0 (s2, (Es3, d2)) = (Ok (0 + length (filter (is_leftover d2) ?objs)), (s3, (drop k Es3, d3)))"
    "k \<le> 2 * length ?objs" "client_at L t' sid au s3 d3" "timely t' (drop k Es3)" "dv_objects d3 = without_leftovers ?objs d2" "dv_options d3 = dv_options d2"
    using cleanup_loop_exact [OF laws(1,3) _ _ o2(2) _ _ _ set(2) clean, of fw Es3 0] fw o1(4,5) Es size(2) set(3) objs2(2) by auto
  obtain E4 Es4 where E4: "drop k Es3 = E4 # Es4" using o3(2) size(2) set(3) Es by (cases "drop k Es3") auto
  obtain s4 d4 where o4: "client_close L ?tr (s3, (E4 # Es4, d3)) = (Ok (), (s4, (Es4, d4)))"
    "device_wf L d4" "bt_get (dv_sessions d4) sid = None" "same_contents d3 d4"
    by (rule client_closes [OF laws(1,3) o3(3), where E = E4 and fw = fw]) (use o3(4,6) E4 objs2(2) o1(5) fw in simp_all)
  note counts = count_partition [OF visible_objects_finite [of au d], of "is_leftover d"]
  have "script_cleanup L ?tr (s1, (Es, d1))
      = (Ok \<lparr>rp_removed = card {x \<in> ?v. is_leftover d x}, rp_remaining = card {x \<in> ?v. \<not> is_leftover d x}\<rparr>, (s4, (Es4, d4)))"
    using o3(1) E4 o4(1) by (simp add: script_cleanup_def Es o2(1) visible same counts)
  with o1(1) o4 o3(5) without_visible_leftovers [OF wf set(1) objs2(1)] show ?thesis by (intro exI [of _ Es4] exI [of _ d4]) (simp add: same_contents_def)
qed

end
