(* ===== verification/Connector_Http.thy ===== *)
theory Connector_Http
  imports Client_Session Host_Io
begin

text \<open>
  The HTTP adapter of the qualification tool (\<^verbatim>\<open>ConnectorHttpTransport\<close> of
  \<^verbatim>\<open>yubihsm-qualification/src/lib.rs\<close>): the URL and the address it is made from, the request it posts, and
  the reading of a response with a length, without one, or in chunks. Text is a list of bytes, as in the
  code; the network is a parameter.
\<close>

section \<open>Searching and splitting\<close>

text \<open>\<^verbatim>\<open>windows(n).position(..)\<close> and \<^verbatim>\<open>split_once\<close>.\<close>

fun position_of :: "bytes \<Rightarrow> bytes \<Rightarrow> nat option" where
  "position_of pat [] = (if pat = [] then Some 0 else None)"
| "position_of pat (b # bs) =
     (if take (length pat) (b # bs) = pat then Some 0 else map_option Suc (position_of pat bs))"

definition split_once :: "u8 \<Rightarrow> bytes \<Rightarrow> (bytes \<times> bytes) option" where
  "split_once c bs = (if c \<in> set bs then Some (takeWhile (\<lambda>b. b \<noteq> c) bs, tl (dropWhile (\<lambda>b. b \<noteq> c) bs)) else None)"

definition rsplit_once :: "u8 \<Rightarrow> bytes \<Rightarrow> (bytes \<times> bytes) option" where
  "rsplit_once c bs = map_option (\<lambda>(a, b). (rev b, rev a)) (split_once c (rev bs))"

definition CRLF :: bytes where "CRLF = [0x0d, 0x0a]"

fun split_crlf :: "bytes \<Rightarrow> bytes \<Rightarrow> bytes list" where
  "split_crlf line (a # b # bs) = (if [a, b] = CRLF then line # split_crlf [] bs else split_crlf (line @ [a]) (b # bs))"
| "split_crlf line bs = [line @ bs]"

text \<open>The encodings of the characters that are white space (\<^verbatim>\<open>char::is_whitespace\<close>).\<close>

definition whitespace :: "bytes list" where
  "whitespace = [[0x09], [0x0a], [0x0b], [0x0c], [0x0d], [0x20], [0xc2, 0x85], [0xc2, 0xa0], [0xe1, 0x9a, 0x80]]
     @ map (\<lambda>n. [0xe2, 0x80, n]) [0x80, 0x81, 0x82, 0x83, 0x84, 0x85, 0x86, 0x87, 0x88, 0x89, 0x8a, 0xa8, 0xa9, 0xaf]
     @ [[0xe2, 0x81, 0x9f], [0xe3, 0x80, 0x80]]"

definition leading_space :: "bytes \<Rightarrow> nat" where
  "leading_space bs = (case List.find (\<lambda>w. take (length w) bs = w) whitespace of Some w \<Rightarrow> length w | None \<Rightarrow> 0)"

function words_of :: "bytes \<Rightarrow> bytes \<Rightarrow> bytes list" where
  "words_of cur bs =
     (if bs = [] then [cur]
      else if leading_space bs \<noteq> 0 then cur # words_of [] (drop (leading_space bs) bs)
      else words_of (cur @ [hd bs]) (tl bs))"
  by pat_completeness auto
termination by (relation "measure (\<lambda>(_, bs). length bs)") auto

declare words_of.simps [simp del]

definition split_whitespace :: "bytes \<Rightarrow> bytes list" where
  "split_whitespace bs = filter (\<lambda>w. w \<noteq> []) (words_of [] bs)"

function trim_start :: "bytes \<Rightarrow> bytes" where
  "trim_start bs = (if bs = [] \<or> leading_space bs = 0 then bs else trim_start (drop (leading_space bs) bs))"
  by pat_completeness auto
termination by (relation "measure length") auto

declare trim_start.simps [simp del]

definition trailing_space :: "bytes \<Rightarrow> nat" where
  "trailing_space bs = (case List.find (\<lambda>w. drop (length bs - length w) bs = w) whitespace of Some w \<Rightarrow> length w | None \<Rightarrow> 0)"

function trim_end :: "bytes \<Rightarrow> bytes" where
  "trim_end bs = (if bs = [] \<or> trailing_space bs = 0 then bs else trim_end (take (length bs - trailing_space bs) bs))"
  by pat_completeness auto
termination by (relation "measure length") auto

declare trim_end.simps [simp del]

definition trim :: "bytes \<Rightarrow> bytes" where
  "trim bs = trim_end (trim_start bs)"

definition ascii_lowercase :: "u8 \<Rightarrow> u8" where
  "ascii_lowercase b = (if 0x41 \<le> b \<and> b \<le> 0x5a then b + 0x20 else b)"

section \<open>Numbers\<close>

text \<open>
  \<^verbatim>\<open>str::parse\<close> and \<^verbatim>\<open>from_str_radix\<close> for unsigned integers: an optional plus sign, at least one digit, no
  overflow.
\<close>

definition digit_value :: "u8 \<Rightarrow> nat option" where
  "digit_value b =
     (if 0x30 \<le> b \<and> b \<le> 0x39 then Some (unat b - 0x30)
      else if 0x61 \<le> b \<and> b \<le> 0x7a then Some (unat b - 0x57)
      else if 0x41 \<le> b \<and> b \<le> 0x5a then Some (unat b - 0x37)
      else None)"

fun radix_value :: "nat \<Rightarrow> nat \<Rightarrow> bytes \<Rightarrow> nat option" where
  "radix_value radix acc [] = Some acc"
| "radix_value radix acc (b # bs) = (case digit_value b of
       Some d \<Rightarrow> if d < radix then radix_value radix (acc * radix + d) bs else None
     | None \<Rightarrow> None)"

definition parse_radix :: "nat \<Rightarrow> nat \<Rightarrow> bytes \<Rightarrow> nat option" where
  "parse_radix radix limit bs =
     (let digits = (if take 1 bs = [0x2b] then drop 1 bs else bs) in
      if digits = [] then None
      else case radix_value radix 0 digits of Some n \<Rightarrow> if n \<le> limit then Some n else None | None \<Rightarrow> None)"

definition usize_MAX :: nat where "usize_MAX = 2 ^ 64 - 1"

text \<open>Printing a number (\<^verbatim>\<open>format!\<close>).\<close>

definition digit_byte :: "nat \<Rightarrow> u8" where
  "digit_byte d = of_nat (if d < 10 then 0x30 + d else 0x57 + d)"

fun to_radix :: "nat \<Rightarrow> nat \<Rightarrow> bytes" where
  "to_radix radix n =
     (if n < radix \<or> radix < 2 then [digit_byte n] else to_radix radix (n div radix) @ [digit_byte (n mod radix)])"

declare to_radix.simps [simp del]

definition print_decimal :: "nat \<Rightarrow> bytes" where
  "print_decimal n = to_radix 10 n"

section \<open>The address of a connector\<close>

record ConnectorHttpTransport =
  ht_host :: bytes
  ht_port :: u16
  ht_path :: bytes
  ht_serial :: bytes
  ht_timeout :: nat

definition parse_port :: "bytes \<Rightarrow> (u16, TransportErrorKind) result" where
  "parse_port bs = and_then (ok_or (parse_radix 10 65535 bs) Te_Other) (\<lambda>n. Ok (of_nat n))"

definition parse_authority :: "bytes \<Rightarrow> (bytes \<times> u16, TransportErrorKind) result" where
  "parse_authority authority =
     (if take 1 authority = str_bytes ''['' then
        and_then (ok_or (split_once 0x5d (drop 1 authority)) Te_Other) (\<lambda>(host, suffix).
        and_then (if suffix = [] then Ok 80
                  else if hd suffix = 0x3a then parse_port (tl suffix)
                  else Err Te_Other) (\<lambda>port.
        Ok (host, port)))
      else case rsplit_once 0x3a authority of
        Some (host, port) \<Rightarrow>
          if 0x3a \<notin> set host then and_then (parse_port port) (\<lambda>port. Ok (host, port))
          else Ok (authority, 80)
      | None \<Rightarrow> Ok (authority, 80))"

definition trim_slashes :: "bytes \<Rightarrow> bytes" where
  "trim_slashes bs = rev (dropWhile (\<lambda>b. b = 0x2f) (rev (dropWhile (\<lambda>b. b = 0x2f) bs)))"

definition ascii_alphanumeric :: "u8 \<Rightarrow> bool" where
  "ascii_alphanumeric b = (0x30 \<le> b \<and> b \<le> 0x39 \<or> 0x41 \<le> b \<and> b \<le> 0x5a \<or> 0x61 \<le> b \<and> b \<le> 0x7a)"

definition connector_new :: "bytes \<Rightarrow> bytes \<Rightarrow> (ConnectorHttpTransport, TransportErrorKind) result" where
  "connector_new base_url serial =
     (if take 7 base_url \<noteq> str_bytes ''http://'' then Err Te_Other
      else
        let rest = drop 7 base_url;
            (authority, base_path) = (case split_once 0x2f rest of Some p \<Rightarrow> p | None \<Rightarrow> (rest, [])) in
        if authority = [] then Err Te_Other
        else and_then (parse_authority authority) (\<lambda>(host, port).
          let base_path = trim_slashes base_path;
              prefix = (if base_path = [] then [] else 0x2f # base_path) in
          if serial = [] \<or> \<not> list_all ascii_alphanumeric serial then Err Te_Other
          else Ok \<lparr>ht_host = host, ht_port = port,
                   ht_path = prefix @ str_bytes ''/v1/devices/'' @ serial @ str_bytes ''/commands'',
                   ht_serial = serial, ht_timeout = 120\<rparr>))"

definition with_timeout :: "nat \<Rightarrow> ConnectorHttpTransport \<Rightarrow> ConnectorHttpTransport" where
  "with_timeout timeout c = c\<lparr>ht_timeout := timeout\<rparr>"

section \<open>Reading a response\<close>

function decode_chunked :: "bytes \<Rightarrow> bytes \<Rightarrow> (bytes, TransportErrorKind) result" where
  "decode_chunked encoded output = (case position_of CRLF encoded of
       None \<Rightarrow> Err Te_Other
     | Some line_end \<Rightarrow>
         if \<not> utf8_valid (take line_end encoded) then Err Te_Other
         else case parse_radix 16 usize_MAX (takeWhile (\<lambda>b. b \<noteq> 0x3b) (take line_end encoded)) of
           None \<Rightarrow> Err Te_Other
         | Some n \<Rightarrow>
             let rest = drop (line_end + 2) encoded in
             if n = 0 then Ok output
             else if usize_MAX < n + 2 then Panic
             else if length rest < n + 2 \<or> take 2 (drop n rest) \<noteq> CRLF then Err Te_Other
             else decode_chunked (drop (n + 2) rest) (output @ take n rest))"
  by pat_completeness auto
termination by (relation "measure (\<lambda>(encoded, _). length encoded)") auto

declare decode_chunked.simps [simp del]

definition http_header :: "bytes \<Rightarrow> (bytes \<times> bytes) option" where
  "http_header line = map_option (\<lambda>(name, value). (map ascii_lowercase (trim name), trim value)) (split_once 0x3a line)"

definition parse_http_response :: "bytes \<Rightarrow> (bytes, TransportErrorKind) result" where
  "parse_http_response encoded =
     and_then (ok_or (position_of (CRLF @ CRLF) encoded) Te_Other) (\<lambda>boundary.
     let head = take boundary encoded; lines = split_crlf [] head; body = drop (boundary + 4) encoded in
     if \<not> utf8_valid head then Err Te_Other
     else
       let words = split_whitespace (hd lines) in
       and_then (ok_or (if length words < 2 then None else parse_radix 10 65535 (words ! 1)) Te_Other) (\<lambda>status.
       let headers = List.map_filter http_header (tl lines) in
       if status \<noteq> 200 then
         (if status = 400 \<and> position_of (str_bytes (CHR 0x22 # ''code'' @ [CHR 0x22, CHR 0x3a, CHR 0x22] @ ''invalid_command_frame'' @ [CHR 0x22])) body \<noteq> None
          then Err Te_InvalidCommandFrame else Err Te_Other)
       else if list_ex (\<lambda>(name, value). name = str_bytes ''transfer-encoding'' \<and> map ascii_lowercase value = str_bytes ''chunked'') headers
       then decode_chunked body []
       else case List.find (\<lambda>(name, _). name = str_bytes ''content-length'') headers of
           Some (_, value) \<Rightarrow>
             and_then (ok_or (parse_radix 10 usize_MAX value) Te_Other) (\<lambda>expected.
             if expected \<noteq> length body then Err Te_Other else Ok body)
         | None \<Rightarrow> Ok body))"

text \<open>
  The request, and one exchange. The network takes a host, a port, a time limit in seconds and what is
  written to it, and gives what could be read until the connection was closed, or fails.
\<close>

definition http_request :: "ConnectorHttpTransport \<Rightarrow> bytes \<Rightarrow> bytes" where
  "http_request c request =
     str_bytes ''POST '' @ ht_path c @ str_bytes '' HTTP/1.1'' @ CRLF
     @ str_bytes ''Host: '' @ ht_host c @ str_bytes '':'' @ print_decimal (unat (ht_port c)) @ CRLF
     @ str_bytes ''Content-Type: application/octet-stream'' @ CRLF
     @ str_bytes ''Content-Length: '' @ print_decimal (length request) @ CRLF
     @ str_bytes ''Connection: close'' @ CRLF @ CRLF @ request"

type_synonym 't network = "bytes \<Rightarrow> u16 \<Rightarrow> nat \<Rightarrow> bytes \<Rightarrow> 't \<Rightarrow> bytes option \<times> 't"

definition connector_exchange :: "'t network \<Rightarrow> ConnectorHttpTransport \<Rightarrow> 't transport" where
  "connector_exchange net c request t =
     (let m = net (ht_host c) (ht_port c) (ht_timeout c) (http_request c request) t in
      (and_then (ok_or (fst m) Te_Other) parse_http_response, snd m))"

section \<open>Numbers are read back\<close>

lemma digit_byte_value: "d < 36 \<Longrightarrow> digit_value (digit_byte d) = Some d"
  by (auto simp: digit_byte_def digit_value_def word_le_nat_alt unat_of_nat)

lemma digit_byte_plain: "d < 16 \<Longrightarrow> digit_byte d \<in> {0x30..0x39} \<union> {0x61..0x66}"
  by (auto simp: digit_byte_def word_le_nat_alt unat_of_nat)

lemma radix_value_append:
  "radix_value r acc (xs @ ys) = Option.bind (radix_value r acc xs) (\<lambda>acc. radix_value r acc ys)"
  by (induction xs arbitrary: acc) (auto split: option.split)

lemma to_radix_value: "2 \<le> r \<Longrightarrow> r \<le> 36 \<Longrightarrow> radix_value r 0 (to_radix r n) = Some n"
proof (induction r n rule: to_radix.induct)
  case (1 r n)
  have "n mod r < r" using 1(2) by simp
  then have "digit_value (digit_byte (n mod r)) = Some (n mod r)" using 1(3) by (intro digit_byte_value) simp
  with 1 \<open>n mod r < r\<close> show ?case
    by (cases "n < r") (simp_all add: to_radix.simps [of r n] radix_value_append digit_byte_value)
qed

lemma to_radix_plain: "2 \<le> r \<Longrightarrow> r \<le> 16 \<Longrightarrow> set (to_radix r n) \<subseteq> {0x30..0x39} \<union> {0x61..0x66}"
proof (induction r n rule: to_radix.induct)
  case (1 r n)
  have "n mod r < 16" using 1(2,3) by (meson mod_less_divisor less_le_trans zero_less_numeral)
  with 1 digit_byte_plain [of n] digit_byte_plain [of "n mod r"] show ?case
    by (cases "n < r") (simp_all add: to_radix.simps [of r n])
qed

lemma to_radix_nonempty [simp]: "to_radix r n \<noteq> []"
  by (subst to_radix.simps) simp

lemma parse_radix_print:
  assumes "2 \<le> r" "r \<le> 16" "n \<le> limit"
  shows "parse_radix r limit (to_radix r n) = Some n"
proof -
  have "hd (to_radix r n) \<in> {0x30..0x39} \<union> {0x61..0x66}"
    using to_radix_plain [OF assms(1,2), of n] hd_in_set [OF to_radix_nonempty, of r n] by blast
  then have "hd (to_radix r n) \<noteq> 0x2b" by auto
  then have "take 1 (to_radix r n) \<noteq> [0x2b]" by (cases "to_radix r n") simp_all
  then show ?thesis using to_radix_value [of r n] assms by (simp add: parse_radix_def)
qed

section \<open>Chunks\<close>

lemma position_of_crlf: "0x0d \<notin> set xs \<Longrightarrow> position_of CRLF (xs @ CRLF @ ys) = Some (length xs)"
  by (induction xs) (simp_all add: CRLF_def)

text \<open>A body in chunks as a server sends it, each with an optional extension after its length.\<close>

definition chunk :: "bytes \<times> bytes \<Rightarrow> bytes" where
  "chunk = (\<lambda>(extension, data). to_radix 16 (length data) @ extension @ CRLF @ data @ CRLF)"

definition extension_wf :: "bytes \<Rightarrow> bool" where
  "extension_wf e = ((e = [] \<or> hd e = 0x3b) \<and> list_all (\<lambda>b. b < 0x80 \<and> b \<noteq> 0x0d) e)"

lemma chunk_line:
  assumes "extension_wf e" "n \<le> usize_MAX"
  shows "position_of CRLF (to_radix 16 n @ e @ CRLF @ ys) = Some (length (to_radix 16 n @ e))" "utf8_valid (to_radix 16 n @ e)"
    "parse_radix 16 usize_MAX (takeWhile (\<lambda>b. b \<noteq> 0x3b) (to_radix 16 n @ e)) = Some n"
proof -
  have p: "set (to_radix 16 n) \<subseteq> {0x30..0x39} \<union> {0x61..0x66}" by (rule to_radix_plain) simp_all
  then have "0x0d \<notin> set (to_radix 16 n @ e)" using assms(1) by (auto simp: extension_wf_def list_all_iff)
  from position_of_crlf [OF this, of ys]
  show "position_of CRLF (to_radix 16 n @ e @ CRLF @ ys) = Some (length (to_radix 16 n @ e))" by simp
  have "b < 0x80" if "b \<in> {0x30..0x39} \<union> {0x61..0x66}" for b :: u8
    using that by (auto intro: le_less_trans)
  with p assms(1) have "list_all (\<lambda>b. b < 0x80) (to_radix 16 n @ e)" by (auto simp: extension_wf_def list_all_iff)
  then show "utf8_valid (to_radix 16 n @ e)" by (rule utf8_valid_ascii)
  have "takeWhile (\<lambda>b. b \<noteq> 0x3b) e = []" using assms(1) by (cases e) (auto simp: extension_wf_def)
  moreover have "\<forall>b\<in>set (to_radix 16 n). b \<noteq> 0x3b" using p by auto
  ultimately have "takeWhile (\<lambda>b. b \<noteq> 0x3b) (to_radix 16 n @ e) = to_radix 16 n" by (simp add: takeWhile_append2)
  then show "parse_radix 16 usize_MAX (takeWhile (\<lambda>b. b \<noteq> 0x3b) (to_radix 16 n @ e)) = Some n"
    using assms(2) by (simp add: parse_radix_print)
qed

lemma decode_chunked_step:
  assumes "extension_wf e" "data \<noteq> []" "length data + 2 \<le> usize_MAX"
  shows "decode_chunked (chunk (e, data) @ rest) acc = decode_chunked rest (acc @ data)"
  using chunk_line [OF assms(1), of "length data"] assms(2,3)
  by (subst decode_chunked.simps) (simp add: chunk_def CRLF_def)

lemma decode_chunked_end:
  assumes "extension_wf e"
  shows "decode_chunked (chunk (e, []) @ trailer) acc = Ok acc"
  using chunk_line [OF assms, of 0] by (subst decode_chunked.simps) (simp add: chunk_def)

lemma chunked_body_read:
  assumes "\<forall>(e, data)\<in>set chunks. extension_wf e \<and> data \<noteq> [] \<and> length data + 2 \<le> usize_MAX" "extension_wf e"
  shows "decode_chunked (concat (map chunk chunks) @ chunk (e, []) @ trailer) acc = Ok (acc @ concat (map snd chunks))"
  using assms(1)
proof (induction chunks arbitrary: acc)
  case (Cons c chunks)
  then show ?case using decode_chunked_step by (cases c) simp
qed (simp add: decode_chunked_end [OF assms(2)])

text \<open>
  A length that leaves no room for the line end after it is not refused: the sum overflows. It is the
  only way in which reading chunks can panic.
\<close>

lemma chunk_length_overflow:
  assumes "extension_wf e" "n \<in> {usize_MAX - 1, usize_MAX}"
  shows "decode_chunked (to_radix 16 n @ e @ CRLF @ rest) acc = Panic"
proof -
  have "n \<le> usize_MAX" "n \<noteq> 0" "usize_MAX < n + 2" using assms(2) by (auto simp: usize_MAX_def)
  with chunk_line [OF assms(1), of n] show ?thesis by (subst decode_chunked.simps) simp
qed

lemma decode_chunked_panics:
  "decode_chunked encoded acc = Panic \<Longrightarrow>
     \<exists>k e n. parse_radix 16 usize_MAX (takeWhile (\<lambda>b. b \<noteq> 0x3b) (take e (drop k encoded))) = Some n \<and> usize_MAX < n + 2"
proof (induction encoded acc rule: decode_chunked.induct)
  case (1 encoded acc)
  from 1(2) obtain e n where e: "position_of CRLF encoded = Some e" "utf8_valid (take e encoded)"
    "parse_radix 16 usize_MAX (takeWhile (\<lambda>b. b \<noteq> 0x3b) (take e encoded)) = Some n" "n \<noteq> 0"
    by (subst (asm) decode_chunked.simps) (auto simp: Let_def split: option.splits if_splits)
  show ?case
  proof (cases "usize_MAX < n + 2")
    case True
    with e(3) show ?thesis by (intro exI [of _ 0] exI [of _ e] exI [of _ n]) simp
  next
    case False
    let ?rest = "drop (e + 2) encoded"
    have r: "\<not> (length ?rest < n + 2 \<or> take 2 (drop n ?rest) \<noteq> CRLF)"
      "decode_chunked (drop (n + 2) ?rest) (acc @ take n ?rest) = Panic"
      using 1(2) e False by (subst (asm) decode_chunked.simps, auto simp: Let_def split: if_splits)+
    from 1(1) [OF e(1) _ e(3) refl e(4) False r] e(2) obtain k e' n' where
      "parse_radix 16 usize_MAX (takeWhile (\<lambda>b. b \<noteq> 0x3b) (take e' (drop k (drop (n + 2) ?rest)))) = Some n'" "usize_MAX < n' + 2"
      by auto
    then show ?thesis by (intro exI [of _ "k + (n + 2) + (e + 2)"] exI [of _ e'] exI [of _ n']) (simp add: add.assoc)
  qed
qed

section \<open>Responses\<close>

text \<open>The parts of a response whose header lines are not empty and hold no carriage return.\<close>

definition line_wf :: "bytes \<Rightarrow> bool" where
  "line_wf l = (l \<noteq> [] \<and> list_all (\<lambda>b. b < 0x80 \<and> b \<noteq> 0x0d) l)"

definition http_message :: "bytes \<Rightarrow> bytes list \<Rightarrow> bytes \<Rightarrow> bytes" where
  "http_message status headers body = status @ concat (map (\<lambda>l. CRLF @ l) headers) @ CRLF @ CRLF @ body"

lemma line_wf_plain: "line_wf l \<Longrightarrow> 0x0d \<notin> set l" "line_wf l \<Longrightarrow> l \<noteq> []" "line_wf l \<Longrightarrow> hd l \<noteq> 0x0d"
  by (auto simp: line_wf_def list_all_iff)

lemma position_of_line:
  "0x0d \<notin> set l \<Longrightarrow> position_of (CRLF @ CRLF) (l @ ys) = map_option (\<lambda>n. length l + n) (position_of (CRLF @ CRLF) ys)"
  by (induction l; cases "position_of (CRLF @ CRLF) ys") (auto simp: CRLF_def)

lemma position_of_end:
  assumes "list_all line_wf headers"
  shows "position_of (CRLF @ CRLF) (concat (map (\<lambda>l. CRLF @ l) headers) @ CRLF @ CRLF @ body)
    = Some (length (concat (map (\<lambda>l. CRLF @ l) headers)))"
  using assms
proof (induction headers)
  case Nil
  then show ?case by (simp add: CRLF_def)
next
  case (Cons l headers)
  let ?rest = "concat (map (\<lambda>l. CRLF @ l) headers) @ CRLF @ CRLF @ body"
  have l: "0x0d \<notin> set l" "l \<noteq> []" "hd l \<noteq> 0x0d" using Cons.prems line_wf_plain [of l] by simp_all
  then obtain c cs where c: "l = c # cs" "c \<noteq> 0x0d" by (cases l) auto
  have "position_of (CRLF @ CRLF) (CRLF @ l @ ?rest) = map_option (\<lambda>n. 2 + n) (position_of (CRLF @ CRLF) (l @ ?rest))"
    using c by (simp add: CRLF_def option.map_comp comp_def)
  moreover have "length CRLF = 2" by (simp add: CRLF_def)
  ultimately show ?case using position_of_line [OF l(1), of ?rest] Cons by simp
qed

lemma split_crlf_line: "0x0d \<notin> set l \<Longrightarrow> split_crlf acc (l @ CRLF @ ys) = (acc @ l) # split_crlf [] ys"
proof (induction l arbitrary: acc)
  case (Cons a l)
  then show ?case by (cases l) (simp_all add: CRLF_def)
qed (simp add: CRLF_def)

lemma split_crlf_last: "0x0d \<notin> set l \<Longrightarrow> split_crlf acc l = [acc @ l]"
  by (induction acc l rule: split_crlf.induct) (auto simp: CRLF_def)

lemma split_crlf_lines:
  assumes "line_wf l" "list_all line_wf headers"
  shows "split_crlf [] (l @ concat (map (\<lambda>l. CRLF @ l) headers)) = l # headers"
  using assms
proof (induction headers arbitrary: l)
  case Nil
  then show ?case by (simp add: split_crlf_last line_wf_plain)
next
  case (Cons h headers)
  then show ?case using split_crlf_line [OF line_wf_plain(1) [of l], of "[]" "h @ concat (map (\<lambda>l. CRLF @ l) headers)"] by simp
qed

text \<open>What reading finds of such a response.\<close>

lemma http_message_parts:
  fixes body :: bytes
  assumes "line_wf status" "list_all line_wf headers"
  defines "head \<equiv> status @ concat (map (\<lambda>l. CRLF @ l) headers)" and "message \<equiv> http_message status headers body"
  shows "position_of (CRLF @ CRLF) message = Some (length head)" "take (length head) message = head"
    "drop (length head + 4) message = body" "utf8_valid head" "split_crlf [] head = status # headers"
proof -
  have m: "message = head @ CRLF @ CRLF @ body" by (simp add: message_def head_def http_message_def)
  then show "take (length head) message = head" "drop (length head + 4) message = body" by (simp_all add: CRLF_def)
  show "position_of (CRLF @ CRLF) message = Some (length head)"
    using position_of_line [OF line_wf_plain(1) [OF assms(1)], of "concat (map (\<lambda>l. CRLF @ l) headers) @ CRLF @ CRLF @ body"]
      position_of_end [OF assms(2), of body] by (simp add: m head_def)
  show "split_crlf [] head = status # headers" unfolding head_def by (rule split_crlf_lines [OF assms(1,2)])
  have "list_all (\<lambda>b. b < 0x80) head"
    using assms(1,2) by (auto simp: head_def line_wf_def list_all_iff CRLF_def)
  then show "utf8_valid head" by (rule utf8_valid_ascii)
qed

lemma leading_space_none:
  assumes "bs \<noteq> []" "hd bs \<notin> set (map hd whitespace)"
  shows "leading_space bs = 0"
proof -
  have "take (length w) bs \<noteq> w" if "w \<in> set whitespace" for w
  proof
    assume "take (length w) bs = w"
    moreover have "w \<noteq> []" using that by (auto simp: whitespace_def)
    ultimately have "hd w = hd bs" using assms(1) by (cases bs; cases w) auto
    with assms(2) that show False by (metis image_eqI list.set_map)
  qed
  then have "List.find (\<lambda>w. take (length w) bs = w) whitespace = None" by (simp add: find_None_iff)
  then show ?thesis by (simp add: leading_space_def)
qed

lemma trailing_space_none:
  assumes "bs \<noteq> []" "last bs \<notin> set (map last whitespace)"
  shows "trailing_space bs = 0"
proof -
  have "drop (length bs - length w) bs \<noteq> w" if "w \<in> set whitespace" for w
  proof
    assume d: "drop (length bs - length w) bs = w"
    moreover have "w \<noteq> []" using that by (auto simp: whitespace_def)
    ultimately have "last w = last bs" using last_drop [of "length bs - length w" bs] assms(1) by (cases "length bs - length w < length bs") auto
    with assms(2) that show False by (metis image_eqI list.set_map)
  qed
  then have "List.find (\<lambda>w. drop (length bs - length w) bs = w) whitespace = None" by (simp add: find_None_iff)
  then show ?thesis by (simp add: trailing_space_def)
qed

text \<open>What a server sends in a header: a name, a colon, a space and a value without spaces.\<close>

lemma split_once_append: "c \<notin> set a \<Longrightarrow> split_once c (a @ c # b) = Some (a, b)"
  by (induction a) (auto simp: split_once_def)

lemma leading_space_Cons:
  "b \<notin> set (map hd whitespace) \<Longrightarrow> leading_space (b # bs) = 0" "leading_space (0x20 # bs) = 1"
  by (simp_all add: leading_space_none) (simp add: leading_space_def whitespace_def)

lemma trim_plain:
  assumes "bs \<noteq> []" "hd bs \<notin> set (map hd whitespace)" "last bs \<notin> set (map last whitespace)"
  shows "trim bs = bs" "trim (0x20 # bs) = bs"
proof -
  have "trim_start bs = bs" using leading_space_none [OF assms(1,2)] by (subst trim_start.simps) simp
  moreover have "trim_start (0x20 # bs) = trim_start bs" by (subst trim_start.simps) (simp add: leading_space_Cons)
  moreover have "trim_end bs = bs" using trailing_space_none [OF assms(1,3)] by (subst trim_end.simps) simp
  ultimately show "trim bs = bs" "trim (0x20 # bs) = bs" by (simp_all add: trim_def)
qed

lemma http_header_read:
  assumes "name \<noteq> []" "hd name \<notin> set (map hd whitespace)" "last name \<notin> set (map last whitespace)" "0x3a \<notin> set name"
    and "value \<noteq> []" "hd value \<notin> set (map hd whitespace)" "last value \<notin> set (map last whitespace)"
  shows "http_header (name @ 0x3a # 0x20 # value) = Some (map ascii_lowercase name, value)"
  using split_once_append [OF assms(4)] trim_plain [OF assms(1-3)] trim_plain [OF assms(5-7)] by (simp add: http_header_def)

lemma print_decimal_plain: "set (print_decimal n) \<subseteq> {0x30..0x39} \<union> {0x61..0x66}" "print_decimal n \<noteq> []"
  by (simp_all add: print_decimal_def to_radix_plain)

lemma digit_no_space:
  assumes "b \<in> {0x30..0x39} \<union> {0x61..0x66}"
  shows "b \<notin> set (map hd whitespace)" "b \<notin> set (map last whitespace)" "b < 0x80" "b \<noteq> 0x0d"
  using assms by (auto simp: whitespace_def intro: le_less_trans)

lemma content_length_header:
  "http_header (str_bytes ''Content-Length: '' @ print_decimal n) = Some (str_bytes ''content-length'', print_decimal n)"
  "line_wf (str_bytes ''Content-Length: '' @ print_decimal n)"
proof -
  let ?name = "str_bytes ''Content-Length''"
  have name: "map ascii_lowercase ?name = str_bytes ''content-length''" "?name \<noteq> []"
    "hd ?name \<notin> set (map hd whitespace)" "last ?name \<notin> set (map last whitespace)" "0x3a \<notin> set ?name"
    by (simp_all add: str_bytes_def ascii_lowercase_def whitespace_def)
  have "hd (print_decimal n) \<in> {0x30..0x39} \<union> {0x61..0x66}" "last (print_decimal n) \<in> {0x30..0x39} \<union> {0x61..0x66}"
    using print_decimal_plain [of n] hd_in_set last_in_set by blast+
  then have "http_header (?name @ 0x3a # 0x20 # print_decimal n) = Some (map ascii_lowercase ?name, print_decimal n)"
    using digit_no_space print_decimal_plain(2) name(2-) by (intro http_header_read)
  then show "http_header (str_bytes ''Content-Length: '' @ print_decimal n) = Some (str_bytes ''content-length'', print_decimal n)"
    unfolding name(1) by (simp add: str_bytes_def)
  have digits: "list_all (\<lambda>b. b < 0x80 \<and> b \<noteq> 0x0d) (print_decimal n)"
    unfolding list_all_iff using subsetD [OF print_decimal_plain(1)] digit_no_space(3,4) by blast
  show "line_wf (str_bytes ''Content-Length: '' @ print_decimal n)"
    using digits by (simp add: line_wf_def str_bytes_def)
qed

definition OK_STATUS :: bytes where "OK_STATUS = str_bytes ''HTTP/1.1 200 OK''"

lemma ok_status:
  "line_wf OK_STATUS" "split_whitespace OK_STATUS = [str_bytes ''HTTP/1.1'', str_bytes ''200'', str_bytes ''OK'']"
  "parse_radix 10 65535 (str_bytes ''200'') = Some 200"
proof -
  show "line_wf OK_STATUS" by (simp add: OK_STATUS_def line_wf_def str_bytes_def)
  show "split_whitespace OK_STATUS = [str_bytes ''HTTP/1.1'', str_bytes ''200'', str_bytes ''OK'']"
    by (simp add: OK_STATUS_def split_whitespace_def str_bytes_def words_of.simps leading_space_Cons whitespace_def)
  show "parse_radix 10 65535 (str_bytes ''200'') = Some 200"
    by (simp add: parse_radix_def str_bytes_def digit_value_def)
qed

lemma content_length_read:
  assumes "n \<le> usize_MAX"
  shows "parse_http_response (http_message OK_STATUS [str_bytes ''Content-Length: '' @ print_decimal n] body)
    = (if n = length body then Ok body else Err Te_Other)"
proof -
  have lines: "line_wf OK_STATUS" "list_all line_wf [str_bytes ''Content-Length: '' @ print_decimal n]"
    using ok_status(1) content_length_header(2) by simp_all
  have "str_bytes ''content-length'' \<noteq> str_bytes ''transfer-encoding''" by (simp add: str_bytes_def)
  then show ?thesis
    unfolding parse_http_response_def using http_message_parts(1-3) [OF lines, of body] http_message_parts(4,5) [OF lines] ok_status(2,3) content_length_header(1) [of n]
      parse_radix_print [of 10 n usize_MAX] assms
    by (cases "n = length body") (simp_all add: List.map_filter_simps print_decimal_def Let_def)
qed

lemma chunked_read:
  "parse_http_response (http_message OK_STATUS [str_bytes ''Transfer-Encoding: chunked''] body) = decode_chunked body []"
proof -
  have lines: "line_wf OK_STATUS" "list_all line_wf [str_bytes ''Transfer-Encoding: chunked'']"
    using ok_status(1) by (simp_all add: line_wf_def str_bytes_def)
  have "http_header (str_bytes ''Transfer-Encoding'' @ 0x3a # 0x20 # str_bytes ''chunked'')
      = Some (map ascii_lowercase (str_bytes ''Transfer-Encoding''), str_bytes ''chunked'')"
    by (rule http_header_read) (simp_all add: str_bytes_def whitespace_def)
  then have "http_header (str_bytes ''Transfer-Encoding: chunked'') = Some (str_bytes ''transfer-encoding'', str_bytes ''chunked'')"
    by (simp add: str_bytes_def ascii_lowercase_def)
  moreover have "map ascii_lowercase (str_bytes ''chunked'') = str_bytes ''chunked''"
    by (simp add: str_bytes_def ascii_lowercase_def)
  ultimately show ?thesis
    unfolding parse_http_response_def using http_message_parts(1-3) [OF lines, of body] http_message_parts(4,5) [OF lines] ok_status(2,3)
    by (simp add: List.map_filter_simps Let_def)
qed

text \<open>
  A connector that posts what it gets to a device and answers with the device's answer is, for the tool,
  the device itself: everything shown of the tool on the device holds over HTTP.
\<close>

definition serves :: "'t network \<Rightarrow> ConnectorHttpTransport \<Rightarrow> 't transport \<Rightarrow> bool" where
  "serves net c tr \<longleftrightarrow> (\<forall>request t response t'. tr request t = (Ok response, t') \<longrightarrow> length response \<le> usize_MAX \<longrightarrow>
     net (ht_host c) (ht_port c) (ht_timeout c) (http_request c request) t
       = (Some (http_message OK_STATUS [str_bytes ''Content-Length: '' @ print_decimal (length response)] response), t'))"

lemma connector_exchange_serves:
  assumes "serves net c tr" "tr request t = (Ok response, t')" "length response \<le> usize_MAX"
  shows "connector_exchange net c request t = (Ok response, t')"
  using assms content_length_read [of "length response" response] by (simp add: connector_exchange_def serves_def)

section \<open>Addresses\<close>

lemma parse_port_decimal: "parse_port (print_decimal (unat p)) = Ok p"
proof -
  have "unat p < 2 ^ LENGTH(16)" by (rule unsigned_less)
  then have "unat p \<le> 65535" by simp
  then show ?thesis by (simp add: parse_port_def print_decimal_def parse_radix_print)
qed

lemma rsplit_once_append: "c \<notin> set b \<Longrightarrow> rsplit_once c (a @ c # b) = Some (a, b)"
  using split_once_append [of c "rev b" "rev a"] by (simp add: rsplit_once_def)

lemma print_decimal_no_colon: "0x3a \<notin> set (print_decimal n)"
  using print_decimal_plain(1) [of n] by auto

text \<open>A host with and without a port, in brackets when it holds colons itself.\<close>

lemma authority_read:
  assumes "0x3a \<notin> set host" "take 1 host \<noteq> str_bytes ''[''" "host \<noteq> []"
  shows "parse_authority (host @ 0x3a # print_decimal (unat p)) = Ok (host, p)" "parse_authority host = Ok (host, 80)"
proof -
  have "take 1 (host @ ys) \<noteq> str_bytes ''[''" for ys using assms(2,3) by (cases host) simp_all
  then show "parse_authority (host @ 0x3a # print_decimal (unat p)) = Ok (host, p)"
    using rsplit_once_append [OF print_decimal_no_colon, of host "unat p"] assms(1) by (simp add: parse_authority_def parse_port_decimal)
  have "rsplit_once 0x3a host = None" using assms(1) by (simp add: rsplit_once_def split_once_def)
  with assms(2) show "parse_authority host = Ok (host, 80)" by (simp add: parse_authority_def)
qed

lemma bracketed_authority_read:
  assumes "0x5d \<notin> set host"
  shows "parse_authority (0x5b # host @ 0x5d # 0x3a # print_decimal (unat p)) = Ok (host, p)"
    "parse_authority (0x5b # host @ [0x5d]) = Ok (host, 80)"
proof -
  have "str_bytes ''['' = [0x5b]" by (simp add: str_bytes_def)
  then show "parse_authority (0x5b # host @ 0x5d # 0x3a # print_decimal (unat p)) = Ok (host, p)"
    "parse_authority (0x5b # host @ [0x5d]) = Ok (host, 80)"
    using split_once_append [OF assms] by (simp_all add: parse_authority_def parse_port_decimal)
qed

end
