(* ===== verification/Sample_Qualification.thy ===== *)
theory Sample_Qualification
  imports Sample_Host Qualification_Cleanup Connector_Http
begin

text \<open>
  Concrete runs of the qualification tool: the operator's credentials on the sample device, and a device
  on which an interrupted run left an object.
\<close>

definition sample_credentials :: "'t Credentials" where
  "sample_credentials = \<lparr>cr_authentication_key_id = 1, cr_material = Cred_Symmetric (replicate 32 1)\<rparr>"

lemma sample_env_now [simp]: "now (sample_env t) = t"
  by (simp add: sample_env_def)

lemma sample_rights: "session_authorization sample_device 1 = Ok sample_authorization"
  by (simp add: session_authorization_def sample_objects bt_get_def factory_record_def sample_authorization_def)

lemma sample_may_qualify:
  assumes "timely 2 Es"
  shows "may_qualify sample_lib sample_device sample_credentials 0 sample_authorization (sample_env 2) Es"
  using assms sample_device_wf sample_material sample_rights sample_free [of 2]
  by (simp add: may_qualify_def sample_credentials_def sample_env_def CHALLENGE_LENGTH_def)
    (simp add: sample_device_def install_factory_authentication_key_def Let_def options_default_def OPTION_OFF_def)

lemma unused_id_first:
  assumes "(start, ty) \<notin> objects" "start < - 1"
  shows "unused_id objects ty start = Ok start"
proof -
  have "unat start < 65535" using assms(2) by (simp add: word_less_nat_alt unsigned_minus_1_eq_mask mask_eq_exp_minus_1)
  then have "[unat start..<65535] = unat start # [Suc (unat start)..<65535]" by (rule upt_conv_Cons)
  with assms(1) show ?thesis by (simp add: unused_id_def ok_or_def)
qed

lemma sample_opaque_ready: "opaque_case_ready sample_fw sample_authorization sample_device 0x7e00"
proof -
  have none: "bt_get (dv_objects sample_device) (ObjectKey Ty_Opaque i) = None" for i
    by (simp add: sample_objects bt_get_def)
  then have "(0x7e00, Ty_Opaque) \<notin> visible_objects sample_authorization sample_device"
    by (simp add: visible_objects_iff [OF sample_device_wf])
  then have "unused_id (visible_objects sample_authorization sample_device) Ty_Opaque 0x7e00 = Ok 0x7e00"
    by (rule unused_id_first) (simp add: word_less_nat_alt unsigned_minus_1_eq_mask mask_eq_exp_minus_1)
  moreover have "length (dv_objects sample_device) < 2043" by (simp add: sample_objects)
  moreover have "list_all (command_supported sample_fw)
      [Cmd_ListObjects, Cmd_PutOpaque, Cmd_GetOpaque, Cmd_GetObjectInfo, Cmd_DeleteObject, Cmd_CloseSession]" by code_simp
  moreover have "list_all (cap_contains (au_capabilities sample_authorization)) [Cap_PutOpaque, Cap_GetOpaque, Cap_DeleteOpaque]" by code_simp
  moreover have "cap_is_subset_of (cap_from_capabilities [Cap_GetOpaque]) (au_delegated_capabilities sample_authorization)" by code_simp
  moreover have "cap_is_subset_of cap_NONE (au_delegated_capabilities sample_authorization)" by code_simp
  moreover have "odd (au_domains sample_authorization)" by (simp add: sample_authorization_def)
  moreover have "algorithm_enabled sample_fw sample_device OPAQUE_DATA_ALGORITHM" by code_simp
  ultimately show ?thesis using none by (simp add: opaque_case_ready_def)
qed

section \<open>A device with a leftover\<close>

definition sample_leftover :: "bytes ObjectRecord" where
  "sample_leftover = opaque_record 0x7e00 cap_NONE (str_bytes ''qualification wrap'') [1, 2]"

definition sample_used_device :: "bytes Device" where
  "sample_used_device = store_record sample_leftover sample_device"

lemma sample_used_wf: "device_wf sample_lib sample_used_device"
proof -
  have "info_wf (or_info sample_leftover)" by code_simp
  moreover have "record_validate sample_lib sample_leftover = Ok ()"
    unfolding sample_leftover_def by (rule opaque_record_validates(2)) simp_all
  ultimately have "record_wf sample_lib sample_leftover"
    by (simp add: record_wf_def sample_leftover_def promote_private_material_def)
  then show ?thesis using sample_device_wf store_record_wf [of sample_lib sample_device sample_leftover]
    by (simp add: sample_used_device_def device_wf_def core_wf_def log_bounded_def)
qed

lemma sample_used_objects:
  "\<exists>r. bt_get (dv_objects sample_used_device) k = (if k = ObjectKey Ty_Opaque 0x7e00 then Some r else bt_get (dv_objects sample_device) k)
     \<and> leftover r \<and> can_see sample_authorization (or_info r)"
proof -
  let ?r = "sample_leftover\<lparr>or_info := (or_info sample_leftover)\<lparr>oi_sequence := ucast (next_generation sample_device 0x7e00)\<rparr>\<rparr>"
  have "bt_get (dv_objects sample_used_device) k = (if k = ObjectKey Ty_Opaque 0x7e00 then Some ?r else bt_get (dv_objects sample_device) k)"
    by (simp add: sample_used_device_def store_record_def Let_def) (simp add: sample_leftover_def)
  moreover have "leftover sample_leftover" by code_simp
  then have "leftover ?r" by (simp add: leftover_def)
  moreover have "can_see sample_authorization (or_info ?r)"
    by (simp add: can_see_def sample_authorization_def) (simp add: sample_leftover_def)
  ultimately show ?thesis by blast
qed

lemma sample_used_may_qualify:
  assumes "timely 2 Es"
  shows "may_qualify sample_lib sample_used_device sample_credentials 0 sample_authorization (sample_env 2) Es"
proof -
  have g: "bt_get (dv_objects sample_used_device) (ObjectKey Ty_AuthenticationKey 1) = bt_get (dv_objects sample_device) (ObjectKey Ty_AuthenticationKey 1)"
    using sample_used_objects [of "ObjectKey Ty_AuthenticationKey 1"] by auto
  have "dv_sessions sample_used_device = dv_sessions sample_device" "dv_options sample_used_device = dv_options sample_device"
    by (simp_all add: sample_used_device_def)
  with sample_may_qualify [OF assms] g sample_used_wf show ?thesis
    by (simp add: may_qualify_def sample_credentials_def authentication_key_material_def session_authorization_def
        free_session_id_def expire_inactive_sessions_def)
qed

lemma sample_used_visible:
  "visible_objects sample_authorization sample_used_device = {(0x7e00, Ty_Opaque), (1, Ty_AuthenticationKey)}"
  "is_leftover sample_used_device (0x7e00, Ty_Opaque)" "\<not> is_leftover sample_used_device (1, Ty_AuthenticationKey)"
proof -
  have factory: "can_see sample_authorization (or_info (factory_record sample_lib))" "\<not> leftover (factory_record sample_lib)"
    by (simp_all add: can_see_def sample_authorization_def factory_record_def leftover_def reserved_label_def str_bytes_def)
  have "x \<in> visible_objects sample_authorization sample_used_device \<longleftrightarrow> x = (0x7e00, Ty_Opaque) \<or> x = (1, Ty_AuthenticationKey)" for x
    using sample_used_objects [of "ObjectKey (snd x) (fst x)"] factory(1)
    by (cases x) (auto simp: visible_objects_iff [OF sample_used_wf] sample_objects bt_get_def split: if_splits)
  then show "visible_objects sample_authorization sample_used_device = {(0x7e00, Ty_Opaque), (1, Ty_AuthenticationKey)}" by auto
  show "is_leftover sample_used_device (0x7e00, Ty_Opaque)"
    using sample_used_objects [of "ObjectKey Ty_Opaque 0x7e00"] by (auto simp: is_leftover_def)
  show "\<not> is_leftover sample_used_device (1, Ty_AuthenticationKey)"
    using sample_used_objects [of "ObjectKey Ty_AuthenticationKey 1"] factory(2) by (auto simp: is_leftover_def sample_objects bt_get_def)
qed

lemma sample_used_length: "length (dv_objects sample_used_device) \<le> 2043"
proof -
  have "bt_wf (dv_objects sample_device)" using sample_device_wf by (simp add: device_wf_def core_wf_def store_wf_def)
  then show ?thesis
    using bt.length_insert [of "dv_objects sample_device"]
    by (simp add: sample_used_device_def store_record_def sample_objects Let_def)
qed

end
