(* ===== verification/Qualification_Keys.thy ===== *)
theory Qualification_Keys
  imports Qualification_Managed
begin

unbundle bit_operations_syntax

text \<open>
  The cases of the qualification tool on keys (\<^verbatim>\<open>yubihsm-qualification/src/lib.rs\<close>): for every kind of key
  the tool creates one, uses it, compares the answer with an independent computation, and deletes it. The
  independent computations are those of the cryptographic crates and are parameters.
\<close>

section \<open>What the tool computes itself\<close>

text \<open>
  The operations of the crates that only the tool uses. A secret of the curve P-256 is the byte string it
  was made from. What the tool shares with the device (digests, HMAC, key derivation, Montgomery keys) is
  taken from the library of the device.
\<close>

record client_lib =
  v_sec1_ok :: "bytes \<Rightarrow> bool"
  v_signature_scheme :: "EcCurve \<Rightarrow> SignatureScheme"
  v_signature_from_der :: "bytes \<Rightarrow> nat \<Rightarrow> bytes option"
  v_verify_prehash :: "SoftwarePublicKey \<Rightarrow> SignatureScheme \<Rightarrow> bytes \<Rightarrow> bytes \<Rightarrow> bool"
  v_verify_message :: "SoftwarePublicKey \<Rightarrow> SignatureScheme \<Rightarrow> bytes \<Rightarrow> bytes \<Rightarrow> bool"
  v_verify_rsa_pkcs1_sha256 :: "SoftwarePublicKey \<Rightarrow> bytes \<Rightarrow> bytes \<Rightarrow> bool"
  v_verify_rsa_pss_sha256 :: "SoftwarePublicKey \<Rightarrow> bytes \<Rightarrow> nat \<Rightarrow> bytes \<Rightarrow> bool"
  v_encrypt_rsa_pkcs1v15 :: "SoftwarePublicKey \<Rightarrow> bytes \<Rightarrow> bytes option"
  v_encrypt_rsa_oaep :: "SoftwarePublicKey \<Rightarrow> bytes \<Rightarrow> bytes \<Rightarrow> HashAlgorithm \<Rightarrow> bytes option"
  v_certificate_public_key :: "bytes \<Rightarrow> bytes option"
  v_p256_secret_ok :: "bytes \<Rightarrow> bool"
  v_p256_public :: "bytes \<Rightarrow> bytes"
  v_p256_agree :: "bytes \<Rightarrow> bytes \<Rightarrow> bytes"

text \<open>\<^verbatim>\<open>&bytes[1..]\<close> on an answer whose length was not checked, and \<^verbatim>\<open>last_mut().unwrap() ^= 1\<close>.\<close>

definition after_first :: "bytes \<Rightarrow> bytes case_result" where
  "after_first bs = (if bs = [] then Panic else Ok (drop 1 bs))"

definition flip_last :: "bytes \<Rightarrow> bytes case_result" where
  "flip_last bs = (if bs = [] then Panic else Ok (butlast bs @ [last bs XOR 1]))"

text \<open>A \<^verbatim>\<open>for\<close> loop whose body may fail.\<close>

fun for_each :: "('x \<Rightarrow> 's \<Rightarrow> unit case_result \<times> 's) \<Rightarrow> 'x list \<Rightarrow> 's \<Rightarrow> unit case_result \<times> 's" where
  "for_each body [] s = (Ok (), s)"
| "for_each body (x # xs) s = try_st (body x s) (\<lambda>_ s. for_each body xs s)"

text \<open>A step whose error is looked at later: only a panic stops the script.\<close>

definition keep_result ::
  "('a, 'e) result \<times> 's \<Rightarrow> (('a, 'e) result \<Rightarrow> 's \<Rightarrow> ('b, 'f) result \<times> 's) \<Rightarrow> ('b, 'f) result \<times> 's" where
  "keep_result m k = (case fst m of Panic \<Rightarrow> (Panic, snd m) | Diverge \<Rightarrow> (Diverge, snd m) | r \<Rightarrow> k r (snd m))"

definition delete_objects ::
  "'k lib \<Rightarrow> 't transport \<Rightarrow> (u16 \<times> ObjectType) list \<Rightarrow> SymmetricSession \<times> 't \<Rightarrow> unit case_result \<times> SymmetricSession \<times> 't" where
  "delete_objects L tr = for_each (\<lambda>(i, object_type). client_delete_object L tr i object_type)"

type_synonym 't script = "SymmetricSession \<times> 't \<Rightarrow> unit case_result \<times> SymmetricSession \<times> 't"

section \<open>Secret keys\<close>

definition hmac_scenario :: "'k lib \<Rightarrow> 't transport \<Rightarrow> 't script" where
  "hmac_scenario L tr st =
     try_st (client_list_objects L tr st) (\<lambda>objects st.
     try_in (unused_id objects Ty_HmacKey 0x7d00) st (\<lambda>i.
     let key = replicate 20 0x0b; message = str_bytes ''Hi There'' in
     try_st (client_send L tr
       (build_put_secret_key Cmd_PutHmacKey i (cap_from_capabilities [Cap_SignHmac, Cap_VerifyHmac]) Alg_HmacSha256 key
          (str_bytes ''qualification hmac'')) Cmd_PutHmacKey st) (\<lambda>_ st.
     try_st (client_query L tr Cmd_SignHmac (be16 i @ message) st) (\<lambda>signature st.
     try_in (ok_or (hmac_compute L Sha256 key message) ()) st (\<lambda>expected.
     try_in (ensure (signature = expected)) st (\<lambda>_.
     let verify_data = be16 i @ signature @ message in
     try_st (client_query L tr Cmd_VerifyHmac verify_data st) (\<lambda>data st.
     try_in (ensure (data = [1])) st (\<lambda>_.
     try_in (flip_last verify_data) st (\<lambda>verify_data.
     try_st (client_query L tr Cmd_VerifyHmac verify_data st) (\<lambda>data st.
     try_in (ensure (data = [0])) st (\<lambda>_.
     try_st (client_delete_object L tr i Ty_HmacKey st) (\<lambda>_ st.
     client_close L tr st))))))))))))"

definition AES_PLAINTEXT :: bytes where
  "AES_PLAINTEXT = [0x00, 0x11, 0x22, 0x33, 0x44, 0x55, 0x66, 0x77, 0x88, 0x99, 0xaa, 0xbb, 0xcc, 0xdd, 0xee, 0xff]"

definition AES_IV :: bytes where
  "AES_IV = [0x0f, 0x0e, 0x0d, 0x0c, 0x0b, 0x0a, 0x09, 0x08, 0x07, 0x06, 0x05, 0x04, 0x03, 0x02, 0x01, 0x00]"

definition aes_vectors :: "(Algorithm \<times> bytes \<times> bytes) list" where
  "aes_vectors =
     [(Alg_Aes128, map of_nat [0..<16],
       [0x69, 0xc4, 0xe0, 0xd8, 0x6a, 0x7b, 0x04, 0x30, 0xd8, 0xcd, 0xb7, 0x80, 0x70, 0xb4, 0xc5, 0x5a]),
      (Alg_Aes192, map of_nat [0..<24],
       [0xdd, 0xa9, 0x7c, 0xa4, 0x86, 0x4c, 0xdf, 0xe0, 0x6e, 0xaf, 0x70, 0xa0, 0xec, 0x0d, 0x71, 0x91]),
      (Alg_Aes256, map of_nat [0..<32],
       [0x8e, 0xa2, 0xb7, 0xca, 0x51, 0x67, 0x45, 0xbf, 0xea, 0xfc, 0x49, 0x90, 0x4b, 0x49, 0x60, 0x89])]"

text \<open>The body of the loop over the vectors, on the identifier that was found for it.\<close>

definition aes_vector :: "'k lib \<Rightarrow> 't transport \<Rightarrow> u16 \<Rightarrow> Algorithm \<times> bytes \<times> bytes \<Rightarrow> 't script" where
  "aes_vector L tr i = (\<lambda>(algorithm, key, expected_ecb) st.
     try_st (client_send L tr
       (build_put_secret_key Cmd_PutSymmetricKey i
          (cap_from_capabilities [Cap_EncryptEcb, Cap_DecryptEcb, Cap_EncryptCbc, Cap_DecryptCbc]) algorithm key
          (str_bytes ''qualification aes'')) Cmd_PutSymmetricKey st) (\<lambda>_ st.
     try_st (client_query L tr Cmd_EncryptEcb (be16 i @ AES_PLAINTEXT) st) (\<lambda>ciphertext st.
     try_in (ensure (ciphertext = expected_ecb)) st (\<lambda>_.
     try_st (client_query L tr Cmd_DecryptEcb (be16 i @ ciphertext) st) (\<lambda>data st.
     try_in (ensure (data = AES_PLAINTEXT)) st (\<lambda>_.
     try_st (client_query L tr Cmd_EncryptCbc (be16 i @ AES_IV @ AES_PLAINTEXT) st) (\<lambda>ciphertext st.
     try_st (client_query L tr Cmd_DecryptCbc (be16 i @ AES_IV @ ciphertext) st) (\<lambda>data st.
     try_in (ensure (data = AES_PLAINTEXT)) st (\<lambda>_.
     client_delete_object L tr i Ty_SymmetricKey st)))))))))"

text \<open>
  A loop that takes an identifier that is not listed for each of its turns and adds it to the
  listing (\<^verbatim>\<open>aes_scenario\<close>, \<^verbatim>\<open>ec_signing_scenario\<close>).
\<close>

fun with_fresh_ids ::
  "ObjectType \<Rightarrow> u16 \<Rightarrow> (u16 \<Rightarrow> 'x \<Rightarrow> 't script) \<Rightarrow> (u16 \<times> ObjectType) set \<Rightarrow> 'x list \<Rightarrow> 't script" where
  "with_fresh_ids object_type start body objects [] st = (Ok (), st)"
| "with_fresh_ids object_type start body objects (x # xs) st =
     try_in (unused_id objects object_type start) st (\<lambda>i.
     try_st (body i x st) (\<lambda>_ st. with_fresh_ids object_type start body (insert (i, object_type) objects) xs st))"

definition aes_scenario :: "'k lib \<Rightarrow> 't transport \<Rightarrow> 't script" where
  "aes_scenario L tr st =
     try_st (client_list_objects L tr st) (\<lambda>objects st.
     try_st (with_fresh_ids Ty_SymmetricKey 0x7d20 (aes_vector L tr) objects aes_vectors st) (\<lambda>_ st.
     client_close L tr st))"

definition otp_aead_scenario :: "'k lib \<Rightarrow> 't transport \<Rightarrow> 't script" where
  "otp_aead_scenario L tr st =
     try_st (client_list_objects L tr st) (\<lambda>objects st.
     try_in (unused_id objects Ty_OtpAeadKey 0x7b00) st (\<lambda>i.
     try_st (client_send L tr
       (build_put_otp_aead_key i
          (cap_from_capabilities [Cap_CreateOtpAead, Cap_RandomizeOtpAead, Cap_DecryptOtp, Cap_RewrapFromOtpAeadKey,
             Cap_RewrapToOtpAeadKey]) 0x12345678 (map of_nat [0x80..<0x90])) Cmd_PutOtpAeadKey st) (\<lambda>_ st.
     try_st (client_query L tr Cmd_CreateOtpAead (be16 i @ map of_nat [0..<16] @ [1, 2, 3, 4, 5, 6]) st) (\<lambda>aead st.
     try_in (ensure (length aead = 36)) st (\<lambda>_.
     let otp = [0x2f, 0x5d, 0x71, 0xa4, 0x91, 0x5d, 0xec, 0x30, 0x4a, 0xa1, 0x3c, 0xcf, 0x97, 0xbb, 0x0d, 0xbb] in
     try_st (client_query L tr Cmd_DecryptOtp (be16 i @ aead @ otp) st) (\<lambda>data st.
     try_in (ensure (data = [1, 0, 1, 1, 1, 0])) st (\<lambda>_.
     try_st (client_query L tr Cmd_RandomizeOtpAead (be16 i) st) (\<lambda>data st.
     try_in (ensure (length data = 36)) st (\<lambda>_.
     try_st (client_delete_object L tr i Ty_OtpAeadKey st) (\<lambda>_ st.
     client_close L tr st))))))))))"

section \<open>Signatures and agreement\<close>

definition attestation_scenario :: "'k lib \<Rightarrow> client_lib \<Rightarrow> 't transport \<Rightarrow> 't script" where
  "attestation_scenario L V tr st =
     try_st (client_list_objects L tr st) (\<lambda>objects st.
     try_in (unused_id objects Ty_AsymmetricKey 0x7b40) st (\<lambda>i.
     try_st (client_send L tr
       (build_generate_asymmetric_key i (cap_from_capabilities [Cap_SignEcdsa]) Alg_EcP256 (str_bytes ''qualification attest''))
       Cmd_GenerateAsymmetricKey st) (\<lambda>_ st.
     try_st (client_get_public_key L tr i Ty_AsymmetricKey st) (\<lambda>public st.
     try_st (client_query L tr Cmd_SignAttestationCertificate (be16 i @ be16 0) st) (\<lambda>certificate st.
     try_in (ok_or (v_certificate_public_key V certificate) ()) st (\<lambda>certificate_public.
     try_in (after_first public) st (\<lambda>point.
     try_in (ensure (certificate_public = 0x04 # point)) st (\<lambda>_.
     try_st (client_delete_object L tr i Ty_AsymmetricKey st) (\<lambda>_ st.
     client_close L tr st)))))))))"

definition ec_curves :: "(Algorithm \<times> EcCurve \<times> HashAlgorithm \<times> nat) list" where
  "ec_curves =
     [(Alg_EcP224, P224, Sha224, 28), (Alg_EcP256, P256, Sha256, 32), (Alg_EcP384, P384, Sha384, 48),
      (Alg_EcP521, P521, Sha512, 66), (Alg_EcK256, Secp256k1, Sha256, 32),
      (Alg_EcBrainpoolP256, BrainpoolP256, Sha256, 32), (Alg_EcBrainpoolP384, BrainpoolP384, Sha384, 48),
      (Alg_EcBrainpoolP512, BrainpoolP512, Sha512, 64)]"

definition ec_curve_case ::
  "'k lib \<Rightarrow> client_lib \<Rightarrow> 't transport \<Rightarrow> u16 \<Rightarrow> Algorithm \<times> EcCurve \<times> HashAlgorithm \<times> nat \<Rightarrow> 't script" where
  "ec_curve_case L V tr i = (\<lambda>(algorithm, curve, hash, coordinate_length) st.
     try_st (client_send L tr
       (build_generate_asymmetric_key i (cap_from_capabilities [Cap_SignEcdsa]) algorithm (str_bytes ''qualification ec''))
       Cmd_GenerateAsymmetricKey st) (\<lambda>_ st.
     try_st (client_get_public_key L tr i Ty_AsymmetricKey st) (\<lambda>public st.
     try_in (ensure (length public = 1 + coordinate_length * 2 \<and> public ! 0 = algorithm_code algorithm)) st (\<lambda>_.
     let verifier = Pub_Ec curve (0x04 # drop 1 public);
         digest = hash_digest L hash (str_bytes ''YubiHSM EC qualification message'') in
     try_st (client_query L tr Cmd_SignEcdsa (be16 i @ digest) st) (\<lambda>der st.
     try_in (ok_or (v_signature_from_der V der coordinate_length) ()) st (\<lambda>signature.
     try_in (ensure (v_verify_prehash V verifier (v_signature_scheme V curve) digest signature)) st (\<lambda>_.
     client_delete_object L tr i Ty_AsymmetricKey st)))))))"

definition ec_signing_scenario :: "'k lib \<Rightarrow> client_lib \<Rightarrow> 't transport \<Rightarrow> 't script" where
  "ec_signing_scenario L V tr st =
     try_st (client_list_objects L tr st) (\<lambda>objects st.
     try_st (with_fresh_ids Ty_AsymmetricKey 0x7c00 (ec_curve_case L V tr) objects ec_curves st) (\<lambda>_ st.
     client_close L tr st))"

definition rsa_scenario :: "'k lib \<Rightarrow> client_lib \<Rightarrow> 't transport \<Rightarrow> 't script" where
  "rsa_scenario L V tr st =
     try_st (client_list_objects L tr st) (\<lambda>objects st.
     try_in (unused_id objects Ty_AsymmetricKey 0x7c40) st (\<lambda>i.
     try_st (client_send L tr
       (build_generate_asymmetric_key i (cap_from_capabilities [Cap_SignPkcs, Cap_SignPss, Cap_DecryptPkcs, Cap_DecryptOaep])
          Alg_Rsa2048 (str_bytes ''qualification rsa'')) Cmd_GenerateAsymmetricKey st) (\<lambda>_ st.
     try_st (client_get_public_key L tr i Ty_AsymmetricKey st) (\<lambda>public st.
     try_in (ensure (length public = 257 \<and> public ! 0 = algorithm_code Alg_Rsa2048)) st (\<lambda>_.
     let verifier = Pub_Rsa (drop 1 public) [1, 0, 1];
         digest = hash_digest L Sha256 (str_bytes ''YubiHSM RSA qualification message'') in
     try_st (client_query L tr Cmd_SignPkcs1 (be16 i @ digest) st) (\<lambda>signature st.
     try_in (ensure (v_verify_rsa_pkcs1_sha256 V verifier digest signature)) st (\<lambda>_.
     try_st (client_query L tr Cmd_SignPss (be16 i @ [algorithm_code Alg_Mgf1Sha256] @ be16 32 @ digest) st) (\<lambda>signature st.
     try_in (ensure (v_verify_rsa_pss_sha256 V verifier digest 32 signature)) st (\<lambda>_.
     let plaintext = str_bytes ''RSA qualification plaintext'' in
     try_in (ok_or (v_encrypt_rsa_pkcs1v15 V verifier plaintext) ()) st (\<lambda>ciphertext.
     try_st (client_query L tr Cmd_DecryptPkcs1 (be16 i @ ciphertext) st) (\<lambda>data st.
     try_in (ensure (data = plaintext)) st (\<lambda>_.
     let label_digest = hash_digest L Sha256 (str_bytes ''qualification OAEP label'') in
     try_in (ok_or (v_encrypt_rsa_oaep V verifier plaintext label_digest Sha384) ()) st (\<lambda>ciphertext.
     try_st (client_query L tr Cmd_DecryptOaep (be16 i @ [algorithm_code Alg_Mgf1Sha384] @ ciphertext @ label_digest) st) (\<lambda>data st.
     try_in (ensure (data = plaintext)) st (\<lambda>_.
     try_st (client_delete_object L tr i Ty_AsymmetricKey st) (\<lambda>_ st.
     client_close L tr st))))))))))))))))"

definition generate_key_case :: "'k lib \<Rightarrow> 't transport \<Rightarrow> u16 \<Rightarrow> Capability \<Rightarrow> Algorithm \<Rightarrow> string \<Rightarrow> 't script" where
  "generate_key_case L tr i capability algorithm label st =
     try_st (client_send L tr
       (build_generate_asymmetric_key i (cap_from_capabilities [capability]) algorithm (str_bytes label))
       Cmd_GenerateAsymmetricKey st) (\<lambda>_ st. (Ok (), st))"

definition ed25519_and_ecdh_scenario :: "'k lib \<Rightarrow> client_lib \<Rightarrow> 't transport \<Rightarrow> 't script" where
  "ed25519_and_ecdh_scenario L V tr st =
     try_st (client_list_objects L tr st) (\<lambda>objects st.
     try_in (unused_id objects Ty_AsymmetricKey 0x7c80) st (\<lambda>ed_id.
     let objects = insert (ed_id, Ty_AsymmetricKey) objects in
     try_st (generate_key_case L tr ed_id Cap_SignEddsa Alg_Ed25519 ''qualification ed25519'' st) (\<lambda>_ st.
     try_st (client_get_public_key L tr ed_id Ty_AsymmetricKey st) (\<lambda>public st.
     try_in (ensure (length public = 33 \<and> public ! 0 = algorithm_code Alg_Ed25519)) st (\<lambda>_.
     let verifier = Pub_Edwards Curve_Ed25519 (drop 1 public); message = str_bytes ''YubiHSM Ed25519 qualification message'' in
     try_st (client_query L tr Cmd_SignEddsa (be16 ed_id @ message) st) (\<lambda>signature st.
     try_in (ensure (v_verify_message V verifier SchemeEd25519 message signature)) st (\<lambda>_.
     try_in (unused_id objects Ty_AsymmetricKey 0x7c90) st (\<lambda>first_id.
     let objects = insert (first_id, Ty_AsymmetricKey) objects in
     try_in (unused_id objects Ty_AsymmetricKey 0x7c90) st (\<lambda>second_id.
     try_st (for_each (\<lambda>i. generate_key_case L tr i Cap_DeriveEcdh Alg_EcP256 ''qualification ecdh'') [first_id, second_id] st) (\<lambda>_ st.
     try_st (client_get_public_key L tr first_id Ty_AsymmetricKey st) (\<lambda>first_public st.
     try_st (client_get_public_key L tr second_id Ty_AsymmetricKey st) (\<lambda>second_public st.
     try_in (after_first second_public) st (\<lambda>second_point.
     try_st (client_derive_ecdh L tr first_id second_point st) (\<lambda>first_secret st.
     try_in (after_first first_public) st (\<lambda>first_point.
     try_st (client_derive_ecdh L tr second_id first_point st) (\<lambda>second_secret st.
     try_in (ensure (first_secret = second_secret \<and> length first_secret = 32)) st (\<lambda>_.
     try_st (for_each (\<lambda>i. client_delete_object L tr i Ty_AsymmetricKey) [ed_id, first_id, second_id] st) (\<lambda>_ st.
     client_close L tr st))))))))))))))))))"

text \<open>\<^verbatim>\<open>x25519_scenario\<close> and \<^verbatim>\<open>x448_scenario\<close> differ in their constants only.\<close>

definition montgomery_scenario ::
  "'k lib \<Rightarrow> 't transport \<Rightarrow> u16 \<Rightarrow> Algorithm \<Rightarrow> MontgomeryCurve \<Rightarrow> nat \<Rightarrow> string \<Rightarrow> 't script" where
  "montgomery_scenario L tr start algorithm curve width label st =
     try_st (client_list_objects L tr st) (\<lambda>objects st.
     try_in (unused_id objects Ty_AsymmetricKey start) st (\<lambda>i.
     try_st (generate_key_case L tr i Cap_DeriveEcdh algorithm label st) (\<lambda>_ st.
     try_st (client_get_public_key L tr i Ty_AsymmetricKey st) (\<lambda>public st.
     try_in (ensure (length public = 1 + width \<and> public ! 0 = algorithm_code algorithm)) st (\<lambda>_.
     try_in (ok_or (montgomery_from_serialized L curve (replicate width 0x33)) ()) st (\<lambda>peer.
     try_st (client_derive_montgomery L tr i (montgomery_public L peer) st) (\<lambda>device_secret st.
     try_in (ok_or (montgomery_derive L peer (drop 1 public)) ()) st (\<lambda>peer_secret.
     try_in (ensure (device_secret = peer_secret \<and> length device_secret = width)) st (\<lambda>_.
     try_st (client_delete_object L tr i Ty_AsymmetricKey st) (\<lambda>_ st.
     client_close L tr st))))))))))"

definition x25519_scenario :: "'k lib \<Rightarrow> 't transport \<Rightarrow> 't script" where
  "x25519_scenario L tr = montgomery_scenario L tr 0x7980 Alg_X25519 Curve_X25519 32 ''qualification x25519''"

definition x448_scenario :: "'k lib \<Rightarrow> 't transport \<Rightarrow> 't script" where
  "x448_scenario L tr = montgomery_scenario L tr 0x7981 Alg_X448 Curve_X448 56 ''qualification x448''"

definition ed448_scenario :: "'k lib \<Rightarrow> client_lib \<Rightarrow> 't transport \<Rightarrow> 't script" where
  "ed448_scenario L V tr st =
     try_st (client_list_objects L tr st) (\<lambda>objects st.
     try_in (unused_id objects Ty_AsymmetricKey 0x7982) st (\<lambda>i.
     try_st (generate_key_case L tr i Cap_SignEddsa Alg_Ed448 ''qualification ed448'' st) (\<lambda>_ st.
     try_st (client_get_public_key L tr i Ty_AsymmetricKey st) (\<lambda>public st.
     try_in (ensure (length public = 58 \<and> public ! 0 = algorithm_code Alg_Ed448)) st (\<lambda>_.
     let verifier = Pub_Edwards Curve_Ed448 (drop 1 public); message = str_bytes ''YubiHSM Ed448 qualification message'' in
     try_st (client_query L tr Cmd_SignEddsa (be16 i @ message) st) (\<lambda>signature st.
     try_in (ensure (v_verify_message V verifier SchemeEd448 message signature)) st (\<lambda>_.
     try_st (client_delete_object L tr i Ty_AsymmetricKey st) (\<lambda>_ st.
     client_close L tr st))))))))"

text \<open>
  \<^verbatim>\<open>prefixed_ecdh_kdf_scenario\<close>: the closure with the test itself says whether the command is
  supported; the key is deleted and the session closed whatever it finds.
\<close>

definition prefixed_ecdh_outcome ::
  "'k lib \<Rightarrow> client_lib \<Rightarrow> 't transport \<Rightarrow> u16 \<Rightarrow> SymmetricSession \<times> 't \<Rightarrow> bool case_result \<times> SymmetricSession \<times> 't" where
  "prefixed_ecdh_outcome L V tr i st =
     try_st (client_get_public_key L tr i Ty_AsymmetricKey st) (\<lambda>public st.
     try_in (ensure (length public = 65 \<and> public ! 0 = algorithm_code Alg_EcP256)) st (\<lambda>_.
     let peer = replicate 32 0x44 in
     try_in (ensure (v_p256_secret_ok V peer)) st (\<lambda>_.
     let peer_public = v_p256_public V peer; device_public = 0x04 # drop 1 public in
     try_in (ensure (v_sec1_ok V device_public)) st (\<lambda>_.
     let raw_secret = v_p256_agree V peer device_public; prefix = replicate 32 0x41; shared_info = [0x3c, 0x88, 0x10] in
     try_in (ok_or (x963_kdf_sha256 L (prefix @ raw_secret) shared_info 64) ()) st (\<lambda>expected.
     try_in (or_message (u16_try_from (length peer_public))) st (\<lambda>peer_length.
     let request = be16 i @ [3] @ be16 64 @ be16 peer_length @ be16 32 @ be16 3 @ peer_public @ prefix @ shared_info in
     try_in (new_frame Cmd_DeriveEcdhKdf request) st (\<lambda>request.
     try_st (client_command L tr request st) (\<lambda>response st.
     if fr_command response = ERROR_COMMAND \<and> fr_data response = [error_code InvalidCommand] then (Ok False, st)
     else
       try_in (expect_response response Cmd_DeriveEcdhKdf) st (\<lambda>data.
       try_in (ensure (data = expected)) st (\<lambda>_.
       try_st (client_expects_error L tr Cmd_DeriveEcdh (be16 i @ peer_public) InsufficientPermissions st) (\<lambda>_ st.
       (Ok True, st))))))))))))"

definition prefixed_ecdh_kdf_scenario ::
  "'k lib \<Rightarrow> client_lib \<Rightarrow> 't transport \<Rightarrow> SymmetricSession \<times> 't \<Rightarrow> bool case_result \<times> SymmetricSession \<times> 't" where
  "prefixed_ecdh_kdf_scenario L V tr st =
     try_st (client_list_objects L tr st) (\<lambda>objects st.
     try_in (unused_id objects Ty_AsymmetricKey 0x79a0) st (\<lambda>i.
     try_st (generate_key_case L tr i Cap_DeriveEcdhKdf Alg_EcP256 ''qualification prefixed ecdh'' st) (\<lambda>_ st.
     keep_result (prefixed_ecdh_outcome L V tr i st) (\<lambda>outcome st.
     keep_result (client_delete_object L tr i Ty_AsymmetricKey st) (\<lambda>cleanup st.
     keep_result (client_close L tr st) (\<lambda>close st.
     (and_then outcome (\<lambda>supported. and_then cleanup (\<lambda>_. and_then close (\<lambda>_. Ok supported))), st)))))))"

section \<open>Wrapping\<close>

definition wrapping_scenario :: "'k lib \<Rightarrow> 't transport \<Rightarrow> 't script" where
  "wrapping_scenario L tr st =
     try_st (client_list_objects L tr st) (\<lambda>objects st.
     try_in (unused_id objects Ty_WrapKey 0x7d60) st (\<lambda>wrap_id.
     try_in (unused_id objects Ty_Opaque 0x7da0) st (\<lambda>opaque_id.
     let target_capabilities = cap_from_capabilities [Cap_GetOpaque, Cap_ExportableUnderWrap];
         wrap_capabilities = cap_from_capabilities [Cap_WrapData, Cap_UnwrapData, Cap_ExportWrapped, Cap_ImportWrapped] in
     try_st (client_send L tr
       (build_put_wrap_key wrap_id Alg_Aes256CcmWrap wrap_capabilities target_capabilities (replicate 32 0x6d)) Cmd_PutWrapKey st) (\<lambda>_ st.
     let plaintext = str_bytes ''qualification authenticated wrap data'' in
     try_st (client_query L tr Cmd_WrapData (be16 wrap_id @ plaintext) st) (\<lambda>wrapped_data st.
     try_in (ensure (length wrapped_data = 1 + 13 + length plaintext + 16)) st (\<lambda>_.
     let unwrap_data = be16 wrap_id @ wrapped_data in
     try_st (client_query L tr Cmd_UnwrapData unwrap_data st) (\<lambda>data st.
     try_in (ensure (data = plaintext)) st (\<lambda>_.
     try_in (flip_last unwrap_data) st (\<lambda>unwrap_data.
     try_st (client_expects_error L tr Cmd_UnwrapData unwrap_data InvalidData st) (\<lambda>_ st.
     let object_payload = str_bytes ''qualification wrapped object'' in
     try_st (client_send L tr (build_put_opaque opaque_id 1 target_capabilities (str_bytes ''wrapped-object'') object_payload)
       Cmd_PutOpaque st) (\<lambda>_ st.
     try_st (client_query L tr Cmd_ExportWrapped (be16 wrap_id @ [object_type_code Ty_Opaque] @ be16 opaque_id) st) (\<lambda>wrapped_object st.
     try_st (client_delete_object L tr opaque_id Ty_Opaque st) (\<lambda>_ st.
     try_st (client_query L tr Cmd_ImportWrapped (be16 wrap_id @ wrapped_object) st) (\<lambda>data st.
     try_in (ensure (data = [object_type_code Ty_Opaque] @ be16 opaque_id)) st (\<lambda>_.
     try_st (client_query L tr Cmd_GetOpaque (be16 opaque_id) st) (\<lambda>data st.
     try_in (ensure (data = object_payload)) st (\<lambda>_.
     try_st (client_delete_object L tr opaque_id Ty_Opaque st) (\<lambda>_ st.
     try_st (client_delete_object L tr wrap_id Ty_WrapKey st) (\<lambda>_ st.
     client_close L tr st)))))))))))))))))))"

text \<open>The layout of \<^verbatim>\<open>PutRsaWrappedKey\<close> up to the wrapped key, for a key of domain 1.\<close>

definition rsa_wrapped_key_header ::
  "u16 \<Rightarrow> ObjectType \<Rightarrow> u16 \<Rightarrow> bytes \<Rightarrow> CapabilitySet \<Rightarrow> bytes \<Rightarrow> bytes" where
  "rsa_wrapped_key_header wrap_id object_type i label capabilities algorithms =
     resize 45 (be16 wrap_id @ [object_type_code object_type] @ be16 i @ label) @ be16 1 @ capabilities @ algorithms"

text \<open>The two wrap keys of a case: a generated RSA key, and the same modulus as a public key.\<close>

definition rsa_wrap_pair ::
  "'k lib \<Rightarrow> 't transport \<Rightarrow> u16 \<Rightarrow> u16 \<Rightarrow> CapabilitySet \<Rightarrow> bytes \<Rightarrow> (bytes \<Rightarrow> unit case_result) \<Rightarrow> 't script" where
  "rsa_wrap_pair L tr private_wrap_id public_wrap_id delegated label check st =
     try_st (client_send L tr
       (build_generate_wrap_key private_wrap_id Alg_Rsa2048 (cap_from_capabilities [Cap_ImportWrapped]) delegated label)
       Cmd_GenerateWrapKey st) (\<lambda>_ st.
     try_st (client_get_public_key L tr private_wrap_id Ty_WrapKey st) (\<lambda>private_public st.
     try_in (check private_public) st (\<lambda>_.
     try_in (after_first private_public) st (\<lambda>modulus.
     try_st (client_send L tr
       (build_put_public_wrap_key public_wrap_id Alg_Rsa2048 (cap_from_capabilities [Cap_ExportWrapped]) delegated modulus)
       Cmd_PutPublicWrapKey st) (\<lambda>_ st. (Ok (), st))))))"

text \<open>The first part of \<^verbatim>\<open>rsa_wrapping_scenario\<close>: an opaque object leaves and comes back.\<close>

definition rsa_wrapped_object_case ::
  "'k lib \<Rightarrow> 't transport \<Rightarrow> u16 \<Rightarrow> u16 \<Rightarrow> u16 \<Rightarrow> bytes \<Rightarrow> 't script" where
  "rsa_wrapped_object_case L tr private_wrap_id public_wrap_id opaque_id label_digest st =
     (let payload = str_bytes ''RSA wrapped qualification object'' in
     try_st (client_send L tr
       (build_put_opaque opaque_id 1 (cap_from_capabilities [Cap_GetOpaque, Cap_ExportableUnderWrap])
          (str_bytes ''rsa-wrapped-object'') payload) Cmd_PutOpaque st) (\<lambda>_ st.
     try_st (client_query L tr Cmd_ExportRsaWrapped
       (be16 public_wrap_id @ [object_type_code Ty_Opaque] @ be16 opaque_id
        @ [algorithm_code Alg_Aes256, algorithm_code Alg_RsaOaepSha256, algorithm_code Alg_Mgf1Sha384] @ label_digest) st) (\<lambda>wrapped_object st.
     try_in (ensure (length wrapped_object > 256)) st (\<lambda>_.
     try_st (client_delete_object L tr opaque_id Ty_Opaque st) (\<lambda>_ st.
     try_st (client_query L tr Cmd_ImportRsaWrapped
       (be16 private_wrap_id @ [algorithm_code Alg_RsaOaepSha256, algorithm_code Alg_Mgf1Sha384] @ wrapped_object @ label_digest) st) (\<lambda>data st.
     try_in (ensure (data = [object_type_code Ty_Opaque] @ be16 opaque_id)) st (\<lambda>_.
     try_st (client_query L tr Cmd_GetOpaque (be16 opaque_id) st) (\<lambda>data st.
     (ensure (data = payload), st)))))))))"

text \<open>Its second part: the material of an EC key leaves and comes back, and the key still signs.\<close>

definition rsa_wrapped_key_case ::
  "'k lib \<Rightarrow> client_lib \<Rightarrow> 't transport \<Rightarrow> u16 \<Rightarrow> u16 \<Rightarrow> u16 \<Rightarrow> bytes \<Rightarrow> 't script" where
  "rsa_wrapped_key_case L V tr private_wrap_id public_wrap_id ec_id label_digest st =
     (let ec_capabilities = cap_from_capabilities [Cap_SignEcdsa, Cap_ExportableUnderWrap];
          label = str_bytes ''wrapped ec key'' in
     try_st (client_send L tr (build_generate_asymmetric_key ec_id ec_capabilities Alg_EcP256 label) Cmd_GenerateAsymmetricKey st) (\<lambda>_ st.
     try_st (client_get_public_key L tr ec_id Ty_AsymmetricKey st) (\<lambda>ec_public st.
     try_st (client_query L tr Cmd_GetRsaWrappedKey
       (be16 public_wrap_id @ [object_type_code Ty_AsymmetricKey] @ be16 ec_id
        @ [algorithm_code Alg_Aes256, algorithm_code Alg_RsaOaepSha256, algorithm_code Alg_Mgf1Sha384] @ label_digest) st) (\<lambda>wrapped_key st.
     try_st (client_delete_object L tr ec_id Ty_AsymmetricKey st) (\<lambda>_ st.
     try_st (client_query L tr Cmd_PutRsaWrappedKey
       (rsa_wrapped_key_header private_wrap_id Ty_AsymmetricKey ec_id label ec_capabilities
          [algorithm_code Alg_EcP256, algorithm_code Alg_RsaOaepSha256, algorithm_code Alg_Mgf1Sha384]
        @ wrapped_key @ label_digest) st) (\<lambda>_ st.
     let digest = hash_digest L Sha256 (str_bytes ''restored RSA-wrapped EC key'') in
     try_st (client_query L tr Cmd_SignEcdsa (be16 ec_id @ digest) st) (\<lambda>der st.
     try_in (ok_or (v_signature_from_der V der 32) ()) st (\<lambda>signature.
     try_in (after_first ec_public) st (\<lambda>point.
     (ensure (v_verify_prehash V (Pub_Ec P256 (0x04 # point)) EcdsaP256Sha256 digest signature), st))))))))))"

definition rsa_wrapping_scenario :: "'k lib \<Rightarrow> client_lib \<Rightarrow> 't transport \<Rightarrow> 't script" where
  "rsa_wrapping_scenario L V tr st =
     try_st (client_list_objects L tr st) (\<lambda>objects st.
     try_in (unused_id objects Ty_WrapKey 0x7a00) st (\<lambda>private_wrap_id.
     let objects = insert (private_wrap_id, Ty_WrapKey) objects in
     try_in (unused_id objects Ty_PublicWrapKey 0x7a10) st (\<lambda>public_wrap_id.
     let objects = insert (public_wrap_id, Ty_PublicWrapKey) objects in
     try_in (unused_id objects Ty_Opaque 0x7a20) st (\<lambda>opaque_id.
     let objects = insert (opaque_id, Ty_Opaque) objects in
     try_in (unused_id objects Ty_AsymmetricKey 0x7a30) st (\<lambda>ec_id.
     try_st (rsa_wrap_pair L tr private_wrap_id public_wrap_id
       (cap_from_capabilities [Cap_GetOpaque, Cap_SignEcdsa, Cap_ExportableUnderWrap]) (str_bytes ''qualification private wrap'')
       (\<lambda>public. ensure (length public = 257 \<and> public ! 0 = algorithm_code Alg_Rsa2048)) st) (\<lambda>_ st.
     let label_digest = hash_digest L Sha256 (str_bytes ''qualification RSA wrap label'') in
     try_st (rsa_wrapped_object_case L tr private_wrap_id public_wrap_id opaque_id label_digest st) (\<lambda>_ st.
     try_st (rsa_wrapped_key_case L V tr private_wrap_id public_wrap_id ec_id label_digest st) (\<lambda>_ st.
     try_st (delete_objects L tr [(opaque_id, Ty_Opaque), (ec_id, Ty_AsymmetricKey), (public_wrap_id, Ty_PublicWrapKey),
       (private_wrap_id, Ty_WrapKey)] st) (\<lambda>_ st.
     client_close L tr st)))))))))"

definition rsa_pkcs1_wrapping_scenario :: "'k lib \<Rightarrow> 't transport \<Rightarrow> 't script" where
  "rsa_pkcs1_wrapping_scenario L tr st =
     try_st (client_list_objects L tr st) (\<lambda>objects st.
     try_in (unused_id objects Ty_WrapKey 0x7960) st (\<lambda>private_wrap_id.
     let objects = insert (private_wrap_id, Ty_WrapKey) objects in
     try_in (unused_id objects Ty_PublicWrapKey 0x7961) st (\<lambda>public_wrap_id.
     let objects = insert (public_wrap_id, Ty_PublicWrapKey) objects in
     try_in (unused_id objects Ty_SymmetricKey 0x7962) st (\<lambda>source_id.
     let objects = insert (source_id, Ty_SymmetricKey) objects in
     try_in (unused_id objects Ty_SymmetricKey 0x7963) st (\<lambda>imported_id.
     let key_capabilities = cap_from_capabilities [Cap_EncryptEcb, Cap_ExportableUnderWrap] in
     try_st (rsa_wrap_pair L tr private_wrap_id public_wrap_id key_capabilities (str_bytes ''direct private wrap'') (\<lambda>_. Ok ()) st) (\<lambda>_ st.
     try_st (client_send L tr
       (build_put_secret_key Cmd_PutSymmetricKey source_id key_capabilities Alg_Aes128 (replicate 16 0x5a) (str_bytes ''direct source''))
       Cmd_PutSymmetricKey st) (\<lambda>_ st.
     try_st (client_query L tr Cmd_GetRsaWrappedKey
       (be16 public_wrap_id @ [object_type_code Ty_SymmetricKey] @ be16 source_id @ [0, 0, 0]) st) (\<lambda>wrapped st.
     try_in (ensure (length wrapped = 256)) st (\<lambda>_.
     try_st (client_query L tr Cmd_PutRsaWrappedKey
       (rsa_wrapped_key_header private_wrap_id Ty_SymmetricKey imported_id (str_bytes ''direct imported'') key_capabilities
          [algorithm_code Alg_Aes128, 0, 0] @ wrapped) st) (\<lambda>data st.
     try_in (ensure (data = [object_type_code Ty_SymmetricKey] @ be16 imported_id)) st (\<lambda>_.
     let plaintext = replicate 16 0x33 in
     try_in (new_frame Cmd_EncryptEcb (be16 source_id @ plaintext)) st (\<lambda>request.
     try_st (client_command L tr request st) (\<lambda>source st.
     try_in (new_frame Cmd_EncryptEcb (be16 imported_id @ plaintext)) st (\<lambda>request.
     try_st (client_command L tr request st) (\<lambda>imported st.
     try_in (expect_response source Cmd_EncryptEcb) st (\<lambda>source.
     try_in (expect_response imported Cmd_EncryptEcb) st (\<lambda>imported.
     try_in (ensure (source = imported)) st (\<lambda>_.
     try_st (delete_objects L tr [(source_id, Ty_SymmetricKey), (imported_id, Ty_SymmetricKey), (public_wrap_id, Ty_PublicWrapKey),
       (private_wrap_id, Ty_WrapKey)] st) (\<lambda>_ st.
     client_close L tr st)))))))))))))))))))"

end
