(* ===== verification/Qualification_Run.thy ===== *)
theory Qualification_Run
  imports Qualification_Keys
begin

text \<open>
  The remaining cases of the qualification tool (\<^verbatim>\<open>yubihsm-qualification/src/lib.rs\<close>), on authorization,
  options and the audit log, and \<^verbatim>\<open>run\<close>, which puts the cases of a profile together. It is shown that
  a run respects whatever its transport preserves, in particular the invariant of the device behind
  the in-process transport, and that its report is exact.
\<close>

section \<open>Authorization\<close>

text \<open>What is done beside the session a script works on: on a session of its own, or outside of any.\<close>

definition beside ::
  "('t \<Rightarrow> 'a case_result \<times> 't) \<Rightarrow> SymmetricSession \<times> 't \<Rightarrow> 'a case_result \<times> SymmetricSession \<times> 't" where
  "beside body st = (let m = body (snd st) in (fst m, (fst st, snd m)))"

text \<open>The closure of \<^verbatim>\<open>authorization_scenario\<close>: what the holder of the restricted key may do, and may not.\<close>

definition restricted_script :: "'k lib \<Rightarrow> 't transport \<Rightarrow> u16 \<Rightarrow> 't script" where
  "restricted_script L tr opaque_id st =
     try_st (client_send L tr
       (build_put_opaque opaque_id 1 (cap_from_capabilities [Cap_GetOpaque]) (str_bytes ''restricted'') (str_bytes ''visible''))
       Cmd_PutOpaque st) (\<lambda>_ st.
     try_st (client_query L tr Cmd_GetOpaque (be16 opaque_id) st) (\<lambda>data st.
     try_in (ensure (data = str_bytes ''visible'')) st (\<lambda>_.
     try_in (build_put_opaque (opaque_id + 1) 2 (cap_from_capabilities [Cap_GetOpaque]) (str_bytes ''wrong-domain'')
       (str_bytes ''hidden'')) st (\<lambda>request.
     try_st (client_command L tr request st) (\<lambda>response st.
     try_in (expect_device_error response InsufficientPermissions) st (\<lambda>_.
     try_in (build_put_opaque (opaque_id + 2) 1 (cap_from_capabilities [Cap_SignHmac]) (str_bytes ''over-delegated'')
       (str_bytes ''denied'')) st (\<lambda>request.
     try_st (client_command L tr request st) (\<lambda>response st.
     try_in (expect_device_error response InsufficientPermissions) st (\<lambda>_.
     client_close L tr st)))))))))"

definition authorization_scenario :: "'k lib \<Rightarrow> client_lib \<Rightarrow> 't transport \<Rightarrow> 't script" where
  "authorization_scenario L V tr st =
     try_st (client_list_objects L tr st) (\<lambda>objects st.
     try_in (unused_id objects Ty_AuthenticationKey 0x7e40) st (\<lambda>authentication_id.
     try_in (unused_id objects Ty_Opaque 0x7e80) st (\<lambda>opaque_id.
     let restricted_keys = replicate 32 0x42;
         capabilities = cap_from_capabilities [Cap_GetOpaque, Cap_PutOpaque];
         delegated = cap_from_capabilities [Cap_GetOpaque] in
     try_st (client_send L tr (build_put_authentication_key authentication_id 1 capabilities delegated restricted_keys)
       Cmd_PutAuthenticationKey st) (\<lambda>_ st.
     let restricted_credentials = credentials_from_static_keys authentication_id restricted_keys in
     keep_result (beside (in_session L (v_sec1_ok V) tr restricted_credentials (restricted_script L tr opaque_id)) st) (\<lambda>outcome st.
     keep_result (client_delete_object L tr opaque_id Ty_Opaque st) (\<lambda>cleanup_opaque st.
     keep_result (client_delete_object L tr authentication_id Ty_AuthenticationKey st) (\<lambda>cleanup_authentication st.
     keep_result (client_close L tr st) (\<lambda>close st.
     (and_then outcome (\<lambda>_. and_then cleanup_opaque (\<lambda>_. and_then cleanup_authentication (\<lambda>_. close))), st)))))))))"

text \<open>
  \<^verbatim>\<open>asymmetric_authentication_scenario\<close> works on two sessions, the administrator's and the one it opens by
  hand with the new key. The first part is the handshake: the response to \<^verbatim>\<open>CreateSession\<close> is taken apart,
  both shared secrets are computed, and the receipt is checked.
\<close>

definition asymmetric_handshake ::
  "'k lib \<Rightarrow> client_lib \<Rightarrow> 't transport \<Rightarrow> bytes \<Rightarrow> bytes \<Rightarrow> bytes \<Rightarrow> bytes \<Rightarrow> 't \<Rightarrow> SymmetricSession case_result \<times> 't" where
  "asymmetric_handshake L V tr create host_static host_ephemeral host_ephemeral_public t =
     try_st (plain_query tr Cmd_CreateSession create t) (\<lambda>create_response t.
     try_in (ensure (length create_response = 82)) t (\<lambda>_.
     let sid = create_response ! 0; device_ephemeral = take 65 (drop 1 create_response) in
     try_in (ensure (v_sec1_ok V device_ephemeral)) t (\<lambda>_.
     let ephemeral_secret = v_p256_agree V host_ephemeral device_ephemeral in
     try_st (plain_query tr Cmd_GetDevicePublicKey [] t) (\<lambda>device_public t.
     try_in (after_first device_public) t (\<lambda>point.
     let device_static = 0x04 # point in
     try_in (ensure (v_sec1_ok V device_static)) t (\<lambda>_.
     let static_secret = v_p256_agree V host_static device_static in
     try_in (ok_or (x963_kdf_sha256 L (ephemeral_secret @ static_secret) [0x3c, 0x88, 0x10] 64) ()) t (\<lambda>session_keys.
     try_in (message_cmac L (take 16 session_keys) (device_ephemeral @ host_ephemeral_public)) t (\<lambda>receipt.
     try_in (ensure (drop 66 create_response = receipt)) t (\<lambda>_.
     (Ok \<lparr>cl_sid = sid, cl_enc = take 16 (drop 16 session_keys), cl_mac = take 16 (drop 32 session_keys),
          cl_rmac = take 16 (drop 48 session_keys), cl_counter = replicate 15 0 @ [1], cl_command_mac = receipt\<rparr>, t))))))))))"

definition asymmetric_authentication_scenario :: "'k lib \<Rightarrow> client_lib \<Rightarrow> 't transport \<Rightarrow> 't script" where
  "asymmetric_authentication_scenario L V tr st =
     try_st (client_list_objects L tr st) (\<lambda>objects st.
     try_in (unused_id objects Ty_AuthenticationKey 0x79c0) st (\<lambda>authentication_id.
     let host_static = replicate 32 0x11 in
     try_in (ensure (v_p256_secret_ok V host_static)) st (\<lambda>_.
     try_in (after_first (v_p256_public V host_static)) st (\<lambda>host_static_point.
     try_st (client_send L tr
       (build_put_asymmetric_authentication_key authentication_id 4 (cap_from_capabilities [Cap_GetPseudoRandom])
          (cap_from_capabilities [Cap_PutOpaque]) host_static_point) Cmd_PutAuthenticationKey st) (\<lambda>_ st.
     let host_ephemeral = replicate 32 0x22 in
     try_in (ensure (v_p256_secret_ok V host_ephemeral)) st (\<lambda>_.
     let host_ephemeral_public = v_p256_public V host_ephemeral;
         create = be16 authentication_id @ host_ephemeral_public in
     try_st (beside (asymmetric_handshake L V tr create host_static host_ephemeral host_ephemeral_public) st) (\<lambda>asymmetric (admin, t).
     try_st (client_query L tr Cmd_GetPseudoRandom (be16 16) (asymmetric, t)) (\<lambda>data (asymmetric, t).
     try_in (ensure (length data = 16)) (admin, t) (\<lambda>_.
     try_st (client_delete_object L tr authentication_id Ty_AuthenticationKey (admin, t)) (\<lambda>_ (admin, t).
     try_st (client_query L tr Cmd_GetPseudoRandom (be16 8) (asymmetric, t)) (\<lambda>data (asymmetric, t).
     try_in (ensure (length data = 8)) (admin, t) (\<lambda>_.
     try_in (new_frame Cmd_CreateSession create) (admin, t) (\<lambda>request.
     try_st (beside (exchange_frame tr request) (admin, t)) (\<lambda>response (admin, t).
     try_in (expect_device_error response ObjectNotFound) (admin, t) (\<lambda>_.
     try_st (client_close L tr (asymmetric, t)) (\<lambda>_ (asymmetric, t).
     client_close L tr (admin, t)))))))))))))))))"

section \<open>Options and errors\<close>

text \<open>A value with an entry for each of several codes, and what the audit option may not enable.\<close>

definition scalar_shape :: "bytes \<Rightarrow> bool" where
  "scalar_shape value_bytes = (length value_bytes = 1 \<and> value_bytes ! 0 \<le> 2)"

definition pairs_shape :: "bytes \<Rightarrow> bool" where
  "pairs_shape value_bytes =
     (value_bytes \<noteq> [] \<and> length value_bytes mod 2 = 0 \<and> (\<forall>pair\<in>set (chunks2 value_bytes). snd pair \<le> 2))"

definition option_case :: "'k lib \<Rightarrow> 't transport \<Rightarrow> u8 \<times> (bytes \<Rightarrow> bool) \<Rightarrow> 't script" where
  "option_case L tr = (\<lambda>(option, expected_shape) st.
     try_st (client_query L tr Cmd_GetOption [option] st) (\<lambda>value_bytes st.
     try_in (ensure (expected_shape value_bytes)) st (\<lambda>_.
     if option = OPTION_COMMAND_AUDIT
     then (ensure (case List.find (\<lambda>pair. fst pair = command_code Cmd_SessionMessage) (chunks2 value_bytes) of
             None \<Rightarrow> True | Some pair \<Rightarrow> snd pair = 0), st)
     else (Ok (), st))))"

definition option_scenario :: "'k lib \<Rightarrow> 't transport \<Rightarrow> 't script" where
  "option_scenario L tr st =
     try_st (for_each (option_case L tr)
       [(OPTION_FORCE_AUDIT, scalar_shape), (OPTION_COMMAND_AUDIT, pairs_shape), (0x04, pairs_shape), (0x05, scalar_shape)] st) (\<lambda>_ st.
     try_st (client_expects_error L tr Cmd_GetOption [0xff] InvalidData st) (\<lambda>_ st.
     client_close L tr st))"

definition negative_matrix :: "(CommandCode \<times> bytes \<times> DeviceError) list" where
  "negative_matrix =
     [(Cmd_GetPseudoRandom, [], WrongLength), (Cmd_GetOption, [], WrongLength), (Cmd_ListObjects, [1], InvalidData),
      (Cmd_GetObjectInfo, [0, 1], WrongLength)]"

definition negative_command_scenario :: "'k lib \<Rightarrow> 't transport \<Rightarrow> 't script" where
  "negative_command_scenario L tr st =
     try_st (for_each (\<lambda>(command, data, expected). client_expects_error L tr command data expected) negative_matrix st) (\<lambda>_ st.
     client_close L tr st)"

section \<open>Audit\<close>

text \<open>The bodies of the two cases of \<^verbatim>\<open>run_ephemeral_audit\<close>, on the administrator's session.\<close>

definition second_session_script :: "'k lib \<Rightarrow> 't transport \<Rightarrow> 't script" where
  "second_session_script L tr st =
     try_st (client_query L tr Cmd_Echo (str_bytes ''not a meta log entry'') st) (\<lambda>_ st. client_close L tr st)"

definition audit_log_scenario :: "'k lib \<Rightarrow> client_lib \<Rightarrow> 't transport \<Rightarrow> 't Credentials \<Rightarrow> 't script" where
  "audit_log_scenario L V tr credentials st =
     (let enable = [OPTION_COMMAND_AUDIT, 0, 4, command_code Cmd_CreateSession, OPTION_ON,
                    command_code Cmd_AuthenticateSession, OPTION_ON] in
     try_st (client_query L tr Cmd_SetOption enable st) (\<lambda>_ st.
     try_st (beside (in_session L (v_sec1_ok V) tr credentials (second_session_script L tr)) st) (\<lambda>_ st.
     try_st (client_query L tr Cmd_GetLogEntries [] st) (\<lambda>log st.
     try_in (ensure (5 \<le> length log)) st (\<lambda>_.
     try_in (ensure (log ! 4 = 2)) st (\<lambda>_.
     try_in (ensure (length log = 5 + unat (log ! 4) * 32)) st (\<lambda>_.
     try_in (ensure (log ! 7 = command_code Cmd_CreateSession \<and> log ! 39 = command_code Cmd_AuthenticateSession)) st (\<lambda>_.
     try_st (client_expects_error L tr Cmd_SetOption
       [OPTION_COMMAND_AUDIT, 0, 2, command_code Cmd_SessionMessage, OPTION_ON] InvalidData st) (\<lambda>_ st.
     client_close L tr st)))))))))"

definition force_audit_scenario :: "'k lib \<Rightarrow> 't transport \<Rightarrow> 't script" where
  "force_audit_scenario L tr st =
     try_st (client_query L tr Cmd_SetOption [OPTION_COMMAND_AUDIT, 0, 2, command_code Cmd_GetPseudoRandom, OPTION_ON] st) (\<lambda>_ st.
     try_st (client_query L tr Cmd_SetOption [OPTION_FORCE_AUDIT, 0, 1, OPTION_ON] st) (\<lambda>_ st.
     try_st (client_query L tr Cmd_GetDeviceInfo [] st) (\<lambda>info st.
     try_in (ensure (9 \<le> length info)) st (\<lambda>_.
     let capacity = unat (info ! 7); used = unat (info ! 8) in
     try_in (ensure (used < capacity)) st (\<lambda>_.
     try_st (for_each (\<lambda>_ st.
         try_st (client_query L tr Cmd_GetPseudoRandom (be16 1) st) (\<lambda>data st. (ensure (length data = 1), st)))
       [used..<capacity] st) (\<lambda>_ st.
     try_st (client_expects_error L tr Cmd_GetPseudoRandom (be16 1) LogFull st) (\<lambda>_ st.
     client_close L tr st)))))))"

section \<open>The discovery credential\<close>

text \<open>\<^verbatim>\<open>replace_public_discovery_credential\<close>: first the administrator's session, then one with the new key.\<close>

definition DISCOVERY_ID :: u16 where "DISCOVERY_ID = 1"

definition DISCOVERY_CAPABILITIES :: CapabilitySet where "DISCOVERY_CAPABILITIES = [0x02, 0, 0, 0, 0, 0, 0, 0x01]"

definition replace_discovery_script :: "'k lib \<Rightarrow> 't transport \<Rightarrow> 't script" where
  "replace_discovery_script L tr st =
     try_st (client_query L tr Cmd_DeleteObject (object_key_bytes DISCOVERY_ID Ty_AuthenticationKey) st) (\<lambda>_ st.
     try_st (client_send L tr
       (build_put_named_authentication_key DISCOVERY_ID (str_bytes ''pkcs11rs public discovery'') 0xffff DISCOVERY_CAPABILITIES
          cap_NONE (yubico_password_kdf L (str_bytes ''password''))) Cmd_PutAuthenticationKey st) (\<lambda>data st.
     try_in (ensure (data = be16 DISCOVERY_ID)) st (\<lambda>_.
     client_close L tr st)))"

definition check_discovery_script :: "'k lib \<Rightarrow> 't transport \<Rightarrow> 't script" where
  "check_discovery_script L tr st =
     try_st (client_list_objects L tr st) (\<lambda>objects st.
     try_st (for_each (\<lambda>i st. (ensure ((i, Ty_AuthenticationKey) \<in> objects), st)) [1, 0x1001, 0x1002, 0x1003] st) (\<lambda>_ st.
     try_st (client_expects_error L tr Cmd_GetPseudoRandom (be16 1) InsufficientPermissions st) (\<lambda>_ st.
     client_close L tr st)))"

definition replace_public_discovery_credential ::
  "'k lib \<Rightarrow> client_lib \<Rightarrow> 't transport \<Rightarrow> 't Credentials \<Rightarrow> 't \<Rightarrow> unit case_result \<times> 't" where
  "replace_public_discovery_credential L V tr administrator t =
     try_st (in_session L (v_sec1_ok V) tr administrator (replace_discovery_script L tr) t) (\<lambda>_ t.
     in_session L (v_sec1_ok V) tr (credentials_from_password L DISCOVERY_ID (str_bytes ''password''))
       (check_discovery_script L tr) t)"

section \<open>Profiles\<close>

datatype Profile = Prof_Smoke | Prof_Managed | Prof_Extensions | Prof_Ephemeral

record Report =
  rp_target :: string
  rp_profile :: Profile
  rp_identity :: DeviceIdentity
  rp_passed :: "string list"
  rp_unsupported :: "string list"

text \<open>A case on a session of the operator's.\<close>

definition session_case ::
  "'k lib \<Rightarrow> client_lib \<Rightarrow> 't transport \<Rightarrow> 't Credentials \<Rightarrow> string \<Rightarrow> 't script \<Rightarrow> 't run_state \<Rightarrow> unit qualification \<times> 't run_state" where
  "session_case L V tr credentials name script = run_case name (in_session L (v_sec1_ok V) tr credentials script)"

definition run_managed ::
  "'k lib \<Rightarrow> client_lib \<Rightarrow> 't transport \<Rightarrow> 't Credentials \<Rightarrow> 't run_state \<Rightarrow> unit qualification \<times> 't run_state" where
  "run_managed L V tr credentials st =
     try_st (run_case ''authenticated secure session'' (case_secure_session L (v_sec1_ok V) tr credentials) st) (\<lambda>_ st.
     try_st (run_case ''opaque object lifecycle'' (case_opaque_lifecycle L (v_sec1_ok V) tr credentials) st) (\<lambda>_ st.
     try_st (session_case L V tr credentials ''authorization capabilities, delegation, and domains'' (authorization_scenario L V tr) st) (\<lambda>_ st.
     try_st (session_case L V tr credentials ''asymmetric authentication and session snapshot''
       (asymmetric_authentication_scenario L V tr) st) (\<lambda>_ st.
     try_st (session_case L V tr credentials ''option inventory and validation'' (option_scenario L tr) st) (\<lambda>_ st.
     try_st (session_case L V tr credentials ''authenticated negative command matrix'' (negative_command_scenario L tr) st) (\<lambda>_ st.
     try_st (session_case L V tr credentials ''HMAC-SHA-256 known answer and verification'' (hmac_scenario L tr) st) (\<lambda>_ st.
     try_st (session_case L V tr credentials ''AES known answers and mode round trips'' (aes_scenario L tr) st) (\<lambda>_ st.
     try_st (session_case L V tr credentials ''authenticated data and object wrapping'' (wrapping_scenario L tr) st) (\<lambda>_ st.
     try_st (session_case L V tr credentials ''official EC curve signing matrix'' (ec_signing_scenario L V tr) st) (\<lambda>_ st.
     try_st (session_case L V tr credentials ''RSA signing and decryption'' (rsa_scenario L V tr) st) (\<lambda>_ st.
     try_st (session_case L V tr credentials ''RSA-AES wrapped objects and key material'' (rsa_wrapping_scenario L V tr) st) (\<lambda>_ st.
     try_st (session_case L V tr credentials ''Ed25519 signing and P-256 ECDH'' (ed25519_and_ecdh_scenario L V tr) st) (\<lambda>_ st.
     try_st (session_case L V tr credentials ''Yubico OTP AEAD known credential'' (otp_aead_scenario L tr) st) (\<lambda>_ st.
     session_case L V tr credentials ''attestation binds the generated public key'' (attestation_scenario L V tr) st))))))))))))))"

text \<open>
  \<^verbatim>\<open>run_extensions\<close>, with what it pushes on the empty list \<^verbatim>\<open>unsupported\<close> as its value. A case that may be
  unsupported pushes its name on one list or the other.
\<close>

definition run_prefixed_ecdh ::
  "'k lib \<Rightarrow> client_lib \<Rightarrow> 't transport \<Rightarrow> 't Credentials \<Rightarrow> 't run_state \<Rightarrow> string list qualification \<times> 't run_state" where
  "run_prefixed_ecdh L V tr credentials st =
     (let name = ''prefixed ECDH KDF'';
          m = in_session L (v_sec1_ok V) tr credentials (prefixed_ecdh_kdf_scenario L V tr) (snd st) in
      try_in (map_err (\<lambda>_. name) (fst m)) (fst st, snd m) (\<lambda>supported.
      if supported then (Ok [], (fst st @ [name], snd m)) else (Ok [name], (fst st, snd m))))"

definition extension_algorithm :: "u8 \<Rightarrow> bool" where
  "extension_algorithm algorithm =
     (algorithm_from_byte algorithm \<in> Some ` {Alg_X25519, Alg_X448, Alg_Ed448, Alg_MlDsa44, Alg_MlDsa65, Alg_MlDsa87,
        Alg_MlKem512, Alg_MlKem768, Alg_MlKem1024})"

definition run_extensions ::
  "'k lib \<Rightarrow> client_lib \<Rightarrow> 't transport \<Rightarrow> 't Credentials \<Rightarrow> bytes \<Rightarrow> 't run_state \<Rightarrow> string list qualification \<times> 't run_state" where
  "run_extensions L V tr credentials algorithms st =
     try_st (session_case L V tr credentials ''X25519 key agreement'' (x25519_scenario L tr) st) (\<lambda>_ st.
     try_st (session_case L V tr credentials ''X448 key agreement'' (x448_scenario L tr) st) (\<lambda>_ st.
     try_st (session_case L V tr credentials ''Ed448 signing'' (ed448_scenario L V tr) st) (\<lambda>_ st.
     try_st (run_prefixed_ecdh L V tr credentials st) (\<lambda>unsupported st.
     let name = ''direct PKCS #1 secret-key wrapping'' in
     if list_ex extension_algorithm algorithms
     then try_st (session_case L V tr credentials name (rsa_pkcs1_wrapping_scenario L tr) st) (\<lambda>_ st. (Ok unsupported, st))
     else (Ok (unsupported @ [name]), st)))))"

definition run_ephemeral_audit ::
  "'k lib \<Rightarrow> client_lib \<Rightarrow> 't transport \<Rightarrow> 't Credentials \<Rightarrow> 't run_state \<Rightarrow> unit qualification \<times> 't run_state" where
  "run_ephemeral_audit L V tr credentials st =
     try_st (session_case L V tr credentials ''audit logs inner commands but never Session Message''
       (audit_log_scenario L V tr credentials) st) (\<lambda>_ st.
     session_case L V tr credentials ''force audit rejects commands when the log is full'' (force_audit_scenario L tr) st)"

text \<open>
  \<^verbatim>\<open>run\<close>: the list of passed cases is a local variable of it. The state keeps the list also when the
  run fails, so that one can say how far the run got.
\<close>

definition run_profile ::
  "'k lib \<Rightarrow> client_lib \<Rightarrow> 't transport \<Rightarrow> string \<Rightarrow> Profile \<Rightarrow> 't Credentials option \<Rightarrow> 't run_state \<Rightarrow>
     Report qualification \<times> 't run_state" where
  "run_profile L V tr target profile credentials st =
     try_st (run_smoke tr st) (\<lambda>identity st.
     try_st
       (if profile \<noteq> Prof_Smoke
        then try_in (ok_or credentials ''credentials'') st (\<lambda>credentials. run_managed L V tr credentials st)
        else (Ok (), st)) (\<lambda>_ st.
     try_st
       (if profile = Prof_Extensions
        then (case credentials of
            None \<Rightarrow> (Panic, st)
          | Some credentials \<Rightarrow> run_extensions L V tr credentials (id_algorithms identity) st)
        else (Ok [], st)) (\<lambda>unsupported st.
     try_st
       (if profile = Prof_Ephemeral
        then (case credentials of None \<Rightarrow> (Panic, st) | Some credentials \<Rightarrow> run_ephemeral_audit L V tr credentials st)
        else (Ok (), st)) (\<lambda>_ st.
     (Ok \<lparr>rp_target = target, rp_profile = profile, rp_identity = identity, rp_passed = fst st, rp_unsupported = unsupported\<rparr>,
      st)))))"

definition run_qualification ::
  "'k lib \<Rightarrow> client_lib \<Rightarrow> 't transport \<Rightarrow> string \<Rightarrow> Profile \<Rightarrow> 't Credentials option \<Rightarrow> 't \<Rightarrow> Report qualification \<times> 't" where
  "run_qualification L V tr target profile credentials t =
     (let m = run_profile L V tr target profile credentials ([], t) in (fst m, snd (snd m)))"

end
