(* ===== verification/Qualification_Credentials.thy ===== *)
theory Qualification_Credentials
  imports Qualification_Run Connector_Http
begin

unbundle bit_operations_syntax

text \<open>
  Where the credentials of the qualification tool come from
  (\<^verbatim>\<open>yubihsm-qualification/src/credentials.rs\<close>): a password, a key the platform holds, or a YubiHSM Auth
  credential on a smart card behind PC/SC. The platform's credentials, PC/SC and the YubiHSM Auth client
  are other crates and enter as parameters; what the tool does between them, the choice of the reader and
  the chaining of long commands included, is modelled.
\<close>

section \<open>Platform credentials\<close>

text \<open>
  What a platform key does (\<^verbatim>\<open>PrefixedX963Credential::derive_prefixed_x963\<close>): agree with a peer, put the
  prefix before the secret, and derive key material with the X9.63 function.
\<close>

type_synonym platform_key = "SoftwarePublicKey \<Rightarrow> HashAlgorithm \<Rightarrow> bytes \<Rightarrow> bytes \<Rightarrow> nat \<Rightarrow> bytes option"

datatype PlatformAuthenticationCredential = Pac_Asymmetric platform_key | Pac_Symmetric bytes

definition platform_resolve ::
  "(bytes \<Rightarrow> PlatformAuthenticationCredential option) \<Rightarrow> bytes \<Rightarrow> platform_key case_result" where
  "platform_resolve resolve_platform_credential name =
     and_then (ok_or (resolve_platform_credential name) ()) (\<lambda>credential. case credential of
       Pac_Asymmetric key \<Rightarrow> Ok key
     | Pac_Symmetric _ \<Rightarrow> Err ())"

definition split_session_keys :: "bytes \<Rightarrow> AsymmetricSessionKeys case_result" where
  "split_session_keys keys =
     (if length keys \<noteq> 64 then Err ()
      else Ok \<lparr>ak_receipt = Some (take 16 keys), ak_encryption = take 16 (drop 16 keys), ak_mac = take 16 (drop 32 keys),
               ak_response_mac = take 16 (drop 48 keys)\<rparr>)"

definition platform_derive ::
  "client_lib \<Rightarrow> platform_key \<Rightarrow> bytes \<Rightarrow> bytes \<Rightarrow> bytes \<Rightarrow> bytes \<Rightarrow> bytes \<Rightarrow> AsymmetricSessionKeys case_result" where
  "platform_derive V credential secret host_public_key context device_public_key receipt =
     (if length context \<noteq> 130 \<or> take 65 context \<noteq> host_public_key then Err ()
      else
        and_then (ensure (v_sec1_ok V (drop 65 context))) (\<lambda>_.
        let ephemeral_secret = v_p256_agree V secret (drop 65 context) in
        and_then (ok_or (credential (Pub_Ec P256 device_public_key) Sha256 ephemeral_secret [0x3c, 0x88, 0x10] 64) ())
          split_session_keys))"

text \<open>
  \<^verbatim>\<open>begin\<close> draws scalars until one of them is a secret key; \<open>draw\<close> is the operating system's source
  (\<^verbatim>\<open>getrandom::fill\<close>) and may fail.
\<close>

definition platform_begin ::
  "client_lib \<Rightarrow> (nat \<Rightarrow> bytes option) \<Rightarrow> platform_key \<Rightarrow> AsymmetricCredentialAttempt case_result" where
  "platform_begin V draw credential = (case draw_until draw (v_p256_secret_ok V) 0 of
       None \<Rightarrow> Diverge
     | Some None \<Rightarrow> Err ()
     | Some (Some secret) \<Rightarrow>
         let host_public_key = v_p256_public V secret in
         Ok \<lparr>aa_host_public_key = host_public_key,
             aa_derive_session_keys = platform_derive V credential secret host_public_key\<rparr>)"

section \<open>YubiHSM Auth on a smart card\<close>

text \<open>
  A card behind PC/SC (\<^verbatim>\<open>Card::transmit\<close>), the commands and responses of the YubiHSM Auth client, and
  the client itself: its operations use whatever exchange they are given.
\<close>

type_synonym 'c card = "bytes \<Rightarrow> 'c \<Rightarrow> bytes option \<times> 'c"

record apdu_command =
  ac_cla :: u8
  ac_instruction :: u8
  ac_p1 :: u8
  ac_p2 :: u8
  ac_data :: bytes

record apdu_response =
  ar_data :: bytes
  ar_status :: u16

datatype PcscTransportError = Pcsc_Error | Pcsc_MalformedResponse | Pcsc_ChainingResponse

type_synonym 'c apdu_exchange = "apdu_command \<Rightarrow> 'c \<Rightarrow> (apdu_response, PcscTransportError) result \<times> 'c"

record 'c auth_client =
  hc_select :: "'c apdu_exchange \<Rightarrow> 'c \<Rightarrow> bool \<times> 'c"
  hc_get_challenge :: "'c apdu_exchange \<Rightarrow> bytes \<Rightarrow> bytes \<Rightarrow> 'c \<Rightarrow> bytes option \<times> 'c"
  hc_session_keys :: "'c apdu_exchange \<Rightarrow> bytes \<Rightarrow> bytes \<Rightarrow> bytes \<Rightarrow> bytes \<Rightarrow> bytes \<Rightarrow> 'c \<Rightarrow> (bytes \<times> bytes \<times> bytes) option \<times> 'c"

definition transmit ::
  "'c card \<Rightarrow> u8 \<Rightarrow> u8 \<Rightarrow> u8 \<Rightarrow> u8 \<Rightarrow> bytes \<Rightarrow> 'c \<Rightarrow> (apdu_response, PcscTransportError) result \<times> 'c" where
  "transmit card_transmit cla instruction p1 p2 data c =
     (let m = card_transmit ([cla, instruction, p1, p2, of_nat (length data)] @ data) c in
      try_in (ok_or (fst m) Pcsc_Error) (snd m) (\<lambda>response.
      if length response < 2 then (Err Pcsc_MalformedResponse, snd m)
      else (Ok \<lparr>ar_data = take (length response - 2) response, ar_status = from_be (drop (length response - 2) response)\<rparr>,
            snd m)))"

text \<open>\<^verbatim>\<open>data.chunks(n)\<close>.\<close>

function chunks_of :: "nat \<Rightarrow> bytes \<Rightarrow> bytes list" where
  "chunks_of n bs = (if bs = [] \<or> n = 0 then [] else take n bs # chunks_of n (drop n bs))"
  by pat_completeness auto
termination by (relation "measure (\<lambda>(n, bs). length bs)") auto

declare chunks_of.simps [simp del]

fun transmit_chunks :: "'c card \<Rightarrow> apdu_command \<Rightarrow> bytes list \<Rightarrow> 'c \<Rightarrow> (apdu_response, PcscTransportError) result \<times> 'c" where
  "transmit_chunks card_transmit command [] c = (Panic, c)"
| "transmit_chunks card_transmit command (piece # chunks) c =
     (let last_chunk = (chunks = []) in
      try_st (transmit card_transmit (if last_chunk then ac_cla command else ac_cla command OR 0x10) (ac_instruction command)
        (ac_p1 command) (ac_p2 command) piece c) (\<lambda>response c.
      if last_chunk then (Ok response, c)
      else if ar_status response \<noteq> 0x9000 \<or> ar_data response \<noteq> [] then (Err Pcsc_ChainingResponse, c)
      else transmit_chunks card_transmit command chunks c))"

text \<open>\<^verbatim>\<open>PcscTransport::exchange\<close>. The card is behind a lock that only this thread takes.\<close>

definition pcsc_exchange :: "'c card \<Rightarrow> 'c apdu_exchange" where
  "pcsc_exchange card_transmit command c =
     (if ac_data command = []
      then transmit card_transmit (ac_cla command) (ac_instruction command) (ac_p1 command) (ac_p2 command) [] c
      else transmit_chunks card_transmit command (chunks_of 255 (ac_data command)) c)"

text \<open>The provider: a label, its password, and what the name of the reader has to contain.\<close>

record hsmauth_provider =
  hp_label :: bytes
  hp_password :: bytes
  hp_reader_filter :: "bytes option"

definition hsmauth_derive ::
  "'c auth_client \<Rightarrow> 'c card \<Rightarrow> hsmauth_provider \<Rightarrow> 'c \<Rightarrow> bytes \<Rightarrow> bytes \<Rightarrow> bytes \<Rightarrow> AsymmetricSessionKeys case_result" where
  "hsmauth_derive H card_transmit provider c context device_public_key receipt =
     and_then (ok_or (fst (hc_session_keys H (pcsc_exchange card_transmit) (hp_label provider) context device_public_key receipt
         (hp_password provider) c)) ())
       (\<lambda>(enc, mac, rmac). Ok \<lparr>ak_receipt = None, ak_encryption = enc, ak_mac = mac, ak_response_mac = rmac\<rparr>)"

text \<open>
  The loop of \<^verbatim>\<open>begin\<close> over the readers; \<open>connect\<close> gives the card in a reader in the state it is in. A second
  reader with the credential is an error.
\<close>

fun reader_loop ::
  "'c auth_client \<Rightarrow> 'c card \<Rightarrow> (bytes \<Rightarrow> 'c option) \<Rightarrow> hsmauth_provider \<Rightarrow> bytes list \<Rightarrow>
     AsymmetricCredentialAttempt option \<Rightarrow> AsymmetricCredentialAttempt option case_result" where
  "reader_loop H card_transmit connect provider [] selected = Ok selected"
| "reader_loop H card_transmit connect provider (reader # readers) selected =
     (let continue = reader_loop H card_transmit connect provider readers;
          exchange = pcsc_exchange card_transmit in
      if (case hp_reader_filter provider of None \<Rightarrow> False | Some part \<Rightarrow> position_of part reader = None)
      then continue selected
      else case connect reader of
        None \<Rightarrow> continue selected
      | Some c \<Rightarrow>
          let m = hc_select H exchange c in
          if \<not> fst m then continue selected
          else
            let m = hc_get_challenge H exchange (hp_label provider) (hp_password provider) (snd m) in
            case fst m of
              None \<Rightarrow> continue selected
            | Some challenge \<Rightarrow>
                if length challenge \<noteq> 65 \<or> challenge ! 0 \<noteq> 0x04 then continue selected
                else if selected \<noteq> None then Err ()
                else continue (Some \<lparr>aa_host_public_key = challenge,
                       aa_derive_session_keys = hsmauth_derive H card_transmit provider (snd m)\<rparr>))"

definition hsmauth_begin ::
  "'c auth_client \<Rightarrow> 'c card \<Rightarrow> (bytes \<Rightarrow> 'c option) \<Rightarrow> bytes list option \<Rightarrow> hsmauth_provider \<Rightarrow>
     AsymmetricCredentialAttempt case_result" where
  "hsmauth_begin H card_transmit connect readers provider =
     and_then (ok_or readers ()) (\<lambda>readers.
     and_then (reader_loop H card_transmit connect provider readers None) (\<lambda>selected. ok_or selected ()))"

section \<open>Choosing the credential\<close>

text \<open>
  \<^verbatim>\<open>connector_credentials\<close>: environment variables name the credential. The two features decide whether the
  providers are compiled in; a provider is given by what its \<^verbatim>\<open>begin\<close> yields.
\<close>

type_synonym environment = "string \<Rightarrow> bytes option"

record 't credential_sources =
  sr_hsmauth :: "(hsmauth_provider \<Rightarrow> 't \<Rightarrow> AsymmetricCredentialAttempt case_result) option"
  sr_platform :: "(bytes \<Rightarrow> ('t \<Rightarrow> AsymmetricCredentialAttempt case_result) case_result) option"

definition connector_credentials ::
  "'k lib \<Rightarrow> 't credential_sources \<Rightarrow> environment \<Rightarrow> u16 \<Rightarrow> 't Credentials case_result" where
  "connector_credentials L S env authentication_key_id = (case env ''YUBIHSM_QUALIFICATION_HSMAUTH_LABEL'' of
       Some label \<Rightarrow> (case sr_hsmauth S of
           None \<Rightarrow> Err ()
         | Some begin_attempt \<Rightarrow>
             and_then (ok_or (env ''YUBIHSM_QUALIFICATION_HSMAUTH_PASSWORD'') ()) (\<lambda>password.
             Ok \<lparr>cr_authentication_key_id = authentication_key_id,
                 cr_material = Cred_Asymmetric (begin_attempt \<lparr>hp_label = label, hp_password = password,
                   hp_reader_filter = env ''YUBIHSM_QUALIFICATION_HSMAUTH_READER''\<rparr>)\<rparr>))
     | None \<Rightarrow> (case env ''YUBIHSM_QUALIFICATION_PLATFORM_CREDENTIAL'' of
           Some name \<Rightarrow> (case sr_platform S of
               None \<Rightarrow> Err ()
             | Some resolve \<Rightarrow>
                 and_then (resolve name) (\<lambda>attempt.
                 Ok \<lparr>cr_authentication_key_id = authentication_key_id, cr_material = Cred_Asymmetric attempt\<rparr>))
         | None \<Rightarrow>
             and_then (ok_or (env ''YUBIHSM_QUALIFICATION_PASSWORD'') ()) (\<lambda>password.
             Ok (credentials_from_password L authentication_key_id password))))"

section \<open>The reader is unique\<close>

text \<open>What one reader offers.\<close>

definition reader_offer ::
  "'c auth_client \<Rightarrow> 'c card \<Rightarrow> (bytes \<Rightarrow> 'c option) \<Rightarrow> hsmauth_provider \<Rightarrow> bytes \<Rightarrow> AsymmetricCredentialAttempt option" where
  "reader_offer H card_transmit connect provider reader =
     (if \<exists>part. hp_reader_filter provider = Some part \<and> position_of part reader = None then None
      else Option.bind (connect reader) (\<lambda>c.
        let m = hc_select H (pcsc_exchange card_transmit) c;
            n = hc_get_challenge H (pcsc_exchange card_transmit) (hp_label provider) (hp_password provider) (snd m) in
        if \<not> fst m then None
        else Option.bind (fst n) (\<lambda>challenge.
          if length challenge = 65 \<and> challenge ! 0 = 0x04
          then Some \<lparr>aa_host_public_key = challenge, aa_derive_session_keys = hsmauth_derive H card_transmit provider (snd n)\<rparr>
          else None)))"

lemma reader_loop_step:
  "reader_loop H card_transmit connect provider (reader # readers) selected =
     (case reader_offer H card_transmit connect provider reader of
        None \<Rightarrow> reader_loop H card_transmit connect provider readers selected
      | Some attempt \<Rightarrow> if selected = None then reader_loop H card_transmit connect provider readers (Some attempt) else Err ())"
proof -
  let ?skip = "\<exists>part. hp_reader_filter provider = Some part \<and> position_of part reader = None"
  let ?s = "\<lambda>c. hc_select H (pcsc_exchange card_transmit) c"
  let ?g = "\<lambda>c. hc_get_challenge H (pcsc_exchange card_transmit) (hp_label provider) (hp_password provider) (snd (?s c))"
  have skip: "(case hp_reader_filter provider of None \<Rightarrow> False | Some part \<Rightarrow> position_of part reader = None) = ?skip"
    by (simp split: option.split)
  show ?thesis
  proof (cases "?skip \<or> connect reader = None")
    case True
    then show ?thesis unfolding reader_loop.simps Let_def skip by (auto simp: reader_offer_def)
  next
    case False
    then obtain c where c: "connect reader = Some c" "\<not> ?skip" by blast
    show ?thesis unfolding reader_loop.simps Let_def skip reader_offer_def if_not_P [OF c(2)] c(1) option.case Option.bind.simps
      by (cases "fst (?g c)") simp_all
  qed
qed

lemma reader_loop_selects:
  "reader_loop H card_transmit connect provider readers selected =
     (case (case selected of None \<Rightarrow> [] | Some a \<Rightarrow> [a]) @ List.map_filter (reader_offer H card_transmit connect provider) readers of
        [] \<Rightarrow> Ok None | [a] \<Rightarrow> Ok (Some a) | _ \<Rightarrow> Err ())"
proof (induction readers arbitrary: selected)
  case Nil
  then show ?case by (simp add: List.map_filter_def split: option.split)
next
  case (Cons reader readers)
  then show ?case unfolding reader_loop_step
    by (cases "reader_offer H card_transmit connect provider reader"; cases selected) (simp_all add: List.map_filter_def)
qed

lemma hsmauth_begin_unique:
  "hsmauth_begin H card_transmit connect (Some readers) provider = Ok attempt \<longleftrightarrow>
     List.map_filter (reader_offer H card_transmit connect provider) readers = [attempt]"
  by (simp add: hsmauth_begin_def reader_loop_selects split: list.split)

section \<open>Long commands are chained\<close>

definition apdu :: "apdu_command \<Rightarrow> u8 \<Rightarrow> bytes \<Rightarrow> bytes" where
  "apdu command cla data = [cla, ac_instruction command, ac_p1 command, ac_p2 command, of_nat (length data)] @ data"

fun apdu_chain :: "apdu_command \<Rightarrow> bytes list \<Rightarrow> bytes list" where
  "apdu_chain command [] = []"
| "apdu_chain command [d] = [apdu command (ac_cla command) d]"
| "apdu_chain command (d # ds) = apdu command (ac_cla command OR 0x10) d # apdu_chain command ds"

text \<open>A card together with the record of what was sent to it.\<close>

definition recording :: "'c card \<Rightarrow> (bytes list \<times> 'c) card" where
  "recording card_transmit bs st = (let m = card_transmit bs (snd st) in (fst m, (fst st @ [bs], snd m)))"

lemma transmit_recording:
  "transmit (recording card_transmit) cla (ac_instruction command) (ac_p1 command) (ac_p2 command) data (log, c)
   = (let m = transmit card_transmit cla (ac_instruction command) (ac_p1 command) (ac_p2 command) data c in
      (fst m, (log @ [apdu command cla data], snd m)))"
  by (cases "fst (card_transmit ([cla, ac_instruction command, ac_p1 command, ac_p2 command, of_nat (length data)] @ data) c)")
    (simp_all add: transmit_def recording_def apdu_def Let_def)

lemma transmit_chunks_recording:
  assumes "transmit_chunks (recording card_transmit) command ds (log, c) = (r, (log', c'))"
  shows "\<exists>sent rest. log' = log @ sent \<and> apdu_chain command ds = sent @ rest \<and> (is_ok r \<longrightarrow> rest = [])"
  using assms
proof (induction ds arbitrary: log c)
  case (Cons d ds)
  define cla where "cla = (if ds = [] then ac_cla command else ac_cla command OR 0x10)"
  define m where "m = transmit card_transmit cla (ac_instruction command) (ac_p1 command) (ac_p2 command) d c"
  have chain: "apdu_chain command (d # ds) = apdu command cla d # apdu_chain command ds" by (cases ds) (simp_all add: cla_def)
  have run: "transmit_chunks (recording card_transmit) command (d # ds) (log, c)
      = try_in (fst m) (log @ [apdu command cla d], snd m) (\<lambda>response.
          if ds = [] then (Ok response, (log @ [apdu command cla d], snd m))
          else if ar_status response \<noteq> 0x9000 \<or> ar_data response \<noteq> [] then (Err Pcsc_ChainingResponse, (log @ [apdu command cla d], snd m))
          else transmit_chunks (recording card_transmit) command ds (log @ [apdu command cla d], snd m))"
    unfolding transmit_chunks.simps transmit_recording Let_def try_st_def fst_conv snd_conv m_def cla_def by (rule refl)
  show ?case
  proof (cases "\<exists>response. fst m = Ok response \<and> ds \<noteq> [] \<and> ar_status response = 0x9000 \<and> ar_data response = []")
    case True
    with run Cons.prems have "transmit_chunks (recording card_transmit) command ds (log @ [apdu command cla d], snd m) = (r, (log', c'))"
      by auto
    from Cons.IH [OF this] show ?thesis unfolding chain by auto
  next
    case False
    then have "log' = log @ [apdu command cla d]" "is_ok r \<longrightarrow> ds = []" using run Cons.prems
      by (cases "fst m"; auto split: if_splits)+
    then show ?thesis unfolding chain by auto
  qed
qed simp

lemma chunks_of_facts:
  assumes "n \<noteq> 0"
  shows "concat (chunks_of n bs) = bs" "\<forall>d\<in>set (chunks_of n bs). length d \<le> n" "chunks_of n bs = [] \<longleftrightarrow> bs = []"
  using assms by (induction n bs rule: chunks_of.induct; subst chunks_of.simps; simp)+

lemma apdu_chain_facts:
  assumes "\<forall>d\<in>set ds. length d \<le> 255"
  shows "concat (map (drop 5) (apdu_chain command ds)) = concat ds"
    "\<forall>a\<in>set (apdu_chain command ds). length a = 5 + unat (a ! 4) \<and> length a \<le> 260"
    "ds \<noteq> [] \<Longrightarrow> map hd (apdu_chain command ds) = replicate (length ds - 1) (ac_cla command OR 0x10) @ [ac_cla command]"
proof -
  have n: "unat (of_nat (length d) :: u8) = length d" if "length d \<le> 255" for d :: bytes
    using that by (simp add: unat_of_nat)
  show "concat (map (drop 5) (apdu_chain command ds)) = concat ds"
    by (induction command ds rule: apdu_chain.induct) (simp_all add: apdu_def)
  show "\<forall>a\<in>set (apdu_chain command ds). length a = 5 + unat (a ! 4) \<and> length a \<le> 260"
    using assms by (induction command ds rule: apdu_chain.induct) (auto simp: apdu_def n)
  show "map hd (apdu_chain command ds) = replicate (length ds - 1) (ac_cla command OR 0x10) @ [ac_cla command]" if "ds \<noteq> []"
    using that by (induction command ds rule: apdu_chain.induct) (simp_all add: apdu_def)
qed

definition command_chunks :: "apdu_command \<Rightarrow> bytes list" where
  "command_chunks command = (if ac_data command = [] then [[]] else chunks_of 255 (ac_data command))"

lemma command_chunks_facts:
  "concat (command_chunks command) = ac_data command" "\<forall>d\<in>set (command_chunks command). length d \<le> 255" "command_chunks command \<noteq> []"
  using chunks_of_facts [of 255 "ac_data command"] by (simp_all add: command_chunks_def)

text \<open>
  What is sent for a command is a prefix of its chain, and all of it when there is a response: the data of
  the command in its order, every length byte right, and the chaining bit on all but the last.
\<close>

lemma pcsc_exchange_chained:
  assumes "pcsc_exchange (recording card_transmit) command ([], c) = (r, (sent, c'))"
  shows "\<exists>rest. apdu_chain command (command_chunks command) = sent @ rest \<and> (is_ok r \<longrightarrow> rest = [])"
proof (cases "ac_data command = []")
  case True
  with assms show ?thesis unfolding pcsc_exchange_def command_chunks_def by (auto simp: transmit_recording Let_def)
next
  case False
  then show ?thesis using transmit_chunks_recording [of card_transmit command "chunks_of 255 (ac_data command)" "[]" c r sent c'] assms
    unfolding pcsc_exchange_def command_chunks_def by simp
qed

lemma pcsc_exchange_sends:
  assumes "pcsc_exchange (recording card_transmit) command ([], c) = (Ok response, (sent, c'))"
  shows "concat (map (drop 5) sent) = ac_data command" "\<forall>a\<in>set sent. length a = 5 + unat (a ! 4) \<and> length a \<le> 260"
    "map hd sent = replicate (length sent - 1) (ac_cla command OR 0x10) @ [ac_cla command]"
proof -
  note facts = command_chunks_facts [of command]
  have sent: "sent = apdu_chain command (command_chunks command)" using pcsc_exchange_chained [OF assms] by auto
  show "concat (map (drop 5) sent) = ac_data command" unfolding sent apdu_chain_facts(1) [OF facts(2)] by (rule facts(1))
  show "\<forall>a\<in>set sent. length a = 5 + unat (a ! 4) \<and> length a \<le> 260" unfolding sent by (rule apdu_chain_facts(2) [OF facts(2)])
  have hd: "map hd sent = replicate (length (command_chunks command) - 1) (ac_cla command OR 0x10) @ [ac_cla command]"
    unfolding sent by (rule apdu_chain_facts(3) [OF facts(2,3)])
  from this have "length sent = length (command_chunks command)" using facts(3)
    by (metis (no_types) One_nat_def Suc_pred length_append length_greater_0_conv length_map length_replicate list.size(3,4) add_0 add_Suc_right Nat.add_0_right)
  with hd show "map hd sent = replicate (length sent - 1) (ac_cla command OR 0x10) @ [ac_cla command]" by simp
qed

end
