(* ===== verification/Asymmetric_Client.thy ===== *)
theory Asymmetric_Client
  imports Qualification_Credentials
begin

text \<open>
  The client and the device on asymmetric authentication: the client's side is the tool's, with a key the
  platform holds; the device's is the engine's. Both compute two shared secrets, derive the session
  keys from them and compare a receipt. It is shown that they arrive at the same session.
\<close>

section \<open>What is asked of the cryptography\<close>

text \<open>
  Key agreement commutes: what a device key computes with the client's public key is what the client computes
  with the device's. Public keys are uncompressed points that the client's parser accepts.
\<close>

definition agreement_law :: "'k lib \<Rightarrow> client_lib \<Rightarrow> bool" where
  "agreement_law L V \<longleftrightarrow>
     (\<forall>k point. key_public L k = Pub_Ec P256 point \<longrightarrow> length point = 65 \<longrightarrow> point ! 0 = 0x04 \<and> v_sec1_ok V point)
     \<and> (\<forall>h. v_p256_secret_ok V h \<longrightarrow> length (v_p256_public V h) = 65 \<and> v_p256_public V h ! 0 = 0x04)
     \<and> (\<forall>k point h. key_public L k = Pub_Ec P256 point \<longrightarrow> length point = 65 \<longrightarrow> v_p256_secret_ok V h \<longrightarrow>
          derive_with_signing_key L k (v_p256_public V h) = Some (v_p256_agree V h point))"

definition x963_law :: "'k lib \<Rightarrow> bool" where
  "x963_law L \<longleftrightarrow> (\<forall>secret info n. \<exists>keys. x963_kdf_sha256 L secret info n = Some keys \<and> length keys = n)"

text \<open>The platform holds the private part of the public key that is stored on the device.\<close>

definition holds_key :: "'k lib \<Rightarrow> platform_key \<Rightarrow> bytes \<Rightarrow> bool" where
  "holds_key L credential host_static \<longleftrightarrow>
     (\<forall>k point. key_public L k = Pub_Ec P256 point \<longrightarrow> length point = 65 \<longrightarrow>
        (\<exists>z. derive_with_signing_key L k (0x04 # host_static) = Some z
           \<and> (\<forall>prefix info n. credential (Pub_Ec P256 point) Sha256 prefix info n = x963_kdf_sha256 L (prefix @ z) info n)))"

definition p256_key :: "'k lib \<Rightarrow> 'k \<Rightarrow> bytes \<Rightarrow> bool" where
  "p256_key L k point = (key_kind L k = Kind_Ec P256 \<and> key_public L k = Pub_Ec P256 point \<and> length point = 65)"

section \<open>Both ends derive the same keys\<close>

lemma asymmetric_keys_agree:
  assumes laws: "agreement_law L V" "x963_law L" "cipher_laws L" and held: "holds_key L credential host_static" "length host_static = 64"
    and static: "p256_key L static device_point" and ephemeral: "generate_key E (Kind_Ec P256) = Some device_ephemeral"
      "p256_key L device_ephemeral ephemeral_point"
    and secret: "v_p256_secret_ok V h"
  obtains keys receipt where
    "begin_asymmetric L E sid static host_static (v_p256_public V h)
      = Ok (secure_session_new sid (take 16 (drop 16 keys)) (take 16 (drop 32 keys)) (take 16 (drop 48 keys))
          (replicate 15 0 @ [1]) receipt, ephemeral_point, receipt)"
    "platform_derive V credential h (v_p256_public V h) (v_p256_public V h @ ephemeral_point) device_point receipt = split_session_keys keys"
    "length keys = 64" "cmac L (take 16 keys) (ephemeral_point @ v_p256_public V h) = Ok receipt" "length receipt = 16"
proof -
  let ?pub = "v_p256_public V h"
  have pub: "length ?pub = 65" "?pub ! 0 = 0x04" using laws(1) secret by (auto simp: agreement_law_def)
  have e: "derive_with_signing_key L device_ephemeral ?pub = Some (v_p256_agree V h ephemeral_point)" "v_sec1_ok V ephemeral_point"
    using laws(1) secret ephemeral(2) by (auto simp: agreement_law_def p256_key_def)
  obtain z where z: "derive_with_signing_key L static (0x04 # host_static) = Some z"
    "\<And>prefix info n. credential (Pub_Ec P256 device_point) Sha256 prefix info n = x963_kdf_sha256 L (prefix @ z) info n"
    using held(1) static unfolding holds_key_def p256_key_def by blast
  obtain keys where keys: "x963_kdf_sha256 L (v_p256_agree V h ephemeral_point @ z) SCP11_SHARED_INFO 64 = Some keys" "length keys = 64"
    using laws(2) unfolding x963_law_def by blast
  have "length (take 16 keys) = 16" using keys(2) by simp
  then obtain receipt where receipt: "cmac L (take 16 keys) (ephemeral_point @ ?pub) = Ok receipt" "length receipt = 16"
    using cipher_laws_cmac [OF laws(3)] by blast
  have "begin_asymmetric L E sid static host_static ?pub
      = Ok (secure_session_new sid (take 16 (drop 16 keys)) (take 16 (drop 32 keys)) (take 16 (drop 48 keys))
          (replicate 15 0 @ [1]) receipt, ephemeral_point, receipt)"
    using static ephemeral held(2) e z(1) keys receipt(1) first_counter
    by (simp add: begin_asymmetric_def p256_key_def random_secret_key_def x963_session_keys_def P256_PUBLIC_KEY_LENGTH_def)
  moreover have "platform_derive V credential h ?pub (?pub @ ephemeral_point) device_point receipt = split_session_keys keys"
    using pub(1) ephemeral(2) e(2) z(2) keys(1)
    by (simp add: platform_derive_def p256_key_def SCP11_SHARED_INFO_def)
  ultimately show thesis using that keys(2) receipt by blast
qed

section \<open>The session opens\<close>

definition asymmetric_entry :: "SessionAuthorization \<Rightarrow> SecureSession \<Rightarrow> nat \<Rightarrow> 'k SessionEntry" where
  "asymmetric_entry au secure t =
     \<lparr>se_authorization = au, se_secure = secure, se_expected_host_cryptogram = None, se_authenticated = True,
      se_last_activity = t, se_objects = bt_empty\<rparr>"

lemma create_asymmetric_step:
  assumes material: "authentication_key_material d kid = Ok (Auth_Asymmetric host_static)" and au: "session_authorization d kid = Ok au"
    and free: "free_session_id d = Ok sid"
    and begun: "begin_asymmetric L E sid (dv_static_private d) host_static host = Ok (secure, point, receipt)"
    and host: "length host = 65"
  obtains d' where
    "create_session L E \<lparr>fr_command = command_code Cmd_CreateSession, fr_data = be16 kid @ host\<rparr> d
      = (Ok (frame_response (command_code Cmd_CreateSession) (sid # point @ receipt)), d')"
    "dv_sessions d' = bt_insert sid (asymmetric_entry au secure (now E)) (dv_sessions d)" "same_contents d d'"
proof -
  let ?q = "\<lparr>fr_command = command_code Cmd_CreateSession, fr_data = be16 kid @ host\<rparr>"
  have dec: "decode_request decode_create_session (fr_data ?q)
      = Ok \<lparr>cs_authentication_key_id = kid, cs_host_challenge_or_public_key = host\<rparr>"
    by (simp add: decode_create_session_def read_u16_def read_remainder_def reader_new_def)
  let ?d = "record_unlogged_authentication_if_full
      (d\<lparr>dv_sessions := bt_insert sid (asymmetric_entry au secure (now E)) (dv_sessions d)\<rparr>)"
  let ?f = "frame_response (command_code Cmd_CreateSession) (sid # point @ receipt)"
  have opened: "open_session L E \<lparr>cs_authentication_key_id = kid, cs_host_challenge_or_public_key = host\<rparr> au d = (Ok ?f, ?d)"
    using material free begun host by (simp add: open_session_def asymmetric_entry_def P256_PUBLIC_KEY_LENGTH_def)
  let ?d' = "if should_audit ?d Cmd_CreateSession
      then append_audit_entry L au Cmd_CreateSession ?q (result_code (Ok ?f :: Frame res)) ?d else ?d"
  have "create_session L E ?q d = (Ok ?f, ?d')"
    using dec au opened by (simp add: create_session_def audit_session_command_def del: decode_request_Ok)
  moreover have "dv_sessions ?d' = bt_insert sid (asymmetric_entry au secure (now E)) (dv_sessions d)"
    by (simp add: record_unlogged_authentication_if_full_def)
  moreover have "same_contents d ?d'" by simp
  ultimately show thesis using that by blast
qed

text \<open>The client asks for the device's key, and puts the marker of an uncompressed point back in its place.\<close>

lemma device_key_read:
  assumes "p256_key L (dv_static_private d) point" "point ! 0 = 0x04"
  obtains answer where "plain_query (in_process L fw) Cmd_GetDevicePublicKey [] (E # Es, d)
      = (Ok answer, (Es, expire_inactive_sessions (now E) d))" "length answer = 65" "0x04 # drop 1 answer = point"
proof -
  let ?a = "point[0 := AUTHENTICATION_ALGORITHM_EC_P256]"
  have p: "length point = 65" "point \<noteq> []" using assms(1) by (auto simp: p256_key_def)
  have "decode_request decode_empty [] = Ok ()" by (simp add: decode_empty_def)
  then have key: "get_device_public_key L (expire_inactive_sessions (now E) d) [] = Ok ?a"
    using assms(1) p by (simp add: get_device_public_key_def p256_key_def del: decode_request_Ok)
  have "plain_query (in_process L fw) Cmd_GetDevicePublicKey [] (E # Es, d) = (Ok ?a, (Es, expire_inactive_sessions (now E) d))"
    by (rule plain_query_Ok [OF small_frame])
      (use key p command_from_code [of Cmd_GetDevicePublicKey] in \<open>simp_all add: execute_plain_or_authenticated_def frame_consts\<close>)
  moreover have "0x04 # drop 1 ?a = point" using assms(2) p(2) by (cases point) simp_all
  ultimately show thesis using that p(1) by simp
qed

text \<open>
  The device has the public part of the operator's key, a free slot and a key of its own; the operating
  system and the device draw usable scalars.
\<close>

definition asymmetric_ready ::
  "'k lib \<Rightarrow> client_lib \<Rightarrow> 'k Device \<Rightarrow> u16 \<Rightarrow> platform_key \<Rightarrow> u8 \<Rightarrow> SessionAuthorization \<Rightarrow> 'k env \<Rightarrow> bool" where
  "asymmetric_ready L V d kid credential sid au E \<longleftrightarrow>
     device_wf L d \<and> session_authorization d kid = Ok au \<and> free_session_id (expire_inactive_sessions (now E) d) = Ok sid
     \<and> (\<exists>host_static. authentication_key_material d kid = Ok (Auth_Asymmetric host_static) \<and> length host_static = 64
         \<and> holds_key L credential host_static)
     \<and> (\<exists>point. p256_key L (dv_static_private d) point)
     \<and> (\<exists>k point. generate_key E (Kind_Ec P256) = Some k \<and> p256_key L k point)"

lemma authentication_key_material_same: "same_contents d d' \<Longrightarrow> authentication_key_material d' i = authentication_key_material d i"
  by (simp add: same_contents_def authentication_key_material_def)

lemma asymmetric_client_creates:
  assumes laws: "agreement_law L V" "x963_law L" "cipher_laws L" "password_kdf_ok L"
    and ready: "asymmetric_ready L V d kid credential sid au E" and secret: "v_p256_secret_ok V h"
  obtains keys receipt device_point ephemeral_point d' q f where
    "new_frame Cmd_CreateSession (be16 kid @ v_p256_public V h) = Ok q"
    "exchange_frame (in_process L fw) q (E # Es, d) = (Ok f, (Es, d'))"
    "expect_response f Cmd_CreateSession = Ok (sid # ephemeral_point @ receipt)"
    "platform_derive V credential h (v_p256_public V h) (v_p256_public V h @ ephemeral_point) device_point receipt = split_session_keys keys"
    "length keys = 64" "cmac L (take 16 keys) (ephemeral_point @ v_p256_public V h) = Ok receipt" "length receipt = 16"
    "p256_key L (dv_static_private d') device_point" "length ephemeral_point = 65" "v_sec1_ok V ephemeral_point" "device_wf L d'"
    "same_contents d d'"
    "bt_get (dv_sessions d') sid = Some (asymmetric_entry au (secure_session_new sid (take 16 (drop 16 keys))
        (take 16 (drop 32 keys)) (take 16 (drop 48 keys)) (replicate 15 0 @ [1]) receipt) (now E))"
proof -
  let ?d = "expire_inactive_sessions (now E) d" and ?pub = "v_p256_public V h"
  let ?q = "\<lparr>fr_command = command_code Cmd_CreateSession, fr_data = be16 kid @ ?pub\<rparr>"
  have wf: "device_wf L d" and free: "free_session_id ?d = Ok sid" and au: "session_authorization d kid = Ok au"
    using ready by (simp_all add: asymmetric_ready_def)
  obtain host_static device_point k ephemeral_point where
    m: "authentication_key_material d kid = Ok (Auth_Asymmetric host_static)" "length host_static = 64" "holds_key L credential host_static"
    and s: "p256_key L (dv_static_private d) device_point" and e: "generate_key E (Kind_Ec P256) = Some k" "p256_key L k ephemeral_point"
    using ready unfolding asymmetric_ready_def by blast
  obtain keys receipt where k: "begin_asymmetric L E sid (dv_static_private d) host_static ?pub
      = Ok (secure_session_new sid (take 16 (drop 16 keys)) (take 16 (drop 32 keys)) (take 16 (drop 48 keys))
          (replicate 15 0 @ [1]) receipt, ephemeral_point, receipt)"
    "platform_derive V credential h ?pub (?pub @ ephemeral_point) device_point receipt = split_session_keys keys"
    "length keys = 64" "cmac L (take 16 keys) (ephemeral_point @ ?pub) = Ok receipt" "length receipt = 16"
    by (rule asymmetric_keys_agree [OF laws(1-3) m(3,2) s e secret])
  have pub: "length ?pub = 65" using laws(1) secret by (auto simp: agreement_law_def)
  have same: "same_contents d ?d" by simp
  obtain d' where c: "create_session L E ?q ?d = (Ok (frame_response (command_code Cmd_CreateSession) (sid # ephemeral_point @ receipt)), d')"
    "dv_sessions d' = bt_insert sid (asymmetric_entry au (secure_session_new sid (take 16 (drop 16 keys))
        (take 16 (drop 32 keys)) (take 16 (drop 48 keys)) (replicate 15 0 @ [1]) receipt) (now E)) (dv_sessions ?d)" "same_contents ?d d'"
    by (rule create_asymmetric_step [OF _ _ free _ pub, of kid host_static au L E])
      (use m(1) au k(1) authentication_key_material_same [OF same] session_authorization_same [OF same] in simp_all)
  let ?f = "frame_response (command_code Cmd_CreateSession) (sid # ephemeral_point @ receipt)"
  have q: "frame_wf ?q" "new_frame Cmd_CreateSession (be16 kid @ ?pub) = Ok ?q"
    unfolding new_frame_Ok using pub by (simp_all add: frame_wf_def frame_new_def frame_consts)
  have h: "handle_encoded L E fw (frame_encode ?q) d = (Ok (frame_encode ?f), d')"
    by (rule handle_encoded_session [OF q(1), where c = Cmd_CreateSession]) (use c(1) in simp_all)
  have p: "length ephemeral_point = 65" "v_sec1_ok V ephemeral_point"
    using e(2) laws(1) by (auto simp: p256_key_def agreement_law_def)
  have f: "frame_wf ?f" using k(5) p(1) by (simp add: frame_wf_def frame_response_def frame_consts)
  have r: "expect_response ?f Cmd_CreateSession = Ok (sid # ephemeral_point @ receipt)"
    by (rule expect_frame_response) (simp add: RESPONSE_BIT_def ERROR_COMMAND_def)
  have d': "same_contents d d'" using c(3) by simp
  then have "dv_static_private d' = dv_static_private d" by (simp add: same_contents_def)
  then show thesis
    by (intro that [OF q(2) exchange_handled [OF h f] r k(2-5) _ p handled_wf [OF h wf laws(4)] d']) (use s c(2) in simp_all)
qed

lemma asymmetric_client_opens:
  assumes laws: "agreement_law L V" "x963_law L" "cipher_laws L" "password_kdf_ok L"
    and ready: "asymmetric_ready L V d kid credential sid au E1"
    and drawn: "draw_until draw (v_p256_secret_ok V) 0 = Some (Some h)"
    and soon: "now E2 - now E1 < SESSION_INACTIVITY_TIMEOUT"
  obtains s d' where "open_asymmetric L (v_sec1_ok V) (in_process L fw) kid (platform_begin V draw credential) (E1 # E2 # Es, d)
      = (Ok s, (Es, d'))" "client_at L (now E1) sid au s d'" "same_contents d d'"
proof -
  let ?pub = "v_p256_public V h"
  have secret: "v_p256_secret_ok V h" using draw_until_accepts [OF drawn] by blast
  have pub: "length ?pub = 65" "?pub ! 0 = 0x04" using laws(1) secret by (auto simp: agreement_law_def)
  obtain keys receipt device_point ephemeral_point d1 q f where
    c: "new_frame Cmd_CreateSession (be16 kid @ ?pub) = Ok q"
    "exchange_frame (in_process L fw) q (E1 # E2 # Es, d) = (Ok f, (E2 # Es, d1))"
    "expect_response f Cmd_CreateSession = Ok (sid # ephemeral_point @ receipt)"
    "platform_derive V credential h ?pub (?pub @ ephemeral_point) device_point receipt = split_session_keys keys"
    "length keys = 64" "cmac L (take 16 keys) (ephemeral_point @ ?pub) = Ok receipt" "length receipt = 16"
    and k: "p256_key L (dv_static_private d1) device_point" "length ephemeral_point = 65" "v_sec1_ok V ephemeral_point"
    and d1: "device_wf L d1" "same_contents d d1" and entry: "bt_get (dv_sessions d1) sid = Some (asymmetric_entry au (secure_session_new sid (take 16 (drop 16 keys))
        (take 16 (drop 32 keys)) (take 16 (drop 48 keys)) (replicate 15 0 @ [1]) receipt) (now E1))"
    by (rule asymmetric_client_creates [OF laws ready secret, where Es = "E2 # Es"])
  have point: "device_point ! 0 = 0x04" "v_sec1_ok V device_point"
    using laws(1) k(1) by (auto simp: agreement_law_def p256_key_def)
  obtain answer where a: "plain_query (in_process L fw) Cmd_GetDevicePublicKey [] (E2 # Es, d1)
      = (Ok answer, (Es, expire_inactive_sessions (now E2) d1))" "length answer = 65" "0x04 # drop 1 answer = device_point"
    by (rule device_key_read [OF k(1) point(1)])
  let ?s = "\<lparr>cl_sid = sid, cl_enc = take 16 (drop 16 keys), cl_mac = take 16 (drop 32 keys), cl_rmac = take 16 (drop 48 keys),
      cl_counter = replicate 15 0 @ [1], cl_command_mac = receipt\<rparr>"
  have opened: "open_asymmetric L (v_sec1_ok V) (in_process L fw) kid (platform_begin V draw credential) (E1 # E2 # Es, d)
      = (Ok ?s, (Es, expire_inactive_sessions (now E2) d1))"
    using pub c a k point unfolding platform_begin_def drawn option.case Let_def
    by (simp add: open_asymmetric_def receipt_verifies_def split_session_keys_def message_cmac_def)
  have sessions: "bt_wf (dv_sessions d1)" using d1(1) by (simp add: device_wf_def sessions_wf_def)
  have "bt_get (dv_sessions (expire_inactive_sessions (now E2) d1)) sid = bt_get (dv_sessions d1) sid"
    using sessions entry soon by (simp add: expire_inactive_sessions_def bt.get_retain asymmetric_entry_def)
  then have "client_at L (now E1) sid au ?s (expire_inactive_sessions (now E2) d1)"
    using entry c(5) d1(1) expire_wf
    by (auto simp: client_at_def session_live_def asymmetric_entry_def secure_session_new_def in_step_def session_keys_wf_def
        SESSION_INACTIVITY_TIMEOUT_def)
  then show thesis using that opened d1(2) by simp
qed

end
