(* ===== verification/Qualification_Policy.thy ===== *)
theory Qualification_Policy
  imports Qualification_Run
begin

text \<open>
  The cases of the qualification tool that only read pass on every well-formed device: malformed commands
  are refused with the errors the tool expects, and the options have the shapes it expects, because the
  device's invariant says so.
\<close>

section \<open>Steps of a script\<close>

lemma client_refused:
  assumes laws: "cipher_laws L" "password_kdf_ok L" and at: "client_at L t sid au s d" and soon: "now E - t < SESSION_INACTIVITY_TIMEOUT"
    and run: "runs_in_session L E fw au c data (in_message (now E) sid d) (Err e) (in_message (now E) sid d)"
    and stays: "c \<noteq> Cmd_CloseSession" "c \<noteq> Cmd_ResetDevice"
  obtains s' d2 where "client_expects_error L (in_process L fw) c data e (s, (E # Es, d)) = (Ok (), (s', (Es, d2)))"
    "client_at L (now E) sid au s' d2" "same_contents d d2"
proof -
  let ?q = "\<lparr>fr_command = command_code c, fr_data = data\<rparr>"
  obtain s' d2 where x: "client_command L (in_process L fw) ?q (s, (E # Es, d)) = (Ok (frame_error e), (s', (Es, d2)))"
    "client_at L (now E) sid au s' d2" "same_contents d d2"
    by (rule client_runs [OF laws at soon run stays, where Es = Es]) (simp_all add: answer_frame_def)
  have "new_frame c data = Ok ?q" by (rule small_frame) (use run in \<open>simp add: runs_in_session_def Let_def frame_consts\<close>)
  with x show thesis
    by (intro that [of s' d2]) (simp_all add: client_expects_error_def expect_error_frame del: command_code.simps)
qed

text \<open>
  \<open>reads_only\<close>: a script that takes \<open>n\<close> environments, succeeds, and leaves client and device
  ready for the next step, with the contents of the device unchanged. The predicate on devices is one that
  only looks at the contents. Such scripts compose.
\<close>

definition time_after :: "nat \<Rightarrow> 'k env list \<Rightarrow> nat" where
  "time_after t Es = fold (\<lambda>E _. now E) Es t"

lemma time_after_simps [simp]:
  "time_after t [] = t" "time_after t (E # Es) = time_after (now E) Es" "time_after t (Es @ Fs) = time_after (time_after t Es) Fs"
  by (simp_all add: time_after_def)

lemma timely_append [simp]: "timely t (Es @ Fs) \<longleftrightarrow> timely t Es \<and> timely (time_after t Es) Fs"
  by (induction Es arbitrary: t) simp_all

definition reads_only ::
  "'k lib \<Rightarrow> u8 \<Rightarrow> SessionAuthorization \<Rightarrow> ('k Device \<Rightarrow> bool) \<Rightarrow> nat \<Rightarrow> ('k env list \<times> 'k Device) script \<Rightarrow> bool" where
  "reads_only L sid au P n script \<longleftrightarrow>
     (\<forall>t s Es Fs d. client_at L t sid au s d \<longrightarrow> timely t Es \<longrightarrow> length Es = n \<longrightarrow> P d \<longrightarrow>
        (\<exists>s' d'. script (s, (Es @ Fs, d)) = (Ok (), (s', (Fs, d'))) \<and> client_at L (time_after t Es) sid au s' d'
           \<and> same_contents d d' \<and> P d'))"

lemma reads_onlyD:
  assumes "reads_only L sid au P n script" "client_at L t sid au s d" "timely t Es" "length Es = n" "P d"
  obtains s' d' where "script (s, (Es @ Fs, d)) = (Ok (), (s', (Fs, d')))" "client_at L (time_after t Es) sid au s' d'"
    "same_contents d d'" "P d'"
  using assms unfolding reads_only_def by blast

lemma reads_then:
  fixes L :: "'k lib"
  assumes "reads_only L sid au P n script" "reads_only L sid au P m rest"
  shows "reads_only L sid au P (n + m) (\<lambda>st. try_st (script st) (\<lambda>_ st. rest st))"
  unfolding reads_only_def
proof (intro allI impI)
  fix t s and Es Fs :: "'k env list" and d
  assume at: "client_at L t sid au s d" and t: "timely t Es" and len: "length Es = n + m" and P: "P d"
  define As where "As = take n Es"
  define Bs where "Bs = drop n Es"
  have Es: "Es = As @ Bs" "length As = n" "length Bs = m" using len by (simp_all add: As_def Bs_def)
  have ts: "timely t As" "timely (time_after t As) Bs" using t Es(1) by simp_all
  obtain s1 d1 where x: "script (s, (As @ Bs @ Fs, d)) = (Ok (), (s1, (Bs @ Fs, d1)))" "client_at L (time_after t As) sid au s1 d1"
    "same_contents d d1" "P d1"
    by (rule reads_onlyD [OF assms(1) at ts(1) Es(2) P])
  obtain s2 d2 where y: "rest (s1, (Bs @ Fs, d1)) = (Ok (), (s2, (Fs, d2)))"
    "client_at L (time_after (time_after t As) Bs) sid au s2 d2" "same_contents d1 d2" "P d2"
    by (rule reads_onlyD [OF assms(2) x(2) ts(2) Es(3) x(4)])
  show "\<exists>s' d'. try_st (script (s, (Es @ Fs, d))) (\<lambda>_ st. rest st) = (Ok (), (s', (Fs, d')))
      \<and> client_at L (time_after t Es) sid au s' d' \<and> same_contents d d' \<and> P d'"
    using x y same_contents_trans [OF x(3) y(3)] unfolding Es(1) by (intro exI [of _ s2], intro exI [of _ d2]) simp
qed

lemma for_each_reads:
  assumes "\<forall>x\<in>set xs. reads_only L sid au P 1 (body x)"
  shows "reads_only L sid au P (length xs) (for_each body xs)"
  using assms
proof (induction xs)
  case (Cons x xs)
  then have "reads_only L sid au P (1 + length xs) (\<lambda>st. try_st (body x st) (\<lambda>_ st. for_each body xs st))"
    by (intro reads_then) simp_all
  then show ?case by (simp add: for_each.simps(2) [abs_def])
qed (simp add: reads_only_def)

text \<open>A case that opens a session, reads and closes.\<close>

lemma reading_case_passes:
  assumes laws: "cipher_laws L" "scp03_law L" "password_kdf_ok L" and ready: "may_qualify L d credentials sid au E1 (E2 # Es @ [E3])"
    and reads: "reads_only L sid au P (length Es) script" and stable: "\<And>d d'. same_contents d d' \<Longrightarrow> P d \<Longrightarrow> P d'" "P d"
    and fw: "command_supported fw Cmd_CloseSession"
  obtains d' where "in_session L sec1_ok (in_process L fw) credentials
      (\<lambda>st. try_st (script st) (\<lambda>_ st. client_close L (in_process L fw) st)) (E1 # E2 # Es @ [E3], d) = (Ok (), ([], d'))"
    "device_wf L d'" "same_contents d d'" "bt_get (dv_sessions d') sid = None"
proof -
  let ?script = "\<lambda>st. try_st (script st) (\<lambda>_ st. client_close L (in_process L fw) st)"
  obtain s1 d1 where o1: "in_session L sec1_ok (in_process L fw) credentials ?script (E1 # E2 # Es @ [E3], d)
      = (let m = ?script (s1, (Es @ [E3], d1)) in (fst m, snd (snd m)))"
    "client_at L (now E2) sid au s1 d1" "same_contents d d1" "timely (now E2) (Es @ [E3])" "op_force_audit (dv_options d1) = OPTION_OFF"
    by (rule opens_in_session [OF laws ready])
  have t: "timely (now E2) Es" "now E3 - time_after (now E2) Es < SESSION_INACTIVITY_TIMEOUT" using o1(4) by simp_all
  have P1: "P d1" by (rule stable(1) [OF o1(3) stable(2)])
  obtain s2 d2 where o2: "script (s1, (Es @ [E3], d1)) = (Ok (), (s2, ([E3], d2)))"
    "client_at L (time_after (now E2) Es) sid au s2 d2" "same_contents d1 d2" "P d2"
    by (rule reads_onlyD [OF reads o1(2) t(1) refl P1])
  have off: "op_force_audit (dv_options d2) = OPTION_OFF" using same_options [OF o2(3)] o1(5) by simp
  obtain s3 d3 where o3: "client_close L (in_process L fw) (s2, ([E3], d2)) = (Ok (), (s3, ([], d3)))"
    "device_wf L d3" "bt_get (dv_sessions d3) sid = None" "same_contents d2 d3"
    by (rule client_closes [OF laws(1,3) o2(2) t(2) off fw])
  have "same_contents d d3" using o1(3) o2(3) o3(4) by (simp add: same_contents_def)
  with o1(1) o2(1) o3 show thesis by (intro that [of d3]) simp_all
qed

section \<open>Single commands\<close>

text \<open>What the steps below look at: auditing is not forced, and the table of algorithms.\<close>

definition policy_ready :: "FirmwareProfile \<Rightarrow> 'k Device \<Rightarrow> bool" where
  "policy_ready fw d \<longleftrightarrow> op_force_audit (dv_options d) = OPTION_OFF
     \<and> filter (supported_algorithm_byte fw) (cf_algorithms (dv_config d)) \<noteq> [] \<and> length (cf_algorithms (dv_config d)) \<le> 256"

lemma policy_ready_same: "same_contents d d' \<Longrightarrow> policy_ready fw d \<Longrightarrow> policy_ready fw d'"
  by (simp add: policy_ready_def same_contents_def)

lemma policy_ready_in_message [simp]: "policy_ready fw (in_message t sid d) = policy_ready fw d"
  by (simp add: policy_ready_def in_message_def)

lemma reads_one:
  fixes L :: "'k lib"
  assumes "\<And>t s E Es d. client_at L t sid au s d \<Longrightarrow> now E - t < SESSION_INACTIVITY_TIMEOUT \<Longrightarrow> policy_ready fw d \<Longrightarrow>
    \<exists>s' d'. script (s, (E # Es, d)) = (Ok (), (s', (Es, d'))) \<and> client_at L (now E) sid au s' d' \<and> same_contents d d'"
  shows "reads_only L sid au (policy_ready fw) 1 script"
  unfolding reads_only_def
proof (intro allI impI)
  fix t s and Es Fs :: "'k env list" and d
  assume x: "client_at L t sid au s d" "timely t Es" "length Es = 1" "policy_ready fw d"
  then obtain E where Es: "Es = [E]" by (auto simp: length_Suc_conv)
  with x have "now E - t < SESSION_INACTIVITY_TIMEOUT" by simp
  from assms [OF x(1) this x(4), of Fs] Es
  show "\<exists>s' d'. script (s, (Es @ Fs, d)) = (Ok (), (s', (Fs, d'))) \<and> client_at L (time_after t Es) sid au s' d'
      \<and> same_contents d d' \<and> policy_ready fw d'"
    using policy_ready_same [OF _ x(4)] by auto
qed

lemma refusal_reads:
  fixes L :: "'k lib"
  assumes "cipher_laws L" "password_kdf_ok L" "c \<noteq> Cmd_CloseSession" "c \<noteq> Cmd_ResetDevice"
    and "\<And>E d. policy_ready fw d \<Longrightarrow> runs_in_session L E fw au c data d (Err e) d"
  shows "reads_only L sid au (policy_ready fw) 1 (client_expects_error L (in_process L fw) c data e)"
proof (rule reads_one)
  fix t s and E :: "'k env" and Es d
  assume x: "client_at L t sid au s d" "now E - t < SESSION_INACTIVITY_TIMEOUT" "policy_ready fw d"
  then have "runs_in_session L E fw au c data (in_message (now E) sid d) (Err e) (in_message (now E) sid d)"
    by (intro assms(5)) simp
  from client_refused [OF assms(1,2) x(1,2) this assms(3,4)]
  show "\<exists>s' d'. client_expects_error L (in_process L fw) c data e (s, (E # Es, d)) = (Ok (), (s', (Es, d')))
      \<and> client_at L (now E) sid au s' d' \<and> same_contents d d'" by metis
qed

section \<open>The matrix of malformed commands\<close>

lemma negative_matrix_refused:
  fixes L :: "'k lib"
  assumes laws: "cipher_laws L" "password_kdf_ok L"
    and fw: "list_all (command_supported fw) [Cmd_GetPseudoRandom, Cmd_GetOption, Cmd_ListObjects, Cmd_GetObjectInfo]"
    and caps: "list_all (cap_contains (au_capabilities au)) [Cap_GetPseudoRandom, Cap_GetOption]"
  shows "\<forall>x\<in>set negative_matrix. reads_only L sid au (policy_ready fw) 1
    ((\<lambda>(command, data, expected). client_expects_error L (in_process L fw) command data expected) x)"
proof -
  have dec: "decode_request decode_u16 [] = Err WrongLength" "decode_request decode_u8 [] = Err WrongLength"
    "decode_request decode_filters [1] = Err WrongLength" "decode_request decode_object_key [0, 1] = Err WrongLength"
    by code_simp+
  note eval = authorize_request_objects_def run_query_def get_pseudo_random_def get_option_def list_objects_def
    required_session_capability_def fits_answer_def policy_ready_def
  have "runs_in_session L E fw au Cmd_GetPseudoRandom [] d (Err WrongLength) d"
    "runs_in_session L E fw au Cmd_GetOption [] d (Err WrongLength) d"
    "runs_in_session L E fw au Cmd_ListObjects [1] d (Err InvalidData) d"
    if "policy_ready fw d" for E d
    using fw caps dec that by (intro runs_query; simp add: eval)+
  moreover have "runs_in_session L E fw au Cmd_GetObjectInfo [0, 1] d (Err WrongLength) d"
    if "policy_ready fw d" for E d
    using fw dec that by (intro runs_refused; simp add: eval)
  ultimately show ?thesis unfolding negative_matrix_def by (simp add: refusal_reads [OF laws] del: One_nat_def)
qed

theorem negative_scenario_passes:
  assumes laws: "cipher_laws L" "scp03_law L" "password_kdf_ok L" and ready: "may_qualify L d credentials sid au E1 (E2 # Es @ [E3])"
    and len: "length Es = 4" and device: "policy_ready fw d"
    and fw: "list_all (command_supported fw) [Cmd_GetPseudoRandom, Cmd_GetOption, Cmd_ListObjects, Cmd_GetObjectInfo, Cmd_CloseSession]"
    and caps: "list_all (cap_contains (au_capabilities au)) [Cap_GetPseudoRandom, Cap_GetOption]"
  obtains d' where "in_session L sec1_ok (in_process L fw) credentials (negative_command_scenario L (in_process L fw))
      (E1 # E2 # Es @ [E3], d) = (Ok (), ([], d'))" "device_wf L d'" "same_contents d d'" "bt_get (dv_sessions d') sid = None"
proof -
  let ?step = "\<lambda>(command, data, expected). client_expects_error L (in_process L fw) command data expected"
  have n: "length Es = length negative_matrix" using len by (simp add: negative_matrix_def)
  have "reads_only L sid au (policy_ready fw) (length Es) (for_each ?step negative_matrix)"
    unfolding n by (rule for_each_reads [OF negative_matrix_refused [OF laws(1,3)]]) (use fw caps in simp_all)
  then obtain d' where "in_session L sec1_ok (in_process L fw) credentials
      (\<lambda>st. try_st (for_each ?step negative_matrix st) (\<lambda>_ st. client_close L (in_process L fw) st)) (E1 # E2 # Es @ [E3], d) = (Ok (), ([], d'))" "device_wf L d'" "same_contents d d'" "bt_get (dv_sessions d') sid = None"
    by (rule reading_case_passes [OF laws ready, where P = "policy_ready fw" and fw = fw and sec1_ok = sec1_ok])
      (use device fw policy_ready_same in \<open>auto\<close>)
  then show thesis by (intro that [of d']) (simp_all add: negative_command_scenario_def [abs_def])
qed

section \<open>The shapes of the options\<close>

lemma chunks2_pairs: "chunks2 (concat (map (\<lambda>c. [c, f c]) xs)) = map (\<lambda>c. (c, f c)) xs"
  by (induction xs) simp_all

lemma length_pairs: "length (concat (map (\<lambda>c. [c, f c]) xs)) = 2 * length xs"
  by (induction xs) simp_all

lemma pairs_shape_list:
  assumes "xs \<noteq> []" "\<forall>c\<in>set xs. f c \<le> 2"
  shows "pairs_shape (concat (map (\<lambda>c. [c, f c]) xs))"
  using assms by (simp add: pairs_shape_def chunks2_pairs length_pairs)

lemma valid_option_bound: "valid_option_value v \<Longrightarrow> v \<le> 2"
  by (auto simp: valid_option_value_def option_consts)

text \<open>What the invariant says of the values that GetOption answers with.\<close>

definition accepted_answer :: "u8 \<Rightarrow> (bytes \<Rightarrow> bool) \<Rightarrow> bytes \<Rightarrow> bool" where
  "accepted_answer option shape answer \<longleftrightarrow> shape answer \<and> length answer \<le> 8172
     \<and> (option = OPTION_COMMAND_AUDIT \<longrightarrow>
          (\<forall>pair\<in>set (chunks2 answer). fst pair = command_code Cmd_SessionMessage \<longrightarrow> snd pair = 0))"

lemma audit_values:
  assumes "options_wf opts"
  shows "option_value (op_command_audit opts) c OPTION_OFF \<le> 2"
    "command_from_byte c = Some Cmd_SessionMessage \<Longrightarrow> option_value (op_command_audit opts) c OPTION_OFF = 0"
    "option_value (op_algorithm_toggle opts) a OPTION_ON \<le> 2"
proof -
  have "bt_get (op_command_audit opts) c = Some v \<Longrightarrow> valid_option_value v \<and> (command_from_byte c = Some Cmd_SessionMessage \<longrightarrow> v = OPTION_OFF)"
    "bt_get (op_algorithm_toggle opts) a = Some v \<Longrightarrow> valid_option_value v" for v
    using assms by (auto simp: options_wf_def command_audit_wf_def algorithm_toggle_wf_def dest: bt.all_ofD)
  then show "option_value (op_command_audit opts) c OPTION_OFF \<le> 2"
    "command_from_byte c = Some Cmd_SessionMessage \<Longrightarrow> option_value (op_command_audit opts) c OPTION_OFF = 0"
    "option_value (op_algorithm_toggle opts) a OPTION_ON \<le> 2"
    by (auto simp: option_value_def option_consts split: option.split intro: valid_option_bound)
qed

lemma get_option_accepted:
  assumes wf: "device_wf L d" and fw: "command_supported fw Cmd_GetOption" and device: "policy_ready fw d"
    and row: "(option, shape) \<in> {(OPTION_FORCE_AUDIT, scalar_shape), (OPTION_COMMAND_AUDIT, pairs_shape), (0x04, pairs_shape), (0x05, scalar_shape)}"
  shows "\<exists>answer. get_option fw d [option] = Ok answer \<and> accepted_answer option shape answer"
proof -
  have opts: "options_wf (dv_options d)" using wf by (simp add: device_wf_def core_wf_def)
  have dec: "decode_request decode_u8 [b] = Ok b" for b by (simp add: decode_u8_def)
  have scalars: "op_force_audit (dv_options d) \<le> 2" "op_fips_mode (dv_options d) \<le> 2"
    using opts by (auto simp: options_wf_def intro: valid_option_bound)
  have scalar: "\<exists>answer. get_option fw d [OPTION_FORCE_AUDIT] = Ok answer \<and> accepted_answer OPTION_FORCE_AUDIT scalar_shape answer"
    "\<exists>answer. get_option fw d [0x05] = Ok answer \<and> accepted_answer 0x05 scalar_shape answer"
    using scalars dec by (simp_all add: get_option_def accepted_answer_def scalar_shape_def option_consts del: decode_request_Ok)
  let ?cs = "filter (supported_command_byte fw) all_bytes" and ?as = "filter (supported_algorithm_byte fw) (cf_algorithms (dv_config d))"
  have algorithms: "?as \<noteq> []" "length (cf_algorithms (dv_config d)) \<le> 256" using device by (simp_all add: policy_ready_def)
  have "command_code Cmd_GetOption \<in> set all_bytes"
    unfolding all_bytes_def by code_simp
  moreover have "supported_command_byte fw (command_code Cmd_GetOption)"
    unfolding supported_command_byte_def command_from_code using fw by simp
  ultimately have nonempty: "?cs \<noteq> []" by (metis filter_empty_conv)
  have "length ?cs \<le> 256" by (rule le_trans [OF length_filter_le]) (simp add: all_bytes_def)
  then have commands: "\<exists>answer. get_option fw d [OPTION_COMMAND_AUDIT] = Ok answer \<and> accepted_answer OPTION_COMMAND_AUDIT pairs_shape answer"
    using dec pairs_shape_list [OF nonempty] audit_values [OF opts] command_from_code [of Cmd_SessionMessage]
    by (simp add: get_option_def accepted_answer_def option_consts chunks2_pairs length_pairs del: decode_request_Ok command_code.simps)
  have "length ?as \<le> 256" by (rule le_trans [OF length_filter_le algorithms(2)])
  then have toggles: "\<exists>answer. get_option fw d [0x04] = Ok answer \<and> accepted_answer 0x04 pairs_shape answer"
    using dec pairs_shape_list [OF algorithms(1)] audit_values(3) [OF opts]
    by (simp add: get_option_def accepted_answer_def option_consts length_pairs del: decode_request_Ok)
  show ?thesis using row scalar commands toggles by blast
qed

lemma option_case_reads:
  fixes L :: "'k lib"
  assumes laws: "cipher_laws L" "password_kdf_ok L" and fw: "command_supported fw Cmd_GetOption" and cap: "cap_contains (au_capabilities au) Cap_GetOption"
    and row: "(option, shape) \<in> {(OPTION_FORCE_AUDIT, scalar_shape), (OPTION_COMMAND_AUDIT, pairs_shape), (0x04, pairs_shape), (0x05, scalar_shape)}"
  shows "reads_only L sid au (policy_ready fw) 1 (option_case L (in_process L fw) (option, shape))"
proof (rule reads_one)
  fix t s and E :: "'k env" and Es d
  assume x: "client_at L t sid au s d" "now E - t < SESSION_INACTIVITY_TIMEOUT" "policy_ready fw d"
  let ?d = "in_message (now E) sid d"
  have wf: "device_wf L d" using x(1) by (simp add: client_at_def)
  obtain answer where a: "get_option fw d [option] = Ok answer" "accepted_answer option shape answer"
    using get_option_accepted [OF wf fw x(3) row] by blast
  have "get_option fw ?d = get_option fw d" 
    by (rule ext) (simp add: get_option_def in_message_def cong: if_cong)
  with a(1) have same: "get_option fw ?d [option] = Ok answer" by simp
  have "runs_in_session L E fw au Cmd_GetOption [option] ?d (Ok answer) ?d"
    by (rule runs_query) (use fw cap x(3) a(2) same in
      \<open>simp_all add: authorize_request_objects_def run_query_def required_session_capability_def fits_answer_def
        accepted_answer_def policy_ready_def in_message_def\<close>)
  from client_reads [OF laws x(1,2) this] obtain s' d' where
    y: "client_query L (in_process L fw) Cmd_GetOption [option] (s, (E # Es, d)) = (Ok answer, (s', (Es, d')))"
    "client_at L (now E) sid au s' d'" "same_contents d d'" by (metis CommandCode.distinct)
  have "case List.find (\<lambda>pair. fst pair = command_code Cmd_SessionMessage) (chunks2 answer) of None \<Rightarrow> True | Some pair \<Rightarrow> snd pair = 0"
    if "option = OPTION_COMMAND_AUDIT"
    using a(2) that unfolding accepted_answer_def by (auto simp: find_Some_iff split: option.split simp del: command_code.simps)
      (metis nth_mem snd_conv)
  with y a(2) show "\<exists>s' d'. option_case L (in_process L fw) (option, shape) (s, (E # Es, d)) = (Ok (), (s', (Es, d')))
      \<and> client_at L (now E) sid au s' d' \<and> same_contents d d'"
    by (auto simp: option_case_def accepted_answer_def simp del: command_code.simps)
qed

theorem option_scenario_passes:
  assumes laws: "cipher_laws L" "scp03_law L" "password_kdf_ok L" and ready: "may_qualify L d credentials sid au E1 (E2 # Es @ [E3])"
    and len: "length Es = 5" and device: "policy_ready fw d"
    and fw: "command_supported fw Cmd_GetOption" "command_supported fw Cmd_CloseSession" and cap: "cap_contains (au_capabilities au) Cap_GetOption"
  obtains d' where "in_session L sec1_ok (in_process L fw) credentials (option_scenario L (in_process L fw))
      (E1 # E2 # Es @ [E3], d) = (Ok (), ([], d'))" "device_wf L d'" "same_contents d d'" "bt_get (dv_sessions d') sid = None"
proof -
  let ?cases = "[(OPTION_FORCE_AUDIT, scalar_shape), (OPTION_COMMAND_AUDIT, pairs_shape), (0x04, pairs_shape), (0x05, scalar_shape)]"
  let ?unknown = "client_expects_error L (in_process L fw) Cmd_GetOption [0xff] InvalidData"
  have "\<forall>x\<in>set ?cases. reads_only L sid au (policy_ready fw) 1 (option_case L (in_process L fw) x)"
    using option_case_reads [OF laws(1,3) fw(1) cap] by simp
  then have cases: "reads_only L sid au (policy_ready fw) (length ?cases) (for_each (option_case L (in_process L fw)) ?cases)"
    by (rule for_each_reads)
  have dec: "decode_request decode_u8 [0xff] = Ok 0xff" by (simp add: decode_u8_def)
  have unknown: "reads_only L sid au (policy_ready fw) 1 ?unknown"
    by (rule refusal_reads [OF laws(1,3)], simp, simp, rule runs_query) (use fw cap dec in
      \<open>simp_all add: authorize_request_objects_def run_query_def required_session_capability_def fits_answer_def get_option_def
        policy_ready_def option_consts del: decode_request_Ok\<close>)
  have n: "length Es = length ?cases + 1" using len by simp
  have "reads_only L sid au (policy_ready fw) (length Es)
      (\<lambda>st. try_st (for_each (option_case L (in_process L fw)) ?cases st) (\<lambda>_ st. ?unknown st))"
    unfolding n by (rule reads_then [OF cases unknown])
  then obtain d' where "in_session L sec1_ok (in_process L fw) credentials
      (\<lambda>st. try_st (try_st (for_each (option_case L (in_process L fw)) ?cases st) (\<lambda>_ st. ?unknown st)) (\<lambda>_ st. client_close L (in_process L fw) st)) (E1 # E2 # Es @ [E3], d) = (Ok (), ([], d'))" "device_wf L d'" "same_contents d d'" "bt_get (dv_sessions d') sid = None"
    by (rule reading_case_passes [OF laws ready, where P = "policy_ready fw" and fw = fw and sec1_ok = sec1_ok])
      (use device fw policy_ready_same in blast)+
  then show thesis by (intro that [of d']) (simp_all add: option_scenario_def [abs_def] try_st_assoc del: for_each.simps)
qed

end
