(* ===== verification/Qualification_Safety.thy ===== *)
theory Qualification_Safety
  imports Qualification_Run Qualification_Cleanup
begin

text \<open>
  What holds of every run of the qualification tool, whatever it is run against and however it ends. The
  interface of a transport (\<^verbatim>\<open>FrameTransport\<close>) is a locale: what one exchange keeps, every operation of
  the tool, every case, and whole runs keep. It is interpreted on the in-process transport with the
  invariant of the device. The report of a run is exact: it lists the cases of the profile in their order,
  and a failure names the first case that did not pass.
\<close>

section \<open>What a script keeps\<close>

named_theorems kept_rules

definition kept :: "('s \<Rightarrow> bool) \<Rightarrow> ('a, 'e) result \<times> 's \<Rightarrow> bool" where
  "kept S m = S (snd m)"

lemma kept_pair [kept_rules]: "S s \<Longrightarrow> kept S (r, s)"
  by (simp add: kept_def)

lemma kept_try_in [kept_rules]: "S s \<Longrightarrow> (\<And>x. kept S (k x)) \<Longrightarrow> kept S (try_in r s k)"
  by (cases r) (simp_all add: kept_def)

lemma kept_try_st [kept_rules]: "kept S m \<Longrightarrow> (\<And>x s. S s \<Longrightarrow> kept S (k x s)) \<Longrightarrow> kept S (try_st m k)"
  by (simp add: try_st_def kept_def try_in_def split: result.split)

lemma kept_keep_result [kept_rules]: "kept S m \<Longrightarrow> (\<And>x s. S s \<Longrightarrow> kept S (k x s)) \<Longrightarrow> kept S (keep_result m k)"
  by (simp add: keep_result_def kept_def split: result.split)

lemma kept_if [kept_rules]: "kept S m \<Longrightarrow> kept S n \<Longrightarrow> kept S (if b then m else n)"
  by simp

lemma kept_prod [kept_rules]: "(\<And>a b. p = (a, b) \<Longrightarrow> kept S (f a b)) \<Longrightarrow> kept S (case p of (a, b) \<Rightarrow> f a b)"
  by (cases p) simp

lemma kept_prod_fun [kept_rules]:
  "(\<And>a b. p = (a, b) \<Longrightarrow> kept S (f a b s)) \<Longrightarrow> kept S ((case p of (a, b) \<Rightarrow> f a b) s)"
  by (cases p) simp

lemma kept_option [kept_rules]: "kept S m \<Longrightarrow> (\<And>x. kept S (f x)) \<Longrightarrow> kept S (case v of None \<Rightarrow> m | Some x \<Rightarrow> f x)"
  by (cases v) simp_all

lemma kept_for_each [kept_rules]: "S s \<Longrightarrow> (\<And>x s. S s \<Longrightarrow> kept S (body x s)) \<Longrightarrow> kept S (for_each body xs s)"
  by (induction xs arbitrary: s) (simp_all add: kept_rules)

lemma kept_with_fresh_ids [kept_rules]:
  "S s \<Longrightarrow> (\<And>i x s. S s \<Longrightarrow> kept S (body i x s)) \<Longrightarrow> kept S (with_fresh_ids object_type start body objects xs s)"
  by (induction xs arbitrary: objects s) (simp_all add: kept_rules)

text \<open>The state of a script is a session and the transport; only what is said of the transport is kept.\<close>

definition on_transport :: "('t \<Rightarrow> bool) \<Rightarrow> 'x \<times> 't \<Rightarrow> bool" where
  "on_transport P st = P (snd st)"

lemma on_transport_pair [simp]: "on_transport P (x, t) = P t"
  by (simp add: on_transport_def)

lemma kept_beside [kept_rules]:
  "(\<And>t. P t \<Longrightarrow> kept P (body t)) \<Longrightarrow> on_transport P st \<Longrightarrow> kept (on_transport P) (beside body st)"
  by (simp add: beside_def kept_def on_transport_def Let_def)

section \<open>Transports\<close>

locale steady_transport =
  fixes tr :: "'t transport" and P :: "'t \<Rightarrow> bool"
  assumes exchange_keeps: "P t \<Longrightarrow> P (snd (tr request t))"
begin

lemma frame_keeps [kept_rules]: "P t \<Longrightarrow> kept P (exchange_frame tr request t)"
  unfolding exchange_frame_def exchange_raw_def Let_def by (intro kept_rules exchange_keeps)

lemma plain_query_keeps [kept_rules]: "P t \<Longrightarrow> kept P (plain_query tr c data t)"
  unfolding plain_query_def by (intro kept_rules frame_keeps)

lemma command_keeps: "on_transport P st \<Longrightarrow> kept (on_transport P) (client_command L tr inner st)"
proof -
  assume st: "on_transport P st"
  then have "P (snd (exchange_frame tr request (snd st)))" for request
    using frame_keeps [of "snd st" request] by (simp add: kept_def on_transport_def)
  with st show ?thesis unfolding client_command_def Let_def by (intro kept_rules) simp_all
qed

lemmas operation_rules = kept_rules command_keeps

lemma query_keeps: "on_transport P st \<Longrightarrow> kept (on_transport P) (client_query L tr c data st)"
  unfolding client_query_def by (intro operation_rules)

lemma send_keeps: "on_transport P st \<Longrightarrow> kept (on_transport P) (client_send L tr request c st)"
  unfolding client_send_def by (intro operation_rules)

lemma expects_error_keeps: "on_transport P st \<Longrightarrow> kept (on_transport P) (client_expects_error L tr c data x st)"
  unfolding client_expects_error_def by (intro operation_rules)

lemma close_keeps: "on_transport P st \<Longrightarrow> kept (on_transport P) (client_close L tr st)"
  unfolding client_close_def by (intro operation_rules)

lemma list_keeps: "on_transport P st \<Longrightarrow> kept (on_transport P) (client_list_objects L tr st)"
  unfolding client_list_objects_def by (intro operation_rules query_keeps)

lemma public_key_keeps: "on_transport P st \<Longrightarrow> kept (on_transport P) (client_get_public_key L tr i ty st)"
  unfolding client_get_public_key_def by (rule query_keeps)

lemma derive_keeps:
  "on_transport P st \<Longrightarrow> kept (on_transport P) (client_derive_ecdh L tr i point st)"
  "on_transport P st \<Longrightarrow> kept (on_transport P) (client_derive_montgomery L tr i point st)"
  unfolding client_derive_ecdh_def client_derive_montgomery_def by (rule query_keeps, assumption)+

lemma delete_keeps: "on_transport P st \<Longrightarrow> kept (on_transport P) (client_delete_object L tr i ty st)"
  unfolding client_delete_object_def by (intro operation_rules query_keeps)

lemmas step_rules = operation_rules query_keeps send_keeps expects_error_keeps close_keeps list_keeps public_key_keeps
  derive_keeps delete_keeps

lemma open_keeps: "P t \<Longrightarrow> kept P (client_open L sec1_ok tr credentials t)"
  unfolding client_open_def open_symmetric_def open_asymmetric_def Let_def
  by (cases "cr_material credentials") (simp, intro kept_rules frame_keeps plain_query_keeps, assumption+)+

lemma session_keeps:
  assumes "\<And>st. on_transport P st \<Longrightarrow> kept (on_transport P) (script st)" "P t"
  shows "kept P (in_session L sec1_ok tr credentials script t)"
proof -
  have "kept P (fst (script (s, u)), snd (snd (script (s, u))))" if "P u" for s u
    using assms(1) [of "(s, u)"] that by (simp add: kept_def on_transport_def)
  with assms(2) show ?thesis unfolding in_session_def Let_def by (intro kept_try_st open_keeps)
qed

text \<open>The scripts of the cases, one exchange after the other.\<close>

lemma secret_key_scripts_keep:
  assumes "on_transport P st"
  shows "kept (on_transport P) (hmac_scenario L tr st)" "kept (on_transport P) (aes_scenario L tr st)"
    "kept (on_transport P) (otp_aead_scenario L tr st)"
proof -
  show "kept (on_transport P) (hmac_scenario L tr st)"
    using assms unfolding hmac_scenario_def Let_def by (intro step_rules)
  have "kept (on_transport P) (aes_vector L tr i x st)" if "on_transport P st" for i x st
    using that unfolding aes_vector_def by (intro step_rules)
  then show "kept (on_transport P) (aes_scenario L tr st)"
    using assms unfolding aes_scenario_def by (intro step_rules)
  show "kept (on_transport P) (otp_aead_scenario L tr st)"
    using assms unfolding otp_aead_scenario_def Let_def by (intro step_rules)
qed

lemma generate_keeps: "on_transport P st \<Longrightarrow> kept (on_transport P) (generate_key_case L tr i c a label st)"
  unfolding generate_key_case_def by (intro step_rules)

lemma signature_scripts_keep:
  assumes "on_transport P st"
  shows "kept (on_transport P) (attestation_scenario L V tr st)" "kept (on_transport P) (ec_signing_scenario L V tr st)"
    "kept (on_transport P) (rsa_scenario L V tr st)" "kept (on_transport P) (ed448_scenario L V tr st)"
    "kept (on_transport P) (ed25519_and_ecdh_scenario L V tr st)"
proof -
  show "kept (on_transport P) (attestation_scenario L V tr st)"
    using assms unfolding attestation_scenario_def by (intro step_rules)
  have "kept (on_transport P) (ec_curve_case L V tr i x st)" if "on_transport P st" for i x st
    using that unfolding ec_curve_case_def Let_def by (intro step_rules)
  then show "kept (on_transport P) (ec_signing_scenario L V tr st)"
    using assms unfolding ec_signing_scenario_def by (intro step_rules)
  show "kept (on_transport P) (rsa_scenario L V tr st)"
    using assms unfolding rsa_scenario_def Let_def by (intro step_rules)
  show "kept (on_transport P) (ed448_scenario L V tr st)"
    using assms unfolding ed448_scenario_def Let_def by (intro step_rules generate_keeps)
  show "kept (on_transport P) (ed25519_and_ecdh_scenario L V tr st)"
    using assms unfolding ed25519_and_ecdh_scenario_def Let_def by (intro step_rules generate_keeps)
qed

lemma agreement_scripts_keep:
  assumes "on_transport P st"
  shows "kept (on_transport P) (x25519_scenario L tr st)" "kept (on_transport P) (x448_scenario L tr st)"
    "kept (on_transport P) (prefixed_ecdh_kdf_scenario L V tr st)"
proof -
  have "kept (on_transport P) (montgomery_scenario L tr start a c w label st)" for start a c w label
    using assms unfolding montgomery_scenario_def by (intro step_rules generate_keeps)
  then show "kept (on_transport P) (x25519_scenario L tr st)" "kept (on_transport P) (x448_scenario L tr st)"
    unfolding x25519_scenario_def x448_scenario_def by blast+
  have "kept (on_transport P) (prefixed_ecdh_outcome L V tr i st)" if "on_transport P st" for i st
    using that unfolding prefixed_ecdh_outcome_def Let_def by (intro step_rules)
  with assms show "kept (on_transport P) (prefixed_ecdh_kdf_scenario L V tr st)"
    unfolding prefixed_ecdh_kdf_scenario_def by (intro step_rules generate_keeps)
qed

lemma wrap_scripts_keep:
  assumes "on_transport P st"
  shows "kept (on_transport P) (wrapping_scenario L tr st)" "kept (on_transport P) (rsa_wrapping_scenario L V tr st)"
    "kept (on_transport P) (rsa_pkcs1_wrapping_scenario L tr st)"
proof -
  have delete: "kept (on_transport P) (delete_objects L tr xs st)" if "on_transport P st" for xs st
    using that unfolding delete_objects_def by (intro step_rules)
  have pair: "kept (on_transport P) (rsa_wrap_pair L tr i j c label f st)" if "on_transport P st" for i j c label f st
    using that unfolding rsa_wrap_pair_def by (intro step_rules)
  have obj: "kept (on_transport P) (rsa_wrapped_object_case L tr i j k label st)" if "on_transport P st" for i j k label st
    using that unfolding rsa_wrapped_object_case_def Let_def by (intro step_rules)
  have key: "kept (on_transport P) (rsa_wrapped_key_case L V tr i j k label st)" if "on_transport P st" for i j k label st
    using that unfolding rsa_wrapped_key_case_def Let_def by (intro step_rules)
  show "kept (on_transport P) (wrapping_scenario L tr st)"
    using assms unfolding wrapping_scenario_def Let_def by (intro step_rules)
  show "kept (on_transport P) (rsa_wrapping_scenario L V tr st)"
    using assms unfolding rsa_wrapping_scenario_def Let_def by (intro step_rules delete pair obj key)
  show "kept (on_transport P) (rsa_pkcs1_wrapping_scenario L tr st)"
    using assms unfolding rsa_pkcs1_wrapping_scenario_def Let_def by (intro step_rules delete pair)
qed

lemma asymmetric_handshake_keeps:
  "P t \<Longrightarrow> kept P (asymmetric_handshake L V tr create hs he pub t)"
  unfolding asymmetric_handshake_def Let_def by (intro kept_rules plain_query_keeps)

lemma policy_scripts_keep:
  assumes "on_transport P st"
  shows "kept (on_transport P) (authorization_scenario L V tr st)" "kept (on_transport P) (option_scenario L tr st)"
    "kept (on_transport P) (negative_command_scenario L tr st)"
proof -
  have "kept (on_transport P) (restricted_script L tr i st)" if "on_transport P st" for i st
    using that unfolding restricted_script_def by (intro step_rules)
  then show "kept (on_transport P) (authorization_scenario L V tr st)"
    using assms unfolding authorization_scenario_def Let_def by (intro step_rules session_keeps)
  have "kept (on_transport P) (option_case L tr x st)" if "on_transport P st" for x st
    using that unfolding option_case_def by (intro step_rules)
  then show "kept (on_transport P) (option_scenario L tr st)"
    using assms unfolding option_scenario_def by (intro step_rules)
  show "kept (on_transport P) (negative_command_scenario L tr st)"
    using assms unfolding negative_command_scenario_def by (intro step_rules)
qed

lemma asymmetric_authentication_keeps:
  assumes "on_transport P st"
  shows "kept (on_transport P) (asymmetric_authentication_scenario L V tr st)"
  using assms unfolding asymmetric_authentication_scenario_def Let_def
  by (intro step_rules asymmetric_handshake_keeps frame_keeps) simp_all

lemma audit_scripts_keep:
  assumes "on_transport P st"
  shows "kept (on_transport P) (audit_log_scenario L V tr credentials st)" "kept (on_transport P) (force_audit_scenario L tr st)"
proof -
  have "kept (on_transport P) (second_session_script L tr st)" if "on_transport P st" for st
    using that unfolding second_session_script_def by (intro step_rules)
  then show "kept (on_transport P) (audit_log_scenario L V tr credentials st)"
    using assms unfolding audit_log_scenario_def Let_def by (intro step_rules session_keeps)
  show "kept (on_transport P) (force_audit_scenario L tr st)"
    using assms unfolding force_audit_scenario_def Let_def by (intro step_rules)
qed

lemma discovery_keeps: "P t \<Longrightarrow> kept P (replace_public_discovery_credential L V tr administrator t)"
proof -
  have "kept (on_transport P) (replace_discovery_script L tr st)" if "on_transport P st" for st
    using that unfolding replace_discovery_script_def by (intro step_rules)
  moreover have "kept (on_transport P) (check_discovery_script L tr st)" if "on_transport P st" for st
    using that unfolding check_discovery_script_def by (intro step_rules)
  moreover assume "P t"
  ultimately show ?thesis unfolding replace_public_discovery_credential_def by (intro kept_rules session_keeps)
qed

lemma cleanup_keeps: "P t \<Longrightarrow> kept P (cleanup_qualification_objects L sec1_ok tr administrator t)"
proof -
  have loop: "kept (on_transport P) (cleanup_loop L tr xs n st)" if "on_transport P st" for xs n st
    using that
  proof (induction xs arbitrary: n st)
    case (Cons x xs)
    then show ?case by (cases x) (simp, intro step_rules Cons.IH)
  qed (simp add: kept_rules)
  have "kept (on_transport P) (script_cleanup L tr st)" if "on_transport P st" for st
    using that unfolding script_cleanup_def by (intro step_rules loop)
  moreover assume "P t"
  ultimately show ?thesis unfolding cleanup_qualification_objects_def by (intro session_keeps)
qed

text \<open>Cases and profiles.\<close>

lemma run_case_value_keeps:
  "(\<And>t. P t \<Longrightarrow> kept P (body t)) \<Longrightarrow> on_transport P st \<Longrightarrow> kept (on_transport P) (run_case_value name body st)"
  unfolding run_case_value_def Let_def by (simp add: on_transport_def kept_def try_in_def split: result.split)

lemma run_case_keeps:
  "(\<And>t. P t \<Longrightarrow> kept P (body t)) \<Longrightarrow> on_transport P st \<Longrightarrow> kept (on_transport P) (run_case name body st)"
  unfolding run_case_def by (rule run_case_value_keeps)

lemma session_case_keeps:
  "(\<And>st. on_transport P st \<Longrightarrow> kept (on_transport P) (script st)) \<Longrightarrow> on_transport P st \<Longrightarrow>
    kept (on_transport P) (session_case L V tr credentials name script st)"
  unfolding session_case_def by (intro run_case_keeps session_keeps)

lemma smoke_cases_keep:
  "P t \<Longrightarrow> kept P (case_plain_echo tr t)" "P t \<Longrightarrow> kept P (case_identity tr t)" "P t \<Longrightarrow> kept P (case_public_key tr t)"
  "P t \<Longrightarrow> kept P (case_session_boundary tr t)"
  unfolding case_plain_echo_def case_identity_def case_public_key_def case_session_boundary_def Let_def
  by (intro kept_rules plain_query_keeps frame_keeps; assumption)+

lemma smoke_keeps: "on_transport P st \<Longrightarrow> kept (on_transport P) (run_smoke tr st)"
proof -
  have "kept P (case_malformed_frames tr t)" if "P t" for t
    using that exchange_keeps [OF that] unfolding case_malformed_frames_def Let_def by (intro kept_rules frame_keeps)
  moreover assume "on_transport P st"
  ultimately show ?thesis
    unfolding run_smoke_def by (intro kept_rules run_case_keeps run_case_value_keeps smoke_cases_keep)
qed

lemma first_scripts_keep:
  "on_transport P st \<Longrightarrow> kept (on_transport P) (script_secure_session L tr st)"
  "on_transport P st \<Longrightarrow> kept (on_transport P) (script_opaque_lifecycle L tr st)"
  unfolding script_secure_session_def script_opaque_lifecycle_def Let_def by (intro step_rules; assumption)+

lemmas script_rules = first_scripts_keep secret_key_scripts_keep signature_scripts_keep agreement_scripts_keep wrap_scripts_keep
  policy_scripts_keep asymmetric_authentication_keeps audit_scripts_keep

lemma managed_keeps: "on_transport P st \<Longrightarrow> kept (on_transport P) (run_managed L V tr credentials st)"
  unfolding run_managed_def case_secure_session_def case_opaque_lifecycle_def session_case_def [symmetric]
  by (intro kept_rules session_case_keeps script_rules)

lemma extensions_keep: "on_transport P st \<Longrightarrow> kept (on_transport P) (run_extensions L V tr credentials algorithms st)"
proof -
  have "kept (on_transport P) (run_prefixed_ecdh L V tr credentials st)" if "on_transport P st" for st
  proof -
    have "kept P (in_session L (v_sec1_ok V) tr credentials (prefixed_ecdh_kdf_scenario L V tr) (snd st))"
      using that by (intro session_keeps script_rules) (simp_all add: on_transport_def)
    then have "P (snd (in_session L (v_sec1_ok V) tr credentials (prefixed_ecdh_kdf_scenario L V tr) (snd st)))"
      by (simp add: kept_def)
    then show ?thesis unfolding run_prefixed_ecdh_def Let_def by (intro kept_rules) simp_all
  qed
  moreover assume "on_transport P st"
  ultimately show ?thesis unfolding run_extensions_def Let_def by (intro kept_rules session_case_keeps script_rules)
qed

lemma ephemeral_keeps: "on_transport P st \<Longrightarrow> kept (on_transport P) (run_ephemeral_audit L V tr credentials st)"
  unfolding run_ephemeral_audit_def by (intro kept_rules session_case_keeps script_rules)

lemma profile_keeps: "on_transport P st \<Longrightarrow> kept (on_transport P) (run_profile L V tr target profile credentials st)"
  unfolding run_profile_def by (intro kept_rules smoke_keeps managed_keeps extensions_keep ephemeral_keeps)

lemma run_keeps: "P t \<Longrightarrow> P (snd (run_qualification L V tr target profile credentials t))"
  using profile_keeps [of "([], t)"] by (simp add: run_qualification_def Let_def kept_def on_transport_def)

end

text \<open>
  The in-process transport keeps the invariant of its device. The library's password derivation enters
  as a parameter of the predicate, since the provisioned default key is derived with it.
\<close>

definition sound_device :: "'k lib \<Rightarrow> 'k env list \<times> 'k Device \<Rightarrow> bool" where
  "sound_device L t = (device_wf L (snd t) \<and> password_kdf_ok L)"

interpretation device: steady_transport "in_process L fw" "sound_device L"
proof
  fix t request
  assume "sound_device L t"
  then show "sound_device L (snd (in_process L fw request t))"
    using handle_encoded_wf [of L "snd t"] by (cases t; cases "fst t") (auto simp: sound_device_def handle_encoded_def Let_def)
qed

text \<open>Environments are used up in their order: a run takes a prefix of them.\<close>

definition remaining_environments :: "'k env list \<Rightarrow> 'k env list \<times> 'k Device \<Rightarrow> bool" where
  "remaining_environments Es t = (\<exists>Fs. Es = Fs @ fst t)"

interpretation clock: steady_transport "in_process L fw" "remaining_environments Es"
proof
  fix t request
  assume "remaining_environments Es t"
  then show "remaining_environments Es (snd (in_process L fw request t))"
    by (cases t; cases "fst t") (auto simp: remaining_environments_def Let_def)
qed

section \<open>The report is exact\<close>

text \<open>
  \<open>reports names passed m\<close>: the step \<open>m\<close>, started with the cases \<open>passed\<close>, either passes all of
  \<open>names\<close>, or fails with the name of the first one that does not pass, the ones before it passed. A
  panic is also in the middle of a case.
\<close>

definition reports :: "string list \<Rightarrow> string list \<Rightarrow> 'a qualification \<times> 't run_state \<Rightarrow> bool" where
  "reports names passed m = (case fst m of
       Ok _ \<Rightarrow> fst (snd m) = passed @ names
     | Err name \<Rightarrow> \<exists>before later. names = before @ name # later \<and> fst (snd m) = passed @ before
     | _ \<Rightarrow> \<exists>before name later. names = before @ name # later \<and> fst (snd m) = passed @ before)"

lemma reports_try_st:
  assumes "reports names passed m" "\<And>x st. m = (Ok x, st) \<Longrightarrow> reports names' (passed @ names) (k x st)"
  shows "reports (names @ names') passed (try_st m k)"
proof -
  obtain r st where m: "m = (r, st)" by (rule prod.exhaust)
  show ?thesis
  proof (cases r)
    case (Ok x)
    with assms(2) m have "reports names' (passed @ names) (k x st)" by simp
    then show ?thesis using m Ok
      by (auto simp: reports_def split: result.splits)
  qed (use assms(1) m in \<open>fastforce simp: reports_def\<close>)+
qed

lemma reports_case_value: "reports [name] (fst st) (run_case_value name body st)"
  by (cases "fst (body (snd st))") (auto simp: reports_def run_case_value_def Let_def)

lemma reports_case: "fst st = passed \<Longrightarrow> reports [name] passed (run_case name body st)"
  unfolding run_case_def using reports_case_value by blast

lemma reports_session_case: "fst st = passed \<Longrightarrow> reports [name] passed (session_case L V tr credentials name script st)"
  unfolding session_case_def by (rule reports_case)

lemma reports_append:
  assumes "reports names passed m" "\<And>x st. fst st = passed @ names \<Longrightarrow> reports names' (fst st) (k x st)"
  shows "reports (names @ names') passed (try_st m k)"
  using assms by (intro reports_try_st) (auto simp: reports_def)

lemma reports_Cons:
  "reports [name] passed m \<Longrightarrow> (\<And>x st. fst st = passed @ [name] \<Longrightarrow> reports names (fst st) (k x st)) \<Longrightarrow>
    reports (name # names) passed (try_st m k)"
  using reports_append [of "[name]" passed m names k] by simp

lemma reports_done: "reports [] (fst st) (Ok x, st)"
  by (simp add: reports_def)

lemmas reports_rules = reports_Cons reports_case [OF refl] reports_session_case [OF refl] reports_case_value reports_done

text \<open>The names of the cases of a profile, in their order.\<close>

definition smoke_cases :: "string list" where
  "smoke_cases = [''malformed and unknown frames'', ''plain echo'', ''device identity'', ''device public key'',
     ''plain session boundary'']"

definition managed_cases :: "string list" where
  "managed_cases = [''authenticated secure session'', ''opaque object lifecycle'',
     ''authorization capabilities, delegation, and domains'', ''asymmetric authentication and session snapshot'',
     ''option inventory and validation'', ''authenticated negative command matrix'',
     ''HMAC-SHA-256 known answer and verification'', ''AES known answers and mode round trips'',
     ''authenticated data and object wrapping'', ''official EC curve signing matrix'', ''RSA signing and decryption'',
     ''RSA-AES wrapped objects and key material'', ''Ed25519 signing and P-256 ECDH'', ''Yubico OTP AEAD known credential'',
     ''attestation binds the generated public key'']"

definition extension_cases :: "bool \<Rightarrow> bool \<Rightarrow> string list" where
  "extension_cases kdf wrapping = [''X25519 key agreement'', ''X448 key agreement'', ''Ed448 signing'']
     @ (if kdf then [''prefixed ECDH KDF''] else []) @ (if wrapping then [''direct PKCS #1 secret-key wrapping''] else [])"

definition audit_cases :: "string list" where
  "audit_cases = [''audit logs inner commands but never Session Message'',
     ''force audit rejects commands when the log is full'']"

lemma smoke_reports: "reports smoke_cases (fst st) (run_smoke tr st)"
  unfolding smoke_cases_def run_smoke_def by (intro reports_rules)

lemma managed_reports: "reports managed_cases (fst st) (run_managed L V tr credentials st)"
  unfolding managed_cases_def run_managed_def by (intro reports_rules)

lemma ephemeral_reports: "reports audit_cases (fst st) (run_ephemeral_audit L V tr credentials st)"
  unfolding audit_cases_def run_ephemeral_audit_def by (intro reports_rules)

text \<open>
  Which cases of the extensions there are depends on the device. \<open>Q\<close> relates the choice to the
  result.
\<close>

lemma reports_branch:
  assumes "reports names passed m"
    and "\<And>x st. m = (Ok x, st) \<Longrightarrow> fst st = passed @ names \<Longrightarrow>
      \<exists>b. reports (f b) (fst st) (k x st) \<and> (\<forall>v st'. k x st = (Ok v, st') \<longrightarrow> Q b v)"
  shows "\<exists>b. reports (names @ f b) passed (try_st m k) \<and> (\<forall>v st'. try_st m k = (Ok v, st') \<longrightarrow> Q b v)"
proof (cases "\<exists>x st. m = (Ok x, st)")
  case True
  then obtain x st where m: "m = (Ok x, st)" by blast
  moreover from this assms(1) have "fst st = passed @ names" by (simp add: reports_def)
  ultimately obtain b where b: "reports (f b) (passed @ names) (k x st)" "\<forall>v st'. k x st = (Ok v, st') \<longrightarrow> Q b v"
    using assms(2) by metis
  have "reports (names @ f b) passed (try_st m k)" by (rule reports_try_st [OF assms(1)]) (use m b(1) in simp)
  with b(2) m show ?thesis by (intro exI [of _ b]) simp
next
  case False
  then have "reports (names @ f b) passed (try_st m k)" for b by (intro reports_try_st [OF assms(1)]) simp
  with False show ?thesis by simp
qed

lemma reports_branch_Cons:
  assumes "reports [name] passed m"
    and "\<And>x st. fst st = passed @ [name] \<Longrightarrow>
      \<exists>b. reports (f b) (fst st) (k x st) \<and> (\<forall>v st'. k x st = (Ok v, st') \<longrightarrow> Q b v)"
  shows "\<exists>b. reports (name # f b) passed (try_st m k) \<and> (\<forall>v st'. try_st m k = (Ok v, st') \<longrightarrow> Q b v)"
  using reports_branch [OF assms(1), where f = f and Q = Q and k = k] assms(2) by simp

lemma prefixed_ecdh_reports:
  obtains kdf where "reports (if kdf then [''prefixed ECDH KDF''] else []) (fst st) (run_prefixed_ecdh L V tr credentials st)"
    "\<forall>v st'. run_prefixed_ecdh L V tr credentials st = (Ok v, st') \<longrightarrow> v = (if kdf then [] else [''prefixed ECDH KDF''])"
proof (cases "fst (in_session L (v_sec1_ok V) tr credentials (prefixed_ecdh_kdf_scenario L V tr) (snd st))")
  case (Ok supported)
  then show thesis by (intro that [of supported]) (auto simp: run_prefixed_ecdh_def reports_def)
qed (rule that [of True]; simp add: run_prefixed_ecdh_def reports_def)+

definition unsupported_cases :: "bool \<Rightarrow> bool \<Rightarrow> string list" where
  "unsupported_cases kdf wrapping =
     (if kdf then [] else [''prefixed ECDH KDF'']) @ (if wrapping then [] else [''direct PKCS #1 secret-key wrapping''])"

lemma extensions_report:
  fixes algorithms :: bytes
  defines "wrapping \<equiv> list_ex extension_algorithm algorithms"
  shows "\<exists>kdf. reports (extension_cases kdf wrapping) (fst st) (run_extensions L V tr credentials algorithms st)
    \<and> (\<forall>v st'. run_extensions L V tr credentials algorithms st = (Ok v, st') \<longrightarrow> v = unsupported_cases kdf wrapping)"
proof -
  let ?name = "''direct PKCS #1 secret-key wrapping''"
  let ?last = "\<lambda>unsupported st. if wrapping
      then try_st (session_case L V tr credentials ?name (rsa_pkcs1_wrapping_scenario L tr) st) (\<lambda>_ st. (Ok unsupported, st))
      else (Ok (unsupported @ [?name]), st)"
  have last: "reports (if wrapping then [?name] else []) (fst st) (?last u st)" for u st
    by (cases wrapping) (simp_all, (intro reports_rules)+)
  have last_Ok: "?last u st = (Ok v, st') \<Longrightarrow> v = u @ (if wrapping then [] else [?name])" for u v st st'
    by (auto split: if_splits)
  have two: "\<exists>kdf. reports ((if kdf then [''prefixed ECDH KDF''] else []) @ (if wrapping then [?name] else [])) (fst st)
        (try_st (run_prefixed_ecdh L V tr credentials st) ?last)
      \<and> (\<forall>v st'. try_st (run_prefixed_ecdh L V tr credentials st) ?last = (Ok v, st') \<longrightarrow> v = unsupported_cases kdf wrapping)" for st
  proof -
    obtain kdf where kdf: "reports (if kdf then [''prefixed ECDH KDF''] else []) (fst st) (run_prefixed_ecdh L V tr credentials st)"
      "\<forall>v st'. run_prefixed_ecdh L V tr credentials st = (Ok v, st') \<longrightarrow> v = (if kdf then [] else [''prefixed ECDH KDF''])"
      by (rule prefixed_ecdh_reports)
    show ?thesis
    proof (intro exI [of _ kdf] conjI allI impI)
      show "reports ((if kdf then [''prefixed ECDH KDF''] else []) @ (if wrapping then [?name] else [])) (fst st)
        (try_st (run_prefixed_ecdh L V tr credentials st) ?last)" by (rule reports_append [OF kdf(1) last])
      fix v st' assume "try_st (run_prefixed_ecdh L V tr credentials st) ?last = (Ok v, st')"
      then obtain u s where u: "run_prefixed_ecdh L V tr credentials st = (Ok u, s)" "?last u s = (Ok v, st')"
        unfolding try_st_Ok by blast
      have "u = (if kdf then [] else [''prefixed ECDH KDF''])" using kdf(2) u(1) by blast
      with last_Ok [OF u(2)] show "v = unsupported_cases kdf wrapping" unfolding unsupported_cases_def by simp
    qed
  qed
  show ?thesis
    unfolding run_extensions_def extension_cases_def wrapping_def [symmetric] append.simps Let_def
    by (intro reports_branch_Cons reports_session_case [OF refl] two)
qed

section \<open>Whole profiles\<close>

definition profile_cases :: "Profile \<Rightarrow> bool \<Rightarrow> bool \<Rightarrow> string list" where
  "profile_cases profile kdf wrapping = smoke_cases
     @ (if profile \<noteq> Prof_Smoke then managed_cases else [])
     @ (if profile = Prof_Extensions then extension_cases kdf wrapping else [])
     @ (if profile = Prof_Ephemeral then audit_cases else [])"

text \<open>What follows the smoke cases.\<close>

definition run_rest ::
  "'k lib \<Rightarrow> client_lib \<Rightarrow> 't transport \<Rightarrow> Profile \<Rightarrow> 't Credentials \<Rightarrow> bytes \<Rightarrow> 't run_state \<Rightarrow> string list qualification \<times> 't run_state" where
  "run_rest L V tr profile credentials algorithms st = (case profile of
       Prof_Smoke \<Rightarrow> (Ok [], st)
     | Prof_Managed \<Rightarrow> try_st (run_managed L V tr credentials st) (\<lambda>_ st. (Ok [], st))
     | Prof_Extensions \<Rightarrow> try_st (run_managed L V tr credentials st) (\<lambda>_. run_extensions L V tr credentials algorithms)
     | Prof_Ephemeral \<Rightarrow> try_st (run_managed L V tr credentials st) (\<lambda>_ st.
         try_st (run_ephemeral_audit L V tr credentials st) (\<lambda>_ st. (Ok [], st))))"

lemma run_profile_rest:
  "run_profile L V tr target profile (Some credentials) st =
     try_st (run_smoke tr st) (\<lambda>identity st.
     try_st (run_rest L V tr profile credentials (id_algorithms identity) st) (\<lambda>unsupported st.
     (Ok \<lparr>rp_target = target, rp_profile = profile, rp_identity = identity, rp_passed = fst st, rp_unsupported = unsupported\<rparr>, st)))"
  by (cases profile) (simp_all add: run_profile_def run_rest_def try_st_assoc)

lemma rest_reports:
  fixes algorithms :: bytes
  defines "wrapping \<equiv> list_ex extension_algorithm algorithms"
  shows "\<exists>kdf. reports (drop (length smoke_cases) (profile_cases profile kdf wrapping)) (fst st)
      (run_rest L V tr profile credentials algorithms st)
    \<and> (\<forall>v st'. run_rest L V tr profile credentials algorithms st = (Ok v, st')
        \<longrightarrow> v = (if profile = Prof_Extensions then unsupported_cases kdf wrapping else []))"
proof (cases profile)
  case Prof_Extensions
  have "\<exists>kdf. reports (managed_cases @ extension_cases kdf wrapping) (fst st) (run_rest L V tr profile credentials algorithms st)
      \<and> (\<forall>v st'. run_rest L V tr profile credentials algorithms st = (Ok v, st') \<longrightarrow> v = unsupported_cases kdf wrapping)"
    unfolding run_rest_def Prof_Extensions wrapping_def Profile.case by (rule reports_branch [OF managed_reports extensions_report])
  then show ?thesis by (simp add: Prof_Extensions profile_cases_def)
next
  case Prof_Managed
  have "reports (managed_cases @ []) (fst st) (try_st (run_managed L V tr credentials st) (\<lambda>_ st. (Ok ([] :: string list), st)))"
    by (intro reports_append managed_reports reports_done)
  then show ?thesis by (auto simp: Prof_Managed profile_cases_def run_rest_def)
next
  case Prof_Ephemeral
  have "reports (managed_cases @ audit_cases @ []) (fst st) (try_st (run_managed L V tr credentials st) (\<lambda>_ st.
      try_st (run_ephemeral_audit L V tr credentials st) (\<lambda>_ st. (Ok ([] :: string list), st))))"
    by (intro reports_append managed_reports ephemeral_reports reports_done)
  then show ?thesis by (auto simp: Prof_Ephemeral profile_cases_def run_rest_def)
qed (simp add: profile_cases_def run_rest_def reports_done)

text \<open>
  The outcome of a run and the cases that passed on the way: a report lists all cases of the profile that
  the device supports, and the rest as unsupported; a failure is the name of the case after the last
  one that passed.
\<close>

definition exact_outcome :: "Profile \<Rightarrow> bool \<Rightarrow> bool \<Rightarrow> Report qualification \<Rightarrow> string list \<Rightarrow> bool" where
  "exact_outcome profile kdf wrapping r passed = (case r of
       Ok report \<Rightarrow> passed = profile_cases profile kdf wrapping \<and> rp_passed report = passed \<and> rp_profile report = profile
         \<and> rp_unsupported report = (if profile = Prof_Extensions then unsupported_cases kdf wrapping else [])
         \<and> wrapping = list_ex extension_algorithm (id_algorithms (rp_identity report))
     | Err name \<Rightarrow> \<exists>later. profile_cases profile kdf wrapping = passed @ name # later
     | _ \<Rightarrow> \<exists>name later. profile_cases profile kdf wrapping = passed @ name # later)"

lemma profile_cases_smoke: "smoke_cases @ drop (length smoke_cases) (profile_cases profile kdf wrapping) = profile_cases profile kdf wrapping"
  by (simp add: profile_cases_def)

lemma profile_reports:
  "\<exists>b. reports (profile_cases profile (fst b) (snd b)) [] (run_profile L V tr target profile (Some credentials) ([], t))
    \<and> (\<forall>report st'. run_profile L V tr target profile (Some credentials) ([], t) = (Ok report, st') \<longrightarrow>
        rp_passed report = fst st' \<and> rp_profile report = profile
        \<and> rp_unsupported report = (if profile = Prof_Extensions then unsupported_cases (fst b) (snd b) else [])
        \<and> snd b = list_ex extension_algorithm (id_algorithms (rp_identity report)))"
proof -
  let ?rest = "\<lambda>(kdf, wrapping). drop (length smoke_cases) (profile_cases profile kdf wrapping)"
  let ?last = "\<lambda>identity unsupported st.
    (Ok \<lparr>rp_target = target, rp_profile = profile, rp_identity = identity, rp_passed = fst st, rp_unsupported = unsupported\<rparr>, st)"
  let ?run = "\<lambda>identity st. try_st (run_rest L V tr profile credentials (id_algorithms identity) st) (?last identity)"
  let ?Q = "\<lambda>b report. rp_profile report = profile
        \<and> rp_unsupported report = (if profile = Prof_Extensions then unsupported_cases (fst b) (snd b) else [])
        \<and> snd b = list_ex extension_algorithm (id_algorithms (rp_identity report))"
  have rest: "\<exists>b. reports (?rest b) (fst st) (?run identity st) \<and> (\<forall>report st'. ?run identity st = (Ok report, st') \<longrightarrow> ?Q b report)"
    for identity st
  proof -
    let ?w = "list_ex extension_algorithm (id_algorithms identity)"
    obtain kdf where kdf: "reports (?rest (kdf, ?w)) (fst st) (run_rest L V tr profile credentials (id_algorithms identity) st)"
      "\<forall>v st'. run_rest L V tr profile credentials (id_algorithms identity) st = (Ok v, st')
        \<longrightarrow> v = (if profile = Prof_Extensions then unsupported_cases kdf ?w else [])"
      using rest_reports [of profile "id_algorithms identity" st L V tr credentials] by auto
    have "reports (?rest (kdf, ?w) @ []) (fst st) (?run identity st)" by (rule reports_append [OF kdf(1) reports_done])
    with kdf(2) show ?thesis by (intro exI [of _ "(kdf, ?w)"]) auto
  qed
  have "rp_passed report = fst st'" if "run_profile L V tr target profile (Some credentials) ([], t) = (Ok report, st')" for report st'
    using that unfolding run_profile_rest by auto
  moreover have "\<exists>b. reports (smoke_cases @ ?rest b) [] (try_st (run_smoke tr ([], t)) ?run)
      \<and> (\<forall>report st'. try_st (run_smoke tr ([], t)) ?run = (Ok report, st') \<longrightarrow> ?Q b report)"
    by (rule reports_branch [OF _ rest]) (use smoke_reports [of "([], t)" tr] in simp)
  ultimately show ?thesis unfolding run_profile_rest by (auto simp: profile_cases_smoke)
qed

lemma profile_exact:
  assumes "run_profile L V tr target profile (Some credentials) ([], t) = (r, (passed, t'))"
  shows "\<exists>kdf wrapping. exact_outcome profile kdf wrapping r passed"
  using profile_reports [of profile L V tr target credentials t] assms
  by (cases r) (auto simp: reports_def exact_outcome_def)

end
