(* ===== verification/Qualification_Main.thy ===== *)
theory Qualification_Main
  imports Qualification_Credentials Qualification_Safety
begin

text \<open>
  The command line of the qualification tool (\<^verbatim>\<open>yubihsm-qualification/src/main.rs\<close>): which target it runs
  against, with which profile and which credentials. Arguments, variables and URLs are byte strings. What
  the tool prints is the list of its lines, each with its kind and its arguments.
\<close>

section \<open>Arguments\<close>

definition parse_profile :: "bytes \<Rightarrow> bool \<Rightarrow> Profile case_result" where
  "parse_profile text core =
     (if text = str_bytes ''smoke'' then Ok Prof_Smoke
      else if text = str_bytes ''managed'' then Ok Prof_Managed
      else if text = str_bytes ''extensions'' then Ok Prof_Extensions
      else if text = str_bytes ''ephemeral'' then (if core then Ok Prof_Ephemeral else Err ())
      else Err ())"

definition authentication_key_id :: "environment \<Rightarrow> u16 case_result" where
  "authentication_key_id env = (case env ''YUBIHSM_QUALIFICATION_AUTH_KEY_ID'' of
       None \<Rightarrow> Ok 1
     | Some text \<Rightarrow> and_then (ok_or (parse_radix 10 65535 text) ()) (\<lambda>n. Ok (of_nat n)))"

text \<open>
  The targets: the device of \<^verbatim>\<open>InProcessTransport::factory_default\<close>, or a connector. \<open>select_target\<close> is
  the \<^verbatim>\<open>match\<close> on the arguments in \<^verbatim>\<open>execute\<close>; the device is made before its profile is parsed, a
  connector after.
\<close>

datatype 'k target = Target_Core "'k Device" | Target_Connector ConnectorHttpTransport

definition select_target :: "'k Device case_result \<Rightarrow> bytes list \<Rightarrow> ('k target \<times> Profile) case_result" where
  "select_target factory arguments =
     (let core = str_bytes ''core''; connector = str_bytes ''connector'' in
      case arguments of
        [name] \<Rightarrow> if name = core then and_then factory (\<lambda>d. Ok (Target_Core d, Prof_Ephemeral)) else Err ()
      | [name, profile] \<Rightarrow>
          if name = core
          then and_then factory (\<lambda>d. and_then (parse_profile profile True) (\<lambda>profile. Ok (Target_Core d, profile)))
          else Err ()
      | [name, url, serial] \<Rightarrow>
          if name = connector then and_then (or_message (connector_new url serial)) (\<lambda>c. Ok (Target_Connector c, Prof_Smoke)) else Err ()
      | [name, url, serial, profile] \<Rightarrow>
          if name = connector
          then and_then (parse_profile profile False) (\<lambda>profile.
               and_then (or_message (connector_new url serial)) (\<lambda>c. Ok (Target_Connector c, profile)))
          else Err ()
      | _ \<Rightarrow> Err ())"

text \<open>
  The credentials of the run. \<open>managed\<close> is what the two managed profiles use: the factory password for the
  in-process device, and for a connector what the environment names.
\<close>

definition select_credentials ::
  "'k lib \<Rightarrow> 't Credentials case_result \<Rightarrow> Profile \<Rightarrow> 't Credentials option case_result" where
  "select_credentials L managed profile = (case profile of
       Prof_Smoke \<Rightarrow> Ok None
     | Prof_Ephemeral \<Rightarrow> Ok (Some (credentials_from_password L 1 (str_bytes ''password'')))
     | _ \<Rightarrow> and_then managed (\<lambda>c. Ok (Some c)))"

section \<open>Running\<close>

datatype output_line =
    Line_Provisioned ConnectorHttpTransport
  | Line_Removed nat ConnectorHttpTransport nat
  | Line_Qualified string u32
  | Line_Pass string
  | Line_Unsupported string

definition report_lines :: "Report \<Rightarrow> output_line list" where
  "report_lines report = Line_Qualified (rp_target report) (id_serial (rp_identity report))
     # map Line_Pass (rp_passed report) @ map Line_Unsupported (rp_unsupported report)"

definition qualify ::
  "'k lib \<Rightarrow> client_lib \<Rightarrow> 't transport \<Rightarrow> string \<Rightarrow> Profile \<Rightarrow> 't Credentials option \<Rightarrow> 't \<Rightarrow> output_line list case_result \<times> 't" where
  "qualify L V tr description profile credentials t =
     (let m = run_qualification L V tr description profile credentials t in
      (and_then (or_message (fst m)) (\<lambda>report. Ok (report_lines report)), snd m))"

text \<open>\<^verbatim>\<open>format!("connector http://{}:{} serial {}", ..)\<close>.\<close>

definition connector_description :: "ConnectorHttpTransport \<Rightarrow> string" where
  "connector_description c = map (char_of \<circ> (unat :: u8 \<Rightarrow> nat))
     (str_bytes ''connector http://'' @ ht_host c @ str_bytes '':'' @ print_decimal (unat (ht_port c)) @ str_bytes '' serial '' @ ht_serial c)"

text \<open>
  \<^verbatim>\<open>execute\<close>. The in-process target is a device made for the run: \<open>E\<close> is the environment of its creation
  and \<open>Es\<close> those of its executions. A connector is behind the network \<open>net\<close> with its state \<open>t\<close>.
\<close>

definition provision_and_cleanup ::
  "'k lib \<Rightarrow> client_lib \<Rightarrow> 't credential_sources \<Rightarrow> environment \<Rightarrow> 't network \<Rightarrow> bytes list \<Rightarrow> 't \<Rightarrow>
     (output_line list case_result \<times> 't) option" where
  "provision_and_cleanup L V S env net arguments t = (case arguments of
       [operation, url, serial] \<Rightarrow>
         if operation = str_bytes ''provision-discovery'' then
           Some (try_in (or_message (connector_new url serial)) t (\<lambda>c.
                 try_in (authentication_key_id env) t (\<lambda>i.
                 try_in (connector_credentials L S env i) t (\<lambda>credentials.
                 try_st (replace_public_discovery_credential L V (connector_exchange net c) credentials t) (\<lambda>_ t.
                 (Ok [Line_Provisioned c], t))))))
         else if operation = str_bytes ''cleanup'' then
           Some (try_in (or_message (connector_new url serial)) t (\<lambda>c.
                 try_in (authentication_key_id env) t (\<lambda>i.
                 try_in (connector_credentials L S env i) t (\<lambda>credentials.
                 try_st (cleanup_qualification_objects L (v_sec1_ok V) (connector_exchange net c) credentials t) (\<lambda>report t.
                 (Ok [Line_Removed (rp_removed report) c (rp_remaining report)], t))))))
         else None
     | _ \<Rightarrow> None)"

definition execute_tool ::
  "'k lib \<Rightarrow> client_lib \<Rightarrow> FirmwareProfile \<Rightarrow> 'k env \<Rightarrow> 'k env list \<Rightarrow> 't credential_sources \<Rightarrow> environment \<Rightarrow> 't network \<Rightarrow>
     bytes list \<Rightarrow> 't \<Rightarrow> output_line list case_result \<times> 't" where
  "execute_tool L V fw E Es S env net arguments t = (case provision_and_cleanup L V S env net arguments t of
       Some m \<Rightarrow> m
     | None \<Rightarrow>
         try_in (select_target (or_message (factory_default L E (config_default fw))) arguments) t (\<lambda>(target, profile). case target of
             Target_Core d \<Rightarrow>
               try_in (select_credentials L (Ok (credentials_from_password L 1 (str_bytes ''password''))) profile) t (\<lambda>credentials.
               (fst (qualify L V (in_process L fw) ''in-process virtual-yubihsm-core'' profile credentials (Es, d)), t))
           | Target_Connector c \<Rightarrow>
               try_in (select_credentials L (and_then (authentication_key_id env) (connector_credentials L S env)) profile) t (\<lambda>credentials.
               qualify L V (connector_exchange net c) (connector_description c) profile credentials t)))"

text \<open>\<^verbatim>\<open>main\<close>: the exit code.\<close>

definition main_exit :: "output_line list case_result \<times> 't \<Rightarrow> bool" where
  "main_exit m = is_ok (fst m)"

section \<open>What a run prints\<close>

lemma run_profile_smoke: "run_profile L V tr target Prof_Smoke credentials st = run_profile L V tr target Prof_Smoke (Some c) st"
  by (simp add: run_profile_def)

lemma select_credentials_some:
  "select_credentials L managed profile = Ok credentials \<Longrightarrow> profile = Prof_Smoke \<or> (\<exists>c. credentials = Some c)"
  by (cases profile) (auto simp: select_credentials_def)

lemma qualify_lines:
  assumes "fst (qualify L V tr description profile credentials t) = Ok lines" "profile = Prof_Smoke \<or> (\<exists>c. credentials = Some c)"
  shows "\<exists>kdf wrapping serial. lines = Line_Qualified description serial # map Line_Pass (profile_cases profile kdf wrapping)
    @ map Line_Unsupported (if profile = Prof_Extensions then unsupported_cases kdf wrapping else [])"
proof -
  obtain c where c: "run_profile L V tr description profile credentials = run_profile L V tr description profile (Some c)"
    using assms(2) run_profile_smoke [of L V tr description credentials] by blast
  obtain r passed t' where run: "run_profile L V tr description profile (Some c) ([], t) = (r, (passed, t'))" by (metis prod.exhaust)
  with assms(1) c obtain report where report: "r = Ok report" "lines = report_lines report"
    by (auto simp: qualify_def run_qualification_def Let_def)
  have description: "rp_target report = description" using run report(1) unfolding run_profile_def by auto
  obtain kdf wrapping where "exact_outcome profile kdf wrapping (Ok report) passed" using profile_exact [OF run] report(1) by blast
  then show ?thesis using report(2) description
    by - (rule exI [of _ kdf], rule exI [of _ wrapping], simp add: exact_outcome_def report_lines_def)
qed

lemma connector_profile: "select_target factory arguments = Ok (Target_Connector c, profile) \<Longrightarrow> profile \<noteq> Prof_Ephemeral"
  by (auto simp: select_target_def parse_profile_def Let_def split: list.splits if_splits)

lemma execute_lines:
  assumes "execute_tool L V fw E Es S env net arguments t = (Ok lines, t')" "provision_and_cleanup L V S env net arguments t = None"
  obtains target profile kdf wrapping description serial where
    "select_target (or_message (factory_default L E (config_default fw))) arguments = Ok (target, profile)"
    "lines = Line_Qualified description serial # map Line_Pass (profile_cases profile kdf wrapping)
      @ map Line_Unsupported (if profile = Prof_Extensions then unsupported_cases kdf wrapping else [])"
    "\<forall>c. target = Target_Connector c \<longrightarrow> profile \<noteq> Prof_Ephemeral"
proof -
  let ?sel = "select_target (or_message (factory_default L E (config_default fw))) arguments"
  obtain target profile where sel: "?sel = Ok (target, profile)"
    using assms by (auto simp: execute_tool_def)
  have safe: "\<forall>c. target = Target_Connector c \<longrightarrow> profile \<noteq> Prof_Ephemeral" using sel connector_profile by blast
  show thesis
  proof (cases target)
    case (Target_Core d)
    with assms sel obtain credentials where "select_credentials L (Ok (credentials_from_password L 1 (str_bytes ''password''))) profile = Ok credentials"
      "fst (qualify L V (in_process L fw) ''in-process virtual-yubihsm-core'' profile credentials (Es, d)) = Ok lines"
      by (auto simp: execute_tool_def)
    with qualify_lines select_credentials_some that [OF sel _ safe] show ?thesis by metis
  next
    case (Target_Connector c)
    with assms sel obtain credentials where "select_credentials L (and_then (authentication_key_id env) (connector_credentials L S env)) profile = Ok credentials"
      "fst (qualify L V (connector_exchange net c) (connector_description c) profile credentials t) = Ok lines"
      by (auto simp: execute_tool_def)
    with qualify_lines select_credentials_some that [OF sel _ safe] show ?thesis by metis
  qed
qed

end
