(* ===== verification/Sample_Runs.thy ===== *)
theory Sample_Runs
  imports Sample_Qualification Asymmetric_Client Qualification_Policy Qualification_Main
begin

text \<open>
  Concrete runs of the qualification tool with an asymmetric credential and of a whole profile, on the sample
  library. What the tool computes itself fits the sample library: keys agree on the device's key.
\<close>

definition sample_client :: client_lib where
  "sample_client =
     \<lparr>v_sec1_ok = (\<lambda>_. True), v_signature_scheme = (\<lambda>_. EcdsaP256Sha256), v_signature_from_der = (\<lambda>_ _. None),
      v_verify_prehash = (\<lambda>_ _ _ _. False), v_verify_message = (\<lambda>_ _ _ _. False), v_verify_rsa_pkcs1_sha256 = (\<lambda>_ _ _. False),
      v_verify_rsa_pss_sha256 = (\<lambda>_ _ _ _. False), v_encrypt_rsa_pkcs1v15 = (\<lambda>_ _. None), v_encrypt_rsa_oaep = (\<lambda>_ _ _ _. None),
      v_certificate_public_key = (\<lambda>_. None), v_p256_secret_ok = (\<lambda>h. length h = 32), v_p256_public = (\<lambda>h. 0x04 # h @ h),
      v_p256_agree = (\<lambda>h point. take 32 (drop 1 point))\<rparr>"

definition sample_platform_key :: platform_key where
  "sample_platform_key peer hash prefix info n = Some (replicate n 0)"

lemma sample_agreement: "agreement_law sample_lib sample_client"
  unfolding agreement_law_def by (auto simp: sample_lib_def sample_client_def)

lemma sample_x963: "x963_law sample_lib"
  unfolding x963_law_def by (simp add: sample_lib_def)

lemma sample_holds_key: "holds_key sample_lib sample_platform_key host_static"
  unfolding holds_key_def by (simp add: sample_lib_def sample_platform_key_def)

section \<open>A device with an asymmetric authentication key\<close>

definition sample_public_record :: "bytes ObjectRecord" where
  "sample_public_record =
     \<lparr>or_info = \<lparr>oi_capabilities = cap_ALL, oi_id = 2, oi_length = 72, oi_domains = u16_MAX, oi_object_type = Ty_AuthenticationKey,
        oi_algorithm = AUTHENTICATION_ALGORITHM_EC_P256, oi_sequence = 0, oi_origin = 2, oi_label = [],
        oi_delegated_capabilities = cap_ALL\<rparr>,
      or_material = Mat_Authentication (Auth_Asymmetric (replicate 64 5))\<rparr>"

definition sample_public_device :: "bytes Device" where
  "sample_public_device = store_record sample_public_record sample_device"

definition sample_public_rights :: SessionAuthorization where
  "sample_public_rights = sample_authorization\<lparr>au_key_id := 2\<rparr>"

lemma sample_public_wf: "device_wf sample_lib sample_public_device"
proof -
  have "info_wf (or_info sample_public_record)" by code_simp
  moreover have "record_validate sample_lib sample_public_record = Ok ()"
    by (simp add: record_validate_def sample_public_record_def expected_info_length_def Let_def)
  ultimately have "record_wf sample_lib sample_public_record"
    by (simp add: record_wf_def sample_public_record_def promote_private_material_def)
  then show ?thesis using sample_device_wf store_record_wf [of sample_lib sample_device sample_public_record]
    by (simp add: sample_public_device_def device_wf_def core_wf_def log_bounded_def)
qed

lemma sample_public_ready:
  "asymmetric_ready sample_lib sample_client sample_public_device 2 sample_platform_key 0 sample_public_rights (sample_env t)"
proof -
  have "bt_get (dv_objects sample_public_device) (ObjectKey Ty_AuthenticationKey 2)
      = Some (sample_public_record\<lparr>or_info := (or_info sample_public_record)\<lparr>oi_sequence := ucast (next_generation sample_device 2)\<rparr>\<rparr>)"
    by (simp add: sample_public_device_def store_record_objects) (simp add: sample_public_record_def info_key_def)
  then have "authentication_key_material sample_public_device 2 = Ok (Auth_Asymmetric (replicate 64 5))"
    "session_authorization sample_public_device 2 = Ok sample_public_rights"
    by (simp_all add: authentication_key_material_def session_authorization_def sample_public_record_def sample_public_rights_def
        sample_authorization_def)
  moreover have "free_session_id (expire_inactive_sessions t sample_public_device) = Ok 0"
    using sample_free [of t] by (simp add: sample_public_device_def free_session_id_def expire_inactive_sessions_def)
  moreover have "dv_static_private sample_public_device = replicate 32 9"
    by (simp add: sample_public_device_def) (simp add: sample_device_def install_factory_authentication_key_def Let_def)
  moreover have "p256_key sample_lib (replicate 32 n) (0x04 # replicate 32 n @ replicate 32 n)" for n
    by (simp add: p256_key_def sample_lib_def)
  moreover have "generate_key (sample_env t) (Kind_Ec P256) = Some (replicate 32 7)" by (simp add: sample_env_def)
  ultimately show ?thesis unfolding asymmetric_ready_def using sample_public_wf sample_holds_key sample_env_now
    by (metis length_replicate)
qed

section \<open>A smoke run\<close>

lemma sample_smoke:
  "\<exists>d'. run_profile sample_lib sample_client (in_process sample_lib sample_fw) ''sample'' Prof_Smoke (Some sample_credentials)
      ([], (map sample_env [1, 2, 3, 4, 5, 6], sample_device))
    = (Ok \<lparr>rp_target = ''sample'', rp_profile = Prof_Smoke, rp_identity = identity_of sample_fw sample_device,
           rp_passed = smoke_cases, rp_unsupported = []\<rparr>, (smoke_cases, ([], d')))"
proof -
  have config: "dv_config sample_device = config_default sample_fw" "dv_static_private sample_device = replicate 32 9"
    by (simp_all add: sample_device_def install_factory_authentication_key_def Let_def)
  have "length (cf_version (config_default sample_fw)) = 3" "length (cf_algorithms (config_default sample_fw)) \<le> 256" by code_simp+
  then obtain d' where "run_smoke (in_process sample_lib sample_fw) ([], (map sample_env [1, 2, 3, 4, 5, 6], sample_device))
      = (Ok (identity_of sample_fw sample_device), (smoke_cases, ([], d')))"
    using smoke_passes [of sample_device sample_lib P256 "0x04 # replicate 32 9 @ replicate 32 9" sample_fw "sample_env 1" "sample_env 2"
        "sample_env 3" "sample_env 4" "sample_env 5" "sample_env 6"] config
    unfolding smoke_cases_def by (auto simp: sample_lib_def)
  then show ?thesis by (simp add: run_profile_def)
qed

section \<open>The option case\<close>

lemma sample_policy_ready: "policy_ready sample_fw sample_device"
proof -
  have "dv_config sample_device = config_default sample_fw" "dv_options sample_device = options_default"
    by (simp_all add: sample_device_def install_factory_authentication_key_def Let_def)
  moreover have "op_force_audit (options_default) = OPTION_OFF"
    "filter (supported_algorithm_byte sample_fw) (cf_algorithms (config_default sample_fw)) \<noteq> []"
    "length (cf_algorithms (config_default sample_fw)) \<le> 256" by code_simp+
  ultimately show ?thesis by (simp add: policy_ready_def)
qed

lemma sample_options:
  "\<exists>d'. in_session sample_lib (\<lambda>_. True) (in_process sample_lib sample_fw) sample_credentials
       (option_scenario sample_lib (in_process sample_lib sample_fw)) (map sample_env [2, 3, 4, 5, 6, 7, 8, 9], sample_device)
     = (Ok (), ([], d')) \<and> same_contents sample_device d'"
proof -
  let ?Es = "map sample_env [4, 5, 6, 7, 8]"
  have t: "timely 2 (sample_env 3 # ?Es @ [sample_env 9])" by (simp add: sample_env_now SESSION_INACTIVITY_TIMEOUT_def)
  have "command_supported sample_fw Cmd_GetOption" "command_supported sample_fw Cmd_CloseSession"
    "cap_contains (au_capabilities sample_authorization) Cap_GetOption" by code_simp+
  from option_scenario_passes [OF sample_cipher_laws sample_scp03 sample_kdf sample_may_qualify [OF t] _ sample_policy_ready this,
      where sec1_ok = "\<lambda>_. True"] show ?thesis by auto
qed

end
