(* ===== verification/Spec2Isabelle.thy ===== *)
theory Spec2Isabelle
  imports Sample_Keys Request_Codecs Bit_Extraction Sample_Runs
begin

unbundle bit_operations_syntax

text \<open>
  Verification of \<^bold>\<open>virtual-yubihsm\<close>, a software hardware-security-module that speaks the YubiHSM 2
  protocol. The core is the crate \<^verbatim>\<open>crates/virtual-yubihsm-core\<close> (below \<^verbatim>\<open>src/\<close>): a transport hands
  it the bytes of one message, the core returns the bytes of the answer and keeps the device
  state; a persistent runtime releases an answer only when the state it depends on is durable. Around
  the core are the USB worker (\<^verbatim>\<open>src/src\<close>), which talks to a supervisor over a control socket, serves
  the bulk endpoints and drives a display and a button; the I2C target (\<^verbatim>\<open>crates/virtual-yubihsm-i2c\<close>);
  and a qualification tool (\<^verbatim>\<open>crates/yubihsm-qualification\<close>) with a client of its own.

  \<^bold>\<open>Reading the model.\<close> Every Rust function is one definition that keeps its name where HOL allows it;
  \<^verbatim>\<open>&mut self\<close> is state passing, \<^verbatim>\<open>Result\<close> is the type \<^verbatim>\<open>('a, 'e) result\<close> of \<^verbatim>\<open>Prelude\<close> with four
  outcomes (\<open>Ok\<close>, \<open>Err\<close>, \<open>Panic\<close>, \<open>Diverge\<close>), the question mark is \<open>and_then\<close> or, with state,
  \<open>try_in\<close>. Machine integers are words of their width. \<^verbatim>\<open>BTreeMap\<close> is a sorted association list
  (\<^verbatim>\<open>Btree\<close>, behind the locale \<open>ordered_map\<close>). The time of a message is read once and is a natural
  number of seconds. Code that is not in the repository is a parameter: the cryptographic and encoding
  library (record \<open>'k lib\<close> in \<^verbatim>\<open>Key_Library\<close>, its private keys the type \<open>'k\<close>), the environment of one
  execution (record \<open>'k env\<close>: clock, random draws, randomised signatures and key generation), the
  firmware profile (cargo features), the transport's hook, the codec of the state image and the
  background writer. Loops over random draws are \<open>draw_until\<close> (\<^verbatim>\<open>Sampling\<close>), a partial function into
  \<open>option\<close>, so not returning is a value; no other loop needs fuel.

  \<^bold>\<open>The theories\<close>, in the order of the code:

  \<^item> \<^verbatim>\<open>Prelude\<close>, \<^verbatim>\<open>Btree\<close>, \<^verbatim>\<open>Sampling\<close>: results, big-endian bytes, ordered maps, rejection sampling.
  \<^item> \<^verbatim>\<open>Wire\<close> (\<^verbatim>\<open>error.rs\<close>, \<^verbatim>\<open>frame.rs\<close>, \<^verbatim>\<open>wire.rs\<close>), \<^verbatim>\<open>Firmware\<close>, \<^verbatim>\<open>Capability\<close>, \<^verbatim>\<open>Commands\<close>, \<^verbatim>\<open>Protocol\<close>,
    \<^verbatim>\<open>Algorithms\<close> (\<^verbatim>\<open>firmware.rs\<close>, \<^verbatim>\<open>capability.rs\<close>, \<^verbatim>\<open>protocol.rs\<close>, \<^verbatim>\<open>algorithm.rs\<close>): frames, readers,
    code tables, capability sets and what they mean as sets of bits.
  \<^item> \<^verbatim>\<open>Objects\<close>, \<^verbatim>\<open>Authorization\<close>, \<^verbatim>\<open>Requests\<close>, \<^verbatim>\<open>Request_Codecs\<close> (\<^verbatim>\<open>object.rs\<close>, \<^verbatim>\<open>authorization.rs\<close>,
    \<^verbatim>\<open>request.rs\<close>): object records and their validation, the policy checks, one decoder per request;
    the decoders never panic and accept exactly the encodings.
  \<^item> \<^verbatim>\<open>Session_Objects\<close>, \<^verbatim>\<open>Secure_Channel\<close> (\<^verbatim>\<open>session_object.rs\<close>, \<^verbatim>\<open>session.rs\<close>,
    \<^verbatim>\<open>secure_channel_crypto.rs\<close>): volatile objects of a session, handshakes, tags, encryption, counter.
  \<^item> \<^verbatim>\<open>Device_State\<close>, \<^verbatim>\<open>Options\<close>, \<^verbatim>\<open>Audit_Log\<close>, \<^verbatim>\<open>Key_Material\<close>, \<^verbatim>\<open>Create\<close>, \<^verbatim>\<open>Use\<close>, \<^verbatim>\<open>Session_Commands\<close>,
    \<^verbatim>\<open>Wrapping\<close>, \<^verbatim>\<open>Attestation\<close>, \<^verbatim>\<open>Dispatch\<close>, \<^verbatim>\<open>Engine\<close> (\<^verbatim>\<open>device.rs\<close>): the device, its command handlers,
    the dispatcher with its authorization and auditing, and the engine from encoded bytes to
    encoded bytes.
  \<^item> \<^verbatim>\<open>Persistence\<close> (\<^verbatim>\<open>device.rs\<close>, \<^verbatim>\<open>persistent_runtime.rs\<close>): state image, restore with migration of older
    images, and the runtime that waits for durability.

  \<^item> \<^verbatim>\<open>Persistent_Runtime\<close> (\<^verbatim>\<open>persistent_runtime.rs\<close>): opening and closing a durable device, its file names.
  \<^item> \<^verbatim>\<open>Host_Io\<close>: operating-system errors, text and rules for programs with state, shared by the host
    programs. \<^verbatim>\<open>Worker_Protocol\<close>, \<^verbatim>\<open>Usb_Identity\<close>, \<^verbatim>\<open>Buttons\<close>, \<^verbatim>\<open>Display_Status\<close> (\<^verbatim>\<open>worker_protocol.rs\<close>,
    \<^verbatim>\<open>usb_identity.rs\<close>, \<^verbatim>\<open>buttons.rs\<close>, \<^verbatim>\<open>display.rs\<close>): records on the control socket, USB descriptors, the
    button thread and the display thread.
  \<^item> \<^verbatim>\<open>Usb_Control\<close>, \<^verbatim>\<open>Usb_Worker\<close>, \<^verbatim>\<open>Usb_Endpoint\<close> (\<^verbatim>\<open>functionfs.rs\<close>): the control loop with ejection and
    reinsertion, the worker from startup to shutdown, the endpoint and response threads.
  \<^item> \<^verbatim>\<open>Arguments\<close> (the two \<^verbatim>\<open>main.rs\<close>), \<^verbatim>\<open>I2c_Target\<close> (\<^verbatim>\<open>linux.rs\<close>, \<^verbatim>\<open>recovery.rs\<close>): command lines, and the
    target's startup checks, serving loop and transport recovery.
  \<^item> \<^verbatim>\<open>Client_Session\<close>, \<^verbatim>\<open>Connector_Http\<close> (\<^verbatim>\<open>yubihsm-qualification/src/lib.rs\<close>): the client of the
    qualification tool, an independent implementation of the host's end of the secure channel, and its
    transport over HTTP.
  \<^item> \<^verbatim>\<open>Client_Requests\<close>, \<^verbatim>\<open>Qualification\<close>, \<^verbatim>\<open>Qualification_Managed\<close>, \<^verbatim>\<open>Qualification_Keys\<close>,
    \<^verbatim>\<open>Qualification_Run\<close>, \<^verbatim>\<open>Qualification_Cleanup\<close> (the same file): the requests the tool builds, the smoke
    profile, credentials and the basic cases on a session, the cases per kind of key, the cases on policy
    and audit with \<^verbatim>\<open>run\<close> itself, the clean-up. \<^verbatim>\<open>Client_Runs\<close> and \<^verbatim>\<open>Qualification_Objects\<close> show what one
    command of the client does to client and device, and compose these steps along scripts.
    \<^verbatim>\<open>Qualification_Policy\<close> shows that the cases that only read, the matrix of malformed commands and the
    option case, pass on every well-formed device.
    \<^verbatim>\<open>Qualification_Safety\<close> has the interface of a transport as the locale \<open>steady_transport\<close>: what one
    exchange keeps, every script, case and profile keeps; and it shows that reports are exact.
  \<^item> \<^verbatim>\<open>Qualification_Credentials\<close> (\<^verbatim>\<open>credentials.rs\<close>), \<^verbatim>\<open>Qualification_Main\<close> (\<^verbatim>\<open>main.rs\<close>): passwords, platform
    keys and smart cards as credentials, the choice of the reader, chained commands to a card, the command
    line of the tool. \<^verbatim>\<open>Asymmetric_Client\<close> runs the tool's asymmetric authentication against the device.

  In the host programs every result of a system call (poll, read, write, recvmsg, ioctl), of another
  thread and of a third-party crate is an input of the definition, so the theorems hold for any
  behaviour of the environment. A loop that waits is a function of the list of what its turns find; the
  end of the list is a distinct result, so nothing is claimed about a program that still waits.

  \<^bold>\<open>The specification and what is shown.\<close> \<^verbatim>\<open>Effects\<close> says what one authorized command may do to a
  device (\<open>store_effect\<close>); \<^verbatim>\<open>Refinement\<close> shows that each handler commits such an effect or fails
  without any change; \<^verbatim>\<open>Messages\<close> lifts it to whole messages (\<open>message_effect\<close>). \<^verbatim>\<open>Invariants\<close> has the
  device invariant and the reachable devices, \<^verbatim>\<open>Guarantees\<close> what a message may do to objects, options,
  generations, log and sessions. \<^verbatim>\<open>Channel_Protocol\<close> writes the host's end of the channel and
  \<^verbatim>\<open>Conversation\<close> runs host and device against each other. \<^verbatim>\<open>Policies\<close>, \<^verbatim>\<open>Wrapped_Objects\<close>, \<^verbatim>\<open>Checksum\<close> and
  \<^verbatim>\<open>Bit_Extraction\<close> compare handlers with reference definitions: the policy table, the wrapped form,
  the token checksum, cyclic bit extraction. \<^verbatim>\<open>Sample_Library\<close>, \<^verbatim>\<open>Sample_Device\<close>, \<^verbatim>\<open>Sample_Laws\<close> and
  \<^verbatim>\<open>Sample_Keys\<close> hold a small concrete library and device on which every hypothesis of the properties
  is shown to be satisfiable. The properties of the whole are below.

  Of the host programs it is shown: the client opens sessions, with a password or with an asymmetric key,
  and stays in step with the device; a whole run of the tool keeps the device's invariant and reports
  exactly the cases of its profile; a profile that changes audit options never meets a connector
  (\<open>execute_lines\<close>); a smart card receives a long command in the right pieces (\<open>pcsc_exchange_sends\<close>), and a
  credential is used only when exactly one reader offers it (\<open>hsmauth_begin_unique\<close>);
  cases of the qualification tool pass on every device that meets their preconditions and leave its
  objects as they were; the device reads every request of the tool as it was meant; over a connector
  that serves the device the tool sees the device itself; the worker's records are a path of the
  protocol automaton \<open>phase_step\<close>; what the USB host reads from the packets are the device's answers in
  order (\<open>device_run\<close>, \<open>host_reads\<close>); a disconnect ends all sessions;
  the button's level reaches the control loop under every interleaving (\<open>button_step\<close>, with a weight
  that every step decreases); the display's indicator follows the bus; the I2C target answers in
  order. \<^verbatim>\<open>Sample_Host\<close>, \<^verbatim>\<open>Sample_Qualification\<close> and \<^verbatim>\<open>Sample_Runs\<close> run the programs on concrete inputs.

  \<^bold>\<open>Hypotheses.\<close> \<open>password_kdf_ok\<close>, \<open>cipher_laws\<close>, \<open>scp03_law\<close>, \<open>cbor_law\<close>, \<open>ccm_law\<close>, \<open>nonce_law\<close>,
  \<open>key_storage_laws\<close>, \<open>state_codec_law\<close>, \<open>agreement_law\<close>, \<open>x963_law\<close> and \<open>holds_key\<close> state documented behaviour
  of the libraries: lengths of tags and keys, decryption inverting encryption, reading inverting writing,
  both ends of a key agreement computing the same secret. Nothing is assumed about secrecy or
  unforgeability.

  \<^bold>\<open>Not modelled.\<close> Zeroisation of secrets; the constant-time comparison (its result is equality); the
  texts of logs and error messages; signal handlers (their flag is an input); the drivers of panel and
  indicator, the background writer, PC/SC, the platform's credential store and the YubiHSM Auth client,
  which are other crates. The crate root has only declarations.
\<close>

section \<open>Messages\<close>

text \<open>
  C1. Every device that can be reached from the factory state by protocol messages, trusted
  provisioning, persistence commits and disconnects satisfies the device invariant: the
  object store and its generation history, the options, the bounded audit log and the
  session table are well formed.
\<close>

theorem reachable_invariant:
  assumes "reachable L fw d" "password_kdf_ok L"
  shows "device_wf L d"
  using assms by (rule reachable_wf)

theorem reachable_invariant_witness: "device_wf sample_lib sample_device"
  using reachable_invariant [OF sample_reachable sample_kdf] .

text \<open>
  C2. Whatever bytes arrive, one message does at most one thing to the durable state of a
  well-formed device: nothing beyond bookkeeping, or one effect that the abstract
  specification allows to one of its authenticated sessions.
\<close>

theorem message_refines_specification:
  assumes "device_wf L d"
  shows "message_effect L d (snd (handle_encoded_with L E fw hk encoded d))"
  using assms by (rule handle_encoded_effect)

theorem message_refines_specification_witness:
  "message_effect sample_lib sample_open_device
     (snd (handle_encoded_with sample_lib (sample_env 2) sample_fw no_hook [5, 0, 1, 0] sample_open_device))"
  using message_refines_specification [OF sample_open_device_wf] .

text \<open>
  C3. An object changes only as the policy of an authenticated session allows: it is created
  within the session's delegated capabilities and domains, deleted with the deletion
  capability of its type, replaced without any change of its policy, or wiped by a reset.
\<close>

theorem object_changes_authorized:
  assumes "device_wf L d" "d' = snd (handle_encoded_with L E fw hk encoded d)"
  shows "bt_get (dv_objects d') k = bt_get (dv_objects d) k
    \<or> (\<exists>au. acting d au \<and> object_change L au (dv_objects d) (dv_objects d') k)"
  using message_change [OF assms(1) handle_encoded_effect [OF assms(1)]] assms(2) by blast

theorem object_changes_authorized_witness:
  "let d' = snd (handle_encoded_with sample_lib (sample_env 2) sample_fw no_hook [5, 0, 1, 0] sample_open_device) in
   bt_get (dv_objects d') (ObjectKey Ty_AuthenticationKey 1)
       = bt_get (dv_objects sample_open_device) (ObjectKey Ty_AuthenticationKey 1)
   \<or> (\<exists>au. acting sample_open_device au
        \<and> object_change sample_lib au (dv_objects sample_open_device) (dv_objects d') (ObjectKey Ty_AuthenticationKey 1))"
  using object_changes_authorized [OF sample_open_device_wf refl] unfolding Let_def .

text \<open>
  C4. A command that fails, panics or does not return leaves the device and the objects of its
  session exactly as they were.
\<close>

theorem failed_command_atomic:
  assumes "store_wf L d" "session_table_wf L objs"
    "execute_inner_result L E fw au request (d, objs) = (r, s')" "\<not> is_ok r"
  shows "s' = (d, objs)"
  using execute_inner_result_fails [of L "(d, objs)"] assms by simp

theorem failed_command_atomic_witness:
  "execute_inner_result sample_lib (sample_env 2) sample_fw sample_authorization
     \<lparr>fr_command = 0, fr_data = []\<rparr> (sample_device, None) = (Err InvalidCommand, (sample_device, None))"
proof -
  let ?m = "execute_inner_result sample_lib (sample_env 2) sample_fw sample_authorization
      \<lparr>fr_command = 0, fr_data = []\<rparr> (sample_device, None)"
  have "command_from_byte 0 = None" by code_simp
  then have "fst ?m = Err InvalidCommand"
    by (simp add: execute_inner_result_def execute_plain_or_authenticated_def)
  then have run: "?m = (Err InvalidCommand, snd ?m)" by (metis prod.collapse)
  have "store_wf sample_lib sample_device" using sample_device_wf by (simp add: device_wf_def core_wf_def)
  moreover have "session_table_wf sample_lib None" by (simp add: session_table_wf_def)
  ultimately have "snd ?m = (sample_device, None)" by (rule failed_command_atomic [OF _ _ run]) simp
  with run show ?thesis by simp
qed

text \<open>
  C5. Options that are fixed stay fixed and the generation number of every identifier stays or
  grows by one, over any message, unless a session with the reset capability resets the
  device to its factory state.
\<close>

theorem policy_state_kept:
  assumes "device_wf L d" "d' = snd (handle_encoded_with L E fw hk encoded d)"
  shows "keeps_policy_state L d d' \<or> was_reset L d d'"
  unfolding assms(2) by (rule message_policy_state [OF assms(1) handle_encoded_effect [OF assms(1)]])

theorem policy_state_kept_witness:
  "let d' = snd (handle_encoded_with sample_lib (sample_env 2) sample_fw no_hook [5, 0, 1, 0] sample_open_device) in
   keeps_policy_state sample_lib sample_open_device d' \<or> was_reset sample_lib sample_open_device d'"
  using policy_state_kept [OF sample_open_device_wf refl] unfolding Let_def .

text \<open>
  C6. A command whose capability the session lacks is refused before anything else sees it: the
  host receives InsufficientPermissions, and nothing but the session table of the device
  changes, whatever the transport's hook would have done.
\<close>

theorem missing_capability_refused:
  assumes "command_from_byte (fr_command inner) = Some c" "required_session_capability c = Some r"
    "\<not> cap_contains (au_capabilities (se_authorization entry)) r"
  shows "\<exists>ss. snd (process_message L E fw hk sid entry inner d) = d\<lparr>dv_sessions := ss\<rparr>
    \<and> fst (process_message L E fw hk sid entry inner d)
        = fst (encrypt_response L (se_secure entry) (frame_error InsufficientPermissions))"
  using assms by (rule process_message_refused)

theorem missing_capability_refused_witness:
  "\<exists>ss. snd (process_message sample_lib (sample_env 2) sample_fw no_hook 0
      (sample_session\<lparr>se_authorization := sample_authorization\<lparr>au_capabilities := cap_NONE\<rparr>\<rparr>)
      \<lparr>fr_command = command_code Cmd_ResetDevice, fr_data = []\<rparr> sample_device) = sample_device\<lparr>dv_sessions := ss\<rparr>
    \<and> fst (process_message sample_lib (sample_env 2) sample_fw no_hook 0
      (sample_session\<lparr>se_authorization := sample_authorization\<lparr>au_capabilities := cap_NONE\<rparr>\<rparr>)
      \<lparr>fr_command = command_code Cmd_ResetDevice, fr_data = []\<rparr> sample_device)
        = fst (encrypt_response sample_lib (se_secure (sample_session
            \<lparr>se_authorization := sample_authorization\<lparr>au_capabilities := cap_NONE\<rparr>\<rparr>)) (frame_error InsufficientPermissions))"
  by (rule missing_capability_refused [of _ Cmd_ResetDevice Cap_ResetDevice])
    (simp_all only: Frame.select_convs command_from_code, simp_all add: required_session_capability_def cap_contains_bits)

section \<open>Auditing\<close>



text \<open>
  C8. The digests of the audit log form one unbroken chain that ends in the digest the device
  continues from, and every message keeps it so; the entries that SetLogIndex acknowledges
  are dropped from its front as long as the entries are numbered upwards.
\<close>

theorem audit_chain_kept:
  assumes "device_wf L d" "log_wf L (dv_audit d)" "log_numbered (dv_audit d)"
  shows "log_wf L (dv_audit (snd (handle_encoded_with L E fw hk encoded d)))"
  using message_log [OF handle_encoded_effect [OF assms(1)] assms(2,3)] .

theorem audit_chain_kept_witness:
  "log_wf sample_lib (dv_audit (snd (handle_encoded_with sample_lib (sample_env 2) sample_fw no_hook
     [5, 0, 1, 0] sample_open_device)))"
  by (rule audit_chain_kept [OF sample_open_device_wf])
    (simp_all add: sample_open_device_def sample_audit log_wf_def log_numbered_def audit_initial_def)


section \<open>Sessions\<close>



text \<open>
  C11. A session message that fails closes the session it names, whatever the reason.
\<close>

theorem failed_message_closes_session:
  assumes "device_wf L d" "decode_request decode_session_envelope (fr_data request) = Ok (sid, rest)"
    "\<not> is_ok (fst (session_message_with L E fw hk request d))"
  shows "bt_get (dv_sessions (snd (session_message_with L E fw hk request d))) sid = None"
  using assms by (rule session_message_closes)

theorem failed_message_closes_session_witness:
  "bt_get (dv_sessions (snd (session_message_with sample_lib (sample_env 2) sample_fw no_hook
     \<lparr>fr_command = 5, fr_data = [0]\<rparr> sample_open_device))) 0 = None"
proof (rule failed_message_closes_session [OF sample_open_device_wf])
  show env: "decode_request decode_session_envelope (fr_data \<lparr>fr_command = 5, fr_data = [0]\<rparr>) = Ok (0, [])"
    by (simp add: session_envelope del: decode_request_Ok)
  then show "\<not> is_ok (fst (session_message_with sample_lib (sample_env 2) sample_fw no_hook
      \<lparr>fr_command = 5, fr_data = [0]\<rparr> sample_open_device))"
    by (simp add: session_message_with_def sample_open_device_def sample_session_def decrypt_request_def
        verify_request_mac_def MAC_LENGTH_def del: decode_request_Ok)
qed



section \<open>Durable state\<close>



text \<open>
  C14. Restoring trusts nothing it can check: a device restored from any image has the running
  configuration, no sessions, a log within its capacity, valid option values and identifiers,
  and only valid objects, each under its own key with its private key in typed form; the image
  was read to its end and belongs to the same serial number.
\<close>

theorem restored_device_checked:
  assumes "from_persistent_state L R config encoded = Ok d"
  shows "restored_ok L config d
    \<and> (\<exists>state. R encoded = Some (state, length encoded) \<and> cf_serial (ps_config state) = cf_serial config)"
  using from_persistent_state_Ok [OF assms] by blast

theorem restored_device_checked_witness:
  "restored_ok sample_lib (dv_config sample_device) (power_cycled (dv_config sample_device) sample_device)
    \<and> (\<exists>state. sample_reader (be64 0) = Some (state, length (be64 0))
         \<and> cf_serial (ps_config state) = cf_serial (dv_config sample_device))"
  by (rule restored_device_checked [OF sample_image_restores])

text \<open>
  C15. A response of a persistent device is released only when its message changed nothing
  durable, or when the background writer has acknowledged the new state under the next epoch.
\<close>

theorem response_implies_durable:
  assumes "device_wf L d" "\<not> dv_persistent_change d"
    "persistent_execute L E fw w encoded d = (Ok response, d')"
  shows "\<not> dv_persistent_change d' \<and> (same_durable d d' \<or> acknowledged w d d')"
  using assms by (rule persistent_execute_released)

theorem response_implies_durable_witness:
  "let w = \<lparr>wr_healthy = True, wr_record = (\<lambda>_. None), wr_wait = (\<lambda>_. False), wr_healthy_after = True\<rparr>;
       d' = expire_inactive_sessions 2 sample_device in
   persistent_execute sample_lib (sample_env 2) sample_fw w (frame_encode sample_echo) sample_device
     = (Ok (frame_encode (frame_response (command_code Cmd_Echo) [7])), d')
   \<and> \<not> dv_persistent_change d' \<and> (same_durable sample_device d' \<or> acknowledged w sample_device d')"
  unfolding Let_def
  by (rule conjI [OF sample_echo_persistent response_implies_durable [OF sample_device_wf sample_unflagged
        sample_echo_persistent]])

section \<open>The secure channel\<close>

text \<open>
  C16. The device accepts a request only when its last eight bytes are those of the tag over the
  chaining value, the command, the length and everything before them; that tag becomes the next
  chaining value, so each accepted request authenticates the whole conversation before it.
\<close>

theorem request_acceptance:
  assumes "decrypt_request L s q = (Ok inner, s')"
  shows "\<exists>n tag. length (fr_data q) = n + MAC_LENGTH
    \<and> cmac L (ss_mac s) (ss_mac_chaining_value s @ fr_command q # be16 (of_nat (n + MAC_LENGTH))
         @ take n (fr_data q)) = Ok tag
    \<and> take MAC_LENGTH tag = drop n (fr_data q) \<and> s' = s\<lparr>ss_mac_chaining_value := tag\<rparr>"
  using assms by (rule decrypt_request_accepts)

theorem request_acceptance_witness:
  "\<exists>q s'. decrypt_request sample_lib sample_secure q = (Ok sample_echo, s')
    \<and> (\<exists>n tag. length (fr_data q) = n + MAC_LENGTH
    \<and> cmac sample_lib (ss_mac sample_secure) (ss_mac_chaining_value sample_secure @ fr_command q
         # be16 (of_nat (n + MAC_LENGTH)) @ take n (fr_data q)) = Ok tag
    \<and> take MAC_LENGTH tag = drop n (fr_data q) \<and> s' = sample_secure\<lparr>ss_mac_chaining_value := tag\<rparr>)"
proof -
  obtain q s' where "decrypt_request sample_lib sample_secure q = (Ok sample_echo, s')"
    using request_round_trip [OF sample_cipher_laws sample_keys, of sample_echo]
    by (auto simp: sample_echo_def frame_wf_def frame_consts)
  with request_acceptance [OF this] show ?thesis by blast
qed



section \<open>Host programs\<close>



text \<open>
  C19. A case of the qualification tool, from its credentials to its verdict: on a device that holds the
  operator's key and grants it the rights of the case, the case opens a session, picks an identifier that
  is free, puts an opaque object there, reads it back, finds its description and finds it listed, deletes
  it, finds it gone and closes the session. It reports success and leaves the objects as they were.
\<close>

theorem qualification_case_passes:
  assumes "cipher_laws L" "scp03_law L" "password_kdf_ok L"
    "may_qualify L d credentials sid au E1 [E2, E3, E4, E5, E6, E7, E8, E9, E10]" "opaque_case_ready fw au d i"
  shows "\<exists>d'. case_opaque_lifecycle L sec1_ok (in_process L fw) credentials ([E1, E2, E3, E4, E5, E6, E7, E8, E9, E10], d)
      = (Ok (), ([], d')) \<and> device_wf L d' \<and> dv_objects d' = dv_objects d \<and> bt_get (dv_sessions d') sid = None"
  using assms by (rule opaque_lifecycle_passes)

theorem qualification_case_passes_witness:
  "\<exists>d'. case_opaque_lifecycle sample_lib (\<lambda>_. True) (in_process sample_lib sample_fw) sample_credentials
       (map sample_env [2, 3, 4, 5, 6, 7, 8, 9, 10, 11], sample_device) = (Ok (), ([], d'))
     \<and> device_wf sample_lib d' \<and> dv_objects d' = dv_objects sample_device \<and> bt_get (dv_sessions d') 0 = None"
  using qualification_case_passes [OF sample_cipher_laws sample_scp03 sample_kdf sample_may_qualify sample_opaque_ready,
      of "sample_env 3" "sample_env 4" "sample_env 5" "sample_env 6" "sample_env 7" "sample_env 8" "sample_env 9"
         "sample_env 10" "sample_env 11" "\<lambda>_. True"]
  by (simp add: sample_env_now SESSION_INACTIVITY_TIMEOUT_def)

text \<open>
  C20. The clean-up after an interrupted run removes exactly the objects it may see whose label starts
  with the reserved prefix, and nothing else. It visits every listed object and ends; the numbers it
  reports are the number of objects it removed and the number of visible objects it left.
\<close>

theorem cleanup_removes_leftovers:
  assumes "cipher_laws L" "scp03_law L" "password_kdf_ok L" "may_qualify L d administrator sid au E1 (E2 # Es)"
    "list_all (command_supported fw) [Cmd_ListObjects, Cmd_GetObjectInfo, Cmd_DeleteObject, Cmd_CloseSession]"
    "length (dv_objects d) \<le> 2043" "2 * card (visible_objects au d) + 2 \<le> length Es"
    "\<forall>x\<in>visible_objects au d. is_leftover d x \<longrightarrow> cap_contains (au_capabilities au) (deletion_capability (snd x))"
  shows "\<exists>Es' d'. cleanup_qualification_objects L sec1_ok (in_process L fw) administrator (E1 # E2 # Es, d)
      = (Ok \<lparr>rp_removed = card {x \<in> visible_objects au d. is_leftover d x},
             rp_remaining = card {x \<in> visible_objects au d. \<not> is_leftover d x}\<rparr>, (Es', d'))
    \<and> dv_objects d' = bt_retain (\<lambda>_ r. \<not> (leftover r \<and> can_see au (or_info r))) (dv_objects d)
    \<and> device_wf L d' \<and> bt_get (dv_sessions d') sid = None"
  using assms by (rule cleanup_exact)

theorem cleanup_removes_leftovers_witness:
  "\<exists>Es' d'. cleanup_qualification_objects sample_lib (\<lambda>_. True) (in_process sample_lib sample_fw) sample_credentials
       (sample_env 2 # sample_env 3 # map sample_env [4, 5, 6, 7, 8, 9], sample_used_device)
       = (Ok \<lparr>rp_removed = 1, rp_remaining = 1\<rparr>, (Es', d'))
     \<and> device_wf sample_lib d' \<and> bt_get (dv_sessions d') 0 = None"
proof -
  have "{x \<in> {(0x7e00, Ty_Opaque), (1, Ty_AuthenticationKey)}. is_leftover sample_used_device x} = {(0x7e00, Ty_Opaque)}"
    "{x \<in> {(0x7e00, Ty_Opaque), (1, Ty_AuthenticationKey)}. \<not> is_leftover sample_used_device x} = {(1, Ty_AuthenticationKey)}"
    using sample_used_visible(2,3) by auto
  moreover have "list_all (command_supported sample_fw) [Cmd_ListObjects, Cmd_GetObjectInfo, Cmd_DeleteObject, Cmd_CloseSession]"
    "cap_contains (au_capabilities sample_authorization) (deletion_capability Ty_Opaque)" by code_simp+
  moreover have "timely 2 (sample_env 3 # map sample_env [4, 5, 6, 7, 8, 9])"
    by (simp add: sample_env_now SESSION_INACTIVITY_TIMEOUT_def)
  ultimately show ?thesis
    using cleanup_removes_leftovers [OF sample_cipher_laws sample_scp03 sample_kdf sample_used_may_qualify,
        of "sample_env 3" "map sample_env [4, 5, 6, 7, 8, 9]" sample_fw "\<lambda>_. True"]
      sample_used_visible sample_used_length by simp blast
qed

text \<open>
  C21. A run of the qualification tool against a device, with any profile and credentials and however it
  ends, keeps the invariant of the device and uses the environments in their order. The outcome is exact:
  a report lists the cases of the profile in their order, those the device does not support apart; a
  failure names the case that follows the last one that passed.
\<close>

theorem qualification_run_sound:
  assumes "device_wf L d" "password_kdf_ok L"
    "run_profile L V (in_process L fw) target profile (Some credentials) ([], (Es, d)) = (r, (passed, (Es', d')))"
  shows "device_wf L d' \<and> (\<exists>Fs. Es = Fs @ Es') \<and> (\<exists>kdf wrapping. exact_outcome profile kdf wrapping r passed)"
  using device.profile_keeps [of L "([], (Es, d))" L V fw target profile "Some credentials"]
    clock.profile_keeps [of Es "([], (Es, d))" L V L fw target profile "Some credentials"] profile_exact [OF assms(3)] assms
  by (simp add: kept_def sound_device_def remaining_environments_def)

theorem qualification_run_sound_witness:
  "\<exists>report d'. run_profile sample_lib sample_client (in_process sample_lib sample_fw) ''sample'' Prof_Smoke (Some sample_credentials)
      ([], (map sample_env [1, 2, 3, 4, 5, 6], sample_device)) = (Ok report, (smoke_cases, ([], d')))
    \<and> device_wf sample_lib d' \<and> (\<exists>kdf wrapping. exact_outcome Prof_Smoke kdf wrapping (Ok report) smoke_cases)"
proof -
  obtain report d' where run: "run_profile sample_lib sample_client (in_process sample_lib sample_fw) ''sample'' Prof_Smoke
      (Some sample_credentials) ([], (map sample_env [1, 2, 3, 4, 5, 6], sample_device)) = (Ok report, (smoke_cases, ([], d')))"
    using sample_smoke by blast
  from qualification_run_sound [OF sample_device_wf sample_kdf run] run show ?thesis by blast
qed





text \<open>
  C23. The USB worker follows its protocol with the supervisor. Whatever the supervisor, the buttons
  and the devices do, the records it sends are a path of the protocol automaton: it announces one
  configuration with a fresh number, serves only generations it was given endpoints for, ejects
  before it reinserts, and is silent after it quiesced.
\<close>

theorem worker_follows_protocol:
  assumes "run_worker serial su gs = (r, Some w)" "\<And>p. su_to_cbor su p \<noteq> Ok []"
  shows "phase_run Ph_Start (wk_sent w) \<noteq> None"
  using run_worker_follows [OF assms] by (simp add: follows_def)

theorem worker_follows_protocol_witness:
  "run_worker 42 sample_startup [sample_generation] = (Ok (Some ()), Some sample_worker)
    \<and> map rec_kind (wk_sent sample_worker) = [Configure, Serving, UsbControlResponse, Quiesced]
    \<and> phase_run Ph_Start (wk_sent sample_worker) \<noteq> None"
  using worker_follows_protocol [OF sample_worker_run] sample_worker_run
  by (simp add: sample_startup_def) (simp add: sample_worker_def record_new_def)

text \<open>
  C26. When the USB host goes away or comes back (bind, unbind, disable), the turn of the worker that
  handles the event leaves the device without any session and otherwise as it was.
\<close>

theorem disconnect_ends_sessions:
  assumes "control_turn g t pending w = (Ok (None, pending'), w')"
    "ct_poll t = Inr ready" "0 < ready" "and (ct_control_events t) POLLIN \<noteq> 0"
    "receive (ct_received t) = Ok r" "rec_kind r = UsbBusEvent" "rec_request_id r = 0"
    "ct_decode t (rec_body r) = Ok (event, activation)" "event \<in> {Bus_Bind, Bus_Unbind, Bus_Disable}"
  shows "wk_device w' = clear_sessions (ct_run t (wk_device w))"
  using assms by (rule control_turn_drops)

theorem disconnect_ends_sessions_witness:
  "let t = (sample_turn (record_new UsbBusEvent 1 0 [3]))\<lparr>ct_decode := \<lambda>_. Ok (Bus_Disable, 0)\<rparr>;
       w = worker_start sample_open_device; m = control_turn 1 t False w in
   fst m = Ok (None, False) \<and> wk_device (snd m) = clear_sessions sample_open_device"
proof -
  let ?t = "(sample_turn (record_new UsbBusEvent 1 0 [3]))\<lparr>ct_decode := \<lambda>_. Ok (Bus_Disable, 0)\<rparr>"
  let ?w = "worker_start sample_open_device"
  have r: "receive (ct_received ?t) = Ok (record_new UsbBusEvent 1 0 [3])"
    by (simp add: sample_turn_def sample_receive sample_new MAX_BODY_LENGTH_def)
  obtain w' where run: "control_turn 1 ?t False ?w = (Ok (None, False), w')"
    using r by (auto simp: control_turn_def control_input_def control_record_def bus_event_def drop_sessions_def
        button_input_def sample_turn_def record_new_def POLLIN_def Let_def)
  have "wk_device w' = clear_sessions (ct_run ?t (wk_device ?w))"
    by (rule disconnect_ends_sessions [OF run _ _ _ r, where ready = 1 and event = Bus_Disable and activation = 0])
      (simp_all add: sample_turn_def record_new_def POLLIN_def)
  with run show ?thesis by (simp add: Let_def sample_turn_def worker_start_def)
qed

text \<open>
  C29. A packet is received as a record if and only if it is the encoding of that record: header,
  version, kind, declared length and number of descriptors all agree, and nothing is truncated or
  left over.
\<close>

theorem worker_record_exact:
  "receive m = Ok r \<longleftrightarrow> delivers m r"
  by (rule receive_exact)



text \<open>
  C28. While the display thread runs, the indicator is on exactly while a personality is present on a
  bound, unsuspended bus; an identification is running exactly while it has a deadline, and only
  then; the panel is open only while a personality is present.
\<close>

theorem display_shows_status:
  assumes "display_loop waits (display_start kind) = (Ok None, s)"
  shows "display_inv s"
  using assms display_start_inv by (rule display_loop_inv)

theorem display_shows_status_witness:
  "let e = \<lparr>de_now = 5, de_indicator = Ok (), de_attention = Ok (), de_lock = Ok (),
            de_panel = \<lparr>pr_open = True, pr_write = True, pr_shutdown = True\<rparr>\<rparr>;
       m = display_loop [(e, Received Dc_PersonalityPresent), (e, Received Dc_Bind), (e, Received (Dc_Identify 3))]
         (display_start Sh1106Spi) in
   fst m = Ok None \<and> ds_indicator (snd m) \<and> ds_identify_until (snd m) = Some 3000000005 \<and> display_inv (snd m)"
proof -
  let ?e = "\<lparr>de_now = 5, de_indicator = Ok (), de_attention = Ok (), de_lock = Ok (),
      de_panel = \<lparr>pr_open = True, pr_write = True, pr_shutdown = True\<rparr>\<rparr>"
  let ?m = "display_loop [(?e, Received Dc_PersonalityPresent), (?e, Received Dc_Bind), (?e, Received (Dc_Identify 3))]
      (display_start Sh1106Spi)"
  have run: "fst ?m = Ok None" "ds_indicator (snd ?m)" "ds_identify_until (snd ?m) = Some 3000000005"
    by (simp_all add: display_turn_def display_command_def display_start_def end_identify_def set_indicator_def show_idle_def
        NANOS_PER_SEC_def Let_def)
  then have "?m = (Ok None, snd ?m)" by (metis prod.collapse)
  then have "display_inv (snd ?m)" by (rule display_shows_status)
  with run show ?thesis unfolding Let_def by blast
qed



section \<open>Commands\<close>

text \<open>
  C30. A command that uses a key succeeds only when the key it names exists, shares a domain with
  the session, and both the session and the key carry the capability the policy table asks for.
\<close>

theorem key_use_authorized:
  assumes "execute_inner_result L E fw au q s = (Ok out, s')" "supported_command fw q = Some c"
    "use_policy c = Some (t, cap)"
  shows "\<exists>i rest. fr_data q = be16 i @ rest \<and> may_use au (fst s) (ObjectKey t i) cap"
  using assms by (rule use_authorized)

theorem key_use_authorized_witness:
  "\<exists>out. execute_inner_result sample_lib (sample_env 2) sample_fw sample_authorization
       \<lparr>fr_command = command_code Cmd_WrapData, fr_data = sample_wrap_request\<rparr> (sample_key_device, None)
       = (Ok out, (sample_key_device, None))
   \<and> (\<exists>i rest. fr_data \<lparr>fr_command = command_code Cmd_WrapData, fr_data = sample_wrap_request\<rparr> = be16 i @ rest
        \<and> may_use sample_authorization (fst (sample_key_device, None :: bytes SessionObjects option))
            (ObjectKey Ty_WrapKey i) Cap_WrapData)"
proof -
  obtain out where run: "execute_inner_result sample_lib (sample_env 2) sample_fw sample_authorization
      \<lparr>fr_command = command_code Cmd_WrapData, fr_data = sample_wrap_request\<rparr> (sample_key_device, None)
      = (Ok out, (sample_key_device, None))"
    using sample_wrap_executes by blast
  from key_use_authorized [OF run sample_supported(1)] run show ?thesis by auto
qed



text \<open>
  C32. A listing contains exactly the objects that share a domain with the session and match the
  filters, in the order of their keys.
\<close>

theorem listing_exact:
  assumes "store_wf L d" "decode_request decode_filters data = Ok filters"
  shows "\<exists>infos. list_objects au d data = Ok (concat (map list_entry infos))
    \<and> set infos = {or_info r | k r. bt_get (dv_objects d) k = Some r \<and> can_see au (or_info r)
         \<and> filters_match filters (or_info r)}
    \<and> sorted_wrt (<) (map info_key infos)"
  using assms by (rule list_objects_exact)

theorem listing_exact_witness:
  "\<exists>filters. decode_request decode_filters [1, 2, 0] = Ok filters
    \<and> (\<exists>infos. list_objects sample_authorization sample_key_device [1, 2, 0] = Ok (concat (map list_entry infos))
    \<and> set infos = {or_info r | k r. bt_get (dv_objects sample_key_device) k = Some r
         \<and> can_see sample_authorization (or_info r) \<and> filters_match filters (or_info r)}
    \<and> sorted_wrt (<) (map info_key infos))"
proof -
  obtain filters where "decode_request decode_filters [1, 2, 0] = Ok filters" using sample_filters by blast
  with listing_exact [OF sample_key_store this] show ?thesis by blast
qed



text \<open>
  C34. Import is canonical: bytes that decode to an object are exactly the bytes that object encodes
  to, and the object passes the same validation as a created one.
\<close>

theorem wrapped_object_canonical:
  assumes "decode_wrapped_object L data = Ok r"
  shows "encode_wrapped_object L r = Ok data \<and> record_validate L r = Ok () \<and> info_wf (or_info r)"
  using decode_wrapped_object_Ok [OF assms] by simp

theorem wrapped_object_canonical_witness:
  "\<exists>data. decode_wrapped_object sample_lib data = Ok (wrapped_form sample_aes_key)
    \<and> encode_wrapped_object sample_lib (wrapped_form sample_aes_key) = Ok data
    \<and> record_validate sample_lib (wrapped_form sample_aes_key) = Ok () \<and> info_wf (or_info (wrapped_form sample_aes_key))"
proof -
  obtain data where enc: "encode_wrapped_object sample_lib sample_aes_key = Ok data" using sample_encodes by blast
  have "info_wf (or_info sample_aes_key)" "plain_material (or_material sample_aes_key)"
    by (simp_all add: sample_aes_key_def sample_record_def info_wf_def plain_material_def)
  from wrapped_round_trip [OF sample_cbor this enc]
  have dec: "decode_wrapped_object sample_lib data = Ok (wrapped_form sample_aes_key)" .
  from wrapped_object_canonical [OF dec] dec show ?thesis by blast
qed

text \<open>
  C35. No certificate is issued for a stored key that was not generated on a device, whichever key
  attests.
\<close>

theorem only_generated_keys_attested:
  assumes "t \<noteq> 0" "bt_get (dv_objects d) (ObjectKey Ty_AsymmetricKey t) = Some target"
    "\<not> bit (oi_origin (or_info target)) 0"
  shows "\<not> is_ok (sign_attestation_certificate L E fw au d (be16 t @ be16 a))"
  using attestation_requires_generated [of L E fw au d "be16 t @ be16 a" _ t a] assms by (auto simp: is_ok_iff)

theorem only_generated_keys_attested_witness:
  "\<not> is_ok (sign_attestation_certificate sample_lib (sample_env 2) sample_fw sample_authorization
      (sample_device\<lparr>dv_objects := [(ObjectKey Ty_AsymmetricKey 5,
         sample_record Ty_AsymmetricKey 5 Alg_EcP256 96 (Mat_SigningKey (replicate 32 1)))]\<rparr>) (be16 5 @ be16 0))"
  by (rule only_generated_keys_attested [of 5 _
        "sample_record Ty_AsymmetricKey 5 Alg_EcP256 96 (Mat_SigningKey (replicate 32 1))"])
    (simp_all add: bt_get_def sample_record_def)

text \<open>
  C36. Extraction from a session secret treats the secret as a cyclic string of bits, most significant
  first: bit \<open>j\<close> of the result is bit \<open>offset + j\<close> of the secret, modulo its length.
\<close>

theorem extraction_is_cyclic:
  assumes "base \<noteq> []" "j < 8 * len"
  shows "msb_bit (extract_bytes base off len) j = msb_bit base ((off + j) mod (8 * length base))"
  using assms by (rule extract_bytes_bits)

theorem extraction_is_cyclic_witness:
  "msb_bit (extract_bytes [0x12, 0x34] 4 2) 9 = msb_bit [0x12, 0x34] ((4 + 9) mod (8 * length [0x12, 0x34 :: u8]))"
  by (rule extraction_is_cyclic) simp_all

text \<open>
  C37. A one-time password made by a token whose credential was sealed for the key is accepted, and
  the answer is its use counter, session use and timestamp: the checksum the token appends leaves
  the residue that the device tests for.
\<close>

theorem genuine_otp_accepted:
  assumes "otp_aead_key fw au d i = Ok object" "otp_aead_decrypt L object aead = Ok credential"
    "length aead = 36" "length otp = 16" "length credential = 22"
    "length counter = 2" "length low = 2" "length random = 2"
    "decrypt_aes_ecb L (take 16 credential) otp = Some (otp_token (drop 16 credential) counter low high use random)"
  shows "decrypt_otp L fw au d (be16 i @ aead @ otp) = Ok (counter @ [use, high] @ low)"
  using assms by (rule decrypt_otp_accepts)

theorem genuine_otp_accepted_witness:
  "decrypt_otp sample_lib sample_fw sample_authorization sample_key_device
     (be16 3 @ sample_aead @ otp_token (drop 16 sample_credential) [1, 0] [2, 3] 4 5 [6, 7]) = Ok ([1, 0] @ [5, 4] @ [2, 3])"
proof (rule genuine_otp_accepted [OF sample_lookups(2)])
  show "otp_aead_decrypt sample_lib sample_otp_key sample_aead = Ok sample_credential" by (rule sample_aead_opens)
  show "decrypt_aes_ecb sample_lib (take 16 sample_credential) (otp_token (drop 16 sample_credential) [1, 0] [2, 3] 4 5 [6, 7])
    = Some (otp_token (drop 16 sample_credential) [1, 0] [2, 3] 4 5 [6, 7])"
    by (simp add: sample_lib_def)
qed (simp_all add: sample_aead_def sample_credential_def sample_tag_def otp_token_def crc_trailer_def Let_def)

section \<open>Frames, identifiers and limits\<close>

text \<open>
  C38. The frame parser accepts exactly the encodings of frames of at most the maximal length: no
  shorter, longer or differently encoded input.
\<close>

theorem frame_parse_exact:
  "frame_parse bs = Ok f \<longleftrightarrow> frame_wf f \<and> bs = frame_encode f"
  using frame_parse_encode [of f] frame_parse_wf [of bs f] frame_parse_inverts [of bs f] by auto



lemma find_least:
  "List.find (\<lambda>x. P x) (map f [0..<n]) = (if \<forall>i < n. \<not> P (f i) then None else Some (f (LEAST i. i < n \<and> P (f i))))"
proof (cases "\<forall>i < n. \<not> P (f i)")
  case False
  define m where "m = (LEAST i. i < n \<and> P (f i))"
  have m: "m < n \<and> P (f m)"
    unfolding m_def using False by (intro LeastI_ex [of "\<lambda>i. i < n \<and> P (f i)"]) blast
  have "\<not> P (f j)" if "j < m" for j
    using not_less_Least [OF that [unfolded m_def]] m that by linarith
  then have "List.find (\<lambda>x. P x) (map f [0..<n]) = Some (f m)"
    unfolding find_Some_iff using m by (intro exI [of _ m]) simp
  with False show ?thesis unfolding m_def by (simp only: if_False)
qed (auto simp: find_None_iff)

text \<open>
  A new session gets the smallest free number below sixteen, and creation fails with
  SessionsFull exactly when all sixteen are taken.
\<close>

lemma session_number_allocation:
  "free_session_id d = (if \<exists>n. n < MAX_SESSIONS \<and> \<not> bt_contains (dv_sessions d) (of_nat n)
     then Ok (of_nat (LEAST n. n < MAX_SESSIONS \<and> \<not> bt_contains (dv_sessions d) (of_nat n)))
     else Err SessionsFull)"
  unfolding free_session_id_def
  using find_least [of "\<lambda>sid. \<not> bt_contains (dv_sessions d) sid" of_nat MAX_SESSIONS] by auto



end
